(* ===== verification/Prelude.thy ===== *)
theory Prelude
  imports Complex_Main "HOL-Library.Char_ord" "HOL-Library.List_Lexorder" "HOL-Library.AList"
    "HOL-Library.Sublist"
begin

text \<open>
  The layer every component shares: results with an error branch (Rust's \<open>Result\<close>, errors
  in \<open>Inl\<close>), the string primitives the code uses (\<open>trim\<close>, \<open>strip_prefix\<close>, decimal
  rendering), ordered association lists for \<open>BTreeMap\<close> and for the JSON object map, and the
  checked signed 64-bit integers of the counters. Strings are byte lists: a Rust \<open>str\<close> is its
  UTF-8 bytes, \<open>len\<close> counts bytes and comparison is byte-wise, which is the lexicographic order
  on \<open>string\<close>.
\<close>

named_theorems result_simps \<open>inversion of the result combinators\<close>
named_theorems eval_simps \<open>equations that evaluate the model on concrete inputs\<close>

section \<open>Results\<close>

type_synonym uuid = string

fun and_then :: "'e + 'a \<Rightarrow> ('a \<Rightarrow> 'e + 'b) \<Rightarrow> 'e + 'b" where
  "and_then (Inl e) f = Inl e"
| "and_then (Inr a) f = f a"

definition ensure :: "bool \<Rightarrow> 'e \<Rightarrow> 'e + unit" where
  "ensure b e = (if b then Inr () else Inl e)"

definition ok_or :: "'a option \<Rightarrow> 'e \<Rightarrow> 'e + 'a" where
  "ok_or x e = (case x of None \<Rightarrow> Inl e | Some a \<Rightarrow> Inr a)"

fun fold_result :: "('s \<Rightarrow> 'a \<Rightarrow> 'e + 's) \<Rightarrow> 's \<Rightarrow> 'a list \<Rightarrow> 'e + 's" where
  "fold_result f s [] = Inr s"
| "fold_result f s (x # xs) = and_then (f s x) (\<lambda>s'. fold_result f s' xs)"

lemma and_then_Inr [result_simps]:
  "and_then m f = Inr b \<longleftrightarrow> (\<exists>a. m = Inr a \<and> f a = Inr b)"
  by (cases m) auto

lemma and_then_Inl [result_simps]:
  "and_then m f = Inl e \<longleftrightarrow> m = Inl e \<or> (\<exists>a. m = Inr a \<and> f a = Inl e)"
  by (cases m) auto

lemma ensure_Inr [result_simps]: "ensure b e = Inr u \<longleftrightarrow> b"
  by (simp add: ensure_def)

lemma ensure_Inl [result_simps]: "ensure b e = Inl e' \<longleftrightarrow> \<not> b \<and> e' = e"
  by (auto simp: ensure_def)

lemma ok_or_Inr [result_simps]: "ok_or x e = Inr a \<longleftrightarrow> x = Some a"
  by (simp add: ok_or_def split: option.splits)

lemma ok_or_Inl [result_simps]: "ok_or x e = Inl e' \<longleftrightarrow> x = None \<and> e' = e"
  by (auto simp: ok_or_def split: option.splits)

lemmas [eval_simps] = ensure_def ok_or_def

text \<open>An invariant of a fallible fold: kept by every step that succeeds, it holds of the result.\<close>

lemma fold_result_invariant:
  assumes "fold_result f s xs = Inr t" and "P s"
    and "\<And>s x s'. P s \<Longrightarrow> x \<in> set xs \<Longrightarrow> f s x = Inr s' \<Longrightarrow> P s'"
  shows "P t"
  using assms
proof (induction xs arbitrary: s)
  case Nil
  then show ?case by simp
next
  case (Cons x xs)
  from Cons.prems(1) obtain s' where s': "f s x = Inr s'" "fold_result f s' xs = Inr t"
    by (auto simp: result_simps)
  have "P s'" using Cons.prems(3) [OF Cons.prems(2) _ s'(1)] by simp
  then show ?case by (rule Cons.IH [OF s'(2)]) (use Cons.prems(3) in auto)
qed

section \<open>Signed 64-bit integers\<close>

text \<open>
  \<open>i64\<close> values are kept as \<open>int\<close>; \<open>i64_succ\<close> is the release-profile \<open>+= 1\<close>, which
  wraps at the top of the range (a debug build panics there instead).
\<close>

definition i64_max :: int where
  "i64_max = 9223372036854775807"

definition i64_succ :: "int \<Rightarrow> int" where
  "i64_succ n = (if n = i64_max then - i64_max - 1 else n + 1)"

lemma i64_succ_below [simp]: "n < i64_max \<Longrightarrow> i64_succ n = n + 1"
  by (simp add: i64_succ_def)

lemma i64_succ_wraps: "i64_succ i64_max < 0"
  by (simp add: i64_succ_def i64_max_def)

section \<open>Strings\<close>

definition byte :: "nat \<Rightarrow> char" where
  "byte n = char_of n"

definition is_digit :: "char \<Rightarrow> bool" where
  "is_digit c \<longleftrightarrow> 48 \<le> (of_char c :: nat) \<and> (of_char c :: nat) \<le> 57"

definition digit_value :: "char \<Rightarrow> nat" where
  "digit_value c = of_char c - 48"

definition digit_char :: "nat \<Rightarrow> char" where
  "digit_char d = char_of (48 + d)"

lemma digit_roundtrip [simp]:
  assumes "d < 10"
  shows "is_digit (digit_char d)" and "digit_value (digit_char d) = d"
  using assms by (simp_all add: is_digit_def digit_value_def digit_char_def)

lemma digit_char_inj: "d < 10 \<Longrightarrow> e < 10 \<Longrightarrow> digit_char d = digit_char e \<longleftrightarrow> d = e"
  by (metis digit_roundtrip(2))

text \<open>Rendering of an unsigned integer, \<open>format!("{n}")\<close>, and its reading back.\<close>

fun show_nat :: "nat \<Rightarrow> string" where
  "show_nat n = (if n < 10 then [digit_char n] else show_nat (n div 10) @ [digit_char (n mod 10)])"

declare show_nat.simps [simp del, eval_simps]

definition read_nat :: "string \<Rightarrow> nat" where
  "read_nat s = foldl (\<lambda>n c. 10 * n + digit_value c) 0 s"

lemma read_nat_snoc: "read_nat (s @ [c]) = 10 * read_nat s + digit_value c"
  by (simp add: read_nat_def)

lemma read_show_nat [simp]: "read_nat (show_nat n) = n"
proof (induction n rule: show_nat.induct)
  case (1 n)
  show ?case
  proof (cases "n < 10")
    case True
    then show ?thesis by (subst show_nat.simps) (simp add: read_nat_def)
  next
    case False
    then show ?thesis
      using "1.IH" by (subst show_nat.simps) (simp add: read_nat_snoc)
  qed
qed

lemma show_nat_digits: "list_all is_digit (show_nat n)"
proof (induction n rule: show_nat.induct)
  case (1 n)
  then show ?case by (subst show_nat.simps) simp
qed

lemma show_nat_nonempty [simp]: "show_nat n \<noteq> []"
  by (subst show_nat.simps) simp

lemma show_nat_inj [simp]: "show_nat m = show_nat n \<longleftrightarrow> m = n"
  by (metis read_show_nat)

definition show_int :: "int \<Rightarrow> string" where
  "show_int n = (if n < 0 then CHR ''-'' # show_nat (nat (- n)) else show_nat (nat n))"

text \<open>\<open>str::strip_prefix\<close>.\<close>

fun strip_prefix :: "string \<Rightarrow> string \<Rightarrow> string option" where
  "strip_prefix [] s = Some s"
| "strip_prefix (p # ps) [] = None"
| "strip_prefix (p # ps) (c # cs) = (if p = c then strip_prefix ps cs else None)"

lemma strip_prefix_Some [simp]: "strip_prefix p s = Some t \<longleftrightarrow> s = p @ t"
  by (induction p s rule: strip_prefix.induct) auto

lemma strip_prefix_append [simp]: "strip_prefix p (p @ t) = Some t"
  by simp

definition starts_with :: "string \<Rightarrow> string \<Rightarrow> bool" where
  "starts_with s p \<longleftrightarrow> prefix p s"

text \<open>
  \<open>str::trim\<close> removes the characters with the Unicode property \<open>White_Space\<close> at both ends.
  \<open>ws_len\<close> is the number of bytes of such a character at the head of a UTF-8 string (0 when
  there is none); the end of a string is trimmed by reading the reversed bytes.
\<close>

definition ws_len :: "nat list \<Rightarrow> nat" where
  "ws_len bs = (case bs of
       [] \<Rightarrow> 0
     | a # r \<Rightarrow>
         if a = 32 \<or> (9 \<le> a \<and> a \<le> 13) then 1
         else (case r of
             [] \<Rightarrow> 0
           | b # r' \<Rightarrow>
               if a = 194 \<and> (b = 133 \<or> b = 160) then 2
               else (case r' of
                   [] \<Rightarrow> 0
                 | c # _ \<Rightarrow>
                     if (a = 225 \<and> b = 154 \<and> c = 128) \<or>
                        (a = 226 \<and> b = 128 \<and> ((128 \<le> c \<and> c \<le> 138) \<or> c = 168 \<or> c = 169 \<or> c = 175)) \<or>
                        (a = 226 \<and> b = 129 \<and> c = 159) \<or>
                        (a = 227 \<and> b = 128 \<and> c = 128)
                     then 3 else 0)))"

definition ws_len_rev :: "nat list \<Rightarrow> nat" where
  "ws_len_rev bs =
     (if ws_len (take 1 bs) = 1 then 1
      else if ws_len (rev (take 2 bs)) = 2 then 2
      else if ws_len (rev (take 3 bs)) = 3 then 3 else 0)"

fun trim_with :: "nat \<Rightarrow> (nat list \<Rightarrow> nat) \<Rightarrow> string \<Rightarrow> string" where
  "trim_with 0 w s = s"
| "trim_with (Suc fuel) w s =
     (let k = w (map of_char (take 3 s)) in if k = 0 then s else trim_with fuel w (drop k s))"

definition trim :: "string \<Rightarrow> string" where
  "trim s = (let a = trim_with (length s) ws_len s in rev (trim_with (length a) ws_len_rev (rev a)))"

text \<open>Every step removes at least one byte, so \<open>length s\<close> steps always suffice.\<close>

lemma ws_len_pos_nonempty: "ws_len bs \<noteq> 0 \<Longrightarrow> bs \<noteq> []"
  by (cases bs) (auto simp: ws_len_def)

lemma trim_with_enough:
  assumes "\<And>bs. w bs \<noteq> 0 \<Longrightarrow> bs \<noteq> []" and "length s \<le> fuel"
  shows "w (map of_char (take 3 (trim_with fuel w s))) = 0"
  using assms(2)
proof (induction fuel arbitrary: s)
  case 0
  have "w [] = 0" using assms(1) by blast
  then show ?case using 0 by simp
next
  case (Suc fuel)
  show ?case
  proof (cases "w (map of_char (take 3 s)) = 0")
    case True
    then show ?thesis by (simp add: Let_def)
  next
    case False
    then have "s \<noteq> []" using assms(1) by fastforce
    then have "length (drop (w (map of_char (take 3 s))) s) \<le> fuel"
      using Suc.prems False by (cases s) auto
    then show ?thesis using Suc.IH False by (simp add: Let_def)
  qed
qed

lemma trim_with_length: "length (trim_with fuel w s) \<le> length s"
proof (induction fuel w s rule: trim_with.induct)
  case (2 fuel w s)
  then show ?case by (fastforce simp: Let_def)
qed simp

text \<open>A string whose first and last bytes are printable ASCII is left alone.\<close>

definition graphic :: "char \<Rightarrow> bool" where
  "graphic c \<longleftrightarrow> 33 \<le> (of_char c :: nat) \<and> (of_char c :: nat) \<le> 126"

lemma ws_len_graphic: "33 \<le> a \<Longrightarrow> a \<le> 126 \<Longrightarrow> ws_len (a # r) = 0"
  by (auto simp: ws_len_def split: list.splits)

lemma ws_len_second_graphic: "33 \<le> b \<Longrightarrow> b \<le> 126 \<Longrightarrow> ws_len [a, b] \<noteq> 2"
  by (auto simp: ws_len_def)

lemma ws_len_third_graphic: "33 \<le> c \<Longrightarrow> c \<le> 126 \<Longrightarrow> ws_len [a, b, c] \<noteq> 3"
  by (auto simp: ws_len_def)

lemma ws_len_rev_graphic:
  assumes "33 \<le> c" "c \<le> 126"
  shows "ws_len_rev (c # r) = 0"
proof (cases r)
  case Nil
  then show ?thesis using assms by (simp add: ws_len_rev_def ws_len_graphic)
next
  case (Cons b r')
  show ?thesis
  proof (cases r')
    case Nil
    then show ?thesis
      using assms Cons ws_len_second_graphic [of c b]
      by (simp add: ws_len_rev_def ws_len_graphic) (auto simp: ws_len_def)
  next
    case (Cons a r'')
    then show ?thesis
      using assms \<open>r = b # r'\<close> ws_len_second_graphic [of c b] ws_len_third_graphic [of c a b]
      by (simp add: ws_len_rev_def ws_len_graphic)
  qed
qed

lemma trim_graphic:
  assumes "s \<noteq> []" "graphic (hd s)" "graphic (last s)"
  shows "trim s = s"
proof -
  have h: "trim_with n ws_len s = s" for n
    using assms by (cases n; cases s) (simp_all add: ws_len_graphic graphic_def)
  obtain c r where rs: "rev s = c # r" using assms(1) by (metis list.exhaust rev_is_Nil_conv)
  then have c: "c = last s" by (metis hd_rev list.sel(1))
  have t: "trim_with n ws_len_rev (rev s) = rev s" for n
    using assms c unfolding rs
    by (cases n) (simp_all add: ws_len_rev_graphic graphic_def)
  show ?thesis using h t by (simp add: trim_def Let_def)
qed

lemma trim_Nil [simp]: "trim [] = []"
  by (simp add: trim_def)

text \<open>\<open>eq_ignore_ascii_case\<close>.\<close>

definition to_ascii_lower :: "char \<Rightarrow> char" where
  "to_ascii_lower c = (let n = (of_char c :: nat) in if 65 \<le> n \<and> n \<le> 90 then char_of (n + 32) else c)"

definition eq_ignore_ascii_case :: "string \<Rightarrow> string \<Rightarrow> bool" where
  "eq_ignore_ascii_case a b \<longleftrightarrow> map to_ascii_lower a = map to_ascii_lower b"

section \<open>Ordered maps\<close>

text \<open>
  \<open>BTreeMap\<close> and the JSON object map keep their keys sorted; they are association lists in key
  order, read with \<open>map_of\<close>.
\<close>

fun bt_insert :: "'k::linorder \<Rightarrow> 'v \<Rightarrow> ('k \<times> 'v) list \<Rightarrow> ('k \<times> 'v) list" where
  "bt_insert k v [] = [(k, v)]"
| "bt_insert k v ((a, b) # m) =
     (if k < a then (k, v) # (a, b) # m
      else if k = a then (k, v) # m
      else (a, b) # bt_insert k v m)"

definition bt_remove :: "'k \<Rightarrow> ('k \<times> 'v) list \<Rightarrow> ('k \<times> 'v) list" where
  "bt_remove k m = filter (\<lambda>p. fst p \<noteq> k) m"

lemma bt_insert_get [simp]: "map_of (bt_insert k v m) = (map_of m)(k \<mapsto> v)"
  by (induction k v m rule: bt_insert.induct) auto

lemma bt_insert_keys: "set (map fst (bt_insert k v m)) = insert k (set (map fst m))"
  by (induction k v m rule: bt_insert.induct) auto

lemma bt_insert_sorted:
  "sorted_wrt (<) (map fst m) \<Longrightarrow> sorted_wrt (<) (map fst (bt_insert k v m))"
proof (induction k v m rule: bt_insert.induct)
  case (2 k v a b m)
  then show ?case using bt_insert_keys [of k v m] by auto
qed simp

lemma bt_remove_get [simp]: "map_of (bt_remove k m) = (map_of m)(k := None)"
  by (induction m) (auto simp: bt_remove_def)

lemma bt_remove_sorted:
  "sorted_wrt (<) (map fst m) \<Longrightarrow> sorted_wrt (<) (map fst (bt_remove k m))"
  by (induction m) (auto simp: bt_remove_def)

declare bt_insert.simps [simp del, eval_simps]
declare bt_remove_def [eval_simps]

section \<open>Lists\<close>

text \<open>\<open>sort\<close> followed by \<open>dedup\<close>.\<close>

definition sort_dedup :: "'a::linorder list \<Rightarrow> 'a list" where
  "sort_dedup xs = remdups_adj (sort xs)"

lemma set_sort_dedup [simp]: "set (sort_dedup xs) = set xs"
  by (simp add: sort_dedup_def)

lemma set_enumerate_snd: "(i, x) \<in> set (enumerate n xs) \<Longrightarrow> x \<in> set xs"
  by (metis in_set_zip enumerate_eq_zip snd_conv nth_mem)

end
