(* ===== verification/F64.thy ===== *)
theory F64
  imports Prelude "HOL-Library.Log_Nat"
begin

text \<open>
  IEEE 754 binary64, the \<open>f64\<close> every amount, quantity and rate of the code is kept in. A finite
  number is the rational it denotes; each operation computes the exact result and rounds it to the
  nearest representable number, ties to even, overflowing to an infinity. Comparisons are false on
  NaN. The two zeros are one value: the code never divides by zero (each division sits behind a
  test of its divisor), so the sign of a zero shows only in printed text.

  The lemmas give what the ledger proofs need of the arithmetic: rounding is odd and monotone,
  a representable number is its own rounding, integers up to \<open>2^53\<close> are representable (so whole
  quantities and amounts are added exactly), negation is exact, and \<open>x - x\<close> is never positive
  (which is what ends the FIFO loop).
\<close>

datatype f64 = NaN | PInf | NInf | Fin rat

section \<open>Rounding\<close>

definition pow2 :: "int \<Rightarrow> rat" where
  "pow2 e = (if 0 \<le> e then 2 ^ nat e else 1 / 2 ^ nat (- e))"

definition expo :: "rat \<Rightarrow> int" where
  "expo x = (let (p, q) = quotient_of \<bar>x\<bar>; e = bitlen p - bitlen q in
     if pow2 e \<le> \<bar>x\<bar> then e else e - 1)"

definition half_even :: "rat \<Rightarrow> int" where
  "half_even x = (let f = \<lfloor>x\<rfloor>; d = x - of_int f in
     if d < 1 / 2 then f else if d > 1 / 2 then f + 1 else if even f then f else f + 1)"

definition ulp_expo :: "rat \<Rightarrow> int" where
  "ulp_expo x = max (expo x - 52) (- 1074)"

definition round_value :: "rat \<Rightarrow> rat" where
  "round_value x = (if x = 0 then 0 else of_int (half_even (x / pow2 (ulp_expo x))) * pow2 (ulp_expo x))"

definition rnd :: "rat \<Rightarrow> f64" where
  "rnd x = (let y = round_value x in
     if y \<ge> 2 ^ 1024 then PInf else if y \<le> - (2 ^ 1024) then NInf else Fin y)"

section \<open>Operations\<close>

fun is_finite :: "f64 \<Rightarrow> bool" where
  "is_finite (Fin _) = True"
| "is_finite _ = False"

definition inf_of :: "bool \<Rightarrow> f64" where
  "inf_of negative = (if negative then NInf else PInf)"

fun negative :: "f64 \<Rightarrow> bool" where
  "negative (Fin x) = (x < 0)"
| "negative NInf = True"
| "negative _ = False"

instantiation f64 :: "{zero, one, uminus, plus, minus, times, inverse, abs, ord}"
begin

definition zero_f64 :: f64 where "0 = Fin 0"

definition one_f64 :: f64 where "1 = Fin 1"

fun uminus_f64 :: "f64 \<Rightarrow> f64" where
  "- NaN = NaN"
| "- PInf = NInf"
| "- NInf = PInf"
| "- (Fin x) = Fin (- x)"

fun plus_f64 :: "f64 \<Rightarrow> f64 \<Rightarrow> f64" where
  "Fin x + Fin y = rnd (x + y)"
| "PInf + PInf = PInf"
| "NInf + NInf = NInf"
| "PInf + Fin _ = PInf"
| "NInf + Fin _ = NInf"
| "Fin _ + PInf = PInf"
| "Fin _ + NInf = NInf"
| "_ + _ = NaN"

definition minus_f64 :: "f64 \<Rightarrow> f64 \<Rightarrow> f64" where
  "x - y = x + (- y)" for x y :: f64

definition times_f64 :: "f64 \<Rightarrow> f64 \<Rightarrow> f64" where
  "x * y = (case (x, y) of
       (Fin a, Fin b) \<Rightarrow> rnd (a * b)
     | (NaN, _) \<Rightarrow> NaN
     | (_, NaN) \<Rightarrow> NaN
     | _ \<Rightarrow> if x = Fin 0 \<or> y = Fin 0 then NaN else inf_of (negative x \<noteq> negative y))" for x y :: f64

text \<open>Division by the merged zero is not used by the code; it is NaN here.\<close>

definition divide_f64 :: "f64 \<Rightarrow> f64 \<Rightarrow> f64" where
  "x div y = (case (x, y) of
       (Fin a, Fin b) \<Rightarrow> if b = 0 then NaN else rnd (a / b)
     | (NaN, _) \<Rightarrow> NaN
     | (_, NaN) \<Rightarrow> NaN
     | (Fin _, _) \<Rightarrow> Fin 0
     | (_, Fin b) \<Rightarrow> if b = 0 then NaN else inf_of (negative x \<noteq> negative y)
     | _ \<Rightarrow> NaN)" for x y :: f64

definition inverse_f64 :: "f64 \<Rightarrow> f64" where
  "inverse x = Fin 1 div x" for x :: f64

definition abs_f64 :: "f64 \<Rightarrow> f64" where
  "\<bar>x\<bar> = (case x of Fin a \<Rightarrow> Fin \<bar>a\<bar> | NInf \<Rightarrow> PInf | y \<Rightarrow> y)" for x :: f64

fun less_f64 :: "f64 \<Rightarrow> f64 \<Rightarrow> bool" where
  "Fin x < Fin y \<longleftrightarrow> x < y"
| "Fin _ < PInf \<longleftrightarrow> True"
| "NInf < Fin _ \<longleftrightarrow> True"
| "NInf < PInf \<longleftrightarrow> True"
| "(_ :: f64) < _ \<longleftrightarrow> False"

definition less_eq_f64 :: "f64 \<Rightarrow> f64 \<Rightarrow> bool" where
  "x \<le> y \<longleftrightarrow> x < y \<or> (x = y \<and> x \<noteq> NaN)" for x y :: f64

instance ..

end

text \<open>\<open>==\<close> and \<open>!=\<close> on \<open>f64\<close>: NaN is equal to nothing.\<close>

definition feq :: "f64 \<Rightarrow> f64 \<Rightarrow> bool" where
  "feq x y \<longleftrightarrow> x = y \<and> x \<noteq> NaN"

text \<open>\<open>f64::min\<close> and \<open>f64::max\<close> ignore a NaN argument.\<close>

definition fmin :: "f64 \<Rightarrow> f64 \<Rightarrow> f64" where
  "fmin x y = (if x = NaN then y else if y = NaN then x else if x < y then x else y)"

definition fmax :: "f64 \<Rightarrow> f64 \<Rightarrow> f64" where
  "fmax x y = (if x = NaN then y else if y = NaN then x else if x < y then y else x)"

text \<open>\<open>f64::round\<close>: to the nearest integer, halves away from zero.\<close>

definition half_away :: "rat \<Rightarrow> int" where
  "half_away x = (if 0 \<le> x then \<lfloor>x + 1 / 2\<rfloor> else - \<lfloor>1 / 2 - x\<rfloor>)"

fun fround :: "f64 \<Rightarrow> f64" where
  "fround (Fin x) = rnd (of_int (half_away x))"
| "fround y = y"

text \<open>\<open>Iterator::sum\<close>: a left fold from zero.\<close>

definition fsum :: "f64 list \<Rightarrow> f64" where
  "fsum xs = foldl (+) 0 xs"

text \<open>A literal or a conversion of an integer: the nearest representable number.\<close>

abbreviation lit :: "rat \<Rightarrow> f64" where
  "lit x \<equiv> rnd x"

section \<open>Powers of two and exponents\<close>

lemma pow2_pos [simp]: "0 < pow2 e"
  by (simp add: pow2_def)

lemma pow2_nonneg [simp]: "0 \<le> pow2 e"
  by (simp add: less_imp_le)

lemma abs_pow2 [simp]: "\<bar>pow2 e\<bar> = pow2 e"
  by simp

lemma pow2_nonzero [simp]: "pow2 e \<noteq> 0"
  using pow2_pos [of e] by linarith

lemma pow2_powi: "pow2 e = 2 powi e"
  by (simp add: pow2_def power_int_def field_simps)

lemma pow2_add: "pow2 (a + b) = pow2 a * pow2 b"
  by (simp add: pow2_powi power_int_add)

lemma pow2_succ: "pow2 (e + 1) = 2 * pow2 e"
  by (simp add: pow2_powi power_int_add)

lemma pow2_mono: "a \<le> b \<Longrightarrow> pow2 a \<le> pow2 b"
  by (simp add: pow2_powi power_int_increasing)

lemma pow2_strict_mono: "a < b \<Longrightarrow> pow2 a < pow2 b"
  by (simp add: pow2_powi power_int_strict_increasing)

lemma pow2_less_iff [simp]: "pow2 a < pow2 b \<longleftrightarrow> a < b"
  using pow2_mono [of b a] pow2_strict_mono [of a b] by (auto simp: not_le [symmetric])

lemma pow2_diff: "pow2 a / pow2 b = pow2 (a - b)"
  using pow2_add [of "a - b" b] by (simp add: field_simps)

lemma pow2_nat [simp]: "pow2 (int n) = 2 ^ n"
  by (simp add: pow2_def)


lemma pow2_int: "0 \<le> e \<Longrightarrow> pow2 e = of_int (2 ^ nat e)"
  by (simp add: pow2_def)

lemma bitlen_rat:
  assumes "0 < (p::int)"
  shows "pow2 (bitlen p - 1) \<le> of_int p" and "of_int p < pow2 (bitlen p)"
proof -
  have b: "1 \<le> bitlen p" using assms by (metis bitlen_eq_zero_iff bitlen_nonneg le_less not_le zless_imp_add1_zle add_0)
  have "2 ^ nat (bitlen p - 1) \<le> p" "p < 2 ^ nat (bitlen p)" using bitlen_bounds [OF assms] by auto
  then have "(of_int (2 ^ nat (bitlen p - 1)) :: rat) \<le> of_int p" "(of_int p :: rat) < of_int (2 ^ nat (bitlen p))"
    by (simp_all only: of_int_le_iff of_int_less_iff)
  then show "pow2 (bitlen p - 1) \<le> of_int p" "of_int p < pow2 (bitlen p)"
    using b by (simp_all add: pow2_int)
qed

lemma expo_bounds:
  assumes "x \<noteq> 0"
  shows "pow2 (expo x) \<le> \<bar>x\<bar>" and "\<bar>x\<bar> < pow2 (expo x + 1)"
proof -
  obtain p q where pq: "quotient_of \<bar>x\<bar> = (p, q)" by (cases "quotient_of \<bar>x\<bar>")
  have q: "0 < q" using quotient_of_denom_pos [OF pq] .
  have xe: "\<bar>x\<bar> = of_int p / of_int q" using quotient_of_div [OF pq] .
  have p: "0 < p" using assms q unfolding xe [symmetric]
    by (metis abs_of_nonneg of_int_0_less_iff pq quotient_of_div zero_less_abs_iff zero_less_divide_iff less_asym)
  define e where "e = bitlen p - bitlen q"
  have "of_int p / of_int q < pow2 (bitlen p) / pow2 (bitlen q - 1)"
    using bitlen_rat [OF p] bitlen_rat [OF q] p q pow2_pos by (intro frac_less) auto
  then have up: "\<bar>x\<bar> < pow2 (e + 1)" by (simp add: xe pow2_diff e_def algebra_simps)
  have "pow2 (bitlen p - 1) / pow2 (bitlen q) \<le> of_int p / of_int q"
    using bitlen_rat [OF p] bitlen_rat [OF q] p q by (intro frac_le) (auto intro: less_imp_le)
  then have lo: "pow2 (e - 1) \<le> \<bar>x\<bar>" by (simp add: xe pow2_diff e_def algebra_simps)
  have ex: "expo x = (if pow2 e \<le> \<bar>x\<bar> then e else e - 1)" by (simp add: expo_def pq e_def)
  show "pow2 (expo x) \<le> \<bar>x\<bar>" using lo by (simp add: ex)
  show "\<bar>x\<bar> < pow2 (expo x + 1)" using up by (auto simp: ex)
qed

lemma expo_unique:
  assumes "pow2 e \<le> \<bar>x\<bar>" "\<bar>x\<bar> < pow2 (e + 1)"
  shows "expo x = e"
proof -
  have x: "x \<noteq> 0" using assms(1) pow2_pos [of e] by (auto simp: not_le [symmetric])
  have "pow2 e < pow2 (expo x + 1)" "pow2 (expo x) < pow2 (e + 1)"
    using assms expo_bounds [OF x] by linarith+
  then show ?thesis by simp
qed

lemma expo_minus [simp]: "expo (- x) = expo x"
  by (simp add: expo_def)

lemma expo_mono:
  assumes "x \<noteq> 0" "\<bar>x\<bar> \<le> \<bar>y\<bar>"
  shows "expo x \<le> expo y"
proof -
  have "y \<noteq> 0" using assms by auto
  then have "pow2 (expo x) < pow2 (expo y + 1)"
    using assms expo_bounds [of x] expo_bounds [of y] by linarith
  then show ?thesis by simp
qed

lemma ulp_expo_minus [simp]: "ulp_expo (- x) = ulp_expo x"
  by (simp add: ulp_expo_def)

section \<open>Properties of rounding\<close>

lemma half_even_of_int [simp]: "half_even (of_int n) = n"
  by (simp add: half_even_def)

lemma half_even_bound: "\<bar>of_int (half_even x) - x\<bar> \<le> 1 / 2"
proof -
  define f :: rat where "f = of_int \<lfloor>x\<rfloor>"
  have f: "f \<le> x" "x < f + 1" using floor_correct [of x] by (simp_all add: f_def)
  have h: "of_int (half_even x) = (if x - f < 1 / 2 then f else if x - f > 1 / 2 then f + 1
      else if even \<lfloor>x\<rfloor> then f else f + 1)"
    by (simp add: half_even_def Let_def f_def)
  show ?thesis using f unfolding h abs_le_iff by (simp add: field_simps)
qed

lemma half_even_minus: "half_even (- x) = - half_even x"
proof (cases "x \<in> \<int>")
  case True
  then obtain n where "x = of_int n" by (auto elim: Ints_cases)
  then show ?thesis by (metis half_even_of_int of_int_minus)
next
  case False
  have f: "\<lfloor>- x\<rfloor> = - \<lfloor>x\<rfloor> - 1"
    using False by (simp add: floor_minus ceiling_altdef) (metis Ints_of_int)
  show ?thesis unfolding half_even_def Let_def f by (auto simp: field_simps)
qed

lemma half_even_mono: "x \<le> y \<Longrightarrow> half_even x \<le> half_even y"
proof -
  assume xy: "x \<le> y"
  show ?thesis
  proof (cases "\<lfloor>x\<rfloor> = \<lfloor>y\<rfloor>")
    case True
    then show ?thesis using xy unfolding half_even_def Let_def by auto
  next
    case False
    then have "\<lfloor>x\<rfloor> + 1 \<le> \<lfloor>y\<rfloor>" using xy floor_mono [OF xy] by linarith
    moreover have "half_even x \<le> \<lfloor>x\<rfloor> + 1" "\<lfloor>y\<rfloor> \<le> half_even y"
      unfolding half_even_def Let_def by auto
    ultimately show ?thesis by linarith
  qed
qed

lemma round_value_minus: "round_value (- x) = - round_value x"
  by (simp add: round_value_def half_even_minus)

lemma rnd_minus: "rnd (- x) = - rnd x"
proof -
  have "(0::rat) < 2 ^ 1024" by simp
  then show ?thesis unfolding rnd_def Let_def round_value_minus by auto
qed

lemma round_value_nonneg: "0 \<le> x \<Longrightarrow> 0 \<le> round_value x"
  using half_even_mono [of 0 "x / pow2 (ulp_expo x)"] half_even_of_int [of 0]
  by (simp add: round_value_def)

text \<open>Rounding on a fixed grid: monotone, and exact on the grid's points.\<close>

definition grid :: "int \<Rightarrow> rat \<Rightarrow> rat" where
  "grid u x = of_int (half_even (x / pow2 u)) * pow2 u"

lemma round_value_grid: "x \<noteq> 0 \<Longrightarrow> round_value x = grid (ulp_expo x) x"
  by (simp add: round_value_def grid_def)

lemma grid_mono: "x \<le> y \<Longrightarrow> grid u x \<le> grid u y"
  unfolding grid_def
  by (intro mult_right_mono of_int_le_iff [THEN iffD2] half_even_mono divide_right_mono)
    (auto intro: less_imp_le)

lemma grid_exact: "u \<le> e \<Longrightarrow> grid u (of_int m * pow2 e) = of_int m * pow2 e"
proof -
  assume "u \<le> e"
  then have "pow2 e / pow2 u = of_int (2 ^ nat (e - u))" by (simp add: pow2_diff pow2_int)
  then have "of_int m * pow2 e / pow2 u = of_int (m * 2 ^ nat (e - u))"
    by (simp only: times_divide_eq_right [symmetric] of_int_mult)
  then show ?thesis unfolding grid_def by (metis half_even_of_int nonzero_eq_divide_eq pow2_nonzero)
qed

lemma grid_pow2: "u \<le> e \<Longrightarrow> grid u (pow2 e) = pow2 e"
  using grid_exact [of u e 1] by simp

lemma round_value_mono_pos:
  assumes "0 < x" "x \<le> y"
  shows "round_value x \<le> round_value y"
proof (cases "ulp_expo x = ulp_expo y")
  case True
  then show ?thesis using assms grid_mono [of x y] by (simp add: round_value_grid)
next
  case False
  have "expo x \<le> expo y" using assms by (intro expo_mono) auto
  then have u: "ulp_expo x < ulp_expo y" "ulp_expo y = expo y - 52" "expo x + 1 \<le> expo y"
    using False by (auto simp: ulp_expo_def max_def split: if_splits)
  have "x \<le> pow2 (expo y)"
    using expo_bounds(2) [of x] pow2_mono [OF u(3)] assms by auto
  then have "grid (ulp_expo x) x \<le> pow2 (expo y)"
    using grid_mono [of x "pow2 (expo y)" "ulp_expo x"] grid_pow2 [of "ulp_expo x" "expo y"] u by simp
  also have "pow2 (expo y) \<le> grid (ulp_expo y) y"
    using grid_mono [of "pow2 (expo y)" y "ulp_expo y"] grid_pow2 [of "ulp_expo y" "expo y"] u
      expo_bounds(1) [of y] assms by simp
  finally show ?thesis using assms by (simp add: round_value_grid)
qed

lemma round_value_mono: "x \<le> y \<Longrightarrow> round_value x \<le> round_value y"
proof -
  assume xy: "x \<le> y"
  consider "0 < x" | "y < 0" | "x \<le> 0" "0 \<le> y" by linarith
  then show ?thesis
  proof cases
    case 1
    then show ?thesis using xy by (rule round_value_mono_pos)
  next
    case 2
    then have "round_value (- y) \<le> round_value (- x)" using xy by (intro round_value_mono_pos) auto
    then show ?thesis by (simp add: round_value_minus)
  next
    case 3
    then have "0 \<le> round_value (- x)" "0 \<le> round_value y" using round_value_nonneg by simp_all
    then show ?thesis by (simp add: round_value_minus)
  qed
qed

text \<open>The representable numbers: \<open>m \<times> 2^e\<close> with at most 53 bits of mantissa.\<close>

definition representable :: "rat \<Rightarrow> bool" where
  "representable x \<longleftrightarrow> round_value x = x \<and> \<bar>x\<bar> < 2 ^ 1024"

lemma round_value_dyadic_strict:
  assumes "\<bar>m\<bar> < 2 ^ 53" "- 1074 \<le> e"
  shows "round_value (of_int m * pow2 e) = of_int m * pow2 e"
proof (cases "m = 0")
  case False
  define x where "x = of_int m * pow2 e"
  have x: "x \<noteq> 0" using False by (simp add: x_def)
  have "\<bar>x\<bar> = of_int \<bar>m\<bar> * pow2 e" by (simp add: x_def abs_mult)
  also have "\<dots> < of_int (2 ^ 53) * pow2 e"
    using assms(1) by (intro mult_strict_right_mono) (simp_all only: of_int_less_iff pow2_pos)
  also have "\<dots> = pow2 (e + 53)" using pow2_add [of e 53] by (simp add: pow2_def)
  finally have "pow2 (expo x) < pow2 (e + 53)" using expo_bounds(1) [OF x] by linarith
  then have "ulp_expo x \<le> e" using assms(2) by (simp add: ulp_expo_def)
  then show ?thesis using x grid_exact [of _ e m] by (simp add: round_value_grid x_def)
qed (simp add: round_value_def)

lemma round_value_dyadic:
  assumes "\<bar>m\<bar> \<le> 2 ^ 53" "- 1074 \<le> e"
  shows "round_value (of_int m * pow2 e) = of_int m * pow2 e"
proof (cases "\<bar>m\<bar> < 2 ^ 53")
  case True
  then show ?thesis using assms(2) by (rule round_value_dyadic_strict)
next
  case False
  then obtain k :: int where k: "m = 2 * k" "\<bar>k\<bar> < 2 ^ 53"
    using assms(1) that [of "2 ^ 52"] that [of "- (2 ^ 52)"] by (cases "0 \<le> m") auto
  have "of_int m * pow2 e = of_int k * pow2 (e + 1)" by (simp add: k pow2_succ)
  then show ?thesis using round_value_dyadic_strict [OF k(2), of "e + 1"] assms(2) by simp
qed

lemma rnd_int:
  assumes "\<bar>n\<bar> \<le> 2 ^ 53"
  shows "rnd (of_int n) = Fin (of_int n)"
proof -
  have r: "round_value (of_int n) = of_int n" using round_value_dyadic [OF assms, of 0] by (simp add: pow2_def)
  have "\<bar>of_int n :: rat\<bar> \<le> of_int (2 ^ 53)" using assms by (metis of_int_abs of_int_le_iff)
  also have "\<dots> < 2 ^ 1024" by simp
  finally show ?thesis using r by (auto simp: rnd_def abs_less_iff)
qed

lemma round_value_idem [simp]: "round_value (round_value x) = round_value x"
proof (cases "x = 0")
  case False
  define u where "u = ulp_expo x"
  have "expo x + 1 \<le> u + 53" by (simp add: u_def ulp_expo_def)
  then have "\<bar>x\<bar> < pow2 (u + 53)" using expo_bounds(2) [OF False] pow2_mono by fastforce
  then have "\<bar>x / pow2 u\<bar> \<le> of_int (2 ^ 53)"
    using pow2_add [of u 53] by (simp add: abs_divide field_simps pow2_def [of 53])
  then have "x / pow2 u \<le> of_int (2 ^ 53)" "of_int (- (2 ^ 53)) \<le> x / pow2 u"
    unfolding of_int_minus by linarith+
  then have "half_even (x / pow2 u) \<le> 2 ^ 53" "- (2 ^ 53) \<le> half_even (x / pow2 u)"
    by (metis half_even_mono half_even_of_int)+
  then have m: "\<bar>half_even (x / pow2 u)\<bar> \<le> 2 ^ 53" by linarith
  have e: "- 1074 \<le> u" by (simp add: u_def ulp_expo_def)
  have "round_value x = of_int (half_even (x / pow2 u)) * pow2 u"
    using False by (simp add: round_value_def u_def)
  then show ?thesis using round_value_dyadic [OF m e] by simp
qed (simp add: round_value_def)

lemma rnd_Fin: "rnd x = Fin y \<Longrightarrow> representable y"
  by (auto simp: rnd_def Let_def representable_def abs_less_iff split: if_splits)

lemma rnd_representable: "representable x \<Longrightarrow> rnd x = Fin x"
  by (auto simp: rnd_def representable_def abs_less_iff)

section \<open>Values the operations produce\<close>

fun wf64 :: "f64 \<Rightarrow> bool" where
  "wf64 (Fin x) = representable x"
| "wf64 _ = True"

lemma wf64_rnd [simp]: "wf64 (rnd x)"
  by (cases "rnd x") (auto dest: rnd_Fin)

lemma rnd_0 [simp]: "rnd 0 = Fin 0"
  using rnd_int [of 0] by simp

lemma rnd_1 [simp]: "rnd 1 = Fin 1"
  using rnd_int [of 1] by simp

lemma rnd_numeral [simp]:
  "(numeral n :: int) \<le> 9007199254740992 \<Longrightarrow> rnd (numeral n) = Fin (numeral n)"
  using rnd_int [of "numeral n"] by simp

lemma rnd_neg_numeral [simp]:
  "(numeral n :: int) \<le> 9007199254740992 \<Longrightarrow> rnd (- numeral n) = Fin (- numeral n)"
  by (simp add: rnd_minus)

lemma rnd_neg_1 [simp]: "rnd (- 1) = Fin (- 1)"
  by (simp add: rnd_minus)

lemma fneg_fneg [simp]: "- (- x) = x" for x :: f64
  by (cases x) auto

lemma wf64_neg [simp]: "wf64 (- x) = wf64 x"
  by (cases x) (auto simp: representable_def round_value_minus)

lemma fneg_add: "- (x + y) = - x + - y" for x y :: f64
  by (cases x; cases y) (simp_all add: rnd_minus [symmetric])

lemma fadd_commute: "x + y = y + x" for x y :: f64
  by (cases x; cases y) (simp_all add: add.commute)

lemma fadd_zero: "wf64 x \<Longrightarrow> x + 0 = x" "wf64 x \<Longrightarrow> 0 + x = x" for x :: f64
  by (cases x; simp add: zero_f64_def rnd_representable)+

lemma fsub_self: "x - x = (if is_finite x then 0 else NaN)" for x :: f64
  by (cases x) (simp_all add: minus_f64_def zero_f64_def)

lemma fsub_self_not_pos [simp]: "\<not> (0 :: f64) < x - x"
  by (simp add: fsub_self zero_f64_def)

lemma fneg_cancel: "is_finite x \<Longrightarrow> x + - x = 0" for x :: f64
  using fsub_self [of x] by (simp add: minus_f64_def)

lemma fabs_neg [simp]: "\<bar>- x\<bar> = \<bar>x\<bar>" for x :: f64
  by (cases x) (simp_all add: abs_f64_def)

lemma fsub_swap: "x - y = - (y - x)" for x y :: f64
  by (simp add: minus_f64_def fneg_add fadd_commute)

lemma fabs_sub_swap: "\<bar>x - y\<bar> = \<bar>y - x\<bar>" for x y :: f64
  by (metis fabs_neg fsub_swap)

lemma fsum_neg: "fsum (map uminus xs) = - fsum xs"
proof -
  have "foldl (+) (- a) (map uminus xs) = - foldl (+) a xs" for a
    by (induction xs arbitrary: a) (simp_all add: fneg_add [symmetric])
  from this [of 0] show ?thesis by (simp add: fsum_def zero_f64_def)
qed

lemma fsum_Nil [simp]: "fsum [] = 0"
  by (simp add: fsum_def)

lemma rnd_mono:
  assumes "x \<le> y"
  shows "rnd x \<le> rnd y"
  using round_value_mono [OF assms] by (auto simp: rnd_def Let_def less_eq_f64_def)

lemma rnd_nonneg: "0 \<le> x \<Longrightarrow> 0 \<le> rnd x"
  using rnd_mono [of 0 x] by (simp add: zero_f64_def)

lemma NaN_less [simp]: "\<not> NaN < x" "\<not> x < NaN"
  by (cases x; simp)+

lemma NaN_le [simp]: "\<not> NaN \<le> x" "\<not> x \<le> NaN"
  by (simp_all add: less_eq_f64_def)

lemma fle_refl [simp]: "x \<le> x \<longleftrightarrow> x \<noteq> NaN" for x :: f64
  by (cases x) (simp_all add: less_eq_f64_def)

lemma fless_irrefl [simp]: "\<not> x < x" for x :: f64
  by (cases x) simp_all

lemma fle_trans: "x \<le> y \<Longrightarrow> y \<le> z \<Longrightarrow> x \<le> z" for x y z :: f64
  by (cases x; cases y; cases z) (auto simp: less_eq_f64_def)

lemma fle_Fin [simp]: "Fin x \<le> Fin y \<longleftrightarrow> x \<le> y"
  by (auto simp: less_eq_f64_def)

lemma fmin_le2: "y \<noteq> NaN \<Longrightarrow> fmin x y \<le> y"
  by (cases x; cases y) (auto simp: fmin_def less_eq_f64_def)

text \<open>Bounds of a literal between two representable numbers, for comparisons with a tolerance.\<close>

lemma lit_between:
  assumes "Fin a \<le> rnd x" "rnd x \<le> Fin b"
  obtains y where "rnd x = Fin y" "a \<le> y" "y \<le> b"
  using assms by (cases "rnd x") (auto simp: less_eq_f64_def)

lemmas f64_eval = zero_f64_def one_f64_def minus_f64_def times_f64_def divide_f64_def abs_f64_def
  feq_def fmin_def fmax_def fsum_def less_eq_f64_def half_away_def

declare f64_eval [eval_simps]

end
