(* ===== verification/Json.thy ===== *)
theory Json
  imports F64
begin

text \<open>
  The JSON values of the payloads (\<open>serde_json::Value\<close>, \<open>Map\<close>, \<open>Number\<close>) as the data
  type its documentation describes, with the accessors the code calls, the number parsers of the
  standard library (\<open>str::parse\<close> at \<open>f64\<close>, \<open>i64\<close> and \<open>u32\<close>) and the value coercions of
  \<^verbatim>\<open>src/src/posting/values.rs\<close>. An object is an association list in key order, which is how
  \<open>serde_json\<close>'s default \<open>BTreeMap\<close>-backed map holds it.

  The library code the sources only call is a parameter of the model, the record \<open>ext\<close>: reading
  and printing JSON text (\<open>serde_json::from_str\<close>, \<open>to_string\<close>/\<open>to_vec\<close>), whether a year, month
  and day are a calendar date (\<open>chrono::NaiveDate::from_ymd_opt\<close>), SHA-256 and hex encoding.
\<close>

datatype jnum = JInt int | JFloat f64

datatype json =
    JNull
  | JBool bool
  | JNum jnum
  | JStr string
  | JArr "json list"
  | JObj "(string \<times> json) list"

type_synonym jmap = "(string \<times> json) list"

record ext =
  ext_from_str :: "string \<Rightarrow> json option"
  ext_to_string :: "json \<Rightarrow> string"
  ext_from_ymd :: "nat \<Rightarrow> nat \<Rightarrow> nat \<Rightarrow> bool"
  ext_sha256 :: "string \<Rightarrow> string"
  ext_hex :: "string \<Rightarrow> string"

section \<open>Accessors\<close>

definition obj_get :: "jmap \<Rightarrow> string \<Rightarrow> json option" where
  "obj_get m k = map_of m k"

definition obj_insert :: "string \<Rightarrow> json \<Rightarrow> jmap \<Rightarrow> jmap" where
  "obj_insert k v m = bt_insert k v m"

definition obj_remove :: "string \<Rightarrow> jmap \<Rightarrow> jmap" where
  "obj_remove k m = bt_remove k m"

fun as_object :: "json \<Rightarrow> jmap option" where
  "as_object (JObj m) = Some m"
| "as_object _ = None"

fun as_array :: "json \<Rightarrow> json list option" where
  "as_array (JArr xs) = Some xs"
| "as_array _ = None"

fun as_str :: "json \<Rightarrow> string option" where
  "as_str (JStr s) = Some s"
| "as_str _ = None"

fun as_bool :: "json \<Rightarrow> bool option" where
  "as_bool (JBool b) = Some b"
| "as_bool _ = None"

text \<open>\<open>Value::get\<close> with a string index: a member of an object, nothing on any other value.\<close>

definition jget :: "json \<Rightarrow> string \<Rightarrow> json option" where
  "jget v k = (case v of JObj m \<Rightarrow> obj_get m k | _ \<Rightarrow> None)"

text \<open>\<open>Value\<close> indexing \<open>v["k"]\<close>: null when there is no such member.\<close>

definition jindex :: "json \<Rightarrow> string \<Rightarrow> json" where
  "jindex v k = (case jget v k of Some w \<Rightarrow> w | None \<Rightarrow> JNull)"

text \<open>\<open>Number::as_f64\<close> always answers without the arbitrary-precision feature; \<open>as_i64\<close>
  answers for integers in range only.\<close>

fun num_f64 :: "jnum \<Rightarrow> f64" where
  "num_f64 (JInt n) = lit (of_int n)"
| "num_f64 (JFloat x) = x"

fun num_i64 :: "jnum \<Rightarrow> int option" where
  "num_i64 (JInt n) = (if - i64_max - 1 \<le> n \<and> n \<le> i64_max then Some n else None)"
| "num_i64 (JFloat x) = None"

fun as_f64 :: "json \<Rightarrow> f64 option" where
  "as_f64 (JNum n) = Some (num_f64 n)"
| "as_f64 _ = None"

fun as_i64 :: "json \<Rightarrow> int option" where
  "as_i64 (JNum n) = num_i64 n"
| "as_i64 _ = None"

text \<open>\<open>json!\<close> of an \<open>f64\<close>: a non-finite number has no JSON form and becomes null.\<close>

definition json_f64 :: "f64 \<Rightarrow> json" where
  "json_f64 x = (if is_finite x then JNum (JFloat x) else JNull)"

definition json_int :: "int \<Rightarrow> json" where
  "json_int n = JNum (JInt n)"

definition json_opt :: "('a \<Rightarrow> json) \<Rightarrow> 'a option \<Rightarrow> json" where
  "json_opt f x = (case x of None \<Rightarrow> JNull | Some a \<Rightarrow> f a)"

text \<open>A member that \<open>skip_serializing_if = "Option::is_none"\<close> leaves out when absent.\<close>

definition insert_opt :: "string \<Rightarrow> ('a \<Rightarrow> json) \<Rightarrow> 'a option \<Rightarrow> jmap \<Rightarrow> jmap" where
  "insert_opt k f x m = (case x of None \<Rightarrow> m | Some a \<Rightarrow> obj_insert k (f a) m)"

text \<open>An object built by inserting the members of a literal.\<close>

definition obj_of :: "(string \<times> json) list \<Rightarrow> jmap" where
  "obj_of kvs = fold (\<lambda>(k, v) m. obj_insert k v m) kvs []"

lemma obj_get_insert [simp]: "obj_get (obj_insert k v m) k' = (if k' = k then Some v else obj_get m k')"
  by (simp add: obj_get_def obj_insert_def)

lemma obj_get_remove [simp]: "obj_get (obj_remove k m) k' = (if k' = k then None else obj_get m k')"
  by (simp add: obj_get_def obj_remove_def)

lemma obj_get_Nil [simp]: "obj_get [] k = None"
  by (simp add: obj_get_def)

lemma jget_JObj [simp]: "jget (JObj m) k = obj_get m k"
  by (simp add: jget_def)

lemma obj_of_get:
  "obj_get (obj_of kvs) k = map_of (rev kvs) k"
proof -
  have "obj_get (fold (\<lambda>(k, v) m. obj_insert k v m) kvs m) k
      = (case map_of (rev kvs) k of None \<Rightarrow> obj_get m k | Some v \<Rightarrow> Some v)" for m
    by (induction kvs arbitrary: m) (auto split: option.splits simp: map_add_def)
  from this [of "[]"] show ?thesis by (simp add: obj_of_def split: option.splits)
qed

lemma obj_get_insert_opt [simp]:
  "obj_get (insert_opt k f x m) k' = (if k' = k \<and> x \<noteq> None then Some (f (the x)) else obj_get m k')"
  by (cases x) (auto simp: insert_opt_def)

section \<open>Number parsing\<close>

definition span_digits :: "string \<Rightarrow> string \<times> string" where
  "span_digits s = (takeWhile is_digit s, dropWhile is_digit s)"

text \<open>An optional sign: whether the number is negative, and the rest.\<close>

definition parse_sign :: "string \<Rightarrow> bool \<times> string" where
  "parse_sign s = (case s of
       [] \<Rightarrow> (False, [])
     | c # r \<Rightarrow> if c = CHR ''-'' then (True, r) else if c = CHR ''+'' then (False, r) else (False, s))"

text \<open>\<open>Exp ::= 'e' Sign? Digit+\<close> up to the end of the text, or nothing at all.\<close>

definition parse_exponent :: "string \<Rightarrow> int option" where
  "parse_exponent s = (case s of
       [] \<Rightarrow> Some 0
     | c # r \<Rightarrow>
         if c = CHR ''e'' \<or> c = CHR ''E'' then
           (let (neg, r') = parse_sign r; (ds, rest) = span_digits r' in
            if ds \<noteq> [] \<and> rest = [] then Some (if neg then - int (read_nat ds) else int (read_nat ds)) else None)
         else None)"

definition pow10 :: "int \<Rightarrow> rat" where
  "pow10 e = (if 0 \<le> e then 10 ^ nat e else 1 / 10 ^ nat (- e))"

definition parse_decimal :: "string \<Rightarrow> rat option" where
  "parse_decimal s =
     (let (ip, r) = span_digits s;
          (fp, r') = (case r of c # t \<Rightarrow> if c = CHR ''.'' then span_digits t else ([], r) | [] \<Rightarrow> ([], [])) in
      if ip = [] \<and> fp = [] then None
      else map_option (\<lambda>e. of_nat (read_nat (ip @ fp)) * pow10 (e - int (length fp))) (parse_exponent r'))"

definition parse_f64 :: "string \<Rightarrow> f64 option" where
  "parse_f64 s =
     (let (neg, r) = parse_sign s in
      if eq_ignore_ascii_case r ''inf'' \<or> eq_ignore_ascii_case r ''infinity'' then Some (if neg then NInf else PInf)
      else if eq_ignore_ascii_case r ''nan'' then Some NaN
      else map_option (\<lambda>x. if neg then - rnd x else rnd x) (parse_decimal r))"

definition parse_u32 :: "string \<Rightarrow> nat option" where
  "parse_u32 s =
     (let r = (case s of c # t \<Rightarrow> if c = CHR ''+'' then t else s | [] \<Rightarrow> s) in
      if r \<noteq> [] \<and> list_all is_digit r \<and> read_nat r < 2 ^ 32 then Some (read_nat r) else None)"

definition parse_i64 :: "string \<Rightarrow> int option" where
  "parse_i64 s =
     (let (neg, r) = parse_sign s;
          v = (if neg then - int (read_nat r) else int (read_nat r)) in
      if r \<noteq> [] \<and> list_all is_digit r \<and> - i64_max - 1 \<le> v \<and> v \<le> i64_max then Some v else None)"

lemma parse_i64_digits:
  assumes "list_all is_digit s" "s \<noteq> []" "int (read_nat s) \<le> i64_max"
  shows "parse_i64 s = Some (int (read_nat s))"
proof -
  have "hd s \<noteq> CHR ''-''" "hd s \<noteq> CHR ''+''"
    using assms(1,2) by (cases s; auto simp: is_digit_def)+
  then have "parse_sign s = (False, s)" using assms(2) by (cases s) (simp_all add: parse_sign_def)
  then show ?thesis using assms by (simp add: parse_i64_def i64_max_def)
qed

section \<open>Value coercions (values.rs)\<close>

definition as_num :: "json option \<Rightarrow> f64" where
  "as_num v = (case v of
       Some (JNum n) \<Rightarrow> num_f64 n
     | Some (JStr s) \<Rightarrow> (case parse_f64 (trim s) of Some x \<Rightarrow> x | None \<Rightarrow> 0)
     | _ \<Rightarrow> 0)"

definition as_non_empty :: "json option \<Rightarrow> string option" where
  "as_non_empty v = (case v of
       Some (JStr s) \<Rightarrow> (let t = trim s in if t = [] then None else Some t)
     | _ \<Rightarrow> None)"

definition is_true :: "json option \<Rightarrow> bool" where
  "is_true v = (case v of
       Some (JBool b) \<Rightarrow> b
     | Some (JNum n) \<Rightarrow> feq (num_f64 n) 1
     | Some (JStr s) \<Rightarrow> s = ''1''
     | _ \<Rightarrow> False)"

definition round2 :: "f64 \<Rightarrow> f64" where
  "round2 v = fround (v * lit 100) / lit 100"

definition round3 :: "f64 \<Rightarrow> f64" where
  "round3 v = fround (v * lit 1000) / lit 1000"

definition REVERSAL_SUFFIX :: string where
  "REVERSAL_SUFFIX = ''-reversal''"

definition is_stock_item_type :: "string option \<Rightarrow> bool" where
  "is_stock_item_type t = (case t of
       Some t \<Rightarrow> \<not> eq_ignore_ascii_case (trim t) ''service''
     | None \<Rightarrow> True)"

definition outstanding_amount :: "f64 \<Rightarrow> f64 list \<Rightarrow> f64" where
  "outstanding_amount grand_total settled = grand_total - fsum settled"

definition unwrap_or_default :: "string option \<Rightarrow> string" where
  "unwrap_or_default v = (case v of Some s \<Rightarrow> s | None \<Rightarrow> [])"

lemma as_non_empty_nonempty: "as_non_empty v = Some s \<Longrightarrow> s \<noteq> []"
  by (auto simp: as_non_empty_def Let_def split: option.splits json.splits if_splits)

lemma as_num_json_f64: "is_finite x \<Longrightarrow> as_num (Some (json_f64 x)) = x"
  by (simp add: as_num_def json_f64_def)

text \<open>Rounding a whole number of units changes nothing: with it, quantities and amounts that are
  integers pass through \<open>round2\<close> and \<open>round3\<close> exactly.\<close>

lemma half_away_of_int [simp]: "half_away (of_int n) = n"
proof -
  have "\<lfloor>of_int n + (1/2::rat)\<rfloor> = n" "\<lfloor>(1/2::rat) - of_int n\<rfloor> = - n"
    by (simp_all add: floor_eq_iff)
  then show ?thesis by (simp add: half_away_def)
qed

lemma frac_round_int:
  assumes "\<bar>k * n\<bar> \<le> 2 ^ 53" "0 < k" "\<bar>k\<bar> \<le> 2 ^ 53"
  shows "fround (Fin (of_int n) * lit (of_int k)) / lit (of_int k) = Fin (of_int n)"
proof -
  have n: "\<bar>n\<bar> \<le> 2 ^ 53"
  proof -
    have "\<bar>n\<bar> \<le> \<bar>k * n\<bar>" using assms(2) by (simp add: abs_mult mult_le_cancel_right1)
    then show ?thesis using assms(1) by linarith
  qed
  have k: "lit (of_int k) = Fin (of_int k)" using assms(3) by (rule rnd_int)
  have "Fin (of_int n) * lit (of_int k) = rnd (of_int (k * n))"
    by (simp add: k times_f64_def mult.commute)
  also have "\<dots> = Fin (of_int (k * n))" using assms(1) by (rule rnd_int)
  finally have p: "Fin (of_int n) * lit (of_int k) = Fin (of_int (k * n))" .
  have "fround (Fin (of_int (k * n))) = Fin (of_int (k * n))"
    using rnd_int [OF assms(1)] by (simp only: fround.simps half_away_of_int)
  moreover have "(of_int (k * n) / of_int k :: rat) = of_int n" using assms(2) by simp
  ultimately show ?thesis using assms(2) rnd_int [OF n] by (simp only: p) (simp add: k divide_f64_def)
qed

lemma round2_int: "\<bar>100 * n\<bar> \<le> 2 ^ 53 \<Longrightarrow> round2 (Fin (of_int n)) = Fin (of_int n)"
  using frac_round_int [of 100 n] by (simp add: round2_def)

lemma round3_int: "\<bar>1000 * n\<bar> \<le> 2 ^ 53 \<Longrightarrow> round3 (Fin (of_int n)) = Fin (of_int n)"
  using frac_round_int [of 1000 n] by (simp add: round3_def)

lemma scaled_bound: "0 \<le> m \<Longrightarrow> k * m \<le> K \<Longrightarrow> 0 < k \<Longrightarrow> \<bar>k * m\<bar> \<le> K" for m k K :: int
  by (simp add: abs_mult)

lemma round2_numeral [simp]:
  assumes "(100 * numeral n :: int) \<le> 9007199254740992"
  shows "round2 (Fin (numeral n)) = Fin (numeral n)"
  using round2_int [of "numeral n"] scaled_bound [of "numeral n" 100 "2 ^ 53"] assms
  by (simp only: of_int_numeral) simp

lemma round2_0 [simp]: "round2 (Fin 0) = Fin 0"
  using round2_int [of 0] by simp

lemma round3_numeral [simp]:
  assumes "(1000 * numeral n :: int) \<le> 9007199254740992"
  shows "round3 (Fin (numeral n)) = Fin (numeral n)"
  using round3_int [of "numeral n"] scaled_bound [of "numeral n" 1000 "2 ^ 53"] assms
  by (simp only: of_int_numeral) simp

lemma round3_0 [simp]: "round3 (Fin 0) = Fin 0"
  using round3_int [of 0] by simp

lemma round2_1 [simp]: "round2 (Fin 1) = Fin 1"
  using round2_int [of 1] by simp

lemma round3_1 [simp]: "round3 (Fin 1) = Fin 1"
  using round3_int [of 1] by simp

lemmas json_eval = obj_get_def obj_insert_def obj_remove_def jget_def jindex_def json_f64_def json_int_def
  json_opt_def insert_opt_def obj_of_def as_num_def as_non_empty_def is_true_def is_stock_item_type_def
  outstanding_amount_def unwrap_or_default_def REVERSAL_SUFFIX_def

declare json_eval [eval_simps]

end
