(* ===== verification/Domain.thy ===== *)
theory Domain
  imports Json
begin

text \<open>
  The coordination-plane data of \<^verbatim>\<open>src/src/model.rs\<close>: membership roles, the wire mirror of the
  client's mutation record, audit entries, and the identity and link records the store keeps.
  Instants (\<open>DateTime<Utc>\<close>) are milliseconds since the epoch; a UUID is its text form.
\<close>

datatype role = Owner | Admin | Sales | Purchasing | Stock | Pos | Accountant | Advisor

definition role_as_str :: "role \<Rightarrow> string" where
  "role_as_str r = (case r of
       Owner \<Rightarrow> ''owner'' | Admin \<Rightarrow> ''admin'' | Sales \<Rightarrow> ''sales'' | Purchasing \<Rightarrow> ''purchasing''
     | Stock \<Rightarrow> ''stock'' | Pos \<Rightarrow> ''pos'' | Accountant \<Rightarrow> ''accountant'' | Advisor \<Rightarrow> ''advisor'')"

definition role_parse :: "string \<Rightarrow> role option" where
  "role_parse s =
     (if s = ''owner'' then Some Owner
      else if s = ''admin'' then Some Admin
      else if s = ''sales'' then Some Sales
      else if s = ''purchasing'' then Some Purchasing
      else if s = ''stock'' then Some Stock
      else if s = ''pos'' then Some Pos
      else if s = ''accountant'' then Some Accountant
      else if s = ''advisor'' then Some Advisor
      else None)"

lemma role_roundtrip [simp]: "role_parse (role_as_str r) = Some r"
  by (cases r) (simp_all add: role_parse_def role_as_str_def)

lemma role_parse_as_str: "role_parse s = Some r \<Longrightarrow> role_as_str r = s"
  by (auto simp: role_parse_def role_as_str_def split: if_splits)

datatype mutation_type =
    CreateDocument | UpdateDocument | DeleteDocument | SubmitDocument | CancelDocument
  | AmendDocument | InstallApp | UninstallApp | CreateAttachment | DeleteAttachment

definition mutation_type_name :: "mutation_type \<Rightarrow> string" where
  "mutation_type_name t = (case t of
       CreateDocument \<Rightarrow> ''createDocument'' | UpdateDocument \<Rightarrow> ''updateDocument''
     | DeleteDocument \<Rightarrow> ''deleteDocument'' | SubmitDocument \<Rightarrow> ''submitDocument''
     | CancelDocument \<Rightarrow> ''cancelDocument'' | AmendDocument \<Rightarrow> ''amendDocument''
     | InstallApp \<Rightarrow> ''installApp'' | UninstallApp \<Rightarrow> ''uninstallApp''
     | CreateAttachment \<Rightarrow> ''createAttachment'' | DeleteAttachment \<Rightarrow> ''deleteAttachment'')"

datatype mutation_status = Pending | Pushing | Pushed | Failed

definition mutation_status_name :: "mutation_status \<Rightarrow> string" where
  "mutation_status_name s = (case s of
       Pending \<Rightarrow> ''pending'' | Pushing \<Rightarrow> ''pushing'' | Pushed \<Rightarrow> ''pushed'' | Failed \<Rightarrow> ''failed'')"

record mutation_record =
  mr_id :: string
  mr_type :: mutation_type
  mr_doc_type :: string
  mr_document_id :: string
  mr_payload :: jmap
  mr_device_id :: string
  mr_user_id :: string
  mr_local_timestamp :: int
  mr_sync_version :: "string option"
  mr_status :: mutation_status

text \<open>The serialized record: camelCase member names, \<open>type\<close> for the mutation type.\<close>

definition mutation_to_json :: "mutation_record \<Rightarrow> json" where
  "mutation_to_json r = JObj (obj_of
     [(''id'', JStr (mr_id r)),
      (''type'', JStr (mutation_type_name (mr_type r))),
      (''docType'', JStr (mr_doc_type r)),
      (''documentId'', JStr (mr_document_id r)),
      (''payload'', JObj (mr_payload r)),
      (''deviceId'', JStr (mr_device_id r)),
      (''userId'', JStr (mr_user_id r)),
      (''localTimestamp'', json_int (mr_local_timestamp r)),
      (''syncVersion'', json_opt JStr (mr_sync_version r)),
      (''status'', JStr (mutation_status_name (mr_status r)))])"

record audit_entry =
  au_id :: uuid
  au_company :: uuid
  au_user :: "uuid option"
  au_device :: "uuid option"
  au_action :: string
  au_detail :: json
  au_at :: int

record company =
  co_id :: uuid
  co_name :: string
  co_created_at :: int

record user =
  us_id :: uuid
  us_email :: string
  us_display_name :: string
  us_created_at :: int

record invitation =
  in_id :: uuid
  in_token_hash :: string
  in_company :: uuid
  in_email :: string
  in_role :: role
  in_created_by :: uuid
  in_accepted_by :: "uuid option"
  in_created_at :: int
  in_expires_at :: int

record device =
  de_id :: uuid
  de_company :: uuid
  de_user :: uuid
  de_name :: string
  de_token_hash :: string
  de_created_at :: int
  de_revoked_at :: "int option"
  de_last_seen_at :: "int option"

record token_identity =
  ti_user :: uuid
  ti_company :: uuid
  ti_device :: "uuid option"

record member =
  me_user :: uuid
  me_email :: string
  me_display_name :: string
  me_role :: role
  me_created_at :: int

datatype portal_link_kind = PortalCustomer | PortalAccountant

definition portal_link_kind_as_str :: "portal_link_kind \<Rightarrow> string" where
  "portal_link_kind_as_str k = (case k of PortalCustomer \<Rightarrow> ''customer'' | PortalAccountant \<Rightarrow> ''accountant'')"

definition portal_link_kind_parse :: "string \<Rightarrow> portal_link_kind option" where
  "portal_link_kind_parse s =
     (if s = ''customer'' then Some PortalCustomer
      else if s = ''accountant'' then Some PortalAccountant else None)"

record portal_link =
  pl_id :: uuid
  pl_company :: uuid
  pl_kind :: portal_link_kind
  pl_party :: "string option"
  pl_label :: "string option"
  pl_token_hash :: string
  pl_created_by :: uuid
  pl_created_at :: int
  pl_expires_at :: int
  pl_revoked_at :: "int option"

record pay_link =
  yl_id :: uuid
  yl_company :: uuid
  yl_invoice_id :: string
  yl_token_hash :: string
  yl_created_by :: uuid
  yl_created_at :: int
  yl_expires_at :: int
  yl_revoked_at :: "int option"

datatype webhook_kind = PaymentHook | ChannelHook

definition webhook_kind_as_str :: "webhook_kind \<Rightarrow> string" where
  "webhook_kind_as_str k = (case k of PaymentHook \<Rightarrow> ''payment'' | ChannelHook \<Rightarrow> ''channel'')"

definition webhook_kind_parse :: "string \<Rightarrow> webhook_kind option" where
  "webhook_kind_parse s =
     (if s = ''payment'' then Some PaymentHook else if s = ''channel'' then Some ChannelHook else None)"

lemma kind_roundtrips [simp]:
  "portal_link_kind_parse (portal_link_kind_as_str k) = Some k"
  "webhook_kind_parse (webhook_kind_as_str w) = Some w"
  by (cases k; simp add: portal_link_kind_parse_def portal_link_kind_as_str_def)
    (cases w; simp add: webhook_kind_parse_def webhook_kind_as_str_def)

record webhook_event =
  wh_id :: uuid
  wh_kind :: webhook_kind
  wh_provider :: string
  wh_headers :: json
  wh_body :: string
  wh_received_at :: int

end
