(* ===== verification/Projection.thy ===== *)
theory Projection
  imports Domain
begin

text \<open>
  \<^verbatim>\<open>src/src/projection.rs\<close>: the fold of one mutation over a row of the document read model.
\<close>

record company_document =
  cd_company :: uuid
  cd_doctype :: string
  cd_document_id :: string
  cd_payload :: json
  cd_children :: "json option"
  cd_docstatus :: int
  cd_updated_at :: int

datatype projection_action = Upsert company_document | Delete | Keep

text \<open>\<open>value as i16\<close>: the low sixteen bits, read as two's complement.\<close>

definition to_i16 :: "int \<Rightarrow> int" where
  "to_i16 n = (n + 32768) mod 65536 - 32768"

definition envelope_fields :: "ext \<Rightarrow> jmap \<Rightarrow> jmap" where
  "envelope_fields x envelope = (case obj_get envelope ''payload'' of
       Some (JStr inner) \<Rightarrow>
         (case Option.bind (ext_from_str x inner) as_object of Some m \<Rightarrow> m | None \<Rightarrow> [])
     | Some (JObj m) \<Rightarrow> m
     | _ \<Rightarrow> envelope)"

definition fold_children :: "jmap \<Rightarrow> jmap \<Rightarrow> company_document option \<Rightarrow> json option" where
  "fold_children flds envelope existing =
     (let carried = (case obj_get flds ''__children'' of
            Some v \<Rightarrow> Some v
          | None \<Rightarrow> obj_get envelope ''__children'') in
      case carried of
        Some v \<Rightarrow> if v = JNull then Option.bind existing cd_children else Some v
      | None \<Rightarrow> Option.bind existing cd_children)"

definition fold_docstatus :: "mutation_record \<Rightarrow> company_document option \<Rightarrow> int" where
  "fold_docstatus record existing =
     (case Option.bind (obj_get (mr_payload record) ''docstatus'') as_i64 of
        Some v \<Rightarrow> to_i16 v
      | None \<Rightarrow>
          (case mr_type record of
             SubmitDocument \<Rightarrow> 1
           | CancelDocument \<Rightarrow> 2
           | UpdateDocument \<Rightarrow> (case existing of Some d \<Rightarrow> cd_docstatus d | None \<Rightarrow> 0)
           | _ \<Rightarrow> 0))"

definition folds_documents :: "mutation_type \<Rightarrow> bool" where
  "folds_documents t \<longleftrightarrow> t \<in> {CreateDocument, UpdateDocument, SubmitDocument, CancelDocument}"

definition fold_mutation ::
  "ext \<Rightarrow> company_document option \<Rightarrow> mutation_record \<Rightarrow> uuid \<Rightarrow> int \<Rightarrow> projection_action" where
  "fold_mutation x existing record company_id now =
     (if mr_type record = DeleteDocument then Delete
      else if folds_documents (mr_type record) then
        let envelope = mr_payload record;
            flds = envelope_fields x envelope in
        Upsert \<lparr>
          cd_company = company_id,
          cd_doctype = mr_doc_type record,
          cd_document_id = mr_document_id record,
          cd_payload = JObj (obj_remove ''__children'' flds),
          cd_children = fold_children flds envelope existing,
          cd_docstatus = fold_docstatus record existing,
          cd_updated_at = now\<rparr>
      else Keep)"

text \<open>Two rows that differ in their update time only.\<close>

definition same_row :: "company_document option \<Rightarrow> company_document option \<Rightarrow> bool" where
  "same_row a b \<longleftrightarrow> map_option (\<lambda>d. d\<lparr>cd_updated_at := 0\<rparr>) a = map_option (\<lambda>d. d\<lparr>cd_updated_at := 0\<rparr>) b"

lemma same_row_refl [simp]: "same_row a a"
  by (simp add: same_row_def)

lemma same_row_fields:
  assumes "same_row a b"
  shows "Option.bind a cd_children = Option.bind b cd_children"
    and "map_option cd_docstatus a = map_option cd_docstatus b" and "a = None \<longleftrightarrow> b = None"
  using assms
  by (cases a; cases b; auto simp: same_row_def dest: arg_cong [where f = cd_children] arg_cong [where f = cd_docstatus])+

definition apply_action :: "projection_action \<Rightarrow> company_document option \<Rightarrow> company_document option" where
  "apply_action act existing = (case act of Upsert d \<Rightarrow> Some d | Delete \<Rightarrow> None | Keep \<Rightarrow> existing)"

text \<open>The fold reads neither the clock nor the update time of the row it replaces.\<close>

lemma fold_mutation_cong:
  assumes "same_row a b"
  shows "same_row (apply_action (fold_mutation x a r c t) a) (apply_action (fold_mutation x b r c u) b)"
proof -
  have s: "(case a of Some d \<Rightarrow> cd_docstatus d | None \<Rightarrow> 0) = (case b of Some d \<Rightarrow> cd_docstatus d | None \<Rightarrow> 0)"
    using same_row_fields(2) [OF assms] by (cases a; cases b) auto
  have "fold_children f e a = fold_children f e b" for f e
    using same_row_fields(1) [OF assms] by (simp add: fold_children_def Let_def split: option.splits)
  moreover have "fold_docstatus r a = fold_docstatus r b"
    using s by (simp add: fold_docstatus_def split: option.splits mutation_type.splits)
  ultimately show ?thesis
    using assms by (auto simp: fold_mutation_def apply_action_def Let_def same_row_def)
qed

end
