(* ===== verification/Posting_Model.thy ===== *)
theory Posting_Model
  imports Domain
begin

text \<open>
  The posting authority's data, \<^verbatim>\<open>src/src/posting/model.rs\<close>: official documents, ledger rows,
  batches, the item registry and company settings, the atomic commit a command hands to the store,
  and the pure helpers on them (series keys, official numbers, the deposit guard). Error texts are
  the constructors of \<open>reason\<close> with the values the text quotes.
\<close>

section \<open>Doctypes and numbering\<close>

definition POSTED_DOCTYPES :: "string list" where
  "POSTED_DOCTYPES =
     [''Sales Invoice'', ''Purchase Invoice'', ''Purchase Receipt'', ''Delivery Note'', ''POS Invoice'',
      ''Payment Entry'', ''Stock Entry'', ''Journal Entry'', ''Expense'', ''Customer Deposit'']"

definition series_key :: "string \<Rightarrow> string option" where
  "series_key doctype =
     (if doctype = ''Sales Invoice'' then Some ''SINV''
      else if doctype = ''Purchase Invoice'' then Some ''PINV''
      else if doctype = ''Purchase Receipt'' then Some ''PREC''
      else if doctype = ''Delivery Note'' then Some ''DN''
      else if doctype = ''POS Invoice'' then Some ''POS''
      else if doctype = ''Payment Entry'' then Some ''PAY''
      else if doctype = ''Stock Entry'' then Some ''STE''
      else if doctype = ''Journal Entry'' then Some ''JV''
      else if doctype = ''Expense'' then Some ''EXP''
      else if doctype = ''Customer Deposit'' then Some ''DEP''
      else None)"

text \<open>\<open>{value:05}\<close>: zero-padded to five characters, the sign first.\<close>

definition pad5 :: "int \<Rightarrow> string" where
  "pad5 v = (if v < 0
     then CHR ''-'' # replicate (4 - length (show_nat (nat (- v)))) CHR ''0'' @ show_nat (nat (- v))
     else replicate (5 - length (show_nat (nat v))) CHR ''0'' @ show_nat (nat v))"

definition format_number :: "string \<Rightarrow> int \<Rightarrow> string" where
  "format_number key v = key @ ''-'' @ pad5 v"

lemma read_nat_zeros: "read_nat (replicate k CHR ''0'' @ s) = read_nat s"
proof -
  have "foldl (\<lambda>n c. 10 * n + digit_value c) 0 (replicate k CHR ''0'') = 0"
    by (induction k) (simp_all add: digit_value_def)
  then show ?thesis by (simp add: read_nat_def)
qed

lemma pad5_digits: "0 \<le> v \<Longrightarrow> list_all is_digit (pad5 v) \<and> pad5 v \<noteq> []"
  using show_nat_digits [of "nat v"] by (auto simp: pad5_def list_all_iff is_digit_def [of "CHR ''0''"])

lemma read_pad5: "0 \<le> v \<Longrightarrow> int (read_nat (pad5 v)) = v"
  by (simp add: pad5_def read_nat_zeros)

lemma format_number_inj:
  "0 \<le> v \<Longrightarrow> 0 \<le> w \<Longrightarrow> format_number key v = format_number key w \<longleftrightarrow> v = w"
  by (auto simp: format_number_def) (metis read_pad5)

lemma series_key_inj:
  "series_key d = Some k \<Longrightarrow> series_key d' = Some k \<Longrightarrow> d = d'"
  by (auto simp: series_key_def split: if_splits)

lemma posted_has_series: "d \<in> set POSTED_DOCTYPES \<longleftrightarrow> series_key d \<noteq> None"
  by (auto simp: POSTED_DOCTYPES_def series_key_def)

section \<open>Rows\<close>

record posted_document =
  pd_id :: string
  pd_company :: uuid
  pd_doctype :: string
  pd_payload :: json
  pd_docstatus :: int
  pd_official_number :: "string option"
  pd_created_at :: int

record gl_entry =
  gl_id :: string
  gl_company :: uuid
  gl_account :: string
  gl_debit :: f64
  gl_credit :: f64
  gl_party_type :: "string option"
  gl_party :: "string option"
  gl_cost_center :: "string option"
  gl_voucher_type :: string
  gl_voucher_no :: string
  gl_posting_date :: string
  gl_currency :: "string option"
  gl_conversion_rate :: "f64 option"
  gl_base_debit :: "f64 option"
  gl_base_credit :: "f64 option"
  gl_is_reversal :: bool
  gl_batch_id :: string

record stock_ledger_entry =
  sle_id :: string
  sle_company :: uuid
  sle_trans_type :: string
  sle_item :: string
  sle_warehouse :: string
  sle_qty_change :: f64
  sle_valuation_rate :: f64
  sle_voucher_type :: string
  sle_voucher_no :: string
  sle_posting_date :: string
  sle_uom :: "string option"
  sle_is_reversal :: bool
  sle_batch_id :: string
  sle_seq :: int

record bin =
  bin_company :: uuid
  bin_item :: string
  bin_warehouse :: string
  bin_actual_qty :: f64
  bin_valuation_rate :: f64
  bin_stock_value :: f64

datatype party_kind = Customer | Supplier

definition party_kind_as_str :: "party_kind \<Rightarrow> string" where
  "party_kind_as_str k = (case k of Customer \<Rightarrow> ''Customer'' | Supplier \<Rightarrow> ''Supplier'')"

definition party_kind_parse :: "string \<Rightarrow> party_kind option" where
  "party_kind_parse raw =
     (if raw = ''Customer'' then Some Customer else if raw = ''Supplier'' then Some Supplier else None)"

definition party_kind_doctype :: "party_kind \<Rightarrow> string" where
  "party_kind_doctype k = (case k of Customer \<Rightarrow> ''Customer Transaction'' | Supplier \<Rightarrow> ''Supplier Transaction'')"

definition party_field :: "party_kind \<Rightarrow> string" where
  "party_field k = (case k of Customer \<Rightarrow> ''customer'' | Supplier \<Rightarrow> ''supplier'')"

record party_transaction =
  pt_id :: string
  pt_company :: uuid
  pt_kind :: party_kind
  pt_trans_type :: string
  pt_party :: string
  pt_posting_date :: string
  pt_due_date :: "string option"
  pt_amount :: f64
  pt_currency :: "string option"
  pt_conversion_rate :: f64
  pt_base_amount :: f64
  pt_voucher_type :: string
  pt_voucher_no :: string
  pt_is_reversal :: bool
  pt_batch_id :: string

definition party_row_fields :: "party_transaction \<Rightarrow> jmap" where
  "party_row_fields t =
     obj_insert ''is_reversal'' (JBool (pt_is_reversal t))
     (obj_insert ''voucher_no'' (JStr (pt_voucher_no t))
     (obj_insert ''voucher_type'' (JStr (pt_voucher_type t))
     (obj_insert ''base_amount'' (json_f64 (pt_base_amount t))
     (obj_insert ''conversion_rate'' (json_f64 (pt_conversion_rate t))
     (insert_opt ''currency'' JStr (pt_currency t)
     (obj_insert ''amount'' (json_f64 (pt_amount t))
     (insert_opt ''due_date'' JStr (pt_due_date t)
     (obj_insert ''posting_date'' (JStr (pt_posting_date t))
     (obj_insert (party_field (pt_kind t)) (JStr (pt_party t))
     (obj_insert ''trans_type'' (JStr (pt_trans_type t)) []))))))))))"

record tax_transaction =
  tt_id :: string
  tt_company :: uuid
  tt_tax_type :: string
  tt_tax :: "string option"
  tt_posting_date :: string
  tt_base_amount :: f64
  tt_tax_amount :: f64
  tt_rate :: f64
  tt_party_type :: string
  tt_party :: "string option"
  tt_voucher_type :: string
  tt_voucher_no :: string
  tt_is_reversal :: bool
  tt_batch_id :: string

definition tax_row_fields :: "tax_transaction \<Rightarrow> jmap" where
  "tax_row_fields t =
     obj_insert ''is_reversal'' (JBool (tt_is_reversal t))
     (obj_insert ''voucher_no'' (JStr (tt_voucher_no t))
     (obj_insert ''voucher_type'' (JStr (tt_voucher_type t))
     (insert_opt ''party'' JStr (tt_party t)
     (obj_insert ''party_type'' (JStr (tt_party_type t))
     (obj_insert ''rate'' (json_f64 (tt_rate t))
     (obj_insert ''tax_amount'' (json_f64 (tt_tax_amount t))
     (obj_insert ''base_amount'' (json_f64 (tt_base_amount t))
     (obj_insert ''posting_date'' (JStr (tt_posting_date t))
     (insert_opt ''tax'' JStr (tt_tax t)
     (obj_insert ''tax_type'' (JStr (tt_tax_type t)) []))))))))))"

record settlement =
  st_id :: string
  st_company :: uuid
  st_payment_voucher_type :: string
  st_payment_voucher_no :: string
  st_invoice_voucher_type :: string
  st_invoice_voucher_no :: string
  st_party_type :: string
  st_party :: "string option"
  st_allocated_amount :: f64
  st_posting_date :: string
  st_is_reversal :: bool
  st_batch_id :: string

record posting_batch =
  pb_id :: string
  pb_company :: uuid
  pb_document_id :: string
  pb_doctype :: string
  pb_kind :: string
  pb_reversal_of :: "string option"
  pb_created_at :: int

record uom_conversion =
  uc_uom :: string
  uc_conversion_factor :: f64

record item =
  it_id :: string
  it_item_type :: string
  it_valuation_method :: "string option"
  it_stock_uom :: "string option"
  it_uoms :: "uom_conversion list"
  it_inventory_account :: "string option"
  it_cogs_account :: "string option"
  it_stock_adjustment_account :: "string option"

definition uom_factor :: "item option \<Rightarrow> string option \<Rightarrow> f64" where
  "uom_factor item line_uom = (case (item, line_uom) of
       (Some item, Some line_uom) \<Rightarrow>
         (case it_stock_uom item of
            None \<Rightarrow> 1
          | Some stock_uom \<Rightarrow>
              if stock_uom = line_uom then 1
              else (case find (\<lambda>row. uc_uom row = line_uom \<and> 0 < uc_conversion_factor row) (it_uoms item) of
                      Some row \<Rightarrow> uc_conversion_factor row
                    | None \<Rightarrow> 1))
     | _ \<Rightarrow> 1)"

text \<open>The conversion factor is always positive, so dividing a rate by it is defined.\<close>

lemma uom_factor_pos: "0 < uom_factor item u"
  by (auto simp: uom_factor_def zero_f64_def one_f64_def find_Some_iff split: option.splits)

record company_settings =
  cs_allow_negative_stock :: bool
  cs_books_lock_date :: "string option"
  cs_default_receivable_account :: string
  cs_default_payable_account :: string
  cs_default_income_account :: string
  cs_default_expense_account :: string
  cs_default_cash_account :: string
  cs_default_inventory_account :: string
  cs_default_cogs_account :: string
  cs_default_grni_account :: string
  cs_default_stock_adjustment_account :: string
  cs_default_customer_deposit_account :: string
  cs_default_vat_account :: string
  cs_stripe_payment_link_url :: "string option"
  cs_payment_instructions :: "string option"

definition default_settings :: company_settings where
  "default_settings = \<lparr>
     cs_allow_negative_stock = False,
     cs_books_lock_date = None,
     cs_default_receivable_account = ''Debtors'',
     cs_default_payable_account = ''Creditors'',
     cs_default_income_account = ''Sales'',
     cs_default_expense_account = ''COGS'',
     cs_default_cash_account = ''Cash'',
     cs_default_inventory_account = ''Stock'',
     cs_default_cogs_account = ''COGS'',
     cs_default_grni_account = ''GRNI'',
     cs_default_stock_adjustment_account = ''Stock Adjustment'',
     cs_default_customer_deposit_account = ''Customer Deposits'',
     cs_default_vat_account = ''VAT'',
     cs_stripe_payment_link_url = None,
     cs_payment_instructions = None\<rparr>"

section \<open>Serialized rows\<close>

definition gl_to_json :: "gl_entry \<Rightarrow> json" where
  "gl_to_json e = JObj
     (insert_opt ''base_credit'' json_f64 (gl_base_credit e)
     (insert_opt ''base_debit'' json_f64 (gl_base_debit e)
     (insert_opt ''conversion_rate'' json_f64 (gl_conversion_rate e)
     (insert_opt ''currency'' JStr (gl_currency e)
     (insert_opt ''cost_center'' JStr (gl_cost_center e)
     (insert_opt ''party'' JStr (gl_party e)
     (insert_opt ''party_type'' JStr (gl_party_type e)
     (obj_of
       [(''id'', JStr (gl_id e)), (''company_id'', JStr (gl_company e)),
        (''account'', JStr (gl_account e)), (''debit'', json_f64 (gl_debit e)),
        (''credit'', json_f64 (gl_credit e)), (''voucher_type'', JStr (gl_voucher_type e)),
        (''voucher_no'', JStr (gl_voucher_no e)), (''posting_date'', JStr (gl_posting_date e)),
        (''is_reversal'', JBool (gl_is_reversal e)), (''batch_id'', JStr (gl_batch_id e))]))))))))"

definition sle_to_json :: "stock_ledger_entry \<Rightarrow> json" where
  "sle_to_json s = JObj
     (insert_opt ''uom'' JStr (sle_uom s)
     (obj_of
       [(''id'', JStr (sle_id s)), (''company_id'', JStr (sle_company s)),
        (''trans_type'', JStr (sle_trans_type s)), (''item'', JStr (sle_item s)),
        (''warehouse'', JStr (sle_warehouse s)), (''qty_change'', json_f64 (sle_qty_change s)),
        (''valuation_rate'', json_f64 (sle_valuation_rate s)),
        (''voucher_type'', JStr (sle_voucher_type s)), (''voucher_no'', JStr (sle_voucher_no s)),
        (''posting_date'', JStr (sle_posting_date s)), (''is_reversal'', JBool (sle_is_reversal s)),
        (''batch_id'', JStr (sle_batch_id s)), (''seq'', json_int (sle_seq s))]))"

definition bin_to_json :: "bin \<Rightarrow> json" where
  "bin_to_json b = JObj (obj_of
     [(''company_id'', JStr (bin_company b)), (''item'', JStr (bin_item b)),
      (''warehouse'', JStr (bin_warehouse b)), (''actual_qty'', json_f64 (bin_actual_qty b)),
      (''valuation_rate'', json_f64 (bin_valuation_rate b)),
      (''stock_value'', json_f64 (bin_stock_value b))])"

definition settlement_to_json :: "settlement \<Rightarrow> json" where
  "settlement_to_json s = JObj
     (insert_opt ''party'' JStr (st_party s)
     (obj_of
       [(''id'', JStr (st_id s)), (''company_id'', JStr (st_company s)),
        (''payment_voucher_type'', JStr (st_payment_voucher_type s)),
        (''payment_voucher_no'', JStr (st_payment_voucher_no s)),
        (''invoice_voucher_type'', JStr (st_invoice_voucher_type s)),
        (''invoice_voucher_no'', JStr (st_invoice_voucher_no s)),
        (''party_type'', JStr (st_party_type s)),
        (''allocated_amount'', json_f64 (st_allocated_amount s)),
        (''posting_date'', JStr (st_posting_date s)), (''is_reversal'', JBool (st_is_reversal s)),
        (''batch_id'', JStr (st_batch_id s))]))"

section \<open>Errors\<close>

datatype (plugins only: code size) command_reason =
    UnsupportedDoctype string
  | OfflineOnlyPos
  | OfflineNeedsDevice
  | OfflineNeedsReceipt
  | OfflineNeedsSeries
  | ReceiptNotFromSeries string string
  | KeyReused
  | Contention
  | PackageChanged

datatype (plugins only: code size) period_reason =
    PostingDateNotString json
  | PostingDateInvalid string
  | LockedPeriod string string
  | BooksLockMoved "string option"

datatype (plugins only: code size) totals_reason =
    LineAmountMismatch nat f64 f64
  | TotalMismatch f64 f64
  | TaxTotalMismatch f64 f64
  | GrandTotalMismatch f64 f64
  | GrandTotalIdentity f64 f64 f64
  | TaxRateNegative nat f64
  | TaxableNegative nat f64
  | TaxablePositive nat f64
  | TaxRowMismatch nat f64 f64

datatype (plugins only: code size) ledger_reason =
    Unbalanced f64 f64
  | LineWithoutAccount
  | GroupAccounts "string list"
  | InsufficientStock string string f64
  | LedgerMoved string string nat nat

datatype (plugins only: code size) payment_reason =
    PaidNotPositive f64
  | NotSettleable string string
  | AllocationNegative f64 string string
  | AllocationExceedsPaid f64 f64
  | UnknownInvoice string string
  | InvoiceNotSubmitted string string
  | AllocationExceedsOutstanding f64 string string f64

datatype (plugins only: code size) voucher_reason =
    ForeignRate string f64
  | MoneyField string string f64
  | JournalRowNotObject nat
  | JournalBothSides nat
  | JournalNoAccount nat
  | JournalNoParty nat string
  | JournalTwoLines
  | JournalUnbalanced f64 f64
  | ExpenseNetNotPositive
  | ExpenseGrossMismatch f64 f64 f64
  | ExpenseNeedsCategory
  | DepositAmountNotPositive
  | DepositNeedsCustomer

datatype (plugins only: code size) deposit_reason =
    DepositNotReceive string
  | DepositNotSubmitted string
  | DepositWrongAccount string string string
  | DepositForeignRate string f64
  | DepositWrongOwner string string string
  | DepositExceeded string f64 f64
  | DepositStillApplied string "string list"

datatype (plugins only: code size) document_reason =
    AlreadySubmitted string string
  | NotSubmitted string string int
  | InvoiceHasPayments string string f64
  | DocumentExists string string
  | DocumentMissing string string
  | DocumentNotSubmitted string string
  | NumberTaken string string
  | TillSeriesBound string
  | EarlierTakeOn string
  | CompanyNotEmpty string

datatype (plugins only: code size) solo_reason =
    BadMigrationId
  | NoLines
  | TooManyLines
  | SoloLineNoAccount nat
  | SoloDebitInvalid nat
  | SoloCreditInvalid nat
  | SoloBothSides nat string
  | SoloPartyType nat
  | SoloPartyHalf nat
  | AccountUnpublished string
  | PartyUnpublished string string
  | StockIncomplete nat
  | StockQuantity nat string string
  | StockValueInvalid nat
  | StockTwice string string
  | ItemUnpublished string
  | ItemIsService string
  | TrialBalanceMismatch string f64 f64
  | StockMismatch string f64 f64
  | StockTotalMismatch f64 f64
  | ReceivablesMismatch f64 f64
  | PayablesMismatch f64 f64
  | NoTeamSeries string
  | NumberingTwice string
  | NumberOutOfRange string int

datatype (plugins only: code size) reason =
    Command command_reason
  | Period period_reason
  | Totals totals_reason
  | Ledger ledger_reason
  | Payment payment_reason
  | Voucher voucher_reason
  | Deposit deposit_reason
  | Document document_reason
  | Solo solo_reason

datatype (plugins only: code size) store_error = Conflict reason | Stale reason | Internal

datatype (plugins only: code size) posting_error = Validation reason | NotFound | PConflict reason | PStore store_error

section \<open>Commits\<close>

datatype (plugins only: code size) deposit_guard = Apply string string f64 | Release string

fun deposit_id_of :: "deposit_guard \<Rightarrow> string" where
  "deposit_id_of (Apply d _ _) = d"
| "deposit_id_of (Release d) = d"

record solo_migration_mark =
  sm_migration_id :: string
  sm_package_sha256 :: string

record posting_commit_rec =
  pc_company :: uuid
  pc_idempotency_key :: "string option"
  pc_batch :: posting_batch
  pc_document :: posted_document
  pc_document_is_new :: bool
  pc_series_key :: "string option"
  pc_preassigned_number :: "string option"
  pc_till_binding :: "(string \<times> string) option"
  pc_gl_entries :: "gl_entry list"
  pc_stock_ledger_entries :: "stock_ledger_entry list"
  pc_party_transactions :: "party_transaction list"
  pc_tax_transactions :: "tax_transaction list"
  pc_settlements :: "settlement list"
  pc_bins :: "bin list"
  pc_outstanding_updates :: "(string \<times> string \<times> f64) list"
  pc_sle_expectations :: "(string \<times> string \<times> nat) list"
  pc_replication_device_id :: "string option"
  pc_audit :: audit_entry
  pc_response :: json
  pc_numbering_floors :: "(string \<times> int) list"
  pc_solo_migration :: "solo_migration_mark option"
  pc_lock_check_date :: "string option"
  pc_deposit_guard :: "deposit_guard option"

record commit_outcome =
  oc_response :: json
  oc_replayed :: bool

record books_lock_change =
  bl_expected_current :: "string option"
  bl_lock_date :: "string option"
  bl_audit :: audit_entry

record books_lock_outcome =
  bo_previous :: "string option"
  bo_lock_date :: "string option"
  bo_changed :: bool

section \<open>The deposit guard\<close>

definition MONEY_EPS :: f64 where
  "MONEY_EPS = lit (5 / 1000)"

definition live_applications :: "posted_document list \<Rightarrow> posted_document list" where
  "live_applications apps = filter (\<lambda>p. pd_docstatus p = 1) apps"

definition deposit_guard_violation ::
  "deposit_guard \<Rightarrow> posted_document option \<Rightarrow> posted_document list \<Rightarrow> reason option" where
  "deposit_guard_violation guard deposit applications = (case guard of
       Apply deposit_id customer amount \<Rightarrow>
         (case deposit of
            None \<Rightarrow> Some (Deposit (DepositNotSubmitted deposit_id))
          | Some d \<Rightarrow>
              if pd_docstatus d \<noteq> 1 then Some (Deposit (DepositNotSubmitted deposit_id))
              else
                let owner = unwrap_or_default (as_non_empty (jget (pd_payload d) ''customer'')) in
                if owner \<noteq> customer then Some (Deposit (DepositWrongOwner deposit_id owner customer))
                else
                  let total = as_num (jget (pd_payload d) ''amount'');
                      applied = fsum (map (\<lambda>p. as_num (jget (pd_payload p) ''paid_amount'')) (live_applications applications));
                      remaining = total - applied in
                  if remaining + MONEY_EPS < amount then Some (Deposit (DepositExceeded deposit_id remaining amount)) else None)
     | Release deposit_id \<Rightarrow>
         let live = map pd_id (live_applications applications) in
         if live \<noteq> [] then Some (Deposit (DepositStillApplied deposit_id live)) else None)"

lemma MONEY_EPS_Fin:
  obtains e where "MONEY_EPS = Fin e" "1 / 256 \<le> e" "e \<le> 1 / 128"
proof -
  have "rnd (1 / 256) = Fin (1 / 256)" "rnd (1 / 128) = Fin (1 / 128)"
    using round_value_dyadic [of 1 "-8"] round_value_dyadic [of 1 "-7"]
    by (simp_all add: pow2_def rnd_def)
  then show ?thesis
    using rnd_mono [of "1 / 256" "5 / 1000"] rnd_mono [of "5 / 1000" "1 / 128"] that
    unfolding MONEY_EPS_def by (fastforce elim: lit_between)
qed

lemma MONEY_EPS_less [simp]:
  shows "x \<le> 0 \<Longrightarrow> \<not> MONEY_EPS < Fin x" and "1 \<le> x \<Longrightarrow> MONEY_EPS < Fin x"
    and "0 \<le> x \<Longrightarrow> \<not> Fin x < - MONEY_EPS" and "x \<le> - 1 \<Longrightarrow> Fin x < - MONEY_EPS"
proof -
  obtain e where e: "MONEY_EPS = Fin e" "1 / 256 \<le> e" "e \<le> 1 / 128" by (rule MONEY_EPS_Fin)
  show "x \<le> 0 \<Longrightarrow> \<not> MONEY_EPS < Fin x" "1 \<le> x \<Longrightarrow> MONEY_EPS < Fin x"
    "0 \<le> x \<Longrightarrow> \<not> Fin x < - MONEY_EPS" "x \<le> - 1 \<Longrightarrow> Fin x < - MONEY_EPS"
    unfolding e(1) using e(2,3) by simp_all
qed

lemmas posting_model_eval = live_applications_def deposit_guard_violation_def uom_factor_def
  party_kind_parse_def party_kind_as_str_def party_kind_doctype_def party_field_def
  series_key_def format_number_def pad5_def

declare posting_model_eval [eval_simps]

end
