(* ===== verification/Replication.thy ===== *)
theory Replication
  imports Projection Posting_Model
begin

text \<open>
  \<^verbatim>\<open>src/src/posting/replication.rs\<close>: one posting commit rendered as the mutation records every
  device pulls. Serializing a JSON map to text cannot fail, so the \<open>Result\<close> of the code is its
  value here; the clock (\<open>now_ms\<close>) is an argument.
\<close>

definition SYSTEM_DEVICE_ID :: string where
  "SYSTEM_DEVICE_ID = ''atlas-backend''"

record replication_sources =
  rs_document :: posted_document
  rs_is_cancel :: bool
  rs_gl_entries :: "gl_entry list"
  rs_stock_ledger_entries :: "stock_ledger_entry list"
  rs_party_transactions :: "party_transaction list"
  rs_tax_transactions :: "tax_transaction list"
  rs_settlements :: "settlement list"
  rs_bins :: "bin list"
  rs_outstanding_documents :: "posted_document list"
  rs_user :: "uuid option"
  rs_device :: string

definition header_fields :: "json \<Rightarrow> jmap" where
  "header_fields payload =
     fold obj_remove [''items'', ''taxes'', ''references'', ''tenders'', ''accounts'']
       (case payload of JObj m \<Rightarrow> m | _ \<Rightarrow> [])"

definition row_envelope :: "ext \<Rightarrow> string \<Rightarrow> string \<Rightarrow> int \<Rightarrow> jmap \<Rightarrow> int \<Rightarrow> jmap" where
  "row_envelope x row_id doctype docstatus flds now_ms = obj_of
     [(''id'', JStr row_id),
      (''doctype'', JStr doctype),
      (''company'', JNull),
      (''docstatus'', json_int docstatus),
      (''payload'', JStr (ext_to_string x (JObj flds))),
      (''created_at'', json_int now_ms),
      (''modified_at'', json_int now_ms),
      (''sync_version'', JNull),
      (''sync_state'', JStr ''synced''),
      (''amended_from'', JNull)]"

text \<open>The \<open>record\<close> closure: what every replicated mutation of one commit shares.\<close>

definition replica ::
  "replication_sources \<Rightarrow> int \<Rightarrow> string \<Rightarrow> mutation_type \<Rightarrow> string \<Rightarrow> string \<Rightarrow> jmap \<Rightarrow> mutation_record" where
  "replica src now_ms rec_id ty doc_type document_id payload = \<lparr>
     mr_id = rec_id,
     mr_type = ty,
     mr_doc_type = doc_type,
     mr_document_id = document_id,
     mr_payload = payload,
     mr_device_id = rs_device src,
     mr_user_id = unwrap_or_default (rs_user src),
     mr_local_timestamp = now_ms,
     mr_sync_version = None,
     mr_status = Pushed\<rparr>"

definition replica_sfx :: "replication_sources \<Rightarrow> string" where
  "replica_sfx src = (if rs_is_cancel src then REVERSAL_SUFFIX else [])"

definition numbered_fields :: "posted_document \<Rightarrow> jmap" where
  "numbered_fields d = insert_opt ''official_number'' JStr (pd_official_number d) (header_fields (pd_payload d))"

definition replicate_document :: "ext \<Rightarrow> int \<Rightarrow> replication_sources \<Rightarrow> mutation_record" where
  "replicate_document x now_ms src =
     (let doc = rs_document src in
      replica src now_ms (''postmut-'' @ pd_id doc @ ''-doc'' @ replica_sfx src)
        (if rs_is_cancel src then CancelDocument else SubmitDocument)
        (pd_doctype doc) (pd_id doc)
        (row_envelope x (pd_id doc) (pd_doctype doc) (pd_docstatus doc) (numbered_fields doc) now_ms))"

definition replicate_gl :: "ext \<Rightarrow> int \<Rightarrow> replication_sources \<Rightarrow> gl_entry \<Rightarrow> mutation_record" where
  "replicate_gl x now_ms src e =
     replica src now_ms (''postmut-'' @ gl_id e) CreateDocument ''GL Entry'' (gl_id e)
       (row_envelope x (gl_id e) ''GL Entry'' 0
         (obj_insert ''is_reversal'' (JBool (gl_is_reversal e))
         (insert_opt ''base_credit'' json_f64 (gl_base_credit e)
         (insert_opt ''base_debit'' json_f64 (gl_base_debit e)
         (insert_opt ''conversion_rate'' json_f64 (gl_conversion_rate e)
         (insert_opt ''currency'' JStr (gl_currency e)
         (obj_insert ''voucher_no'' (JStr (gl_voucher_no e))
         (obj_insert ''voucher_type'' (JStr (gl_voucher_type e))
         (insert_opt ''cost_center'' JStr (gl_cost_center e)
         (insert_opt ''party'' JStr (gl_party e)
         (insert_opt ''party_type'' JStr (gl_party_type e)
         (obj_of
           [(''posting_date'', JStr (gl_posting_date e)), (''account'', JStr (gl_account e)),
            (''debit'', json_f64 (gl_debit e)), (''credit'', json_f64 (gl_credit e))])))))))))))
         now_ms)"

definition replicate_sle :: "ext \<Rightarrow> int \<Rightarrow> replication_sources \<Rightarrow> stock_ledger_entry \<Rightarrow> mutation_record" where
  "replicate_sle x now_ms src s =
     replica src now_ms (''postmut-'' @ sle_id s) CreateDocument ''Stock Ledger Entry'' (sle_id s)
       (row_envelope x (sle_id s) ''Stock Ledger Entry'' 0
         (obj_insert ''is_reversal'' (JBool (sle_is_reversal s))
         (insert_opt ''uom'' JStr (sle_uom s)
         (obj_of
           [(''trans_type'', JStr (sle_trans_type s)), (''item'', JStr (sle_item s)),
            (''warehouse'', JStr (sle_warehouse s)), (''qty_change'', json_f64 (sle_qty_change s)),
            (''valuation_rate'', json_f64 (sle_valuation_rate s)),
            (''posting_date'', JStr (sle_posting_date s)),
            (''voucher_type'', JStr (sle_voucher_type s)), (''voucher_no'', JStr (sle_voucher_no s))])))
         now_ms)"

definition replicate_party :: "ext \<Rightarrow> int \<Rightarrow> replication_sources \<Rightarrow> party_transaction \<Rightarrow> mutation_record" where
  "replicate_party x now_ms src t =
     (let dt = party_kind_doctype (pt_kind t) in
      replica src now_ms (''postmut-'' @ pt_id t) CreateDocument dt (pt_id t)
        (row_envelope x (pt_id t) dt 0 (party_row_fields t) now_ms))"

definition replicate_tax :: "ext \<Rightarrow> int \<Rightarrow> replication_sources \<Rightarrow> tax_transaction \<Rightarrow> mutation_record" where
  "replicate_tax x now_ms src t =
     replica src now_ms (''postmut-'' @ tt_id t) CreateDocument ''Tax Transaction'' (tt_id t)
       (row_envelope x (tt_id t) ''Tax Transaction'' 0 (tax_row_fields t) now_ms)"

definition replicate_settlement :: "ext \<Rightarrow> int \<Rightarrow> replication_sources \<Rightarrow> settlement \<Rightarrow> mutation_record" where
  "replicate_settlement x now_ms src s =
     replica src now_ms (''postmut-'' @ st_id s) CreateDocument ''Settlement'' (st_id s)
       (row_envelope x (st_id s) ''Settlement'' 0
         (obj_of
           [(''payment_voucher_type'', JStr (st_payment_voucher_type s)),
            (''payment_voucher_no'', JStr (st_payment_voucher_no s)),
            (''invoice_voucher_type'', JStr (st_invoice_voucher_type s)),
            (''invoice_voucher_no'', JStr (st_invoice_voucher_no s)),
            (''party_type'', JStr (st_party_type s)),
            (''party'', json_opt JStr (st_party s)),
            (''allocated_amount'', json_f64 (st_allocated_amount s)),
            (''posting_date'', JStr (st_posting_date s)),
            (''is_reversal'', JBool (st_is_reversal s))])
         now_ms)"

definition replicate_bin :: "ext \<Rightarrow> int \<Rightarrow> replication_sources \<Rightarrow> bin \<Rightarrow> mutation_record" where
  "replicate_bin x now_ms src b =
     (let bin_id = ''BIN-'' @ bin_item b @ ''-'' @ bin_warehouse b in
      replica src now_ms
        (''postmut-'' @ pd_id (rs_document src) @ ''-bin-'' @ bin_item b @ ''-'' @ bin_warehouse b @ replica_sfx src)
        UpdateDocument ''Bin'' bin_id
        (row_envelope x bin_id ''Bin'' 0
          (obj_of
            [(''item'', JStr (bin_item b)), (''warehouse'', JStr (bin_warehouse b)),
             (''actual_qty'', json_f64 (bin_actual_qty b)), (''stock_value'', json_f64 (bin_stock_value b)),
             (''valuation_rate'', json_f64 (bin_valuation_rate b))])
          now_ms))"

definition replicate_outstanding :: "ext \<Rightarrow> int \<Rightarrow> replication_sources \<Rightarrow> posted_document \<Rightarrow> mutation_record" where
  "replicate_outstanding x now_ms src invoice =
     replica src now_ms
       (''postmut-'' @ pd_id (rs_document src) @ ''-outstanding-'' @ pd_id invoice @ replica_sfx src)
       UpdateDocument (pd_doctype invoice) (pd_id invoice)
       (row_envelope x (pd_id invoice) (pd_doctype invoice) (pd_docstatus invoice) (numbered_fields invoice) now_ms)"

definition replication_mutations :: "ext \<Rightarrow> int \<Rightarrow> replication_sources \<Rightarrow> mutation_record list" where
  "replication_mutations x now_ms src =
     [replicate_document x now_ms src]
     @ map (replicate_gl x now_ms src) (rs_gl_entries src)
     @ map (replicate_sle x now_ms src) (rs_stock_ledger_entries src)
     @ map (replicate_party x now_ms src) (rs_party_transactions src)
     @ map (replicate_tax x now_ms src) (rs_tax_transactions src)
     @ map (replicate_settlement x now_ms src) (rs_settlements src)
     @ map (replicate_bin x now_ms src) (rs_bins src)
     @ map (replicate_outstanding x now_ms src) (rs_outstanding_documents src)"

lemmas replicate_defs = replicate_document_def replicate_gl_def replicate_sle_def replicate_party_def
  replicate_tax_def replicate_settlement_def replicate_bin_def replicate_outstanding_def

lemma replica_sel [simp]:
  "mr_id (replica src now i ty dt d p) = i" "mr_type (replica src now i ty dt d p) = ty"
  "mr_doc_type (replica src now i ty dt d p) = dt" "mr_document_id (replica src now i ty dt d p) = d"
  "mr_payload (replica src now i ty dt d p) = p" "mr_device_id (replica src now i ty dt d p) = rs_device src"
  by (simp_all add: replica_def)

lemma header_fields_get:
  "obj_get (header_fields (JObj m)) k =
     (if k \<in> {''items'', ''taxes'', ''references'', ''tenders'', ''accounts''} then None else obj_get m k)"
  by (simp add: header_fields_def)

lemma replication_device: "m \<in> set (replication_mutations x now src) \<Longrightarrow> mr_device_id m = rs_device src"
  by (auto simp: replication_mutations_def replicate_defs Let_def)

text \<open>Reading a replicated document back: with a JSON reader that inverts the printer, folding the
  document's own mutation over the read model gives the payload's header fields with the official
  number, the posted docstatus, and leaves the child rows of the draft alone.\<close>

theorem fold_replicated_document:
  assumes "ext_from_str x (ext_to_string x (JObj (numbered_fields d))) = Some (JObj (numbered_fields d))"
    and "rs_document src = d" "obj_get (numbered_fields d) ''__children'' = None"
    and "- 32768 \<le> pd_docstatus d" "pd_docstatus d < 32768"
  shows "fold_mutation x existing (replicate_document x now src) c t = Upsert \<lparr>
    cd_company = c, cd_doctype = pd_doctype d, cd_document_id = pd_id d,
    cd_payload = JObj (obj_remove ''__children'' (numbered_fields d)),
    cd_children = Option.bind existing cd_children, cd_docstatus = pd_docstatus d, cd_updated_at = t\<rparr>"
proof -
  have ty: "mr_type (replicate_document x now src) \<noteq> DeleteDocument"
    "folds_documents (mr_type (replicate_document x now src))"
    by (auto simp: replicate_document_def Let_def folds_documents_def)
  have p: "obj_get (mr_payload (replicate_document x now src)) k
      = obj_get (row_envelope x (pd_id d) (pd_doctype d) (pd_docstatus d) (numbered_fields d) now) k" for k
    using assms(2) by (simp add: replicate_document_def Let_def)
  have "envelope_fields x (mr_payload (replicate_document x now src)) = numbered_fields d"
    using assms(1) by (simp add: envelope_fields_def p row_envelope_def obj_of_get)
  moreover have "fold_docstatus (replicate_document x now src) existing = pd_docstatus d"
    using assms(4,5)
    by (simp add: fold_docstatus_def p row_envelope_def obj_of_get json_int_def i64_max_def to_i16_def)
  moreover have "fold_children (numbered_fields d) (mr_payload (replicate_document x now src)) existing
      = Option.bind existing cd_children"
    using assms(3) by (simp add: fold_children_def p row_envelope_def obj_of_get)
  ultimately show ?thesis using ty assms(2) by (simp add: fold_mutation_def replicate_document_def Let_def)
qed

text \<open>An instance: a submitted customer record read back over no existing row.\<close>

definition demo_document :: posted_document where
  "demo_document = \<lparr>pd_id = ''I1'', pd_company = ''co'', pd_doctype = ''Sales Invoice'', pd_payload = JObj [(''grand_total'', JNum (JInt 100))],
     pd_docstatus = 1, pd_official_number = Some ''SINV-00001'', pd_created_at = 0\<rparr>"

definition reading_ext :: ext where
  "reading_ext = \<lparr>ext_from_str = (\<lambda>_. Some (JObj (numbered_fields demo_document))), ext_to_string = (\<lambda>_. ''{}''),
     ext_from_ymd = (\<lambda>_ _ _. True), ext_sha256 = (\<lambda>s. s), ext_hex = (\<lambda>s. s)\<rparr>"

definition demo_sources :: replication_sources where
  "demo_sources = \<lparr>rs_document = demo_document, rs_is_cancel = False, rs_gl_entries = [], rs_stock_ledger_entries = [],
     rs_party_transactions = [], rs_tax_transactions = [], rs_settlements = [], rs_bins = [], rs_outstanding_documents = [],
     rs_user = None, rs_device = ''server''\<rparr>"

theorem fold_replicated_document_witness:
  "\<exists>row. fold_mutation reading_ext None (replicate_document reading_ext 7 demo_sources) ''co'' 9 = Upsert row \<and> cd_docstatus row = 1"
proof -
  have "obj_get (numbered_fields demo_document) ''__children'' = None"
    by (simp add: numbered_fields_def insert_opt_def demo_document_def header_fields_get) (simp add: obj_get_def)
  then show ?thesis
    using fold_replicated_document [of reading_ext demo_document demo_sources None 7 "''co''" 9]
    by (simp add: reading_ext_def demo_sources_def demo_document_def)
qed

end
