(* ===== verification/History.thy ===== *)
theory History
  imports Posting_Model
begin

text \<open>
  \<^verbatim>\<open>src/src/history.rs\<close>: the hash chain over a company's mutation log, the checkpoint a device
  compares, and the pure part of a lost-history report (numbering floors).
\<close>

definition HISTORY_PROTOCOL :: int where
  "HISTORY_PROTOCOL = 1"

definition GENESIS :: string where
  "GENESIS = replicate 32 (char_of (0 :: nat))"

definition canonical :: "ext \<Rightarrow> json \<Rightarrow> string" where
  "canonical x record = ext_to_string x
     (case record of JObj m \<Rightarrow> JObj (obj_remove ''syncVersion'' m) | v \<Rightarrow> v)"

text \<open>\<open>i64::to_be_bytes\<close>.\<close>

definition to_be_bytes :: "int \<Rightarrow> string" where
  "to_be_bytes v = map (\<lambda>i. char_of (nat ((v mod 2 ^ 64) div 256 ^ i mod 256))) [7, 6, 5, 4, 3, 2, 1, 0]"

text \<open>The bytes the outer digest of a link is taken over.\<close>

definition link_input :: "ext \<Rightarrow> string \<Rightarrow> int \<Rightarrow> string \<Rightarrow> json \<Rightarrow> string" where
  "link_input x prev version mutation_id record =
     prev @ to_be_bytes version @ mutation_id @ [char_of (0 :: nat)] @ ext_sha256 x (canonical x record)"

definition link :: "ext \<Rightarrow> string \<Rightarrow> int \<Rightarrow> string \<Rightarrow> json \<Rightarrow> string" where
  "link x prev version mutation_id record = ext_sha256 x (link_input x prev version mutation_id record)"

record history_checkpoint =
  hc_protocol :: int
  hc_head :: int
  hc_head_hash :: string
  hc_at :: int
  hc_at_hash :: "string option"

record lost_record =
  lo_doctype :: string
  lo_document_id :: string
  lo_number :: "string option"
  lo_posting_date :: "string option"
  lo_total :: "f64 option"

record lost_history_report =
  lh_recovery_id :: string
  lh_lost :: "lost_record list"

definition floor_for :: "string \<Rightarrow> string \<Rightarrow> (string \<times> int) option" where
  "floor_for doctype number =
     (case series_key doctype of
        None \<Rightarrow> None
      | Some key \<Rightarrow>
          (case Option.bind (strip_prefix key number) (strip_prefix ''-'') of
             None \<Rightarrow> None
           | Some digits \<Rightarrow>
               if digits = [] \<or> \<not> list_all is_digit digits then None
               else (case parse_i64 digits of
                       Some n \<Rightarrow> if 0 < n then Some (key, n) else None
                     | None \<Rightarrow> None)))"

text \<open>The loop state: still-present rows, reused numbers, floors by series.\<close>

type_synonym lost_acc = "json list \<times> json list \<times> (string \<times> int) list"

definition lost_step :: "lost_acc \<Rightarrow> lost_record \<times> bool \<times> string option \<Rightarrow> lost_acc" where
  "lost_step acc entry =
     (let (still_present, number_reused, floors) = acc;
          (record, present, holder) = entry in
      if present then
        (still_present @ [JObj (obj_of [(''doctype'', JStr (lo_doctype record)),
           (''document_id'', JStr (lo_document_id record))])], number_reused, floors)
      else
        (still_present,
         (case holder of
            None \<Rightarrow> number_reused
          | Some h \<Rightarrow> number_reused @ [JObj (obj_of [(''doctype'', JStr (lo_doctype record)),
              (''number'', json_opt JStr (lo_number record)),
              (''lost_document_id'', JStr (lo_document_id record)),
              (''server_document_id'', JStr h)])]),
         (case Option.bind (lo_number record) (floor_for (lo_doctype record)) of
            None \<Rightarrow> floors
          | Some (key, value) \<Rightarrow>
              bt_insert key (max (case map_of floors key of Some f \<Rightarrow> f | None \<Rightarrow> 0) value) floors)))"

definition lost_history_outcome ::
  "lost_history_report \<Rightarrow> (bool \<times> string option) list \<Rightarrow> json \<times> (string \<times> int) list" where
  "lost_history_outcome report found =
     (let (still_present, number_reused, floors) = foldl lost_step ([], [], []) (zip (lh_lost report) found) in
      (JObj (obj_of
         [(''recovery_id'', JStr (lh_recovery_id report)),
          (''reported'', json_int (int (length (lh_lost report)))),
          (''still_present'', JArr still_present),
          (''number_reused'', JArr number_reused),
          (''numbering_floors'', JArr (map (\<lambda>(series, value). JObj (obj_of
             [(''series'', JStr series), (''floor'', json_int value)])) floors))]),
       floors))"

definition lost_history_audit_detail :: "lost_history_report \<Rightarrow> json \<Rightarrow> json" where
  "lost_history_audit_detail report response = JObj (obj_of
     [(''recovery_id'', JStr (lh_recovery_id report)),
      (''reported'', json_int (int (length (lh_lost report)))),
      (''number_reused'', json_int (case as_array (jindex response ''number_reused'') of
         Some a \<Rightarrow> int (length a) | None \<Rightarrow> 0))])"

section \<open>Numbers and floors\<close>

lemma floor_for_format:
  assumes "series_key doctype = Some key" "0 < v" "v \<le> i64_max"
  shows "floor_for doctype (format_number key v) = Some (key, v)"
proof -
  have d: "list_all is_digit (pad5 v)" "pad5 v \<noteq> []" "int (read_nat (pad5 v)) = v"
    using pad5_digits [of v] read_pad5 [of v] assms(2) by auto
  then have "parse_i64 (pad5 v) = Some v" using parse_i64_digits [of "pad5 v"] assms(3) by simp
  moreover have "Option.bind (strip_prefix key (format_number key v)) (strip_prefix ''-'') = Some (pad5 v)"
    by (simp add: format_number_def bind_eq_Some_conv)
  ultimately show ?thesis using assms(1,2) d by (simp add: floor_for_def)
qed

text \<open>Every floor of the outcome comes from a lost number of its series, and covers each of them.\<close>

lemma lost_step_floor:
  assumes "\<not> present" "Option.bind (lo_number r) (floor_for (lo_doctype r)) = Some (k, v)"
  shows "\<exists>f. map_of (snd (snd (lost_step acc (r, present, h)))) k = Some f \<and> v \<le> f"
  using assms by (auto simp: lost_step_def Let_def case_prod_beta)

lemma lost_step_keeps:
  assumes "map_of (snd (snd acc)) k = Some f"
  shows "\<exists>g. map_of (snd (snd (lost_step acc e))) k = Some g \<and> f \<le> g"
  using assms by (auto simp: lost_step_def Let_def case_prod_beta split: option.splits)

lemma lost_fold_keeps:
  "map_of (snd (snd acc)) k = Some f \<Longrightarrow> \<exists>g. map_of (snd (snd (foldl lost_step acc es))) k = Some g \<and> f \<le> g"
proof (induction es arbitrary: acc f)
  case (Cons e es)
  from lost_step_keeps [OF Cons.prems, of e] obtain g where
    g: "map_of (snd (snd (lost_step acc e))) k = Some g" "f \<le> g" by blast
  then show ?case using Cons.IH [OF g(1)] by (auto intro: order_trans)
qed auto

lemma lost_fold_floor:
  assumes "(r, False, h) \<in> set es" "Option.bind (lo_number r) (floor_for (lo_doctype r)) = Some (k, v)"
  shows "\<exists>f. map_of (snd (snd (foldl lost_step acc es))) k = Some f \<and> v \<le> f"
  using assms(1)
proof (induction es arbitrary: acc)
  case (Cons e es)
  show ?case
  proof (cases "e = (r, False, h)")
    case True
    obtain f where f: "map_of (snd (snd (lost_step acc e))) k = Some f" "v \<le> f"
      using lost_step_floor [of False r k v acc h] assms(2) True by auto
    then show ?thesis using lost_fold_keeps [OF f(1), of es] by (auto intro: order_trans)
  next
    case False
    then show ?thesis using Cons by auto
  qed
qed simp

section \<open>The chain\<close>

text \<open>The chain value after a list of (version, id, record) entries.\<close>

definition chain_step :: "ext \<Rightarrow> string \<Rightarrow> int \<times> string \<times> json \<Rightarrow> string" where
  "chain_step x prev e = (case e of (v, i, r) \<Rightarrow> link x prev v i r)"

definition chain_value :: "ext \<Rightarrow> (int \<times> string \<times> json) list \<Rightarrow> string" where
  "chain_value x es = foldl (chain_step x) GENESIS es"

text \<open>Every byte string the two digests of a chain are taken over.\<close>

fun digest_inputs :: "ext \<Rightarrow> string \<Rightarrow> (int \<times> string \<times> json) list \<Rightarrow> string set" where
  "digest_inputs x prev [] = {}"
| "digest_inputs x prev ((v, i, r) # es) =
     {canonical x r, link_input x prev v i r} \<union> digest_inputs x (link x prev v i r) es"

definition hash_collision :: "ext \<Rightarrow> string set \<Rightarrow> bool" where
  "hash_collision x S \<longleftrightarrow> (\<exists>a\<in>S. \<exists>b\<in>S. a \<noteq> b \<and> ext_sha256 x a = ext_sha256 x b)"

lemma to_be_bytes_length [simp]: "length (to_be_bytes v) = 8"
  by (simp add: to_be_bytes_def)

lemma digest_inputs_append:
  "digest_inputs x p (xs @ ys) = digest_inputs x p xs \<union> digest_inputs x (foldl (chain_step x) p xs) ys"
  by (induction x p xs rule: digest_inputs.induct) (auto simp: chain_step_def)

lemma link_input_inj:
  assumes "link_input x p v i r = link_input x q w j s" "length p = length q"
    and "\<And>a. length (ext_sha256 x a) = 32"
  shows "p = q \<and> to_be_bytes v = to_be_bytes w \<and> i = j \<and> ext_sha256 x (canonical x r) = ext_sha256 x (canonical x s)"
proof -
  have "p = q \<and> to_be_bytes v @ i @ [char_of (0::nat)] @ ext_sha256 x (canonical x r)
      = to_be_bytes w @ j @ [char_of (0::nat)] @ ext_sha256 x (canonical x s)"
    using assms(1,2) by (simp add: link_input_def)
  then have p: "p = q" "to_be_bytes v = to_be_bytes w"
    "(i @ [char_of (0::nat)]) @ ext_sha256 x (canonical x r) = (j @ [char_of (0::nat)]) @ ext_sha256 x (canonical x s)"
    by simp_all
  have "i @ [char_of (0::nat)] = j @ [char_of (0::nat)] \<and> ext_sha256 x (canonical x r) = ext_sha256 x (canonical x s)"
    using p(3) assms(3) by (metis append_eq_append_conv)
  then show ?thesis using p by simp
qed

text \<open>
  Two chains of the same length with the same value were built from the same ids and the same
  canonical records, entry by entry, unless two of the byte strings they digested collide.
\<close>

definition same_entry :: "ext \<Rightarrow> int \<times> string \<times> json \<Rightarrow> int \<times> string \<times> json \<Rightarrow> bool" where
  "same_entry x e f = (case (e, f) of ((v, i, r), (w, j, s)) \<Rightarrow> i = j \<and> canonical x r = canonical x s)"

lemma GENESIS_length [simp]: "length GENESIS = 32"
  by (simp add: GENESIS_def)

lemma chain_value_length:
  "(\<And>a. length (ext_sha256 x a) = 32) \<Longrightarrow> length (chain_value x es) = 32"
  by (cases es rule: rev_cases) (auto simp: chain_value_def chain_step_def link_def)

lemma chain_value_determines:
  assumes "length es = length fs" "chain_value x es = chain_value x fs"
    and len: "\<And>a. length (ext_sha256 x a) = 32"
    and nocoll: "\<not> hash_collision x (digest_inputs x GENESIS es \<union> digest_inputs x GENESIS fs)"
  shows "list_all2 (same_entry x) es fs"
  using assms(1,2,4)
proof (induction es arbitrary: fs rule: rev_induct)
  case Nil
  then show ?case by simp
next
  case (snoc e es)
  from snoc.prems(1) obtain f fs' where fs: "fs = fs' @ [f]" by (cases fs rule: rev_cases) auto
  obtain v i r where e: "e = (v, i, r)" by (cases e)
  obtain w j s where f: "f = (w, j, s)" by (cases f)
  let ?p = "chain_value x es" and ?q = "chain_value x fs'"
  let ?S = "digest_inputs x GENESIS (es @ [e]) \<union> digest_inputs x GENESIS fs"
  have sub: "{canonical x r, link_input x ?p v i r, canonical x s, link_input x ?q w j s} \<subseteq> ?S"
    "digest_inputs x GENESIS es \<union> digest_inputs x GENESIS fs' \<subseteq> ?S"
    by (auto simp: fs e f digest_inputs_append chain_value_def)
  have "ext_sha256 x (link_input x ?p v i r) = ext_sha256 x (link_input x ?q w j s)"
    using snoc.prems(2) by (simp add: chain_value_def fs e f chain_step_def link_def)
  then have "link_input x ?p v i r = link_input x ?q w j s"
    using snoc.prems(3) sub(1) unfolding hash_collision_def by blast
  then have l: "?p = ?q" "i = j" "ext_sha256 x (canonical x r) = ext_sha256 x (canonical x s)"
    using link_input_inj [of x ?p v i r ?q w j s] chain_value_length [OF len] len by auto
  then have "canonical x r = canonical x s"
    using snoc.prems(3) sub(1) unfolding hash_collision_def by blast
  moreover have "list_all2 (same_entry x) es fs'"
    using snoc.prems l(1) sub(2) by (intro snoc.IH) (auto simp: fs hash_collision_def)
  moreover have "same_entry x e f" using l(2) calculation(1) by (simp add: e f same_entry_def)
  ultimately show ?case by (simp add: fs list_all2_appendI)
qed

end
