(* ===== verification/Mem_Store.thy ===== *)
theory Mem_Store
  imports Replication History
begin

text \<open>
  \<^verbatim>\<open>src/src/store/mem.rs\<close>, the state of the store and its log, settings and lookup operations.
  Every method of the store runs under one mutex, so it is one function on the state; the clock
  (\<open>Utc::now()\<close>) and fresh ids are arguments. A \<open>HashMap\<close> that is only looked up is a map; one
  that the code iterates is an association list in insertion order (\<open>AList.update\<close> replaces in
  place or appends); a \<open>HashMap\<close> of vectors or counters read with a default is a total function.
\<close>

record stored_mutation =
  sd_record :: mutation_record
  sd_version :: int
  sd_acknowledged :: bool

type_synonym doc_key = "uuid \<times> string \<times> string"

record inner =
  companies :: "uuid \<rightharpoonup> company"
  users :: "uuid \<rightharpoonup> user"
  users_by_email :: "string \<rightharpoonup> uuid"
  memberships :: "((uuid \<times> uuid) \<times> (role \<times> int)) list"
  user_tokens :: "string \<rightharpoonup> uuid \<times> uuid \<times> int option"
  invitations :: "(uuid \<times> invitation) list"
  devices :: "(uuid \<times> device) list"
  device_tokens :: "string \<rightharpoonup> uuid"
  mutations :: "uuid \<Rightarrow> stored_mutation list"
  mutation_versions :: "uuid \<times> string \<rightharpoonup> int"
  counters :: "uuid \<Rightarrow> int"
  chain :: "uuid \<Rightarrow> string list"
  history_recoveries :: "uuid \<times> string \<rightharpoonup> json"
  blobs :: "uuid \<times> string \<rightharpoonup> string"
  audit :: "audit_entry list"
  webhooks :: "webhook_event list"
  settings :: "uuid \<rightharpoonup> company_settings"
  items :: "uuid \<times> string \<rightharpoonup> item"
  documents :: "(doc_key \<times> posted_document) list"
  gl_entries :: "uuid \<Rightarrow> gl_entry list"
  stock_ledger :: "uuid \<Rightarrow> stock_ledger_entry list"
  sle_seqs :: "uuid \<Rightarrow> int"
  bins :: "((uuid \<times> string \<times> string) \<times> bin) list"
  party_transactions :: "uuid \<Rightarrow> party_transaction list"
  tax_transactions :: "uuid \<Rightarrow> tax_transaction list"
  settlements :: "uuid \<Rightarrow> settlement list"
  batches :: "uuid \<times> string \<rightharpoonup> posting_batch"
  series :: "uuid \<times> string \<Rightarrow> int"
  solo_migrations :: "uuid \<rightharpoonup> string \<times> string"
  idempotency :: "uuid \<times> string \<rightharpoonup> json"
  portal_links :: "(uuid \<times> portal_link) list"
  pay_links :: "(uuid \<times> pay_link) list"
  company_documents :: "(doc_key \<times> company_document) list"

definition empty_store :: inner where
  "empty_store = \<lparr>
     companies = Map.empty, users = Map.empty, users_by_email = Map.empty, memberships = [],
     user_tokens = Map.empty, invitations = [], devices = [], device_tokens = Map.empty,
     mutations = (\<lambda>_. []), mutation_versions = Map.empty, counters = (\<lambda>_. 0), chain = (\<lambda>_. []),
     history_recoveries = Map.empty, blobs = Map.empty, audit = [], webhooks = [],
     settings = Map.empty, items = Map.empty, documents = [], gl_entries = (\<lambda>_. []),
     stock_ledger = (\<lambda>_. []), sle_seqs = (\<lambda>_. 0), bins = [], party_transactions = (\<lambda>_. []),
     tax_transactions = (\<lambda>_. []), settlements = (\<lambda>_. []), batches = Map.empty,
     series = (\<lambda>_. 0), solo_migrations = Map.empty, idempotency = Map.empty,
     portal_links = [], pay_links = [], company_documents = []\<rparr>"

lemma empty_store_sel [simp]:
  "documents empty_store = []" "settings empty_store c = None" "items empty_store p = None" "series empty_store q = 0"
  "idempotency empty_store r = None" "gl_entries empty_store c = []" "stock_ledger empty_store c = []"
  "settlements empty_store c = []" "company_documents empty_store = []" "solo_migrations empty_store c = None"
  "mutations empty_store c = []" "bins empty_store = []" "sle_seqs empty_store c = 0" "counters empty_store c = 0"
  "party_transactions empty_store c = []" "tax_transactions empty_store c = []" "chain empty_store c = []"
  "mutation_versions empty_store v = None" "history_recoveries empty_store h = None"
  by (simp_all add: empty_store_def)

section \<open>The mutation log and its read model\<close>

definition apply_projection :: "ext \<Rightarrow> int \<Rightarrow> uuid \<Rightarrow> mutation_record \<Rightarrow> inner \<Rightarrow> inner" where
  "apply_projection x now company_id record s =
     (let key = (company_id, mr_doc_type record, mr_document_id record);
          existing = map_of (company_documents s) key in
      case fold_mutation x existing record company_id now of
        Upsert doc \<Rightarrow> s\<lparr>company_documents := AList.update key doc (company_documents s)\<rparr>
      | Delete \<Rightarrow> s\<lparr>company_documents := AList.delete key (company_documents s)\<rparr>
      | Keep \<Rightarrow> s)"

definition chain_tip :: "inner \<Rightarrow> uuid \<Rightarrow> string" where
  "chain_tip s c = (if chain s c = [] then GENESIS else last (chain s c))"

text \<open>One iteration of the loop: the state and the \<open>(id, version)\<close> pair it answers.\<close>

definition append_one :: "ext \<Rightarrow> int \<Rightarrow> uuid \<Rightarrow> mutation_record \<Rightarrow> inner \<Rightarrow> (string \<times> int) \<times> inner" where
  "append_one x now c record s =
     (case mutation_versions s (c, mr_id record) of
        Some existing \<Rightarrow> ((mr_id record, existing), s)
      | None \<Rightarrow>
          let version = i64_succ (counters s c);
              s1 = s\<lparr>counters := (counters s)(c := version),
                     mutation_versions := (mutation_versions s)((c, mr_id record) \<mapsto> version),
                     chain := (chain s)(c := chain s c @
                       [link x (chain_tip s c) version (mr_id record) (mutation_to_json record)])\<rparr>;
              s2 = apply_projection x now c record s1 in
          ((mr_id record, version),
           s2\<lparr>mutations := (mutations s2)(c := mutations s2 c @
             [\<lparr>sd_record = record, sd_version = version, sd_acknowledged = False\<rparr>])\<rparr>))"

fun append_mutations ::
  "ext \<Rightarrow> int \<Rightarrow> uuid \<Rightarrow> mutation_record list \<Rightarrow> inner \<Rightarrow> (string \<times> int) list \<times> inner" where
  "append_mutations x now c [] s = ([], s)"
| "append_mutations x now c (r # rs) s =
     (let (v, s1) = append_one x now c r s; (vs, s2) = append_mutations x now c rs s1 in (v # vs, s2))"

definition push_mutations ::
  "ext \<Rightarrow> int \<Rightarrow> uuid \<Rightarrow> mutation_record list \<Rightarrow> inner \<Rightarrow> (string \<times> int) list \<times> inner" where
  "push_mutations x now c ms s = append_mutations x now c ms s"

record mutation_page =
  pg_mutations :: "mutation_record list"
  pg_has_more :: bool
  pg_head :: int

definition max_or :: "int \<Rightarrow> int list \<Rightarrow> int" where
  "max_or d vs = (case vs of [] \<Rightarrow> d | v # r \<Rightarrow> foldl max v r)"

definition pull_mutations :: "inner \<Rightarrow> uuid \<Rightarrow> int \<Rightarrow> int \<Rightarrow> mutation_page" where
  "pull_mutations s c after page =
     (let log = mutations s c;
          head = max_or 0 (map sd_version log);
          out = sort_key fst (map (\<lambda>m. (sd_version m,
                  (sd_record m)\<lparr>mr_sync_version := Some (show_int (sd_version m))\<rparr>))
                  (filter (\<lambda>m. after < sd_version m) log));
          limit = (if page < 0 then 0 else nat page) in
      \<lparr>pg_mutations = map snd (take limit out), pg_has_more = limit < length out, pg_head = head\<rparr>)"

definition known_mutation_ids :: "inner \<Rightarrow> uuid \<Rightarrow> string list \<Rightarrow> string set" where
  "known_mutation_ids s c ids = set (filter (\<lambda>i. mutation_versions s (c, i) \<noteq> None) ids)"

text \<open>\<open>ack_mutations\<close>: the number of records it newly acknowledged, and the state.\<close>

definition ack_mutations :: "uuid \<Rightarrow> string list \<Rightarrow> inner \<Rightarrow> nat \<times> inner" where
  "ack_mutations c ids s =
     (let hit = (\<lambda>m. mr_id (sd_record m) \<in> set ids \<and> \<not> sd_acknowledged m) in
      (length (filter hit (mutations s c)),
       s\<lparr>mutations := (mutations s)(c :=
         map (\<lambda>m. if hit m then m\<lparr>sd_acknowledged := True\<rparr> else m) (mutations s c))\<rparr>))"

definition rebuild_projection :: "ext \<Rightarrow> int \<Rightarrow> uuid \<Rightarrow> inner \<Rightarrow> inner" where
  "rebuild_projection x now c s =
     (let kept = filter (\<lambda>(k, _). fst k \<noteq> c) (company_documents s);
          records = sort_key fst (map (\<lambda>m. (sd_version m, sd_record m)) (mutations s c)) in
      fold (apply_projection x now c) (map snd records) (s\<lparr>company_documents := kept\<rparr>))"

definition company_document_of :: "inner \<Rightarrow> uuid \<Rightarrow> string \<Rightarrow> string \<Rightarrow> company_document option" where
  "company_document_of s c doctype d = map_of (company_documents s) (c, doctype, d)"

definition company_documents_of :: "inner \<Rightarrow> uuid \<Rightarrow> string \<Rightarrow> company_document list" where
  "company_documents_of s c doctype =
     sort_key cd_document_id (map snd (filter (\<lambda>((co, dt, _), _). co = c \<and> dt = doctype) (company_documents s)))"

section \<open>History\<close>

definition hash_at :: "inner \<Rightarrow> uuid \<Rightarrow> int \<Rightarrow> string option" where
  "hash_at s c v =
     (if v \<le> 0 then Some GENESIS
      else if nat (v - 1) < length (chain s c) then Some (chain s c ! nat (v - 1)) else None)"

definition history_checkpoint :: "ext \<Rightarrow> inner \<Rightarrow> uuid \<Rightarrow> int \<Rightarrow> history_checkpoint" where
  "history_checkpoint x s c v =
     (let head = counters s c in
      \<lparr>hc_protocol = HISTORY_PROTOCOL,
       hc_head = head,
       hc_head_hash = ext_hex x (unwrap_or_default (hash_at s c head)),
       hc_at = max v 0,
       hc_at_hash = (if head < v then None else map_option (ext_hex x) (hash_at s c v))\<rparr>)"

definition lost_found :: "inner \<Rightarrow> uuid \<Rightarrow> lost_record \<Rightarrow> bool \<times> string option" where
  "lost_found s c r =
     (map_of (documents s) (c, lo_doctype r, lo_document_id r) \<noteq> None,
      (case lo_number r of
         None \<Rightarrow> None
       | Some n \<Rightarrow>
           if n = [] then None
           else map_option pd_id (find (\<lambda>d. pd_company d = c \<and> pd_doctype d = lo_doctype r
             \<and> pd_id d \<noteq> lo_document_id r \<and> pd_official_number d = Some n) (map snd (documents s)))))"

definition raise_floors :: "uuid \<Rightarrow> (string \<times> int) list \<Rightarrow> (uuid \<times> string \<Rightarrow> int) \<Rightarrow> (uuid \<times> string \<Rightarrow> int)" where
  "raise_floors c floors ser = fold (\<lambda>(k, v) m. m((c, k) := max (m (c, k)) v)) floors ser"

definition record_lost_history ::
  "uuid \<Rightarrow> lost_history_report \<Rightarrow> audit_entry \<Rightarrow> inner \<Rightarrow> (json \<times> bool) \<times> inner" where
  "record_lost_history c report entry s =
     (case history_recoveries s (c, lh_recovery_id report) of
        Some stored \<Rightarrow> ((stored, True), s)
      | None \<Rightarrow>
          let found = map (lost_found s c) (lh_lost report);
              (response, floors) = lost_history_outcome report found in
          ((response, False),
           s\<lparr>series := raise_floors c floors (series s),
             history_recoveries := (history_recoveries s)((c, lh_recovery_id report) \<mapsto> response),
             audit := audit s @ [entry\<lparr>au_detail := lost_history_audit_detail report response\<rparr>]\<rparr>))"

section \<open>Settings and the books lock\<close>

definition company_settings_of :: "inner \<Rightarrow> uuid \<Rightarrow> company_settings" where
  "company_settings_of s c = (case settings s c of Some v \<Rightarrow> v | None \<Rightarrow> default_settings)"

definition current_lock :: "inner \<Rightarrow> uuid \<Rightarrow> string option" where
  "current_lock s c = Option.bind (settings s c) cs_books_lock_date"

definition put_company_settings :: "uuid \<Rightarrow> company_settings \<Rightarrow> inner \<Rightarrow> inner" where
  "put_company_settings c v s =
     s\<lparr>settings := (settings s)(c \<mapsto> v\<lparr>cs_books_lock_date := current_lock s c\<rparr>)\<rparr>"

definition set_books_lock :: "uuid \<Rightarrow> books_lock_change \<Rightarrow> inner \<Rightarrow> (store_error + books_lock_outcome) \<times> inner" where
  "set_books_lock c change s =
     (let v = company_settings_of s c;
          previous = cs_books_lock_date v in
      if previous = bl_lock_date change then
        (Inr \<lparr>bo_previous = previous, bo_lock_date = previous, bo_changed = False\<rparr>, s)
      else if previous \<noteq> bl_expected_current change then
        (Inl (Conflict (Period (BooksLockMoved previous))), s)
      else
        (Inr \<lparr>bo_previous = previous, bo_lock_date = bl_lock_date change, bo_changed = True\<rparr>,
         s\<lparr>settings := (settings s)(c \<mapsto> v\<lparr>cs_books_lock_date := bl_lock_date change\<rparr>),
           audit := audit s @ [bl_audit change]\<rparr>))"

text \<open>\<open>lock_violation\<close> of \<^verbatim>\<open>src/src/store/mod.rs\<close>.\<close>

definition lock_violation :: "string \<Rightarrow> string option \<Rightarrow> reason option" where
  "lock_violation date lock = (case lock of
       Some l \<Rightarrow> if date \<le> l then Some (Period (LockedPeriod date l)) else None
     | None \<Rightarrow> None)"

section \<open>Items and lookups\<close>

definition upsert_item :: "uuid \<Rightarrow> item \<Rightarrow> inner \<Rightarrow> inner" where
  "upsert_item c item s = s\<lparr>items := (items s)((c, it_id item) \<mapsto> item)\<rparr>"

definition items_of_ids :: "inner \<Rightarrow> uuid \<Rightarrow> string list \<Rightarrow> item list" where
  "items_of_ids s c ids = List.map_filter (\<lambda>i. items s (c, i)) ids"

definition posted_document_of :: "inner \<Rightarrow> uuid \<Rightarrow> string \<Rightarrow> string \<Rightarrow> posted_document option" where
  "posted_document_of s c doctype d = map_of (documents s) (c, doctype, d)"

definition deposit_applications :: "inner \<Rightarrow> uuid \<Rightarrow> string \<Rightarrow> posted_document list" where
  "deposit_applications s c deposit_id =
     map snd (filter (\<lambda>((co, dt, _), doc). co = c \<and> dt = ''Payment Entry''
       \<and> map_option trim (Option.bind (jget (pd_payload doc) ''deposit'') as_str) = Some deposit_id)
       (documents s))"

definition sles_for_pair :: "inner \<Rightarrow> uuid \<Rightarrow> string \<Rightarrow> string \<Rightarrow> stock_ledger_entry list" where
  "sles_for_pair s c item wh = filter (\<lambda>e. sle_item e = item \<and> sle_warehouse e = wh) (stock_ledger s c)"

definition sles_for_voucher :: "inner \<Rightarrow> uuid \<Rightarrow> string \<Rightarrow> stock_ledger_entry list" where
  "sles_for_voucher s c v = filter (\<lambda>e. sle_voucher_no e = v) (stock_ledger s c)"

definition gl_for_voucher :: "inner \<Rightarrow> uuid \<Rightarrow> string \<Rightarrow> gl_entry list" where
  "gl_for_voucher s c v = filter (\<lambda>e. gl_voucher_no e = v) (gl_entries s c)"

definition party_transactions_for_voucher :: "inner \<Rightarrow> uuid \<Rightarrow> string \<Rightarrow> party_transaction list" where
  "party_transactions_for_voucher s c v = filter (\<lambda>t. pt_voucher_no t = v) (party_transactions s c)"

definition tax_transactions_for_voucher :: "inner \<Rightarrow> uuid \<Rightarrow> string \<Rightarrow> tax_transaction list" where
  "tax_transactions_for_voucher s c v = filter (\<lambda>t. tt_voucher_no t = v) (tax_transactions s c)"

definition settlements_for_invoice :: "inner \<Rightarrow> uuid \<Rightarrow> string \<Rightarrow> string \<Rightarrow> settlement list" where
  "settlements_for_invoice s c doctype no =
     filter (\<lambda>t. st_invoice_voucher_type t = doctype \<and> st_invoice_voucher_no t = no) (settlements s c)"

definition settlements_for_payment :: "inner \<Rightarrow> uuid \<Rightarrow> string \<Rightarrow> settlement list" where
  "settlements_for_payment s c no = filter (\<lambda>t. st_payment_voucher_no t = no) (settlements s c)"

definition idempotent_response :: "inner \<Rightarrow> uuid \<Rightarrow> string \<Rightarrow> json option" where
  "idempotent_response s c key = idempotency s (c, key)"

definition posted_document_counts :: "inner \<Rightarrow> uuid \<Rightarrow> (string \<times> int) list" where
  "posted_document_counts s c =
     fold (\<lambda>dt m. bt_insert dt ((case map_of m dt of Some n \<Rightarrow> n | None \<Rightarrow> 0) + 1) m)
       (map (\<lambda>((_, dt, _), _). dt) (filter (\<lambda>((co, _, _), _). co = c) (documents s))) []"

definition gl_entries_ordered :: "inner \<Rightarrow> uuid \<Rightarrow> gl_entry list" where
  "gl_entries_ordered s c =
     sort_key (\<lambda>e. [gl_posting_date e, gl_voucher_no e, gl_id e]) (gl_entries s c)"

definition all_bins :: "inner \<Rightarrow> uuid \<Rightarrow> bin list" where
  "all_bins s c = map snd (filter (\<lambda>((co, _, _), _). co = c) (bins s))"

end
