(* ===== verification/Mem_Log.thy ===== *)
theory Mem_Log
  imports Mem_Store
begin

text \<open>
  The company mutation log of \<^verbatim>\<open>src/src/store/mem.rs\<close> as an append-only log keyed by mutation
  id (the interface \<open>keyed_log\<close>): versions are 1, 2, 3, \<dots> without gaps, a known id is never
  appended again, the hash chain is the chain of the log, pages of a pull partition the log, and
  the read model is the fold of the log.
\<close>

section \<open>The interface of a keyed log\<close>

text \<open>
  Appending a record with a new key adds it at the end, a known key changes nothing. \<open>cap\<close> is how
  many records the log can number.
\<close>

locale keyed_log =
  fixes append :: "'r \<Rightarrow> 's \<Rightarrow> 's"
    and key :: "'r \<Rightarrow> 'k"
    and log :: "'s \<Rightarrow> 'r list"
    and invar :: "'s \<Rightarrow> bool"
    and cap :: nat
  assumes append_known: "invar s \<Longrightarrow> key r \<in> key ` set (log s) \<Longrightarrow> append r s = s"
    and append_new: "invar s \<Longrightarrow> key r \<notin> key ` set (log s) \<Longrightarrow> length (log s) < cap \<Longrightarrow> log (append r s) = log s @ [r]"
    and invar_append: "invar s \<Longrightarrow> length (log s) < cap \<Longrightarrow> invar (append r s)"
begin

lemma append_length:
  assumes "invar s" "length (log s) < cap"
  shows "length (log (append r s)) \<le> Suc (length (log s))"
  using append_known [OF assms(1), of r] append_new [OF assms(1) _ assms(2), of r]
  by (cases "key r \<in> key ` set (log s)") auto

lemma append_keys:
  assumes "invar s" "length (log s) < cap"
  shows "key ` set (log (append r s)) = insert (key r) (key ` set (log s))"
  using append_known [OF assms(1), of r] append_new [OF assms(1) _ assms(2), of r]
  by (cases "key r \<in> key ` set (log s)") auto

lemma fold_invar:
  "invar s \<Longrightarrow> length (log s) + length rs \<le> cap \<Longrightarrow>
     invar (fold append rs s) \<and> prefix (log s) (log (fold append rs s)) \<and>
     key ` set (log (fold append rs s)) = key ` set rs \<union> key ` set (log s)"
proof (induction rs arbitrary: s)
  case (Cons r rs)
  have l: "length (log s) < cap" using Cons.prems(2) by simp
  have pre: "prefix (log s) (log (append r s))"
    using append_known [OF Cons.prems(1), of r] append_new [OF Cons.prems(1) _ l, of r]
    by (cases "key r \<in> key ` set (log s)") auto
  have "length (log (append r s)) + length rs \<le> cap"
    using append_length [OF Cons.prems(1) l, of r] Cons.prems(2) by simp
  note IH = Cons.IH [OF invar_append [OF Cons.prems(1) l, of r] this]
  have "prefix (log s) (log (fold append rs (append r s)))"
    using pre IH prefix_order.trans by blast
  then show ?case using IH append_keys [OF Cons.prems(1) l, of r] by auto
qed auto

lemma fold_known: "invar s \<Longrightarrow> key ` set rs \<subseteq> key ` set (log s) \<Longrightarrow> fold append rs s = s"
  by (induction rs) (auto simp: append_known)

text \<open>Appending a batch a second time changes nothing.\<close>

lemma fold_idempotent:
  assumes "invar s" "length (log s) + length rs \<le> cap"
  shows "fold append rs (fold append rs s) = fold append rs s"
  using fold_invar [OF assms] by (intro fold_known) auto

end

section \<open>The log of one company\<close>

definition log_records :: "inner \<Rightarrow> uuid \<Rightarrow> mutation_record list" where
  "log_records s c = map sd_record (mutations s c)"

definition log_entry :: "stored_mutation \<Rightarrow> int \<times> string \<times> json" where
  "log_entry m = (sd_version m, mr_id (sd_record m), mutation_to_json (sd_record m))"

definition log_entries :: "inner \<Rightarrow> uuid \<Rightarrow> (int \<times> string \<times> json) list" where
  "log_entries s c = map log_entry (mutations s c)"

text \<open>The chain values of every prefix of a list of entries, the empty one apart.\<close>

definition chain_of :: "ext \<Rightarrow> (int \<times> string \<times> json) list \<Rightarrow> string list" where
  "chain_of x es = map (\<lambda>k. chain_value x (take (Suc k) es)) [0..<length es]"

definition log_inv :: "ext \<Rightarrow> uuid \<Rightarrow> inner \<Rightarrow> bool" where
  "log_inv x c s \<longleftrightarrow>
     map sd_version (mutations s c) = map int [1..<Suc (length (mutations s c))] \<and>
     counters s c = int (length (mutations s c)) \<and>
     distinct (map mr_id (log_records s c)) \<and>
     (\<forall>i. mutation_versions s (c, i) = map_of (map (\<lambda>m. (mr_id (sd_record m), sd_version m)) (mutations s c)) i) \<and>
     chain s c = chain_of x (log_entries s c)"

lemma log_invD:
  assumes "log_inv x c s"
  shows "map sd_version (mutations s c) = map int [1..<Suc (length (mutations s c))]"
    and "counters s c = int (length (mutations s c))"
    and "distinct (map mr_id (log_records s c))"
    and "mutation_versions s (c, i) = map_of (map (\<lambda>m. (mr_id (sd_record m), sd_version m)) (mutations s c)) i"
    and "chain s c = chain_of x (log_entries s c)"
  using assms unfolding log_inv_def by blast+

definition max_log :: nat where
  "max_log = nat i64_max"

lemma max_log_counter: "n < max_log \<Longrightarrow> i64_succ (int n) = int (Suc n)"
  by (simp add: max_log_def i64_max_def i64_succ_def)

lemma log_inv_empty [simp]: "log_inv x c empty_store"
  by (simp add: log_inv_def empty_store_def log_records_def log_entries_def chain_of_def)

lemma chain_of_snoc: "chain_of x (es @ [e]) = chain_of x es @ [chain_value x (es @ [e])]"
  by (simp add: chain_of_def)

lemma chain_of_last: "(if chain_of x es = [] then GENESIS else last (chain_of x es)) = chain_value x es"
  by (cases es rule: rev_cases) (simp_all add: chain_of_snoc, simp add: chain_of_def chain_value_def)

lemma chain_value_snoc: "chain_value x (es @ [(v, i, r)]) = link x (chain_value x es) v i r"
  by (simp add: chain_value_def chain_step_def)

text \<open>The projection touches the read model only.\<close>

lemma apply_projection_frame [simp]:
  "mutations (apply_projection x now c r s) = mutations s"
  "mutation_versions (apply_projection x now c r s) = mutation_versions s"
  "counters (apply_projection x now c r s) = counters s"
  "chain (apply_projection x now c r s) = chain s"
  "documents (apply_projection x now c r s) = documents s"
  "series (apply_projection x now c r s) = series s"
  "settings (apply_projection x now c r s) = settings s"
  "stock_ledger (apply_projection x now c r s) = stock_ledger s"
  "gl_entries (apply_projection x now c r s) = gl_entries s"
  "settlements (apply_projection x now c r s) = settlements s"
  "bins (apply_projection x now c r s) = bins s"
  "idempotency (apply_projection x now c r s) = idempotency s"
  "sle_seqs (apply_projection x now c r s) = sle_seqs s"
  "batches (apply_projection x now c r s) = batches s"
  "audit (apply_projection x now c r s) = audit s"
  "party_transactions (apply_projection x now c r s) = party_transactions s"
  "tax_transactions (apply_projection x now c r s) = tax_transactions s"
  "solo_migrations (apply_projection x now c r s) = solo_migrations s"
  by (auto simp: apply_projection_def Let_def split: projection_action.splits)

lemma append_one_frame [simp]:
  "documents (snd (append_one x now c r s)) = documents s"
  "series (snd (append_one x now c r s)) = series s"
  "settings (snd (append_one x now c r s)) = settings s"
  "stock_ledger (snd (append_one x now c r s)) = stock_ledger s"
  "gl_entries (snd (append_one x now c r s)) = gl_entries s"
  "settlements (snd (append_one x now c r s)) = settlements s"
  "bins (snd (append_one x now c r s)) = bins s"
  "idempotency (snd (append_one x now c r s)) = idempotency s"
  "sle_seqs (snd (append_one x now c r s)) = sle_seqs s"
  "batches (snd (append_one x now c r s)) = batches s"
  "audit (snd (append_one x now c r s)) = audit s"
  "party_transactions (snd (append_one x now c r s)) = party_transactions s"
  "tax_transactions (snd (append_one x now c r s)) = tax_transactions s"
  "solo_migrations (snd (append_one x now c r s)) = solo_migrations s"
  by (auto simp: append_one_def Let_def split: option.splits)

lemma append_mutations_fold: "snd (append_mutations x now c rs s) = fold (\<lambda>r s. snd (append_one x now c r s)) rs s"
  by (induction rs arbitrary: s) (auto simp: case_prod_beta Let_def)

lemma append_mutations_frame [simp]:
  "documents (snd (append_mutations x now c rs s)) = documents s"
  "series (snd (append_mutations x now c rs s)) = series s"
  "settings (snd (append_mutations x now c rs s)) = settings s"
  "stock_ledger (snd (append_mutations x now c rs s)) = stock_ledger s"
  "gl_entries (snd (append_mutations x now c rs s)) = gl_entries s"
  "settlements (snd (append_mutations x now c rs s)) = settlements s"
  "bins (snd (append_mutations x now c rs s)) = bins s"
  "idempotency (snd (append_mutations x now c rs s)) = idempotency s"
  "sle_seqs (snd (append_mutations x now c rs s)) = sle_seqs s"
  "batches (snd (append_mutations x now c rs s)) = batches s"
  "audit (snd (append_mutations x now c rs s)) = audit s"
  "party_transactions (snd (append_mutations x now c rs s)) = party_transactions s"
  "tax_transactions (snd (append_mutations x now c rs s)) = tax_transactions s"
  "solo_migrations (snd (append_mutations x now c rs s)) = solo_migrations s"
  unfolding append_mutations_fold by (induction rs arbitrary: s; simp)+

lemma log_inv_known:
  assumes "log_inv x c s"
  shows "mutation_versions s (c, i) \<noteq> None \<longleftrightarrow> i \<in> mr_id ` set (log_records s c)"
proof -
  have "mutation_versions s (c, i) = map_of (map (\<lambda>m. (mr_id (sd_record m), sd_version m)) (mutations s c)) i"
    using assms by (simp add: log_inv_def)
  then show ?thesis by (simp only: log_records_def) (auto simp: map_of_eq_None_iff image_iff)
qed

lemma append_one_known:
  assumes "log_inv x c s" "mr_id r \<in> mr_id ` set (log_records s c)"
  shows "snd (append_one x now c r s) = s"
  using log_inv_known [OF assms(1), of "mr_id r"] assms(2) by (auto simp: append_one_def)

lemma append_one_new:
  assumes "log_inv x c s" "mr_id r \<notin> mr_id ` set (log_records s c)" "length (log_records s c) < max_log"
  defines "v \<equiv> int (Suc (length (log_records s c)))"
  shows "mutations (snd (append_one x now c r s)) c
      = mutations s c @ [\<lparr>sd_record = r, sd_version = v, sd_acknowledged = False\<rparr>]"
    and "counters (snd (append_one x now c r s)) c = v"
    and "mutation_versions (snd (append_one x now c r s)) = (mutation_versions s)((c, mr_id r) \<mapsto> v)"
    and "chain (snd (append_one x now c r s)) c = chain s c @ [link x (chain_tip s c) v (mr_id r) (mutation_to_json r)]"
    and "fst (append_one x now c r s) = (mr_id r, v)"
proof -
  have n: "mutation_versions s (c, mr_id r) = None" using log_inv_known [OF assms(1), of "mr_id r"] assms(2) by blast
  have v: "i64_succ (counters s c) = v"
    using assms(1) max_log_counter [OF assms(3)] by (simp add: log_inv_def v_def log_records_def)
  show "mutations (snd (append_one x now c r s)) c
      = mutations s c @ [\<lparr>sd_record = r, sd_version = v, sd_acknowledged = False\<rparr>]"
    "counters (snd (append_one x now c r s)) c = v"
    "mutation_versions (snd (append_one x now c r s)) = (mutation_versions s)((c, mr_id r) \<mapsto> v)"
    "chain (snd (append_one x now c r s)) c = chain s c @ [link x (chain_tip s c) v (mr_id r) (mutation_to_json r)]"
    "fst (append_one x now c r s) = (mr_id r, v)"
    by (simp_all add: append_one_def n v Let_def)
qed

lemma map_of_snoc_new: "k \<notin> fst ` set xs \<Longrightarrow> map_of (xs @ [(k, v)]) = (map_of xs)(k \<mapsto> v)"
  by (induction xs) auto

lemma append_one_inv:
  assumes "log_inv x c s" "length (log_records s c) < max_log"
  shows "log_inv x c (snd (append_one x now c r s))"
proof (cases "mr_id r \<in> mr_id ` set (log_records s c)")
  case True
  then show ?thesis using append_one_known [OF assms(1)] assms(1) by simp
next
  case False
  note new = append_one_new [OF assms(1) False assms(2), of now]
  let ?t = "snd (append_one x now c r s)" and ?v = "int (Suc (length (log_records s c)))"
    and ?kv = "\<lambda>m. (mr_id (sd_record m), sd_version m)"
  have e: "log_entries ?t c = log_entries s c @ [(?v, mr_id r, mutation_to_json r)]"
    using new(1) by (simp add: log_entries_def log_entry_def)
  have "chain_tip s c = chain_value x (log_entries s c)"
    by (simp only: chain_tip_def log_invD(5) [OF assms(1)] chain_of_last)
  then have "chain ?t c = chain_of x (log_entries ?t c)"
    using assms(1) new(4) by (simp add: e chain_of_snoc chain_value_snoc log_inv_def)
  moreover have "mutation_versions ?t (c, i) = map_of (map ?kv (mutations ?t c)) i" for i
  proof -
    have k: "mr_id r \<notin> fst ` set (map ?kv (mutations s c))"
      using False by (simp add: log_records_def image_image)
    have "map ?kv (mutations ?t c) = map ?kv (mutations s c) @ [(mr_id r, ?v)]" by (simp add: new(1))
    then show ?thesis
      by (simp only: map_of_snoc_new [OF k] new(3)) (simp add: log_invD(4) [OF assms(1)])
  qed
  ultimately show ?thesis
    using assms(1) False new by (simp add: log_inv_def log_records_def image_image)
qed

interpretation company_log:
  keyed_log "\<lambda>r s. snd (append_one x now c r s)" mr_id "\<lambda>s. log_records s c" "log_inv x c" max_log
  for x now c
proof
  fix s r
  assume i: "log_inv x c s"
  show "mr_id r \<in> mr_id ` set (log_records s c) \<Longrightarrow> snd (append_one x now c r s) = s"
    using append_one_known [OF i] .
  show "mr_id r \<notin> mr_id ` set (log_records s c) \<Longrightarrow> length (log_records s c) < max_log \<Longrightarrow>
      log_records (snd (append_one x now c r s)) c = log_records s c @ [r]"
    using append_one_new(1) [OF i] by (simp add: log_records_def)
  show "length (log_records s c) < max_log \<Longrightarrow> log_inv x c (snd (append_one x now c r s))"
    using append_one_inv [OF i] .
qed

lemmas append_inv = company_log.fold_invar [folded append_mutations_fold]
lemmas append_idempotent = company_log.fold_idempotent [folded append_mutations_fold]
lemmas append_known_batch = company_log.fold_known [folded append_mutations_fold]

section \<open>Pulling pages\<close>

lemma sort_key_sorted: "sorted (map f xs) \<Longrightarrow> sort_key f xs = xs"
proof (induction xs)
  case (Cons a xs)
  then have "\<forall>y\<in>set xs. f a \<le> f y" by simp
  then have "insort_key f a xs = a # xs" by (cases xs) simp_all
  then show ?case using Cons by simp
qed simp

definition stamped :: "stored_mutation \<Rightarrow> mutation_record" where
  "stamped m = (sd_record m)\<lparr>mr_sync_version := Some (show_int (sd_version m))\<rparr>"

lemma log_version_nth:
  assumes "log_inv x c s" "k < length (mutations s c)"
  shows "sd_version (mutations s c ! k) = int (Suc k)"
proof -
  have "sd_version (mutations s c ! k) = map sd_version (mutations s c) ! k" using assms(2) by simp
  also have "\<dots> = map int [1..<Suc (length (mutations s c))] ! k" by (simp only: log_invD(1) [OF assms(1)])
  also have "\<dots> = int (Suc k)" using assms(2) by (subst nth_map) (auto simp del: upt_Suc)
  finally show ?thesis .
qed

lemma filter_by_index:
  assumes "\<And>k. k < length xs \<Longrightarrow> P (xs ! k) \<longleftrightarrow> n \<le> k"
  shows "filter P xs = drop n xs"
proof -
  have "filter P (take n xs) = []" using assms by (force simp: filter_empty_conv in_set_conv_nth)
  moreover have "filter P (drop n xs) = drop n xs"
    using assms by (force simp: filter_id_conv in_set_conv_nth)
  ultimately show ?thesis by (metis append_Nil append_take_drop_id filter_append)
qed

lemma log_after:
  assumes "log_inv x c s" "0 \<le> after"
  shows "filter (\<lambda>m. after < sd_version m) (mutations s c) = drop (nat after) (mutations s c)"
  using assms(2) log_version_nth [OF assms(1)] by (intro filter_by_index) auto

lemma log_sorted: "log_inv x c s \<Longrightarrow> sorted (map sd_version (drop n (mutations s c)))"
  unfolding drop_map [symmetric] by (simp only: log_invD(1) drop_map) (auto simp del: upt_Suc simp: sorted_wrt_map)

lemma foldl_max_upto: "a \<le> b \<Longrightarrow> foldl max (int a) (map int [Suc a..<Suc b]) = int b"
proof (induction b)
  case (Suc b)
  then show ?case by (cases "a \<le> b") (auto simp: le_Suc_eq)
qed auto

lemma log_head:
  assumes "log_inv x c s"
  shows "max_or 0 (map sd_version (mutations s c)) = int (length (mutations s c))"
proof (cases "length (mutations s c)")
  case 0
  then show ?thesis by (simp add: max_or_def)
next
  case (Suc n)
  have "map sd_version (mutations s c) = 1 # map int [Suc 1..<Suc (Suc n)]"
    by (simp only: log_invD(1) [OF assms] Suc) (simp add: upt_conv_Cons del: upt_Suc)
  then show ?thesis using foldl_max_upto [of 1 "Suc n"] Suc by (simp add: max_or_def del: upt_Suc)
qed

lemma pull_page:
  assumes "log_inv x c s" "0 \<le> after" "0 \<le> page"
  shows "pull_mutations s c after page = \<lparr>
    pg_mutations = map stamped (take (nat page) (drop (nat after) (mutations s c))),
    pg_has_more = (nat after + nat page < length (mutations s c)),
    pg_head = counters s c\<rparr>"
proof -
  let ?l = "drop (nat after) (mutations s c)"
  have "sort_key fst (map (\<lambda>m. (sd_version m, stamped m)) ?l) = map (\<lambda>m. (sd_version m, stamped m)) ?l"
    using log_sorted [OF assms(1), of "nat after"] by (intro sort_key_sorted) (simp add: comp_def)
  then show ?thesis
    using assms(3) log_after [OF assms(1,2)] log_head [OF assms(1)] log_invD(2) [OF assms(1)]
    by (simp add: pull_mutations_def stamped_def [symmetric] Let_def take_map comp_def less_diff_conv add.commute)
qed

section \<open>Acknowledgement\<close>

lemma ack_log_inv: "log_inv x c s \<Longrightarrow> log_inv x c (snd (ack_mutations d ids s))"
proof -
  let ?f = "\<lambda>m. if mr_id (sd_record m) \<in> set ids \<and> \<not> sd_acknowledged m then m\<lparr>sd_acknowledged := True\<rparr> else m"
  have "sd_version (?f m) = sd_version m" "sd_record (?f m) = sd_record m" for m by auto
  then have "map g (map ?f ms) = map g ms" if "\<And>m. g (m\<lparr>sd_acknowledged := True\<rparr>) = g m" for g and ms :: "stored_mutation list"
    using that by auto
  from this [of sd_version] this [of sd_record] this [of log_entry] this [of "\<lambda>m. (mr_id (sd_record m), sd_version m)"]
  show "log_inv x c s \<Longrightarrow> log_inv x c (snd (ack_mutations d ids s))"
    by (cases "d = c")
      (simp_all add: log_inv_def ack_mutations_def Let_def log_records_def log_entries_def log_entry_def del: map_map upt_Suc)
qed

lemma ack_again: "fst (ack_mutations c ids (snd (ack_mutations c ids s))) = 0"
  by (simp add: ack_mutations_def Let_def filter_empty_conv)

section \<open>The checkpoint\<close>

lemma hash_at_chain:
  assumes "log_inv x c s" "0 \<le> v" "v \<le> counters s c"
  shows "hash_at s c v = Some (chain_value x (take (nat v) (log_entries s c)))"
proof (cases "v = 0")
  case True
  then show ?thesis by (simp add: hash_at_def chain_value_def)
next
  case False
  have n: "nat (v - 1) < length (log_entries s c)" "Suc (nat (v - 1)) = nat v"
    using False assms by (auto simp: log_entries_def log_invD(2) [OF assms(1)])
  then have "chain s c ! nat (v - 1) = chain_value x (take (nat v) (log_entries s c))"
    by (simp add: log_invD(5) [OF assms(1)] chain_of_def)
  then show ?thesis using n False assms(2) by (simp add: hash_at_def log_invD(5) [OF assms(1)] chain_of_def)
qed

section \<open>The read model is the fold of the log\<close>

definition row_step :: "ext \<Rightarrow> uuid \<Rightarrow> string \<Rightarrow> string \<Rightarrow> company_document option \<Rightarrow> mutation_record \<Rightarrow> company_document option" where
  "row_step x c dt d row r =
     (if mr_doc_type r = dt \<and> mr_document_id r = d then apply_action (fold_mutation x row r c 0) row else row)"

definition row_of :: "ext \<Rightarrow> uuid \<Rightarrow> string \<Rightarrow> string \<Rightarrow> mutation_record list \<Rightarrow> company_document option" where
  "row_of x c dt d rs = foldl (row_step x c dt d) None rs"

definition proj_inv :: "ext \<Rightarrow> uuid \<Rightarrow> inner \<Rightarrow> bool" where
  "proj_inv x c s \<longleftrightarrow> (\<forall>dt d. same_row (company_document_of s c dt d) (row_of x c dt d (log_records s c)))"

lemma same_row_sym: "same_row a b \<Longrightarrow> same_row b a"
  by (simp add: same_row_def)

lemma same_row_trans: "same_row a b \<Longrightarrow> same_row b e \<Longrightarrow> same_row a e"
  by (simp add: same_row_def)

lemma apply_projection_row:
  "company_document_of (apply_projection x now c r s) c dt d =
     (if mr_doc_type r = dt \<and> mr_document_id r = d
      then apply_action (fold_mutation x (company_document_of s c dt d) r c now) (company_document_of s c dt d)
      else company_document_of s c dt d)"
  by (auto simp: apply_projection_def company_document_of_def Let_def apply_action_def update_conv' delete_conv'
      split: projection_action.splits)

lemma apply_projection_step:
  assumes "same_row (company_document_of s c dt d) row"
  shows "same_row (company_document_of (apply_projection x now c r s) c dt d) (row_step x c dt d row r)"
  using fold_mutation_cong [OF assms, of x r c now 0] assms by (simp add: apply_projection_row row_step_def)

lemma company_document_of_append:
  "mutation_versions s (c, mr_id r) = None \<Longrightarrow>
     company_document_of (snd (append_one x now c r s)) c' dt d = company_document_of (apply_projection x now c r s) c' dt d"
  by (auto simp: append_one_def Let_def company_document_of_def apply_projection_def split: projection_action.splits)

lemma append_one_proj:
  assumes "log_inv x c s" "proj_inv x c s" "length (log_records s c) < max_log"
  shows "proj_inv x c (snd (append_one x now c r s))"
proof (cases "mr_id r \<in> mr_id ` set (log_records s c)")
  case True
  then show ?thesis using append_one_known [OF assms(1)] assms(2) by simp
next
  case False
  have "mutation_versions s (c, mr_id r) = None" using False log_inv_known [OF assms(1)] by blast
  moreover have "log_records (snd (append_one x now c r s)) c = log_records s c @ [r]"
    using append_one_new(1) [OF assms(1) False assms(3)] by (simp add: log_records_def)
  ultimately show ?thesis
    using assms(2) apply_projection_step by (simp add: proj_inv_def row_of_def company_document_of_append)
qed

lemma append_mutations_proj:
  "log_inv x c s \<Longrightarrow> proj_inv x c s \<Longrightarrow> length (log_records s c) + length rs \<le> max_log \<Longrightarrow>
     proj_inv x c (snd (append_mutations x now c rs s))"
  unfolding append_mutations_fold
proof (induction rs arbitrary: s)
  case (Cons r rs)
  have l: "length (log_records s c) < max_log" using Cons.prems(3) by simp
  show ?case
    using Cons.IH [OF append_one_inv [OF Cons.prems(1) l] append_one_proj [OF Cons.prems(1,2) l]]
      company_log.append_length [OF Cons.prems(1) l, of now r] Cons.prems(3)
    by fastforce
qed simp

lemma fold_projection_row:
  "same_row (company_document_of s c dt d) row \<Longrightarrow>
     same_row (company_document_of (fold (apply_projection x now c) rs s) c dt d) (foldl (row_step x c dt d) row rs)"
  by (induction rs arbitrary: s row) (simp_all add: apply_projection_step)

lemma rebuild_row:
  assumes "log_inv x c s"
  shows "same_row (company_document_of (rebuild_projection x now c s) c dt d) (row_of x c dt d (log_records s c))"
proof -
  have "sort_key fst (map (\<lambda>m. (sd_version m, sd_record m)) (mutations s c)) = map (\<lambda>m. (sd_version m, sd_record m)) (mutations s c)"
    using log_sorted [OF assms, of 0] by (intro sort_key_sorted) (simp add: comp_def)
  then have r: "rebuild_projection x now c s = fold (apply_projection x now c) (log_records s c)
      (s\<lparr>company_documents := filter (\<lambda>(k, _). fst k \<noteq> c) (company_documents s)\<rparr>)"
    by (simp add: rebuild_projection_def log_records_def comp_def)
  have "map_of (filter (\<lambda>(k, _). fst k \<noteq> c) (company_documents s)) (c, dt, d) = None"
    by (auto simp: map_of_eq_None_iff)
  then show ?thesis
    unfolding r row_of_def by (intro fold_projection_row) (simp add: company_document_of_def)
qed

lemma rebuild_same:
  assumes "log_inv x c s" "proj_inv x c s"
  shows "same_row (company_document_of (rebuild_projection x now c s) c dt d) (company_document_of s c dt d)"
  using rebuild_row [OF assms(1)] assms(2) same_row_trans same_row_sym unfolding proj_inv_def by blast

section \<open>Companies do not share a log\<close>

lemma log_inv_cong:
  "mutations t c = mutations s c \<Longrightarrow> counters t c = counters s c \<Longrightarrow> chain t c = chain s c \<Longrightarrow>
     (\<And>i. mutation_versions t (c, i) = mutation_versions s (c, i)) \<Longrightarrow> log_inv x c t = log_inv x c s"
  by (simp add: log_inv_def log_records_def log_entries_def)

lemma proj_inv_cong:
  "mutations t c = mutations s c \<Longrightarrow> (\<And>dt d. company_document_of t c dt d = company_document_of s c dt d) \<Longrightarrow>
     proj_inv x c t = proj_inv x c s"
  by (simp add: proj_inv_def log_records_def)

lemma apply_projection_other:
  "c' \<noteq> c \<Longrightarrow> company_document_of (apply_projection x now c r s) c' dt d = company_document_of s c' dt d"
  by (auto simp: apply_projection_def company_document_of_def Let_def update_conv' delete_conv' split: projection_action.splits)

lemma append_one_other:
  assumes "c' \<noteq> c"
  shows "mutations (snd (append_one x now c r s)) c' = mutations s c'"
    and "counters (snd (append_one x now c r s)) c' = counters s c'"
    and "chain (snd (append_one x now c r s)) c' = chain s c'"
    and "mutation_versions (snd (append_one x now c r s)) (c', i) = mutation_versions s (c', i)"
    and "company_document_of (snd (append_one x now c r s)) c' dt d = company_document_of s c' dt d"
  using assms company_document_of_append [of s c r x now c' dt d] apply_projection_other [of c' c x now r s dt d]
  by (cases "mutation_versions s (c, mr_id r)"; simp add: append_one_def Let_def)+

lemma append_mutations_other:
  assumes "c' \<noteq> c"
  shows "log_inv x c' (snd (append_mutations x now c rs s)) = log_inv x c' s"
    and "proj_inv x c' (snd (append_mutations x now c rs s)) = proj_inv x c' s"
    and "log_records (snd (append_mutations x now c rs s)) c' = log_records s c'"
proof -
  have a: "mutations (snd (append_mutations x now c rs s)) c' = mutations s c'"
    "counters (snd (append_mutations x now c rs s)) c' = counters s c'"
    "chain (snd (append_mutations x now c rs s)) c' = chain s c'"
    "mutation_versions (snd (append_mutations x now c rs s)) (c', i) = mutation_versions s (c', i)"
    "company_document_of (snd (append_mutations x now c rs s)) c' dt d = company_document_of s c' dt d" for i dt d
    unfolding append_mutations_fold by (induction rs arbitrary: s; simp add: append_one_other [OF assms])+
  show "log_inv x c' (snd (append_mutations x now c rs s)) = log_inv x c' s" by (rule log_inv_cong) (rule a)+
  show "proj_inv x c' (snd (append_mutations x now c rs s)) = proj_inv x c' s" by (rule proj_inv_cong) (rule a)+
  show "log_records (snd (append_mutations x now c rs s)) c' = log_records s c'" by (simp add: log_records_def a)
qed

text \<open>An append keeps the log and the read model of every company in order.\<close>

definition logs_ok :: "ext \<Rightarrow> inner \<Rightarrow> bool" where
  "logs_ok x s \<longleftrightarrow> (\<forall>c. log_inv x c s \<and> proj_inv x c s)"

lemma logs_ok_append:
  assumes "logs_ok x s" "length (log_records s c) + length rs \<le> max_log"
  shows "logs_ok x (snd (append_mutations x now c rs s))"
proof -
  have "log_inv x c' (snd (append_mutations x now c rs s)) \<and> proj_inv x c' (snd (append_mutations x now c rs s))" for c'
  proof (cases "c' = c")
    case True
    then show ?thesis
      using assms append_inv [of x c s rs now] append_mutations_proj [of x c s rs now] by (auto simp: logs_ok_def)
  next
    case False
    then show ?thesis using assms(1) by (simp add: append_mutations_other logs_ok_def)
  qed
  then show ?thesis by (simp add: logs_ok_def)
qed

lemma logs_ok_cong:
  "mutations t = mutations s \<Longrightarrow> counters t = counters s \<Longrightarrow> chain t = chain s \<Longrightarrow>
     mutation_versions t = mutation_versions s \<Longrightarrow> company_documents t = company_documents s \<Longrightarrow> logs_ok x t = logs_ok x s"
  by (simp add: logs_ok_def log_inv_def proj_inv_def log_records_def log_entries_def company_document_of_def)

lemma logs_ok_empty [simp]: "logs_ok x empty_store"
  by (simp add: logs_ok_def proj_inv_def log_records_def company_document_of_def row_of_def)

lemma ack_records: "log_records (snd (ack_mutations d ids s)) c = log_records s c"
  by (simp add: log_records_def ack_mutations_def Let_def)

lemma ack_proj_inv: "proj_inv x c (snd (ack_mutations d ids s)) = proj_inv x c s"
  by (simp add: proj_inv_def ack_records) (simp add: ack_mutations_def Let_def company_document_of_def)

end
