(* ===== verification/Mem_Commit.thy ===== *)
theory Mem_Commit
  imports Mem_Log
begin

text \<open>
  \<open>posting_commit\<close> of \<^verbatim>\<open>src/src/store/mem.rs\<close>: the one atomic step that posts. The refusals are
  \<open>commit_checks\<close>, in the order of the code; \<open>commit_apply\<close> is the rest. The function runs
  under the store's mutex, so an interleaving of commands is a sequence of these steps.
\<close>

section \<open>The checks\<close>

definition lock_check :: "inner \<Rightarrow> posting_commit_rec \<Rightarrow> store_error + unit" where
  "lock_check s k = (case pc_lock_check_date k of
       None \<Rightarrow> Inr ()
     | Some date \<Rightarrow>
         (case lock_violation date (current_lock s (pc_company k)) of
            Some reason \<Rightarrow> Inl (Stale reason)
          | None \<Rightarrow> Inr ()))"

definition deposit_check :: "inner \<Rightarrow> posting_commit_rec \<Rightarrow> store_error + unit" where
  "deposit_check s k = (case pc_deposit_guard k of
       None \<Rightarrow> Inr ()
     | Some guard \<Rightarrow>
         let deposit_id = deposit_id_of guard;
             deposit = posted_document_of s (pc_company k) ''Customer Deposit'' deposit_id;
             applications = deposit_applications s (pc_company k) deposit_id in
         (case deposit_guard_violation guard deposit applications of
            Some reason \<Rightarrow> Inl (Stale reason)
          | None \<Rightarrow> Inr ()))"

definition solo_check :: "inner \<Rightarrow> posting_commit_rec \<Rightarrow> store_error + unit" where
  "solo_check s k = (case pc_solo_migration k of
       None \<Rightarrow> Inr ()
     | Some mark \<Rightarrow>
         (case solo_migrations s (pc_company k) of
            Some (earlier, _) \<Rightarrow> Inl (Conflict (Document (EarlierTakeOn earlier)))
          | None \<Rightarrow>
              ensure (\<not> list_ex (\<lambda>((c, _, _), _). c = pc_company k) (documents s))
                (Conflict (Document (CompanyNotEmpty (sm_migration_id mark))))))"

definition pair_count :: "inner \<Rightarrow> uuid \<Rightarrow> string \<Rightarrow> string \<Rightarrow> nat" where
  "pair_count s c item wh = length (sles_for_pair s c item wh)"

definition expectation_check :: "inner \<Rightarrow> uuid \<Rightarrow> unit \<Rightarrow> string \<times> string \<times> nat \<Rightarrow> store_error + unit" where
  "expectation_check s c u e = (case e of (item, warehouse, expected) \<Rightarrow>
     let actual = pair_count s c item warehouse in
     ensure (actual = expected) (Stale (Ledger (LedgerMoved item warehouse expected actual))))"

definition doc_key_of :: "posting_commit_rec \<Rightarrow> doc_key" where
  "doc_key_of k = (pc_company k, pd_doctype (pc_document k), pd_id (pc_document k))"

definition existence_check :: "inner \<Rightarrow> posting_commit_rec \<Rightarrow> store_error + unit" where
  "existence_check s k =
     (let dt = pd_doctype (pc_document k); d = pd_id (pc_document k) in
      if pc_document_is_new k then
        ensure (map_of (documents s) (doc_key_of k) = None) (Conflict (Document (DocumentExists dt d)))
      else (case map_of (documents s) (doc_key_of k) of
              None \<Rightarrow> Inl (Conflict (Document (DocumentMissing dt d)))
            | Some existing \<Rightarrow> ensure (pd_docstatus existing = 1) (Conflict (Document (DocumentNotSubmitted dt d)))))"

definition number_check :: "inner \<Rightarrow> posting_commit_rec \<Rightarrow> store_error + unit" where
  "number_check s k = (case pc_preassigned_number k of
       None \<Rightarrow> Inr ()
     | Some number \<Rightarrow>
         ensure (\<not> list_ex (\<lambda>((c, dt, _), doc). c = pc_company k \<and> dt = pd_doctype (pc_document k)
             \<and> pd_official_number doc = Some number) (documents s))
           (Conflict (Document (NumberTaken number (pd_doctype (pc_document k))))))"

definition till_check :: "inner \<Rightarrow> posting_commit_rec \<Rightarrow> store_error + unit" where
  "till_check s k = (case pc_till_binding k of
       None \<Rightarrow> Inr ()
     | Some (ser, dev) \<Rightarrow>
         ensure (\<not> list_ex (\<lambda>((c, dt, _), doc). c = pc_company k \<and> dt = pd_doctype (pc_document k)
             \<and> Option.bind (jget (pd_payload doc) ''till_series'') as_str = Some ser
             \<and> (case Option.bind (jget (pd_payload doc) ''till_device'') as_str of
                  Some d \<Rightarrow> d \<noteq> dev | None \<Rightarrow> False)) (documents s))
           (Conflict (Document (TillSeriesBound ser))))"

definition commit_checks :: "inner \<Rightarrow> posting_commit_rec \<Rightarrow> store_error + unit" where
  "commit_checks s k =
     and_then (lock_check s k) (\<lambda>_.
     and_then (deposit_check s k) (\<lambda>_.
     and_then (solo_check s k) (\<lambda>_.
     and_then (fold_result (expectation_check s (pc_company k)) () (pc_sle_expectations k)) (\<lambda>_.
     and_then (existence_check s k) (\<lambda>_.
     and_then (number_check s k) (\<lambda>_.
     till_check s k))))))"

section \<open>The effects\<close>

text \<open>
  \<open>response["number"] = \<dots>\<close>: \<open>IndexMut\<close> inserts into an object and turns null into one. On any
  other value it panics; every response the engine builds is an object.
\<close>

definition json_put :: "string \<Rightarrow> json \<Rightarrow> json \<Rightarrow> json" where
  "json_put k v j = (case j of JObj m \<Rightarrow> JObj (obj_insert k v m) | JNull \<Rightarrow> JObj [(k, v)] | _ \<Rightarrow> j)"

definition next_value :: "inner \<Rightarrow> posting_commit_rec \<Rightarrow> string \<Rightarrow> int" where
  "next_value s k key = i64_succ (series s (pc_company k, key))"

definition allocated_number :: "inner \<Rightarrow> posting_commit_rec \<Rightarrow> string option" where
  "allocated_number s k = (case pc_series_key k of
       Some key \<Rightarrow> Some (format_number key (next_value s k key))
     | None \<Rightarrow> pc_preassigned_number k)"

definition numbered_document :: "inner \<Rightarrow> posting_commit_rec \<Rightarrow> posted_document" where
  "numbered_document s k = (case allocated_number s k of
       Some n \<Rightarrow> (pc_document k)\<lparr>pd_official_number := Some n\<rparr>
     | None \<Rightarrow> pc_document k)"

definition numbered_response :: "inner \<Rightarrow> posting_commit_rec \<Rightarrow> json" where
  "numbered_response s k =
     (let r = (case pc_preassigned_number k of Some n \<Rightarrow> json_put ''number'' (JStr n) (pc_response k) | None \<Rightarrow> pc_response k) in
      case pc_series_key k of
        Some key \<Rightarrow> json_put ''number'' (JStr (format_number key (next_value s k key))) r
      | None \<Rightarrow> r)"

definition series_after :: "inner \<Rightarrow> posting_commit_rec \<Rightarrow> uuid \<times> string \<Rightarrow> int" where
  "series_after s k =
     raise_floors (pc_company k) (pc_numbering_floors k)
       (case pc_series_key k of
          Some key \<Rightarrow> (series s)((pc_company k, key) := next_value s k key)
        | None \<Rightarrow> series s)"

fun assign_seq :: "int \<Rightarrow> stock_ledger_entry list \<Rightarrow> int \<times> stock_ledger_entry list" where
  "assign_seq n [] = (n, [])"
| "assign_seq n (e # es) =
     (let m = i64_succ n; (last_seq, rest) = assign_seq m es in (last_seq, e\<lparr>sle_seq := m\<rparr> # rest))"

definition set_outstanding :: "f64 \<Rightarrow> posted_document \<Rightarrow> posted_document" where
  "set_outstanding v doc = (case pd_payload doc of
       JObj m \<Rightarrow> doc\<lparr>pd_payload := JObj (obj_insert ''outstanding_amount'' (json_f64 v) m)\<rparr>
     | _ \<Rightarrow> doc)"

text \<open>The loop over the outstanding updates: the documents, and the touched ones in order.\<close>

definition outstanding_step ::
  "uuid \<Rightarrow> (doc_key \<times> posted_document) list \<times> posted_document list \<Rightarrow> string \<times> string \<times> f64
     \<Rightarrow> (doc_key \<times> posted_document) list \<times> posted_document list" where
  "outstanding_step c acc u = (case u of (doctype, i, v) \<Rightarrow>
     (case map_of (fst acc) (c, doctype, i) of
        None \<Rightarrow> acc
      | Some doc \<Rightarrow>
          let doc' = set_outstanding v doc in
          (AList.update (c, doctype, i) doc' (fst acc), snd acc @ [doc'])))"

definition commit_sources ::
  "posting_commit_rec \<Rightarrow> posted_document \<Rightarrow> stock_ledger_entry list \<Rightarrow> posted_document list \<Rightarrow> replication_sources" where
  "commit_sources k document sequenced outstanding_docs = \<lparr>
     rs_document = document,
     rs_is_cancel = (pb_kind (pc_batch k) = ''cancel''),
     rs_gl_entries = pc_gl_entries k,
     rs_stock_ledger_entries = sequenced,
     rs_party_transactions = pc_party_transactions k,
     rs_tax_transactions = pc_tax_transactions k,
     rs_settlements = pc_settlements k,
     rs_bins = pc_bins k,
     rs_outstanding_documents = outstanding_docs,
     rs_user = au_user (pc_audit k),
     rs_device = (case pc_replication_device_id k of Some d \<Rightarrow> d | None \<Rightarrow> SYSTEM_DEVICE_ID)\<rparr>"

definition insert_bins :: "uuid \<Rightarrow> bin list \<Rightarrow> ((uuid \<times> string \<times> string) \<times> bin) list \<Rightarrow> ((uuid \<times> string \<times> string) \<times> bin) list" where
  "insert_bins c bs m = fold (\<lambda>b. AList.update (c, bin_item b, bin_warehouse b) b) bs m"

definition commit_documents :: "inner \<Rightarrow> posting_commit_rec \<Rightarrow> (doc_key \<times> posted_document) list \<times> posted_document list" where
  "commit_documents s k =
     foldl (outstanding_step (pc_company k))
       (AList.update (doc_key_of k) (numbered_document s k) (documents s), [])
       (pc_outstanding_updates k)"

definition commit_records :: "ext \<Rightarrow> int \<Rightarrow> inner \<Rightarrow> posting_commit_rec \<Rightarrow> mutation_record list" where
  "commit_records x now s k =
     replication_mutations x now (commit_sources k (numbered_document s k)
       (snd (assign_seq (sle_seqs s (pc_company k)) (pc_stock_ledger_entries k)))
       (snd (commit_documents s k)))"

text \<open>The part of the effect before the log: series, take-on mark, documents, row sequence.\<close>

definition commit_tables :: "posting_commit_rec \<Rightarrow> inner \<Rightarrow> inner" where
  "commit_tables k s =
     s\<lparr>series := series_after s k,
       solo_migrations := (case pc_solo_migration k of
         Some mark \<Rightarrow> (solo_migrations s)(pc_company k \<mapsto> (sm_migration_id mark, pd_id (pc_document k)))
       | None \<Rightarrow> solo_migrations s),
       documents := fst (commit_documents s k),
       sle_seqs := (sle_seqs s)(pc_company k := fst (assign_seq (sle_seqs s (pc_company k)) (pc_stock_ledger_entries k)))\<rparr>"

definition commit_apply :: "ext \<Rightarrow> int \<Rightarrow> posting_commit_rec \<Rightarrow> inner \<Rightarrow> inner" where
  "commit_apply x now k s =
     (let c = pc_company k;
          sequenced = snd (assign_seq (sle_seqs s c) (pc_stock_ledger_entries k));
          s2 = snd (append_mutations x now c (commit_records x now s k) (commit_tables k s)) in
      s2\<lparr>gl_entries := (gl_entries s2)(c := gl_entries s2 c @ pc_gl_entries k),
         stock_ledger := (stock_ledger s2)(c := stock_ledger s2 c @ sequenced),
         party_transactions := (party_transactions s2)(c := party_transactions s2 c @ pc_party_transactions k),
         tax_transactions := (tax_transactions s2)(c := tax_transactions s2 c @ pc_tax_transactions k),
         settlements := (settlements s2)(c := settlements s2 c @ pc_settlements k),
         bins := insert_bins c (pc_bins k) (bins s2),
         batches := (batches s2)((c, pb_id (pc_batch k)) \<mapsto> pc_batch k),
         audit := audit s2 @ [pc_audit k],
         idempotency := (case pc_idempotency_key k of
           Some key \<Rightarrow> (idempotency s2)((c, key) \<mapsto> numbered_response s k)
         | None \<Rightarrow> idempotency s2)\<rparr>)"

definition replayed_response :: "inner \<Rightarrow> posting_commit_rec \<Rightarrow> json option" where
  "replayed_response s k = Option.bind (pc_idempotency_key k) (\<lambda>key. idempotency s (pc_company k, key))"

definition posting_commit ::
  "ext \<Rightarrow> int \<Rightarrow> posting_commit_rec \<Rightarrow> inner \<Rightarrow> (store_error + commit_outcome) \<times> inner" where
  "posting_commit x now k s =
     (case replayed_response s k of
        Some response \<Rightarrow> (Inr \<lparr>oc_response = response, oc_replayed = True\<rparr>, s)
      | None \<Rightarrow>
          (case commit_checks s k of
             Inl e \<Rightarrow> (Inl e, s)
           | Inr _ \<Rightarrow>
               (Inr \<lparr>oc_response = numbered_response s k, oc_replayed = False\<rparr>, commit_apply x now k s)))"

section \<open>What a commit changes\<close>

lemma assign_seq_length [simp]: "length (snd (assign_seq n es)) = length es"
  by (induction es arbitrary: n) (auto simp: Let_def case_prod_beta)

lemma commit_apply_sel [simp]:
  "series (commit_apply x now k s) = series_after s k"
  "documents (commit_apply x now k s) = fst (commit_documents s k)"
  "settings (commit_apply x now k s) = settings s"
  "gl_entries (commit_apply x now k s) = (gl_entries s)(pc_company k := gl_entries s (pc_company k) @ pc_gl_entries k)"
  "stock_ledger (commit_apply x now k s) = (stock_ledger s)(pc_company k := stock_ledger s (pc_company k)
     @ snd (assign_seq (sle_seqs s (pc_company k)) (pc_stock_ledger_entries k)))"
  "settlements (commit_apply x now k s) = (settlements s)(pc_company k := settlements s (pc_company k) @ pc_settlements k)"
  "party_transactions (commit_apply x now k s) =
     (party_transactions s)(pc_company k := party_transactions s (pc_company k) @ pc_party_transactions k)"
  "tax_transactions (commit_apply x now k s) =
     (tax_transactions s)(pc_company k := tax_transactions s (pc_company k) @ pc_tax_transactions k)"
  "bins (commit_apply x now k s) = insert_bins (pc_company k) (pc_bins k) (bins s)"
  "audit (commit_apply x now k s) = audit s @ [pc_audit k]"
  "batches (commit_apply x now k s) = (batches s)((pc_company k, pb_id (pc_batch k)) \<mapsto> pc_batch k)"
  "idempotency (commit_apply x now k s) = (case pc_idempotency_key k of
     Some key \<Rightarrow> (idempotency s)((pc_company k, key) \<mapsto> numbered_response s k)
   | None \<Rightarrow> idempotency s)"
  "sle_seqs (commit_apply x now k s) =
     (sle_seqs s)(pc_company k := fst (assign_seq (sle_seqs s (pc_company k)) (pc_stock_ledger_entries k)))"
  by (simp_all add: commit_apply_def commit_tables_def Let_def split: option.splits)

text \<open>The log fields come from appending the commit's records to the tables.\<close>

lemma commit_apply_log [simp]:
  fixes x now k s
  defines "u \<equiv> snd (append_mutations x now (pc_company k) (commit_records x now s k) (commit_tables k s))"
  shows "mutations (commit_apply x now k s) = mutations u" "counters (commit_apply x now k s) = counters u"
    "chain (commit_apply x now k s) = chain u" "mutation_versions (commit_apply x now k s) = mutation_versions u"
    "company_documents (commit_apply x now k s) = company_documents u"
  by (simp_all add: u_def commit_apply_def Let_def)

lemma commit_tables_log [simp]:
  "mutations (commit_tables k s) = mutations s" "counters (commit_tables k s) = counters s"
  "chain (commit_tables k s) = chain s" "mutation_versions (commit_tables k s) = mutation_versions s"
  "company_documents (commit_tables k s) = company_documents s"
  by (simp_all add: commit_tables_def)

text \<open>The three ways a commit ends: a stored response, a refusal, or the whole effect.\<close>

lemma posting_commit_cases:
  obtains (replay) r where "replayed_response s k = Some r"
      "posting_commit x now k s = (Inr \<lparr>oc_response = r, oc_replayed = True\<rparr>, s)"
  | (refuse) e where "replayed_response s k = None" "commit_checks s k = Inl e" "posting_commit x now k s = (Inl e, s)"
  | (post) "replayed_response s k = None" "commit_checks s k = Inr ()"
      "posting_commit x now k s = (Inr \<lparr>oc_response = numbered_response s k, oc_replayed = False\<rparr>, commit_apply x now k s)"
proof (cases "replayed_response s k")
  case None
  then show ?thesis
    using refuse post by (cases "commit_checks s k") (simp_all add: posting_commit_def)
next
  case (Some r)
  then show ?thesis using replay by (simp add: posting_commit_def)
qed

lemma posting_commit_posted:
  assumes "posting_commit x now k s = (Inr out, t)" "\<not> oc_replayed out"
  shows "commit_checks s k = Inr ()" "t = commit_apply x now k s" "oc_response out = numbered_response s k"
    "replayed_response s k = None"
  using assms by (cases rule: posting_commit_cases [of s k x now]; auto)+

lemma posting_commit_unchanged:
  assumes "posting_commit x now k s = (res, t)" "\<And>out. res = Inr out \<Longrightarrow> oc_replayed out"
  shows "t = s"
  using assms by (cases rule: posting_commit_cases [of s k x now]) auto

lemma checks_passed:
  assumes "commit_checks s k = Inr ()"
  shows "lock_check s k = Inr ()" "deposit_check s k = Inr ()" "solo_check s k = Inr ()"
    "fold_result (expectation_check s (pc_company k)) () (pc_sle_expectations k) = Inr ()"
    "existence_check s k = Inr ()" "number_check s k = Inr ()" "till_check s k = Inr ()"
  using assms by (simp_all add: commit_checks_def result_simps)

text \<open>A committed key answers every later commit with that key, and posts nothing again.\<close>

lemma posting_commit_replays:
  assumes "posting_commit x now k s = (Inr out, t)" "pc_idempotency_key k = Some key"
    and "pc_company k' = pc_company k" "pc_idempotency_key k' = Some key"
  shows "posting_commit x now' k' t = (Inr \<lparr>oc_response = oc_response out, oc_replayed = True\<rparr>, t)"
  using assms by (cases rule: posting_commit_cases [of s k x now]) (auto simp: posting_commit_def replayed_response_def)

section \<open>Documents of a commit\<close>

lemma set_outstanding_sel [simp]:
  "pd_official_number (set_outstanding v d) = pd_official_number d"
  "pd_docstatus (set_outstanding v d) = pd_docstatus d" "pd_id (set_outstanding v d) = pd_id d"
  "pd_doctype (set_outstanding v d) = pd_doctype d" "pd_company (set_outstanding v d) = pd_company d"
  by (simp_all add: set_outstanding_def split: json.splits)

text \<open>The outstanding loop changes payloads only: any projection that ignores the payload is kept.\<close>

lemma outstanding_step_keeps:
  assumes "\<And>v d. f (set_outstanding v d) = f d"
  shows "map_option f (map_of (fst (outstanding_step c acc u)) key) = map_option f (map_of (fst acc) key)"
  using assms
  by (cases u) (auto simp: outstanding_step_def Let_def update_conv' split: option.splits)

lemma outstanding_loop_keeps:
  assumes "\<And>v d. f (set_outstanding v d) = f d"
  shows "map_option f (map_of (fst (foldl (outstanding_step c) acc us)) key) = map_option f (map_of (fst acc) key)"
  by (induction us arbitrary: acc) (simp_all add: outstanding_step_keeps [OF assms])

lemma commit_documents_keeps:
  assumes "\<And>v d. f (set_outstanding v d) = f d"
  shows "map_option f (map_of (fst (commit_documents s k)) key) =
    (if key = doc_key_of k then Some (f (numbered_document s k)) else map_option f (map_of (documents s) key))"
  unfolding commit_documents_def by (subst outstanding_loop_keeps [OF assms]) (simp add: update_conv')

lemmas commit_number = commit_documents_keeps [of pd_official_number]
lemmas commit_docstatus = commit_documents_keeps [of pd_docstatus]

lemma numbered_document_number:
  "pd_official_number (numbered_document s k) =
     (case allocated_number s k of Some n \<Rightarrow> Some n | None \<Rightarrow> pd_official_number (pc_document k))"
  by (simp add: numbered_document_def split: option.splits)

section \<open>Series\<close>

lemma raise_floors_ge: "ser p \<le> raise_floors c floors ser p"
proof (induction floors arbitrary: ser)
  case (Cons e floors)
  obtain key v where e: "e = (key, v)" by (cases e)
  have "ser p \<le> (ser((c, key) := max (ser (c, key)) v)) p" by simp
  also have "\<dots> \<le> raise_floors c floors (ser((c, key) := max (ser (c, key)) v)) p" by (rule Cons.IH)
  finally show ?case by (simp add: raise_floors_def e)
qed (simp add: raise_floors_def)

lemma raise_floors_covers:
  "(key, v) \<in> set floors \<Longrightarrow> v \<le> raise_floors c floors ser (c, key)"
proof (induction floors arbitrary: ser)
  case (Cons e floors)
  obtain key' v' where e: "e = (key', v')" by (cases e)
  let ?ser = "ser((c, key') := max (ser (c, key')) v')"
  have r: "raise_floors c (e # floors) ser = raise_floors c floors ?ser" by (simp add: raise_floors_def e)
  show ?case
  proof (cases "e = (key, v)")
    case True
    then have "v \<le> ?ser (c, key)" by (simp add: e)
    also have "\<dots> \<le> raise_floors c floors ?ser (c, key)" by (rule raise_floors_ge)
    finally show ?thesis by (simp add: r)
  next
    case False
    then show ?thesis using Cons by (simp add: r)
  qed
qed simp

lemma raise_floors_other: "p \<notin> (\<lambda>(key, v). (c, key)) ` set floors \<Longrightarrow> raise_floors c floors ser p = ser p"
  unfolding raise_floors_def by (induction floors arbitrary: ser) auto

lemma series_monotone:
  assumes "\<And>p. series s p < i64_max"
  shows "series s p \<le> series_after s k p"
proof -
  have "series s p \<le> (case pc_series_key k of
      Some key \<Rightarrow> (series s)((pc_company k, key) := next_value s k key) | None \<Rightarrow> series s) p"
    using assms by (auto simp: next_value_def split: option.splits)
  then show ?thesis unfolding series_after_def using raise_floors_ge order_trans by blast
qed

end
