(* ===== verification/Stock_Costing.thy ===== *)
theory Stock_Costing
  imports Json
begin

text \<open>
  \<^verbatim>\<open>src/src/posting/stock.rs\<close>: the balance fold of a stock ledger and the cost of an issue,
  moving average or FIFO. The FIFO layer list is shown to implement a queue of unit costs (the
  interface \<open>unit_queue\<close>): receipts append their units, issues drop from the front. On whole
  quantities the floating-point code computes this exactly.
\<close>

record ledger_row =
  lr_qty_change :: f64
  lr_valuation_rate :: f64

record bin_snapshot =
  bs_actual_qty :: f64
  bs_valuation_rate :: f64
  bs_stock_value :: f64

definition balance_step :: "f64 \<times> f64 \<Rightarrow> ledger_row \<Rightarrow> f64 \<times> f64" where
  "balance_step acc row = (fst acc + lr_qty_change row, snd acc + lr_qty_change row * lr_valuation_rate row)"

definition compute_balance :: "ledger_row list \<Rightarrow> bin_snapshot" where
  "compute_balance rows =
     (let (qty, value) = foldl balance_step (0, 0) rows;
          actual_qty = round3 qty;
          stock_value = round2 value;
          valuation_rate = (if \<not> feq actual_qty 0 then round2 (stock_value / actual_qty) else 0) in
      \<lparr>bs_actual_qty = actual_qty, bs_valuation_rate = valuation_rate, bs_stock_value = stock_value\<rparr>)"

definition FIFO :: string where
  "FIFO = ''FIFO''"

record layer =
  la_qty :: f64
  la_rate :: f64

text \<open>The inner \<open>while\<close> of \<open>remaining_layers\<close>: consume from the oldest layer.\<close>

fun consume_layers :: "f64 \<Rightarrow> layer list \<Rightarrow> layer list" where
  "consume_layers consume [] = []"
| "consume_layers consume (l # ls) =
     (if 0 < consume then
        if la_qty l \<le> consume then consume_layers (consume - la_qty l) ls
        else l\<lparr>la_qty := la_qty l - consume\<rparr> # ls
      else l # ls)"

definition push_layer :: "layer list \<Rightarrow> f64 \<Rightarrow> f64 \<Rightarrow> layer list" where
  "push_layer layers q r = layers @ [\<lparr>la_qty = q, la_rate = r\<rparr>]"

definition layer_step :: "layer list \<Rightarrow> ledger_row \<Rightarrow> layer list" where
  "layer_step layers row =
     (let q = lr_qty_change row in
      if 0 < q then push_layer layers q (lr_valuation_rate row)
      else if q < 0 then consume_layers (- q) layers
      else layers)"

definition remaining_layers :: "ledger_row list \<Rightarrow> layer list" where
  "remaining_layers prior = foldl layer_step [] prior"

text \<open>
  The \<open>while need > 0.0 && i < layers.len()\<close> of \<open>fifo_rate\<close>; the layers from index \<open>i\<close> on
  are the list. A layer larger than the need is taken in part and met again by the next test,
  which fails because \<open>need - need\<close> is not positive: that is the termination argument.
\<close>

function fifo_take :: "layer list \<Rightarrow> f64 \<Rightarrow> f64 \<Rightarrow> f64 \<Rightarrow> f64 \<times> f64 \<times> f64" where
  "fifo_take [] need cost taken = (need, cost, taken)"
| "fifo_take (l # ls) need cost taken =
     (if 0 < need then
        let take = (if la_qty l \<le> need then la_qty l else need) in
        if la_qty l \<le> take then fifo_take ls (need - take) (cost + take * la_rate l) (taken + take)
        else fifo_take (l\<lparr>la_qty := la_qty l - take\<rparr> # ls) (need - take) (cost + take * la_rate l) (taken + take)
      else (need, cost, taken))"
  by pat_completeness auto
termination
  by (relation "measures [\<lambda>(ls, need, _). length ls, \<lambda>(ls, need, _). if 0 < need then 1 else 0]") auto

definition fifo_rate :: "ledger_row list \<Rightarrow> f64 \<Rightarrow> f64" where
  "fifo_rate prior qty =
     (let (need, cost, taken) = fifo_take (remaining_layers prior) qty 0 0;
          (cost', taken') =
            (if 0 < need then (cost + need * bs_valuation_rate (compute_balance prior), taken + need)
             else (cost, taken)) in
      if 0 < taken' then cost' / taken' else 0)"

definition issue_rate :: "ledger_row list \<Rightarrow> f64 \<Rightarrow> string option \<Rightarrow> f64" where
  "issue_rate prior qty method =
     (if qty \<le> 0 then 0
      else if method = Some FIFO then fifo_rate prior qty
      else bs_valuation_rate (compute_balance prior))"

section \<open>Layers always hold something\<close>

text \<open>Two different representable numbers never have a zero difference (gradual underflow).\<close>

lemma representable_multiple:
  assumes "representable x"
  obtains k :: int where "x = of_int k * pow2 (- 1074)"
proof (cases "x = 0")
  case True
  then show ?thesis using that [of 0] by simp
next
  case False
  define u where "u = ulp_expo x"
  have u: "0 \<le> u + 1074" by (simp add: u_def ulp_expo_def)
  define m where "m = half_even (x / pow2 u)"
  have x: "x = of_int m * pow2 u"
    using assms False by (simp add: representable_def round_value_def u_def m_def)
  have "pow2 u = of_int (2 ^ nat (u + 1074)) * pow2 (- 1074)"
    using pow2_add [of "u + 1074" "- 1074"] pow2_int [OF u] by simp
  then have "x = of_int (m * 2 ^ nat (u + 1074)) * pow2 (- 1074)" by (simp add: x)
  then show ?thesis by (rule that)
qed

lemma fsub_pos:
  assumes "representable x" "representable y" "x < y"
  shows "0 < Fin y - Fin x"
proof -
  obtain j k where jk: "x = of_int j * pow2 (- 1074)" "y = of_int k * pow2 (- 1074)"
    using representable_multiple assms by metis
  then have "of_int j < (of_int k :: rat)" using assms(3) by (simp add: mult_less_cancel_right)
  then have "(1 :: rat) \<le> of_int (k - j)" by simp
  then have "pow2 (- 1074) \<le> y - x"
    using mult_right_mono [of 1 "of_int (k - j)" "pow2 (- 1074)"] by (simp add: jk algebra_simps)
  moreover have "rnd (pow2 (- 1074)) = Fin (pow2 (- 1074))"
    using round_value_dyadic [of 1 "- 1074"]
    by (intro rnd_representable) (simp add: representable_def pow2_def)
  ultimately have "Fin (pow2 (- 1074)) \<le> rnd (y - x)" using rnd_mono by metis
  then show ?thesis
    using pow2_pos [of "- 1074"]
    by (cases "rnd (y - x)") (auto simp: minus_f64_def zero_f64_def less_eq_f64_def intro: less_trans [OF pow2_pos])
qed

definition layer_ok :: "layer \<Rightarrow> bool" where
  "layer_ok l \<longleftrightarrow> 0 < la_qty l \<and> wf64 (la_qty l)"

lemma partial_layer_ok:
  assumes "layer_ok l" "wf64 c" "0 < c" "\<not> la_qty l \<le> c"
  shows "layer_ok (l\<lparr>la_qty := la_qty l - c\<rparr>)"
proof (cases "la_qty l"; cases c)
  fix x y
  assume "la_qty l = Fin x" "c = Fin y"
  then show ?thesis using assms fsub_pos [of y x] by (simp add: layer_ok_def minus_f64_def)
qed (use assms in \<open>auto simp: layer_ok_def minus_f64_def zero_f64_def less_eq_f64_def\<close>)

lemma consume_layers_ok:
  "list_all layer_ok ls \<Longrightarrow> wf64 c \<Longrightarrow> list_all layer_ok (consume_layers c ls)"
proof (induction c ls rule: consume_layers.induct)
  case (2 c l ls)
  have "wf64 (c - la_qty l)" using 2 by (cases c; cases "la_qty l") (auto simp: minus_f64_def)
  then show ?case using 2 partial_layer_ok [of l c] by auto
qed simp

lemma layer_step_ok:
  "list_all layer_ok ls \<Longrightarrow> wf64 (lr_qty_change row) \<Longrightarrow> list_all layer_ok (layer_step ls row)"
  by (auto simp: layer_step_def Let_def push_layer_def layer_ok_def consume_layers_ok)

lemma remaining_layers_ok:
  assumes "list_all (\<lambda>row. wf64 (lr_qty_change row)) prior"
  shows "list_all layer_ok (remaining_layers prior)"
proof -
  have "list_all layer_ok ls \<Longrightarrow> list_all layer_ok (foldl layer_step ls prior)" for ls
    using assms by (induction prior arbitrary: ls) (simp_all add: layer_step_ok)
  then show ?thesis by (simp add: remaining_layers_def)
qed

section \<open>FIFO as a queue of unit costs\<close>

text \<open>
  What a FIFO store of stock promises on whole quantities: a receipt of \<open>q\<close> units at rate \<open>r\<close>
  appends \<open>q\<close> units of cost \<open>r\<close>, an issue of \<open>n\<close> drops the \<open>n\<close> oldest.
\<close>

definition whole :: "nat \<Rightarrow> f64" where
  "whole n = Fin (of_nat n)"

definition max_whole :: nat where
  "max_whole = 2 ^ 53"

text \<open>A movement: a receipt of some units at a rate, or an issue; and what it does to the units.\<close>

definition move_ok :: "(nat \<times> f64) + nat \<Rightarrow> bool" where
  "move_ok m = (case m of Inl (q, r) \<Rightarrow> 0 < q \<and> q \<le> max_whole | Inr n \<Rightarrow> n \<le> max_whole)"

definition spec_move :: "f64 list \<Rightarrow> (nat \<times> f64) + nat \<Rightarrow> f64 list" where
  "spec_move us m = (case m of Inl (q, r) \<Rightarrow> us @ replicate q r | Inr n \<Rightarrow> drop n us)"

locale unit_queue =
  fixes receive :: "'q \<Rightarrow> nat \<Rightarrow> f64 \<Rightarrow> 'q"
    and issue :: "'q \<Rightarrow> nat \<Rightarrow> 'q"
    and units :: "'q \<Rightarrow> f64 list"
    and invar :: "'q \<Rightarrow> bool"
  assumes units_receive: "invar s \<Longrightarrow> 0 < q \<Longrightarrow> q \<le> max_whole \<Longrightarrow> units (receive s q r) = units s @ replicate q r"
    and units_issue: "invar s \<Longrightarrow> n \<le> max_whole \<Longrightarrow> units (issue s n) = drop n (units s)"
    and invar_receive: "invar s \<Longrightarrow> 0 < q \<Longrightarrow> q \<le> max_whole \<Longrightarrow> invar (receive s q r)"
    and invar_issue: "invar s \<Longrightarrow> n \<le> max_whole \<Longrightarrow> invar (issue s n)"
begin

definition apply_move :: "'q \<Rightarrow> (nat \<times> f64) + nat \<Rightarrow> 'q" where
  "apply_move s m = (case m of Inl (q, r) \<Rightarrow> receive s q r | Inr n \<Rightarrow> issue s n)"

lemma apply_move_refines:
  "invar s \<Longrightarrow> move_ok m \<Longrightarrow> invar (apply_move s m) \<and> units (apply_move s m) = spec_move (units s) m"
  by (auto simp: apply_move_def move_ok_def spec_move_def units_receive units_issue invar_receive
      invar_issue split: sum.splits)

lemma moves_refine:
  "invar s \<Longrightarrow> list_all move_ok ms \<Longrightarrow>
     invar (foldl apply_move s ms) \<and> units (foldl apply_move s ms) = foldl spec_move (units s) ms"
  by (induction ms arbitrary: s) (use apply_move_refines in auto)

end

definition layer_count :: "layer \<Rightarrow> nat" where
  "layer_count l = (case la_qty l of Fin x \<Rightarrow> nat \<lfloor>x\<rfloor> | _ \<Rightarrow> 0)"

definition layer_units :: "layer list \<Rightarrow> f64 list" where
  "layer_units ls = concat (map (\<lambda>l. replicate (layer_count l) (la_rate l)) ls)"

definition whole_layer :: "layer \<Rightarrow> bool" where
  "whole_layer l \<longleftrightarrow> la_qty l = whole (layer_count l) \<and> 0 < layer_count l \<and> layer_count l \<le> max_whole"

definition issue_layers :: "layer list \<Rightarrow> nat \<Rightarrow> layer list" where
  "issue_layers ls n = consume_layers (whole n) ls"

definition receive_layers :: "layer list \<Rightarrow> nat \<Rightarrow> f64 \<Rightarrow> layer list" where
  "receive_layers ls q r = push_layer ls (whole q) r"

lemma layer_count_whole [simp]: "layer_count \<lparr>la_qty = whole n, la_rate = r\<rparr> = n"
  "layer_count (l\<lparr>la_qty := whole n\<rparr>) = n"
  by (simp_all add: layer_count_def whole_def)

lemma rnd_nat: "n \<le> max_whole \<Longrightarrow> rnd (of_nat n) = whole n"
  using rnd_int [of "int n"] by (simp add: whole_def max_whole_def)

lemma whole_diff: "m \<le> n \<Longrightarrow> n \<le> max_whole \<Longrightarrow> whole n - whole m = whole (n - m)"
  using rnd_nat [of "n - m"] by (simp add: whole_def minus_f64_def of_nat_diff)

lemma whole_less [simp]: "whole m < whole n \<longleftrightarrow> m < n" "whole m \<le> whole n \<longleftrightarrow> m \<le> n" "0 < whole n \<longleftrightarrow> 0 < n"
  by (auto simp: whole_def zero_f64_def)

lemma whole_finite [simp]: "is_finite (whole n)" "whole n \<noteq> NaN" "NaN \<noteq> whole n"
  by (simp_all add: whole_def)

lemma consume_whole:
  assumes "list_all whole_layer ls" "n \<le> max_whole"
  shows "list_all whole_layer (consume_layers (whole n) ls) \<and>
    layer_units (consume_layers (whole n) ls) = drop n (layer_units ls)"
  using assms
proof (induction ls arbitrary: n)
  case (Cons l ls)
  define k where "k = layer_count l"
  have l: "la_qty l = whole k" "0 < k" "k \<le> max_whole"
    using Cons.prems(1) by (simp_all add: whole_layer_def k_def)
  show ?case
  proof (cases "k \<le> n")
    case True
    then show ?thesis
      using Cons.IH [of "n - k"] Cons.prems l
      by (simp add: whole_diff layer_units_def k_def [symmetric])
  next
    case False
    then have d: "whole k - whole n = whole (k - n)" using l by (simp add: whole_diff)
    show ?thesis
      using False Cons.prems l d
      by (auto simp: layer_units_def whole_layer_def k_def [symmetric] drop_append)
  qed
qed (simp add: layer_units_def)

interpretation fifo: unit_queue receive_layers issue_layers layer_units "list_all whole_layer"
proof
  fix s q r n
  show "list_all whole_layer s \<Longrightarrow> n \<le> max_whole \<Longrightarrow> layer_units (issue_layers s n) = drop n (layer_units s)"
    "list_all whole_layer s \<Longrightarrow> n \<le> max_whole \<Longrightarrow> list_all whole_layer (issue_layers s n)"
    using consume_whole by (simp_all add: issue_layers_def)
qed (simp_all add: receive_layers_def push_layer_def layer_units_def whole_layer_def)

text \<open>A ledger row as a movement of whole units.\<close>

definition row_move :: "ledger_row \<Rightarrow> (nat \<times> f64) + nat \<Rightarrow> bool" where
  "row_move row m = (case m of
       Inl (q, r) \<Rightarrow> lr_qty_change row = whole q \<and> lr_valuation_rate row = r
     | Inr n \<Rightarrow> lr_qty_change row = - whole n)"

lemma layer_step_move:
  "row_move row m \<Longrightarrow> move_ok m \<Longrightarrow> layer_step ls row = fifo.apply_move ls m"
  by (cases ls)
    (auto simp: row_move_def move_ok_def fifo.apply_move_def layer_step_def Let_def
      receive_layers_def issue_layers_def whole_def zero_f64_def split: sum.splits)

lemma foldl_layer_step_moves:
  "list_all2 row_move rows ms \<Longrightarrow> list_all move_ok ms \<Longrightarrow>
     foldl layer_step ls rows = foldl fifo.apply_move ls ms"
proof (induction rows ms arbitrary: ls rule: list_all2_induct)
  case (Cons row rows m ms)
  then show ?case by (simp add: layer_step_move)
qed simp

lemma remaining_layers_moves:
  assumes "list_all2 row_move rows ms" "list_all move_ok ms"
  shows "list_all whole_layer (remaining_layers rows)"
    and "layer_units (remaining_layers rows) = foldl spec_move [] ms"
  using fifo.moves_refine [of "[]" ms] assms
  by (simp_all add: remaining_layers_def foldl_layer_step_moves layer_units_def)

section \<open>The cost of an issue\<close>

lemma whole_inj: "inj whole"
  by (auto intro: injI simp: whole_def)

lemma whole_add: "m + n \<le> max_whole \<Longrightarrow> whole m + whole n = whole (m + n)"
  using rnd_nat [of "m + n"] by (simp add: whole_def)

lemma whole_mult: "m * n \<le> max_whole \<Longrightarrow> whole m * whole n = whole (m * n)"
  using rnd_nat [of "m * n"] by (simp add: whole_def times_f64_def)

lemma fifo_take_whole:
  assumes "list_all whole_layer ls" "layer_units ls = map whole us" "n \<le> length us"
    and "c + sum_list (take n us) \<le> max_whole" "t + n \<le> max_whole"
  shows "fifo_take ls (whole n) (whole c) (whole t) = (0, whole (c + sum_list (take n us)), whole (t + n))"
  using assms
proof (induction ls arbitrary: n c t us)
  case Nil
  then show ?case by (simp add: layer_units_def whole_def zero_f64_def)
next
  case (Cons l ls)
  define k where "k = layer_count l"
  have l: "la_qty l = whole k" "0 < k" "k \<le> max_whole"
    using Cons.prems(1) by (simp_all add: whole_layer_def k_def)
  have "map whole us = replicate k (la_rate l) @ layer_units ls"
    using Cons.prems(2) by (simp add: layer_units_def k_def)
  then obtain vs ws where us: "us = vs @ ws" "map whole vs = replicate k (la_rate l)" "map whole ws = layer_units ls"
    by (metis map_eq_append_conv)
  then have "length vs = k" by (metis length_map length_replicate)
  then have "whole (hd vs) = la_rate l" using us(2) l(2) by (cases vs) (auto simp: Cons_replicate_eq)
  then obtain r where r: "la_rate l = whole r" by metis
  have vs: "vs = replicate k r"
    using us(2) unfolding r by (metis whole_inj map_replicate inj_map_eq_map)
  show ?case
  proof (cases "k \<le> n")
    case True
    have sum: "sum_list (take n us) = k * r + sum_list (take (n - k) ws)"
      using True by (simp add: us(1) vs sum_list_replicate)
    have "fifo_take (l # ls) (whole n) (whole c) (whole t)
        = fifo_take ls (whole (n - k)) (whole (c + k * r)) (whole (t + k))"
      using True l r Cons.prems(4,5) sum by (simp add: Let_def whole_diff whole_mult whole_add)
    also have "\<dots> = (0, whole (c + k * r + sum_list (take (n - k) ws)), whole (t + k + (n - k)))"
      using Cons.prems True sum us by (intro Cons.IH) (auto simp: \<open>length vs = k\<close>)
    finally show ?thesis using True sum by (simp add: add.assoc)
  next
    case False
    have sum: "sum_list (take n us) = n * r" using False by (simp add: us(1) vs sum_list_replicate)
    show ?thesis
      using False l r Cons.prems(4,5) sum
      by (auto simp: Let_def whole_mult whole_add fsub_self) (simp_all add: whole_def zero_f64_def)
  qed
qed

lemma fifo_rate_whole:
  assumes "list_all whole_layer (remaining_layers prior)" "layer_units (remaining_layers prior) = map whole us"
    and "0 < n" "n \<le> length us" "sum_list (take n us) \<le> max_whole" "n \<le> max_whole"
  shows "fifo_rate prior (whole n) = whole (sum_list (take n us)) / whole n"
  using fifo_take_whole [of "remaining_layers prior" us n 0 0] assms
  by (simp add: fifo_rate_def whole_def zero_f64_def)

section \<open>Whole quantities balance exactly\<close>

lemma int_add:
  "\<bar>a + b\<bar> \<le> 2 ^ 53 \<Longrightarrow> Fin (of_int a) + Fin (of_int b) = Fin (of_int (a + b))"
  using rnd_int [of "a + b"] by simp

lemma balance_fold_int:
  assumes "list_all2 (\<lambda>row q. lr_qty_change row = Fin (of_int q)) rows qs"
    and "\<bar>a\<bar> + sum_list (map abs qs) \<le> 2 ^ 53"
  shows "fst (foldl balance_step (Fin (of_int a), v) rows) = Fin (of_int (a + sum_list qs))"
  using assms
proof (induction rows qs arbitrary: a v rule: list_all2_induct)
  case (Cons row rows q qs)
  have "\<bar>a + q\<bar> + sum_list (map abs qs) \<le> 2 ^ 53" using Cons.prems by simp
  moreover have "0 \<le> sum_list (map abs qs)" by (intro sum_list_nonneg) auto
  ultimately show ?case
    using Cons.IH [of "a + q"] Cons.hyps int_add [of a q]
    by (simp add: balance_step_def add.assoc del: of_int_add plus_f64.simps)
qed simp

lemma compute_balance_qty:
  assumes "list_all2 (\<lambda>row q. lr_qty_change row = Fin (of_int q)) rows qs"
    and "1000 * sum_list (map abs qs) \<le> 2 ^ 53"
  shows "bs_actual_qty (compute_balance rows) = Fin (of_int (sum_list qs))"
proof -
  have a: "\<bar>sum_list qs\<bar> \<le> sum_list (map abs qs)" by (rule sum_list_abs)
  have "fst (foldl balance_step (0, 0) rows) = Fin (of_int (sum_list qs))"
    using balance_fold_int [OF assms(1), of 0 0] assms(2) by (simp add: zero_f64_def)
  moreover have "\<bar>1000 * sum_list qs\<bar> \<le> 2 ^ 53" using a assms(2) by (simp add: abs_mult)
  ultimately show ?thesis by (simp add: compute_balance_def case_prod_beta Let_def round3_int)
qed

lemmas stock_eval = balance_step_def compute_balance_def FIFO_def push_layer_def layer_step_def
  remaining_layers_def fifo_rate_def issue_rate_def

declare stock_eval [eval_simps]

end
