(* ===== verification/Engine_Base.thy ===== *)
theory Engine_Base
  imports Mem_Commit Stock_Costing
begin

text \<open>
  \<^verbatim>\<open>src/src/posting/engine.rs\<close>, first part: the commands, who may issue them, the validated posting
  date, the offline-fiscal preconditions, the account fallbacks and the recomputation of invoice
  totals and tax rows. A failing function returns \<open>Inl\<close> of a \<open>posting_error\<close>. The clock is the
  record \<open>env\<close>: the instant, today's date as the text \<open>%Y-%m-%d\<close>, and the id of the audit row.
\<close>

section \<open>Constants and commands\<close>

definition EPS :: f64 where "EPS = lit (1 / 10000000)"
definition TAX_ROW_EPS :: f64 where "TAX_ROW_EPS = lit (1 / 100)"
definition BALANCE_TOLERANCE :: f64 where "BALANCE_TOLERANCE = lit (5 / 1000)"
definition WITHHOLDING_TAX_TYPE :: string where "WITHHOLDING_TAX_TYPE = ''Withholding''"
definition MAX_RETRIES :: nat where "MAX_RETRIES = 16"
definition OFFLINE_FISCAL_DOCTYPE :: string where "OFFLINE_FISCAL_DOCTYPE = ''POS Invoice''"
definition MIN_POSTING_YEAR :: nat where "MIN_POSTING_YEAR = 1900"
definition MAX_POSTING_YEAR :: nat where "MAX_POSTING_YEAR = 2100"

definition SETTLEABLE_DOCTYPES :: "string list" where
  "SETTLEABLE_DOCTYPES = [''Sales Invoice'', ''Purchase Invoice'']"

record env =
  ev_now :: int
  ev_today :: string
  ev_audit_id :: uuid

record actor =
  ac_user :: "uuid option"
  ac_device :: "uuid option"
  ac_replication_device_id :: "string option"

definition actor_user :: "uuid \<Rightarrow> uuid option \<Rightarrow> actor" where
  "actor_user u d = \<lparr>ac_user = Some u, ac_device = d, ac_replication_device_id = None\<rparr>"

definition actor_system :: "string \<Rightarrow> actor" where
  "actor_system dev = \<lparr>ac_user = None, ac_device = None, ac_replication_device_id = Some dev\<rparr>"

record submit_command =
  sc_doctype :: string
  sc_document_id :: "string option"
  sc_payload :: jmap
  sc_items :: "json list"
  sc_idempotency_key :: "string option"
  sc_offline_fiscal :: bool

record cancel_command =
  cc_doctype :: string
  cc_document_id :: string
  cc_idempotency_key :: "string option"

definition allowed_roles :: "string \<Rightarrow> role list option" where
  "allowed_roles doctype =
     (if doctype = ''Sales Invoice'' then Some [Owner, Admin, Sales]
      else if doctype = ''Purchase Invoice'' \<or> doctype = ''Purchase Receipt'' then Some [Owner, Admin, Purchasing]
      else if doctype = ''Delivery Note'' then Some [Owner, Admin, Stock, Sales]
      else if doctype = ''POS Invoice'' then Some [Owner, Admin, Pos]
      else if doctype = ''Stock Entry'' then Some [Owner, Admin, Stock]
      else if doctype = ''Payment Entry'' then Some [Owner, Admin, Accountant]
      else if doctype = ''Journal Entry'' then Some [Owner, Admin, Accountant]
      else if doctype = ''Expense'' then Some [Owner, Admin, Accountant, Purchasing]
      else if doctype = ''Customer Deposit'' then Some [Owner, Admin, Accountant, Sales]
      else None)"

section \<open>The posting date\<close>

definition date_well_formed :: "string \<Rightarrow> bool" where
  "date_well_formed date \<longleftrightarrow> length date = 10 \<and> date ! 4 = CHR ''-'' \<and> date ! 7 = CHR ''-''
     \<and> list_all (\<lambda>i. i = 4 \<or> i = 7 \<or> is_digit (date ! i)) [0..<10]"

definition date_year :: "string \<Rightarrow> nat" where
  "date_year date = read_nat (take 4 date)"

definition date_month :: "string \<Rightarrow> nat" where
  "date_month date = read_nat (take 2 (drop 5 date))"

definition date_day :: "string \<Rightarrow> nat" where
  "date_day date = read_nat (take 2 (drop 8 date))"

definition real_date :: "ext \<Rightarrow> string \<Rightarrow> bool" where
  "real_date x date \<longleftrightarrow> date_well_formed date
     \<and> MIN_POSTING_YEAR \<le> date_year date \<and> date_year date \<le> MAX_POSTING_YEAR
     \<and> ext_from_ymd x (date_year date) (date_month date) (date_day date)"

definition validated_posting_date :: "ext \<Rightarrow> string \<Rightarrow> jmap \<Rightarrow> posting_error + string" where
  "validated_posting_date x today payload =
     (case obj_get payload ''posting_date'' of
        None \<Rightarrow> Inr today
      | Some JNull \<Rightarrow> Inr today
      | Some (JStr s) \<Rightarrow>
          let date = trim s in
          if date = [] then Inr today
          else and_then (ensure (real_date x date) (Validation (Period (PostingDateInvalid date)))) (\<lambda>_. Inr date)
      | Some other \<Rightarrow> Inl (Validation (Period (PostingDateNotString other))))"

section \<open>Replays and offline-fiscal preconditions\<close>

definition bound_replay :: "commit_outcome \<Rightarrow> string \<Rightarrow> string option \<Rightarrow> posting_error + commit_outcome" where
  "bound_replay outcome doctype document_id =
     (let response = oc_response outcome;
          same_doctype = (case Option.bind (jget response ''doctype'') as_str of
            Some stored \<Rightarrow> stored = doctype | None \<Rightarrow> True);
          same_document = (case document_id of
            Some i \<Rightarrow> Option.bind (jget response ''document_id'') as_str = Some i | None \<Rightarrow> True) in
      if same_doctype \<and> same_document then Inr outcome else Inl (PConflict (Command KeyReused)))"

definition validate_offline_fiscal :: "submit_command \<Rightarrow> actor \<Rightarrow> posting_error + unit" where
  "validate_offline_fiscal cmd act =
     and_then (ensure (sc_doctype cmd = OFFLINE_FISCAL_DOCTYPE) (Validation (Command OfflineOnlyPos))) (\<lambda>_.
     and_then (ensure (ac_device act \<noteq> None) (Validation (Command OfflineNeedsDevice))) (\<lambda>_.
     (case sc_document_id cmd of
        None \<Rightarrow> Inl (Validation (Command OfflineNeedsReceipt))
      | Some i \<Rightarrow>
          and_then (ensure (trim i \<noteq> []) (Validation (Command OfflineNeedsReceipt))) (\<lambda>_.
          (case as_non_empty (obj_get (sc_payload cmd) ''till_series'') of
             None \<Rightarrow> Inl (Validation (Command OfflineNeedsSeries))
           | Some ser \<Rightarrow>
               ensure (sublist ser i \<and> length i \<le> 120)
                 (Validation (Command (ReceiptNotFromSeries i ser))))))))"

definition replay :: "inner \<Rightarrow> uuid \<Rightarrow> string option \<Rightarrow> commit_outcome option" where
  "replay s c key = map_option (\<lambda>r. \<lparr>oc_response = r, oc_replayed = True\<rparr>)
     (Option.bind key (idempotent_response s c))"

section \<open>Row context and line helpers\<close>

record row_context =
  cx_company :: uuid
  cx_document_id :: string
  cx_doctype :: string
  cx_posting_date :: string
  cx_batch_id :: string

definition ctx_gl :: "row_context \<Rightarrow> string \<Rightarrow> string \<Rightarrow> f64 \<Rightarrow> f64 \<Rightarrow> string option \<Rightarrow> string option \<Rightarrow> gl_entry" where
  "ctx_gl ctx row_id account debit credit party_type party = \<lparr>
     gl_id = row_id,
     gl_company = cx_company ctx,
     gl_account = account,
     gl_debit = debit,
     gl_credit = credit,
     gl_party_type = party_type,
     gl_party = party,
     gl_cost_center = None,
     gl_voucher_type = cx_doctype ctx,
     gl_voucher_no = cx_document_id ctx,
     gl_posting_date = cx_posting_date ctx,
     gl_currency = None,
     gl_conversion_rate = None,
     gl_base_debit = None,
     gl_base_credit = None,
     gl_is_reversal = False,
     gl_batch_id = cx_batch_id ctx\<rparr>"

definition ctx_sle ::
  "row_context \<Rightarrow> string \<Rightarrow> string \<Rightarrow> string \<Rightarrow> string \<Rightarrow> f64 \<Rightarrow> f64 \<Rightarrow> string option \<Rightarrow> stock_ledger_entry" where
  "ctx_sle ctx row_id trans_type item warehouse qty_change valuation_rate uom = \<lparr>
     sle_id = row_id,
     sle_company = cx_company ctx,
     sle_trans_type = trans_type,
     sle_item = item,
     sle_warehouse = warehouse,
     sle_qty_change = qty_change,
     sle_valuation_rate = valuation_rate,
     sle_voucher_type = cx_doctype ctx,
     sle_voucher_no = cx_document_id ctx,
     sle_posting_date = cx_posting_date ctx,
     sle_uom = uom,
     sle_is_reversal = False,
     sle_batch_id = cx_batch_id ctx,
     sle_seq = 0\<rparr>"

text \<open>An array member of the payload, empty when it is anything else.\<close>

definition array_of :: "jmap \<Rightarrow> string \<Rightarrow> json list" where
  "array_of payload k = (case obj_get payload k of Some (JArr xs) \<Rightarrow> xs | _ \<Rightarrow> [])"

definition items_of :: "jmap \<Rightarrow> json list" where
  "items_of payload = array_of payload ''items''"

text \<open>The object rows of an array with their positions: \<open>enumerate().filter_map(as_object)\<close>.\<close>

definition object_rows :: "json list \<Rightarrow> (nat \<times> jmap) list" where
  "object_rows rows = List.map_filter (\<lambda>(i, row). map_option (Pair i) (as_object row)) (List.enumerate 0 rows)"

definition line_amount :: "jmap \<Rightarrow> f64" where
  "line_amount line = (case obj_get line ''amount'' of
       Some v \<Rightarrow> if v \<noteq> JNull then as_num (Some v) else round2 (as_num (obj_get line ''qty'') * as_num (obj_get line ''rate''))
     | None \<Rightarrow> round2 (as_num (obj_get line ''qty'') * as_num (obj_get line ''rate'')))"

definition total_tax :: "jmap \<Rightarrow> f64" where
  "total_tax payload =
     fsum (map (\<lambda>(_, row). as_num (obj_get row ''tax_amount'')) (object_rows (array_of payload ''taxes'')))"

section \<open>Account fallbacks\<close>

datatype fallback = FReceivable | FPayable | FIncome | FExpense | FDeposit | FCash

definition fallback_account :: "company_settings \<Rightarrow> fallback \<Rightarrow> string" where
  "fallback_account st f = (case f of
       FReceivable \<Rightarrow> cs_default_receivable_account st
     | FPayable \<Rightarrow> cs_default_payable_account st
     | FIncome \<Rightarrow> cs_default_income_account st
     | FExpense \<Rightarrow> cs_default_expense_account st
     | FDeposit \<Rightarrow> cs_default_customer_deposit_account st
     | FCash \<Rightarrow> cs_default_cash_account st)"

definition fallbacks_for :: "string \<Rightarrow> jmap \<Rightarrow> (string \<times> fallback) list" where
  "fallbacks_for doctype payload =
     (if doctype = ''Sales Invoice'' then [(''debit_to'', FReceivable), (''income_account'', FIncome)]
      else if doctype = ''Purchase Invoice'' then [(''credit_to'', FPayable), (''expense_account'', FExpense)]
      else if doctype = ''POS Invoice'' then [(''cash_account'', FCash), (''income_account'', FIncome)]
      else if doctype = ''Expense'' then [(''paid_from'', FCash), (''credit_to'', FPayable)]
      else if doctype = ''Customer Deposit'' then [(''cash_account'', FCash), (''deposit_account'', FDeposit)]
      else if doctype = ''Payment Entry'' then
        (let ty = as_non_empty (obj_get payload ''payment_type'') in
         if ty = Some ''Receive'' then [(''paid_from'', FReceivable), (''paid_to'', FCash)]
         else if ty = Some ''Pay'' then [(''paid_from'', FCash), (''paid_to'', FPayable)]
         else [])
      else [])"

definition resolve_account_fallbacks :: "string \<Rightarrow> company_settings \<Rightarrow> jmap \<Rightarrow> jmap" where
  "resolve_account_fallbacks doctype st payload =
     foldl (\<lambda>p (fld, f). if as_non_empty (obj_get p fld) = None
                      then obj_insert fld (JStr (fallback_account st f)) p else p)
       payload (fallbacks_for doctype payload)"

section \<open>Invoice totals\<close>

definition sent_number :: "jmap \<Rightarrow> string \<Rightarrow> f64 option" where
  "sent_number payload k = (case obj_get payload k of
       None \<Rightarrow> None
     | Some JNull \<Rightarrow> None
     | Some (JStr s) \<Rightarrow> if trim s = [] then None else Some (as_num (Some (JStr s)))
     | Some v \<Rightarrow> Some (as_num (Some v)))"

definition invoice_line :: "f64 \<times> nat \<Rightarrow> nat \<times> jmap \<Rightarrow> posting_error + (f64 \<times> nat)" where
  "invoice_line acc e = (case (acc, e) of ((lines_sum, line_count), (index, line)) \<Rightarrow>
     let derived = round2 (as_num (obj_get line ''qty'') * as_num (obj_get line ''rate'')) in
     and_then
       (case obj_get line ''amount'' of
          None \<Rightarrow> Inr derived
        | Some v \<Rightarrow>
            if v = JNull then Inr derived
            else let sent = as_num (Some v) in
              if MONEY_EPS < \<bar>sent - derived\<bar> then Inl (Validation (Totals (LineAmountMismatch index sent derived)))
              else Inr sent)
       (\<lambda>amount. Inr (lines_sum + amount, Suc line_count)))"

definition is_withholding :: "jmap \<Rightarrow> bool" where
  "is_withholding row \<longleftrightarrow> as_non_empty (obj_get row ''tax_type'') = Some WITHHOLDING_TAX_TYPE"

text \<open>The two running sums over the tax rows: all of them, and the extracted ones.\<close>

definition tax_sums :: "bool \<Rightarrow> jmap \<Rightarrow> f64 \<times> f64" where
  "tax_sums inclusive payload =
     foldl (\<lambda>(tax_sum, extracted) (_, row).
         let tax_amount = as_num (obj_get row ''tax_amount'') in
         (tax_sum + tax_amount,
          if inclusive \<and> \<not> is_withholding row then extracted + tax_amount else extracted))
       (0, 0) (object_rows (array_of payload ''taxes''))"

text \<open>A sent total within tolerance of the computed one is kept, an absent one is computed.\<close>

definition resolve_total :: "f64 option \<Rightarrow> f64 \<Rightarrow> f64 \<Rightarrow> (f64 \<Rightarrow> f64 \<Rightarrow> totals_reason) \<Rightarrow> posting_error + f64" where
  "resolve_total sent computed tolerance why = (case sent of
       Some v \<Rightarrow> if tolerance < \<bar>v - computed\<bar> then Inl (Validation (Totals (why v computed))) else Inr v
     | None \<Rightarrow> Inr computed)"

definition validate_invoice_totals :: "jmap \<Rightarrow> bool \<Rightarrow> posting_error + jmap" where
  "validate_invoice_totals payload track_outstanding =
     (let inclusive = is_true (obj_get payload ''prices_include_tax'') in
      and_then (fold_result invoice_line (0, 0) (object_rows (items_of payload))) (\<lambda>(lines_sum, line_count).
      let (tax_sum, extracted) = tax_sums inclusive payload;
          computed_total = round2 (lines_sum - extracted);
          computed_tax = round2 tax_sum;
          computed_grand = round2 (computed_total + computed_tax);
          line_tolerance = MONEY_EPS * lit (of_nat (max line_count 1)) in
      and_then (resolve_total (sent_number payload ''total'') computed_total line_tolerance TotalMismatch) (\<lambda>total.
      and_then (resolve_total (sent_number payload ''tax_total'') computed_tax MONEY_EPS TaxTotalMismatch) (\<lambda>tax_total.
      and_then (resolve_total (sent_number payload ''grand_total'') computed_grand line_tolerance GrandTotalMismatch) (\<lambda>grand.
      let payload1 = (if sent_number payload ''grand_total'' = None
                      then obj_insert ''grand_total'' (json_f64 computed_grand) payload else payload) in
      if lit 2 * MONEY_EPS < \<bar>grand - (total + tax_total)\<bar>
      then Inl (Validation (Totals (GrandTotalIdentity grand total tax_total)))
      else
        let payload2 = obj_remove ''outstanding_amount'' payload1 in
        Inr (if track_outstanding then obj_insert ''outstanding_amount'' (json_f64 grand) payload2 else payload2))))))"

definition tax_row_check :: "bool \<Rightarrow> unit \<Rightarrow> nat \<times> jmap \<Rightarrow> posting_error + unit" where
  "tax_row_check is_return u e = (case e of (index, row) \<Rightarrow>
     let rate = as_num (obj_get row ''rate'');
         taxable = as_num (obj_get row ''taxable_amount'');
         tax_amount = as_num (obj_get row ''tax_amount'');
         magnitude = round2 (taxable * rate / lit 100);
         expected = (if is_withholding row then - magnitude else magnitude) in
     and_then (ensure (\<not> rate < 0) (Validation (Totals (TaxRateNegative index rate)))) (\<lambda>_.
     and_then (ensure (\<not> (\<not> is_return \<and> taxable < - MONEY_EPS)) (Validation (Totals (TaxableNegative index taxable)))) (\<lambda>_.
     and_then (ensure (\<not> (is_return \<and> MONEY_EPS < taxable)) (Validation (Totals (TaxablePositive index taxable)))) (\<lambda>_.
     ensure (\<not> TAX_ROW_EPS < \<bar>tax_amount - expected\<bar>)
       (Validation (Totals (TaxRowMismatch index tax_amount expected)))))))"

definition validate_tax_rows :: "jmap \<Rightarrow> posting_error + unit" where
  "validate_tax_rows payload =
     fold_result (tax_row_check (is_true (obj_get payload ''is_return''))) () (object_rows (array_of payload ''taxes''))"

end
