(* ===== verification/Engine_Derive.thy ===== *)
theory Engine_Derive
  imports Engine_Base
begin

text \<open>
  \<^verbatim>\<open>src/src/posting/engine.rs\<close>, forward derivation: the monetary GL legs of a voucher, its base
  currency stamps, the customer, supplier and tax subledger rows, the raw stock rows and the
  settlements.
\<close>

section \<open>Monetary GL legs\<close>

definition acct :: "jmap \<Rightarrow> string \<Rightarrow> string" where
  "acct payload k = unwrap_or_default (as_non_empty (obj_get payload k))"

definition journal_rows :: "jmap \<Rightarrow> (nat \<times> jmap) list" where
  "journal_rows payload =
     filter (\<lambda>(_, row). as_non_empty (obj_get row ''account'') \<noteq> None) (object_rows (array_of payload ''accounts''))"

definition tax_leg :: "row_context \<Rightarrow> bool \<Rightarrow> nat \<times> jmap \<Rightarrow> gl_entry option" where
  "tax_leg ctx is_output e = (case e of (i, row) \<Rightarrow>
     let tax_amount = as_num (obj_get row ''tax_amount'') in
     (case as_non_empty (obj_get row ''tax_account'') of
        None \<Rightarrow> None
      | Some account \<Rightarrow>
          if \<bar>tax_amount\<bar> < EPS then None
          else Some (ctx_gl ctx (''GL-'' @ cx_document_id ctx @ ''-tax-'' @ show_nat i) account
            (if is_output then 0 else tax_amount) (if is_output then tax_amount else 0) None None)))"

definition tax_legs :: "row_context \<Rightarrow> jmap \<Rightarrow> bool \<Rightarrow> gl_entry list" where
  "tax_legs ctx payload is_output = List.map_filter (tax_leg ctx is_output) (object_rows (array_of payload ''taxes''))"

definition gl_name :: "row_context \<Rightarrow> string \<Rightarrow> string" where
  "gl_name ctx leg = ''GL-'' @ cx_document_id ctx @ ''-'' @ leg"

definition net_of_tax :: "jmap \<Rightarrow> f64" where
  "net_of_tax payload = as_num (obj_get payload ''grand_total'') - total_tax payload"

definition sales_gl :: "row_context \<Rightarrow> jmap \<Rightarrow> gl_entry list" where
  "sales_gl ctx payload =
     [ctx_gl ctx (gl_name ctx ''debit'') (acct payload ''debit_to'') (as_num (obj_get payload ''grand_total'')) 0
        (Some ''Customer'') (as_non_empty (obj_get payload ''customer'')),
      ctx_gl ctx (gl_name ctx ''credit'') (acct payload ''income_account'') 0 (net_of_tax payload) None None]
     @ tax_legs ctx payload True"

definition purchase_gl :: "row_context \<Rightarrow> jmap \<Rightarrow> gl_entry list" where
  "purchase_gl ctx payload =
     [ctx_gl ctx (gl_name ctx ''credit'') (acct payload ''credit_to'') 0 (as_num (obj_get payload ''grand_total''))
        (Some ''Supplier'') (as_non_empty (obj_get payload ''supplier'')),
      ctx_gl ctx (gl_name ctx ''debit'') (acct payload ''expense_account'') (net_of_tax payload) 0 None None]
     @ tax_legs ctx payload False"

definition pos_gl :: "row_context \<Rightarrow> jmap \<Rightarrow> gl_entry list" where
  "pos_gl ctx payload =
     [ctx_gl ctx (gl_name ctx ''cash'') (acct payload ''cash_account'') (as_num (obj_get payload ''grand_total'')) 0 None None,
      ctx_gl ctx (gl_name ctx ''income'') (acct payload ''income_account'') 0 (net_of_tax payload) None None]
     @ tax_legs ctx payload True"

definition payment_gl :: "row_context \<Rightarrow> jmap \<Rightarrow> gl_entry list" where
  "payment_gl ctx payload =
     (let paid = as_num (obj_get payload ''paid_amount'') in
      [ctx_gl ctx (gl_name ctx ''from'') (acct payload ''paid_from'') 0 paid None None,
       ctx_gl ctx (gl_name ctx ''to'') (acct payload ''paid_to'') paid 0 None None])"

definition expense_gl :: "row_context \<Rightarrow> jmap \<Rightarrow> gl_entry list" where
  "expense_gl ctx payload =
     (let net = as_num (obj_get payload ''net_amount'');
          tax = as_num (obj_get payload ''tax_amount'');
          gross = as_num (obj_get payload ''gross_amount'');
          paid = is_true (obj_get payload ''is_paid'') in
      [ctx_gl ctx (gl_name ctx ''debit'') (acct payload ''expense_account'') net 0 None None]
      @ (if \<not> feq tax 0 then [ctx_gl ctx (gl_name ctx ''tax'') (acct payload ''tax_account'') tax 0 None None] else [])
      @ [ctx_gl ctx (gl_name ctx ''credit'') (acct payload (if paid then ''paid_from'' else ''credit_to'')) 0 gross
          (if paid then None else Some ''Supplier'')
          (if paid then None else as_non_empty (obj_get payload ''supplier''))])"

definition deposit_gl :: "row_context \<Rightarrow> jmap \<Rightarrow> gl_entry list" where
  "deposit_gl ctx payload =
     (let amount = as_num (obj_get payload ''amount'') in
      [ctx_gl ctx (gl_name ctx ''cash'') (acct payload ''cash_account'') amount 0 None None,
       ctx_gl ctx (gl_name ctx ''liability'') (acct payload ''deposit_account'') 0 amount None None])"

definition journal_gl :: "row_context \<Rightarrow> jmap \<Rightarrow> gl_entry list" where
  "journal_gl ctx payload =
     map (\<lambda>(i, row).
       (ctx_gl ctx (gl_name ctx (show_nat i)) (acct row ''account'')
          (as_num (obj_get row ''debit'')) (as_num (obj_get row ''credit'')) None
          (as_non_empty (obj_get row ''party'')))
       \<lparr>gl_party_type := as_non_empty (obj_get row ''party_type''),
        gl_cost_center := as_non_empty (obj_get row ''cost_center'')\<rparr>) (journal_rows payload)"

definition derive_monetary_gl :: "row_context \<Rightarrow> jmap \<Rightarrow> gl_entry list" where
  "derive_monetary_gl ctx payload =
     (let dt = cx_doctype ctx in
      if dt = ''Sales Invoice'' then sales_gl ctx payload
      else if dt = ''Purchase Invoice'' then purchase_gl ctx payload
      else if dt = ''POS Invoice'' then pos_gl ctx payload
      else if dt = ''Payment Entry'' then payment_gl ctx payload
      else if dt = ''Expense'' then expense_gl ctx payload
      else if dt = ''Customer Deposit'' then deposit_gl ctx payload
      else if dt = ''Journal Entry'' then journal_gl ctx payload
      else [])"

section \<open>Subledgers\<close>

definition party_txn :: "row_context \<Rightarrow> jmap \<Rightarrow> party_kind \<Rightarrow> string \<Rightarrow> string \<Rightarrow> f64 \<Rightarrow> party_transaction" where
  "party_txn ctx payload kind trans_type party amount = \<lparr>
     pt_id = (if kind = Customer then ''CT'' else ''VT'') @ ''-'' @ cx_document_id ctx,
     pt_company = cx_company ctx,
     pt_kind = kind,
     pt_trans_type = trans_type,
     pt_party = party,
     pt_posting_date = cx_posting_date ctx,
     pt_due_date = as_non_empty (obj_get payload ''due_date''),
     pt_amount = amount,
     pt_currency = as_non_empty (obj_get payload ''currency''),
     pt_conversion_rate = 1,
     pt_base_amount = amount,
     pt_voucher_type = cx_doctype ctx,
     pt_voucher_no = cx_document_id ctx,
     pt_is_reversal = False,
     pt_batch_id = cx_batch_id ctx\<rparr>"

definition tax_txn :: "row_context \<Rightarrow> string \<Rightarrow> string \<Rightarrow> string option \<Rightarrow> f64 \<Rightarrow> f64 \<Rightarrow> f64 \<Rightarrow> string \<Rightarrow> string option \<Rightarrow> tax_transaction" where
  "tax_txn ctx row_id tax_type tax base_amount tax_amount rate party_type party = \<lparr>
     tt_id = row_id,
     tt_company = cx_company ctx,
     tt_tax_type = tax_type,
     tt_tax = tax,
     tt_posting_date = cx_posting_date ctx,
     tt_base_amount = base_amount,
     tt_tax_amount = tax_amount,
     tt_rate = rate,
     tt_party_type = party_type,
     tt_party = party,
     tt_voucher_type = cx_doctype ctx,
     tt_voucher_no = cx_document_id ctx,
     tt_is_reversal = False,
     tt_batch_id = cx_batch_id ctx\<rparr>"

definition derive_tax_transactions :: "row_context \<Rightarrow> jmap \<Rightarrow> string \<Rightarrow> string option \<Rightarrow> tax_transaction list" where
  "derive_tax_transactions ctx payload party_type party =
     map (\<lambda>(i, row).
       tax_txn ctx (''TT-'' @ cx_document_id ctx @ ''-'' @ show_nat i)
         (case as_non_empty (obj_get row ''tax_type'') of Some t \<Rightarrow> t | None \<Rightarrow> ''VAT'')
         (as_non_empty (obj_get row ''tax_code''))
         (as_num (obj_get row ''taxable_amount'')) (as_num (obj_get row ''tax_amount''))
         (as_num (obj_get row ''rate'')) party_type party)
       (object_rows (array_of payload ''taxes''))"

definition journal_party_row :: "row_context \<Rightarrow> jmap \<Rightarrow> nat \<times> jmap \<Rightarrow> party_transaction option" where
  "journal_party_row ctx payload e = (case e of (i, row) \<Rightarrow>
     (case as_non_empty (obj_get row ''party'') of
        None \<Rightarrow> None
      | Some party \<Rightarrow>
          let net = as_num (obj_get row ''debit'') - as_num (obj_get row ''credit'') in
          (case Option.bind (as_non_empty (obj_get row ''party_type'')) party_kind_parse of
             None \<Rightarrow> None
           | Some kind \<Rightarrow>
               let t = party_txn ctx payload kind ''Adjustment'' party (case kind of Customer \<Rightarrow> net | Supplier \<Rightarrow> - net) in
               Some (t\<lparr>pt_id := pt_id t @ ''-'' @ show_nat i, pt_due_date := None\<rparr>))))"

definition derive_subledger_rows :: "row_context \<Rightarrow> jmap \<Rightarrow> party_transaction list \<times> tax_transaction list" where
  "derive_subledger_rows ctx payload =
     (let dt = cx_doctype ctx;
          grand = as_num (obj_get payload ''grand_total'') in
      if dt = ''Sales Invoice'' then
        (let customer = as_non_empty (obj_get payload ''customer'') in
         ((case customer of Some cu \<Rightarrow> [party_txn ctx payload Customer ''Invoice'' cu grand] | None \<Rightarrow> []),
          derive_tax_transactions ctx payload ''Customer'' customer))
      else if dt = ''Purchase Invoice'' then
        (let supplier = as_non_empty (obj_get payload ''supplier'') in
         ((case supplier of Some su \<Rightarrow> [party_txn ctx payload Supplier ''Invoice'' su grand] | None \<Rightarrow> []),
          derive_tax_transactions ctx payload ''Supplier'' supplier))
      else if dt = ''POS Invoice'' then
        ([], derive_tax_transactions ctx payload ''Customer'' (as_non_empty (obj_get payload ''customer'')))
      else if dt = ''Payment Entry'' then
        ((case as_non_empty (obj_get payload ''party'') of
            None \<Rightarrow> []
          | Some party \<Rightarrow>
              let paid = as_num (obj_get payload ''paid_amount'');
                  ty = as_non_empty (obj_get payload ''payment_type'') in
              if ty = Some ''Receive'' then [party_txn ctx payload Customer ''Payment'' party (- paid)]
              else if ty = Some ''Pay'' then [party_txn ctx payload Supplier ''Payment'' party (- paid)]
              else []),
         [])
      else if dt = ''Expense'' then
        (let net = as_num (obj_get payload ''net_amount'');
             tax = as_num (obj_get payload ''tax_amount'');
             supplier = as_non_empty (obj_get payload ''supplier'') in
         ((case supplier of
             Some su \<Rightarrow>
               if is_true (obj_get payload ''is_paid'') then []
               else [(party_txn ctx payload Supplier ''Invoice'' su (as_num (obj_get payload ''gross_amount'')))\<lparr>pt_due_date := None\<rparr>]
           | None \<Rightarrow> []),
          (if \<not> feq tax 0 then
             [tax_txn ctx (''TT-'' @ cx_document_id ctx @ ''-0'') ''VAT'' (as_non_empty (obj_get payload ''tax_code''))
                net tax (if \<not> feq net 0 then round2 (tax / net * lit 100) else 0) ''Supplier'' supplier]
           else [])))
      else if dt = ''Journal Entry'' then
        (List.map_filter (journal_party_row ctx payload) (journal_rows payload), [])
      else ([], []))"

definition subledger_response_rows :: "party_transaction list \<Rightarrow> tax_transaction list \<Rightarrow> json list \<times> json list" where
  "subledger_response_rows ps ts =
     (map (\<lambda>t. JObj (obj_insert ''doctype'' (JStr (party_kind_doctype (pt_kind t)))
        (obj_insert ''id'' (JStr (pt_id t)) (party_row_fields t)))) ps,
      map (\<lambda>t. JObj (obj_insert ''doctype'' (JStr ''Tax Transaction'')
        (obj_insert ''id'' (JStr (tt_id t)) (tax_row_fields t)))) ts)"

section \<open>Base currency\<close>

definition is_base_stamped :: "string \<Rightarrow> bool" where
  "is_base_stamped doctype \<longleftrightarrow> doctype \<in> {''Sales Invoice'', ''Purchase Invoice'', ''Payment Entry'', ''Journal Entry''}"

definition conversion_rate_of :: "jmap \<Rightarrow> f64" where
  "conversion_rate_of payload = (let rate = as_num (obj_get payload ''conversion_rate'') in if 0 < rate then rate else 1)"

definition stamp_gl :: "f64 \<Rightarrow> string option \<Rightarrow> gl_entry \<Rightarrow> gl_entry" where
  "stamp_gl rate currency e = e\<lparr>
     gl_conversion_rate := Some rate,
     gl_base_debit := Some (gl_debit e * rate),
     gl_base_credit := Some (gl_credit e * rate),
     gl_currency := (case currency of Some cu \<Rightarrow> Some cu | None \<Rightarrow> gl_currency e)\<rparr>"

definition stamp_party :: "f64 \<Rightarrow> string option \<Rightarrow> party_transaction \<Rightarrow> party_transaction" where
  "stamp_party rate currency t = t\<lparr>
     pt_conversion_rate := rate,
     pt_base_amount := pt_amount t * rate,
     pt_currency := (if pt_currency t = None then currency else pt_currency t)\<rparr>"

definition stamp_base_amounts ::
  "jmap \<Rightarrow> gl_entry list \<times> party_transaction list \<Rightarrow> gl_entry list \<times> party_transaction list" where
  "stamp_base_amounts payload rows =
     (let rate = conversion_rate_of payload;
          currency = as_non_empty (obj_get payload ''currency'') in
      (map (stamp_gl rate currency) (fst rows), map (stamp_party rate currency) (snd rows)))"

section \<open>Stock rows\<close>

definition stock_document_row :: "row_context \<Rightarrow> jmap \<Rightarrow> bool \<Rightarrow> string \<Rightarrow> nat \<times> jmap \<Rightarrow> stock_ledger_entry option" where
  "stock_document_row ctx payload incoming trans_type e = (case e of (i, line) \<Rightarrow>
     (case as_non_empty (obj_get line ''item'') of
        None \<Rightarrow> None
      | Some item \<Rightarrow>
          (case (case as_non_empty (obj_get line ''warehouse'') of
                   Some w \<Rightarrow> Some w | None \<Rightarrow> as_non_empty (obj_get payload ''set_warehouse'')) of
             None \<Rightarrow> None
           | Some warehouse \<Rightarrow>
               let qty = as_num (obj_get line ''qty'');
                   rate = (case obj_get line ''valuation_rate'' of
                     Some v \<Rightarrow> if v \<noteq> JNull then as_num (Some v) else as_num (obj_get line ''rate'')
                   | None \<Rightarrow> as_num (obj_get line ''rate'')) in
               Some (ctx_sle ctx (''SLE-'' @ cx_document_id ctx @ ''-'' @ show_nat i) trans_type item warehouse
                 (if incoming then qty else - qty) rate (as_non_empty (obj_get line ''uom''))))))"

definition stock_document_rows :: "row_context \<Rightarrow> jmap \<Rightarrow> bool \<Rightarrow> string \<Rightarrow> stock_ledger_entry list" where
  "stock_document_rows ctx payload incoming trans_type =
     List.map_filter (stock_document_row ctx payload incoming trans_type) (object_rows (items_of payload))"

definition stock_entry_trans_type :: "string option \<Rightarrow> string" where
  "stock_entry_trans_type purpose =
     (if purpose = Some ''Material Receipt'' then ''Receipt''
      else if purpose = Some ''Material Transfer'' then ''Transfer''
      else if purpose = Some ''Repack'' \<or> purpose = Some ''Stock Count'' then ''Adjustment''
      else if purpose = Some ''Manufacture'' \<or> purpose = Some ''Manufacturing'' then ''Production''
      else ''Issue'')"

definition stock_entry_line :: "row_context \<Rightarrow> string \<Rightarrow> nat \<times> jmap \<Rightarrow> stock_ledger_entry list" where
  "stock_entry_line ctx trans_type e = (case e of (i, line) \<Rightarrow>
     (case as_non_empty (obj_get line ''item'') of
        None \<Rightarrow> []
      | Some item \<Rightarrow>
          let qty = as_num (obj_get line ''qty'');
              rate = as_num (obj_get line ''valuation_rate'');
              uom = as_non_empty (obj_get line ''uom'');
              name = ''SLE-'' @ cx_document_id ctx @ ''-'' @ show_nat i in
          (case as_non_empty (obj_get line ''source_warehouse'') of
             Some source \<Rightarrow> [ctx_sle ctx (name @ ''-out'') trans_type item source (- qty) rate uom] | None \<Rightarrow> [])
          @ (case as_non_empty (obj_get line ''target_warehouse'') of
             Some target \<Rightarrow> [ctx_sle ctx (name @ ''-in'') trans_type item target qty rate uom] | None \<Rightarrow> [])))"

definition stock_entry_rows :: "row_context \<Rightarrow> jmap \<Rightarrow> stock_ledger_entry list" where
  "stock_entry_rows ctx payload =
     concat (map (stock_entry_line ctx (stock_entry_trans_type (as_non_empty (obj_get payload ''stock_entry_type''))))
       (object_rows (items_of payload)))"

definition derive_stock_rows :: "row_context \<Rightarrow> jmap \<Rightarrow> stock_ledger_entry list" where
  "derive_stock_rows ctx payload =
     (let dt = cx_doctype ctx in
      if dt = ''Sales Invoice'' \<and> is_true (obj_get payload ''update_stock'') then stock_document_rows ctx payload False ''Issue''
      else if dt = ''Purchase Invoice'' \<and> is_true (obj_get payload ''update_stock'') then stock_document_rows ctx payload True ''Receipt''
      else if dt = ''Purchase Receipt'' then stock_document_rows ctx payload True ''Receipt''
      else if dt = ''POS Invoice'' \<or> dt = ''Delivery Note'' then stock_document_rows ctx payload False ''Issue''
      else if dt = ''Stock Entry'' then stock_entry_rows ctx payload
      else [])"

section \<open>Settlements\<close>

definition settlement_row :: "row_context \<Rightarrow> jmap \<Rightarrow> nat \<times> jmap \<Rightarrow> settlement option" where
  "settlement_row ctx payload e = (case e of (i, reference) \<Rightarrow>
     (case (as_non_empty (obj_get reference ''reference_doctype''), as_non_empty (obj_get reference ''reference_name'')) of
        (Some ref_doctype, Some ref_name) \<Rightarrow> Some \<lparr>
          st_id = ''STL-'' @ cx_document_id ctx @ ''-'' @ show_nat i,
          st_company = cx_company ctx,
          st_payment_voucher_type = cx_doctype ctx,
          st_payment_voucher_no = cx_document_id ctx,
          st_invoice_voucher_type = ref_doctype,
          st_invoice_voucher_no = ref_name,
          st_party_type = (if as_non_empty (obj_get payload ''payment_type'') = Some ''Receive'' then ''Customer'' else ''Supplier''),
          st_party = as_non_empty (obj_get payload ''party''),
          st_allocated_amount = as_num (obj_get reference ''allocated_amount''),
          st_posting_date = cx_posting_date ctx,
          st_is_reversal = False,
          st_batch_id = cx_batch_id ctx\<rparr>
      | _ \<Rightarrow> None))"

definition derive_settlements :: "row_context \<Rightarrow> jmap \<Rightarrow> settlement list" where
  "derive_settlements ctx payload =
     List.map_filter (settlement_row ctx payload) (object_rows (array_of payload ''references''))"

end
