(* ===== verification/Engine_Stock.thy ===== *)
theory Engine_Stock
  imports Engine_Derive "HOL-Library.Product_Lexorder"
begin

text \<open>
  \<^verbatim>\<open>src/src/posting/engine.rs\<close>, costing: the per-pair ledger cache, item lookup, the costing loop,
  the perpetual-inventory GL legs, the GRNI split, and the checks and balances computed from the
  cache. The store is read through the state \<open>s\<close> of one instant.
\<close>

section \<open>The ledger cache\<close>

record ledgers =
  lg_rows :: "((string \<times> string) \<times> ledger_row list) list"
  lg_prior_counts :: "((string \<times> string) \<times> nat) list"

definition empty_ledgers :: ledgers where
  "empty_ledgers = \<lparr>lg_rows = [], lg_prior_counts = []\<rparr>"

definition row_of_sle :: "stock_ledger_entry \<Rightarrow> ledger_row" where
  "row_of_sle e = \<lparr>lr_qty_change = sle_qty_change e, lr_valuation_rate = sle_valuation_rate e\<rparr>"

definition prior_for :: "inner \<Rightarrow> uuid \<Rightarrow> string \<Rightarrow> string \<Rightarrow> ledgers \<Rightarrow> ledgers" where
  "prior_for s c item warehouse lg =
     (if map_of (lg_rows lg) (item, warehouse) \<noteq> None then lg
      else let stored = sles_for_pair s c item warehouse in
        lg\<lparr>lg_prior_counts := AList.update (item, warehouse) (length stored) (lg_prior_counts lg),
           lg_rows := bt_insert (item, warehouse) (map row_of_sle stored) (lg_rows lg)\<rparr>)"

definition rows_for :: "ledgers \<Rightarrow> string \<Rightarrow> string \<Rightarrow> ledger_row list" where
  "rows_for lg item warehouse = (case map_of (lg_rows lg) (item, warehouse) of Some r \<Rightarrow> r | None \<Rightarrow> [])"

text \<open>\<open>prior_for(\<dots>).push(row)\<close>.\<close>

definition push_row :: "inner \<Rightarrow> uuid \<Rightarrow> string \<Rightarrow> string \<Rightarrow> ledger_row \<Rightarrow> ledgers \<Rightarrow> ledgers" where
  "push_row s c item warehouse row lg =
     (let lg' = prior_for s c item warehouse lg in
      lg'\<lparr>lg_rows := bt_insert (item, warehouse) (rows_for lg' item warehouse @ [row]) (lg_rows lg')\<rparr>)"

definition expectations :: "ledgers \<Rightarrow> (string \<times> string \<times> nat) list" where
  "expectations lg = map (\<lambda>((item, warehouse), n). (item, warehouse, n)) (lg_prior_counts lg)"

section \<open>Items\<close>

definition uom_row :: "ext \<Rightarrow> json \<Rightarrow> uom_conversion option" where
  "uom_row x row =
     (let flds = (case jget row ''payload'' of
          Some (JStr raw) \<Rightarrow> ext_from_str x raw
        | Some other \<Rightarrow> Some other
        | None \<Rightarrow> Some row) in
      Option.bind flds (\<lambda>f.
      Option.bind (as_non_empty (jget f ''uom'')) (\<lambda>uom.
      Option.bind (Option.bind (jget f ''conversion_factor'') (\<lambda>v.
        case as_f64 v of Some y \<Rightarrow> Some y | None \<Rightarrow> Option.bind (as_str v) parse_f64)) (\<lambda>factor.
      if 0 < factor then Some \<lparr>uc_uom = uom, uc_conversion_factor = factor\<rparr> else None))))"

definition item_from_master :: "ext \<Rightarrow> string \<Rightarrow> company_document \<Rightarrow> item" where
  "item_from_master x item_id doc =
     (let flds = (case as_object (cd_payload doc) of Some m \<Rightarrow> m | None \<Rightarrow> []) in
      \<lparr>it_id = item_id,
       it_item_type = (case as_non_empty (obj_get flds ''item_type'') of
           Some kind \<Rightarrow> kind
         | None \<Rightarrow> if obj_get flds ''is_stock_item'' \<noteq> None \<and> \<not> is_true (obj_get flds ''is_stock_item'')
                   then ''Service'' else ''Stock''),
       it_valuation_method = as_non_empty (obj_get flds ''valuation_method''),
       it_stock_uom = as_non_empty (obj_get flds ''stock_uom''),
       it_uoms = (case Option.bind (Option.bind (cd_children doc) (\<lambda>ch. jget ch ''uoms'')) as_array of
           Some rows \<Rightarrow> List.map_filter (uom_row x) rows
         | None \<Rightarrow> []),
       it_inventory_account = as_non_empty (obj_get flds ''inventory_account''),
       it_cogs_account = as_non_empty (obj_get flds ''cogs_account''),
       it_stock_adjustment_account = as_non_empty (obj_get flds ''stock_adjustment_account'')\<rparr>)"

definition load_items :: "ext \<Rightarrow> inner \<Rightarrow> uuid \<Rightarrow> stock_ledger_entry list \<Rightarrow> jmap \<Rightarrow> string \<rightharpoonup> item" where
  "load_items x s c sles payload =
     (let ids = sort_dedup (map sle_item sles
            @ List.map_filter (\<lambda>line. Option.bind (as_object line) (\<lambda>l. as_non_empty (obj_get l ''item''))) (items_of payload));
          registry = foldl (\<lambda>m item. m(it_id item \<mapsto> item)) Map.empty (items_of_ids s c ids);
          missing = filter (\<lambda>i. registry i = None) ids in
      foldl (\<lambda>m i. case company_document_of s c ''Item'' i of
                Some doc \<Rightarrow> m(i \<mapsto> item_from_master x i doc)
              | None \<Rightarrow> m) registry missing)"

section \<open>Costing\<close>

definition return_cost :: "inner \<Rightarrow> uuid \<Rightarrow> string \<Rightarrow> string \<Rightarrow> string option \<Rightarrow> ledgers \<Rightarrow> f64 \<times> ledgers" where
  "return_cost s c item warehouse return_against lg =
     (let originals = (case return_against of
            Some voucher \<Rightarrow> filter (\<lambda>e. sle_item e = item) (sles_for_voucher s c voucher)
          | None \<Rightarrow> []) in
      case find (\<lambda>e. sle_warehouse e = warehouse) originals of
        Some original \<Rightarrow> (sle_valuation_rate original, lg)
      | None \<Rightarrow>
          (case originals of
             original # _ \<Rightarrow> (sle_valuation_rate original, lg)
           | [] \<Rightarrow>
               let lg' = prior_for s c item warehouse lg in
               (bs_valuation_rate (compute_balance (rows_for lg' item warehouse)), lg')))"

record cost_state =
  ct_done :: "stock_ledger_entry list"
  ct_ledgers :: ledgers
  ct_out_cost :: "string \<rightharpoonup> f64"
  ct_consumed :: f64
  ct_legs :: "nat list"
  ct_produced :: f64

text \<open>The row in stock units: its quantity converted by the UOM factor.\<close>

definition scale_row :: "(string \<rightharpoonup> item) \<Rightarrow> stock_ledger_entry \<Rightarrow> f64 \<times> bool \<times> stock_ledger_entry" where
  "scale_row itm sle =
     (let factor = uom_factor (itm (sle_item sle)) (sle_uom sle);
          scaled = EPS < \<bar>factor - 1\<bar> in
      (factor, scaled, if scaled then sle\<lparr>sle_qty_change := sle_qty_change sle * factor\<rparr> else sle))"

text \<open>The rate of one row: the costed row, with the loop state its branch leaves.\<close>

definition cost_one ::
  "inner \<Rightarrow> uuid \<Rightarrow> (string \<rightharpoonup> item) \<Rightarrow> jmap \<Rightarrow> cost_state \<Rightarrow> stock_ledger_entry \<Rightarrow> stock_ledger_entry \<times> cost_state" where
  "cost_one s c itm payload st sle0 =
     (let (factor, scaled, sle) = scale_row itm sle0;
          item = sle_item sle; warehouse = sle_warehouse sle;
          qty = sle_qty_change sle in
      if qty < 0 then
        let lg = prior_for s c item warehouse (ct_ledgers st);
            rate = issue_rate (rows_for lg item warehouse) (- qty) (Option.bind (itm item) it_valuation_method) in
        (sle\<lparr>sle_valuation_rate := rate\<rparr>,
         st\<lparr>ct_ledgers := lg,
            ct_out_cost := (ct_out_cost st)(item \<mapsto> rate),
            ct_consumed := ct_consumed st + (- qty) * rate\<rparr>)
      else if 0 < qty then
        if is_true (obj_get payload ''is_return'') then
          let (rate, lg) = return_cost s c item warehouse (as_non_empty (obj_get payload ''return_against'')) (ct_ledgers st) in
          (sle\<lparr>sle_valuation_rate := rate\<rparr>, st\<lparr>ct_ledgers := lg\<rparr>)
        else if sle_trans_type sle = ''Transfer'' then
          ((case ct_out_cost st item of Some rate \<Rightarrow> sle\<lparr>sle_valuation_rate := rate\<rparr> | None \<Rightarrow> sle), st)
        else if sle_trans_type sle = ''Production'' then
          (sle, st\<lparr>ct_legs := ct_legs st @ [length (ct_done st)], ct_produced := ct_produced st + qty\<rparr>)
        else
          (if scaled then sle\<lparr>sle_valuation_rate := sle_valuation_rate sle / factor\<rparr> else sle, st)
      else (sle, st))"

text \<open>One iteration, for the row at index \<open>length (ct_done st)\<close>: cost it, then reflect it in the cache.\<close>

definition cost_row ::
  "inner \<Rightarrow> uuid \<Rightarrow> (string \<rightharpoonup> item) \<Rightarrow> jmap \<Rightarrow> cost_state \<Rightarrow> stock_ledger_entry \<Rightarrow> cost_state" where
  "cost_row s c itm payload st sle0 =
     (let (sle, st1) = cost_one s c itm payload st sle0 in
      st1\<lparr>ct_done := ct_done st @ [sle],
          ct_ledgers := push_row s c (sle_item sle) (sle_warehouse sle) (row_of_sle sle) (ct_ledgers st1)\<rparr>)"

fun update_first :: "('a \<Rightarrow> bool) \<Rightarrow> ('a \<Rightarrow> 'a) \<Rightarrow> 'a list \<Rightarrow> 'a list" where
  "update_first P f [] = []"
| "update_first P f (a # as) = (if P a then f a # as else a # update_first P f as)"

definition patch_leg :: "f64 \<Rightarrow> stock_ledger_entry list \<times> ledgers \<Rightarrow> nat \<Rightarrow> stock_ledger_entry list \<times> ledgers" where
  "patch_leg rate acc index =
     (let (sles, lg) = acc;
          sle = sles ! index;
          key = (sle_item sle, sle_warehouse sle);
          same = (\<lambda>row. \<bar>lr_qty_change row - sle_qty_change sle\<bar> < EPS
                       \<and> \<bar>lr_valuation_rate row - sle_valuation_rate sle\<bar> < EPS) in
      (sles[index := sle\<lparr>sle_valuation_rate := rate\<rparr>],
       (case map_of (lg_rows lg) key of
          None \<Rightarrow> lg
        | Some rows \<Rightarrow> lg\<lparr>lg_rows := bt_insert key
            (rev (update_first same (\<lambda>row. row\<lparr>lr_valuation_rate := rate\<rparr>) (rev rows))) (lg_rows lg)\<rparr>)))"

definition cost_start :: cost_state where
  "cost_start = \<lparr>ct_done = [], ct_ledgers = empty_ledgers, ct_out_cost = Map.empty, ct_consumed = 0,
     ct_legs = [], ct_produced = 0\<rparr>"

definition cost_stock_movements ::
  "inner \<Rightarrow> uuid \<Rightarrow> stock_ledger_entry list \<Rightarrow> (string \<rightharpoonup> item) \<Rightarrow> jmap \<Rightarrow> stock_ledger_entry list \<times> ledgers" where
  "cost_stock_movements s c sles itm payload =
     (let st = foldl (cost_row s c itm payload) cost_start sles in
      if ct_legs st \<noteq> [] \<and> 0 < ct_produced st \<and> 0 < ct_consumed st then
        foldl (patch_leg (ct_consumed st / ct_produced st)) (ct_done st, ct_ledgers st) (ct_legs st)
      else (ct_done st, ct_ledgers st))"

section \<open>Perpetual-inventory GL\<close>

definition resolve_account :: "item option \<Rightarrow> (item \<Rightarrow> string option) \<Rightarrow> string \<Rightarrow> string" where
  "resolve_account item pick dflt = (case Option.bind item pick of Some a \<Rightarrow> a | None \<Rightarrow> dflt)"

definition is_sale :: "string \<Rightarrow> bool" where
  "is_sale dt \<longleftrightarrow> dt \<in> {''Sales Invoice'', ''Delivery Note'', ''POS Invoice''}"

definition is_purchase :: "string \<Rightarrow> bool" where
  "is_purchase dt \<longleftrightarrow> dt \<in> {''Purchase Invoice'', ''Purchase Receipt''}"

definition base_leg :: "gl_entry \<Rightarrow> gl_entry" where
  "base_leg e = e\<lparr>gl_conversion_rate := Some 1, gl_base_debit := Some (gl_debit e), gl_base_credit := Some (gl_credit e)\<rparr>"

definition stock_gl_pair ::
  "row_context \<Rightarrow> (string \<rightharpoonup> item) \<Rightarrow> company_settings \<Rightarrow> stock_ledger_entry \<Rightarrow> gl_entry list" where
  "stock_gl_pair ctx itm st sle =
     (let value = sle_qty_change sle * sle_valuation_rate sle in
      if \<bar>value\<bar> < EPS \<or> sle_trans_type sle = ''Transfer'' \<or> sle_trans_type sle = ''Production'' then []
      else
        let item = itm (sle_item sle);
            inventory = resolve_account item it_inventory_account (cs_default_inventory_account st);
            counter =
              (if is_sale (cx_doctype ctx) then resolve_account item it_cogs_account (cs_default_cogs_account st)
               else if is_purchase (cx_doctype ctx) then cs_default_grni_account st
               else resolve_account item it_stock_adjustment_account (cs_default_stock_adjustment_account st));
            amount = \<bar>value\<bar>;
            (dr, cr) = (if 0 < value then (inventory, counter) else (counter, inventory)) in
        [base_leg (ctx_gl ctx (sle_id sle @ ''-gl-d'') dr amount 0 None None),
         base_leg (ctx_gl ctx (sle_id sle @ ''-gl-c'') cr 0 amount None None)])"

definition stock_gl_legs ::
  "row_context \<Rightarrow> stock_ledger_entry list \<Rightarrow> (string \<rightharpoonup> item) \<Rightarrow> company_settings \<Rightarrow> gl_entry list" where
  "stock_gl_legs ctx sles itm st = concat (map (stock_gl_pair ctx itm st) sles)"

definition stock_net_of :: "jmap \<Rightarrow> (string \<rightharpoonup> item) \<Rightarrow> f64" where
  "stock_net_of payload itm =
     fsum (map (\<lambda>(_, line). line_amount line)
       (filter (\<lambda>(_, line). case as_non_empty (obj_get line ''item'') of
            Some i \<Rightarrow> is_stock_item_type (map_option it_item_type (itm i)) | None \<Rightarrow> False)
          (object_rows (items_of payload))))"

definition reduce_expense :: "f64 \<Rightarrow> f64 \<Rightarrow> gl_entry \<Rightarrow> gl_entry list" where
  "reduce_expense stock_net rate e =
     (let d = gl_debit e - stock_net;
          e' = e\<lparr>gl_debit := d, gl_base_debit := (case gl_base_debit e of Some _ \<Rightarrow> Some (d * rate) | None \<Rightarrow> None)\<rparr> in
      if \<bar>gl_debit e'\<bar> < EPS \<and> \<bar>gl_credit e'\<bar> < EPS then [] else [e'])"

definition split_grni_from_expense ::
  "row_context \<Rightarrow> gl_entry list \<Rightarrow> jmap \<Rightarrow> (string \<rightharpoonup> item) \<Rightarrow> company_settings \<Rightarrow> gl_entry list" where
  "split_grni_from_expense ctx gl payload itm st =
     (let stock_net = stock_net_of payload itm in
      if \<bar>stock_net\<bar> < EPS then gl
      else
        let rate = conversion_rate_of payload;
            expense_id = gl_name ctx ''debit'';
            other = (\<lambda>e. gl_id e \<noteq> expense_id);
            gl' = (case dropWhile other gl of
                [] \<Rightarrow> gl
              | e # rest \<Rightarrow> takeWhile other gl @ reduce_expense stock_net rate e @ rest) in
        gl' @ [(ctx_gl ctx (gl_name ctx ''grni'') (cs_default_grni_account st) stock_net 0 None None)
          \<lparr>gl_currency := as_non_empty (obj_get payload ''currency''),
           gl_conversion_rate := Some rate,
           gl_base_debit := Some (stock_net * rate),
           gl_base_credit := Some 0\<rparr>])"

section \<open>Checks and balances\<close>

definition check_period_lock :: "company_settings \<Rightarrow> string \<Rightarrow> posting_error + unit" where
  "check_period_lock st posting_date = (case cs_books_lock_date st of
       Some lock \<Rightarrow> ensure (\<not> posting_date \<le> lock) (Validation (Period (LockedPeriod posting_date lock)))
     | None \<Rightarrow> Inr ())"

definition check_balanced :: "gl_entry list \<Rightarrow> posting_error + unit" where
  "check_balanced gl =
     (let debit = fsum (map gl_debit gl); credit = fsum (map gl_credit gl) in
      ensure (\<not> BALANCE_TOLERANCE < \<bar>debit - credit\<bar>) (Validation (Ledger (Unbalanced debit credit))))"

definition negative_pair :: "unit \<Rightarrow> (string \<times> string) \<times> ledger_row list \<Rightarrow> posting_error + unit" where
  "negative_pair u e = (case e of ((item, warehouse), rows) \<Rightarrow>
     let q = bs_actual_qty (compute_balance rows) in
     ensure (\<not> q < 0) (Validation (Ledger (InsufficientStock item warehouse q))))"

definition check_negative_stock :: "company_settings \<Rightarrow> ledgers \<Rightarrow> posting_error + unit" where
  "check_negative_stock st lg =
     (if cs_allow_negative_stock st then Inr () else fold_result negative_pair () (lg_rows lg))"

definition stock_shortfalls :: "ledgers \<Rightarrow> json list" where
  "stock_shortfalls lg =
     List.map_filter (\<lambda>((item, warehouse), rows).
       let q = bs_actual_qty (compute_balance rows) in
       if q < - EPS then Some (JObj (obj_of
         [(''item'', JStr item), (''warehouse'', JStr warehouse), (''actual_qty'', json_f64 q)])) else None)
       (lg_rows lg)"

definition bin_of :: "uuid \<Rightarrow> (string \<times> string) \<times> ledger_row list \<Rightarrow> bin" where
  "bin_of c e = (case e of ((item, warehouse), rows) \<Rightarrow>
     let snap = compute_balance rows in
     \<lparr>bin_company = c, bin_item = item, bin_warehouse = warehouse, bin_actual_qty = bs_actual_qty snap,
      bin_valuation_rate = bs_valuation_rate snap, bin_stock_value = bs_stock_value snap\<rparr>)"

definition recompute_bins :: "uuid \<Rightarrow> ledgers \<Rightarrow> bin list" where
  "recompute_bins c lg = map (bin_of c) (lg_rows lg)"

end
