(* ===== verification/Engine_Command.thy ===== *)
theory Engine_Command
  imports Engine_Stock
begin

text \<open>
  \<^verbatim>\<open>src/src/posting/engine.rs\<close>, the commands: the rules of Journal Entry, Expense, Customer Deposit
  and Payment Entry, the commit a submit or a cancel builds from the store's state, and the retry
  loop around building and committing. Between a build and its commit other commands may run: the
  loop takes the states it meets from \<open>interfere\<close>, one step of the environment per attempt.
\<close>

section \<open>Journal Entry, Expense, Customer Deposit\<close>

text \<open>\<open>(rate - 1.0).abs() > 1e-9\<close>.\<close>

definition foreign_rate :: "f64 \<Rightarrow> bool" where
  "foreign_rate rate \<longleftrightarrow> lit (1 / 1000000000) < \<bar>rate - 1\<bar>"

definition refuse_foreign_rate :: "string \<Rightarrow> jmap \<Rightarrow> posting_error + unit" where
  "refuse_foreign_rate doctype payload = (case sent_number payload ''conversion_rate'' of
       Some rate \<Rightarrow> ensure (\<not> foreign_rate rate) (Validation (Voucher (ForeignRate doctype rate)))
     | None \<Rightarrow> Inr ())"

definition money_field :: "jmap \<Rightarrow> string \<Rightarrow> string \<Rightarrow> posting_error + f64" where
  "money_field payload k what =
     (let value = as_num (obj_get payload k) in
      and_then (ensure (\<not> (\<not> is_finite value \<or> value < 0)) (Validation (Voucher (MoneyField what k value)))) (\<lambda>_.
      Inr value))"

definition journal_line :: "f64 \<times> f64 \<times> nat \<Rightarrow> nat \<times> json \<Rightarrow> posting_error + (f64 \<times> f64 \<times> nat)" where
  "journal_line acc e = (case (acc, e) of ((debit, credit, lines), (i, row)) \<Rightarrow>
     (case as_object row of
        None \<Rightarrow> Inl (Validation (Voucher (JournalRowNotObject i)))
      | Some row \<Rightarrow>
          let what = ''accounts['' @ show_nat i @ '']'' in
          and_then (money_field row ''debit'' what) (\<lambda>d.
          and_then (money_field row ''credit'' what) (\<lambda>cr.
          and_then (ensure (\<not> (0 < d \<and> 0 < cr)) (Validation (Voucher (JournalBothSides i)))) (\<lambda>_.
          if as_non_empty (obj_get row ''account'') = None then
            and_then (ensure (\<not> (0 < d \<or> 0 < cr)) (Validation (Voucher (JournalNoAccount i)))) (\<lambda>_. Inr acc)
          else
            and_then
              (case as_non_empty (obj_get row ''party_type'') of
                 Some pty \<Rightarrow>
                   ensure (\<not> (party_kind_parse pty \<noteq> None \<and> as_non_empty (obj_get row ''party'') = None))
                     (Validation (Voucher (JournalNoParty i pty)))
               | None \<Rightarrow> Inr ())
              (\<lambda>_. Inr (debit + d, credit + cr, if 0 < d \<or> 0 < cr then Suc lines else lines)))))))"

definition validate_journal :: "jmap \<Rightarrow> posting_error + jmap" where
  "validate_journal payload =
     and_then (fold_result journal_line (0, 0, 0) (List.enumerate 0 (array_of payload ''accounts''))) (\<lambda>(debit, credit, lines).
     and_then (ensure (\<not> lines < 2) (Validation (Voucher JournalTwoLines))) (\<lambda>_.
     and_then (ensure (\<not> BALANCE_TOLERANCE \<le> \<bar>debit - credit\<bar>) (Validation (Voucher (JournalUnbalanced debit credit)))) (\<lambda>_.
     Inr (obj_insert ''difference'' (json_f64 (debit - credit))
         (obj_insert ''total_credit'' (json_f64 credit)
         (obj_insert ''total_debit'' (json_f64 debit) payload))))))"

definition validate_expense :: "jmap \<Rightarrow> company_settings \<Rightarrow> posting_error + jmap" where
  "validate_expense payload0 st =
     and_then (refuse_foreign_rate ''Expense'' payload0) (\<lambda>_.
     let payload = (case obj_get payload0 ''is_paid'' of
           None \<Rightarrow> obj_insert ''is_paid'' (json_int 1) payload0
         | Some v \<Rightarrow> if v = JNull then obj_insert ''is_paid'' (json_int 1) payload0 else payload0) in
     and_then (money_field payload ''net_amount'' ''Expense'') (\<lambda>net.
     and_then (ensure (\<not> net \<le> 0) (Validation (Voucher ExpenseNetNotPositive))) (\<lambda>_.
     and_then (money_field payload ''tax_amount'' ''Expense'') (\<lambda>tax.
     let gross = round2 (net + tax) in
     and_then (case sent_number payload ''gross_amount'' of
         Some sent \<Rightarrow> ensure (\<not> MONEY_EPS < \<bar>sent - gross\<bar>) (Validation (Voucher (ExpenseGrossMismatch sent net tax)))
       | None \<Rightarrow> Inr ()) (\<lambda>_.
     let payload1 = obj_insert ''gross_amount'' (json_f64 gross) payload in
     and_then (ensure (as_non_empty (obj_get payload1 ''expense_account'') \<noteq> None) (Validation (Voucher ExpenseNeedsCategory))) (\<lambda>_.
     Inr (if \<not> feq tax 0 \<and> as_non_empty (obj_get payload1 ''tax_account'') = None
          then obj_insert ''tax_account'' (JStr (cs_default_vat_account st)) payload1 else payload1)))))))"

definition validate_deposit :: "jmap \<Rightarrow> posting_error + jmap" where
  "validate_deposit payload =
     and_then (refuse_foreign_rate ''Customer Deposit'' payload) (\<lambda>_.
     and_then (money_field payload ''amount'' ''Customer Deposit'') (\<lambda>amount.
     and_then (ensure (\<not> amount \<le> 0) (Validation (Voucher DepositAmountNotPositive))) (\<lambda>_.
     and_then (ensure (as_non_empty (obj_get payload ''customer'') \<noteq> None) (Validation (Voucher DepositNeedsCustomer))) (\<lambda>_.
     Inr payload))))"

definition validate_c5_document :: "string \<Rightarrow> jmap \<Rightarrow> company_settings \<Rightarrow> posting_error + jmap" where
  "validate_c5_document doctype payload st =
     (if doctype = ''Journal Entry'' then validate_journal payload
      else if doctype = ''Expense'' then validate_expense payload st
      else if doctype = ''Customer Deposit'' then validate_deposit payload
      else Inr payload)"

section \<open>Deposits, group accounts, payments\<close>

definition insert_if_blank :: "string \<Rightarrow> string \<Rightarrow> jmap \<Rightarrow> jmap" where
  "insert_if_blank k v p = (if as_non_empty (obj_get p k) = None then obj_insert k (JStr v) p else p)"

definition deposit_application :: "inner \<Rightarrow> uuid \<Rightarrow> jmap \<Rightarrow> posting_error + (jmap \<times> deposit_guard option)" where
  "deposit_application s c payload0 =
     (case as_non_empty (obj_get payload0 ''deposit'') of
        None \<Rightarrow> Inr (payload0, None)
      | Some deposit_id \<Rightarrow>
          let payload1 = obj_insert ''deposit'' (JStr deposit_id) payload0 in
          and_then (ensure (as_non_empty (obj_get payload1 ''payment_type'') = Some ''Receive'')
            (Validation (Deposit (DepositNotReceive deposit_id)))) (\<lambda>_.
          let deposit = posted_document_of s c ''Customer Deposit'' deposit_id in
          (case deposit of
             None \<Rightarrow> Inl (Validation (Deposit (DepositNotSubmitted deposit_id)))
           | Some d \<Rightarrow>
               and_then (ensure (pd_docstatus d = 1) (Validation (Deposit (DepositNotSubmitted deposit_id)))) (\<lambda>_.
               let liability = unwrap_or_default (as_non_empty (jget (pd_payload d) ''deposit_account''));
                   customer = unwrap_or_default (as_non_empty (jget (pd_payload d) ''customer''));
                   payload2 = insert_if_blank ''paid_to'' liability payload1;
                   payload3 = (if as_non_empty (obj_get payload2 ''party'') = None
                     then obj_insert ''party'' (JStr customer) (obj_insert ''party_type'' (JStr ''Customer'') payload2)
                     else payload2);
                   paid_to = acct payload3 ''paid_to'' in
               and_then (ensure (paid_to = liability) (Validation (Deposit (DepositWrongAccount deposit_id liability paid_to)))) (\<lambda>_.
               and_then (case sent_number payload3 ''conversion_rate'' of
                   Some rate \<Rightarrow> ensure (\<not> foreign_rate rate) (Validation (Deposit (DepositForeignRate deposit_id rate)))
                 | None \<Rightarrow> Inr ()) (\<lambda>_.
               let guard = Apply deposit_id (acct payload3 ''party'') (as_num (obj_get payload3 ''paid_amount'')) in
               (case deposit_guard_violation guard deposit (deposit_applications s c deposit_id) of
                  Some reason \<Rightarrow> Inl (Validation reason)
                | None \<Rightarrow> Inr (payload3, Some guard))))))))"

definition group_account_step :: "inner \<Rightarrow> uuid \<Rightarrow> string list \<Rightarrow> string \<Rightarrow> posting_error + string list" where
  "group_account_step s c groups account =
     and_then (ensure (account \<noteq> []) (Validation (Ledger LineWithoutAccount))) (\<lambda>_.
     Inr (case company_document_of s c ''Account'' account of
        Some doc \<Rightarrow> if is_true (jget (cd_payload doc) ''is_group'') then groups @ [account] else groups
      | None \<Rightarrow> groups))"

definition check_group_accounts :: "inner \<Rightarrow> uuid \<Rightarrow> gl_entry list \<Rightarrow> posting_error + unit" where
  "check_group_accounts s c gl =
     and_then (fold_result (group_account_step s c) [] (sort_dedup (map gl_account gl))) (\<lambda>groups.
     ensure (groups = []) (Validation (Ledger (GroupAccounts groups))))"

definition payment_allocation :: "f64 \<Rightarrow> settlement \<Rightarrow> posting_error + f64" where
  "payment_allocation allocated s =
     and_then (ensure (st_invoice_voucher_type s \<in> set SETTLEABLE_DOCTYPES)
       (Validation (Payment (NotSettleable (st_invoice_voucher_type s) (st_invoice_voucher_no s))))) (\<lambda>_.
     and_then (ensure (\<not> st_allocated_amount s < - MONEY_EPS)
       (Validation (Payment (AllocationNegative (st_allocated_amount s) (st_invoice_voucher_type s) (st_invoice_voucher_no s))))) (\<lambda>_.
     Inr (allocated + st_allocated_amount s)))"

definition validate_payment_submit :: "jmap \<Rightarrow> settlement list \<Rightarrow> posting_error + unit" where
  "validate_payment_submit payload stls =
     (let paid = as_num (obj_get payload ''paid_amount'') in
      and_then (ensure (\<not> paid \<le> 0) (Validation (Payment (PaidNotPositive paid)))) (\<lambda>_.
      and_then (fold_result payment_allocation 0 stls) (\<lambda>allocated_total.
      ensure (\<not> paid + MONEY_EPS < allocated_total) (Validation (Payment (AllocationExceedsPaid allocated_total paid))))))"

text \<open>One step of the loop over the new settlements: the updates so far and the invoices seen.\<close>

definition outstanding_update ::
  "inner \<Rightarrow> uuid \<Rightarrow> settlement list \<Rightarrow> bool \<Rightarrow> (string \<times> string \<times> f64) list \<times> (string \<times> string) list \<Rightarrow> settlement
     \<Rightarrow> posting_error + ((string \<times> string \<times> f64) list \<times> (string \<times> string) list)" where
  "outstanding_update s c new_stls enforce acc stl =
     (let (updates, seen) = acc;
          dt = st_invoice_voucher_type stl; no = st_invoice_voucher_no stl in
      if (dt, no) \<in> set seen then Inr acc
      else
        (case posted_document_of s c dt no of
           None \<Rightarrow> Inl (Validation (Payment (UnknownInvoice dt no)))
         | Some invoice \<Rightarrow>
             and_then (ensure (pd_docstatus invoice = 1) (Validation (Payment (InvoiceNotSubmitted dt no)))) (\<lambda>_.
             let grand = as_num (jget (pd_payload invoice) ''grand_total'');
                 stored = fsum (map st_allocated_amount (settlements_for_invoice s c dt no));
                 new = fsum (map st_allocated_amount
                   (filter (\<lambda>t. st_invoice_voucher_type t = dt \<and> st_invoice_voucher_no t = no) new_stls));
                 current = outstanding_amount grand [stored] in
             and_then (ensure (\<not> (enforce \<and> current + MONEY_EPS < new))
               (Validation (Payment (AllocationExceedsOutstanding new dt no current)))) (\<lambda>_.
             Inr (updates @ [(dt, no, outstanding_amount grand [stored, new])], seen @ [(dt, no)])))))"

definition payment_outstanding_updates ::
  "inner \<Rightarrow> uuid \<Rightarrow> settlement list \<Rightarrow> bool \<Rightarrow> posting_error + (string \<times> string \<times> f64) list" where
  "payment_outstanding_updates s c new_stls enforce =
     and_then (fold_result (outstanding_update s c new_stls enforce) ([], []) new_stls) (\<lambda>(updates, _). Inr updates)"

definition audit_row :: "env \<Rightarrow> uuid \<Rightarrow> actor \<Rightarrow> string \<Rightarrow> json \<Rightarrow> audit_entry" where
  "audit_row ev c act action detail = \<lparr>
     au_id = ev_audit_id ev, au_company = c, au_user = ac_user act, au_device = ac_device act,
     au_action = action, au_detail = detail, au_at = ev_now ev\<rparr>"

section \<open>Submit\<close>

text \<open>The payload a submit posts and its deposit guard: date, fallbacks and validations, in order.\<close>

definition invoice_rules :: "string \<Rightarrow> jmap \<Rightarrow> posting_error + jmap" where
  "invoice_rules doctype payload =
     (if doctype = ''Sales Invoice'' \<or> doctype = ''Purchase Invoice'' then
        and_then (validate_tax_rows payload) (\<lambda>_. validate_invoice_totals payload True)
      else if doctype = ''POS Invoice'' then
        and_then (validate_tax_rows payload) (\<lambda>_. validate_invoice_totals payload False)
      else Inr payload)"

definition submit_payload ::
  "ext \<Rightarrow> env \<Rightarrow> inner \<Rightarrow> uuid \<Rightarrow> submit_command \<Rightarrow> string \<Rightarrow> posting_error + (string \<times> jmap \<times> deposit_guard option)" where
  "submit_payload x ev s c cmd document_id =
     (let st = company_settings_of s c;
          doctype = sc_doctype cmd;
          payload0 = obj_insert ''items'' (JArr (sc_items cmd)) (sc_payload cmd) in
      and_then (validated_posting_date x (ev_today ev) payload0) (\<lambda>posting_date.
      let payload1 = obj_insert ''posting_date'' (JStr posting_date) payload0 in
      and_then (check_period_lock st posting_date) (\<lambda>_.
      and_then (ensure (posted_document_of s c doctype document_id = None)
        (PConflict (Document (AlreadySubmitted doctype document_id)))) (\<lambda>_.
      and_then (if doctype = ''Payment Entry'' then deposit_application s c payload1 else Inr (payload1, None)) (\<lambda>(payload2, guard).
      and_then (validate_c5_document doctype (resolve_account_fallbacks doctype st payload2) st) (\<lambda>payload3.
      and_then (invoice_rules doctype payload3) (\<lambda>payload4.
      Inr (posting_date, payload4, guard))))))))"

record derived_rows =
  dr_gl :: "gl_entry list"
  dr_sles :: "stock_ledger_entry list"
  dr_party :: "party_transaction list"
  dr_tax :: "tax_transaction list"
  dr_ledgers :: ledgers

definition voucher_items :: "ext \<Rightarrow> inner \<Rightarrow> row_context \<Rightarrow> jmap \<Rightarrow> string \<rightharpoonup> item" where
  "voucher_items x s ctx payload = load_items x s (cx_company ctx) (derive_stock_rows ctx payload) payload"

text \<open>\<open>sles.retain(is_stock_item_type \<dots>)\<close>: service items never move stock.\<close>

definition kept_rows :: "ext \<Rightarrow> inner \<Rightarrow> row_context \<Rightarrow> jmap \<Rightarrow> stock_ledger_entry list" where
  "kept_rows x s ctx payload =
     filter (\<lambda>e. is_stock_item_type (map_option it_item_type (voucher_items x s ctx payload (sle_item e))))
       (derive_stock_rows ctx payload)"

definition monetary_rows :: "row_context \<Rightarrow> jmap \<Rightarrow> gl_entry list \<times> party_transaction list" where
  "monetary_rows ctx payload =
     (let rows = (derive_monetary_gl ctx payload, fst (derive_subledger_rows ctx payload)) in
      if is_base_stamped (cx_doctype ctx) then stamp_base_amounts payload rows else rows)"

definition derive_rows :: "ext \<Rightarrow> inner \<Rightarrow> row_context \<Rightarrow> jmap \<Rightarrow> derived_rows" where
  "derive_rows x s ctx payload =
     (let c = cx_company ctx;
          st = company_settings_of s c;
          itm = voucher_items x s ctx payload;
          (sles, lg) = cost_stock_movements s c (kept_rows x s ctx payload) itm payload;
          gl = fst (monetary_rows ctx payload) @ stock_gl_legs ctx sles itm st in
      \<lparr>dr_gl = (if cx_doctype ctx = ''Purchase Invoice'' then split_grni_from_expense ctx gl payload itm st else gl),
       dr_sles = sles,
       dr_party = snd (monetary_rows ctx payload),
       dr_tax = snd (derive_subledger_rows ctx payload),
       dr_ledgers = lg\<rparr>)"

definition posting_response ::
  "string \<Rightarrow> string \<Rightarrow> json \<Rightarrow> int \<Rightarrow> gl_entry list \<Rightarrow> stock_ledger_entry list \<Rightarrow> party_transaction list \<Rightarrow> tax_transaction list
     \<Rightarrow> bin list \<Rightarrow> settlement list \<Rightarrow> json" where
  "posting_response doctype document_id number docstatus gl sles party tax bns stls =
     (let (party_rows, tax_rows) = subledger_response_rows party tax in
      JObj (obj_of
        [(''doctype'', JStr doctype),
         (''document_id'', JStr document_id),
         (''number'', number),
         (''docstatus'', json_int docstatus),
         (''gl_entries'', JArr (map gl_to_json gl)),
         (''stock_ledger_entries'', JArr (map sle_to_json sles)),
         (''party_transactions'', JArr party_rows),
         (''tax_transactions'', JArr tax_rows),
         (''bins'', JArr (map bin_to_json bns)),
         (''settlements'', JArr (map settlement_to_json stls))]))"

definition submit_commit ::
  "env \<Rightarrow> uuid \<Rightarrow> submit_command \<Rightarrow> string \<Rightarrow> actor \<Rightarrow> string \<Rightarrow> jmap \<Rightarrow> deposit_guard option \<Rightarrow> derived_rows
     \<Rightarrow> json list \<Rightarrow> settlement list \<Rightarrow> (string \<times> string \<times> f64) list \<Rightarrow> posting_commit_rec" where
  "submit_commit ev c cmd document_id act posting_date payload guard dr shortfalls stls updates =
     (let doctype = sc_doctype cmd;
          offline = sc_offline_fiscal cmd;
          dev = unwrap_or_default (ac_device act);
          payload' = (if offline then obj_insert ''till_device'' (JStr dev) (obj_insert ''offline_fiscal'' (JBool True) payload) else payload);
          bns = recompute_bins c (dr_ledgers dr);
          response0 = posting_response doctype document_id JNull 1 (dr_gl dr) (dr_sles dr) (dr_party dr) (dr_tax dr) bns stls;
          detail0 = JObj (obj_of [(''doctype'', JStr doctype), (''documentId'', JStr document_id)]) in
      \<lparr>pc_company = c,
       pc_idempotency_key = sc_idempotency_key cmd,
       pc_batch = \<lparr>pb_id = ''PB-'' @ document_id, pb_company = c, pb_document_id = document_id, pb_doctype = doctype,
         pb_kind = ''submit'', pb_reversal_of = None, pb_created_at = ev_now ev\<rparr>,
       pc_document = \<lparr>pd_id = document_id, pd_company = c, pd_doctype = doctype, pd_payload = JObj payload',
         pd_docstatus = 1, pd_official_number = None, pd_created_at = ev_now ev\<rparr>,
       pc_document_is_new = True,
       pc_series_key = (if offline then None else series_key doctype),
       pc_preassigned_number = (if offline then Some document_id else None),
       pc_till_binding = (if offline
         then map_option (\<lambda>ser. (ser, dev)) (as_non_empty (obj_get payload' ''till_series'')) else None),
       pc_gl_entries = dr_gl dr,
       pc_stock_ledger_entries = dr_sles dr,
       pc_party_transactions = dr_party dr,
       pc_tax_transactions = dr_tax dr,
       pc_settlements = stls,
       pc_bins = bns,
       pc_outstanding_updates = updates,
       pc_sle_expectations = expectations (dr_ledgers dr),
       pc_replication_device_id = ac_replication_device_id act,
       pc_audit = audit_row ev c act ''command.submit-document''
         (if offline then json_put ''stockShortfalls'' (JArr shortfalls) (json_put ''offlineFiscal'' (JBool True) detail0) else detail0),
       pc_response = (if offline
         then json_put ''stock_shortfalls'' (JArr shortfalls) (json_put ''offline_fiscal'' (JBool True) response0) else response0),
       pc_numbering_floors = [],
       pc_solo_migration = None,
       pc_lock_check_date = Some posting_date,
       pc_deposit_guard = guard\<rparr>)"

definition build_submit ::
  "ext \<Rightarrow> env \<Rightarrow> inner \<Rightarrow> uuid \<Rightarrow> submit_command \<Rightarrow> string \<Rightarrow> actor \<Rightarrow> posting_error + posting_commit_rec" where
  "build_submit x ev s c cmd document_id act =
     and_then (submit_payload x ev s c cmd document_id) (\<lambda>(posting_date, payload, guard).
     let st = company_settings_of s c;
         ctx = \<lparr>cx_company = c, cx_document_id = document_id, cx_doctype = sc_doctype cmd,
                cx_posting_date = posting_date, cx_batch_id = ''PB-'' @ document_id\<rparr>;
         dr = derive_rows x s ctx payload in
     and_then (check_balanced (dr_gl dr)) (\<lambda>_.
     and_then (check_group_accounts s c (dr_gl dr)) (\<lambda>_.
     and_then (if sc_offline_fiscal cmd then Inr (stock_shortfalls (dr_ledgers dr))
               else and_then (check_negative_stock st (dr_ledgers dr)) (\<lambda>_. Inr [])) (\<lambda>shortfalls.
     and_then (if sc_doctype cmd = ''Payment Entry'' then
                 let stls = derive_settlements ctx payload in
                 and_then (validate_payment_submit payload stls) (\<lambda>_.
                 and_then (payment_outstanding_updates s c stls True) (\<lambda>updates. Inr (stls, updates)))
               else Inr ([], [])) (\<lambda>(stls, updates).
     Inr (submit_commit ev c cmd document_id act posting_date payload guard dr shortfalls stls updates))))))"

section \<open>Cancel\<close>

definition reverse_gl :: "string \<Rightarrow> gl_entry \<Rightarrow> gl_entry" where
  "reverse_gl batch e = e\<lparr>gl_id := gl_id e @ REVERSAL_SUFFIX, gl_debit := gl_credit e, gl_credit := gl_debit e,
     gl_base_debit := gl_base_credit e, gl_base_credit := gl_base_debit e, gl_is_reversal := True, gl_batch_id := batch\<rparr>"

definition reverse_sle :: "string \<Rightarrow> stock_ledger_entry \<Rightarrow> stock_ledger_entry" where
  "reverse_sle batch e = e\<lparr>sle_id := sle_id e @ REVERSAL_SUFFIX, sle_qty_change := - sle_qty_change e,
     sle_is_reversal := True, sle_batch_id := batch, sle_seq := 0\<rparr>"

definition reverse_settlement :: "string \<Rightarrow> settlement \<Rightarrow> settlement" where
  "reverse_settlement batch t = t\<lparr>st_id := st_id t @ REVERSAL_SUFFIX, st_allocated_amount := - st_allocated_amount t,
     st_is_reversal := True, st_batch_id := batch\<rparr>"

definition reverse_party :: "string \<Rightarrow> party_transaction \<Rightarrow> party_transaction" where
  "reverse_party batch t = t\<lparr>pt_id := pt_id t @ REVERSAL_SUFFIX,
     pt_trans_type := (if pt_trans_type t = ''Invoice'' then ''CreditNote'' else ''Adjustment''),
     pt_amount := - pt_amount t, pt_base_amount := - pt_base_amount t, pt_is_reversal := True, pt_batch_id := batch\<rparr>"

definition reverse_tax :: "string \<Rightarrow> tax_transaction \<Rightarrow> tax_transaction" where
  "reverse_tax batch t = t\<lparr>tt_id := tt_id t @ REVERSAL_SUFFIX, tt_base_amount := - tt_base_amount t,
     tt_tax_amount := - tt_tax_amount t, tt_is_reversal := True, tt_batch_id := batch\<rparr>"

definition settled_check :: "inner \<Rightarrow> uuid \<Rightarrow> cancel_command \<Rightarrow> posting_error + unit" where
  "settled_check s c cmd =
     (if cc_doctype cmd \<in> set SETTLEABLE_DOCTYPES then
        let settled = fsum (map st_allocated_amount (settlements_for_invoice s c (cc_doctype cmd) (cc_document_id cmd))) in
        ensure (\<not> MONEY_EPS < \<bar>settled\<bar>)
          (PConflict (Document (InvoiceHasPayments (cc_doctype cmd) (cc_document_id cmd) settled)))
      else Inr ())"

definition release_guard :: "inner \<Rightarrow> uuid \<Rightarrow> cancel_command \<Rightarrow> posted_document \<Rightarrow> posting_error + deposit_guard option" where
  "release_guard s c cmd document =
     (if cc_doctype cmd = ''Customer Deposit'' then
        let guard = Release (cc_document_id cmd) in
        (case deposit_guard_violation guard (Some document) (deposit_applications s c (cc_document_id cmd)) of
           Some reason \<Rightarrow> Inl (PConflict reason)
         | None \<Rightarrow> Inr (Some guard))
      else Inr None)"

definition reversal_ledgers :: "inner \<Rightarrow> uuid \<Rightarrow> stock_ledger_entry list \<Rightarrow> ledgers" where
  "reversal_ledgers s c sles =
     foldl (\<lambda>lg e. push_row s c (sle_item e) (sle_warehouse e) (row_of_sle e) lg) empty_ledgers sles"

definition reversal_batch :: "string \<Rightarrow> string" where
  "reversal_batch document_id = ''PB-'' @ document_id @ REVERSAL_SUFFIX"

text \<open>The reversal rows: every stored original of the voucher, mirrored.\<close>

definition reversed_gl :: "inner \<Rightarrow> uuid \<Rightarrow> string \<Rightarrow> gl_entry list" where
  "reversed_gl s c d = map (reverse_gl (reversal_batch d)) (filter (\<lambda>e. \<not> gl_is_reversal e) (gl_for_voucher s c d))"

definition reversed_sles :: "inner \<Rightarrow> uuid \<Rightarrow> string \<Rightarrow> stock_ledger_entry list" where
  "reversed_sles s c d = map (reverse_sle (reversal_batch d)) (filter (\<lambda>e. \<not> sle_is_reversal e) (sles_for_voucher s c d))"

definition reversed_settlements :: "inner \<Rightarrow> uuid \<Rightarrow> string \<Rightarrow> settlement list" where
  "reversed_settlements s c d =
     map (reverse_settlement (reversal_batch d)) (filter (\<lambda>t. \<not> st_is_reversal t) (settlements_for_payment s c d))"

definition reversed_party :: "inner \<Rightarrow> uuid \<Rightarrow> string \<Rightarrow> party_transaction list" where
  "reversed_party s c d =
     map (reverse_party (reversal_batch d)) (filter (\<lambda>t. \<not> pt_is_reversal t) (party_transactions_for_voucher s c d))"

definition reversed_tax :: "inner \<Rightarrow> uuid \<Rightarrow> string \<Rightarrow> tax_transaction list" where
  "reversed_tax s c d =
     map (reverse_tax (reversal_batch d)) (filter (\<lambda>t. \<not> tt_is_reversal t) (tax_transactions_for_voucher s c d))"

definition cancel_checks ::
  "ext \<Rightarrow> env \<Rightarrow> inner \<Rightarrow> uuid \<Rightarrow> cancel_command \<Rightarrow> posting_error + (posted_document \<times> string \<times> deposit_guard option)" where
  "cancel_checks x ev s c cmd =
     and_then (ok_or (posted_document_of s c (cc_doctype cmd) (cc_document_id cmd)) NotFound) (\<lambda>document.
     and_then (ensure (pd_docstatus document = 1)
       (PConflict (Document (NotSubmitted (cc_doctype cmd) (cc_document_id cmd) (pd_docstatus document))))) (\<lambda>_.
     and_then (settled_check s c cmd) (\<lambda>_.
     and_then (case as_object (pd_payload document) of
         Some payload \<Rightarrow> validated_posting_date x (ev_today ev) payload
       | None \<Rightarrow> Inr (ev_today ev)) (\<lambda>posting_date.
     and_then (check_period_lock (company_settings_of s c) posting_date) (\<lambda>_.
     and_then (release_guard s c cmd document) (\<lambda>guard.
     Inr (document, posting_date, guard)))))))"

definition cancel_commit ::
  "env \<Rightarrow> inner \<Rightarrow> uuid \<Rightarrow> cancel_command \<Rightarrow> actor \<Rightarrow> posted_document \<Rightarrow> string \<Rightarrow> deposit_guard option
     \<Rightarrow> (string \<times> string \<times> f64) list \<Rightarrow> posting_commit_rec" where
  "cancel_commit ev s c cmd act document posting_date guard updates =
     (let doctype = cc_doctype cmd; d = cc_document_id cmd;
          gl = reversed_gl s c d; sles = reversed_sles s c d; stls = reversed_settlements s c d;
          party = reversed_party s c d; tax = reversed_tax s c d;
          lg = reversal_ledgers s c sles; bns = recompute_bins c lg in
      \<lparr>pc_company = c,
       pc_idempotency_key = cc_idempotency_key cmd,
       pc_batch = \<lparr>pb_id = reversal_batch d, pb_company = c, pb_document_id = d, pb_doctype = doctype,
         pb_kind = ''cancel'', pb_reversal_of = Some (''PB-'' @ d), pb_created_at = ev_now ev\<rparr>,
       pc_document = document\<lparr>pd_docstatus := 2\<rparr>,
       pc_document_is_new = False,
       pc_series_key = None,
       pc_preassigned_number = None,
       pc_till_binding = None,
       pc_gl_entries = gl,
       pc_stock_ledger_entries = sles,
       pc_party_transactions = party,
       pc_tax_transactions = tax,
       pc_settlements = stls,
       pc_bins = bns,
       pc_outstanding_updates = updates,
       pc_sle_expectations = expectations lg,
       pc_replication_device_id = ac_replication_device_id act,
       pc_audit = audit_row ev c act ''command.cancel-document''
         (JObj (obj_of [(''doctype'', JStr doctype), (''documentId'', JStr d)])),
       pc_response = posting_response doctype d (json_opt JStr (pd_official_number document)) 2 gl sles party tax bns stls,
       pc_numbering_floors = [],
       pc_solo_migration = None,
       pc_lock_check_date = Some posting_date,
       pc_deposit_guard = guard\<rparr>)"

definition build_cancel ::
  "ext \<Rightarrow> env \<Rightarrow> inner \<Rightarrow> uuid \<Rightarrow> cancel_command \<Rightarrow> actor \<Rightarrow> posting_error + posting_commit_rec" where
  "build_cancel x ev s c cmd act =
     and_then (cancel_checks x ev s c cmd) (\<lambda>(document, posting_date, guard).
     let d = cc_document_id cmd in
     and_then (check_negative_stock (company_settings_of s c) (reversal_ledgers s c (reversed_sles s c d))) (\<lambda>_.
     and_then (if cc_doctype cmd = ''Payment Entry''
               then payment_outstanding_updates s c (reversed_settlements s c d) False else Inr []) (\<lambda>updates.
     Inr (cancel_commit ev s c cmd act document posting_date guard updates))))"

section \<open>The retry loop\<close>

text \<open>
  \<open>commit_loop n\<close> makes at most \<open>n\<close> attempts. Attempt \<open>i\<close> builds in the state it finds, then the
  environment moves the state by \<open>interfere i\<close>, then the commit runs. \<open>replayed_id\<close> is the
  document id a replayed outcome must name.
\<close>

fun commit_loop ::
  "nat \<Rightarrow> (inner \<Rightarrow> posting_error + posting_commit_rec) \<Rightarrow> (nat \<Rightarrow> inner \<Rightarrow> inner) \<Rightarrow> ext \<Rightarrow> int \<Rightarrow> string \<Rightarrow> string
     \<Rightarrow> inner \<Rightarrow> (posting_error + commit_outcome) \<times> inner" where
  "commit_loop 0 build interfere x now doctype replayed_id s = (Inl (PConflict (Command Contention)), s)"
| "commit_loop (Suc n) build interfere x now doctype replayed_id s =
     (case build s of
        Inl e \<Rightarrow> (Inl e, s)
      | Inr k \<Rightarrow>
          (case posting_commit x now k (interfere n s) of
             (Inr outcome, t) \<Rightarrow>
               (if oc_replayed outcome then bound_replay outcome doctype (Some replayed_id) else Inr outcome, t)
           | (Inl (Stale _), t) \<Rightarrow> commit_loop n build interfere x now doctype replayed_id t
           | (Inl e, t) \<Rightarrow> (Inl (PStore e), t)))"

definition submit_document ::
  "ext \<Rightarrow> env \<Rightarrow> (nat \<Rightarrow> inner \<Rightarrow> inner) \<Rightarrow> uuid \<Rightarrow> uuid \<Rightarrow> submit_command \<Rightarrow> actor \<Rightarrow> inner
     \<Rightarrow> (posting_error + commit_outcome) \<times> inner" where
  "submit_document x ev interfere fresh_id c cmd act s =
     (if sc_doctype cmd \<notin> set POSTED_DOCTYPES then
        (Inl (Validation (Command (UnsupportedDoctype (sc_doctype cmd)))), s)
      else
        (case (if sc_offline_fiscal cmd then validate_offline_fiscal cmd act else Inr ()) of
           Inl e \<Rightarrow> (Inl e, s)
         | Inr _ \<Rightarrow>
             (case replay s c (sc_idempotency_key cmd) of
                Some outcome \<Rightarrow> (bound_replay outcome (sc_doctype cmd) (sc_document_id cmd), s)
              | None \<Rightarrow>
                  let document_id = (case sc_document_id cmd of Some i \<Rightarrow> i | None \<Rightarrow> fresh_id) in
                  commit_loop MAX_RETRIES (\<lambda>s. build_submit x ev s c cmd document_id act) interfere x (ev_now ev)
                    (sc_doctype cmd) document_id s)))"

definition cancel_document ::
  "ext \<Rightarrow> env \<Rightarrow> (nat \<Rightarrow> inner \<Rightarrow> inner) \<Rightarrow> uuid \<Rightarrow> cancel_command \<Rightarrow> actor \<Rightarrow> inner
     \<Rightarrow> (posting_error + commit_outcome) \<times> inner" where
  "cancel_document x ev interfere c cmd act s =
     (case replay s c (cc_idempotency_key cmd) of
        Some outcome \<Rightarrow> (bound_replay outcome (cc_doctype cmd) (Some (cc_document_id cmd)), s)
      | None \<Rightarrow>
          commit_loop MAX_RETRIES (\<lambda>s. build_cancel x ev s c cmd act) interfere x (ev_now ev)
            (cc_doctype cmd) (cc_document_id cmd) s)"

end
