(* ===== verification/Store_Run.thy ===== *)
theory Store_Run
  imports Mem_Commit
begin

text \<open>
  The store as a state machine: one step is one method call under the mutex, by any client, with any
  arguments. What other commands may do between the reads of a command and its commit is a run of
  this machine. The interface \<open>run_relation\<close> carries a relation kept by every step over runs; it is
  interpreted for the growth of the ledgers, the persistence of documents and the growth of the log.
\<close>

inductive store_step :: "ext \<Rightarrow> inner \<Rightarrow> inner \<Rightarrow> bool" for x where
  commit: "store_step x s (snd (posting_commit x now k s))"
| push: "store_step x s (snd (push_mutations x now c ms s))"
| ack: "store_step x s (snd (ack_mutations c ids s))"
| rebuild: "store_step x s (rebuild_projection x now c s)"
| lost: "store_step x s (snd (record_lost_history c report entry s))"
| settings: "store_step x s (put_company_settings c v s)"
| lock: "store_step x s (snd (set_books_lock c change s))"
| item: "store_step x s (upsert_item c it s)"

definition store_run :: "ext \<Rightarrow> inner \<Rightarrow> inner \<Rightarrow> bool" where
  "store_run x = (store_step x)\<^sup>*\<^sup>*"

lemma store_run_refl [simp]: "store_run x s s"
  by (simp add: store_run_def)

lemma store_run_step: "store_step x s t \<Longrightarrow> store_run x s t"
  by (simp add: store_run_def)

lemma store_run_trans: "store_run x s t \<Longrightarrow> store_run x t u \<Longrightarrow> store_run x s u"
  by (simp add: store_run_def)

lemma commit_run: "posting_commit x now k s = (res, t) \<Longrightarrow> store_run x s t"
  using store_run_step [OF store_step.commit, of x s now k] by simp

locale run_relation =
  fixes step :: "'s \<Rightarrow> 's \<Rightarrow> bool" and R :: "'s \<Rightarrow> 's \<Rightarrow> bool"
  assumes R_refl: "R s s"
    and R_trans: "R s t \<Longrightarrow> R t u \<Longrightarrow> R s u"
    and R_step: "step s t \<Longrightarrow> R s t"
begin

lemma run_R: "step\<^sup>*\<^sup>* s t \<Longrightarrow> R s t"
  by (induction rule: rtranclp_induct) (auto intro: R_refl R_trans R_step)

text \<open>An invariant that the relation carries forward holds along every run.\<close>

lemma run_keeps:
  "step\<^sup>*\<^sup>* s t \<Longrightarrow> P s \<Longrightarrow> (\<And>s t. R s t \<Longrightarrow> P s \<Longrightarrow> P t) \<Longrightarrow> P t"
  using run_R by blast

end

section \<open>What each operation leaves alone\<close>

lemma fold_projection_frame [simp]:
  "documents (fold (apply_projection x now c) rs s) = documents s"
  "series (fold (apply_projection x now c) rs s) = series s"
  "stock_ledger (fold (apply_projection x now c) rs s) = stock_ledger s"
  "gl_entries (fold (apply_projection x now c) rs s) = gl_entries s"
  "settlements (fold (apply_projection x now c) rs s) = settlements s"
  "mutations (fold (apply_projection x now c) rs s) = mutations s"
  "bins (fold (apply_projection x now c) rs s) = bins s"
  "idempotency (fold (apply_projection x now c) rs s) = idempotency s"
  by (induction rs arbitrary: s; simp)+

lemma other_ops_frame:
  "documents (rebuild_projection x now c s) = documents s"
  "stock_ledger (rebuild_projection x now c s) = stock_ledger s"
  "gl_entries (rebuild_projection x now c s) = gl_entries s"
  "settlements (rebuild_projection x now c s) = settlements s"
  "idempotency (rebuild_projection x now c s) = idempotency s"
  "documents (snd (record_lost_history c report entry s)) = documents s"
  "stock_ledger (snd (record_lost_history c report entry s)) = stock_ledger s"
  "gl_entries (snd (record_lost_history c report entry s)) = gl_entries s"
  "settlements (snd (record_lost_history c report entry s)) = settlements s"
  "idempotency (snd (record_lost_history c report entry s)) = idempotency s"
  "documents (snd (set_books_lock c change s)) = documents s"
  "stock_ledger (snd (set_books_lock c change s)) = stock_ledger s"
  "gl_entries (snd (set_books_lock c change s)) = gl_entries s"
  "settlements (snd (set_books_lock c change s)) = settlements s"
  "idempotency (snd (set_books_lock c change s)) = idempotency s"
  by (simp_all add: rebuild_projection_def record_lost_history_def set_books_lock_def Let_def case_prod_beta
      split: option.splits)

lemmas store_frames = other_ops_frame push_mutations_def ack_mutations_def put_company_settings_def
  upsert_item_def Let_def

section \<open>Growth of the ledgers\<close>

text \<open>Ledger rows are only ever appended, and a committed idempotency key keeps its response.\<close>

definition ledgers_grow :: "inner \<Rightarrow> inner \<Rightarrow> bool" where
  "ledgers_grow s t \<longleftrightarrow> (\<forall>c. prefix (stock_ledger s c) (stock_ledger t c) \<and> prefix (gl_entries s c) (gl_entries t c)
     \<and> prefix (settlements s c) (settlements t c)) \<and> idempotency s \<subseteq>\<^sub>m idempotency t"

lemma ledgers_grow_same:
  "stock_ledger t = stock_ledger s \<Longrightarrow> gl_entries t = gl_entries s \<Longrightarrow> settlements t = settlements s \<Longrightarrow>
     idempotency t = idempotency s \<Longrightarrow> ledgers_grow s t"
  by (simp add: ledgers_grow_def)

lemma commit_apply_grows:
  assumes "replayed_response s k = None"
  shows "ledgers_grow s (commit_apply x now k s)"
  using assms by (auto simp: ledgers_grow_def map_le_def replayed_response_def split: option.splits)

lemma posting_commit_grows: "ledgers_grow s (snd (posting_commit x now k s))"
  by (cases rule: posting_commit_cases [of s k x now]) (simp_all add: commit_apply_grows ledgers_grow_same)

lemma ledgers_grow_trans: "ledgers_grow s t \<Longrightarrow> ledgers_grow t u \<Longrightarrow> ledgers_grow s u"
  unfolding ledgers_grow_def by (meson map_le_trans prefix_order.trans)

interpretation growth: run_relation "store_step x" ledgers_grow for x
proof
  show "ledgers_grow s s" for s by (simp add: ledgers_grow_same)
  show "ledgers_grow s t \<Longrightarrow> ledgers_grow t u \<Longrightarrow> ledgers_grow s u" for s t u by (rule ledgers_grow_trans)
  show "store_step x s t \<Longrightarrow> ledgers_grow s t" for s t
    by (induction rule: store_step.induct)
      (auto intro!: ledgers_grow_same posting_commit_grows simp: store_frames)
qed

lemmas run_grows = growth.run_R [folded store_run_def]

section \<open>Documents persist\<close>

definition docs_persist :: "inner \<Rightarrow> inner \<Rightarrow> bool" where
  "docs_persist s t \<longleftrightarrow> (\<forall>p. map_of (documents s) p \<noteq> None \<longrightarrow> map_of (documents t) p \<noteq> None)"

lemma commit_apply_persists: "docs_persist s (commit_apply x now k s)"
proof -
  have "map_of (fst (commit_documents s k)) p = None \<longleftrightarrow> p \<noteq> doc_key_of k \<and> map_of (documents s) p = None" for p
    using arg_cong [OF commit_documents_keeps [of "\<lambda>_. ()" s k p], where f = "\<lambda>v. v = None"] by auto
  then show ?thesis by (simp add: docs_persist_def)
qed

interpretation persistence: run_relation "store_step x" docs_persist for x
proof
  show "store_step x s t \<Longrightarrow> docs_persist s t" for s t
  proof (induction rule: store_step.induct)
    case (commit s now k)
    show ?case
      by (cases rule: posting_commit_cases [of s k x now]) (auto simp: commit_apply_persists, auto simp: docs_persist_def)
  qed (auto simp: docs_persist_def store_frames)
qed (auto simp: docs_persist_def)

lemmas run_persists = persistence.run_R [folded store_run_def]

section \<open>Series only grow\<close>

text \<open>A step taken while no series counter stands at the limit of its 64 bits, where the next number would wrap.\<close>

definition counted_step :: "ext \<Rightarrow> inner \<Rightarrow> inner \<Rightarrow> bool" where
  "counted_step x s t \<longleftrightarrow> store_step x s t \<and> (\<forall>p. series s p < i64_max)"

definition counted_run :: "ext \<Rightarrow> inner \<Rightarrow> inner \<Rightarrow> bool" where
  "counted_run x = (counted_step x)\<^sup>*\<^sup>*"

definition series_grow :: "inner \<Rightarrow> inner \<Rightarrow> bool" where
  "series_grow s t \<longleftrightarrow> (\<forall>p. series s p \<le> series t p)"

lemma series_step: "store_step x s t \<Longrightarrow> (\<And>p. series s p < i64_max) \<Longrightarrow> series_grow s t"
proof (induction rule: store_step.induct)
  case (commit s now k)
  then show ?case
    by (cases rule: posting_commit_cases [of s k x now]) (simp_all add: series_grow_def series_monotone)
next
  case (lost s c report entry)
  show ?case
    by (auto simp: series_grow_def record_lost_history_def Let_def case_prod_beta raise_floors_ge split: option.split)
qed (auto simp: series_grow_def rebuild_projection_def set_books_lock_def push_mutations_def ack_mutations_def put_company_settings_def
    upsert_item_def Let_def)

interpretation series_growth: run_relation "counted_step x" series_grow for x
proof
  show "series_grow s t \<Longrightarrow> series_grow t u \<Longrightarrow> series_grow s u" for s t u
    unfolding series_grow_def using order_trans by blast
  show "counted_step x s t \<Longrightarrow> series_grow s t" for s t
    unfolding counted_step_def by (blast intro: series_step)
qed (simp add: series_grow_def)

lemmas run_series = series_growth.run_R [folded counted_run_def]

end
