(* ===== verification/Engine_Cache.thy ===== *)
theory Engine_Cache
  imports Engine_Command Store_Run
begin

text \<open>
  The ledger cache of the costing loop tracks the stored ledger plus the voucher's own rows, pair by
  pair; so the bins a commit carries are the balances of the ledger it leaves behind, whenever the
  store's expectation check passed.
\<close>

definition in_pair :: "string \<Rightarrow> string \<Rightarrow> stock_ledger_entry \<Rightarrow> bool" where
  "in_pair item warehouse e \<longleftrightarrow> sle_item e = item \<and> sle_warehouse e = warehouse"

lemma sles_for_pair_in: "sles_for_pair s c item wh = filter (in_pair item wh) (stock_ledger s c)"
  by (simp add: sles_for_pair_def in_pair_def [abs_def])

definition pair_rows :: "inner \<Rightarrow> uuid \<Rightarrow> stock_ledger_entry list \<Rightarrow> string \<Rightarrow> string \<Rightarrow> ledger_row list" where
  "pair_rows s c es item wh = map row_of_sle (sles_for_pair s c item wh @ filter (in_pair item wh) es)"

text \<open>The cache entry of one pair, after the voucher rows \<open>es\<close>.\<close>

definition entry_ok :: "inner \<Rightarrow> uuid \<Rightarrow> stock_ledger_entry list \<Rightarrow> ledgers \<Rightarrow> string \<Rightarrow> string \<Rightarrow> bool" where
  "entry_ok s c es lg item wh = (case map_of (lg_rows lg) (item, wh) of
       None \<Rightarrow> filter (in_pair item wh) es = [] \<and> map_of (lg_prior_counts lg) (item, wh) = None
     | Some rows \<Rightarrow> rows = pair_rows s c es item wh
         \<and> map_of (lg_prior_counts lg) (item, wh) = Some (pair_count s c item wh))"

definition cache_ok :: "inner \<Rightarrow> uuid \<Rightarrow> stock_ledger_entry list \<Rightarrow> ledgers \<Rightarrow> bool" where
  "cache_ok s c es lg \<longleftrightarrow> sorted_wrt (<) (map fst (lg_rows lg)) \<and> (\<forall>item wh. entry_ok s c es lg item wh)"

lemma cache_ok_empty: "cache_ok s c [] empty_ledgers"
  by (simp add: cache_ok_def entry_ok_def empty_ledgers_def)

lemma cache_okD: "cache_ok s c es lg \<Longrightarrow> entry_ok s c es lg item wh"
  by (simp add: cache_ok_def)

lemma entry_ok_None:
  "entry_ok s c es lg item wh \<Longrightarrow> map_of (lg_rows lg) (item, wh) = None \<Longrightarrow> filter (in_pair item wh) es = []"
  by (simp add: entry_ok_def)

lemma entry_ok_Some:
  "entry_ok s c es lg item wh \<Longrightarrow> map_of (lg_rows lg) (item, wh) = Some rows \<Longrightarrow>
     rows = pair_rows s c es item wh \<and> map_of (lg_prior_counts lg) (item, wh) = Some (pair_count s c item wh)"
  by (simp add: entry_ok_def)

lemma entry_ok_cong:
  "map_of (lg_rows lg') (item, wh) = map_of (lg_rows lg) (item, wh) \<Longrightarrow>
     map_of (lg_prior_counts lg') (item, wh) = map_of (lg_prior_counts lg) (item, wh) \<Longrightarrow>
     filter (in_pair item wh) es' = filter (in_pair item wh) es \<Longrightarrow>
     entry_ok s c es' lg' item wh = entry_ok s c es lg item wh"
  by (simp add: entry_ok_def pair_rows_def split: option.splits)

lemma prior_for_ok:
  assumes "cache_ok s c es lg"
  shows "cache_ok s c es (prior_for s c item wh lg)"
proof (cases "map_of (lg_rows lg) (item, wh)")
  case None
  let ?p = "prior_for s c item wh lg"
  have "entry_ok s c es ?p i w" for i w
  proof (cases "(i, w) = (item, wh)")
    case True
    then show ?thesis
      using entry_ok_None [OF cache_okD [OF assms] None] None
      by (simp add: entry_ok_def prior_for_def Let_def update_conv' pair_rows_def pair_count_def)
  next
    case False
    then have "entry_ok s c es ?p i w = entry_ok s c es lg i w"
      using None by (intro entry_ok_cong) (auto simp: prior_for_def Let_def update_conv')
    then show ?thesis using cache_okD [OF assms] by simp
  qed
  then show ?thesis
    using assms None by (simp add: cache_ok_def prior_for_def Let_def bt_insert_sorted)
qed (use assms in \<open>simp add: prior_for_def\<close>)

lemma prior_for_loads: "map_of (lg_rows (prior_for s c item wh lg)) (item, wh) \<noteq> None"
  by (auto simp: prior_for_def Let_def)

lemma push_row_ok:
  assumes "cache_ok s c es lg" "in_pair item wh e"
  shows "cache_ok s c (es @ [e]) (push_row s c item wh (row_of_sle e) lg)"
proof -
  let ?p = "prior_for s c item wh lg"
  note ok = prior_for_ok [OF assms(1), of item wh]
  obtain rows where r: "map_of (lg_rows ?p) (item, wh) = Some rows" using prior_for_loads by blast
  note rows = entry_ok_Some [OF cache_okD [OF ok] r]
  have "entry_ok s c (es @ [e]) (push_row s c item wh (row_of_sle e) lg) i w" for i w
  proof (cases "(i, w) = (item, wh)")
    case True
    then show ?thesis using rows r assms(2)
      by (simp add: entry_ok_def push_row_def Let_def rows_for_def pair_rows_def)
  next
    case False
    then have "entry_ok s c (es @ [e]) (push_row s c item wh (row_of_sle e) lg) i w = entry_ok s c es ?p i w"
      using assms(2) by (intro entry_ok_cong) (auto simp: push_row_def Let_def in_pair_def)
    then show ?thesis using cache_okD [OF ok] by simp
  qed
  then show ?thesis using ok by (simp add: cache_ok_def push_row_def Let_def bt_insert_sorted)
qed

lemma reversal_ledgers_ok: "cache_ok s c es (reversal_ledgers s c es)"
proof -
  have "cache_ok s c ds lg \<Longrightarrow>
      cache_ok s c (ds @ es) (foldl (\<lambda>lg e. push_row s c (sle_item e) (sle_warehouse e) (row_of_sle e) lg) lg es)" for ds lg
  proof (induction es arbitrary: ds lg)
    case (Cons e es)
    show ?case
      using Cons.IH [OF push_row_ok [OF Cons.prems, of "sle_item e" "sle_warehouse e" e]] by (simp add: in_pair_def)
  qed simp
  from this [OF cache_ok_empty] show ?thesis by (simp add: reversal_ledgers_def)
qed

section \<open>The costing loop\<close>

lemma return_cost_ok:
  "cache_ok s c es lg \<Longrightarrow> return_cost s c item wh ra lg = (rate, lg') \<Longrightarrow> cache_ok s c es lg'"
  by (auto simp: return_cost_def Let_def prior_for_ok split: option.splits list.splits)

text \<open>The fields of a row that costing leaves alone.\<close>

definition row_tag :: "stock_ledger_entry \<Rightarrow> string \<times> string \<times> string \<times> string \<times> uuid \<times> string \<times> bool" where
  "row_tag e = (sle_item e, sle_warehouse e, sle_trans_type e, sle_id e, sle_company e, sle_voucher_no e, sle_is_reversal e)"

lemma row_tag_upd [simp]:
  "row_tag (e\<lparr>sle_valuation_rate := r\<rparr>) = row_tag e" "row_tag (e\<lparr>sle_qty_change := q\<rparr>) = row_tag e"
  by (simp_all add: row_tag_def)

lemma scale_row_tag: "scale_row itm sle = (factor, scaled, e) \<Longrightarrow> row_tag e = row_tag sle"
  by (auto simp: scale_row_def Let_def)

lemma cost_one_inv:
  assumes "cost_one s c itm p st sle = (e, st1)" "cache_ok s c es (ct_ledgers st)"
  shows "row_tag e = row_tag sle" and "cache_ok s c es (ct_ledgers st1)"
    and "ct_legs st1 = ct_legs st \<or> ct_legs st1 = ct_legs st @ [length (ct_done st)] \<and> sle_trans_type sle = ''Production''"
proof -
  obtain factor scaled e0 where sc: "scale_row itm sle = (factor, scaled, e0)" by (cases "scale_row itm sle")
  have tag: "row_tag e0 = row_tag sle" using scale_row_tag [OF sc] .
  obtain rate lg where rc: "return_cost s c (sle_item e0) (sle_warehouse e0)
      (as_non_empty (obj_get p ''return_against'')) (ct_ledgers st) = (rate, lg)" by fastforce
  note ok = return_cost_ok [OF assms(2) rc] prior_for_ok [OF assms(2)] assms(2)
  note c1 = assms(1) [unfolded cost_one_def sc prod.case Let_def rc]
  show "row_tag e = row_tag sle" using c1 tag by (auto split: if_splits option.splits)
  show "cache_ok s c es (ct_ledgers st1)" using c1 ok by (auto split: if_splits option.splits)
  show "ct_legs st1 = ct_legs st \<or> ct_legs st1 = ct_legs st @ [length (ct_done st)] \<and> sle_trans_type sle = ''Production''"
    using c1 tag by (auto simp: row_tag_def split: if_splits option.splits)
qed

definition cost_inv :: "inner \<Rightarrow> uuid \<Rightarrow> cost_state \<Rightarrow> bool" where
  "cost_inv s c st \<longleftrightarrow> cache_ok s c (ct_done st) (ct_ledgers st) \<and>
     (\<forall>i\<in>set (ct_legs st). i < length (ct_done st) \<and> sle_trans_type (ct_done st ! i) = ''Production'')"

lemma cost_row_inv:
  assumes "cost_inv s c st"
  shows "cost_inv s c (cost_row s c itm p st sle)"
    and "map row_tag (ct_done (cost_row s c itm p st sle)) = map row_tag (ct_done st) @ [row_tag sle]"
proof -
  obtain e st1 where o: "cost_one s c itm p st sle = (e, st1)" by fastforce
  have "cache_ok s c (ct_done st) (ct_ledgers st)" using assms by (simp add: cost_inv_def)
  note inv = cost_one_inv [OF o this]
  have tt: "sle_trans_type e = sle_trans_type sle" using inv(1) by (simp add: row_tag_def)
  have "cache_ok s c (ct_done st @ [e]) (push_row s c (sle_item e) (sle_warehouse e) (row_of_sle e) (ct_ledgers st1))"
    by (rule push_row_ok [OF inv(2)]) (simp add: in_pair_def)
  then show "cost_inv s c (cost_row s c itm p st sle)"
    using assms inv(3) tt by (auto simp: cost_inv_def cost_row_def o nth_append)
  show "map row_tag (ct_done (cost_row s c itm p st sle)) = map row_tag (ct_done st) @ [row_tag sle]"
    using inv(1) by (simp add: cost_row_def o)
qed

lemma cost_fold_inv:
  "cost_inv s c st \<Longrightarrow> cost_inv s c (foldl (cost_row s c itm p) st sles) \<and>
     map row_tag (ct_done (foldl (cost_row s c itm p) st sles)) = map row_tag (ct_done st) @ map row_tag sles"
  by (induction sles arbitrary: st) (simp_all add: cost_row_inv)

lemma cost_start_inv: "cost_inv s c cost_start"
  by (simp add: cost_inv_def cost_start_def cache_ok_empty)

section \<open>Production legs\<close>

text \<open>Patching a leg changes rates of its own pair only; the other pairs stay in step.\<close>

definition no_production :: "string \<Rightarrow> string \<Rightarrow> stock_ledger_entry list \<Rightarrow> bool" where
  "no_production item wh es \<longleftrightarrow> (\<forall>e\<in>set es. in_pair item wh e \<longrightarrow> sle_trans_type e \<noteq> ''Production'')"

lemma filter_update_other:
  "i < length xs \<Longrightarrow> \<not> P (xs ! i) \<Longrightarrow> \<not> P y \<Longrightarrow> filter P (xs[i := y]) = filter P xs"
  by (induction xs arbitrary: i) (auto split: nat.splits)

lemma patch_leg_keeps:
  assumes "patch_leg rate (sles, lg) i = (sles', lg')" "i < length sles" "sle_trans_type (sles ! i) = ''Production''"
  shows "map row_tag sles' = map row_tag sles" and "sorted_wrt (<) (map fst (lg_rows lg)) \<Longrightarrow> sorted_wrt (<) (map fst (lg_rows lg'))"
    and "no_production item wh sles \<Longrightarrow> entry_ok s c sles lg item wh \<Longrightarrow> entry_ok s c sles' lg' item wh"
proof -
  have s': "sles' = sles[i := (sles ! i)\<lparr>sle_valuation_rate := rate\<rparr>]"
    using assms(1) by (simp add: patch_leg_def Let_def)
  show "map row_tag sles' = map row_tag sles"
    using assms(2) by (simp add: s' map_update list_update_same_conv)
  show "sorted_wrt (<) (map fst (lg_rows lg)) \<Longrightarrow> sorted_wrt (<) (map fst (lg_rows lg'))"
    using assms(1) by (auto simp: patch_leg_def Let_def bt_insert_sorted split: option.splits)
  assume np: "no_production item wh sles" and ok: "entry_ok s c sles lg item wh"
  have ne: "\<not> in_pair item wh (sles ! i)" using np assms(2,3) by (auto simp: no_production_def)
  have "entry_ok s c sles' lg' item wh = entry_ok s c sles lg item wh"
  proof (rule entry_ok_cong)
    show "map_of (lg_rows lg') (item, wh) = map_of (lg_rows lg) (item, wh)"
      "map_of (lg_prior_counts lg') (item, wh) = map_of (lg_prior_counts lg) (item, wh)"
      using assms(1) ne by (auto simp: patch_leg_def Let_def in_pair_def split: option.splits)
    show "filter (in_pair item wh) sles' = filter (in_pair item wh) sles"
      unfolding s' using assms(2) ne by (intro filter_update_other) (auto simp: in_pair_def)
  qed
  then show "entry_ok s c sles' lg' item wh" using ok by simp
qed

lemma no_production_tags:
  assumes "map row_tag es = map row_tag es'"
  shows "no_production item wh es = no_production item wh es'"
proof -
  have n: "no_production item wh es \<longleftrightarrow> (\<forall>t\<in>set (map row_tag es). fst t = item \<and> fst (snd t) = wh \<longrightarrow> fst (snd (snd t)) \<noteq> ''Production'')" for es
    by (auto simp: no_production_def in_pair_def row_tag_def)
  show ?thesis unfolding n [of es] n [of es'] assms by (rule refl)
qed

definition costed_ok :: "inner \<Rightarrow> uuid \<Rightarrow> stock_ledger_entry list \<Rightarrow> ledgers \<Rightarrow> bool" where
  "costed_ok s c es lg \<longleftrightarrow> sorted_wrt (<) (map fst (lg_rows lg)) \<and>
     (\<forall>item wh. no_production item wh es \<longrightarrow> entry_ok s c es lg item wh)"

lemma cache_costed: "cache_ok s c es lg \<Longrightarrow> costed_ok s c es lg"
  by (simp add: costed_ok_def cache_ok_def)

lemma patch_fold_ok:
  assumes "costed_ok s c es lg" "\<forall>i\<in>set legs. i < length es \<and> sle_trans_type (es ! i) = ''Production''"
    and "foldl (patch_leg rate) (es, lg) legs = (es', lg')"
  shows "costed_ok s c es' lg' \<and> map row_tag es' = map row_tag es"
  using assms
proof (induction legs arbitrary: es lg)
  case (Cons i legs)
  obtain es1 lg1 where p: "patch_leg rate (es, lg) i = (es1, lg1)" by fastforce
  have i: "i < length es" "sle_trans_type (es ! i) = ''Production''" using Cons.prems(2) by auto
  note k = patch_leg_keeps [OF p i]
  have len: "length es1 = length es" using k(1) by (metis length_map)
  have tt: "sle_trans_type (es1 ! j) = sle_trans_type (es ! j)" if "j < length es" for j
    using arg_cong [OF k(1), where f = "\<lambda>xs. fst (snd (snd (xs ! j)))"] that len by (simp add: row_tag_def)
  have "costed_ok s c es1 lg1"
    using Cons.prems(1) k(2,3) no_production_tags [OF k(1)] by (simp add: costed_ok_def)
  then show ?case using Cons.IH [of es1 lg1] Cons.prems(2,3) k(1) len tt by (simp add: p)
qed simp

lemma cost_movements_ok:
  assumes "cost_stock_movements s c sles itm p = (es, lg)"
  shows "costed_ok s c es lg" and "map row_tag es = map row_tag sles"
proof -
  let ?st = "foldl (cost_row s c itm p) cost_start sles"
  have inv: "cost_inv s c ?st" and tags: "map row_tag (ct_done ?st) = map row_tag sles"
    using cost_fold_inv [OF cost_start_inv [of s c], of itm p sles] by (simp_all add: cost_start_def)
  have c: "costed_ok s c (ct_done ?st) (ct_ledgers ?st)" using inv by (simp add: cost_inv_def cache_costed)
  have l: "\<forall>i\<in>set (ct_legs ?st). i < length (ct_done ?st) \<and> sle_trans_type (ct_done ?st ! i) = ''Production''"
    using inv by (simp add: cost_inv_def)
  have "costed_ok s c es lg \<and> map row_tag es = map row_tag (ct_done ?st)"
  proof (cases "ct_legs ?st \<noteq> [] \<and> 0 < ct_produced ?st \<and> 0 < ct_consumed ?st")
    case True
    then show ?thesis using patch_fold_ok [OF c l] assms by (simp add: cost_stock_movements_def Let_def)
  next
    case False
    then have "es = ct_done ?st" "lg = ct_ledgers ?st"
      using assms unfolding cost_stock_movements_def Let_def by (simp_all only: if_False prod.inject)
    then show ?thesis using c by simp
  qed
  then show "costed_ok s c es lg" "map row_tag es = map row_tag sles" using tags by simp_all
qed

section \<open>Bins\<close>

definition balance_bin :: "uuid \<Rightarrow> string \<Rightarrow> string \<Rightarrow> stock_ledger_entry list \<Rightarrow> bin" where
  "balance_bin c item wh es = bin_of c ((item, wh), map row_of_sle es)"

lemma sorted_keys_distinct: "sorted_wrt (<) (ks :: 'a::linorder list) \<Longrightarrow> distinct ks"
  by (induction ks) auto

lemma insert_bins_map:
  assumes "distinct (map (\<lambda>b. (bin_item b, bin_warehouse b)) bs)" "b \<in> set bs"
  shows "map_of (insert_bins c bs m) (c, bin_item b, bin_warehouse b) = Some b"
  using assms unfolding insert_bins_def
proof (induction bs arbitrary: m)
  case (Cons a bs)
  have keep: "map_of (fold (\<lambda>b. AList.update (c, bin_item b, bin_warehouse b) b) bs m) key = map_of m key"
    if "key \<notin> (\<lambda>b. (c, bin_item b, bin_warehouse b)) ` set bs" for m key
    using that by (induction bs arbitrary: m) (auto simp: update_conv')
  show ?case
  proof (cases "b = a")
    case True
    then show ?thesis using Cons.prems(1) by (subst fold_simps) (auto simp: keep update_conv' image_iff)
  next
    case False
    then show ?thesis using Cons by simp
  qed
qed simp

lemma insert_bins_other:
  "(item, wh) \<notin> (\<lambda>b. (bin_item b, bin_warehouse b)) ` set bs \<Longrightarrow>
     map_of (insert_bins c bs m) (c', item, wh) = map_of m (c', item, wh)"
  unfolding insert_bins_def by (induction bs arbitrary: m) (auto simp: update_conv')

lemma insert_bins_company:
  "c' \<noteq> c \<Longrightarrow> map_of (insert_bins c bs m) (c', item, wh) = map_of m (c', item, wh)"
  unfolding insert_bins_def by (induction bs arbitrary: m) (auto simp: update_conv')

lemma bin_of_key [simp]: "bin_item (bin_of c e) = fst (fst e)" "bin_warehouse (bin_of c e) = snd (fst e)"
  by (simp_all add: bin_of_def case_prod_beta Let_def)

lemma recompute_bins_get:
  assumes "sorted_wrt (<) (map fst (lg_rows lg))" "map_of (lg_rows lg) (item, wh) = Some rows"
  shows "map_of (insert_bins c (recompute_bins c lg) m) (c, item, wh) = Some (bin_of c ((item, wh), rows))"
proof -
  have "((item, wh), rows) \<in> set (lg_rows lg)" using assms(2) by (rule map_of_SomeD)
  then have "bin_of c ((item, wh), rows) \<in> set (recompute_bins c lg)" by (force simp: recompute_bins_def)
  moreover have "distinct (map (\<lambda>b. (bin_item b, bin_warehouse b)) (recompute_bins c lg))"
    using sorted_keys_distinct [OF assms(1)] by (simp add: recompute_bins_def comp_def)
  ultimately show ?thesis using insert_bins_map [of "recompute_bins c lg" "bin_of c ((item, wh), rows)" c m] by simp
qed

lemma recompute_bins_untouched:
  assumes "map_of (lg_rows lg) (item, wh) = None"
  shows "map_of (insert_bins c (recompute_bins c lg) m) (c, item, wh) = map_of m (c, item, wh)"
  using assms by (intro insert_bins_other) (auto simp: recompute_bins_def map_of_eq_None_iff image_iff)

end
