(* ===== verification/Engine_Facts.thy ===== *)
theory Engine_Facts
  imports Engine_Cache
begin

text \<open>
  What a built commit looks like: elimination rules for \<open>build_submit\<close> and \<open>build_cancel\<close>, the
  fields of the derived rows, and the outcome of the retry loop.
\<close>

section \<open>The commit of a submit\<close>

lemma submit_commit_sel [simp]:
  fixes ev c cmd d act date p g dr sh stls ups
  defines "k \<equiv> submit_commit ev c cmd d act date p g dr sh stls ups"
  shows "pc_company k = c" "pc_idempotency_key k = sc_idempotency_key cmd" "pc_document_is_new k = True"
    "pc_gl_entries k = dr_gl dr" "pc_stock_ledger_entries k = dr_sles dr" "pc_party_transactions k = dr_party dr"
    "pc_tax_transactions k = dr_tax dr" "pc_settlements k = stls" "pc_bins k = recompute_bins c (dr_ledgers dr)"
    "pc_outstanding_updates k = ups" "pc_sle_expectations k = expectations (dr_ledgers dr)"
    "pc_lock_check_date k = Some date" "pc_deposit_guard k = g" "pc_numbering_floors k = []" "pc_solo_migration k = None"
    "pc_series_key k = (if sc_offline_fiscal cmd then None else series_key (sc_doctype cmd))"
    "pc_preassigned_number k = (if sc_offline_fiscal cmd then Some d else None)"
    "pd_id (pc_document k) = d" "pd_doctype (pc_document k) = sc_doctype cmd" "pd_docstatus (pc_document k) = 1"
    "pd_company (pc_document k) = c" "pd_official_number (pc_document k) = None"
    "pb_id (pc_batch k) = ''PB-'' @ d" "pb_kind (pc_batch k) = ''submit''"
    "pc_replication_device_id k = ac_replication_device_id act"
    "pc_till_binding k = (if sc_offline_fiscal cmd
       then map_option (\<lambda>ser. (ser, unwrap_or_default (ac_device act))) (as_non_empty (obj_get p ''till_series'')) else None)"
  by (simp_all add: k_def submit_commit_def Let_def)

definition submit_ctx :: "uuid \<Rightarrow> submit_command \<Rightarrow> string \<Rightarrow> string \<Rightarrow> row_context" where
  "submit_ctx c cmd d date = \<lparr>cx_company = c, cx_document_id = d, cx_doctype = sc_doctype cmd,
     cx_posting_date = date, cx_batch_id = ''PB-'' @ d\<rparr>"

lemma build_submitE:
  assumes "build_submit x ev s c cmd d act = Inr k"
  obtains date payload guard sh stls ups where
    "submit_payload x ev s c cmd d = Inr (date, payload, guard)"
    "check_balanced (dr_gl (derive_rows x s (submit_ctx c cmd d date) payload)) = Inr ()"
    "check_group_accounts s c (dr_gl (derive_rows x s (submit_ctx c cmd d date) payload)) = Inr ()"
    "\<not> sc_offline_fiscal cmd \<Longrightarrow>
       check_negative_stock (company_settings_of s c) (dr_ledgers (derive_rows x s (submit_ctx c cmd d date) payload)) = Inr ()"
    "if sc_doctype cmd = ''Payment Entry''
     then stls = derive_settlements (submit_ctx c cmd d date) payload \<and> validate_payment_submit payload stls = Inr ()
       \<and> payment_outstanding_updates s c stls True = Inr ups
     else stls = [] \<and> ups = []"
    "k = submit_commit ev c cmd d act date payload guard (derive_rows x s (submit_ctx c cmd d date) payload) sh stls ups"
proof -
  from assms obtain date payload guard sh stls ups where
    "submit_payload x ev s c cmd d = Inr (date, payload, guard)"
    "check_balanced (dr_gl (derive_rows x s (submit_ctx c cmd d date) payload)) = Inr ()"
    "check_group_accounts s c (dr_gl (derive_rows x s (submit_ctx c cmd d date) payload)) = Inr ()"
    "(if sc_offline_fiscal cmd then Inr (stock_shortfalls (dr_ledgers (derive_rows x s (submit_ctx c cmd d date) payload)))
      else and_then (check_negative_stock (company_settings_of s c) (dr_ledgers (derive_rows x s (submit_ctx c cmd d date) payload)))
        (\<lambda>_. Inr [])) = Inr sh"
    "(if sc_doctype cmd = ''Payment Entry'' then
        and_then (validate_payment_submit payload (derive_settlements (submit_ctx c cmd d date) payload)) (\<lambda>_.
        and_then (payment_outstanding_updates s c (derive_settlements (submit_ctx c cmd d date) payload) True)
          (\<lambda>updates. Inr (derive_settlements (submit_ctx c cmd d date) payload, updates)))
      else Inr ([], [])) = Inr (stls, ups)"
    "k = submit_commit ev c cmd d act date payload guard (derive_rows x s (submit_ctx c cmd d date) payload) sh stls ups"
    unfolding build_submit_def submit_ctx_def Let_def by (auto simp: result_simps)
  then show ?thesis by (intro that) (auto simp: result_simps split: if_splits)
qed

lemma submit_payloadD:
  assumes "submit_payload x ev s c cmd d = Inr (date, payload, guard)"
  shows "check_period_lock (company_settings_of s c) date = Inr ()"
    and "validated_posting_date x (ev_today ev) (obj_insert ''items'' (JArr (sc_items cmd)) (sc_payload cmd)) = Inr date"
    and "posted_document_of s c (sc_doctype cmd) d = None"
  using assms by (auto simp: submit_payload_def Let_def result_simps)

section \<open>Fields of the derived rows\<close>

text \<open>The voucher a GL row belongs to, and that it is not a reversal.\<close>

definition gl_tag :: "gl_entry \<Rightarrow> uuid \<times> string \<times> string \<times> string \<times> bool \<times> string" where
  "gl_tag e = (gl_company e, gl_voucher_type e, gl_voucher_no e, gl_posting_date e, gl_is_reversal e, gl_batch_id e)"

definition ctx_tag :: "row_context \<Rightarrow> uuid \<times> string \<times> string \<times> string \<times> bool \<times> string" where
  "ctx_tag ctx = (cx_company ctx, cx_doctype ctx, cx_document_id ctx, cx_posting_date ctx, False, cx_batch_id ctx)"

lemma gl_tag_simps [simp]:
  "gl_tag (ctx_gl ctx i a dr cr pt p) = ctx_tag ctx"
  "gl_tag (e\<lparr>gl_party_type := x1\<rparr>) = gl_tag e" "gl_tag (e\<lparr>gl_cost_center := x2\<rparr>) = gl_tag e"
  "gl_tag (e\<lparr>gl_currency := x3\<rparr>) = gl_tag e" "gl_tag (e\<lparr>gl_conversion_rate := x4\<rparr>) = gl_tag e"
  "gl_tag (e\<lparr>gl_base_debit := x5\<rparr>) = gl_tag e" "gl_tag (e\<lparr>gl_base_credit := x5\<rparr>) = gl_tag e"
  "gl_tag (e\<lparr>gl_debit := x6\<rparr>) = gl_tag e"
  by (simp_all add: gl_tag_def ctx_tag_def ctx_gl_def)

lemma set_map_filter: "set (List.map_filter f xs) = {y. \<exists>x\<in>set xs. f x = Some y}"
  by (induction xs) (auto split: option.splits)

lemma list_all_if [simp]: "list_all P (if b then xs else ys) = (if b then list_all P xs else list_all P ys)"
  by simp

lemma tax_leg_tag: "tax_leg ctx b r = Some e \<Longrightarrow> gl_tag e = ctx_tag ctx"
  by (auto simp: tax_leg_def Let_def split: option.splits if_splits prod.splits)

lemma tax_legs_tag: "list_all (\<lambda>e. gl_tag e = ctx_tag ctx) (tax_legs ctx p b)"
  using tax_leg_tag by (auto simp: tax_legs_def set_map_filter list_all_iff)

lemma journal_gl_tag: "list_all (\<lambda>e. gl_tag e = ctx_tag ctx) (journal_gl ctx p)"
  by (auto simp: journal_gl_def list_all_iff)

lemma monetary_gl_tag: "list_all (\<lambda>e. gl_tag e = ctx_tag ctx) (derive_monetary_gl ctx p)"
  unfolding derive_monetary_gl_def Let_def
  by (simp add: sales_gl_def purchase_gl_def pos_gl_def payment_gl_def expense_gl_def deposit_gl_def Let_def
      tax_legs_tag journal_gl_tag cong: if_cong)

lemma base_leg_tag [simp]: "gl_tag (base_leg e) = gl_tag e"
  by (simp add: base_leg_def gl_tag_def)

lemma stock_gl_pair_tag: "list_all (\<lambda>e. gl_tag e = ctx_tag ctx) (stock_gl_pair ctx itm st sle)"
  unfolding stock_gl_pair_def Let_def case_prod_beta by (simp cong: if_cong)

lemma stock_gl_tag: "list_all (\<lambda>e. gl_tag e = ctx_tag ctx) (stock_gl_legs ctx sles itm st)"
  using stock_gl_pair_tag by (auto simp: stock_gl_legs_def list_all_iff)

lemma stamp_gl_tag [simp]: "gl_tag (stamp_gl r cu e) = gl_tag e"
  by (simp add: stamp_gl_def gl_tag_def)

lemma reduce_expense_tag: "e' \<in> set (reduce_expense n r e) \<Longrightarrow> gl_tag e' = gl_tag e"
  by (auto simp: reduce_expense_def Let_def split: if_splits)

lemma split_at_first:
  "(\<exists>a e rest. xs = a @ e # rest \<and> takeWhile P xs = a \<and> dropWhile P xs = e # rest) \<or> dropWhile P xs = []"
  by (metis list.exhaust takeWhile_dropWhile_id)

lemma split_grni_tag:
  assumes "list_all (\<lambda>e. gl_tag e = ctx_tag ctx) gl"
  shows "list_all (\<lambda>e. gl_tag e = ctx_tag ctx) (split_grni_from_expense ctx gl p itm st)"
proof -
  let ?P = "\<lambda>e. gl_id e \<noteq> gl_name ctx ''debit''"
  have "list_all (\<lambda>e. gl_tag e = ctx_tag ctx)
      (case dropWhile ?P gl of [] \<Rightarrow> gl | e # rest \<Rightarrow> takeWhile ?P gl @ reduce_expense n r e @ rest)" for n r
    using split_at_first [of gl ?P]
  proof (elim disjE exE conjE)
    fix a e rest
    assume "gl = a @ e # rest" "takeWhile ?P gl = a" "dropWhile ?P gl = e # rest"
    then show ?thesis using assms reduce_expense_tag [of _ n r e] by (auto simp: list_all_iff)
  qed (use assms in \<open>simp del: dropWhile_eq_Nil_conv\<close>)
  then show ?thesis using assms by (simp add: split_grni_from_expense_def Let_def cong: if_cong)
qed

lemma derive_rows_sel:
  "dr_sles (derive_rows x s ctx p) = fst (cost_stock_movements s (cx_company ctx) (kept_rows x s ctx p) (voucher_items x s ctx p) p)"
  "dr_ledgers (derive_rows x s ctx p) = snd (cost_stock_movements s (cx_company ctx) (kept_rows x s ctx p) (voucher_items x s ctx p) p)"
  "dr_gl (derive_rows x s ctx p) =
     (let gl = fst (monetary_rows ctx p) @ stock_gl_legs ctx (dr_sles (derive_rows x s ctx p)) (voucher_items x s ctx p)
         (company_settings_of s (cx_company ctx)) in
      if cx_doctype ctx = ''Purchase Invoice''
      then split_grni_from_expense ctx gl p (voucher_items x s ctx p) (company_settings_of s (cx_company ctx)) else gl)"
  by (simp_all add: derive_rows_def Let_def case_prod_beta)

lemma derive_rows_gl_tag: "list_all (\<lambda>e. gl_tag e = ctx_tag ctx) (dr_gl (derive_rows x s ctx p))"
proof -
  have "list_all (\<lambda>e. gl_tag e = ctx_tag ctx) (fst (monetary_rows ctx p))"
    using monetary_gl_tag [of ctx p] by (simp add: monetary_rows_def stamp_base_amounts_def Let_def list_all_iff)
  then show ?thesis
    by (simp add: derive_rows_sel(3) Let_def split_grni_tag stock_gl_tag cong: if_cong)
qed

lemma stock_rows_tag: "list_all (\<lambda>e. sle_company e = cx_company ctx \<and> sle_voucher_no e = cx_document_id ctx \<and> \<not> sle_is_reversal e) (derive_stock_rows ctx p)"
proof -
  have "stock_document_row ctx p i t r = Some e \<Longrightarrow> sle_company e = cx_company ctx \<and> sle_voucher_no e = cx_document_id ctx \<and> \<not> sle_is_reversal e" for i t r e
    by (auto simp: stock_document_row_def ctx_sle_def Let_def split: option.splits prod.splits)
  then have "list_all (\<lambda>e. sle_company e = cx_company ctx \<and> sle_voucher_no e = cx_document_id ctx \<and> \<not> sle_is_reversal e) (stock_document_rows ctx p i t)" for i t
    by (auto simp: stock_document_rows_def set_map_filter list_all_iff)
  moreover have "list_all (\<lambda>e. sle_company e = cx_company ctx \<and> sle_voucher_no e = cx_document_id ctx \<and> \<not> sle_is_reversal e) (stock_entry_line ctx t r)" for t r
    by (auto simp: stock_entry_line_def ctx_sle_def Let_def split: option.splits prod.splits)
  then have "list_all (\<lambda>e. sle_company e = cx_company ctx \<and> sle_voucher_no e = cx_document_id ctx \<and> \<not> sle_is_reversal e) (stock_entry_rows ctx p)"
    by (auto simp: stock_entry_rows_def list_all_iff)
  ultimately show ?thesis by (simp add: derive_stock_rows_def Let_def cong: if_cong)
qed

lemma derive_rows_costed:
  "costed_ok s (cx_company ctx) (dr_sles (derive_rows x s ctx p)) (dr_ledgers (derive_rows x s ctx p))"
  by (rule cost_movements_ok(1)) (simp add: derive_rows_sel)

lemma derive_rows_sle_tag:
  "list_all (\<lambda>e. sle_company e = cx_company ctx \<and> sle_voucher_no e = cx_document_id ctx \<and> \<not> sle_is_reversal e) (dr_sles (derive_rows x s ctx p))"
proof -
  let ?Q = "\<lambda>t. fst (snd (snd (snd (snd t)))) = cx_company ctx \<and> fst (snd (snd (snd (snd (snd t))))) = cx_document_id ctx
    \<and> \<not> snd (snd (snd (snd (snd (snd t)))))"
  have "map row_tag (dr_sles (derive_rows x s ctx p)) = map row_tag (kept_rows x s ctx p)"
    by (rule cost_movements_ok(2)) (simp add: derive_rows_sel prod_eq_iff)
  moreover have "list_all ?Q (map row_tag (kept_rows x s ctx p))"
    using stock_rows_tag [of ctx p] by (auto simp: kept_rows_def list_all_iff row_tag_def)
  ultimately have "list_all ?Q (map row_tag (dr_sles (derive_rows x s ctx p)))" by simp
  then show ?thesis by (simp add: list_all_iff row_tag_def)
qed

section \<open>The commit of a cancel\<close>

lemma cancel_commit_sel [simp]:
  fixes ev s c cmd act doc date g ups
  defines "k \<equiv> cancel_commit ev s c cmd act doc date g ups" and "d \<equiv> cc_document_id cmd"
  shows "pc_company k = c" "pc_idempotency_key k = cc_idempotency_key cmd" "pc_document k = doc\<lparr>pd_docstatus := 2\<rparr>"
    "pc_document_is_new k = False" "pc_series_key k = None" "pc_preassigned_number k = None"
    "pc_numbering_floors k = []" "pc_solo_migration k = None"
    "pc_gl_entries k = reversed_gl s c d" "pc_stock_ledger_entries k = reversed_sles s c d"
    "pc_settlements k = reversed_settlements s c d" "pc_party_transactions k = reversed_party s c d"
    "pc_tax_transactions k = reversed_tax s c d"
    "pc_bins k = recompute_bins c (reversal_ledgers s c (reversed_sles s c d))"
    "pc_sle_expectations k = expectations (reversal_ledgers s c (reversed_sles s c d))"
    "pc_outstanding_updates k = ups" "pc_lock_check_date k = Some date" "pc_deposit_guard k = g"
    "pb_id (pc_batch k) = reversal_batch d" "pb_kind (pc_batch k) = ''cancel''"
  by (simp_all add: k_def d_def cancel_commit_def Let_def)

lemma build_cancelE:
  assumes "build_cancel x ev s c cmd act = Inr k"
  obtains document date guard ups where
    "cancel_checks x ev s c cmd = Inr (document, date, guard)"
    "check_negative_stock (company_settings_of s c) (reversal_ledgers s c (reversed_sles s c (cc_document_id cmd))) = Inr ()"
    "if cc_doctype cmd = ''Payment Entry''
     then payment_outstanding_updates s c (reversed_settlements s c (cc_document_id cmd)) False = Inr ups else ups = []"
    "k = cancel_commit ev s c cmd act document date guard ups"
proof -
  from assms obtain document date guard ups where
    "cancel_checks x ev s c cmd = Inr (document, date, guard)"
    "check_negative_stock (company_settings_of s c) (reversal_ledgers s c (reversed_sles s c (cc_document_id cmd))) = Inr ()"
    "(if cc_doctype cmd = ''Payment Entry'' then payment_outstanding_updates s c (reversed_settlements s c (cc_document_id cmd)) False
      else Inr []) = Inr ups"
    "k = cancel_commit ev s c cmd act document date guard ups"
    unfolding build_cancel_def Let_def by (auto simp: result_simps)
  then show ?thesis by (intro that) (auto split: if_splits)
qed

lemma cancel_checksD:
  assumes "cancel_checks x ev s c cmd = Inr (document, date, guard)"
  shows "posted_document_of s c (cc_doctype cmd) (cc_document_id cmd) = Some document" and "pd_docstatus document = 1"
    and "settled_check s c cmd = Inr ()" and "check_period_lock (company_settings_of s c) date = Inr ()"
    and "release_guard s c cmd document = Inr guard"
  using assms by (auto simp: cancel_checks_def result_simps)

section \<open>The retry loop\<close>

lemma bound_replay_same: "bound_replay out dt d = Inr out' \<Longrightarrow> out' = out"
  by (simp add: bound_replay_def Let_def split: if_splits)

text \<open>A loop that answers with an outcome got it from one commit, built in some state of the run.\<close>

lemma commit_loop_outcome:
  assumes "commit_loop n build interfere x now dt d s = (Inr out, t)"
    and "\<And>i s. store_run x s (interfere i s)"
  shows "\<exists>s1 s2 k. store_run x s s1 \<and> build s1 = Inr k \<and> store_run x s1 s2 \<and> posting_commit x now k s2 = (Inr out, t)"
  using assms(1)
proof (induction n arbitrary: s)
  case (Suc n)
  obtain k where k: "build s = Inr k" using Suc.prems by (cases "build s") auto
  obtain res u where pc: "posting_commit x now k (interfere n s) = (res, u)" by fastforce
  show ?case
  proof (cases res)
    case (Inr out')
    then have "out' = out" "u = t" using Suc.prems k pc by (auto split: if_splits dest: bound_replay_same)
    then show ?thesis using k pc Inr assms(2) by (metis store_run_refl)
  next
    case (Inl e)
    then obtain r where "e = Stale r" using Suc.prems k pc by (cases e) auto
    then have "commit_loop n build interfere x now dt d u = (Inr out, t)" using Suc.prems k pc Inl by simp
    moreover have "store_run x s u" using assms(2) commit_run [OF pc] store_run_trans by blast
    ultimately show ?thesis using Suc.IH store_run_trans by blast
  qed
qed simp

text \<open>
  The attempt of the loop that decides: the state in which its commit was built, and the state the commit
  met, after what others did in between.
\<close>

fun deciding_attempt ::
  "nat \<Rightarrow> (inner \<Rightarrow> posting_error + posting_commit_rec) \<Rightarrow> (nat \<Rightarrow> inner \<Rightarrow> inner) \<Rightarrow> ext \<Rightarrow> int \<Rightarrow> inner \<Rightarrow> inner \<times> inner" where
  "deciding_attempt 0 build interfere x now s = (s, s)"
| "deciding_attempt (Suc n) build interfere x now s =
     (case build s of
        Inl _ \<Rightarrow> (s, s)
      | Inr k \<Rightarrow>
          (case posting_commit x now k (interfere n s) of
             (Inl (Stale _), t) \<Rightarrow> deciding_attempt n build interfere x now t
           | _ \<Rightarrow> (s, interfere n s)))"

lemma commit_loop_decided:
  assumes "commit_loop n build interfere x now dt d s = (Inr out, t)" "deciding_attempt n build interfere x now s = (s1, s2)"
  shows "\<exists>k. build s1 = Inr k \<and> posting_commit x now k s2 = (Inr out, t)"
  using assms
proof (induction n arbitrary: s)
  case (Suc n)
  obtain k where k: "build s = Inr k" using Suc.prems by (cases "build s") auto
  obtain res u where pc: "posting_commit x now k (interfere n s) = (res, u)" by fastforce
  show ?case
  proof (cases res)
    case (Inr out')
    then have "out' = out" "u = t" using Suc.prems(1) k pc by (auto split: if_splits dest: bound_replay_same)
    then show ?thesis using Suc.prems(2) k pc Inr by auto
  next
    case (Inl e)
    then obtain r where "e = Stale r" using Suc.prems(1) k pc by (cases e) auto
    then show ?thesis using Suc.IH [of u] Suc.prems k pc Inl by simp
  qed
qed simp

text \<open>A property of the store that the environment and the commits of the loop keep; so for a command.\<close>

lemma commit_loop_keeps:
  assumes "\<And>i t. P t \<Longrightarrow> P (interfere i t)" "\<And>t k. P t \<Longrightarrow> build t = Inr k \<Longrightarrow> Q k"
    and "\<And>t k. P t \<Longrightarrow> Q k \<Longrightarrow> P (snd (posting_commit x now k t))" "P s"
  shows "P (snd (commit_loop n build interfere x now dt d s))"
  using assms(4)
proof (induction n arbitrary: s)
  case (Suc n)
  show ?case
  proof (cases "build s")
    case (Inr k)
    obtain r t where p: "posting_commit x now k (interfere n s) = (r, t)" by fastforce
    have "P t" using assms(3) [OF assms(1) [OF Suc.prems] assms(2) [OF Suc.prems Inr], of n] p by simp
    then show ?thesis using Inr p Suc.IH [of t] by (auto split: sum.split store_error.split)
  qed (use Suc.prems in simp)
qed simp

text \<open>A loop that ends in an error left behind only what the environment did.\<close>

lemma commit_loop_error:
  assumes "commit_loop n build (\<lambda>_ s. s) x now dt d s = (Inl e, t)"
  shows "t = s"
  using assms
proof (induction n arbitrary: s)
  case (Suc n)
  show ?case
  proof (cases "build s")
    case (Inr k)
    show ?thesis
    proof (cases rule: posting_commit_cases [of s k x now])
      case (refuse e')
      then show ?thesis using Suc Inr by (cases e') auto
    qed (use Suc.prems Inr in \<open>auto split: if_splits\<close>)
  qed (use Suc.prems in auto)
qed simp

text \<open>With nothing in between, the outcome comes from one build and commit in the state of the call.\<close>

lemma commit_loop_quiet:
  assumes "commit_loop n build (\<lambda>_ s. s) x now dt d s = (Inr out, t)"
  shows "\<exists>k. build s = Inr k \<and> posting_commit x now k s = (Inr out, t)"
  using assms
proof (induction n)
  case (Suc n)
  obtain k where k: "build s = Inr k" using Suc.prems by (cases "build s") auto
  show ?case
  proof (cases rule: posting_commit_cases [of s k x now])
    case (refuse e)
    then show ?thesis using Suc k by (cases e) auto
  qed (use Suc.prems k in \<open>auto split: if_splits dest: bound_replay_same\<close>)
qed simp

lemma commit_loop_first:
  assumes "build s = Inr k" "posting_commit x now k (interfere 15 s) = (Inr out, t)" "\<not> oc_replayed out"
  shows "commit_loop MAX_RETRIES build interfere x now dt d s = (Inr out, t)"
proof -
  have m: "MAX_RETRIES = Suc 15" by (simp add: MAX_RETRIES_def)
  show ?thesis unfolding m commit_loop.simps(2) using assms by simp
qed

lemma deciding_first:
  assumes "build s = Inr k" "posting_commit x now k (interfere 15 s) = (Inr out, t)"
  shows "deciding_attempt MAX_RETRIES build interfere x now s = (s, interfere 15 s)"
proof -
  have m: "MAX_RETRIES = Suc 15" by (simp add: MAX_RETRIES_def)
  show ?thesis unfolding m deciding_attempt.simps(2) using assms by simp
qed

end
