(* ===== verification/Solo_Migration.thy ===== *)
theory Solo_Migration
  imports Engine_Command "HOL-Library.Product_Lexorder"
begin

text \<open>
  \<^verbatim>\<open>src/src/posting/solo_migration.rs\<close>: the one-time take-on of a Solo book. A package states the
  opening trial balance, stock and numbering; the server checks it against the published master
  data and against itself and posts it as one commit. The checks are grouped as the code groups
  them: lines, master data, stock, reconciliation, numbering.

  The package digest is taken over the JSON text of the package with its members in the order of
  the structs, so the objects it is taken over are association lists in that order.
\<close>

definition OPENING_DOCTYPE :: string where
  "OPENING_DOCTYPE = ''Journal Entry''"

definition OPENING_ID_PREFIX :: string where
  "OPENING_ID_PREFIX = ''SOLO-OPENING-''"

definition CENT :: f64 where
  "CENT = lit (5 / 1000)"

definition MAX_LINES :: nat where
  "MAX_LINES = 20000"

record opening_line =
  ol_account :: string
  ol_debit :: f64
  ol_credit :: f64
  ol_party_type :: "string option"
  ol_party :: "string option"

record opening_stock =
  os_item :: string
  os_warehouse :: string
  os_qty :: f64
  os_stock_value :: f64
  os_account :: string

record numbering_continuation =
  nc_doctype :: string
  nc_last_issued :: string
  nc_last_value :: int

record expected_totals =
  et_trial_balance :: "(string \<times> f64) list"
  et_receivables :: f64
  et_payables :: f64
  et_stock_value :: f64

record solo_opening_command =
  so_migration_id :: string
  so_posting_date :: string
  so_source :: json
  so_lines :: "opening_line list"
  so_stock :: "opening_stock list"
  so_numbering :: "numbering_continuation list"
  so_expected :: expected_totals

section \<open>The package as JSON\<close>

definition line_to_json :: "opening_line \<Rightarrow> json" where
  "line_to_json l = JObj
     ([(''account'', JStr (ol_account l)), (''debit'', json_f64 (ol_debit l)), (''credit'', json_f64 (ol_credit l))]
      @ (case ol_party_type l of Some k \<Rightarrow> [(''party_type'', JStr k)] | None \<Rightarrow> [])
      @ (case ol_party l of Some p \<Rightarrow> [(''party'', JStr p)] | None \<Rightarrow> []))"

definition stock_to_json :: "opening_stock \<Rightarrow> json" where
  "stock_to_json st = JObj
     [(''item'', JStr (os_item st)), (''warehouse'', JStr (os_warehouse st)), (''qty'', json_f64 (os_qty st)),
      (''stock_value'', json_f64 (os_stock_value st)), (''account'', JStr (os_account st))]"

definition numbering_to_json :: "numbering_continuation \<Rightarrow> json" where
  "numbering_to_json n = JObj
     [(''doctype'', JStr (nc_doctype n)), (''last_issued'', JStr (nc_last_issued n)), (''last_value'', json_int (nc_last_value n))]"

definition expected_to_json :: "expected_totals \<Rightarrow> json" where
  "expected_to_json e = JObj
     [(''trial_balance'', JObj (map (\<lambda>(a, v). (a, json_f64 v)) (et_trial_balance e))),
      (''receivables'', json_f64 (et_receivables e)), (''payables'', json_f64 (et_payables e)),
      (''stock_value'', json_f64 (et_stock_value e))]"

definition package_to_json :: "solo_opening_command \<Rightarrow> json" where
  "package_to_json cmd = JObj
     [(''migration_id'', JStr (so_migration_id cmd)), (''posting_date'', JStr (so_posting_date cmd)),
      (''source'', so_source cmd), (''lines'', JArr (map line_to_json (so_lines cmd))),
      (''stock'', JArr (map stock_to_json (so_stock cmd))),
      (''numbering'', JArr (map numbering_to_json (so_numbering cmd))),
      (''expected'', expected_to_json (so_expected cmd))]"

definition solo_document_id :: "solo_opening_command \<Rightarrow> string" where
  "solo_document_id cmd = OPENING_ID_PREFIX @ so_migration_id cmd"

definition package_sha256 :: "ext \<Rightarrow> solo_opening_command \<Rightarrow> string" where
  "package_sha256 x cmd = ext_hex x (ext_sha256 x (ext_to_string x (package_to_json cmd)))"

definition solo_idempotency_key :: "solo_opening_command \<Rightarrow> string" where
  "solo_idempotency_key cmd = ''solo-migration:'' @ so_migration_id cmd"

definition solo_invalid :: "solo_reason \<Rightarrow> posting_error" where
  "solo_invalid r = Validation (Solo r)"

definition finite_non_negative :: "f64 \<Rightarrow> solo_reason \<Rightarrow> posting_error + unit" where
  "finite_non_negative v r = ensure (is_finite v \<and> \<not> v < 0) (solo_invalid r)"

definition id_char :: "char \<Rightarrow> bool" where
  "id_char ch \<longleftrightarrow> (let n = (of_char ch :: nat) in
     48 \<le> n \<and> n \<le> 57 \<or> 65 \<le> n \<and> n \<le> 90 \<or> 97 \<le> n \<and> n \<le> 122 \<or> ch = CHR ''-'' \<or> ch = CHR ''_'')"

definition safe_id :: "string \<Rightarrow> bool" where
  "safe_id raw \<longleftrightarrow> 8 \<le> length raw \<and> length raw \<le> 64 \<and> list_all id_char raw"

definition same_package :: "json \<Rightarrow> string \<Rightarrow> posting_error + commit_outcome" where
  "same_package response sha =
     (if Option.bind (jget response ''package_sha256'') as_str = Some sha
      then Inr \<lparr>oc_response = response, oc_replayed = True\<rparr>
      else Inl (PConflict (Command PackageChanged)))"

section \<open>Lines and master data\<close>

text \<open>One line: the accounts and the parties it names, added to the sets.\<close>

definition check_line ::
  "string list \<times> (string \<times> string) list \<Rightarrow> nat \<times> opening_line \<Rightarrow> posting_error + (string list \<times> (string \<times> string) list)" where
  "check_line acc il = (case (acc, il) of ((accounts, parties), (i, l)) \<Rightarrow>
     let account = trim (ol_account l) in
     and_then (ensure (account \<noteq> []) (solo_invalid (SoloLineNoAccount (i + 1)))) (\<lambda>_.
     and_then (finite_non_negative (ol_debit l) (SoloDebitInvalid (i + 1))) (\<lambda>_.
     and_then (finite_non_negative (ol_credit l) (SoloCreditInvalid (i + 1))) (\<lambda>_.
     and_then (ensure (\<not> (0 < ol_debit l \<and> 0 < ol_credit l)) (solo_invalid (SoloBothSides (i + 1) account))) (\<lambda>_.
     case (ol_party_type l, ol_party l) of
       (None, None) \<Rightarrow> Inr (accounts @ [account], parties)
     | (Some kind, Some party) \<Rightarrow>
         if trim party \<noteq> [] then
           and_then (ok_or (party_kind_parse kind) (solo_invalid (SoloPartyType (i + 1)))) (\<lambda>k.
           Inr (accounts @ [account], parties @ [(party_kind_as_str k, trim party)]))
         else Inl (solo_invalid (SoloPartyHalf (i + 1)))
     | _ \<Rightarrow> Inl (solo_invalid (SoloPartyHalf (i + 1))))))))"

definition check_account :: "inner \<Rightarrow> uuid \<Rightarrow> unit \<Rightarrow> string \<Rightarrow> posting_error + unit" where
  "check_account s c u account =
     ensure (company_document_of s c ''Account'' account \<noteq> None) (solo_invalid (AccountUnpublished account))"

definition check_party :: "inner \<Rightarrow> uuid \<Rightarrow> unit \<Rightarrow> string \<times> string \<Rightarrow> posting_error + unit" where
  "check_party s c u kp =
     ensure (company_document_of s c (fst kp) (snd kp) \<noteq> None) (solo_invalid (PartyUnpublished (fst kp) (snd kp)))"

definition check_masters :: "inner \<Rightarrow> uuid \<Rightarrow> solo_opening_command \<Rightarrow> posting_error + unit" where
  "check_masters s c cmd =
     and_then (fold_result check_line ([], []) (enumerate 0 (so_lines cmd))) (\<lambda>(accounts, parties).
     and_then (fold_result (check_account s c) ()
       (sort_dedup (accounts @ map (\<lambda>st. trim (os_account st)) (so_stock cmd)))) (\<lambda>_.
     fold_result (check_party s c) () (sort_dedup parties)))"

section \<open>The rows\<close>

definition opening_gl :: "uuid \<Rightarrow> string \<Rightarrow> string \<Rightarrow> nat \<times> opening_line \<Rightarrow> gl_entry" where
  "opening_gl c d date il = (case il of (i, l) \<Rightarrow> \<lparr>
     gl_id = ''GL-'' @ d @ ''-'' @ show_nat i, gl_company = c, gl_account = trim (ol_account l),
     gl_debit = ol_debit l, gl_credit = ol_credit l, gl_party_type = ol_party_type l,
     gl_party = map_option trim (ol_party l), gl_cost_center = None, gl_voucher_type = OPENING_DOCTYPE,
     gl_voucher_no = d, gl_posting_date = date, gl_currency = None, gl_conversion_rate = None,
     gl_base_debit = None, gl_base_credit = None, gl_is_reversal = False, gl_batch_id = ''PB-'' @ d\<rparr>)"

definition opening_party_row :: "uuid \<Rightarrow> string \<Rightarrow> string \<Rightarrow> nat \<times> opening_line \<Rightarrow> party_transaction option" where
  "opening_party_row c d date il = (case il of (i, l) \<Rightarrow>
     (case (Option.bind (ol_party_type l) party_kind_parse, map_option trim (ol_party l)) of
        (Some kind, Some party) \<Rightarrow>
          let net = ol_debit l - ol_credit l;
              amount = (case kind of Customer \<Rightarrow> net | Supplier \<Rightarrow> - net) in
          Some \<lparr>pt_id = (case kind of Customer \<Rightarrow> ''CT'' | Supplier \<Rightarrow> ''VT'') @ ''-'' @ d @ ''-'' @ show_nat i,
            pt_company = c, pt_kind = kind, pt_trans_type = ''Adjustment'', pt_party = party, pt_posting_date = date,
            pt_due_date = None, pt_amount = amount, pt_currency = None, pt_conversion_rate = 1, pt_base_amount = amount,
            pt_voucher_type = OPENING_DOCTYPE, pt_voucher_no = d, pt_is_reversal = False, pt_batch_id = ''PB-'' @ d\<rparr>
      | _ \<Rightarrow> None))"

text \<open>The loop over the stock lines: rows, bins, the pairs seen and the value per account.\<close>

record stock_acc =
  sa_sles :: "stock_ledger_entry list"
  sa_bins :: "bin list"
  sa_pairs :: "(string \<times> string) list"
  sa_by_account :: "(string \<times> f64) list"

definition bt_add :: "string \<Rightarrow> f64 \<Rightarrow> (string \<times> f64) list \<Rightarrow> (string \<times> f64) list" where
  "bt_add k v m = bt_insert k ((case map_of m k of Some w \<Rightarrow> w | None \<Rightarrow> 0) + v) m"

definition check_stock_line :: "uuid \<Rightarrow> string \<Rightarrow> string \<Rightarrow> stock_acc \<Rightarrow> nat \<times> opening_stock \<Rightarrow> posting_error + stock_acc" where
  "check_stock_line c d date acc ist = (case ist of (i, st) \<Rightarrow>
     let item = trim (os_item st); warehouse = trim (os_warehouse st) in
     and_then (ensure (item \<noteq> [] \<and> warehouse \<noteq> []) (solo_invalid (StockIncomplete (i + 1)))) (\<lambda>_.
     and_then (ensure (is_finite (os_qty st) \<and> \<not> os_qty st \<le> 0) (solo_invalid (StockQuantity (i + 1) item warehouse))) (\<lambda>_.
     and_then (finite_non_negative (os_stock_value st) (StockValueInvalid (i + 1))) (\<lambda>_.
     and_then (ensure ((item, warehouse) \<notin> set (sa_pairs acc)) (solo_invalid (StockTwice item warehouse))) (\<lambda>_.
     let rate = os_stock_value st / os_qty st in
     Inr \<lparr>
       sa_sles = sa_sles acc @ [\<lparr>
         sle_id = ''SLE-'' @ d @ ''-'' @ show_nat i, sle_company = c, sle_trans_type = ''Receipt'', sle_item = item,
         sle_warehouse = warehouse, sle_qty_change = os_qty st, sle_valuation_rate = rate,
         sle_voucher_type = OPENING_DOCTYPE, sle_voucher_no = d, sle_posting_date = date, sle_uom = None,
         sle_is_reversal = False, sle_batch_id = ''PB-'' @ d, sle_seq = 0\<rparr>],
       sa_bins = sa_bins acc @ [\<lparr>bin_company = c, bin_item = item, bin_warehouse = warehouse,
         bin_actual_qty = os_qty st, bin_valuation_rate = rate, bin_stock_value = os_stock_value st\<rparr>],
       sa_pairs = sa_pairs acc @ [(item, warehouse)],
       sa_by_account = bt_add (trim (os_account st)) (os_stock_value st) (sa_by_account acc)\<rparr>)))))"

definition opening_stock_rows :: "uuid \<Rightarrow> string \<Rightarrow> string \<Rightarrow> opening_stock list \<Rightarrow> posting_error + stock_acc" where
  "opening_stock_rows c d date sts =
     fold_result (check_stock_line c d date) \<lparr>sa_sles = [], sa_bins = [], sa_pairs = [], sa_by_account = []\<rparr> (enumerate 0 sts)"

definition check_stock_item :: "(string \<rightharpoonup> item) \<Rightarrow> unit \<Rightarrow> stock_ledger_entry \<Rightarrow> posting_error + unit" where
  "check_stock_item known u e = (case known (sle_item e) of
       None \<Rightarrow> Inl (solo_invalid (ItemUnpublished (sle_item e)))
     | Some it \<Rightarrow> ensure (is_stock_item_type (Some (it_item_type it))) (solo_invalid (ItemIsService (sle_item e))))"

section \<open>Reconciliation and numbering\<close>

definition over_cent :: "f64 \<Rightarrow> bool" where
  "over_cent v \<longleftrightarrow> CENT < \<bar>v\<bar>"

definition trial_balance :: "gl_entry list \<Rightarrow> (string \<times> f64) list" where
  "trial_balance gl =
     filter (\<lambda>(_, net). over_cent net) (foldl (\<lambda>m e. bt_add (gl_account e) (gl_debit e - gl_credit e) m) [] gl)"

definition get_or_0 :: "(string \<times> f64) list \<Rightarrow> string \<Rightarrow> f64" where
  "get_or_0 m k = (case map_of m k of Some v \<Rightarrow> v | None \<Rightarrow> 0)"

definition check_tb_account ::
  "(string \<times> f64) list \<Rightarrow> (string \<times> f64) list \<Rightarrow> unit \<Rightarrow> string \<Rightarrow> posting_error + unit" where
  "check_tb_account tb stated u account =
     (let ours = get_or_0 tb account; theirs = get_or_0 stated account in
      ensure (\<not> over_cent (ours - theirs)) (solo_invalid (TrialBalanceMismatch account ours theirs)))"

definition check_stock_account :: "(string \<times> f64) list \<Rightarrow> unit \<Rightarrow> string \<times> f64 \<Rightarrow> posting_error + unit" where
  "check_stock_account tb u av = (case av of (account, v) \<Rightarrow>
     let ledger = get_or_0 tb account in
     ensure (\<not> over_cent (ledger - v)) (solo_invalid (StockMismatch account v ledger)))"

definition party_total :: "party_kind \<Rightarrow> party_transaction list \<Rightarrow> f64" where
  "party_total kind ts = fsum (map pt_amount (filter (\<lambda>t. pt_kind t = kind) ts))"

definition reconcile ::
  "expected_totals \<Rightarrow> gl_entry list \<Rightarrow> party_transaction list \<Rightarrow> (string \<times> f64) list \<Rightarrow> posting_error + unit" where
  "reconcile e gl pts by_account =
     (let tb = trial_balance gl;
          stated = filter (\<lambda>(_, net). over_cent net) (et_trial_balance e);
          total_stock = fsum (map snd by_account);
          receivables = party_total Customer pts;
          payables = party_total Supplier pts in
      and_then (fold_result (check_tb_account tb stated) () (sort_dedup (map fst tb @ map fst stated))) (\<lambda>_.
      and_then (fold_result (check_stock_account tb) () by_account) (\<lambda>_.
      and_then (ensure (\<not> over_cent (total_stock - et_stock_value e)) (solo_invalid (StockTotalMismatch total_stock (et_stock_value e)))) (\<lambda>_.
      and_then (ensure (\<not> over_cent (receivables - et_receivables e)) (solo_invalid (ReceivablesMismatch receivables (et_receivables e)))) (\<lambda>_.
      ensure (\<not> over_cent (payables - et_payables e)) (solo_invalid (PayablesMismatch payables (et_payables e))))))))"

type_synonym numbering_acc = "(string \<times> int) list \<times> json list"

definition check_numbering :: "numbering_acc \<Rightarrow> numbering_continuation \<Rightarrow> posting_error + numbering_acc" where
  "check_numbering acc n = (case acc of (floors, continuation) \<Rightarrow>
     and_then (ok_or (series_key (nc_doctype n)) (solo_invalid (NoTeamSeries (nc_doctype n)))) (\<lambda>key.
     and_then (ensure (key \<notin> set (map fst floors)) (solo_invalid (NumberingTwice (nc_doctype n)))) (\<lambda>_.
     and_then (ensure (0 \<le> nc_last_value n \<and> nc_last_value n \<le> 999999999)
       (solo_invalid (NumberOutOfRange (nc_doctype n) (nc_last_value n)))) (\<lambda>_.
     Inr (floors @ [(key, nc_last_value n)],
          continuation @ [JObj (obj_of
            [(''doctype'', JStr (nc_doctype n)), (''solo_last_issued'', JStr (nc_last_issued n)),
             (''team_next_number'', JStr (format_number key (nc_last_value n + 1)))])])))))"

section \<open>The commit\<close>

definition opening_reconciliation ::
  "gl_entry list \<Rightarrow> stock_acc \<Rightarrow> party_transaction list \<Rightarrow> json" where
  "opening_reconciliation gl sa pts = JObj (obj_of
     [(''trial_balance'', JObj (map (\<lambda>(a, v). (a, json_f64 (round2 v))) (trial_balance gl))),
      (''receivables'', json_f64 (round2 (party_total Customer pts))),
      (''payables'', json_f64 (round2 (party_total Supplier pts))),
      (''stock_value'', json_f64 (round2 (fsum (map snd (sa_by_account sa))))),
      (''gl_entries'', json_int (int (length gl))), (''stock_lines'', json_int (int (length (sa_sles sa)))),
      (''party_lines'', json_int (int (length pts)))])"

definition opening_payload :: "solo_opening_command \<Rightarrow> string \<Rightarrow> string \<Rightarrow> gl_entry list \<Rightarrow> json list \<Rightarrow> jmap" where
  "opening_payload cmd sha date gl continuation =
     (let total = round2 (fsum (map gl_debit gl)) in
      obj_of
        [(''posting_date'', JStr date), (''voucher_type'', JStr ''Opening Entry''), (''is_opening'', json_int 1),
         (''title'', JStr ''Opening balances moved from Atlas Solo''),
         (''user_remark'', JStr (''Atlas Solo take-on '' @ so_migration_id cmd @ '' (package '' @ take 12 sha @
            ''). The Solo documents up to this date stay in the Solo archive and safety backup.'')),
         (''solo_migration'', JObj (obj_of
            [(''migration_id'', JStr (so_migration_id cmd)), (''package_sha256'', JStr sha),
             (''source'', so_source cmd), (''numbering'', JArr continuation)])),
         (''accounts'', JArr (map (\<lambda>l. case line_to_json l of JObj m \<Rightarrow> JObj (obj_of m) | v \<Rightarrow> v) (so_lines cmd))),
         (''total_debit'', json_f64 total), (''total_credit'', json_f64 total)])"

definition opening_response :: "solo_opening_command \<Rightarrow> string \<Rightarrow> string \<Rightarrow> json \<Rightarrow> json list \<Rightarrow> json" where
  "opening_response cmd sha date rec continuation = JObj (obj_of
     [(''doctype'', JStr OPENING_DOCTYPE), (''document_id'', JStr (solo_document_id cmd)), (''number'', JNull),
      (''docstatus'', json_int 1), (''migration_id'', JStr (so_migration_id cmd)), (''package_sha256'', JStr sha),
      (''posting_date'', JStr date), (''reconciliation'', rec), (''numbering'', JArr continuation)])"

definition opening_audit_detail :: "solo_opening_command \<Rightarrow> string \<Rightarrow> json \<Rightarrow> json list \<Rightarrow> json" where
  "opening_audit_detail cmd sha rec continuation = JObj (obj_of
     [(''documentId'', JStr (solo_document_id cmd)), (''migrationId'', JStr (so_migration_id cmd)),
      (''packageSha256'', JStr sha), (''source'', so_source cmd), (''reconciliation'', rec),
      (''numbering'', JArr continuation)])"

definition opening_commit ::
  "env \<Rightarrow> uuid \<Rightarrow> solo_opening_command \<Rightarrow> string \<Rightarrow> string \<Rightarrow> actor \<Rightarrow> string \<Rightarrow> gl_entry list
     \<Rightarrow> party_transaction list \<Rightarrow> stock_acc \<Rightarrow> numbering_acc \<Rightarrow> posting_commit_rec" where
  "opening_commit ev c cmd sha key act date gl pts sa numbering =
     (let d = solo_document_id cmd; rec = opening_reconciliation gl sa pts in \<lparr>
       pc_company = c,
       pc_idempotency_key = Some key,
       pc_batch = \<lparr>pb_id = ''PB-'' @ d, pb_company = c, pb_document_id = d, pb_doctype = OPENING_DOCTYPE,
         pb_kind = ''submit'', pb_reversal_of = None, pb_created_at = ev_now ev\<rparr>,
       pc_document = \<lparr>pd_id = d, pd_company = c, pd_doctype = OPENING_DOCTYPE,
         pd_payload = JObj (opening_payload cmd sha date gl (snd numbering)), pd_docstatus = 1,
         pd_official_number = None, pd_created_at = ev_now ev\<rparr>,
       pc_document_is_new = True,
       pc_series_key = None,
       pc_preassigned_number = None,
       pc_till_binding = None,
       pc_gl_entries = gl,
       pc_stock_ledger_entries = sa_sles sa,
       pc_party_transactions = pts,
       pc_tax_transactions = [],
       pc_settlements = [],
       pc_bins = sa_bins sa,
       pc_outstanding_updates = [],
       pc_sle_expectations = map (\<lambda>(item, wh). (item, wh, 0)) (sort_dedup (sa_pairs sa)),
       pc_replication_device_id = ac_replication_device_id act,
       pc_audit = audit_row ev c act ''command.import-solo-opening'' (opening_audit_detail cmd sha rec (snd numbering)),
       pc_response = opening_response cmd sha date rec (snd numbering),
       pc_numbering_floors = fst numbering,
       pc_solo_migration = Some \<lparr>sm_migration_id = so_migration_id cmd, sm_package_sha256 = sha\<rparr>,
       pc_lock_check_date = Some date,
       pc_deposit_guard = None\<rparr>)"

definition build_opening ::
  "ext \<Rightarrow> env \<Rightarrow> inner \<Rightarrow> uuid \<Rightarrow> solo_opening_command \<Rightarrow> string \<Rightarrow> string \<Rightarrow> actor \<Rightarrow> posting_error + posting_commit_rec" where
  "build_opening x ev s c cmd sha key act =
     (let d = solo_document_id cmd; lines = enumerate 0 (so_lines cmd) in
     and_then (validated_posting_date x (ev_today ev) (obj_of [(''posting_date'', JStr (so_posting_date cmd))])) (\<lambda>date.
     and_then (check_period_lock (company_settings_of s c) date) (\<lambda>_.
     and_then (ensure (so_lines cmd \<noteq> []) (solo_invalid NoLines)) (\<lambda>_.
     and_then (ensure (length (so_lines cmd) \<le> MAX_LINES \<and> length (so_stock cmd) \<le> MAX_LINES) (solo_invalid TooManyLines)) (\<lambda>_.
     and_then (check_masters s c cmd) (\<lambda>_.
     let gl = map (opening_gl c d date) lines;
         pts = List.map_filter (opening_party_row c d date) lines in
     and_then (check_balanced gl) (\<lambda>_.
     and_then (opening_stock_rows c d date (so_stock cmd)) (\<lambda>sa.
     and_then (fold_result (check_stock_item (load_items x s c (sa_sles sa) [])) () (sa_sles sa)) (\<lambda>_.
     and_then (reconcile (so_expected cmd) gl pts (sa_by_account sa)) (\<lambda>_.
     and_then (fold_result check_numbering ([], []) (so_numbering cmd)) (\<lambda>numbering.
     Inr (opening_commit ev c cmd sha key act date gl pts sa numbering))))))))))))"

text \<open>The command; \<open>interfere\<close> is what other clients do between the reads and the commit.\<close>

definition import_solo_opening ::
  "ext \<Rightarrow> env \<Rightarrow> (inner \<Rightarrow> inner) \<Rightarrow> uuid \<Rightarrow> solo_opening_command \<Rightarrow> actor \<Rightarrow> inner
     \<Rightarrow> (posting_error + commit_outcome) \<times> inner" where
  "import_solo_opening x ev interfere c cmd act s =
     (let sha = package_sha256 x cmd; key = solo_idempotency_key cmd in
      if \<not> safe_id (so_migration_id cmd) then (Inl (solo_invalid BadMigrationId), s)
      else (case idempotent_response s c key of
        Some response \<Rightarrow> (same_package response sha, s)
      | None \<Rightarrow>
          (case build_opening x ev s c cmd sha key act of
             Inl e \<Rightarrow> (Inl e, s)
           | Inr k \<Rightarrow>
               (case posting_commit x (ev_now ev) k (interfere s) of
                  (Inr outcome, t) \<Rightarrow>
                    (if oc_replayed outcome then same_package (oc_response outcome) sha else Inr outcome, t)
                | (Inl (Conflict r), t) \<Rightarrow> (Inl (PConflict r), t)
                | (Inl e, t) \<Rightarrow> (Inl (PStore e), t)))))"

end
