(* ===== verification/Posting_System.thy ===== *)
theory Posting_System
  imports Engine_Facts Solo_Migration
begin

text \<open>
  Concurrent commands: a submit, a cancel or a take-on reads the store, builds its commit, and commits later; between the
  two, any other operation may run. A state is the store with the set of built, not yet committed
  commits; \<open>sys_step\<close> is one build, one commit or one other store operation. The invariants of
  every reachable state: official numbers are unique and within their series, the bins are the
  balances of the stock ledger in companies without a take-on, and the log and its read model agree.
\<close>

type_synonym sys = "inner \<times> posting_commit_rec set"

text \<open>The 64-bit counters have room for the commit: series, log and row sequence.\<close>

definition commit_fits :: "ext \<Rightarrow> int \<Rightarrow> posting_commit_rec \<Rightarrow> inner \<Rightarrow> bool" where
  "commit_fits x now k s \<longleftrightarrow> (\<forall>p. series s p < i64_max)
     \<and> length (log_records s (pc_company k)) + length (commit_records x now s k) \<le> max_log"

inductive sys_step :: "ext \<Rightarrow> sys \<Rightarrow> sys \<Rightarrow> bool" for x where
  prepare_submit: "sc_doctype cmd \<in> set POSTED_DOCTYPES \<Longrightarrow>
     (sc_offline_fiscal cmd \<longrightarrow> validate_offline_fiscal cmd act = Inr ()) \<Longrightarrow>
     build_submit x ev s c cmd d act = Inr k \<Longrightarrow> sys_step x (s, P) (s, insert k P)"
| prepare_cancel: "build_cancel x ev s c cmd act = Inr k \<Longrightarrow> sys_step x (s, P) (s, insert k P)"
| prepare_opening: "build_opening x ev s c ocmd sha key act = Inr k \<Longrightarrow> sys_step x (s, P) (s, insert k P)"
| commit: "k \<in> P \<Longrightarrow> commit_fits x now k s \<Longrightarrow> sys_step x (s, P) (snd (posting_commit x now k s), P - {k})"
| push: "length (log_records s c) + length ms \<le> max_log \<Longrightarrow> sys_step x (s, P) (snd (push_mutations x now c ms s), P)"
| ack: "sys_step x (s, P) (snd (ack_mutations c ids s), P)"
| lost: "sys_step x (s, P) (snd (record_lost_history c report entry s), P)"
| settings: "sys_step x (s, P) (put_company_settings c v s, P)"
| lock: "sys_step x (s, P) (snd (set_books_lock c change s), P)"
| item: "sys_step x (s, P) (upsert_item c it s, P)"

definition reachable :: "ext \<Rightarrow> sys \<Rightarrow> bool" where
  "reachable x = (sys_step x)\<^sup>*\<^sup>* (empty_store, {})"

lemma reachable_induct [consumes 1, case_names start step]:
  assumes "reachable x t" "Q (empty_store, {})" "\<And>t u. reachable x t \<Longrightarrow> Q t \<Longrightarrow> sys_step x t u \<Longrightarrow> Q u"
  shows "Q t"
  using assms(1) unfolding reachable_def
proof (induction rule: rtranclp_induct)
  case base
  show ?case by (rule assms(2))
next
  case (step y z)
  then show ?case using assms(3) [of y z] by (simp add: reachable_def)
qed

text \<open>The store part of a step is a run of the store.\<close>

lemma sys_step_run: "sys_step x t u \<Longrightarrow> store_run x (fst t) (fst u)"
  by (induction rule: sys_step.induct) (auto intro: store_run_step store_step.intros)

section \<open>What a built commit guarantees\<close>

text \<open>How a commit numbers its document, seen from the state it will meet.\<close>

definition number_at :: "inner \<Rightarrow> doc_key \<Rightarrow> string option option" where
  "number_at s p = map_option pd_official_number (map_of (documents s) p)"

definition numbering_ok :: "posting_commit_rec \<Rightarrow> inner \<Rightarrow> bool" where
  "numbering_ok k s \<longleftrightarrow>
     pd_company (pc_document k) = pc_company k \<and> (pc_numbering_floors k = [] \<or> pc_series_key k = None) \<and>
     (pc_series_key k = None \<or> pc_series_key k = series_key (pd_doctype (pc_document k))) \<and>
     (if pc_document_is_new k
      then pd_doctype (pc_document k) \<noteq> ''POS Invoice'' \<longrightarrow> pc_preassigned_number k = None \<and>
        (pc_series_key k = None \<longrightarrow> pc_solo_migration k \<noteq> None \<and> pd_official_number (pc_document k) = None)
      else pc_series_key k = None \<and> pc_preassigned_number k = None \<and>
        number_at s (doc_key_of k) = Some (pd_official_number (pc_document k)))"

text \<open>The stock side: the bins and expectations come from a cache over an earlier ledger; those of a take-on are stated by it.\<close>

definition stock_ok :: "posting_commit_rec \<Rightarrow> inner \<Rightarrow> bool" where
  "stock_ok k s \<longleftrightarrow> pc_solo_migration k \<noteq> None \<or> (\<exists>s0 lg. ledgers_grow s0 s \<and> costed_ok s0 (pc_company k) (pc_stock_ledger_entries k) lg
     \<and> pc_bins k = recompute_bins (pc_company k) lg \<and> pc_sle_expectations k = expectations lg)"

definition commit_ok :: "posting_commit_rec \<Rightarrow> inner \<Rightarrow> bool" where
  "commit_ok k s \<longleftrightarrow> numbering_ok k s \<and> stock_ok k s"

lemma ledgers_grow_refl [simp]: "ledgers_grow s s"
  by (simp add: ledgers_grow_same)

lemma build_submit_ok:
  assumes "build_submit x ev s c cmd d act = Inr k" "sc_doctype cmd \<in> set POSTED_DOCTYPES"
    and "sc_offline_fiscal cmd \<longrightarrow> validate_offline_fiscal cmd act = Inr ()"
  shows "commit_ok k s"
proof -
  have off: "sc_offline_fiscal cmd \<Longrightarrow> sc_doctype cmd = ''POS Invoice''"
    using assms(3) by (auto simp: validate_offline_fiscal_def result_simps OFFLINE_FISCAL_DOCTYPE_def)
  have ser: "series_key (sc_doctype cmd) \<noteq> None" using assms(2) posted_has_series by blast
  from assms(1) show ?thesis
  proof (cases rule: build_submitE)
    case (1 date payload guard sh stls ups)
    have "stock_ok k s"
      using derive_rows_costed [of s "submit_ctx c cmd d date" x payload] unfolding stock_ok_def 1(6)
      by (intro disjI2 exI [of _ s] exI conjI) (auto simp: submit_ctx_def)
    moreover have "numbering_ok k s" using off ser unfolding 1(6) numbering_ok_def by auto
    ultimately show ?thesis by (simp add: commit_ok_def)
  qed
qed

text \<open>Every document is stored under its own company, doctype and id.\<close>

definition keys_ok :: "inner \<Rightarrow> bool" where
  "keys_ok s \<longleftrightarrow> (\<forall>p d. map_of (documents s) p = Some d \<longrightarrow> p = (pd_company d, pd_doctype d, pd_id d))"

lemma build_cancel_ok:
  assumes "build_cancel x ev s c cmd act = Inr k" "keys_ok s"
  shows "commit_ok k s"
  using assms(1)
proof (cases rule: build_cancelE)
  case (1 document date guard ups)
  note cd = cancel_checksD [OF 1(1)]
  have key: "(c, cc_doctype cmd, cc_document_id cmd) = (pd_company document, pd_doctype document, pd_id document)"
    using assms(2) cd(1) by (simp add: keys_ok_def posted_document_of_def)
  have "stock_ok k s"
    using reversal_ledgers_ok [of s c "reversed_sles s c (cc_document_id cmd)", THEN cache_costed] unfolding stock_ok_def 1(4)
    by (intro disjI2 exI [of _ s] exI conjI) auto
  moreover have "numbering_ok k s"
    using cd(1) key unfolding 1(4) numbering_ok_def by (simp add: doc_key_of_def posted_document_of_def number_at_def)
  ultimately show ?thesis by (simp add: commit_ok_def)
qed

lemma build_opening_ok: "build_opening x ev s c ocmd sha key act = Inr k \<Longrightarrow> commit_ok k s"
  by (auto simp: build_opening_def opening_commit_def commit_ok_def numbering_ok_def stock_ok_def result_simps Let_def)

section \<open>Numbers\<close>

definition numbers_keep :: "inner \<Rightarrow> inner \<Rightarrow> bool" where
  "numbers_keep s t \<longleftrightarrow> (\<forall>p n. number_at s p = Some n \<longrightarrow> number_at t p = Some n)"

text \<open>Numbers of one series: issued by it, unique, and missing only from the document of a take-on.\<close>

definition num_inv_at :: "inner \<Rightarrow> uuid \<Rightarrow> string \<Rightarrow> string \<Rightarrow> bool" where
  "num_inv_at s c dt key \<longleftrightarrow>
     0 \<le> series s (c, key) \<and>
     (\<forall>d n. number_at s (c, dt, d) = Some (Some n) \<longrightarrow> (\<exists>v. n = format_number key v \<and> 0 < v \<and> v \<le> series s (c, key))) \<and>
     (\<forall>d d' n. number_at s (c, dt, d) = Some (Some n) \<longrightarrow> number_at s (c, dt, d') = Some (Some n) \<longrightarrow> d = d') \<and>
     (\<forall>d. number_at s (c, dt, d) = Some None \<longrightarrow> solo_migrations s c \<noteq> None)"

definition num_inv :: "inner \<Rightarrow> bool" where
  "num_inv s \<longleftrightarrow> (\<forall>c dt key. series_key dt = Some key \<longrightarrow> dt \<noteq> ''POS Invoice'' \<longrightarrow> num_inv_at s c dt key)"

lemma num_inv_at_mono:
  assumes "num_inv_at s c dt key" "\<And>d. number_at t (c, dt, d) = number_at s (c, dt, d)" "series s (c, key) \<le> series t (c, key)"
    and "solo_migrations s c \<noteq> None \<Longrightarrow> solo_migrations t c \<noteq> None"
  shows "num_inv_at t c dt key"
  using assms unfolding num_inv_at_def assms(2) by (meson order_trans)

lemma num_inv_at_numbered:
  assumes "num_inv_at s c dt key" "number_at t (c, dt, d) = Some (Some (format_number key (series s (c, key) + 1)))"
    and "\<And>d'. d' \<noteq> d \<Longrightarrow> number_at t (c, dt, d') = number_at s (c, dt, d')" "series t (c, key) = series s (c, key) + 1"
    and "solo_migrations s c \<noteq> None \<Longrightarrow> solo_migrations t c \<noteq> None"
  shows "num_inv_at t c dt key"
proof -
  let ?n = "format_number key (series s (c, key) + 1)"
  have issued: "\<exists>v. n = format_number key v \<and> 0 < v \<and> v \<le> series s (c, key)" if "number_at s (c, dt, d') = Some (Some n)" for d' n
    using assms(1) that by (auto simp: num_inv_at_def)
  have "?n \<noteq> format_number key v" if "0 < v" "v \<le> series s (c, key)" for v
    using format_number_inj [of v "series s (c, key) + 1" key] that by auto
  then have new: "number_at s (c, dt, d') \<noteq> Some (Some ?n)" for d' using issued by blast
  have get: "number_at t (c, dt, d') = (if d' = d then Some (Some ?n) else number_at s (c, dt, d'))" for d'
    using assms(2,3) by simp
  have "0 \<le> series s (c, key)" using assms(1) by (simp add: num_inv_at_def)
  then have "\<exists>v. n = format_number key v \<and> 0 < v \<and> v \<le> series t (c, key)" if "number_at t (c, dt, d') = Some (Some n)" for d' n
  proof (cases "d' = d")
    case True
    then have "n = ?n" using that by (simp add: get)
    then show ?thesis using \<open>0 \<le> series s (c, key)\<close> assms(4) by (intro exI [of _ "series s (c, key) + 1"]) simp
  next
    case False
    then have "number_at s (c, dt, d') = Some (Some n)" using that by (simp add: get)
    from issued [OF this] obtain v where "n = format_number key v" "0 < v" "v \<le> series s (c, key)" by blast
    then show ?thesis using assms(4) by (intro exI [of _ v]) simp
  qed
  moreover have "d1 = d2" if "number_at t (c, dt, d1) = Some (Some n)" "number_at t (c, dt, d2) = Some (Some n)" for d1 d2 n
    using that new assms(1) unfolding get num_inv_at_def by (auto split: if_splits)
  moreover have "solo_migrations t c \<noteq> None" if "number_at t (c, dt, d') = Some None" for d'
  proof (rule assms(5))
    have "number_at s (c, dt, d') = Some None" using that by (simp add: get split: if_splits)
    then show "solo_migrations s c \<noteq> None" using assms(1) unfolding num_inv_at_def by blast
  qed
  moreover have "0 \<le> series t (c, key)" using assms(1,4) by (simp add: num_inv_at_def)
  ultimately show ?thesis unfolding num_inv_at_def by blast
qed

lemma num_inv_at_unnumbered:
  assumes "num_inv_at s c dt key" "number_at t (c, dt, d) = Some None"
    and "\<And>d'. d' \<noteq> d \<Longrightarrow> number_at t (c, dt, d') = number_at s (c, dt, d')" "series s (c, key) \<le> series t (c, key)"
    and "solo_migrations t c \<noteq> None"
  shows "num_inv_at t c dt key"
proof -
  have old: "number_at t (c, dt, d') = Some (Some n) \<Longrightarrow> number_at s (c, dt, d') = Some (Some n)" for d' n
    using assms(2,3) by (cases "d' = d") auto
  have issued: "\<exists>v. n = format_number key v \<and> 0 < v \<and> v \<le> series t (c, key)" if "number_at t (c, dt, d') = Some (Some n)" for d' n
    using old [OF that] assms(1,4) unfolding num_inv_at_def by (meson order_trans)
  have "0 \<le> series t (c, key)" using assms(1,4) by (simp add: num_inv_at_def)
  then show ?thesis using issued old assms(1,5) unfolding num_inv_at_def by blast
qed

lemma number_at_commit:
  "number_at (commit_apply x now k s) p =
     (if p = doc_key_of k then Some (pd_official_number (numbered_document s k)) else number_at s p)"
  by (simp add: number_at_def commit_number)

lemma existence_new: "existence_check s k = Inr () \<Longrightarrow> pc_document_is_new k \<Longrightarrow> number_at s (doc_key_of k) = None"
  by (simp add: existence_check_def Let_def result_simps number_at_def)

lemma commit_old_number:
  assumes "numbering_ok k s" "\<not> pc_document_is_new k"
  shows "number_at (commit_apply x now k s) = number_at s"
proof -
  have "allocated_number s k = None" using assms by (simp add: numbering_ok_def allocated_number_def)
  then have n: "pd_official_number (numbered_document s k) = pd_official_number (pc_document k)"
    by (simp add: numbered_document_number)
  show "number_at (commit_apply x now k s) = number_at s"
  proof (rule ext)
    fix p
    show "number_at (commit_apply x now k s) p = number_at s p"
      using assms n by (auto simp: number_at_commit numbering_ok_def)
  qed
qed

lemma commit_numbers_keep:
  assumes "commit_checks s k = Inr ()" "numbering_ok k s"
  shows "numbers_keep s (commit_apply x now k s)"
proof (cases "pc_document_is_new k")
  case True
  then show ?thesis
    using existence_new [OF checks_passed(5) [OF assms(1)]] by (auto simp: numbers_keep_def number_at_commit)
next
  case False
  then show ?thesis using commit_old_number [OF assms(2) False] by (simp add: numbers_keep_def)
qed

lemma commit_solo: "solo_migrations (commit_apply x now k s) = (case pc_solo_migration k of
    Some mark \<Rightarrow> (solo_migrations s)(pc_company k \<mapsto> (sm_migration_id mark, pd_id (pc_document k))) | None \<Rightarrow> solo_migrations s)"
  by (simp add: commit_apply_def commit_tables_def Let_def split: option.splits)

lemma commit_num_inv:
  assumes "num_inv s" "numbering_ok k s" "commit_checks s k = Inr ()" "\<And>p. series s p < i64_max"
  shows "num_inv (commit_apply x now k s)"
  unfolding num_inv_def
proof (intro allI impI)
  fix c dt key
  let ?t = "commit_apply x now k s" and ?d = "pd_id (pc_document k)"
  assume sk: "series_key dt = Some key" and pos: "dt \<noteq> ''POS Invoice''"
  have inv: "num_inv_at s c dt key" using assms(1) sk pos by (simp add: num_inv_def)
  have ge: "series s p \<le> series ?t p" for p using series_monotone [OF assms(4)] by simp
  have solo: "solo_migrations s c \<noteq> None \<Longrightarrow> solo_migrations ?t c \<noteq> None" by (simp add: commit_solo split: option.split)
  show "num_inv_at ?t c dt key"
  proof (cases "pc_document_is_new k \<and> pc_company k = c \<and> pd_doctype (pc_document k) = dt")
    case False
    have "number_at ?t (c, dt, d) = number_at s (c, dt, d)" for d
    proof (cases "pc_document_is_new k")
      case True
      then show ?thesis using False by (auto simp: number_at_commit doc_key_of_def)
    qed (simp add: commit_old_number [OF assms(2)])
    then show ?thesis by (rule num_inv_at_mono [OF inv _ ge solo])
  next
    case True
    then have key: "doc_key_of k = (c, dt, ?d)" by (simp add: doc_key_of_def)
    have other: "d' \<noteq> ?d \<Longrightarrow> number_at ?t (c, dt, d') = number_at s (c, dt, d')" for d' by (simp add: number_at_commit key)
    have own: "number_at ?t (c, dt, ?d) = Some (pd_official_number (numbered_document s k))" by (simp add: number_at_commit key)
    show ?thesis
    proof (cases "pc_series_key k")
      case None
      then have "number_at ?t (c, dt, ?d) = Some None" and "pc_solo_migration k \<noteq> None"
        using own assms(2) True pos by (simp_all add: numbering_ok_def numbered_document_number allocated_number_def)
      moreover from this have "solo_migrations ?t c \<noteq> None" using True by (auto simp: commit_solo)
      ultimately show ?thesis using num_inv_at_unnumbered [OF inv _ other ge] by blast
    next
      case (Some key')
      then have "key' = key" "pc_numbering_floors k = []" using assms(2) True sk by (auto simp: numbering_ok_def)
      then have "series ?t (c, key) = series s (c, key) + 1"
        "number_at ?t (c, dt, ?d) = Some (Some (format_number key (series s (c, key) + 1)))"
        using own Some True assms(4)
        by (simp_all add: series_after_def raise_floors_def next_value_def numbered_document_number allocated_number_def)
      then show ?thesis using num_inv_at_numbered [OF inv _ other _ solo] by blast
    qed
  qed
qed

section \<open>Bins\<close>

definition bins_inv :: "inner \<Rightarrow> bool" where
  "bins_inv s \<longleftrightarrow> (\<forall>c item wh. solo_migrations s c = None \<longrightarrow> sles_for_pair s c item wh \<noteq> [] \<longrightarrow> no_production item wh (stock_ledger s c) \<longrightarrow>
     map_of (bins s) (c, item, wh) = Some (balance_bin c item wh (sles_for_pair s c item wh)))"

lemma fold_result_unit:
  "fold_result f () es = Inr u \<Longrightarrow> e \<in> set es \<Longrightarrow> f () e = Inr ()"
  by (induction es) (auto simp: result_simps)

lemma expectation_met:
  assumes "fold_result (expectation_check s c) () (expectations lg) = Inr u" "map_of (lg_prior_counts lg) (item, wh) = Some n"
  shows "pair_count s c item wh = n"
proof -
  have "(item, wh, n) \<in> set (expectations lg)"
    using map_of_SomeD [OF assms(2)] by (force simp: expectations_def)
  from fold_result_unit [OF assms(1) this] show ?thesis by (simp add: expectation_check_def Let_def result_simps)
qed

lemma grown_pair_same:
  assumes "ledgers_grow s0 s" "pair_count s c item wh = pair_count s0 c item wh"
  shows "sles_for_pair s c item wh = sles_for_pair s0 c item wh"
proof -
  obtain r where "stock_ledger s c = stock_ledger s0 c @ r" using assms(1) by (auto simp: ledgers_grow_def prefix_def)
  then show ?thesis using assms(2) by (simp add: sles_for_pair_in pair_count_def)
qed

lemma assign_seq_rows:
  "map row_of_sle (filter (in_pair i w) (snd (assign_seq n es))) = map row_of_sle (filter (in_pair i w) es)"
  "no_production i w (snd (assign_seq n es)) = no_production i w es"
  by (induction es arbitrary: n) (auto simp: Let_def case_prod_beta in_pair_def row_of_sle_def no_production_def)

lemma no_production_append: "no_production i w (xs @ ys) \<longleftrightarrow> no_production i w xs \<and> no_production i w ys"
  by (auto simp: no_production_def)

lemma commit_bins_inv:
  assumes "bins_inv s" "stock_ok k s" "commit_checks s k = Inr ()"
  shows "bins_inv (commit_apply x now k s)"
  unfolding bins_inv_def
proof (intro allI impI)
  fix c item wh
  let ?t = "commit_apply x now k s" and ?es = "pc_stock_ledger_entries k"
  assume "solo_migrations ?t c = None" and ne: "sles_for_pair ?t c item wh \<noteq> []" and np: "no_production item wh (stock_ledger ?t c)"
  then have solo: "solo_migrations s c = None" "pc_solo_migration k = None \<or> c \<noteq> pc_company k"
    by (auto simp: commit_solo split: option.splits if_splits)
  show "map_of (bins ?t) (c, item, wh) = Some (balance_bin c item wh (sles_for_pair ?t c item wh))"
  proof (cases "c = pc_company k")
    case False
    then show ?thesis using assms(1) ne np solo(1)
      by (simp add: bins_inv_def sles_for_pair_def insert_bins_company)
  next
    case True
    obtain s0 lg where lg: "ledgers_grow s0 s" "costed_ok s0 (pc_company k) ?es lg"
      "pc_bins k = recompute_bins (pc_company k) lg" "pc_sle_expectations k = expectations lg"
      using assms(2) solo(2) True by (auto simp: stock_ok_def)
    have np': "no_production item wh ?es" "no_production item wh (stock_ledger s c)"
      using np True by (simp_all add: no_production_append assign_seq_rows)
    have rows: "map row_of_sle (sles_for_pair ?t c item wh)
        = map row_of_sle (sles_for_pair s c item wh @ filter (in_pair item wh) ?es)"
      by (simp add: True sles_for_pair_in assign_seq_rows)
    have e: "entry_ok s0 c ?es lg item wh" using lg(2) np'(1) True by (simp add: costed_ok_def)
    show ?thesis
    proof (cases "map_of (lg_rows lg) (item, wh)")
      case None
      have "filter (in_pair item wh) ?es = []" using entry_ok_None [OF e None] .
      then have same: "map row_of_sle (sles_for_pair ?t c item wh) = map row_of_sle (sles_for_pair s c item wh)"
        using rows by simp
      then have "sles_for_pair s c item wh \<noteq> []" using ne by (metis map_is_Nil_conv)
      then have "map_of (bins s) (c, item, wh) = Some (balance_bin c item wh (sles_for_pair s c item wh))"
        using assms(1) np'(2) solo(1) by (simp add: bins_inv_def)
      then show ?thesis
        using recompute_bins_untouched [OF None, of c "bins s"] lg(3) True same by (simp add: balance_bin_def)
    next
      case (Some rs)
      note r = entry_ok_Some [OF e Some]
      have "pair_count s c item wh = pair_count s0 c item wh"
        using expectation_met [OF _ conjunct2 [OF r]] checks_passed(4) [OF assms(3)] lg(4) True by simp
      then have "sles_for_pair s c item wh = sles_for_pair s0 c item wh" using grown_pair_same [OF lg(1)] by blast
      then have "rs = map row_of_sle (sles_for_pair ?t c item wh)" using r rows by (simp add: pair_rows_def)
      moreover have "map_of (bins ?t) (c, item, wh) = Some (bin_of c ((item, wh), rs))"
        using recompute_bins_get [OF _ Some, of c "bins s"] lg(2,3) True by (simp add: costed_ok_def)
      ultimately show ?thesis by (simp add: balance_bin_def)
    qed
  qed
qed

section \<open>The invariant of the system\<close>

definition sys_inv :: "ext \<Rightarrow> sys \<Rightarrow> bool" where
  "sys_inv x t = (case t of (s, P) \<Rightarrow>
     keys_ok s \<and> (\<forall>k\<in>P. commit_ok k s) \<and> num_inv s \<and> bins_inv s \<and> logs_ok x s)"

text \<open>A commit stays good while ledgers only grow and numbers stay.\<close>

lemma numbers_keepD: "numbers_keep s t \<Longrightarrow> number_at s p = Some n \<Longrightarrow> number_at t p = Some n"
  unfolding numbers_keep_def by blast

lemma numbering_ok_mono: "numbering_ok k s \<Longrightarrow> numbers_keep s t \<Longrightarrow> numbering_ok k t"
  by (auto simp: numbering_ok_def dest: numbers_keepD split: if_splits)

lemma stock_ok_mono: "stock_ok k s \<Longrightarrow> ledgers_grow s t \<Longrightarrow> stock_ok k t"
  unfolding stock_ok_def using ledgers_grow_trans by blast

lemma commit_ok_mono:
  "commit_ok k s \<Longrightarrow> ledgers_grow s t \<Longrightarrow> numbers_keep s t \<Longrightarrow> commit_ok k t"
  unfolding commit_ok_def using numbering_ok_mono stock_ok_mono by blast

lemma numbered_document_key:
  "pd_doctype (numbered_document s k) = pd_doctype (pc_document k)" "pd_id (numbered_document s k) = pd_id (pc_document k)"
  "pd_company (numbered_document s k) = pd_company (pc_document k)"
  by (simp_all add: numbered_document_def split: option.splits)

lemma commit_keys_ok:
  assumes "keys_ok s" "pd_company (pc_document k) = pc_company k"
  shows "keys_ok (commit_apply x now k s)"
proof -
  let ?f = "\<lambda>d. (pd_company d, pd_doctype d, pd_id d)"
  have eq: "map_option ?f (map_of (fst (commit_documents s k)) p) =
      (if p = doc_key_of k then Some (?f (numbered_document s k)) else map_option ?f (map_of (documents s) p))" for p
    by (rule commit_documents_keeps) simp
  have "p = ?f d" if get: "map_of (fst (commit_documents s k)) p = Some d" for p d
  proof (cases "p = doc_key_of k")
    case True
    then show ?thesis using eq [of p] get assms(2) by (simp add: numbered_document_key doc_key_of_def)
  next
    case False
    then obtain d' where "map_of (documents s) p = Some d'" "?f d' = ?f d" using eq [of p] get
      by (cases "map_of (documents s) p") auto
    then show ?thesis using assms(1) unfolding keys_ok_def by metis
  qed
  then show ?thesis by (simp add: keys_ok_def)
qed

lemma commit_logs_ok:
  assumes "logs_ok x s" "commit_fits x now k s"
  shows "logs_ok x (commit_apply x now k s)"
proof -
  have "logs_ok x (commit_tables k s)" using assms(1) logs_ok_cong [of "commit_tables k s" s x] by simp
  moreover have "length (log_records (commit_tables k s) (pc_company k)) = length (log_records s (pc_company k))"
    by (simp add: log_records_def)
  ultimately have "logs_ok x (snd (append_mutations x now (pc_company k) (commit_records x now s k) (commit_tables k s)))"
    using assms(2) by (intro logs_ok_append) (auto simp: commit_fits_def)
  then show ?thesis using logs_ok_cong [of "commit_apply x now k s" _ x] by simp
qed

lemma sys_inv_commit:
  assumes "sys_inv x (s, P)" "k \<in> P" "commit_fits x now k s"
  shows "sys_inv x (snd (posting_commit x now k s), P - {k})"
proof -
  have k: "commit_ok k s" using assms(1,2) by (simp add: sys_inv_def)
  then have n: "numbering_ok k s" "stock_ok k s" by (simp_all add: commit_ok_def)
  then have c: "pd_company (pc_document k) = pc_company k" by (simp add: numbering_ok_def)
  show ?thesis
  proof (cases rule: posting_commit_cases [of s k x now])
    case post
    have "\<forall>j\<in>P. commit_ok j (commit_apply x now k s)"
      using assms(1) commit_ok_mono commit_apply_grows [OF post(1)] commit_numbers_keep [OF post(2) n(1)]
      by (auto simp: sys_inv_def)
    then show ?thesis
      using assms post n c
      by (auto simp: sys_inv_def commit_fits_def intro!: commit_keys_ok commit_num_inv commit_bins_inv commit_logs_ok)
  qed (use assms in \<open>auto simp: sys_inv_def\<close>)
qed

text \<open>An operation that leaves the posting tables alone and only raises series keeps the invariant.\<close>

lemma sys_inv_other:
  assumes "sys_inv x (s, P)" "documents t = documents s" "stock_ledger t = stock_ledger s" "bins t = bins s"
    and "solo_migrations t = solo_migrations s" "ledgers_grow s t" "\<And>p. series s p \<le> series t p" "logs_ok x t"
  shows "sys_inv x (t, P)"
proof -
  have num: "number_at t = number_at s" by (rule ext) (simp add: number_at_def assms(2))
  have "num_inv s" using assms(1) by (simp add: sys_inv_def)
  then have "num_inv t" unfolding num_inv_def using num_inv_at_mono [of s _ _ _ t] assms(5,7) num by simp
  moreover have "\<forall>k\<in>P. commit_ok k t"
    using assms(1,6) commit_ok_mono [of _ s t] by (auto simp: sys_inv_def numbers_keep_def num)
  ultimately show ?thesis
    using assms(1-5,8) by (simp add: sys_inv_def keys_ok_def bins_inv_def sles_for_pair_def)
qed

lemma sys_inv_step:
  assumes "sys_step x t u" "sys_inv x t"
  shows "sys_inv x u"
  using assms
proof (induction rule: sys_step.induct)
  case (prepare_submit cmd act ev s c d k P)
  then show ?case using build_submit_ok [OF prepare_submit(3,1,2)] by (simp add: sys_inv_def)
next
  case (prepare_cancel ev s c cmd act k P)
  then show ?case using build_cancel_ok [OF prepare_cancel(1)] by (simp add: sys_inv_def)
next
  case (prepare_opening ev s c ocmd sha key act k P)
  then show ?case using build_opening_ok [OF prepare_opening(1)] by (simp add: sys_inv_def)
next
  case (commit k P now s)
  then show ?case using sys_inv_commit by blast
next
  case (push s c ms P now)
  show ?case
    by (rule sys_inv_other [OF push.prems])
      (use push in \<open>auto simp: push_mutations_def sys_inv_def intro: logs_ok_append ledgers_grow_same\<close>)
next
  case (ack s P c ids)
  have "logs_ok x s" using ack.prems by (simp add: sys_inv_def)
  then have "logs_ok x (snd (ack_mutations c ids s))" by (simp add: logs_ok_def ack_log_inv ack_proj_inv)
  then show ?case
    by (intro sys_inv_other [OF ack.prems]) (auto simp: ack_mutations_def Let_def intro: ledgers_grow_same)
next
  case (lost s P c report entry)
  have "logs_ok x (snd (record_lost_history c report entry s)) = logs_ok x s"
    by (rule logs_ok_cong) (simp_all add: record_lost_history_def Let_def case_prod_beta split: option.splits)
  moreover have "series s p \<le> series (snd (record_lost_history c report entry s)) p" for p
    by (auto simp: record_lost_history_def Let_def case_prod_beta raise_floors_ge split: option.splits)
  moreover have "bins (snd (record_lost_history c report entry s)) = bins s"
    "solo_migrations (snd (record_lost_history c report entry s)) = solo_migrations s"
    by (auto simp: record_lost_history_def Let_def case_prod_beta split: option.splits)
  ultimately show ?case
    using lost.prems by (intro sys_inv_other [OF lost.prems]) (auto simp: other_ops_frame sys_inv_def intro: ledgers_grow_same)
next
  case (settings s P c v)
  have "logs_ok x (put_company_settings c v s) = logs_ok x s"
    by (rule logs_ok_cong) (simp_all add: put_company_settings_def)
  then show ?case
    using settings.prems
    by (intro sys_inv_other [OF settings.prems]) (simp_all add: put_company_settings_def sys_inv_def ledgers_grow_same)
next
  case (lock s P c change)
  have "logs_ok x (snd (set_books_lock c change s)) = logs_ok x s"
    by (rule logs_ok_cong) (simp_all add: set_books_lock_def Let_def)
  then show ?case
    using lock.prems
    by (intro sys_inv_other [OF lock.prems])
      (auto simp: other_ops_frame sys_inv_def set_books_lock_def Let_def intro: ledgers_grow_same)
next
  case (item s P c it)
  have "logs_ok x (upsert_item c it s) = logs_ok x s" by (rule logs_ok_cong) (simp_all add: upsert_item_def)
  then show ?case
    using item.prems by (intro sys_inv_other [OF item.prems]) (simp_all add: upsert_item_def sys_inv_def ledgers_grow_same)
qed

lemma reachable_inv: "reachable x t \<Longrightarrow> sys_inv x t"
proof (induction rule: reachable_induct)
  case start
  show ?case
    by (simp add: sys_inv_def keys_ok_def num_inv_def num_inv_at_def bins_inv_def number_at_def sles_for_pair_def)
next
  case (step t u)
  then show ?case using sys_inv_step by blast
qed

end
