(* ===== verification/Engine_Theorems.thy ===== *)
theory Engine_Theorems
  imports Posting_System "HOL-Library.Multiset"
begin

text \<open>
  Correctness of the submit and cancel commands: what a command that answers has posted, what it
  refuses, and that a refused or retried command leaves nothing behind.
\<close>

section \<open>Helper lemmas\<close>

lemma fold_result_elem:
  "fold_result f s xs = Inr t \<Longrightarrow> e \<in> set xs \<Longrightarrow> \<exists>s' s''. f s' e = Inr s''"
  by (induction xs arbitrary: s) (auto simp: result_simps)

lemma group_accounts_named:
  assumes "check_group_accounts s c gl = Inr ()"
  shows "list_all (\<lambda>e. gl_account e \<noteq> []) gl"
proof -
  obtain groups where "fold_result (group_account_step s c) [] (sort_dedup (map gl_account gl)) = Inr groups"
    using assms by (auto simp: check_group_accounts_def result_simps)
  note el = fold_result_elem [OF this]
  have "gl_account e \<noteq> []" if "e \<in> set gl" for e
    using el [of "gl_account e"] that by (auto simp: group_account_step_def result_simps)
  then show ?thesis by (simp add: list_all_iff)
qed

lemma group_accounts_leaf:
  assumes "check_group_accounts s c gl = Inr ()" "e \<in> set gl" "company_document_of s c ''Account'' (gl_account e) = Some doc"
  shows "\<not> is_true (jget (cd_payload doc) ''is_group'')"
proof -
  have keep: "fold_result (group_account_step s c) gs as = Inr [] \<Longrightarrow> gs = [] \<and>
      (\<forall>a\<in>set as. \<forall>doc. company_document_of s c ''Account'' a = Some doc \<longrightarrow> \<not> is_true (jget (cd_payload doc) ''is_group''))" for gs as
  proof (induction as arbitrary: gs)
    case (Cons a as)
    then obtain gs' where "group_account_step s c gs a = Inr gs'" "fold_result (group_account_step s c) gs' as = Inr []"
      by (auto simp: result_simps)
    note st = this
    show ?case using Cons.IH [OF st(2)] st(1) by (auto simp: group_account_step_def result_simps split: option.splits if_splits)
  qed simp
  have "fold_result (group_account_step s c) [] (sort_dedup (map gl_account gl)) = Inr []"
    using assms(1) by (auto simp: check_group_accounts_def result_simps)
  from keep [OF this] assms(2,3) show ?thesis by auto
qed

text \<open>The document id a submit posts under.\<close>

definition submitted_id :: "submit_command \<Rightarrow> uuid \<Rightarrow> string" where
  "submitted_id cmd fresh_id = (case sc_document_id cmd of Some i \<Rightarrow> i | None \<Rightarrow> fresh_id)"

lemma replay_replayed: "replay s c key = Some out \<Longrightarrow> oc_replayed out"
  by (auto simp: replay_def)

lemma submit_documentE:
  assumes "submit_document x ev interfere fresh_id c cmd act s = (Inr out, t)" "\<not> oc_replayed out"
    and "\<And>i s. store_run x s (interfere i s)"
  obtains s1 s2 k where "store_run x s s1" "build_submit x ev s1 c cmd (submitted_id cmd fresh_id) act = Inr k"
    "store_run x s1 s2" "posting_commit x (ev_now ev) k s2 = (Inr out, t)" "sc_doctype cmd \<in> set POSTED_DOCTYPES"
    "sc_offline_fiscal cmd \<Longrightarrow> validate_offline_fiscal cmd act = Inr ()"
proof -
  have loop: "commit_loop MAX_RETRIES (\<lambda>s. build_submit x ev s c cmd (submitted_id cmd fresh_id) act) interfere x (ev_now ev)
      (sc_doctype cmd) (submitted_id cmd fresh_id) s = (Inr out, t)"
    and dt: "sc_doctype cmd \<in> set POSTED_DOCTYPES"
    and off: "sc_offline_fiscal cmd \<Longrightarrow> validate_offline_fiscal cmd act = Inr ()"
    using assms(1,2)
    by (auto simp: submit_document_def submitted_id_def Let_def split: if_splits option.splits sum.splits
        dest: replay_replayed bound_replay_same)
  show ?thesis using commit_loop_outcome [OF loop assms(3)] that dt off by blast
qed

lemma cancel_documentE:
  assumes "cancel_document x ev interfere c cmd act s = (Inr out, t)" "\<not> oc_replayed out"
    and "\<And>i s. store_run x s (interfere i s)"
  obtains s1 s2 k where "store_run x s s1" "build_cancel x ev s1 c cmd act = Inr k"
    "store_run x s1 s2" "posting_commit x (ev_now ev) k s2 = (Inr out, t)"
proof -
  have loop: "commit_loop MAX_RETRIES (\<lambda>s. build_cancel x ev s c cmd act) interfere x (ev_now ev)
      (cc_doctype cmd) (cc_document_id cmd) s = (Inr out, t)"
    using assms(1,2) by (auto simp: cancel_document_def split: option.splits dest: replay_replayed bound_replay_same)
  show ?thesis using commit_loop_outcome [OF loop assms(3)] that by blast
qed

text \<open>The deciding attempt of a submit and of a cancel, and the commit it made.\<close>

definition submit_attempt ::
  "ext \<Rightarrow> env \<Rightarrow> (nat \<Rightarrow> inner \<Rightarrow> inner) \<Rightarrow> uuid \<Rightarrow> uuid \<Rightarrow> submit_command \<Rightarrow> actor \<Rightarrow> inner \<Rightarrow> inner \<times> inner" where
  "submit_attempt x ev interfere fresh_id c cmd act s =
     deciding_attempt MAX_RETRIES (\<lambda>s. build_submit x ev s c cmd (submitted_id cmd fresh_id) act) interfere x (ev_now ev) s"

definition cancel_attempt ::
  "ext \<Rightarrow> env \<Rightarrow> (nat \<Rightarrow> inner \<Rightarrow> inner) \<Rightarrow> uuid \<Rightarrow> cancel_command \<Rightarrow> actor \<Rightarrow> inner \<Rightarrow> inner \<times> inner" where
  "cancel_attempt x ev interfere c cmd act s =
     deciding_attempt MAX_RETRIES (\<lambda>s. build_cancel x ev s c cmd act) interfere x (ev_now ev) s"

lemma submit_attemptE:
  assumes "submit_document x ev interfere fresh_id c cmd act s = (Inr out, t)" "\<not> oc_replayed out"
    and "submit_attempt x ev interfere fresh_id c cmd act s = (s1, s2)"
  obtains date payload guard sh stls ups k where
    "check_balanced (dr_gl (derive_rows x s1 (submit_ctx c cmd (submitted_id cmd fresh_id) date) payload)) = Inr ()"
    "check_group_accounts s1 c (dr_gl (derive_rows x s1 (submit_ctx c cmd (submitted_id cmd fresh_id) date) payload)) = Inr ()"
    "build_submit x ev s1 c cmd (submitted_id cmd fresh_id) act = Inr k"
    "k = submit_commit ev c cmd (submitted_id cmd fresh_id) act date payload guard
       (derive_rows x s1 (submit_ctx c cmd (submitted_id cmd fresh_id) date) payload) sh stls ups"
    "commit_checks s2 k = Inr ()" "t = commit_apply x (ev_now ev) k s2"
proof -
  have "commit_loop MAX_RETRIES (\<lambda>s. build_submit x ev s c cmd (submitted_id cmd fresh_id) act) interfere x (ev_now ev)
      (sc_doctype cmd) (submitted_id cmd fresh_id) s = (Inr out, t)"
    using assms(1,2)
    by (auto simp: submit_document_def submitted_id_def Let_def split: if_splits option.splits sum.splits
        dest: replay_replayed bound_replay_same)
  from commit_loop_decided [OF this assms(3) [unfolded submit_attempt_def]] obtain k where
    k: "build_submit x ev s1 c cmd (submitted_id cmd fresh_id) act = Inr k" "posting_commit x (ev_now ev) k s2 = (Inr out, t)" by blast
  from k(1) show ?thesis
    by (cases rule: build_submitE) (use that k(1) posting_commit_posted [OF k(2) assms(2)] in blast)
qed

lemma cancel_attemptE:
  assumes "cancel_document x ev interfere c cmd act s = (Inr out, t)" "\<not> oc_replayed out"
    and "cancel_attempt x ev interfere c cmd act s = (s1, s2)"
  obtains document date guard ups where
    "cancel_checks x ev s1 c cmd = Inr (document, date, guard)"
    "t = commit_apply x (ev_now ev) (cancel_commit ev s1 c cmd act document date guard ups) s2"
proof -
  have "commit_loop MAX_RETRIES (\<lambda>s. build_cancel x ev s c cmd act) interfere x (ev_now ev)
      (cc_doctype cmd) (cc_document_id cmd) s = (Inr out, t)"
    using assms(1,2) by (auto simp: cancel_document_def split: option.splits dest: replay_replayed bound_replay_same)
  from commit_loop_decided [OF this assms(3) [unfolded cancel_attempt_def]] obtain k where
    k: "build_cancel x ev s1 c cmd act = Inr k" "posting_commit x (ev_now ev) k s2 = (Inr out, t)" by blast
  from k(1) show ?thesis
    by (cases rule: build_cancelE) (use that posting_commit_posted [OF k(2) assms(2)] in blast)
qed

section \<open>Invariants of every reachable state\<close>

text \<open>C1. Official numbers: in every state that interleaved submits, cancels, take-ons and the other store
  operations reach while the 64-bit counters have room, two documents of one company and one doctype other than POS Invoice
  that carry the same official number are the same document, and the number is one the series has issued; a document without
  a number is there only in a company that took on a Solo book. (POS Invoice is left out: a number of its series can collide
  with one that a till assigned offline.)\<close>

theorem numbers_unique:
  assumes "reachable x (s, P)" "series_key dt = Some key" "dt \<noteq> ''POS Invoice''"
    and "posted_document_of s c dt d = Some doc" "posted_document_of s c dt d' = Some doc'"
    and "pd_official_number doc = pd_official_number doc'"
  shows "case pd_official_number doc of
      Some n \<Rightarrow> d = d' \<and> (\<exists>v. n = format_number key v \<and> 0 < v \<and> v \<le> series s (c, key))
    | None \<Rightarrow> solo_migrations s c \<noteq> None"
proof -
  have "num_inv_at s c dt key" using reachable_inv [OF assms(1)] assms(2,3) by (simp add: sys_inv_def num_inv_def)
  moreover have "number_at s (c, dt, d) = Some (pd_official_number doc)" "number_at s (c, dt, d') = Some (pd_official_number doc)"
    using assms(4-6) by (simp_all add: number_at_def posted_document_of_def)
  ultimately show ?thesis unfolding num_inv_at_def by (cases "pd_official_number doc") (simp_all, blast+)
qed

text \<open>C2. The bin of an item in a warehouse is the balance of its ledger rows, in every state that interleaved commands reach
  while the counters have room: concurrent postings to one pair never leave a bin computed from a ledger that has moved.
  Pairs with Production rows are left out, whose cached rows are patched by matching amounts, and companies that took on a
  Solo book, whose opening bins carry the stated value.\<close>

theorem bins_are_balances:
  assumes "reachable x (s, P)" "sles_for_pair s c item wh \<noteq> []" "no_production item wh (stock_ledger s c)" "solo_migrations s c = None"
  shows "map_of (bins s) (c, item, wh) = Some (balance_bin c item wh (sles_for_pair s c item wh))"
  using reachable_inv [OF assms(1)] assms(2-4) by (simp add: sys_inv_def bins_inv_def)

section \<open>A submit posts a balanced voucher\<close>

text \<open>C3. A submit that answers with a fresh outcome, whatever others did in between, has appended to the GL that its deciding
  attempt met exactly the rows of the commit it built; those rows balance within the tolerance, are all of that voucher, with one
  posting date, not reversals, each on a named account, and the GL of no other company changed.\<close>

theorem submit_posts_balanced:
  assumes "submit_document x ev interfere fresh_id c cmd act s = (Inr out, t)" "\<not> oc_replayed out"
    and "submit_attempt x ev interfere fresh_id c cmd act s = (s1, s2)"
  shows "\<exists>k date. build_submit x ev s1 c cmd (submitted_id cmd fresh_id) act = Inr k
    \<and> gl_entries t = (gl_entries s2)(c := gl_entries s2 c @ pc_gl_entries k)
    \<and> \<not> BALANCE_TOLERANCE < \<bar>fsum (map gl_debit (pc_gl_entries k)) - fsum (map gl_credit (pc_gl_entries k))\<bar>
    \<and> list_all (\<lambda>e. gl_company e = c \<and> gl_voucher_no e = submitted_id cmd fresh_id \<and> gl_voucher_type e = sc_doctype cmd
        \<and> gl_posting_date e = date \<and> \<not> gl_is_reversal e \<and> gl_account e \<noteq> []) (pc_gl_entries k)"
  using assms
proof (cases rule: submit_attemptE)
  case (1 date payload guard sh stls ups k)
  let ?gl = "dr_gl (derive_rows x s1 (submit_ctx c cmd (submitted_id cmd fresh_id) date) payload)"
  have gl: "pc_gl_entries k = ?gl" "pc_company k = c" by (simp_all add: 1(4))
  have "\<not> BALANCE_TOLERANCE < \<bar>fsum (map gl_debit ?gl) - fsum (map gl_credit ?gl)\<bar>"
    using 1(1) by (simp add: check_balanced_def Let_def result_simps)
  moreover have "list_all (\<lambda>e. gl_company e = c \<and> gl_voucher_no e = submitted_id cmd fresh_id \<and> gl_voucher_type e = sc_doctype cmd
      \<and> gl_posting_date e = date \<and> \<not> gl_is_reversal e \<and> gl_account e \<noteq> []) ?gl"
    using derive_rows_gl_tag [of "submit_ctx c cmd (submitted_id cmd fresh_id) date" x s1 payload] group_accounts_named [OF 1(2)]
    by (auto simp: list_all_iff gl_tag_def ctx_tag_def submit_ctx_def)
  moreover have "gl_entries t = (gl_entries s2)(c := gl_entries s2 c @ ?gl)" unfolding 1(6) commit_apply_sel gl ..
  ultimately show ?thesis unfolding gl(1) [symmetric] using 1(3) by blast
qed

section \<open>Cancel mirrors the voucher\<close>

lemma gl_filter_mirror:
  "image_mset gl_debit (mset (filter (\<lambda>e. gl_account e = a) (map (reverse_gl b) es)))
     = image_mset gl_credit (mset (filter (\<lambda>e. gl_account e = a) es))"
  "image_mset gl_credit (mset (filter (\<lambda>e. gl_account e = a) (map (reverse_gl b) es)))
     = image_mset gl_debit (mset (filter (\<lambda>e. gl_account e = a) es))"
  by (induction es) (auto simp: reverse_gl_def)

lemma reversal_voucher:
  "filter (\<lambda>e. gl_voucher_no e = d) (reversed_gl s c d) = reversed_gl s c d"
  by (auto simp: reversed_gl_def gl_for_voucher_def reverse_gl_def filter_id_conv)

lemma cancel_quietE:
  assumes "cancel_document x ev (\<lambda>_ s. s) c cmd act s = (Inr out, t)" "\<not> oc_replayed out"
  obtains document date guard ups where
    "cancel_checks x ev s c cmd = Inr (document, date, guard)"
    "t = commit_apply x (ev_now ev) (cancel_commit ev s c cmd act document date guard ups) s"
    "commit_checks s (cancel_commit ev s c cmd act document date guard ups) = Inr ()"
proof -
  have loop: "commit_loop MAX_RETRIES (\<lambda>s. build_cancel x ev s c cmd act) (\<lambda>_ s. s) x (ev_now ev)
      (cc_doctype cmd) (cc_document_id cmd) s = (Inr out, t)"
    using assms by (auto simp: cancel_document_def split: option.splits dest: replay_replayed bound_replay_same)
  obtain k where k: "build_cancel x ev s c cmd act = Inr k" "posting_commit x (ev_now ev) k s = (Inr out, t)"
    using commit_loop_quiet [OF loop] by blast
  from k(1) show ?thesis
    by (cases rule: build_cancelE) (use posting_commit_posted [OF k(2) assms(2)] that in blast)
qed

text \<open>C4. Cancelling a document whose voucher has no reversal rows yet, while no other client writes, leaves on every
  account the same amounts on the debit side and on the credit side of the voucher: it nets to zero exactly, not
  only up to rounding.\<close>

theorem cancel_nets_to_zero:
  assumes "cancel_document x ev (\<lambda>_ s. s) c cmd act s = (Inr out, t)" "\<not> oc_replayed out"
    and "\<And>e. e \<in> set (gl_for_voucher s c (cc_document_id cmd)) \<Longrightarrow> \<not> gl_is_reversal e"
  shows "image_mset gl_debit (mset (filter (\<lambda>e. gl_account e = a) (gl_for_voucher t c (cc_document_id cmd))))
       = image_mset gl_credit (mset (filter (\<lambda>e. gl_account e = a) (gl_for_voucher t c (cc_document_id cmd))))"
  using assms(1,2)
proof (cases rule: cancel_quietE)
  case (1 document date guard ups)
  let ?d = "cc_document_id cmd"
  have "gl_for_voucher t c ?d = gl_for_voucher s c ?d @ reversed_gl s c ?d"
    using reversal_voucher [of ?d s c] by (simp add: 1(2) gl_for_voucher_def)
  moreover have "reversed_gl s c ?d = map (reverse_gl (reversal_batch ?d)) (gl_for_voucher s c ?d)"
    using assms(3) by (simp add: reversed_gl_def filter_id_conv)
  ultimately have eq: "gl_for_voucher t c ?d
      = gl_for_voucher s c ?d @ map (reverse_gl (reversal_batch ?d)) (gl_for_voucher s c ?d)" by simp
  show ?thesis
    unfolding eq by (simp only: filter_append mset_append image_mset_union gl_filter_mirror add.commute)
qed

text \<open>
  A reversal row mirrors its original: every field is that of the original but its id, its batch and its place in the ledger,
  and the amounts change sign, or sides.
\<close>

definition sle_mirrors :: "stock_ledger_entry \<Rightarrow> stock_ledger_entry \<Rightarrow> bool" where
  "sle_mirrors e r \<longleftrightarrow> r = e\<lparr>sle_id := sle_id r, sle_batch_id := sle_batch_id r, sle_seq := sle_seq r,
     sle_qty_change := - sle_qty_change e, sle_is_reversal := True\<rparr>"

definition settlement_mirrors :: "settlement \<Rightarrow> settlement \<Rightarrow> bool" where
  "settlement_mirrors u r \<longleftrightarrow> r = u\<lparr>st_id := st_id r, st_batch_id := st_batch_id r,
     st_allocated_amount := - st_allocated_amount u, st_is_reversal := True\<rparr>"

definition gl_mirrors :: "gl_entry \<Rightarrow> gl_entry \<Rightarrow> bool" where
  "gl_mirrors e r \<longleftrightarrow> r = e\<lparr>gl_id := gl_id r, gl_batch_id := gl_batch_id r, gl_debit := gl_credit e, gl_credit := gl_debit e,
     gl_base_debit := gl_base_credit e, gl_base_credit := gl_base_debit e, gl_is_reversal := True\<rparr>"

lemma reversed_gl_mirror: "list_all2 gl_mirrors (filter (\<lambda>e. \<not> gl_is_reversal e) (gl_for_voucher s c d)) (reversed_gl s c d)"
  by (simp add: reversed_gl_def list_all2_map2 list_all2_same gl_mirrors_def reverse_gl_def)

lemma reversed_settlements_mirror:
  "list_all2 settlement_mirrors (filter (\<lambda>u. \<not> st_is_reversal u) (settlements_for_payment s c d)) (reversed_settlements s c d)"
  by (simp add: reversed_settlements_def list_all2_map2 list_all2_same settlement_mirrors_def reverse_settlement_def)

lemma reversed_sles_mirror:
  "list_all2 sle_mirrors (filter (\<lambda>e. \<not> sle_is_reversal e) (sles_for_voucher s c d)) (snd (assign_seq n (reversed_sles s c d)))"
proof -
  have "list_all2 sle_mirrors es (snd (assign_seq n (map (reverse_sle b) es)))" for b es n
    by (induction es arbitrary: n) (simp_all add: Let_def case_prod_beta sle_mirrors_def reverse_sle_def)
  then show ?thesis by (simp add: reversed_sles_def)
qed

text \<open>C5. A cancellation, whatever others did in between, marks the document cancelled, moves no series, and appends to the
  ledgers its deciding attempt met one row for every row of the voucher that is not itself a reversal: the same item and warehouse with the
  negated quantity at the original rate, the same payment and invoice with the negated allocation, the same account with the
  sides exchanged, all other fields as in the original but the id, the batch and the ledger position.\<close>

theorem cancel_reverses_rows:
  assumes "cancel_document x ev interfere c cmd act s = (Inr out, t)" "\<not> oc_replayed out"
    and "cancel_attempt x ev interfere c cmd act s = (s1, s2)" "keys_ok s1"
  shows "map_option pd_docstatus (posted_document_of t c (cc_doctype cmd) (cc_document_id cmd)) = Some 2
    \<and> series t = series s2
    \<and> (\<exists>rows. stock_ledger t = (stock_ledger s2)(c := stock_ledger s2 c @ rows) \<and>
        list_all2 sle_mirrors (filter (\<lambda>e. \<not> sle_is_reversal e) (sles_for_voucher s1 c (cc_document_id cmd))) rows)
    \<and> (\<exists>rows. settlements t = (settlements s2)(c := settlements s2 c @ rows) \<and>
        list_all2 settlement_mirrors (filter (\<lambda>u. \<not> st_is_reversal u) (settlements_for_payment s1 c (cc_document_id cmd))) rows)
    \<and> (\<exists>rows. gl_entries t = (gl_entries s2)(c := gl_entries s2 c @ rows) \<and>
        list_all2 gl_mirrors (filter (\<lambda>e. \<not> gl_is_reversal e) (gl_for_voucher s1 c (cc_document_id cmd))) rows)"
  using assms(1-3)
proof (cases rule: cancel_attemptE)
  case (1 document date guard ups)
  let ?d = "cc_document_id cmd" and ?k = "cancel_commit ev s1 c cmd act document date guard ups"
  have "(c, cc_doctype cmd, ?d) = (pd_company document, pd_doctype document, pd_id document)"
    using assms(4) cancel_checksD(1) [OF 1(1)] by (simp add: keys_ok_def posted_document_of_def)
  then have key: "doc_key_of ?k = (c, cc_doctype cmd, ?d)" by (simp add: doc_key_of_def)
  have "map_option pd_docstatus (posted_document_of t c (cc_doctype cmd) ?d) = Some 2"
    by (simp add: 1(2) posted_document_of_def commit_docstatus key numbered_document_def allocated_number_def)
  moreover have "series t = series s2" by (simp add: 1(2) series_after_def raise_floors_def)
  ultimately show ?thesis
    using reversed_sles_mirror [of s1 c ?d] reversed_settlements_mirror [of s1 c ?d] reversed_gl_mirror [of s1 c ?d]
    by (auto simp: 1(2))
qed

section \<open>Failures, retries and replays\<close>

text \<open>C6. A submit or a cancel that ends in an error, with no other command running, leaves the store
  as it found it: no row, number, log entry or audit row of a refused command survives.\<close>

theorem failed_command_no_effect:
  assumes "submit_document x ev (\<lambda>_ s. s) fresh_id c cmd act s = (Inl e, t) \<or>
    cancel_document x ev (\<lambda>_ s. s) c cmd' act s = (Inl e, t)"
  shows "t = s"
  using assms
  by (auto simp: submit_document_def cancel_document_def Let_def split: if_splits option.splits sum.splits
      dest: commit_loop_error)

lemma jget_json_put: "jget (json_put k v (JObj m)) k' = (if k' = k then Some v else obj_get m k')"
  by (simp add: json_put_def)

lemma json_put_obj: "\<exists>m'. json_put k v (JObj m) = JObj m'"
  by (simp add: json_put_def)

lemma posting_response_fields:
  "\<exists>m. posting_response dt d n ds gl sles party tax bns stls = JObj m \<and>
     obj_get m ''doctype'' = Some (JStr dt) \<and> obj_get m ''document_id'' = Some (JStr d)"
  by (simp add: posting_response_def case_prod_beta Let_def obj_of_get)

text \<open>The answer of a posting names its doctype and document.\<close>

definition answers_for :: "json \<Rightarrow> string \<Rightarrow> string \<Rightarrow> bool" where
  "answers_for r dt d \<longleftrightarrow> (\<exists>m. r = JObj m \<and> obj_get m ''doctype'' = Some (JStr dt) \<and> obj_get m ''document_id'' = Some (JStr d))"

lemma answers_for_put: "answers_for r dt d \<Longrightarrow> k \<notin> {''doctype'', ''document_id''} \<Longrightarrow> answers_for (json_put k v r) dt d"
  by (auto simp: answers_for_def json_put_def)

lemma submit_answers_for: "answers_for (numbered_response s (submit_commit ev c cmd d act date p g dr sh stls ups)) (sc_doctype cmd) d"
proof -
  have "answers_for (posting_response (sc_doctype cmd) d n ds gl sles party tax bns stls) (sc_doctype cmd) d" for n ds gl sles party tax bns stls
    using posting_response_fields by (simp add: answers_for_def)
  then have "answers_for (pc_response (submit_commit ev c cmd d act date p g dr sh stls ups)) (sc_doctype cmd) d"
    by (simp add: submit_commit_def Let_def answers_for_put)
  then show ?thesis by (simp add: numbered_response_def Let_def answers_for_put split: option.splits)
qed

lemma cancel_answers_for: "answers_for (numbered_response s (cancel_commit ev s1 c cmd act doc date g ups)) (cc_doctype cmd) (cc_document_id cmd)"
proof -
  have "pc_response (cancel_commit ev s1 c cmd act doc date g ups) = posting_response (cc_doctype cmd) (cc_document_id cmd)
      (json_opt JStr (pd_official_number doc)) 2 (reversed_gl s1 c (cc_document_id cmd)) (reversed_sles s1 c (cc_document_id cmd))
      (reversed_party s1 c (cc_document_id cmd)) (reversed_tax s1 c (cc_document_id cmd))
      (recompute_bins c (reversal_ledgers s1 c (reversed_sles s1 c (cc_document_id cmd)))) (reversed_settlements s1 c (cc_document_id cmd))"
    by (simp add: cancel_commit_def Let_def)
  then show ?thesis using posting_response_fields by (simp add: numbered_response_def answers_for_def)
qed

lemma bound_replay_answers:
  "answers_for (oc_response out) dt d \<Longrightarrow> bound_replay out dt' (Some d') =
     (if dt' = dt \<and> d' = d then Inr out else Inl (PConflict (Command KeyReused)))"
  by (auto simp: answers_for_def bound_replay_def Let_def)

lemma submit_stores_answer:
  assumes "submit_document x ev interfere fresh_id c cmd act s = (Inr out, t)" "\<not> oc_replayed out"
    and "\<And>i s. store_run x s (interfere i s)" "sc_idempotency_key cmd = Some key" "store_run x t t'"
  shows "idempotency t' (c, key) = Some (oc_response out)" "answers_for (oc_response out) (sc_doctype cmd) (submitted_id cmd fresh_id)"
proof -
  have "idempotency t (c, key) = Some (oc_response out) \<and> answers_for (oc_response out) (sc_doctype cmd) (submitted_id cmd fresh_id)"
    using assms(1-3)
  proof (cases rule: submit_documentE)
    case (1 s1 s2 k)
    note t = posting_commit_posted [OF 1(4) assms(2)]
    from 1(2) show ?thesis
      by (cases rule: build_submitE) (simp add: t assms(4) submit_answers_for)
  qed
  then show "idempotency t' (c, key) = Some (oc_response out)"
    "answers_for (oc_response out) (sc_doctype cmd) (submitted_id cmd fresh_id)"
    using run_grows [OF assms(5)] by (auto simp: ledgers_grow_def map_le_def dom_def)
qed

lemma cancel_stores_answer:
  assumes "cancel_document x ev interfere c cmd act s = (Inr out, t)" "\<not> oc_replayed out"
    and "\<And>i s. store_run x s (interfere i s)" "cc_idempotency_key cmd = Some key" "store_run x t t'"
  shows "idempotency t' (c, key) = Some (oc_response out) \<and> answers_for (oc_response out) (cc_doctype cmd) (cc_document_id cmd)"
proof -
  have "idempotency t (c, key) = Some (oc_response out) \<and> answers_for (oc_response out) (cc_doctype cmd) (cc_document_id cmd)"
    using assms(1-3)
  proof (cases rule: cancel_documentE)
    case (1 s1 s2 k)
    note t = posting_commit_posted [OF 1(4) assms(2)]
    from 1(2) show ?thesis
      by (cases rule: build_cancelE) (simp add: t assms(4) cancel_answers_for)
  qed
  then show ?thesis using run_grows [OF assms(5)] by (auto simp: ledgers_grow_def map_le_def dom_def)
qed

text \<open>C7. Sending a committed submit or cancel again with its idempotency key, after any other operations and with or without a
  document id in the submit, answers with the stored response, marks it replayed and changes nothing.\<close>

theorem retry_replays:
  assumes "\<And>i s. store_run x s (interfere i s)" "\<not> oc_replayed out" "store_run x t t'"
  shows "(submit_document x ev interfere fresh_id c cmd act s = (Inr out, t) \<and> sc_idempotency_key cmd = Some key \<longrightarrow>
      submit_document x ev' interfere' fresh_id' c cmd act t' = (Inr \<lparr>oc_response = oc_response out, oc_replayed = True\<rparr>, t'))
    \<and> (cancel_document x ev interfere c ccmd act s = (Inr out, t) \<and> cc_idempotency_key ccmd = Some key \<longrightarrow>
      cancel_document x ev' interfere' c ccmd act' t' = (Inr \<lparr>oc_response = oc_response out, oc_replayed = True\<rparr>, t'))"
proof (intro conjI impI; elim conjE)
  let ?again = "\<lparr>oc_response = oc_response out, oc_replayed = True\<rparr>"
  assume r: "submit_document x ev interfere fresh_id c cmd act s = (Inr out, t)" and key: "sc_idempotency_key cmd = Some key"
  note st = submit_stores_answer [OF r assms(2,1) key assms(3)]
  have "sc_doctype cmd \<in> set POSTED_DOCTYPES" "sc_offline_fiscal cmd \<Longrightarrow> validate_offline_fiscal cmd act = Inr ()"
    using submit_documentE [OF r assms(2,1)] by blast+
  moreover have "bound_replay ?again (sc_doctype cmd) (sc_document_id cmd) = Inr ?again"
    using st(2) by (auto simp: bound_replay_def answers_for_def submitted_id_def Let_def split: option.splits)
  ultimately show "submit_document x ev' interfere' fresh_id' c cmd act t' = (Inr ?again, t')"
    using st(1) by (simp add: submit_document_def replay_def idempotent_response_def key)
next
  let ?again = "\<lparr>oc_response = oc_response out, oc_replayed = True\<rparr>"
  assume r: "cancel_document x ev interfere c ccmd act s = (Inr out, t)" and key: "cc_idempotency_key ccmd = Some key"
  note st = cancel_stores_answer [OF r assms(2,1) key assms(3)]
  have "bound_replay ?again (cc_doctype ccmd) (Some (cc_document_id ccmd)) = Inr ?again"
    using st by (auto simp: bound_replay_def answers_for_def Let_def)
  then show "cancel_document x ev' interfere' c ccmd act' t' = (Inr ?again, t')"
    using st by (simp add: cancel_document_def replay_def idempotent_response_def key)
qed

text \<open>The same key sent for another document, or another doctype, is refused and changes nothing:
  it never answers with someone else's response.\<close>

theorem key_reuse_refused:
  assumes "submit_document x ev interfere fresh_id c cmd act s = (Inr out, t)" "\<not> oc_replayed out"
    and "\<And>i s. store_run x s (interfere i s)"
    and "sc_idempotency_key cmd = Some key" "store_run x t t'"
    and "sc_idempotency_key cmd' = Some key" "sc_document_id cmd' = Some d'" "sc_doctype cmd' \<in> set POSTED_DOCTYPES"
    and "\<not> sc_offline_fiscal cmd'" "sc_doctype cmd' \<noteq> sc_doctype cmd \<or> d' \<noteq> submitted_id cmd fresh_id"
  shows "submit_document x ev' interfere' fresh_id' c cmd' act' t' = (Inl (PConflict (Command KeyReused)), t')"
proof -
  note st = submit_stores_answer [OF assms(1-5)]
  show ?thesis
    using assms(6-10) st(1)
      bound_replay_answers [of "\<lparr>oc_response = oc_response out, oc_replayed = True\<rparr>" "sc_doctype cmd"
        "submitted_id cmd fresh_id" "sc_doctype cmd'" d'] st(2)
    by (auto simp: submit_document_def replay_def idempotent_response_def)
qed

section \<open>Numbers, dates and guards at the commit\<close>

text \<open>C8. A fresh submit, other than an offline till sale, takes the next number of its series: from the state its deciding attempt
  met, the counter of the series moves by one and no other counter moves, and the document, which was not there, is stored with
  that number.\<close>

theorem submit_takes_next_number:
  assumes "submit_document x ev interfere fresh_id c cmd act s = (Inr out, t)" "\<not> oc_replayed out"
    and "submit_attempt x ev interfere fresh_id c cmd act s = (s1, s2)" "\<not> sc_offline_fiscal cmd"
    and "series_key (sc_doctype cmd) = Some key"
  shows "series t = (series s2)((c, key) := i64_succ (series s2 (c, key)))
    \<and> posted_document_of s2 c (sc_doctype cmd) (submitted_id cmd fresh_id) = None
    \<and> map_option pd_official_number (posted_document_of t c (sc_doctype cmd) (submitted_id cmd fresh_id))
        = Some (Some (format_number key (i64_succ (series s2 (c, key)))))"
  using assms(1-3)
proof (cases rule: submit_attemptE)
  case (1 date payload guard sh stls ups k)
  have key: "doc_key_of k = (c, sc_doctype cmd, submitted_id cmd fresh_id)" by (simp add: 1(4) doc_key_of_def)
  have "series t = (series s2)((c, key) := i64_succ (series s2 (c, key)))"
    using assms(4,5) by (simp add: 1(6)) (simp add: 1(4) series_after_def raise_floors_def next_value_def)
  moreover have "number_at t (c, sc_doctype cmd, submitted_id cmd fresh_id)
      = Some (Some (format_number key (i64_succ (series s2 (c, key)))))"
    using assms(4,5) unfolding 1(6) number_at_commit key
    by (simp add: 1(4) numbered_document_number allocated_number_def next_value_def)
  moreover have "number_at s2 (c, sc_doctype cmd, submitted_id cmd fresh_id) = None"
    using existence_new [OF checks_passed(5) [OF 1(5)]] by (simp add: key) (simp add: 1(4))
  ultimately show ?thesis by (simp add: number_at_def posted_document_of_def)
qed

lemma lock_check_passed:
  assumes "lock_check s k = Inr ()" "pc_lock_check_date k = Some date" "current_lock s (pc_company k) = Some lock"
  shows "\<not> date \<le> lock"
  using assms by (auto simp: lock_check_def lock_violation_def split: if_splits)

text \<open>C9. Nothing is posted into a locked period: the rows that a fresh submit appended to the GL its deciding attempt met are
  those of its commit, and each is dated after the books lock in force at that moment, even if the lock moved while the
  command was being prepared.\<close>

theorem submit_after_lock:
  assumes "submit_document x ev interfere fresh_id c cmd act s = (Inr out, t)" "\<not> oc_replayed out"
    and "submit_attempt x ev interfere fresh_id c cmd act s = (s1, s2)" "current_lock s2 c = Some lock"
  shows "\<exists>k. build_submit x ev s1 c cmd (submitted_id cmd fresh_id) act = Inr k \<and> gl_entries t c = gl_entries s2 c @ pc_gl_entries k
    \<and> list_all (\<lambda>e. lock < gl_posting_date e) (pc_gl_entries k)"
  using assms(1-3)
proof (cases rule: submit_attemptE)
  case (1 date payload guard sh stls ups k)
  have "lock < date" using lock_check_passed [OF checks_passed(1) [OF 1(5)], of date lock] assms(4) by (simp add: 1(4))
  moreover have "list_all (\<lambda>e. gl_posting_date e = date) (pc_gl_entries k)"
    using derive_rows_gl_tag [of "submit_ctx c cmd (submitted_id cmd fresh_id) date" x s1 payload]
    by (auto simp: 1(4) list_all_iff gl_tag_def ctx_tag_def submit_ctx_def)
  moreover have "pc_company k = c" by (simp add: 1(4))
  then have "gl_entries t c = gl_entries s2 c @ pc_gl_entries k" by (simp add: 1(6))
  ultimately show ?thesis using 1(3) by (auto simp: list_all_iff)
qed

text \<open>C12. A commit that applies a customer deposit holds, at the commit, only if the deposit is
  submitted, belongs to the paying customer and has that much left after the submitted payments
  already applying it; a commit that cancels a deposit, only if no submitted payment applies it.\<close>

theorem deposit_guarded_at_commit:
  assumes "posting_commit x now k s = (Inr out, t)" "\<not> oc_replayed out" "pc_deposit_guard k = Some guard"
  shows "case guard of
      Apply d customer amount \<Rightarrow>
        \<exists>deposit. posted_document_of s (pc_company k) ''Customer Deposit'' d = Some deposit \<and> pd_docstatus deposit = 1
          \<and> unwrap_or_default (as_non_empty (jget (pd_payload deposit) ''customer'')) = customer
          \<and> \<not> as_num (jget (pd_payload deposit) ''amount'')
              - fsum (map (\<lambda>p. as_num (jget (pd_payload p) ''paid_amount''))
                  (live_applications (deposit_applications s (pc_company k) d))) + MONEY_EPS < amount
    | Release d \<Rightarrow> live_applications (deposit_applications s (pc_company k) d) = []"
  using checks_passed(2) [OF posting_commit_posted(1) [OF assms(1,2)]] assms(3)
  by (cases guard) (auto simp: deposit_check_def deposit_guard_violation_def Let_def split: option.splits if_splits)

section \<open>Stock\<close>

text \<open>The rows a cache held for a pair are the pair's ledger after the commit.\<close>

lemma cached_rows_final:
  assumes "stock_ledger t c = stock_ledger s2 c @ snd (assign_seq n es)" "entry_ok s1 c es lg item wh"
    and "map_of (lg_rows lg) (item, wh) = Some rows" "ledgers_grow s1 s2"
    and "fold_result (expectation_check s2 c) () (expectations lg) = Inr ()"
  shows "rows = map row_of_sle (sles_for_pair t c item wh)"
proof -
  note r = entry_ok_Some [OF assms(2,3)]
  have "pair_count s2 c item wh = pair_count s1 c item wh" using expectation_met [OF assms(5) conjunct2 [OF r]] .
  then have "sles_for_pair s2 c item wh = sles_for_pair s1 c item wh" using grown_pair_same [OF assms(4)] by blast
  then show ?thesis using r by (simp add: pair_rows_def sles_for_pair_in assms(1) assign_seq_rows)
qed

text \<open>C13. When negative stock is forbidden as the command is built, a submit other than an offline till sale, which may go negative by design, leaves
  no pair it touches below zero, although the check ran before the commit and others may have posted in between. Pairs with
  Production rows in the voucher are left out, whose cached rows are patched by matching amounts.\<close>

theorem submit_keeps_stock:
  assumes "build_submit x ev s1 c cmd d act = Inr k" "\<not> sc_offline_fiscal cmd"
    and "\<not> cs_allow_negative_stock (company_settings_of s1 c)" "store_run x s1 s2"
    and "posting_commit x now k s2 = (Inr out, t)" "\<not> oc_replayed out"
    and "e \<in> set (pc_stock_ledger_entries k)" "no_production (sle_item e) (sle_warehouse e) (pc_stock_ledger_entries k)"
  shows "\<not> bs_actual_qty (compute_balance (map row_of_sle (sles_for_pair t c (sle_item e) (sle_warehouse e)))) < 0"
  using assms(1)
proof (cases rule: build_submitE)
  case (1 date payload guard sh stls ups)
  note t = posting_commit_posted [OF assms(5,6)]
  let ?dr = "derive_rows x s1 (submit_ctx c cmd d date) payload" and ?i = "sle_item e" and ?w = "sle_warehouse e"
  have k: "pc_company k = c" "pc_stock_ledger_entries k = dr_sles ?dr" "pc_sle_expectations k = expectations (dr_ledgers ?dr)"
    by (simp_all add: 1(6))
  have ok: "entry_ok s1 c (dr_sles ?dr) (dr_ledgers ?dr) ?i ?w"
    using derive_rows_costed [of s1 "submit_ctx c cmd d date" x payload] assms(8)
    by (simp add: costed_ok_def k submit_ctx_def)
  have "filter (in_pair ?i ?w) (dr_sles ?dr) \<noteq> []" using assms(7) by (auto simp: k filter_empty_conv in_pair_def)
  then obtain rows where rows: "map_of (lg_rows (dr_ledgers ?dr)) (?i, ?w) = Some rows"
    using entry_ok_None [OF ok] by (cases "map_of (lg_rows (dr_ledgers ?dr)) (?i, ?w)") auto
  have "stock_ledger t c = stock_ledger s2 c @ snd (assign_seq (sle_seqs s2 c) (dr_sles ?dr))" by (simp add: t(2) k)
  from cached_rows_final [OF this ok rows run_grows [OF assms(4)]] checks_passed(4) [OF t(1)]
  have "rows = map row_of_sle (sles_for_pair t c ?i ?w)" by (simp add: k)
  moreover have "negative_pair () ((?i, ?w), rows) = Inr ()"
    using fold_result_unit [of negative_pair "lg_rows (dr_ledgers ?dr)" "()" "((?i, ?w), rows)"] 1(4) assms(2,3) map_of_SomeD [OF rows]
    by (simp add: check_negative_stock_def)
  ultimately show ?thesis by (simp add: negative_pair_def Let_def result_simps)
qed

section \<open>Perpetual inventory\<close>

lemma wf64_times [simp]: "wf64 (a * b)"
  by (cases a; cases b) (auto simp: times_f64_def inf_of_def)

lemma wf64_abs [simp]: "wf64 a \<Longrightarrow> wf64 \<bar>a\<bar>"
proof (cases a)
  case (Fin y)
  moreover assume "wf64 a"
  ultimately show ?thesis using wf64_neg [of a] by (cases "0 \<le> y") (auto simp: abs_f64_def)
qed (auto simp: abs_f64_def)

lemma wf64_add [simp]: "wf64 (a + b :: f64)" if "wf64 a" "wf64 b"
  using that by (cases a; cases b) auto

lemma wf64_zero [simp]: "wf64 0"
  using wf64_rnd [of 0] by (simp add: zero_f64_def)

definition leg_sum :: "f64 \<Rightarrow> (gl_entry \<Rightarrow> f64) \<Rightarrow> gl_entry list \<Rightarrow> f64" where
  "leg_sum acc f es = foldl (+) acc (map f es)"

lemma stock_pair_sums:
  assumes "wf64 acc"
  shows "leg_sum acc gl_debit (stock_gl_pair ctx itm st e) = leg_sum acc gl_credit (stock_gl_pair ctx itm st e)"
    and "wf64 (leg_sum acc gl_debit (stock_gl_pair ctx itm st e))"
  using assms by (simp_all add: stock_gl_pair_def Let_def case_prod_beta leg_sum_def base_leg_def ctx_gl_def fadd_zero)

lemma fsum_leg_sum: "fsum (map f es) = leg_sum 0 f es"
  by (simp add: fsum_def leg_sum_def)

text \<open>The GL legs of the stock movements balance exactly: summed in posting order, the debits and
  the credits are the same number, so perpetual inventory never uses up the balance tolerance.\<close>

theorem stock_legs_balance:
  "fsum (map gl_debit (stock_gl_legs ctx sles itm st)) = fsum (map gl_credit (stock_gl_legs ctx sles itm st))"
proof -
  have "wf64 acc \<Longrightarrow> leg_sum acc gl_debit (stock_gl_legs ctx sles itm st) = leg_sum acc gl_credit (stock_gl_legs ctx sles itm st)" for acc
  proof (induction sles arbitrary: acc)
    case (Cons e sles)
    have step: "leg_sum acc f (stock_gl_legs ctx (e # sles) itm st)
        = leg_sum (leg_sum acc f (stock_gl_pair ctx itm st e)) f (stock_gl_legs ctx sles itm st)" for f
      by (simp add: stock_gl_legs_def leg_sum_def)
    show ?case
      unfolding step
      using Cons.IH [OF stock_pair_sums(2) [OF Cons.prems, of ctx itm st e]] stock_pair_sums(1) [OF Cons.prems, of ctx itm st e]
      by metis
  qed (simp add: stock_gl_legs_def leg_sum_def)
  then show ?thesis by (simp add: fsum_leg_sum)
qed

section \<open>Payments\<close>

definition invoice_settled :: "inner \<Rightarrow> uuid \<Rightarrow> string \<Rightarrow> string \<Rightarrow> f64" where
  "invoice_settled s c dt no = fsum (map st_allocated_amount (settlements_for_invoice s c dt no))"

definition newly_allocated :: "settlement list \<Rightarrow> string \<Rightarrow> string \<Rightarrow> f64" where
  "newly_allocated stls dt no =
     fsum (map st_allocated_amount (filter (\<lambda>t. st_invoice_voucher_type t = dt \<and> st_invoice_voucher_no t = no) stls))"

text \<open>What one outstanding update must satisfy.\<close>

definition update_ok :: "inner \<Rightarrow> uuid \<Rightarrow> settlement list \<Rightarrow> bool \<Rightarrow> string \<times> string \<times> f64 \<Rightarrow> bool" where
  "update_ok s c stls enforce u = (case u of (dt, no, v) \<Rightarrow>
     \<exists>invoice. posted_document_of s c dt no = Some invoice \<and> pd_docstatus invoice = 1
       \<and> v = as_num (jget (pd_payload invoice) ''grand_total'') - (0 + invoice_settled s c dt no + newly_allocated stls dt no)
       \<and> (enforce \<longrightarrow> \<not> as_num (jget (pd_payload invoice) ''grand_total'') - (0 + invoice_settled s c dt no) + MONEY_EPS
            < newly_allocated stls dt no))"

definition update_ref :: "string \<times> string \<times> f64 \<Rightarrow> string \<times> string" where
  "update_ref u = (fst u, fst (snd u))"

lemma update_ref_tuple [simp]: "update_ref (a, b, v) = (a, b)"
  by (simp add: update_ref_def)

definition invoice_ref :: "settlement \<Rightarrow> string \<times> string" where
  "invoice_ref t = (st_invoice_voucher_type t, st_invoice_voucher_no t)"

lemma outstanding_updates_ok:
  assumes "fold_result (outstanding_update s c stls enforce) (ups0, seen0) todo = Inr (ups, seen)"
    and "list_all (update_ok s c stls enforce) ups0" "set seen0 = update_ref ` set ups0"
  shows "list_all (update_ok s c stls enforce) ups \<and>
    update_ref ` set ups
      = update_ref ` set ups0 \<union> invoice_ref ` set todo"
  using assms
proof (induction todo arbitrary: ups0 seen0)
  case (Cons t todo)
  obtain ups1 seen1 where st: "outstanding_update s c stls enforce (ups0, seen0) t = Inr (ups1, seen1)"
    and rest: "fold_result (outstanding_update s c stls enforce) (ups1, seen1) todo = Inr (ups, seen)"
    using Cons.prems(1) by (auto simp: result_simps)
  let ?p = "invoice_ref t"
  have "list_all (update_ok s c stls enforce) ups1 \<and> set seen1 = update_ref ` set ups1 \<and>
      update_ref ` set ups1 = insert ?p (update_ref ` set ups0)"
  proof (cases "?p \<in> set seen0")
    case True
    then show ?thesis using st Cons.prems(2,3) by (simp add: outstanding_update_def Let_def invoice_ref_def insert_absorb)
  next
    case False
    then obtain invoice where inv: "posted_document_of s c (st_invoice_voucher_type t) (st_invoice_voucher_no t) = Some invoice"
      using st by (auto simp: outstanding_update_def invoice_ref_def Let_def split: option.splits)
    obtain u where "ups1 = ups0 @ [u]" "seen1 = seen0 @ [?p]" "update_ref u = ?p" "update_ok s c stls enforce u"
      using st False inv
      by (auto simp: outstanding_update_def Let_def result_simps update_ok_def invoice_settled_def newly_allocated_def
          outstanding_amount_def fsum_def invoice_ref_def)
    then show ?thesis using Cons.prems(2,3) by simp
  qed
  then show ?case using Cons.IH [OF rest] by auto
qed simp

text \<open>C14. A payment that is built settles only submitted sales or purchase invoices; for every invoice
  it references, the new outstanding is the grand total less everything settled, and what it
  allocates to the invoice does not exceed what was outstanding when it was built by more than \<open>MONEY_EPS\<close>, in the comparison of the code, which a
  NaN passes.\<close>

theorem payment_within_outstanding:
  assumes "build_submit x ev s c cmd d act = Inr k" "sc_doctype cmd = ''Payment Entry''"
  shows "list_all (update_ok s c (pc_settlements k) True) (pc_outstanding_updates k)
    \<and> update_ref ` set (pc_outstanding_updates k)
        = invoice_ref ` set (pc_settlements k)
    \<and> list_all (\<lambda>t. st_invoice_voucher_type t \<in> set SETTLEABLE_DOCTYPES \<and> \<not> st_allocated_amount t < - MONEY_EPS) (pc_settlements k)"
  using assms(1)
proof (cases rule: build_submitE)
  case (1 date payload guard sh stls ups)
  have v: "validate_payment_submit payload stls = Inr ()" and o: "payment_outstanding_updates s c stls True = Inr ups"
    using 1(5) assms(2) by auto
  obtain seen where "fold_result (outstanding_update s c stls True) ([], []) stls = Inr (ups, seen)"
    using o by (auto simp: payment_outstanding_updates_def result_simps)
  from outstanding_updates_ok [OF this] have "list_all (update_ok s c stls True) ups"
    "update_ref ` set ups = invoice_ref ` set stls" by auto
  moreover have "st_invoice_voucher_type t \<in> set SETTLEABLE_DOCTYPES \<and> \<not> st_allocated_amount t < - MONEY_EPS" if "t \<in> set stls" for t
  proof -
    obtain total where "fold_result payment_allocation 0 stls = Inr total"
      using v by (auto simp: validate_payment_submit_def Let_def result_simps)
    from fold_result_elem [OF this that] show ?thesis by (auto simp: payment_allocation_def result_simps)
  qed
  ultimately show ?thesis by (simp add: 1(6) list_all_iff)
qed

section \<open>Invoice totals\<close>

text \<open>Not further apart than a tolerance, in the comparison the code uses.\<close>

definition agree_to :: "f64 \<Rightarrow> f64 \<Rightarrow> f64 \<Rightarrow> bool" where
  "agree_to tolerance a b \<longleftrightarrow> \<not> tolerance < \<bar>a - b\<bar>"

lemma fmult_nonneg: "\<not> Fin e * y < 0" if "0 < e" "\<not> y < 0"
proof (cases y)
  case (Fin z)
  then have "0 \<le> e * z" using that by (simp add: zero_f64_def)
  then have "Fin 0 \<le> rnd (e * z)" using rnd_mono [of 0 "e * z"] by simp
  then show ?thesis unfolding Fin by (cases "rnd (e * z)") (auto simp: times_f64_def zero_f64_def less_eq_f64_def)
qed (use that in \<open>auto simp: times_f64_def zero_f64_def inf_of_def\<close>)

lemma MONEY_EPS_scaled:
  assumes "\<not> y < 0"
  shows "\<not> MONEY_EPS * y < 0"
proof -
  obtain e where e: "MONEY_EPS = Fin e" "1 / 256 \<le> e" by (rule MONEY_EPS_Fin)
  then have "0 < e" by linarith
  then show ?thesis unfolding e(1) using assms by (rule fmult_nonneg)
qed

lemma resolve_total_within:
  assumes "resolve_total sent computed tol why = Inr v" "\<not> tol < 0"
  shows "agree_to tol v computed" "sent = Some w \<Longrightarrow> v = w" "sent = None \<Longrightarrow> v = computed"
  using assms by (auto simp: resolve_total_def agree_to_def fsub_self abs_f64_def zero_f64_def split: option.splits if_splits)

text \<open>C15. For an invoice that passes validation there is a grand total that agrees, within the tolerances and in the comparison of the
  code, with its lines and its taxes, whether the client sent the totals or the server computed them; when it is a finite number it
  is the stored grand total; the outstanding amount is it for an invoice whose outstanding is tracked (sales, purchase) and absent for
  one whose is not (till). A NaN passes every comparison, so for it nothing more is said.\<close>

theorem invoice_totals_consistent:
  assumes "validate_invoice_totals p track = Inr q"
    and "fold_result invoice_line (0, 0) (object_rows (items_of p)) = Inr (lines, n)"
    and "tax_sums (is_true (obj_get p ''prices_include_tax'')) p = (tax, extracted)"
  shows "\<exists>grand total tax_total.
    agree_to (MONEY_EPS * lit (of_nat (max n 1))) total (round2 (lines - extracted))
    \<and> agree_to MONEY_EPS tax_total (round2 tax)
    \<and> agree_to (MONEY_EPS * lit (of_nat (max n 1))) grand (round2 (round2 (lines - extracted) + round2 tax))
    \<and> agree_to (lit 2 * MONEY_EPS) grand (total + tax_total)
    \<and> (is_finite grand \<longrightarrow> as_num (obj_get q ''grand_total'') = grand)
    \<and> obj_get q ''outstanding_amount'' = (if track then Some (json_f64 grand) else None)"
proof -
  have lit: "\<not> lit (of_nat (max n 1)) < 0" using rnd_mono [of 0 "of_nat (max n 1)"]
    by (cases "rnd (of_nat (max n 1))") (auto simp: zero_f64_def less_eq_f64_def)
  obtain e where e: "MONEY_EPS = Fin e" "1 / 256 \<le> e" "e \<le> 1 / 128" by (rule MONEY_EPS_Fin)
  then have eps: "\<not> MONEY_EPS < 0" by (simp add: zero_f64_def)
  obtain total tax_total grand where r:
    "resolve_total (sent_number p ''total'') (round2 (lines - extracted)) (MONEY_EPS * lit (of_nat (max n 1))) TotalMismatch = Inr total"
    "resolve_total (sent_number p ''tax_total'') (round2 tax) MONEY_EPS TaxTotalMismatch = Inr tax_total"
    "resolve_total (sent_number p ''grand_total'') (round2 (round2 (lines - extracted) + round2 tax))
       (MONEY_EPS * lit (of_nat (max n 1))) GrandTotalMismatch = Inr grand"
    and id: "\<not> lit 2 * MONEY_EPS < \<bar>grand - (total + tax_total)\<bar>"
    and q: "q = (let p1 = (if sent_number p ''grand_total'' = None
          then obj_insert ''grand_total'' (json_f64 (round2 (round2 (lines - extracted) + round2 tax))) p else p);
        p2 = obj_remove ''outstanding_amount'' p1 in
      if track then obj_insert ''outstanding_amount'' (json_f64 grand) p2 else p2)"
    using assms unfolding validate_invoice_totals_def
    by (simp add: Let_def result_simps del: One_nat_def rnd_int split: if_split_asm) metis+
  note w = resolve_total_within
  have "as_num (obj_get q ''grand_total'') = grand" if "is_finite grand"
  proof (cases "sent_number p ''grand_total''")
    case None
    then show ?thesis using w(3) [OF r(3) MONEY_EPS_scaled [OF lit]] that by (simp add: q Let_def as_num_json_f64)
  next
    case (Some g)
    then have "as_num (obj_get p ''grand_total'') = g"
      by (auto simp: sent_number_def split: option.splits json.splits if_splits)
    then show ?thesis using w(2) [OF r(3) MONEY_EPS_scaled [OF lit] Some] Some by (simp add: q Let_def)
  qed
  moreover have "obj_get q ''outstanding_amount'' = (if track then Some (json_f64 grand) else None)"
    by (simp add: q Let_def)
  ultimately show ?thesis
    using w(1) [OF r(1) MONEY_EPS_scaled [OF lit]] w(1) [OF r(2) eps] w(1) [OF r(3) MONEY_EPS_scaled [OF lit]] id
    unfolding agree_to_def [of "lit 2 * MONEY_EPS"] by blast
qed

end
