(* ===== verification/Dates.thy ===== *)
theory Dates
  imports Engine_Base
begin

text \<open>
  The books lock compares dates as strings (\<open>lock_violation\<close>, \<open>check_period_lock\<close>). On the
  well-formed dates that \<open>validated_posting_date\<close> lets through, string order is the order of
  year, month and day.
\<close>

lemma lex_append:
  "length a = length b \<Longrightarrow> a @ r \<le> b @ q \<longleftrightarrow> a < b \<or> a = b \<and> r \<le> q" for a b r q :: "'a::linorder list"
proof (induction a b rule: list_induct2)
  case (Cons u us v vs)
  then show ?case by (auto simp: Cons_less_Cons)
qed simp

lemma lex_snoc:
  "length a = length b \<Longrightarrow> a @ [u] < b @ [v] \<longleftrightarrow> a < b \<or> a = b \<and> u < v" for a b :: "'a::linorder list"
proof (induction a b rule: list_induct2)
  case (Cons y ys z zs)
  then show ?case by (auto simp: Cons_less_Cons)
qed (auto simp: Cons_less_Cons)

lemma digit_less: "is_digit u \<Longrightarrow> is_digit v \<Longrightarrow> u < v \<longleftrightarrow> digit_value u < digit_value v"
  by (auto simp: is_digit_def digit_value_def less_char_def)

lemma digit_bound: "is_digit u \<Longrightarrow> digit_value u < 10"
  by (auto simp: is_digit_def digit_value_def)

lemma digit_eq: "is_digit u \<Longrightarrow> is_digit v \<Longrightarrow> u = v \<longleftrightarrow> digit_value u = digit_value v"
  by (metis digit_less less_irrefl linorder_neqE)

lemma digits_order:
  assumes "list_all is_digit a" "list_all is_digit b" "length a = length b"
  shows "(a < b \<longleftrightarrow> read_nat a < read_nat b) \<and> (a = b \<longleftrightarrow> read_nat a = read_nat b)"
  using assms
proof (induction a arbitrary: b rule: rev_induct)
  case Nil
  then show ?case by simp
next
  case (snoc u a)
  obtain v b' where b: "b = b' @ [v]" using snoc.prems(3) by (cases b rule: rev_cases) auto
  have IH: "(a < b' \<longleftrightarrow> read_nat a < read_nat b') \<and> (a = b' \<longleftrightarrow> read_nat a = read_nat b')"
    using snoc by (simp add: b)
  have d: "is_digit u" "is_digit v" "digit_value u < 10" "digit_value v < 10" "length a = length b'"
    using snoc.prems digit_bound by (auto simp: b)
  have "read_nat a * 10 + digit_value u < read_nat b' * 10 + digit_value v \<longleftrightarrow>
      read_nat a < read_nat b' \<or> read_nat a = read_nat b' \<and> digit_value u < digit_value v"
    "read_nat a * 10 + digit_value u = read_nat b' * 10 + digit_value v \<longleftrightarrow>
      read_nat a = read_nat b' \<and> digit_value u = digit_value v"
    using d(3,4) by presburger+
  then show ?case
    using IH d digit_less [OF d(1,2)] digit_eq [OF d(1,2)] lex_snoc [OF d(5), of u v]
    by (simp add: b read_nat_snoc mult.commute)
qed

lemma date_split:
  assumes "date_well_formed s"
  obtains y m d where "s = y @ CHR ''-'' # m @ CHR ''-'' # d" "length y = 4" "length m = 2" "length d = 2"
    "list_all is_digit y" "list_all is_digit m" "list_all is_digit d"
    "date_year s = read_nat y" "date_month s = read_nat m" "date_day s = read_nat d"
proof -
  have "length s = Suc (Suc (Suc (Suc (Suc (Suc (Suc (Suc (Suc (Suc 0)))))))))" using assms by (simp add: date_well_formed_def)
  then obtain c0 c1 c2 c3 c4 c5 c6 c7 c8 c9 where s: "s = [c0, c1, c2, c3, c4, c5, c6, c7, c8, c9]"
    by (auto simp: length_Suc_conv)
  have "[0..<10] = [0, 1, 2, 3, 4, 5, 6, 7, 8, 9::nat]" by (simp add: upt_rec)
  then have "c4 = CHR ''-''" "c7 = CHR ''-''" "list_all is_digit [c0, c1, c2, c3, c5, c6, c8, c9]"
    using assms by (auto simp: date_well_formed_def s)
  then show ?thesis
    by (intro that [of "[c0, c1, c2, c3]" "[c5, c6]" "[c8, c9]"])
      (simp_all add: s date_year_def date_month_def date_day_def)
qed

text \<open>Two well-formed dates compare as strings exactly as their years, months and days do, so
  the string comparison of the books lock is the calendar comparison.\<close>

theorem iso_dates_ordered:
  assumes "date_well_formed a" "date_well_formed b"
  shows "a \<le> b \<longleftrightarrow> date_year a < date_year b \<or> date_year a = date_year b \<and>
    (date_month a < date_month b \<or> date_month a = date_month b \<and> date_day a \<le> date_day b)"
proof -
  obtain y m d where a: "a = y @ CHR ''-'' # m @ CHR ''-'' # d" "length y = 4" "length m = 2" "length d = 2"
    "list_all is_digit y" "list_all is_digit m" "list_all is_digit d"
    "date_year a = read_nat y" "date_month a = read_nat m" "date_day a = read_nat d" by (rule date_split [OF assms(1)])
  obtain y' m' d' where b: "b = y' @ CHR ''-'' # m' @ CHR ''-'' # d'" "length y' = 4" "length m' = 2" "length d' = 2"
    "list_all is_digit y'" "list_all is_digit m'" "list_all is_digit d'"
    "date_year b = read_nat y'" "date_month b = read_nat m'" "date_day b = read_nat d'" by (rule date_split [OF assms(2)])
  have "a \<le> b \<longleftrightarrow> y < y' \<or> y = y' \<and> (m < m' \<or> m = m' \<and> d \<le> d')"
    using a(2,3) b(2,3) by (simp add: a(1) b(1) lex_append)
  then show ?thesis
    using digits_order [OF a(5) b(5)] digits_order [OF a(6) b(6)] digits_order [OF a(7) b(7)] a(2-4,8-10) b(2-4,8-10)
    by (auto simp: le_less)
qed

text \<open>An instance: the day after a lock date, across a month end.\<close>

theorem iso_dates_ordered_witness:
  "date_well_formed ''2026-01-31'' \<and> date_well_formed ''2026-02-01'' \<and> ''2026-01-31'' \<le> ''2026-02-01''"
proof -
  have w: "date_well_formed ''2026-01-31''" "date_well_formed ''2026-02-01''"
    by (simp_all add: date_well_formed_def is_digit_def upt_rec)
  then show ?thesis
    using iso_dates_ordered [OF w] by (simp add: date_year_def date_month_def read_nat_def digit_value_def)
qed

text \<open>What \<open>validated_posting_date\<close> returns: today, or a real date in the allowed years.\<close>

lemma validated_posting_date_cases:
  assumes "validated_posting_date x today p = Inr date"
  shows "date = today \<or> real_date x date"
  using assms by (auto simp: validated_posting_date_def Let_def result_simps split: option.splits json.splits if_splits)

end
