(* ===== verification/Sample.thy ===== *)
theory Sample
  imports Engine_Theorems Dates
begin

text \<open>
  A concrete company for the instances of the theorems: library code as simple total functions, an
  empty store, a customer deposit of 100 and a stock receipt of 5 units at 10, each submitted and
  committed by evaluation of the model.
\<close>

definition sample_ext :: ext where
  "sample_ext = \<lparr>ext_from_str = (\<lambda>_. None), ext_to_string = (\<lambda>_. ''{}''),
     ext_from_ymd = (\<lambda>y m d. 0 < m \<and> m \<le> 12 \<and> 0 < d \<and> d \<le> 28),
     ext_sha256 = (\<lambda>_. replicate 32 CHR ''0''), ext_hex = (\<lambda>s. s)\<rparr>"

definition sample_env :: env where
  "sample_env = \<lparr>ev_now = 0, ev_today = ''2026-01-15'', ev_audit_id = ''a1''\<rparr>"

definition sample_actor :: actor where
  "sample_actor = actor_user ''u1'' None"

lemmas [eval_simps] = trim_graphic graphic_def

lemmas engine_eval = submit_payload_def validated_posting_date_def check_period_lock_def company_settings_of_def
  default_settings_def posted_document_of_def validate_c5_document_def validate_deposit_def refuse_foreign_rate_def
  sent_number_def money_field_def resolve_account_fallbacks_def fallbacks_for_def fallback_account_def invoice_rules_def
  derive_rows_def derive_stock_rows_def voucher_items_def kept_rows_def monetary_rows_def derive_subledger_rows_def
  derive_monetary_gl_def deposit_gl_def is_base_stamped_def cost_stock_movements_def cost_start_def stock_gl_legs_def
  check_balanced_def check_group_accounts_def group_account_step_def check_negative_stock_def empty_ledgers_def
  company_document_of_def acct_def gl_name_def ctx_gl_def load_items_def items_of_ids_def array_of_def items_of_def
  object_rows_def sort_dedup_def

section \<open>A customer deposit\<close>

definition sample_deposit :: submit_command where
  "sample_deposit = \<lparr>sc_doctype = ''Customer Deposit'', sc_document_id = Some ''D1'',
     sc_payload = [(''amount'', JNum (JInt 100)), (''customer'', JStr ''C1'')], sc_items = [],
     sc_idempotency_key = Some ''key1'', sc_offline_fiscal = False\<rparr>"

lemma sample_deposit_sel [simp]:
  "sc_doctype sample_deposit = ''Customer Deposit''" "sc_document_id sample_deposit = Some ''D1''"
  "sc_idempotency_key sample_deposit = Some ''key1''" "\<not> sc_offline_fiscal sample_deposit"
  by (simp_all add: sample_deposit_def)

definition sample_deposit_payload :: jmap where
  "sample_deposit_payload =
     [(''amount'', JNum (JInt 100)), (''cash_account'', JStr ''Cash''), (''customer'', JStr ''C1''),
      (''deposit_account'', JStr ''Customer Deposits''), (''items'', JArr []), (''posting_date'', JStr ''2026-01-15'')]"

lemma sample_payload:
  "submit_payload sample_ext sample_env empty_store ''co'' sample_deposit ''D1''
     = Inr (''2026-01-15'', sample_deposit_payload, None)"
  by (simp add: sample_env_def sample_deposit_def sample_deposit_payload_def eval_simps engine_eval Let_def)

definition sample_ctx :: row_context where
  "sample_ctx = \<lparr>cx_company = ''co'', cx_document_id = ''D1'', cx_doctype = ''Customer Deposit'',
     cx_posting_date = ''2026-01-15'', cx_batch_id = ''PB-D1''\<rparr>"

definition sample_gl :: "gl_entry list" where
  "sample_gl = [ctx_gl sample_ctx ''GL-D1-cash'' ''Cash'' (Fin 100) (Fin 0) None None,
     ctx_gl sample_ctx ''GL-D1-liability'' ''Customer Deposits'' (Fin 0) (Fin 100) None None]"

definition sample_rows :: derived_rows where
  "sample_rows = \<lparr>dr_gl = sample_gl, dr_sles = [], dr_party = [], dr_tax = [], dr_ledgers = empty_ledgers\<rparr>"

lemma sample_derive: "derive_rows sample_ext empty_store sample_ctx sample_deposit_payload = sample_rows"
  by (simp add: sample_rows_def sample_gl_def sample_ctx_def sample_deposit_payload_def eval_simps engine_eval
      Let_def zero_f64_def)

lemma BALANCE_TOLERANCE_eq: "BALANCE_TOLERANCE = MONEY_EPS"
  by (simp add: BALANCE_TOLERANCE_def MONEY_EPS_def)

lemma fsum_eval: "fsum [] = Fin 0" "fsum (a # as) = foldl (+) (Fin 0 + a) as"
  by (simp_all add: fsum_def zero_f64_def)

lemma sample_checks:
  "check_balanced sample_gl = Inr ()" "check_group_accounts empty_store ''co'' sample_gl = Inr ()"
  by (simp_all add: sample_gl_def check_balanced_def BALANCE_TOLERANCE_eq ctx_gl_def fsum_eval eval_simps minus_f64_def
      abs_f64_def check_group_accounts_def group_account_step_def company_document_of_def sort_dedup_def
      insort_key.simps)

definition sample_commit :: posting_commit_rec where
  "sample_commit = submit_commit sample_env ''co'' sample_deposit ''D1'' sample_actor ''2026-01-15''
     sample_deposit_payload None sample_rows [] [] []"

lemma sample_build: "build_submit sample_ext sample_env empty_store ''co'' sample_deposit ''D1'' sample_actor = Inr sample_commit"
  using sample_checks
  by (simp add: build_submit_def sample_payload sample_derive [unfolded sample_ctx_def] sample_commit_def Let_def)
    (simp add: sample_rows_def empty_ledgers_def check_negative_stock_def)

definition sample_state :: inner where
  "sample_state = commit_apply sample_ext 0 sample_commit empty_store"

definition sample_outcome :: commit_outcome where
  "sample_outcome = \<lparr>oc_response = numbered_response empty_store sample_commit, oc_replayed = False\<rparr>"

lemma sample_outcome_fresh [simp]: "\<not> oc_replayed sample_outcome"
  by (simp add: sample_outcome_def)

lemma sample_commit_sel [simp]:
  "pc_company sample_commit = ''co''" "pc_series_key sample_commit = Some ''DEP''" "pc_numbering_floors sample_commit = []"
  "pc_gl_entries sample_commit = sample_gl" "pc_stock_ledger_entries sample_commit = []" "pc_settlements sample_commit = []"
  "pc_idempotency_key sample_commit = Some ''key1''" "doc_key_of sample_commit = (''co'', ''Customer Deposit'', ''D1'')"
  "pc_outstanding_updates sample_commit = []" "pd_docstatus (pc_document sample_commit) = 1"
  by (simp_all add: sample_commit_def sample_rows_def series_key_def doc_key_of_def)

lemma sample_commit_checks: "commit_checks empty_store sample_commit = Inr ()"
  by (simp add: commit_checks_def lock_check_def deposit_check_def solo_check_def existence_check_def number_check_def
      till_check_def sample_commit_def sample_rows_def lock_violation_def current_lock_def expectations_def
      empty_ledgers_def ensure_def)

lemma sample_post: "posting_commit sample_ext 0 sample_commit empty_store = (Inr sample_outcome, sample_state)"
proof -
  have "replayed_response empty_store sample_commit = None" by (simp add: replayed_response_def)
  then show ?thesis by (simp add: posting_commit_def sample_commit_checks sample_outcome_def sample_state_def)
qed

lemma sample_submit:
  "submit_document sample_ext sample_env (\<lambda>_ s. s) ''fresh'' ''co'' sample_deposit sample_actor empty_store
     = (Inr sample_outcome, sample_state)"
proof -
  have "replay empty_store ''co'' (Some ''key1'') = None"
    by (simp add: replay_def idempotent_response_def)
  moreover have "ev_now sample_env = 0" by (simp add: sample_env_def)
  moreover have "commit_loop MAX_RETRIES (\<lambda>s. build_submit sample_ext sample_env s ''co'' sample_deposit ''D1'' sample_actor)
      (\<lambda>_ s. s) sample_ext 0 ''Customer Deposit'' ''D1'' empty_store = (Inr sample_outcome, sample_state)"
    by (rule commit_loop_first [where k = sample_commit]) (simp_all add: sample_build sample_post)
  ultimately show ?thesis by (simp add: submit_document_def POSTED_DOCTYPES_def)
qed

section \<open>Its cancellation\<close>

definition sample_document :: posted_document where
  "sample_document = \<lparr>pd_id = ''D1'', pd_company = ''co'', pd_doctype = ''Customer Deposit'', pd_payload = JObj sample_deposit_payload,
     pd_docstatus = 1, pd_official_number = Some ''DEP-00001'', pd_created_at = 0\<rparr>"

definition sample_cancel :: cancel_command where
  "sample_cancel = \<lparr>cc_doctype = ''Customer Deposit'', cc_document_id = ''D1'', cc_idempotency_key = Some ''key2''\<rparr>"

lemma sample_cancel_sel [simp]:
  "cc_doctype sample_cancel = ''Customer Deposit''" "cc_document_id sample_cancel = ''D1''" "cc_idempotency_key sample_cancel = Some ''key2''"
  by (simp_all add: sample_cancel_def)

lemma replicate_four: "replicate 4 a = [a, a, a, a]"
  by (simp add: numeral_eq_Suc)

lemma char_of_49: "char_of (49 :: nat) = CHR ''1''"
  using char_of_char [of "CHR ''1''", where 'a = nat] by simp

lemma sample_numbered: "numbered_document empty_store sample_commit = sample_document"
  by (simp add: numbered_document_def allocated_number_def next_value_def i64_max_def)
    (simp add: sample_commit_def submit_commit_def Let_def sample_document_def sample_env_def format_number_def pad5_def
      show_nat.simps digit_char_def replicate_four char_of_49)

lemma sample_state_sel [simp]:
  "documents sample_state = [((''co'', ''Customer Deposit'', ''D1''), sample_document)]"
  "settings sample_state ''co'' = None" "gl_entries sample_state ''co'' = sample_gl" "stock_ledger sample_state ''co'' = []"
  "settlements sample_state ''co'' = []" "series sample_state (''co'', ''DEP'') = 1"
  "idempotency sample_state (''co'', ''key1'') = Some (oc_response sample_outcome)" "idempotency sample_state (''co'', ''key2'') = None"
  by (simp_all add: sample_state_def commit_documents_def sample_numbered series_after_def raise_floors_def next_value_def
      i64_max_def sample_outcome_def)

lemma sample_keys_ok: "keys_ok sample_state"
  by (simp add: keys_ok_def sample_document_def)

lemma sample_real_date: "real_date sample_ext ''2026-01-15''"
  by (simp add: real_date_def date_well_formed_def is_digit_def upt_rec date_year_def date_month_def date_day_def read_nat_def
      digit_value_def MIN_POSTING_YEAR_def MAX_POSTING_YEAR_def sample_ext_def)

lemma sample_cancel_checks:
  "cancel_checks sample_ext sample_env sample_state ''co'' sample_cancel
     = Inr (sample_document, ''2026-01-15'', Some (Release ''D1''))"
proof -
  have "validated_posting_date sample_ext (ev_today sample_env) sample_deposit_payload = Inr ''2026-01-15''"
    by (simp add: validated_posting_date_def sample_deposit_payload_def eval_simps Let_def sample_real_date)
  then show ?thesis
    by (simp add: cancel_checks_def posted_document_of_def sample_document_def settled_check_def SETTLEABLE_DOCTYPES_def
        check_period_lock_def company_settings_of_def default_settings_def release_guard_def deposit_applications_def
        deposit_guard_violation_def live_applications_def Let_def ensure_def ok_or_def)
qed

definition sample_cancel_commit :: posting_commit_rec where
  "sample_cancel_commit = cancel_commit sample_env sample_state ''co'' sample_cancel sample_actor sample_document ''2026-01-15''
     (Some (Release ''D1'')) []"

lemma sample_build_cancel:
  "build_cancel sample_ext sample_env sample_state ''co'' sample_cancel sample_actor = Inr sample_cancel_commit"
  by (simp add: build_cancel_def sample_cancel_checks sample_cancel_commit_def reversed_sles_def sles_for_voucher_def
      reversal_ledgers_def empty_ledgers_def check_negative_stock_def Let_def)

lemma sample_cancel_passes: "commit_checks sample_state sample_cancel_commit = Inr ()"
proof -
  have "pc_till_binding sample_cancel_commit = None" by (simp add: sample_cancel_commit_def cancel_commit_def Let_def)
  moreover have "doc_key_of sample_cancel_commit = (''co'', ''Customer Deposit'', ''D1'')"
    by (simp add: sample_cancel_commit_def doc_key_of_def sample_document_def)
  ultimately show ?thesis
    by (simp add: commit_checks_def lock_check_def deposit_check_def solo_check_def existence_check_def number_check_def till_check_def)
      (simp add: sample_cancel_commit_def lock_violation_def current_lock_def deposit_applications_def deposit_guard_violation_def
        live_applications_def expectations_def reversed_sles_def sles_for_voucher_def reversal_ledgers_def empty_ledgers_def
        ensure_def sample_document_def Let_def)
qed

definition sample_cancel_outcome :: commit_outcome where
  "sample_cancel_outcome = \<lparr>oc_response = numbered_response sample_state sample_cancel_commit, oc_replayed = False\<rparr>"

definition sample_cancelled :: inner where
  "sample_cancelled = commit_apply sample_ext 0 sample_cancel_commit sample_state"

lemma sample_cancel_post:
  "posting_commit sample_ext 0 sample_cancel_commit sample_state = (Inr sample_cancel_outcome, sample_cancelled)"
proof -
  have "replayed_response sample_state sample_cancel_commit = None"
    by (simp add: replayed_response_def sample_cancel_commit_def)
  then show ?thesis by (simp add: posting_commit_def sample_cancel_passes sample_cancel_outcome_def sample_cancelled_def)
qed

lemma sample_cancel_run:
  "cancel_document sample_ext sample_env (\<lambda>_ s. s) ''co'' sample_cancel sample_actor sample_state
     = (Inr sample_cancel_outcome, sample_cancelled) \<and> \<not> oc_replayed sample_cancel_outcome"
proof -
  have "ev_now sample_env = 0" "\<not> oc_replayed sample_cancel_outcome" by (simp_all add: sample_env_def sample_cancel_outcome_def)
  moreover from this have "commit_loop MAX_RETRIES (\<lambda>s. build_cancel sample_ext sample_env s ''co'' sample_cancel sample_actor)
      (\<lambda>_ s. s) sample_ext 0 ''Customer Deposit'' ''D1'' sample_state = (Inr sample_cancel_outcome, sample_cancelled)"
    by (intro commit_loop_first [where k = sample_cancel_commit]) (simp_all add: sample_build_cancel sample_cancel_post)
  ultimately show ?thesis by (simp add: cancel_document_def replay_def idempotent_response_def)
qed

end
