(* ===== verification/Sample_Stock.thy ===== *)
theory Sample_Stock
  imports Sample
begin

text \<open>
  A stock receipt of 5 units at 10 submitted to an empty store, by evaluation of the model: the
  costed row, its GL pair, the ledger cache, and the commit.
\<close>

definition sample_receipt :: submit_command where
  "sample_receipt = \<lparr>sc_doctype = ''Stock Entry'', sc_document_id = Some ''S1'',
     sc_payload = [(''posting_date'', JStr ''2026-01-15''), (''stock_entry_type'', JStr ''Material Receipt'')],
     sc_items = [JObj [(''item'', JStr ''I1''), (''qty'', JNum (JInt 5)), (''target_warehouse'', JStr ''W1''),
       (''valuation_rate'', JNum (JInt 10))]],
     sc_idempotency_key = None, sc_offline_fiscal = False\<rparr>"

lemma sample_receipt_sel [simp]:
  "sc_doctype sample_receipt = ''Stock Entry''" "sc_document_id sample_receipt = Some ''S1''"
  "sc_idempotency_key sample_receipt = None" "\<not> sc_offline_fiscal sample_receipt"
  by (simp_all add: sample_receipt_def)

definition stock_payload :: jmap where
  "stock_payload =
     [(''items'', JArr [JObj [(''item'', JStr ''I1''), (''qty'', JNum (JInt 5)), (''target_warehouse'', JStr ''W1''),
       (''valuation_rate'', JNum (JInt 10))]]), (''posting_date'', JStr ''2026-01-15''), (''stock_entry_type'', JStr ''Material Receipt'')]"

lemma stock_payload_eq:
  "submit_payload sample_ext sample_env empty_store ''co'' sample_receipt ''S1'' = Inr (''2026-01-15'', stock_payload, None)"
  by (simp add: sample_receipt_def stock_payload_def eval_simps engine_eval Let_def sample_real_date)

definition stock_ctx :: row_context where
  "stock_ctx = \<lparr>cx_company = ''co'', cx_document_id = ''S1'', cx_doctype = ''Stock Entry'',
     cx_posting_date = ''2026-01-15'', cx_batch_id = ''PB-S1''\<rparr>"

definition stock_row :: stock_ledger_entry where
  "stock_row = ctx_sle stock_ctx ''SLE-S1-0-in'' ''Receipt'' ''I1'' ''W1'' (Fin 5) (Fin 10) None"

lemma stock_row_sel [simp]:
  "sle_item stock_row = ''I1''" "sle_warehouse stock_row = ''W1''" "sle_qty_change stock_row = Fin 5"
  "sle_valuation_rate stock_row = Fin 10" "sle_trans_type stock_row = ''Receipt''" "sle_uom stock_row = None"
  "sle_id stock_row = ''SLE-S1-0-in''" "sle_is_reversal stock_row = False"
  by (simp_all add: stock_row_def ctx_sle_def)

definition stock_cache :: ledgers where
  "stock_cache = \<lparr>lg_rows = [((''I1'', ''W1''), [row_of_sle stock_row])], lg_prior_counts = [((''I1'', ''W1''), 0)]\<rparr>"

lemma char_of_48: "char_of (48 :: nat) = CHR ''0''"
  using char_of_char [of "CHR ''0''", where 'a = nat] by simp

lemma map_filter_none: "List.map_filter (\<lambda>_. None) xs = []"
  by (induction xs) (simp_all add: List.map_filter_simps)

lemma foldl_same: "foldl (\<lambda>m _. m) z xs = z"
  by (induction xs) simp_all

lemma EPS_Fin:
  obtains e where "EPS = Fin e" "0 < e" "e \<le> 1"
proof -
  have "rnd (1 / 16777216) = Fin (1 / 16777216)" "rnd (1 / 8388608) = Fin (1 / 8388608)"
    using round_value_dyadic [of 1 "-24"] round_value_dyadic [of 1 "-23"]
    by (simp_all add: pow2_def rnd_def)
  then show ?thesis
    using rnd_mono [of "1 / 16777216" "1 / 10000000"] rnd_mono [of "1 / 10000000" "1 / 8388608"] that
    unfolding EPS_def by (fastforce elim: lit_between)
qed

lemma EPS_less [simp]: "x \<le> 0 \<Longrightarrow> \<not> EPS < Fin x" "1 \<le> x \<Longrightarrow> \<not> Fin x < EPS"
proof -
  obtain e where e: "EPS = Fin e" "0 < e" "e \<le> 1" by (rule EPS_Fin)
  show "x \<le> 0 \<Longrightarrow> \<not> EPS < Fin x" "1 \<le> x \<Longrightarrow> \<not> Fin x < EPS"
    unfolding e(1) using e(2,3) by simp_all
qed

lemma stock_items: "voucher_items sample_ext empty_store stock_ctx stock_payload = Map.empty"
  by (simp add: voucher_items_def load_items_def items_of_ids_def company_document_of_def Let_def map_filter_none foldl_same)

lemma stock_kept: "kept_rows sample_ext empty_store stock_ctx stock_payload = [stock_row]"
  by (simp add: kept_rows_def stock_items)
    (simp add: derive_stock_rows_def stock_row_def stock_ctx_def stock_payload_def stock_entry_rows_def stock_entry_line_def
      stock_entry_trans_type_def items_of_def array_of_def object_rows_def digit_char_def char_of_48 eval_simps ctx_sle_def)

lemma stock_costed:
  "cost_stock_movements empty_store ''co'' [stock_row] Map.empty stock_payload = ([stock_row], stock_cache)"
proof -
  have "scale_row Map.empty stock_row = (1, False, stock_row)"
    by (simp add: scale_row_def Let_def eval_simps minus_f64_def abs_f64_def)
  moreover have "obj_get stock_payload ''is_return'' = None" by (simp add: stock_payload_def eval_simps)
  ultimately have "cost_one empty_store ''co'' Map.empty stock_payload cost_start stock_row = (stock_row, cost_start)"
    by (simp add: cost_one_def eval_simps)
  then show ?thesis
    by (simp add: cost_stock_movements_def cost_row_def cost_start_def push_row_def prior_for_def rows_for_def empty_ledgers_def
        sles_for_pair_def stock_cache_def Let_def bt_insert.simps)
qed

definition stock_gl :: "gl_entry list" where
  "stock_gl = stock_gl_pair stock_ctx Map.empty (company_settings_of empty_store ''co'') stock_row"

definition stock_rows :: derived_rows where
  "stock_rows = \<lparr>dr_gl = stock_gl, dr_sles = [stock_row], dr_party = [], dr_tax = [], dr_ledgers = stock_cache\<rparr>"

lemma stock_derive: "derive_rows sample_ext empty_store stock_ctx stock_payload = stock_rows"
proof -
  have "monetary_rows stock_ctx stock_payload = ([], [])" "snd (derive_subledger_rows stock_ctx stock_payload) = []"
    by (simp_all add: stock_ctx_def stock_payload_def eval_simps engine_eval)
  moreover have "cx_company stock_ctx = ''co''" "cx_doctype stock_ctx = ''Stock Entry''" by (simp_all add: stock_ctx_def)
  ultimately show ?thesis
    by (simp add: derive_rows_def stock_kept stock_items stock_costed stock_rows_def stock_gl_def stock_gl_legs_def)
qed

definition stock_debit :: gl_entry where
  "stock_debit = base_leg (ctx_gl stock_ctx ''SLE-S1-0-in-gl-d'' ''Stock'' (Fin 50) (Fin 0) None None)"

definition stock_credit :: gl_entry where
  "stock_credit = base_leg (ctx_gl stock_ctx ''SLE-S1-0-in-gl-c'' ''Stock Adjustment'' (Fin 0) (Fin 50) None None)"

lemma stock_gl_eq: "stock_gl = [stock_debit, stock_credit]"
proof -
  have "sle_qty_change stock_row * sle_valuation_rate stock_row = Fin 50" by (simp add: eval_simps)
  then show ?thesis
    by (simp add: stock_gl_def stock_gl_pair_def stock_debit_def stock_credit_def is_sale_def is_purchase_def stock_ctx_def
        resolve_account_def company_settings_of_def default_settings_def Let_def eval_simps abs_f64_def zero_f64_def)
qed

lemma stock_gl_checks: "check_balanced stock_gl = Inr ()" "check_group_accounts empty_store ''co'' stock_gl = Inr ()"
  by (simp_all add: stock_gl_eq stock_debit_def stock_credit_def base_leg_def check_balanced_def BALANCE_TOLERANCE_eq ctx_gl_def
      fsum_eval eval_simps minus_f64_def abs_f64_def check_group_accounts_def group_account_step_def company_document_of_def
      sort_dedup_def insort_key.simps)

lemma stock_not_negative: "check_negative_stock st stock_cache = Inr ()"
proof -
  have "bs_actual_qty (compute_balance [row_of_sle stock_row]) = Fin 5"
    using compute_balance_qty [of "[row_of_sle stock_row]" "[5]"] by (simp add: row_of_sle_def)
  then show ?thesis
    by (simp add: check_negative_stock_def stock_cache_def negative_pair_def Let_def ensure_def zero_f64_def)
qed

definition stock_commit :: posting_commit_rec where
  "stock_commit = submit_commit sample_env ''co'' sample_receipt ''S1'' sample_actor ''2026-01-15''
     stock_payload None stock_rows [] [] []"

lemma stock_build: "build_submit sample_ext sample_env empty_store ''co'' sample_receipt ''S1'' sample_actor = Inr stock_commit"
  using stock_gl_checks stock_not_negative
  by (simp add: build_submit_def stock_payload_eq stock_derive [unfolded stock_ctx_def] stock_commit_def Let_def)
    (simp add: stock_rows_def)

lemma stock_commit_sel [simp]:
  "pc_company stock_commit = ''co''" "pc_series_key stock_commit = Some ''STE''" "pc_numbering_floors stock_commit = []"
  "pc_stock_ledger_entries stock_commit = [stock_row]" "pc_sle_expectations stock_commit = [(''I1'', ''W1'', 0)]"
  "pc_idempotency_key stock_commit = None" "doc_key_of stock_commit = (''co'', ''Stock Entry'', ''S1'')"
  by (simp_all add: stock_commit_def stock_rows_def series_key_def doc_key_of_def expectations_def stock_cache_def)

definition stock_state :: inner where
  "stock_state = commit_apply sample_ext 0 stock_commit empty_store"

definition stock_outcome :: commit_outcome where
  "stock_outcome = \<lparr>oc_response = numbered_response empty_store stock_commit, oc_replayed = False\<rparr>"

lemma stock_commit_checks: "commit_checks empty_store stock_commit = Inr ()"
  by (simp add: commit_checks_def lock_check_def deposit_check_def solo_check_def existence_check_def number_check_def
      till_check_def expectation_check_def pair_count_def sles_for_pair_def ensure_def)
    (simp add: stock_commit_def lock_violation_def current_lock_def ensure_def)

lemma stock_post: "posting_commit sample_ext 0 stock_commit empty_store = (Inr stock_outcome, stock_state)"
proof -
  have "replayed_response empty_store stock_commit = None" by (simp add: replayed_response_def)
  then show ?thesis by (simp add: posting_commit_def stock_commit_checks stock_outcome_def stock_state_def)
qed

lemma stock_reachable: "reachable sample_ext (stock_state, {})"
proof -
  have "sys_step sample_ext (empty_store, {}) (empty_store, {stock_commit})"
    using stock_build by (rule sys_step.prepare_submit [rotated 2]) (simp_all add: POSTED_DOCTYPES_def)
  moreover have "commit_fits sample_ext 0 stock_commit empty_store"
    by (simp add: commit_fits_def i64_max_def commit_records_def replication_mutations_def commit_sources_def
        log_records_def max_log_def commit_documents_def)
      (simp add: stock_commit_def stock_rows_def stock_gl_eq stock_cache_def recompute_bins_def)
  then have "sys_step sample_ext (empty_store, {stock_commit}) (snd (posting_commit sample_ext 0 stock_commit empty_store), {stock_commit} - {stock_commit})"
    by (intro sys_step.commit) simp
  ultimately show ?thesis
    unfolding reachable_def stock_post by (simp add: rtranclp.rtrancl_into_rtrancl converse_rtranclp_into_rtranclp)
qed

end
