(* ===== verification/Sample_Cancel.thy ===== *)
theory Sample_Cancel
  imports Sample_Stock
begin

text \<open>
  Cancellations with stock and with settlements: a store that holds the stock receipt, an invoice over 100 and a payment that
  settles it, and the cancellations of the receipt and of the payment by evaluation of the model.
\<close>

lemma cancel_runs:
  assumes "build_cancel x ev s c cmd act = Inr k" "cc_idempotency_key cmd = None" "commit_checks s k = Inr ()"
  shows "cancel_document x ev (\<lambda>_ s. s) c cmd act s =
      (Inr \<lparr>oc_response = numbered_response s k, oc_replayed = False\<rparr>, commit_apply x (ev_now ev) k s)"
    and "cancel_attempt x ev (\<lambda>_ s. s) c cmd act s = (s, s)"
proof -
  have "pc_idempotency_key k = None" using assms(1) by (cases rule: build_cancelE) (simp add: assms(2))
  then have p: "posting_commit x (ev_now ev) k s = (Inr \<lparr>oc_response = numbered_response s k, oc_replayed = False\<rparr>, commit_apply x (ev_now ev) k s)"
    by (simp add: posting_commit_def replayed_response_def assms(3))
  show "cancel_document x ev (\<lambda>_ s. s) c cmd act s =
      (Inr \<lparr>oc_response = numbered_response s k, oc_replayed = False\<rparr>, commit_apply x (ev_now ev) k s)"
    using commit_loop_first [where build = "\<lambda>s. build_cancel x ev s c cmd act" and interfere = "\<lambda>_ s. s", OF assms(1) p]
    by (simp add: cancel_document_def replay_def assms(2))
  show "cancel_attempt x ev (\<lambda>_ s. s) c cmd act s = (s, s)"
    using deciding_first [where build = "\<lambda>s. build_cancel x ev s c cmd act" and interfere = "\<lambda>_ s. s", OF assms(1) p]
    by (simp add: cancel_attempt_def)
qed

lemma mirror_fields:
  "sle_mirrors e r \<Longrightarrow> sle_item r = sle_item e \<and> sle_warehouse r = sle_warehouse e \<and> sle_qty_change r = - sle_qty_change e"
  "settlement_mirrors u v \<Longrightarrow> st_invoice_voucher_no v = st_invoice_voucher_no u \<and> st_allocated_amount v = - st_allocated_amount u"
  by (cases e; cases r; simp add: sle_mirrors_def) (cases u; cases v; simp add: settlement_mirrors_def)

definition traded_document :: "string \<Rightarrow> string \<Rightarrow> jmap \<Rightarrow> posted_document" where
  "traded_document dt d payload = \<lparr>pd_id = d, pd_company = ''co'', pd_doctype = dt, pd_payload = JObj payload,
     pd_docstatus = 1, pd_official_number = None, pd_created_at = 0\<rparr>"

definition allocation :: settlement where
  "allocation = \<lparr>st_id = ''ST-P1-0'', st_company = ''co'', st_payment_voucher_type = ''Payment Entry'', st_payment_voucher_no = ''P1'',
     st_invoice_voucher_type = ''Sales Invoice'', st_invoice_voucher_no = ''I1'', st_party_type = ''Customer'', st_party = Some ''C1'',
     st_allocated_amount = Fin 100, st_posting_date = ''2026-01-15'', st_is_reversal = False, st_batch_id = ''PB-P1''\<rparr>"

definition traded :: inner where
  "traded = empty_store\<lparr>
     documents := [((''co'', ''Stock Entry'', ''S1''), traded_document ''Stock Entry'' ''S1'' stock_payload),
       ((''co'', ''Sales Invoice'', ''I1''), traded_document ''Sales Invoice'' ''I1'' [(''grand_total'', JNum (JInt 100))]),
       ((''co'', ''Payment Entry'', ''P1''), traded_document ''Payment Entry'' ''P1'' [(''posting_date'', JStr ''2026-01-15'')])],
     stock_ledger := (\<lambda>_. [])(''co'' := [stock_row\<lparr>sle_seq := 1\<rparr>]),
     settlements := (\<lambda>_. [])(''co'' := [allocation])\<rparr>"

lemma traded_keys: "keys_ok traded"
  by (simp add: keys_ok_def traded_def traded_document_def)

definition receipt_cancel :: cancel_command where
  "receipt_cancel = \<lparr>cc_doctype = ''Stock Entry'', cc_document_id = ''S1'', cc_idempotency_key = None\<rparr>"

definition payment_cancel :: cancel_command where
  "payment_cancel = \<lparr>cc_doctype = ''Payment Entry'', cc_document_id = ''P1'', cc_idempotency_key = None\<rparr>"

lemma cancel_sels [simp]:
  "cc_doctype receipt_cancel = ''Stock Entry''" "cc_document_id receipt_cancel = ''S1''" "cc_idempotency_key receipt_cancel = None"
  "cc_doctype payment_cancel = ''Payment Entry''" "cc_document_id payment_cancel = ''P1''" "cc_idempotency_key payment_cancel = None"
  by (simp_all add: receipt_cancel_def payment_cancel_def)

lemma stock_row_voucher [simp]: "sle_voucher_no stock_row = ''S1''"
  by (simp add: stock_row_def ctx_sle_def stock_ctx_def)

lemma traded_rows:
  "sles_for_voucher traded ''co'' ''S1'' = [stock_row\<lparr>sle_seq := 1\<rparr>]" "sles_for_voucher traded ''co'' ''P1'' = []"
  "settlements_for_payment traded ''co'' ''S1'' = []" "settlements_for_payment traded ''co'' ''P1'' = [allocation]"
  "sles_for_pair traded ''co'' ''I1'' ''W1'' = [stock_row\<lparr>sle_seq := 1\<rparr>]"
  by (simp_all add: traded_def sles_for_voucher_def settlements_for_payment_def sles_for_pair_def allocation_def)

section \<open>The receipt\<close>

definition receipt_returned :: ledgers where
  "receipt_returned = reversal_ledgers traded ''co'' (reversed_sles traded ''co'' ''S1'')"

lemma receipt_returned_eq: "receipt_returned = \<lparr>lg_rows = [((''I1'', ''W1''), [\<lparr>lr_qty_change = Fin 5, lr_valuation_rate = Fin 10\<rparr>,
    \<lparr>lr_qty_change = - Fin 5, lr_valuation_rate = Fin 10\<rparr>])], lg_prior_counts = [((''I1'', ''W1''), 1)]\<rparr>"
  by (simp add: receipt_returned_def reversal_ledgers_def reversed_sles_def reverse_sle_def push_row_def prior_for_def rows_for_def
      empty_ledgers_def traded_rows row_of_sle_def bt_insert.simps Let_def)

lemma receipt_nonnegative: "check_negative_stock st receipt_returned = Inr ()"
proof -
  have "bs_actual_qty (compute_balance [\<lparr>lr_qty_change = Fin 5, lr_valuation_rate = Fin 10\<rparr>,
      \<lparr>lr_qty_change = - Fin 5, lr_valuation_rate = Fin 10\<rparr>]) = Fin 0"
    using compute_balance_qty [of "[\<lparr>lr_qty_change = Fin 5, lr_valuation_rate = Fin 10\<rparr>,
      \<lparr>lr_qty_change = - Fin 5, lr_valuation_rate = Fin 10\<rparr>]" "[5, - 5]"] by simp
  then show ?thesis
    by (simp add: check_negative_stock_def receipt_returned_eq negative_pair_def Let_def ensure_def zero_f64_def)
qed

lemma receipt_cancel_checks:
  "cancel_checks sample_ext sample_env traded ''co'' receipt_cancel
     = Inr (traded_document ''Stock Entry'' ''S1'' stock_payload, ''2026-01-15'', None)"
proof -
  have "validated_posting_date sample_ext (ev_today sample_env) stock_payload = Inr ''2026-01-15''"
    by (simp add: validated_posting_date_def stock_payload_def eval_simps Let_def sample_real_date)
  then show ?thesis
    by (simp add: cancel_checks_def posted_document_of_def traded_def traded_document_def settled_check_def SETTLEABLE_DOCTYPES_def
        check_period_lock_def company_settings_of_def default_settings_def release_guard_def ensure_def ok_or_def)
qed

definition receipt_cancel_commit :: posting_commit_rec where
  "receipt_cancel_commit = cancel_commit sample_env traded ''co'' receipt_cancel sample_actor
     (traded_document ''Stock Entry'' ''S1'' stock_payload) ''2026-01-15'' None []"

lemma receipt_cancel_build:
  "build_cancel sample_ext sample_env traded ''co'' receipt_cancel sample_actor = Inr receipt_cancel_commit"
  using receipt_nonnegative by (simp add: build_cancel_def receipt_cancel_checks receipt_cancel_commit_def receipt_returned_def Let_def)

lemma cancel_commit_till: "pc_till_binding (cancel_commit ev s c cmd act doc date g ups) = None"
  by (simp add: cancel_commit_def Let_def)

lemma receipt_cancel_passes: "commit_checks traded receipt_cancel_commit = Inr ()"
  unfolding receipt_cancel_commit_def commit_checks_def
  by (simp add: lock_check_def deposit_check_def solo_check_def existence_check_def number_check_def till_check_def cancel_commit_till
      lock_violation_def current_lock_def doc_key_of_def Let_def receipt_returned_def [symmetric] receipt_returned_eq expectations_def
      expectation_check_def pair_count_def traded_rows ensure_def)
    (simp add: traded_def traded_document_def ensure_def)

section \<open>The payment\<close>

lemma payment_cancel_checks:
  "cancel_checks sample_ext sample_env traded ''co'' payment_cancel
     = Inr (traded_document ''Payment Entry'' ''P1'' [(''posting_date'', JStr ''2026-01-15'')], ''2026-01-15'', None)"
proof -
  have "validated_posting_date sample_ext (ev_today sample_env) [(''posting_date'', JStr ''2026-01-15'')] = Inr ''2026-01-15''"
    by (simp add: validated_posting_date_def eval_simps Let_def sample_real_date)
  then show ?thesis
    by (simp add: cancel_checks_def posted_document_of_def traded_def traded_document_def settled_check_def SETTLEABLE_DOCTYPES_def
        check_period_lock_def company_settings_of_def default_settings_def release_guard_def ensure_def ok_or_def)
qed

lemma payment_cancel_updates:
  "\<exists>ups. payment_outstanding_updates traded ''co'' (reversed_settlements traded ''co'' ''P1'') False = Inr ups"
  by (simp add: payment_outstanding_updates_def reversed_settlements_def traded_rows reverse_settlement_def allocation_def
      outstanding_update_def posted_document_of_def Let_def ensure_def)
    (simp add: traded_def traded_document_def ensure_def)

lemma payment_cancel_build:
  obtains ups where "build_cancel sample_ext sample_env traded ''co'' payment_cancel sample_actor = Inr
    (cancel_commit sample_env traded ''co'' payment_cancel sample_actor
      (traded_document ''Payment Entry'' ''P1'' [(''posting_date'', JStr ''2026-01-15'')]) ''2026-01-15'' None ups)"
proof -
  obtain ups where "payment_outstanding_updates traded ''co'' (reversed_settlements traded ''co'' ''P1'') False = Inr ups"
    using payment_cancel_updates by blast
  then show ?thesis
    by (intro that [of ups])
      (simp add: build_cancel_def payment_cancel_checks reversed_sles_def traded_rows reversal_ledgers_def empty_ledgers_def
        check_negative_stock_def Let_def)
qed

lemma payment_cancel_passes:
  "commit_checks traded (cancel_commit sample_env traded ''co'' payment_cancel sample_actor
      (traded_document ''Payment Entry'' ''P1'' [(''posting_date'', JStr ''2026-01-15'')]) ''2026-01-15'' None ups) = Inr ()"
  unfolding commit_checks_def
  by (simp add: lock_check_def deposit_check_def solo_check_def existence_check_def number_check_def till_check_def cancel_commit_till
      lock_violation_def current_lock_def doc_key_of_def Let_def reversed_sles_def traded_rows reversal_ledgers_def empty_ledgers_def
      expectations_def ensure_def)
    (simp add: traded_def traded_document_def ensure_def)

end
