(* ===== verification/Store_Theorems.thy ===== *)
theory Store_Theorems
  imports Posting_System
begin

text \<open>
  Correctness of the store: the mutation log, its pages and its read model, the history checkpoint,
  lost-history recovery, the books lock and the commit, on every reachable state.
\<close>

section \<open>The log\<close>

lemma reachable_log:
  assumes "reachable x (s, P)"
  shows "log_inv x c s" "proj_inv x c s"
  using reachable_inv [OF assms] by (simp_all add: sys_inv_def logs_ok_def)

lemma append_one_versions:
  "mutation_versions s \<subseteq>\<^sub>m mutation_versions (snd (append_one x now c r s))"
  "mutation_versions (snd (append_one x now c r s)) (c, mr_id r) = Some (snd (fst (append_one x now c r s)))"
  "fst (fst (append_one x now c r s)) = mr_id r"
  by (auto simp: append_one_def Let_def map_le_def split: option.splits)

lemma append_versions_mono: "mutation_versions s \<subseteq>\<^sub>m mutation_versions (snd (append_mutations x now c rs s))"
proof (induction rs arbitrary: s)
  case (Cons r rs)
  then show ?case using append_one_versions(1) [of s x now c r] map_le_trans by (fastforce simp: case_prod_beta)
qed simp

lemma map_le_the: "f \<subseteq>\<^sub>m g \<Longrightarrow> f k = Some v \<Longrightarrow> g k = Some v"
  by (metis domI map_le_def)

text \<open>Every record is answered with the version the log holds for its id.\<close>

lemma append_answers:
  "fst (append_mutations x now c rs s) =
     map (\<lambda>r. (mr_id r, the (mutation_versions (snd (append_mutations x now c rs s)) (c, mr_id r)))) rs"
proof (induction rs arbitrary: s)
  case (Cons r rs)
  note a = append_one_versions [where s = s and x = x and now = now and c = c and r = r]
  have "mutation_versions (snd (append_mutations x now c rs (snd (append_one x now c r s)))) (c, mr_id r)
      = Some (snd (fst (append_one x now c r s)))"
    by (rule map_le_the [OF append_versions_mono a(2)])
  moreover have "fst (append_one x now c r s) = (mr_id r, snd (fst (append_one x now c r s)))"
    using a(3) by (metis prod.collapse)
  ultimately show ?case by (simp add: case_prod_beta Cons.IH)
qed simp

lemma append_known_ids:
  assumes "log_inv x c s" "length (log_records s c) + length rs \<le> max_log"
  shows "mr_id ` set (log_records (snd (append_mutations x now c rs s)) c) = mr_id ` set (log_records s c) \<union> mr_id ` set rs"
    and "\<exists>new. log_records (snd (append_mutations x now c rs s)) c = log_records s c @ new \<and> set new \<subseteq> set rs"
proof -
  have "mr_id ` set (log_records (snd (append_mutations x now c rs s)) c) = mr_id ` set (log_records s c) \<union> mr_id ` set rs
    \<and> (\<exists>new. log_records (snd (append_mutations x now c rs s)) c = log_records s c @ new \<and> set new \<subseteq> set rs)"
    using assms
  proof (induction rs arbitrary: s)
    case (Cons r rs)
    let ?u = "snd (append_one x now c r s)"
    have u: "log_inv x c ?u" using append_one_inv [OF Cons.prems(1)] Cons.prems(2) by simp
    have new: "log_records ?u c = log_records s c @ (if mr_id r \<in> mr_id ` set (log_records s c) then [] else [r])"
      using append_one_known [OF Cons.prems(1), of r now] append_one_new(1) [OF Cons.prems(1), of r now] Cons.prems(2)
      by (auto simp: log_records_def)
    then have "length (log_records ?u c) + length rs \<le> max_log" using Cons.prems(2) by auto
    from Cons.IH [OF u this] show ?case using new by (auto simp: case_prod_beta)
  qed simp
  then show "mr_id ` set (log_records (snd (append_mutations x now c rs s)) c) = mr_id ` set (log_records s c) \<union> mr_id ` set rs"
    "\<exists>new. log_records (snd (append_mutations x now c rs s)) c = log_records s c @ new \<and> set new \<subseteq> set rs" by blast+
qed

text \<open>C16. A push appends each record the log does not hold, once, in order; versions stay 1, 2, 3
  without gaps, every record is answered with its version, and pushing the same batch again answers
  the same and changes nothing.\<close>

theorem push_exactly_once:
  assumes "reachable x (s, P)" "length (log_records s c) + length ms \<le> max_log"
    and "push_mutations x now c ms s = (answer, t)"
  shows "(\<exists>new. log_records t c = log_records s c @ new \<and> set new \<subseteq> set ms)
    \<and> distinct (map mr_id (log_records t c))
    \<and> mr_id ` set (log_records t c) = mr_id ` set (log_records s c) \<union> mr_id ` set ms
    \<and> map sd_version (mutations t c) = map int [1..<Suc (length (mutations t c))]
    \<and> answer = map (\<lambda>m. (mr_id m, the (mutation_versions t (c, mr_id m)))) ms
    \<and> push_mutations x now' c ms t = (answer, t)"
proof -
  note inv = reachable_log(1) [OF assms(1), of c]
  have t: "t = snd (append_mutations x now c ms s)" and answer: "answer = fst (append_mutations x now c ms s)"
    using assms(3) by (simp_all add: push_mutations_def)
  have tinv: "log_inv x c t" unfolding t using append_inv [OF inv assms(2)] by blast
  note ids = append_known_ids [OF inv assms(2), of now, folded t]
  have "snd (append_mutations x now' c ms t) = t" using append_known_batch [OF tinv] ids(1) by blast
  moreover from this have "fst (append_mutations x now' c ms t) = answer"
    using append_answers [of x now' c ms t] append_answers [of x now c ms s] by (simp add: answer t [symmetric])
  ultimately have "push_mutations x now' c ms t = (answer, t)" by (simp add: push_mutations_def prod_eq_iff)
  moreover have "answer = map (\<lambda>m. (mr_id m, the (mutation_versions t (c, mr_id m)))) ms"
    using append_answers [of x now c ms s] by (simp add: answer t)
  ultimately show ?thesis using ids log_invD(1,3) [OF tinv] by blast
qed

text \<open>A pull after version \<open>after\<close> returns exactly the next \<open>page\<close> records of the log in version
  order, each stamped with its version, says whether more follow, and reports the head of the log.\<close>

theorem pull_returns_page:
  assumes "reachable x (s, P)" "0 \<le> after" "0 \<le> page"
  shows "pull_mutations s c after page = \<lparr>
    pg_mutations = map stamped (take (nat page) (drop (nat after) (mutations s c))),
    pg_has_more = (nat after + nat page < length (mutations s c)),
    pg_head = int (length (mutations s c))\<rparr>"
  using pull_page [OF reachable_log(1) [OF assms(1)] assms(2,3)] log_invD(2) [OF reachable_log(1) [OF assms(1)]] by simp

text \<open>C17. The read model of documents is the fold of the log: rebuilding it from the log gives every
  row back, up to the time it was written.\<close>

theorem rebuild_gives_read_model:
  assumes "reachable x (s, P)"
  shows "same_row (company_document_of (rebuild_projection x now c s) c dt d) (company_document_of s c dt d)"
  using reachable_log [OF assms] by (rule rebuild_same)

section \<open>History\<close>

text \<open>C18. Two stores that answer a checkpoint at the same version with the same hash hold the same
  history up to it, entry by entry, ids and canonical records, unless SHA-256 collides on the bytes the
  two chains digested. This is what lets a device detect a server restored from an old backup.\<close>

theorem checkpoint_fixes_history:
  assumes "reachable x (s, P)" "reachable x (t, Q)" "0 \<le> v" "v \<le> counters s c" "v \<le> counters t c'"
    and "hash_at s c v = hash_at t c' v" "\<And>a. length (ext_sha256 x a) = 32"
    and "\<not> hash_collision x (digest_inputs x GENESIS (take (nat v) (log_entries s c))
           \<union> digest_inputs x GENESIS (take (nat v) (log_entries t c')))"
  shows "list_all2 (same_entry x) (take (nat v) (log_entries s c)) (take (nat v) (log_entries t c'))"
proof -
  note i = reachable_log(1) [OF assms(1), of c] reachable_log(1) [OF assms(2), of c']
  have "chain_value x (take (nat v) (log_entries s c)) = chain_value x (take (nat v) (log_entries t c'))"
    using assms(6) hash_at_chain [OF i(1) assms(3,4)] hash_at_chain [OF i(2) assms(3,5)] by simp
  moreover have "length (take (nat v) (log_entries s c)) = length (take (nat v) (log_entries t c'))"
    using assms(3-5) log_invD(2) [OF i(1)] log_invD(2) [OF i(2)] by (simp add: log_entries_def)
  ultimately show ?thesis using assms(7,8) by (intro chain_value_determines) auto
qed

text \<open>C19. After a device reports a document the server lost, no series issues its number again: in every later state, whatever
  store operations ran in between while no series counter stood at its 64-bit limit, the next number of the series is above the lost
  one. The report moves no counter down, and a repeated report is replayed.\<close>

theorem lost_number_not_reissued:
  assumes "record_lost_history c report entry s = ((response, False), t)" "r \<in> set (lh_lost report)"
    and "posted_document_of s c (lo_doctype r) (lo_document_id r) = None"
    and "series_key (lo_doctype r) = Some key" "lo_number r = Some (format_number key v)" "0 < v" "v \<le> i64_max"
    and "counted_run x t u" "series u (c, key) < i64_max" "pc_company k = c" "pc_series_key k = Some key"
  shows "(\<exists>w. v < w \<and> allocated_number u k = Some (format_number key w) \<and> format_number key w \<noteq> format_number key v)
    \<and> (\<forall>p. series s p \<le> series t p)
    \<and> record_lost_history c report entry' t = ((response, True), t)"
proof -
  let ?floors = "snd (lost_history_outcome report (map (lost_found s c) (lh_lost report)))"
  have t: "series t = raise_floors c ?floors (series s)" "history_recoveries t (c, lh_recovery_id report) = Some response"
    using assms(1) by (auto simp: record_lost_history_def Let_def case_prod_beta split: option.splits)
  have "(r, lost_found s c r) \<in> set (zip (lh_lost report) (map (lost_found s c) (lh_lost report)))"
    using assms(2) by (auto simp: in_set_conv_nth in_set_zip)
  moreover have "lost_found s c r = (False, snd (lost_found s c r))"
    using assms(3) by (simp add: lost_found_def posted_document_of_def)
  ultimately have mem: "(r, False, snd (lost_found s c r)) \<in> set (zip (lh_lost report) (map (lost_found s c) (lh_lost report)))"
    by metis
  have "Option.bind (lo_number r) (floor_for (lo_doctype r)) = Some (key, v)"
    using floor_for_format [OF assms(4,6,7)] assms(5) by simp
  from lost_fold_floor [OF mem this, of "([], [], [])"] obtain f where f: "map_of ?floors key = Some f" "v \<le> f"
    by (auto simp: lost_history_outcome_def Let_def case_prod_beta)
  have ge: "v \<le> series t (c, key)"
    using raise_floors_covers [OF map_of_SomeD [OF f(1)], of c "series s"] f(2) by (simp add: t(1))
  have later: "v \<le> series u (c, key)" using ge run_series [OF assms(8)] order_trans unfolding series_grow_def by blast
  then have "allocated_number u k = Some (format_number key (series u (c, key) + 1))"
    using assms(9-11) by (simp add: allocated_number_def next_value_def)
  moreover have "format_number key (series u (c, key) + 1) \<noteq> format_number key v"
    using format_number_inj [of "series u (c, key) + 1" v key] later assms(6) by simp
  moreover have "record_lost_history c report entry' t = ((response, True), t)" by (simp add: record_lost_history_def t(2))
  moreover have "series s p \<le> series t p" for p unfolding t(1) by (rule raise_floors_ge)
  ultimately show ?thesis using later by (auto intro!: exI [of _ "series u (c, key) + 1"])
qed

section \<open>Settings and the books lock\<close>

text \<open>The books lock moves by compare and set: a change is applied only against the lock the
  caller expected and writes its audit row with it; a change to the date already in force or against a
  moved lock leaves the store alone; saving the settings never moves the lock.\<close>

theorem books_lock_compare_and_set:
  "(case set_books_lock c change s of
      (Inl e, t) \<Rightarrow> t = s \<and> current_lock s c \<noteq> bl_expected_current change
    | (Inr out, t) \<Rightarrow> current_lock t c = bl_lock_date change \<and> bo_previous out = current_lock s c \<and>
        (if bo_changed out then current_lock s c = bl_expected_current change \<and> audit t = audit s @ [bl_audit change]
         else t = s))
    \<and> current_lock (put_company_settings c v s) c' = current_lock s c'"
proof -
  have "cs_books_lock_date (company_settings_of s c) = current_lock s c"
    by (simp add: company_settings_of_def current_lock_def default_settings_def split: option.splits)
  moreover have "current_lock (put_company_settings c v s) c' = current_lock s c'"
    by (simp add: put_company_settings_def current_lock_def)
  ultimately show ?thesis
    by (simp add: set_books_lock_def Let_def) (simp add: current_lock_def)
qed

section \<open>Permanence\<close>

text \<open>C20. What is posted stays: through any operations of the store, by any clients, the GL, the stock
  ledger and the settlements of every company only grow at the end, no posted document disappears, and
  a committed idempotency key keeps its response.\<close>

theorem posted_is_permanent:
  assumes "store_run x s t"
  shows "prefix (gl_entries s c) (gl_entries t c) \<and> prefix (stock_ledger s c) (stock_ledger t c)
    \<and> prefix (settlements s c) (settlements t c)
    \<and> (posted_document_of s c dt d \<noteq> None \<longrightarrow> posted_document_of t c dt d \<noteq> None)
    \<and> (\<forall>key r. idempotent_response s c key = Some r \<longrightarrow> idempotent_response t c key = Some r)"
  using run_grows [OF assms] run_persists [OF assms] unfolding ledgers_grow_def docs_persist_def
  by (auto simp: posted_document_of_def idempotent_response_def dest: map_le_the)

section \<open>Two limits of the design\<close>

text \<open>The commit does not look at settlements: whether a payment commits does not depend on what
  other payments settled since it was built. (The outstanding of an invoice is checked only when the
  payment is built.)\<close>

theorem commit_ignores_settlements:
  "commit_checks (s\<lparr>settlements := f\<rparr>) k = commit_checks s k"
proof -
  let ?s = "s\<lparr>settlements := f\<rparr>"
  have "expectation_check ?s = expectation_check s"
    by (intro ext) (simp add: expectation_check_def pair_count_def sles_for_pair_def)
  moreover have "lock_check ?s k = lock_check s k" by (simp add: lock_check_def current_lock_def split: option.split)
  moreover have "deposit_check ?s k = deposit_check s k"
    by (simp add: deposit_check_def posted_document_of_def deposit_applications_def split: option.split)
  moreover have "solo_check ?s k = solo_check s k" by (simp add: solo_check_def doc_key_of_def split: option.split)
  moreover have "existence_check ?s k = existence_check s k" by (simp add: existence_check_def doc_key_of_def Let_def split: option.split)
  moreover have "number_check ?s k = number_check s k" by (simp add: number_check_def doc_key_of_def split: option.split)
  moreover have "till_check ?s k = till_check s k" by (simp add: till_check_def doc_key_of_def split: option.split)
  ultimately show ?thesis by (simp only: commit_checks_def)
qed

text \<open>A lost-history report may carry a number up to the largest 64-bit integer; the next number
  of that series then wraps to a negative one.\<close>

theorem lost_floor_overflows:
  "let report = \<lparr>lh_recovery_id = ''r'', lh_lost = [\<lparr>lo_doctype = ''Sales Invoice'', lo_document_id = ''d'',
         lo_number = Some (format_number ''SINV'' i64_max), lo_posting_date = None, lo_total = None\<rparr>]\<rparr>;
       t = snd (record_lost_history c report entry empty_store)
   in series t (c, ''SINV'') = i64_max \<and> i64_succ (series t (c, ''SINV'')) < 0"
proof -
  have "floor_for ''Sales Invoice'' (format_number ''SINV'' i64_max) = Some (''SINV'', i64_max)"
    by (rule floor_for_format) (simp_all add: series_key_def i64_max_def)
  then show ?thesis
    by (simp add: record_lost_history_def Let_def lost_found_def lost_history_outcome_def lost_step_def case_prod_beta
        raise_floors_def bt_insert.simps i64_max_def i64_succ_def)
qed

end
