(* ===== verification/Witnesses.thy ===== *)
theory Witnesses
  imports Sample_Cancel Store_Theorems
begin

text \<open>
  The theorems on commands and on the store applied to the sample company: each hypothesis is
  discharged by evaluation of the model on the sample data.
\<close>

section \<open>Reachable states\<close>

lemma stock_numbered: "pd_official_number (numbered_document empty_store stock_commit) = Some (format_number ''STE'' 1)"
  by (simp add: numbered_document_number allocated_number_def next_value_def i64_max_def)

theorem numbers_unique_witness:
  "\<exists>doc n v. posted_document_of stock_state ''co'' ''Stock Entry'' ''S1'' = Some doc \<and> pd_official_number doc = Some n
    \<and> n = format_number ''STE'' v \<and> 0 < v \<and> v \<le> series stock_state (''co'', ''STE'')"
proof -
  have "number_at stock_state (''co'', ''Stock Entry'', ''S1'') = Some (Some (format_number ''STE'' 1))"
    by (simp add: stock_state_def number_at_commit stock_numbered)
  then obtain doc where "posted_document_of stock_state ''co'' ''Stock Entry'' ''S1'' = Some doc"
    "pd_official_number doc = Some (format_number ''STE'' 1)" by (auto simp: number_at_def posted_document_of_def)
  then show ?thesis
    using numbers_unique [OF stock_reachable, of "''Stock Entry''" "''STE''" "''co''" "''S1''" doc "''S1''" doc] by (simp add: series_key_def)
qed

lemma stock_state_ledger:
  "stock_ledger stock_state ''co'' = [stock_row\<lparr>sle_seq := 1\<rparr>]"
  "sles_for_pair stock_state ''co'' ''I1'' ''W1'' = [stock_row\<lparr>sle_seq := 1\<rparr>]"
  by (simp_all add: stock_state_def sles_for_pair_def i64_max_def i64_succ_def)

lemma stock_balance: "compute_balance (map row_of_sle [stock_row\<lparr>sle_seq := 1\<rparr>])
  = \<lparr>bs_actual_qty = Fin 5, bs_valuation_rate = Fin 10, bs_stock_value = Fin 50\<rparr>"
  by (simp add: row_of_sle_def eval_simps Let_def)

theorem bins_are_balances_witness:
  "map_option bin_stock_value (map_of (bins stock_state) (''co'', ''I1'', ''W1'')) = Some (Fin 50)"
proof -
  have "solo_migrations stock_state ''co'' = None" by (simp add: stock_state_def commit_solo) (simp add: stock_commit_def)
  then show ?thesis
    using bins_are_balances [OF stock_reachable, of "''co''" "''I1''" "''W1''"] stock_state_ledger stock_balance
    by (simp add: no_production_def balance_bin_def bin_of_def)
qed

section \<open>Submits and cancels\<close>

lemma sample_attempt:
  "submit_attempt sample_ext sample_env (\<lambda>_ s. s) ''fresh'' ''co'' sample_deposit sample_actor empty_store = (empty_store, empty_store)"
  using deciding_first [where interfere = "\<lambda>_ s. s" and x = sample_ext and now = 0 and k = sample_commit and s = empty_store
      and build = "\<lambda>s. build_submit sample_ext sample_env s ''co'' sample_deposit ''D1'' sample_actor"] sample_build sample_post
  by (simp add: submit_attempt_def submitted_id_def sample_env_def)

lemma sample_id: "submitted_id sample_deposit f = ''D1''"
  by (simp add: submitted_id_def)

theorem submit_posts_balanced_witness:
  "gl_entries sample_state = (gl_entries empty_store)(''co'' := sample_gl) \<and> length sample_gl = 2
    \<and> \<not> BALANCE_TOLERANCE < \<bar>fsum (map gl_debit sample_gl) - fsum (map gl_credit sample_gl)\<bar>
    \<and> list_all (\<lambda>e. gl_voucher_no e = ''D1'' \<and> \<not> gl_is_reversal e \<and> gl_account e \<noteq> []) sample_gl"
  using submit_posts_balanced [OF sample_submit _ sample_attempt] sample_build
  by (auto simp: sample_id list_all_iff) (simp add: sample_gl_def)

theorem cancel_nets_to_zero_witness:
  "image_mset gl_debit (mset (filter (\<lambda>e. gl_account e = ''Cash'') (gl_for_voucher sample_cancelled ''co'' ''D1'')))
     = image_mset gl_credit (mset (filter (\<lambda>e. gl_account e = ''Cash'') (gl_for_voucher sample_cancelled ''co'' ''D1'')))"
proof -
  have "\<not> gl_is_reversal e" if "e \<in> set (gl_for_voucher sample_state ''co'' (cc_document_id sample_cancel))" for e
  proof -
    have "e \<in> set sample_gl" using that by (simp add: gl_for_voucher_def)
    then show ?thesis by (auto simp: sample_gl_def ctx_gl_def)
  qed
  from cancel_nets_to_zero [OF conjunct1 [OF sample_cancel_run] conjunct2 [OF sample_cancel_run] this]
  show ?thesis by simp
qed

text \<open>The cancelled receipt takes its five units out of the warehouse, the cancelled payment its allocation from the invoice.\<close>

theorem cancel_reverses_rows_witness:
  "(\<exists>t r. stock_ledger t ''co'' = [stock_row\<lparr>sle_seq := 1\<rparr>, r] \<and> sle_item r = ''I1'' \<and> sle_warehouse r = ''W1'' \<and> sle_qty_change r = - Fin 5
      \<and> map_option pd_docstatus (posted_document_of t ''co'' ''Stock Entry'' ''S1'') = Some 2)
    \<and> (\<exists>t r. settlements t ''co'' = [allocation, r] \<and> st_invoice_voucher_no r = ''I1'' \<and> st_allocated_amount r = - Fin 100
      \<and> map_option pd_docstatus (posted_document_of t ''co'' ''Payment Entry'' ''P1'') = Some 2)"
proof
  note run = cancel_runs [OF receipt_cancel_build _ receipt_cancel_passes, simplified]
  let ?t = "commit_apply sample_ext (ev_now sample_env) receipt_cancel_commit traded"
  from cancel_reverses_rows [OF run(1) _ run(2) traded_keys] obtain rows where
    "stock_ledger ?t = (stock_ledger traded)(''co'' := stock_ledger traded ''co'' @ rows)"
    "list_all2 sle_mirrors [stock_row\<lparr>sle_seq := 1\<rparr>] rows"
    and d: "map_option pd_docstatus (posted_document_of ?t ''co'' ''Stock Entry'' ''S1'') = Some 2"
    by (auto simp: traded_rows)
  moreover from this obtain r where "rows = [r]" "sle_mirrors (stock_row\<lparr>sle_seq := 1\<rparr>) r" by (auto simp: list_all2_Cons1)
  moreover have "stock_ledger traded ''co'' = [stock_row\<lparr>sle_seq := 1\<rparr>]" by (simp add: traded_def)
  ultimately have "stock_ledger ?t ''co'' = [stock_row\<lparr>sle_seq := 1\<rparr>, r]" "sle_mirrors (stock_row\<lparr>sle_seq := 1\<rparr>) r" by simp_all
  moreover from this(2) have "sle_item r = ''I1''" "sle_warehouse r = ''W1''" "sle_qty_change r = - Fin 5"
    using mirror_fields(1) by fastforce+
  ultimately show "\<exists>t r. stock_ledger t ''co'' = [stock_row\<lparr>sle_seq := 1\<rparr>, r] \<and> sle_item r = ''I1'' \<and> sle_warehouse r = ''W1''
      \<and> sle_qty_change r = - Fin 5 \<and> map_option pd_docstatus (posted_document_of t ''co'' ''Stock Entry'' ''S1'') = Some 2"
    using d by blast
next
  obtain ups where ups: "build_cancel sample_ext sample_env traded ''co'' payment_cancel sample_actor = Inr
    (cancel_commit sample_env traded ''co'' payment_cancel sample_actor
      (traded_document ''Payment Entry'' ''P1'' [(''posting_date'', JStr ''2026-01-15'')]) ''2026-01-15'' None ups)" (is "_ = Inr ?k")
    by (rule payment_cancel_build)
  note run = cancel_runs [OF ups _ payment_cancel_passes, simplified]
  let ?t = "commit_apply sample_ext (ev_now sample_env) ?k traded"
  from cancel_reverses_rows [OF run(1) _ run(2) traded_keys] obtain rows where
    "settlements ?t = (settlements traded)(''co'' := settlements traded ''co'' @ rows)" "list_all2 settlement_mirrors [allocation] rows"
    and d: "map_option pd_docstatus (posted_document_of ?t ''co'' ''Payment Entry'' ''P1'') = Some 2"
    by (auto simp: traded_rows allocation_def)
  moreover from this obtain r where "rows = [r]" "settlement_mirrors allocation r" by (auto simp: list_all2_Cons1)
  moreover have "settlements traded ''co'' = [allocation]" by (simp add: traded_def)
  ultimately have "settlements ?t ''co'' = [allocation, r]" "settlement_mirrors allocation r" by simp_all
  moreover from this(2) have "st_invoice_voucher_no r = ''I1''" "st_allocated_amount r = - Fin 100"
    using mirror_fields(2) [of allocation r] by (simp_all add: allocation_def)
  ultimately show "\<exists>t r. settlements t ''co'' = [allocation, r] \<and> st_invoice_voucher_no r = ''I1'' \<and> st_allocated_amount r = - Fin 100
      \<and> map_option pd_docstatus (posted_document_of t ''co'' ''Payment Entry'' ''P1'') = Some 2"
    using d by blast
qed

text \<open>A submit of an unknown doctype is refused.\<close>

theorem failed_command_no_effect_witness:
  "\<exists>e. submit_document sample_ext sample_env (\<lambda>_ s. s) ''fresh'' ''co'' (sample_deposit\<lparr>sc_doctype := ''Memo''\<rparr>) sample_actor sample_state
     = (Inl e, sample_state)"
proof -
  let ?c = "sample_deposit\<lparr>sc_doctype := ''Memo''\<rparr>"
  obtain e t where r: "submit_document sample_ext sample_env (\<lambda>_ s. s) ''fresh'' ''co'' ?c sample_actor sample_state = (Inl e, t)"
    by (simp add: submit_document_def POSTED_DOCTYPES_def)
  then show ?thesis using failed_command_no_effect [OF disjI1 [OF r]] by simp
qed

theorem retry_replays_witness:
  "submit_document sample_ext sample_env (\<lambda>_ s. s) ''other'' ''co'' sample_deposit sample_actor sample_state
     = (Inr \<lparr>oc_response = oc_response sample_outcome, oc_replayed = True\<rparr>, sample_state)
   \<and> cancel_document sample_ext sample_env (\<lambda>_ s. s) ''co'' sample_cancel sample_actor sample_cancelled
     = (Inr \<lparr>oc_response = oc_response sample_cancel_outcome, oc_replayed = True\<rparr>, sample_cancelled)"
proof -
  note one = retry_replays [where interfere = "\<lambda>_ s. s" and x = sample_ext and out = sample_outcome and t = sample_state and t' = sample_state]
  note two = retry_replays [where interfere = "\<lambda>_ s. s" and x = sample_ext and out = sample_cancel_outcome and t = sample_cancelled
      and t' = sample_cancelled]
  show ?thesis
    using one [THEN conjunct1, rule_format, OF _ _ _ conjI [OF sample_submit]]
      two [THEN conjunct2, rule_format, OF _ _ _ conjI [OF conjunct1 [OF sample_cancel_run]]] sample_cancel_run
    by simp
qed

theorem key_reuse_refused_witness:
  "submit_document sample_ext sample_env (\<lambda>_ s. s) ''other'' ''co'' (sample_deposit\<lparr>sc_document_id := Some ''D2''\<rparr>) sample_actor sample_state
     = (Inl (PConflict (Command KeyReused)), sample_state)"
  by (rule key_reuse_refused [OF sample_submit, where d' = "''D2''" and key = "''key1''"]) (simp_all add: submitted_id_def POSTED_DOCTYPES_def)

theorem submit_takes_next_number_witness:
  "series sample_state = (series empty_store)((''co'', ''DEP'') := 1)
    \<and> map_option pd_official_number (posted_document_of sample_state ''co'' ''Customer Deposit'' ''D1'') = Some (Some (format_number ''DEP'' 1))"
  using submit_takes_next_number [OF sample_submit _ sample_attempt, of "''DEP''"] by (simp add: series_key_def sample_id i64_max_def)

section \<open>The lock moves while a submit is prepared\<close>

definition lock_2025 :: books_lock_change where
  "lock_2025 = \<lparr>bl_expected_current = None, bl_lock_date = Some ''2025-12-31'',
     bl_audit = audit_row sample_env ''co'' sample_actor ''settings.books-lock'' JNull\<rparr>"

definition locked_store :: inner where
  "locked_store = snd (set_books_lock ''co'' lock_2025 empty_store)"

lemma locked_store_sel [simp]:
  "documents locked_store = []" "idempotency locked_store r = None" "solo_migrations locked_store c = None"
  "current_lock locked_store ''co'' = Some ''2025-12-31''" "gl_entries locked_store c = []"
  by (simp_all add: locked_store_def set_books_lock_def lock_2025_def Let_def company_settings_of_def default_settings_def
      current_lock_def)

lemma sample_commit_fields:
  "pc_lock_check_date sample_commit = Some ''2026-01-15''" "pc_deposit_guard sample_commit = None"
  "pc_solo_migration sample_commit = None" "pc_preassigned_number sample_commit = None" "pc_till_binding sample_commit = None"
  "pc_sle_expectations sample_commit = []" "pc_document_is_new sample_commit"
  by (simp_all add: sample_commit_def sample_rows_def expectations_def empty_ledgers_def)

lemma locked_checks: "commit_checks locked_store sample_commit = Inr ()"
  by (simp add: commit_checks_def lock_check_def deposit_check_def solo_check_def existence_check_def number_check_def
      till_check_def sample_commit_fields lock_violation_def ensure_def)

definition locked_after :: inner where
  "locked_after = commit_apply sample_ext 0 sample_commit locked_store"

definition locked_outcome :: commit_outcome where
  "locked_outcome = \<lparr>oc_response = numbered_response locked_store sample_commit, oc_replayed = False\<rparr>"

lemma locked_submit:
  "submit_document sample_ext sample_env (\<lambda>_ s. snd (set_books_lock ''co'' lock_2025 s)) ''fresh'' ''co'' sample_deposit sample_actor empty_store
     = (Inr locked_outcome, locked_after)"
proof -
  have "replay empty_store ''co'' (Some ''key1'') = None" by (simp add: replay_def idempotent_response_def)
  moreover have "ev_now sample_env = 0" by (simp add: sample_env_def)
  moreover have "posting_commit sample_ext 0 sample_commit locked_store = (Inr locked_outcome, locked_after)"
    by (simp add: posting_commit_def replayed_response_def locked_checks locked_outcome_def locked_after_def)
  then have "commit_loop MAX_RETRIES (\<lambda>s. build_submit sample_ext sample_env s ''co'' sample_deposit ''D1'' sample_actor)
      (\<lambda>_ s. snd (set_books_lock ''co'' lock_2025 s)) sample_ext 0 ''Customer Deposit'' ''D1'' empty_store = (Inr locked_outcome, locked_after)"
    by (intro commit_loop_first [where k = sample_commit]) (simp_all add: sample_build locked_store_def locked_outcome_def)
  ultimately show ?thesis by (simp add: submit_document_def POSTED_DOCTYPES_def)
qed

lemma locked_attempt:
  "submit_attempt sample_ext sample_env (\<lambda>_ s. snd (set_books_lock ''co'' lock_2025 s)) ''fresh'' ''co'' sample_deposit sample_actor empty_store
     = (empty_store, locked_store)"
proof -
  have "posting_commit sample_ext 0 sample_commit locked_store = (Inr locked_outcome, locked_after)"
    by (simp add: posting_commit_def replayed_response_def locked_checks locked_outcome_def locked_after_def)
  then show ?thesis
    using deciding_first [where interfere = "\<lambda>_ s. snd (set_books_lock ''co'' lock_2025 s)" and x = sample_ext and now = 0 and k = sample_commit
        and s = empty_store and build = "\<lambda>s. build_submit sample_ext sample_env s ''co'' sample_deposit ''D1'' sample_actor"] sample_build
    by (simp add: submit_attempt_def sample_id sample_env_def locked_store_def)
qed

theorem submit_after_lock_witness:
  "gl_entries locked_after ''co'' = sample_gl \<and> list_all (\<lambda>e. ''2025-12-31'' < gl_posting_date e) sample_gl"
proof -
  have "\<not> oc_replayed locked_outcome" by (simp add: locked_outcome_def)
  from submit_after_lock [OF locked_submit this locked_attempt locked_store_sel(4)] sample_build
  show ?thesis by (simp add: sample_id)
qed

section \<open>Deposits and stock\<close>

theorem deposit_guarded_at_commit_witness:
  "live_applications (deposit_applications sample_state ''co'' ''D1'') = []"
proof -
  have "pc_deposit_guard sample_cancel_commit = Some (Release ''D1'')" "pc_company sample_cancel_commit = ''co''"
    by (simp_all add: sample_cancel_commit_def)
  then show ?thesis
    using deposit_guarded_at_commit [OF sample_cancel_post conjunct2 [OF sample_cancel_run], of "Release ''D1''"] by simp
qed

theorem submit_keeps_stock_witness:
  "\<not> bs_actual_qty (compute_balance (map row_of_sle (sles_for_pair stock_state ''co'' ''I1'' ''W1''))) < 0"
  using submit_keeps_stock [OF stock_build _ _ store_run_refl stock_post, of stock_row]
  by (simp add: company_settings_of_def default_settings_def stock_outcome_def no_production_def)

end
