(* ===== verification/Engine_Progress.thy ===== *)
theory Engine_Progress
  imports Engine_Facts
begin

text \<open>
  Progress of the retry loop. A commit is refused as stale only when the state moved between the
  build and the commit: the build itself checked the lock, the deposit and the length of every
  ledger it read. So a command that once finds the store at rest is decided, and no command answers
  that it lost against others without others having moved the store in every attempt.
\<close>

section \<open>A commit in the state of its build\<close>

text \<open>The counts a cache carries are those of the stored ledgers, for every row of the cache.\<close>

definition counts_ok :: "inner \<Rightarrow> uuid \<Rightarrow> ledgers \<Rightarrow> bool" where
  "counts_ok s c lg \<longleftrightarrow> (\<forall>e \<in> set (lg_prior_counts lg). snd e = pair_count s c (fst (fst e)) (snd (fst e)))"

lemma set_alist_update: "set (AList.update k v al) \<subseteq> insert (k, v) (set al)"
  by (induction al) auto

lemma counts_ok_empty [simp]: "counts_ok s c empty_ledgers"
  by (simp add: counts_ok_def empty_ledgers_def)

lemma counts_ok_rows [simp]: "counts_ok s c (lg_rows_update f lg) = counts_ok s c lg"
  by (simp add: counts_ok_def)

lemma prior_for_counts [intro]: "counts_ok s c lg \<Longrightarrow> counts_ok s c (prior_for s c item wh lg)"
  using set_alist_update [of "(item, wh)" "length (sles_for_pair s c item wh)" "lg_prior_counts lg"]
  by (fastforce simp: counts_ok_def prior_for_def Let_def pair_count_def)

lemma push_row_counts [intro]: "counts_ok s c lg \<Longrightarrow> counts_ok s c (push_row s c item wh row lg)"
  by (auto simp: push_row_def Let_def)

lemma return_cost_counts: "counts_ok s c lg \<Longrightarrow> counts_ok s c (snd (return_cost s c item wh ra lg))"
  by (auto simp: return_cost_def Let_def split: option.split list.split)

lemma cost_one_counts: "counts_ok s c (ct_ledgers st) \<Longrightarrow> counts_ok s c (ct_ledgers (snd (cost_one s c itm p st sle)))"
  using return_cost_counts [of s c "ct_ledgers st"] by (auto simp: cost_one_def Let_def case_prod_beta)

lemma cost_row_counts: "counts_ok s c (ct_ledgers st) \<Longrightarrow> counts_ok s c (ct_ledgers (cost_row s c itm p st sle))"
  using cost_one_counts [of s c st itm p sle] by (auto simp: cost_row_def case_prod_beta)

lemma cost_fold_counts: "counts_ok s c (ct_ledgers st) \<Longrightarrow> counts_ok s c (ct_ledgers (foldl (cost_row s c itm p) st sles))"
  by (induction sles arbitrary: st) (simp_all add: cost_row_counts)

lemma patch_fold_counts: "counts_ok s c (snd acc) \<Longrightarrow> counts_ok s c (snd (foldl (patch_leg rate) acc legs))"
proof (induction legs arbitrary: acc)
  case (Cons i legs)
  have "counts_ok s c (snd (patch_leg rate acc i))"
    using Cons.prems by (simp add: patch_leg_def Let_def case_prod_beta split: option.split)
  then show ?case using Cons.IH by simp
qed simp

lemma cost_movements_counts: "counts_ok s c (snd (cost_stock_movements s c sles itm p))"
  using cost_fold_counts [of s c cost_start itm p sles]
    patch_fold_counts [of s c "(ct_done (foldl (cost_row s c itm p) cost_start sles), ct_ledgers (foldl (cost_row s c itm p) cost_start sles))"]
  by (simp add: cost_stock_movements_def Let_def cost_start_def)

lemma reversal_ledgers_counts: "counts_ok s c (reversal_ledgers s c sles)"
proof -
  have "counts_ok s c lg \<Longrightarrow> counts_ok s c (foldl (\<lambda>lg e. push_row s c (sle_item e) (sle_warehouse e) (row_of_sle e) lg) lg sles)" for lg
    by (induction sles arbitrary: lg) auto
  then show ?thesis by (simp add: reversal_ledgers_def)
qed

lemma expectations_met: "counts_ok s c lg \<Longrightarrow> fold_result (expectation_check s c) () (expectations lg) = Inr ()"
proof -
  have "\<forall>e \<in> set es. snd e = pair_count s c (fst (fst e)) (snd (fst e)) \<Longrightarrow>
      fold_result (expectation_check s c) () (map (\<lambda>((item, warehouse), n). (item, warehouse, n)) es) = Inr ()" for es
    by (induction es) (auto simp: expectation_check_def ensure_def)
  then show "counts_ok s c lg \<Longrightarrow> ?thesis" by (simp add: counts_ok_def expectations_def)
qed

lemma period_open: "check_period_lock (company_settings_of s c) date = Inr () \<Longrightarrow> lock_violation date (current_lock s c) = None"
  by (auto simp: check_period_lock_def lock_violation_def current_lock_def company_settings_of_def default_settings_def result_simps
      split: option.splits)

text \<open>The checks that refuse as stale pass; the others answer conflicts.\<close>

lemma commit_checks_not_stale:
  assumes "lock_check s k = Inr ()" "deposit_check s k = Inr ()" "pc_solo_migration k = None"
    and "fold_result (expectation_check s (pc_company k)) () (pc_sle_expectations k) = Inr ()"
  shows "commit_checks s k \<noteq> Inl (Stale r)"
  using assms by (auto simp: commit_checks_def solo_check_def existence_check_def number_check_def till_check_def ensure_def Let_def
      split: option.splits if_splits)

lemma deposit_application_guard:
  assumes "deposit_application s c p = Inr (p', Some guard)"
  shows "deposit_guard_violation guard (posted_document_of s c ''Customer Deposit'' (deposit_id_of guard))
    (deposit_applications s c (deposit_id_of guard)) = None"
  using assms by (auto simp: deposit_application_def Let_def result_simps split: option.splits)

lemma release_guard_holds:
  assumes "release_guard s c cmd document = Inr (Some guard)" "posted_document_of s c (cc_doctype cmd) (cc_document_id cmd) = Some document"
  shows "deposit_guard_violation guard (posted_document_of s c ''Customer Deposit'' (deposit_id_of guard))
    (deposit_applications s c (deposit_id_of guard)) = None"
  using assms by (auto simp: release_guard_def Let_def split: if_splits option.splits)

lemma submit_payload_guard:
  assumes "submit_payload x ev s c cmd d = Inr (date, payload, Some guard)"
  shows "deposit_guard_violation guard (posted_document_of s c ''Customer Deposit'' (deposit_id_of guard))
    (deposit_applications s c (deposit_id_of guard)) = None"
  using assms by (auto simp: submit_payload_def Let_def result_simps split: if_splits intro: deposit_application_guard)

lemma submit_fresh: "build_submit x ev s c cmd d act = Inr k \<Longrightarrow> commit_checks s k \<noteq> Inl (Stale r)"
proof (elim build_submitE)
  fix date payload guard sh stls ups
  let ?dr = "derive_rows x s (submit_ctx c cmd d date) payload"
  assume p: "submit_payload x ev s c cmd d = Inr (date, payload, guard)" and k: "k = submit_commit ev c cmd d act date payload guard ?dr sh stls ups"
  have sel: "pc_company k = c" "pc_lock_check_date k = Some date" "pc_deposit_guard k = guard" "pc_solo_migration k = None"
    "pc_sle_expectations k = expectations (dr_ledgers ?dr)"
    by (simp_all add: k submit_commit_def Let_def)
  have "counts_ok s c (dr_ledgers ?dr)"
    using cost_movements_counts [of s c] by (simp add: derive_rows_sel(2) submit_ctx_def)
  then show ?thesis
    using period_open [OF submit_payloadD(1) [OF p]] submit_payload_guard [of x ev s c cmd d date payload] p
    by (intro commit_checks_not_stale) (auto simp: lock_check_def deposit_check_def sel Let_def expectations_met split: option.split)
qed

lemma cancel_fresh: "build_cancel x ev s c cmd act = Inr k \<Longrightarrow> commit_checks s k \<noteq> Inl (Stale r)"
proof (elim build_cancelE)
  fix document date guard ups
  assume p: "cancel_checks x ev s c cmd = Inr (document, date, guard)" and k: "k = cancel_commit ev s c cmd act document date guard ups"
  note ck = cancel_checksD [OF p]
  show ?thesis
    using period_open [OF ck(4)] release_guard_holds [OF _ ck(1)] ck(5)
    by (intro commit_checks_not_stale) (auto simp: lock_check_def deposit_check_def k Let_def expectations_met reversal_ledgers_counts split: option.split)
qed

section \<open>Refusals\<close>

text \<open>No validation answers that the command lost against others.\<close>

named_theorems settles_intros \<open>results that are not the give-up of the retry loop\<close>

definition settles :: "posting_error + 'a \<Rightarrow> bool" where
  "settles r \<longleftrightarrow> r \<noteq> Inl (PConflict (Command Contention))"

lemma settles_simps [simp]:
  "settles (Inr a)" "settles (Inl (Validation v))" "settles (Inl NotFound)" "settles (Inl (PStore e))"
  "settles (Inl (PConflict v)) \<longleftrightarrow> v \<noteq> Command Contention"
  by (simp_all add: settles_def)

lemma settles_and_then [settles_intros]: "settles m \<Longrightarrow> (\<And>a. settles (f a)) \<Longrightarrow> settles (and_then m f)"
  by (cases m) (auto simp: settles_def)

lemma settles_ensure [settles_intros]: "settles (Inl e :: posting_error + unit) \<Longrightarrow> settles (ensure b e)"
  by (simp add: ensure_def)

lemma settles_ok_or [settles_intros]: "settles (Inl e :: posting_error + 'a) \<Longrightarrow> settles (ok_or (v :: 'a option) e)"
  by (cases v) (simp_all add: ok_or_def)

lemma settles_fold [settles_intros]: "(\<And>a b. settles (f a b)) \<Longrightarrow> settles (fold_result f a bs)"
  by (induction bs arbitrary: a) (auto intro: settles_and_then)

lemma settles_if [settles_intros]: "settles a \<Longrightarrow> settles b \<Longrightarrow> settles (if P then a else b)"
  by simp

lemma settles_pair [settles_intros]: "(\<And>a b. settles (f a b)) \<Longrightarrow> settles (case p of (a, b) \<Rightarrow> f a b)"
  by (cases p) simp

lemma settles_option [settles_intros]: "settles a \<Longrightarrow> (\<And>v. settles (f v)) \<Longrightarrow> settles (case w of None \<Rightarrow> a | Some v \<Rightarrow> f v)"
  by (cases w) simp_all

lemma settles_date [settles_intros]: "settles (validated_posting_date x today p)"
  by (auto simp: validated_posting_date_def Let_def intro!: settles_intros split: option.split json.split)

lemma settles_lock [settles_intros]: "settles (check_period_lock st date)"
  unfolding check_period_lock_def by (intro settles_intros) simp_all

lemma settles_deposit [settles_intros]: "settles (deposit_application s c p)"
  unfolding deposit_application_def Let_def by (intro settles_intros) simp_all

lemma settles_money [settles_intros]: "settles (money_field p k w)"
  unfolding money_field_def Let_def by (intro settles_intros) simp_all

lemma settles_journal_line [settles_intros]: "settles (journal_line acc e)"
  unfolding journal_line_def Let_def by (intro settles_intros) simp_all

lemma settles_foreign [settles_intros]: "settles (refuse_foreign_rate dt p)"
  unfolding refuse_foreign_rate_def by (intro settles_intros) simp_all

lemma settles_c5 [settles_intros]: "settles (validate_c5_document dt p st)"
  unfolding validate_c5_document_def validate_journal_def validate_expense_def validate_deposit_def Let_def
  by (intro settles_intros) simp_all

lemma settles_invoice [settles_intros]: "settles (invoice_rules dt p)"
  unfolding invoice_rules_def validate_tax_rows_def validate_invoice_totals_def tax_row_check_def invoice_line_def tax_sums_def resolve_total_def Let_def
  by (intro settles_intros) simp_all

lemma settles_submit_payload [settles_intros]: "settles (submit_payload x ev s c cmd d)"
  unfolding submit_payload_def Let_def by (intro settles_intros) simp_all

lemma settles_balanced [settles_intros]: "settles (check_balanced gl)"
  unfolding check_balanced_def Let_def by (intro settles_intros) simp_all

lemma settles_groups [settles_intros]: "settles (check_group_accounts s c gl)"
  unfolding check_group_accounts_def group_account_step_def by (intro settles_intros) simp_all

lemma settles_negative [settles_intros]: "settles (check_negative_stock st lg)"
  unfolding check_negative_stock_def negative_pair_def Let_def by (intro settles_intros) simp_all

lemma settles_payment [settles_intros]: "settles (validate_payment_submit p stls)"
  unfolding validate_payment_submit_def payment_allocation_def Let_def by (intro settles_intros) simp_all

lemma settles_outstanding [settles_intros]: "settles (payment_outstanding_updates s c stls b)"
  unfolding payment_outstanding_updates_def outstanding_update_def Let_def by (intro settles_intros) simp_all

lemma settles_build_submit: "settles (build_submit x ev s c cmd d act)"
  unfolding build_submit_def Let_def by (intro settles_intros) simp_all

lemma settles_release [settles_intros]: "settles (release_guard s c cmd document)"
  by (auto simp: release_guard_def deposit_guard_violation_def Let_def split: option.split)

lemma settles_build_cancel: "settles (build_cancel x ev s c cmd act)"
  unfolding build_cancel_def cancel_checks_def settled_check_def Let_def by (intro settles_intros) simp_all

lemma settles_offline: "settles (validate_offline_fiscal cmd act)"
  unfolding validate_offline_fiscal_def by (intro settles_intros) simp_all

lemma settles_replay: "settles (bound_replay out dt d)"
  by (simp add: bound_replay_def Let_def)

section \<open>The loop\<close>

text \<open>The state attempt \<open>i\<close> builds in: attempts are numbered down from \<open>n - 1\<close>, and a stale commit changes nothing itself.\<close>

definition state_met :: "nat \<Rightarrow> (nat \<Rightarrow> inner \<Rightarrow> inner) \<Rightarrow> inner \<Rightarrow> nat \<Rightarrow> inner" where
  "state_met n interfere s i = foldl (\<lambda>t j. interfere j t) s (rev [Suc i..<n])"

lemma state_met_last: "i < n \<Longrightarrow> state_met (Suc n) interfere s i = state_met n interfere (interfere n s) i"
  by (simp add: state_met_def)

lemma commit_loop_settles:
  assumes "\<And>s. settles (build s)" "\<And>s k r. build s = Inr k \<Longrightarrow> commit_checks s k \<noteq> Inl (Stale r)"
    and "i < n" "interfere i (state_met n interfere s i) = state_met n interfere s i"
  shows "settles (fst (commit_loop n build interfere x now dt d s))"
  using assms(3,4)
proof (induction n arbitrary: s)
  case (Suc n)
  show ?case
  proof (cases "build s")
    case (Inl e)
    then show ?thesis using assms(1) [of s] by (simp add: settles_def)
  next
    case (Inr k)
    show ?thesis
    proof (cases rule: posting_commit_cases [of "interfere n s" k x now])
      case (refuse e)
      show ?thesis
      proof (cases e)
        case (Stale r)
        have "i \<noteq> n"
        proof
          assume "i = n"
          then have "interfere n s = s" using Suc.prems(2) by (simp add: state_met_def)
          then show False using refuse Stale assms(2) [OF Inr, of r] by simp
        qed
        then show ?thesis using Suc.IH [of "interfere n s"] Suc.prems refuse Stale Inr by (simp add: state_met_last)
      qed (use refuse Inr in auto)
    qed (use Inr settles_replay in auto)
  qed
qed simp

text \<open>C10. A command that finds the store at rest once is decided. When between the build and the commit of at least one of its
  attempts nothing else moved the store, a submit or a cancel never answers that it gave up against concurrent changes, whatever the
  others did around its other attempts.\<close>

theorem undisturbed_attempt_decides:
  assumes "i < MAX_RETRIES" "interfere i (state_met MAX_RETRIES interfere s i) = state_met MAX_RETRIES interfere s i"
  shows "fst (submit_document x ev interfere fresh_id c cmd act s) \<noteq> Inl (PConflict (Command Contention))
    \<and> fst (cancel_document x ev interfere c cmd' act s) \<noteq> Inl (PConflict (Command Contention))"
proof -
  have loop: "settles (fst (commit_loop MAX_RETRIES (\<lambda>s. build_submit x ev s c cmd d act) interfere x (ev_now ev) dt d s))" for dt d
    by (rule commit_loop_settles [OF settles_build_submit submit_fresh assms])
  have "settles (fst (submit_document x ev interfere fresh_id c cmd act s))"
  proof (cases "if sc_offline_fiscal cmd then validate_offline_fiscal cmd act else Inr ()")
    case (Inl e)
    then have "settles (Inl e :: posting_error + unit)" using settles_offline [of cmd act] by (simp split: if_splits)
    then show ?thesis using Inl by (simp add: submit_document_def settles_def)
  qed (simp add: submit_document_def loop settles_replay Let_def split: option.split)
  moreover have "settles (fst (cancel_document x ev interfere c cmd' act s))"
    unfolding cancel_document_def using commit_loop_settles [OF settles_build_cancel cancel_fresh assms]
    by (auto intro: settles_replay split: option.split)
  ultimately show ?thesis by (simp add: settles_def)
qed

end
