(* ===== verification/Witnesses_Store.thy ===== *)
theory Witnesses_Store
  imports Witnesses Engine_Progress
begin

text \<open>
  Instances for payments, invoice totals, the log, the checkpoint, lost history and permanence.
\<close>

section \<open>A payment\<close>

definition billed_store :: inner where
  "billed_store = empty_store\<lparr>documents := [((''co'', ''Sales Invoice'', ''I1''),
     \<lparr>pd_id = ''I1'', pd_company = ''co'', pd_doctype = ''Sales Invoice'', pd_payload = JObj [(''grand_total'', JNum (JInt 100))],
      pd_docstatus = 1, pd_official_number = Some ''SINV-00001'', pd_created_at = 0\<rparr>)]\<rparr>"

lemma billed_store_sel [simp]:
  "settings billed_store c = None" "settlements billed_store c = []" "company_documents billed_store = []"
  "items billed_store p = None" "stock_ledger billed_store c = []"
  "posted_document_of billed_store ''co'' ''Payment Entry'' d = None"
  "posted_document_of billed_store ''co'' ''Sales Invoice'' ''I1'' = Some
     \<lparr>pd_id = ''I1'', pd_company = ''co'', pd_doctype = ''Sales Invoice'', pd_payload = JObj [(''grand_total'', JNum (JInt 100))],
      pd_docstatus = 1, pd_official_number = Some ''SINV-00001'', pd_created_at = 0\<rparr>"
  by (simp_all add: billed_store_def posted_document_of_def)

definition sample_payment :: submit_command where
  "sample_payment = \<lparr>sc_doctype = ''Payment Entry'', sc_document_id = Some ''P1'',
     sc_payload = [(''paid_amount'', JNum (JInt 40)), (''party'', JStr ''C1''), (''payment_type'', JStr ''Receive''),
       (''posting_date'', JStr ''2026-01-15''),
       (''references'', JArr [JObj [(''allocated_amount'', JNum (JInt 40)), (''reference_doctype'', JStr ''Sales Invoice''),
          (''reference_name'', JStr ''I1'')]])],
     sc_items = [], sc_idempotency_key = None, sc_offline_fiscal = False\<rparr>"

definition payment_payload :: jmap where
  "payment_payload = [(''items'', JArr []), (''paid_amount'', JNum (JInt 40)), (''paid_from'', JStr ''Debtors''), (''paid_to'', JStr ''Cash''),
     (''party'', JStr ''C1''), (''payment_type'', JStr ''Receive''), (''posting_date'', JStr ''2026-01-15''),
     (''references'', JArr [JObj [(''allocated_amount'', JNum (JInt 40)), (''reference_doctype'', JStr ''Sales Invoice''),
        (''reference_name'', JStr ''I1'')]])]"

lemma payment_payload_eq:
  "submit_payload sample_ext sample_env billed_store ''co'' sample_payment ''P1'' = Inr (''2026-01-15'', payment_payload, None)"
  by (simp add: sample_payment_def payment_payload_def validated_posting_date_def check_period_lock_def company_settings_of_def
      default_settings_def validate_c5_document_def resolve_account_fallbacks_def fallbacks_for_def fallback_account_def
      invoice_rules_def submit_payload_def deposit_application_def eval_simps Let_def sample_real_date)

definition payment_ctx :: row_context where
  "payment_ctx = \<lparr>cx_company = ''co'', cx_document_id = ''P1'', cx_doctype = ''Payment Entry'',
     cx_posting_date = ''2026-01-15'', cx_batch_id = ''PB-P1''\<rparr>"

lemma payment_rows:
  fixes dr defines "dr \<equiv> derive_rows sample_ext billed_store payment_ctx payment_payload"
  shows "map gl_account (dr_gl dr) = [''Debtors'', ''Cash'']" "map gl_debit (dr_gl dr) = [Fin 0, Fin 40]"
    "map gl_credit (dr_gl dr) = [Fin 40, Fin 0]" "dr_ledgers dr = empty_ledgers"
  unfolding dr_def
  by (simp_all add: payment_ctx_def payment_payload_def eval_simps engine_eval payment_gl_def
      stamp_base_amounts_def stamp_gl_def conversion_rate_of_def Let_def)

definition payment_settlement :: settlement where
  "payment_settlement = \<lparr>st_id = ''STL-P1-0'', st_company = ''co'', st_payment_voucher_type = ''Payment Entry'',
     st_payment_voucher_no = ''P1'', st_invoice_voucher_type = ''Sales Invoice'', st_invoice_voucher_no = ''I1'',
     st_party_type = ''Customer'', st_party = Some ''C1'', st_allocated_amount = Fin 40,
     st_posting_date = ''2026-01-15'', st_is_reversal = False, st_batch_id = ''PB-P1''\<rparr>"

lemma payment_settlements: "derive_settlements payment_ctx payment_payload = [payment_settlement]"
  by (simp add: payment_ctx_def payment_payload_def eval_simps derive_settlements_def settlement_row_def array_of_def object_rows_def
      List.map_filter_simps payment_settlement_def digit_char_def char_of_48)

lemma payment_valid: "validate_payment_submit payment_payload [payment_settlement] = Inr ()"
proof -
  have "\<not> Fin 40 + MONEY_EPS < Fin 40"
  proof -
    obtain e where e: "MONEY_EPS = Fin e" "1 / 256 \<le> e" by (rule MONEY_EPS_Fin)
    then have "Fin 40 \<le> rnd (40 + e)" using rnd_mono [of 40 "40 + e"] rnd_int [of 40] by simp
    then show ?thesis unfolding e(1) by (cases "rnd (40 + e)") (auto simp: less_eq_f64_def)
  qed
  then show ?thesis
    by (simp add: validate_payment_submit_def payment_payload_def payment_settlement_def payment_allocation_def SETTLEABLE_DOCTYPES_def
        eval_simps Let_def)
qed

lemma payment_updates: "\<exists>ups. payment_outstanding_updates billed_store ''co'' [payment_settlement] True = Inr ups"
proof -
  have "\<not> Fin 100 + MONEY_EPS < Fin 40"
  proof -
    obtain e where e: "MONEY_EPS = Fin e" "1 / 256 \<le> e" by (rule MONEY_EPS_Fin)
    then have "Fin 100 \<le> rnd (100 + e)" using rnd_mono [of 100 "100 + e"] rnd_int [of 100] by simp
    then show ?thesis unfolding e(1) by (cases "rnd (100 + e)") (auto simp: less_eq_f64_def)
  qed
  then show ?thesis
    by (simp add: payment_outstanding_updates_def outstanding_update_def payment_settlement_def settlements_for_invoice_def
        outstanding_amount_def eval_simps Let_def)
qed

lemma payment_build: "\<exists>k. build_submit sample_ext sample_env billed_store ''co'' sample_payment ''P1'' sample_actor = Inr k"
proof -
  obtain ups where ups: "payment_outstanding_updates billed_store ''co'' [payment_settlement] True = Inr ups"
    using payment_updates by blast
  let ?dr = "derive_rows sample_ext billed_store payment_ctx payment_payload"
  have "check_balanced (dr_gl ?dr) = Inr ()"
    unfolding check_balanced_def payment_rows by (simp add: BALANCE_TOLERANCE_eq fsum_eval eval_simps minus_f64_def abs_f64_def)
  moreover have "check_group_accounts billed_store ''co'' (dr_gl ?dr) = Inr ()"
    unfolding check_group_accounts_def payment_rows
    by (simp add: group_account_step_def company_document_of_def sort_dedup_def insort_key.simps eval_simps)
  moreover have "sc_doctype sample_payment = ''Payment Entry''" "\<not> sc_offline_fiscal sample_payment" by (simp_all add: sample_payment_def)
  ultimately show ?thesis
    using payment_settlements payment_valid ups payment_rows(4)
    by (simp add: build_submit_def payment_payload_eq payment_ctx_def [symmetric] Let_def check_negative_stock_def empty_ledgers_def)
qed

theorem payment_within_outstanding_witness:
  "\<exists>k. build_submit sample_ext sample_env billed_store ''co'' sample_payment ''P1'' sample_actor = Inr k
     \<and> list_all (update_ok billed_store ''co'' (pc_settlements k) True) (pc_outstanding_updates k)"
proof -
  obtain k where "build_submit sample_ext sample_env billed_store ''co'' sample_payment ''P1'' sample_actor = Inr k"
    using payment_build by blast
  with payment_within_outstanding [OF this] show ?thesis by (auto simp: sample_payment_def)
qed

section \<open>Invoice totals\<close>

definition demo_invoice :: jmap where
  "demo_invoice = [(''grand_total'', JNum (JInt 100)), (''items'', JArr [JObj [(''qty'', JNum (JInt 2)), (''rate'', JNum (JInt 50))]])]"

lemma demo_lines: "fold_result invoice_line (0, 0) (object_rows (items_of demo_invoice)) = Inr (Fin 100, 1)"
  by (simp add: demo_invoice_def items_of_def array_of_def object_rows_def invoice_line_def eval_simps Let_def)

lemma demo_taxes: "tax_sums (is_true (obj_get demo_invoice ''prices_include_tax'')) demo_invoice = (Fin 0, Fin 0)"
  by (simp add: demo_invoice_def tax_sums_def array_of_def object_rows_def eval_simps)

lemma demo_totals: "\<exists>q. validate_invoice_totals demo_invoice True = Inr q"
proof -
  have sent: "sent_number demo_invoice ''total'' = None" "sent_number demo_invoice ''tax_total'' = None"
    "sent_number demo_invoice ''grand_total'' = Some (Fin 100)"
    by (simp_all add: demo_invoice_def sent_number_def eval_simps)
  have round: "round2 (Fin 100 - Fin 0) = Fin 100" "round2 (Fin 0) = Fin 0" "round2 (Fin 100 + Fin 0) = Fin 100"
    "\<bar>Fin 100 - Fin 100\<bar> = Fin 0" "\<bar>Fin 100 - (Fin 100 + Fin 0)\<bar> = Fin 0"
    by (simp_all add: eval_simps)
  obtain e where e: "MONEY_EPS = Fin e" "1 / 256 \<le> e" by (rule MONEY_EPS_Fin)
  have tol: "\<not> MONEY_EPS * lit (of_nat (max 1 1)) < Fin 0" "\<not> lit 2 * MONEY_EPS < Fin 0"
    using MONEY_EPS_scaled [of "Fin 1"] fmult_nonneg [of 2 MONEY_EPS] e by (auto simp: zero_f64_def)
  show ?thesis
    using tol
    by (simp add: validate_invoice_totals_def demo_lines demo_taxes resolve_total_def sent round Let_def)
qed

theorem invoice_totals_consistent_witness:
  "\<exists>q grand. validate_invoice_totals demo_invoice True = Inr q
     \<and> agree_to (MONEY_EPS * lit (of_nat (max 1 1))) grand (round2 (round2 (Fin 100 - Fin 0) + round2 (Fin 0)))
     \<and> obj_get q ''outstanding_amount'' = Some (json_f64 grand)"
proof -
  obtain q where q: "validate_invoice_totals demo_invoice True = Inr q" using demo_totals by blast
  from invoice_totals_consistent [OF this demo_lines demo_taxes] q show ?thesis by auto
qed

section \<open>The log\<close>

definition demo_mutation :: mutation_record where
  "demo_mutation = \<lparr>mr_id = ''m1'', mr_type = CreateDocument, mr_doc_type = ''Customer'', mr_document_id = ''C1'',
     mr_payload = [(''name'', JStr ''Ann'')], mr_device_id = ''dev'', mr_user_id = ''u1'', mr_local_timestamp = 0,
     mr_sync_version = None, mr_status = Pending\<rparr>"

definition pushed_store :: "ext \<Rightarrow> int \<Rightarrow> inner" where
  "pushed_store x now = snd (push_mutations x now ''co'' [demo_mutation] empty_store)"

lemma empty_reachable: "reachable x (empty_store, {})"
  by (simp add: reachable_def)

lemma empty_log: "log_records empty_store c = []"
  by (simp add: log_records_def)

lemma pushed_reachable: "reachable x (pushed_store x now, {})"
proof -
  have "sys_step x (empty_store, {}) (pushed_store x now, {})"
    unfolding pushed_store_def by (rule sys_step.push) (simp add: empty_log max_log_def i64_max_def)
  then show ?thesis by (simp add: reachable_def)
qed

theorem push_exactly_once_witness:
  "distinct (map mr_id (log_records (pushed_store sample_ext 0) ''co''))
    \<and> snd (push_mutations sample_ext 1 ''co'' [demo_mutation] (pushed_store sample_ext 0)) = pushed_store sample_ext 0"
proof -
  obtain answer t where t: "push_mutations sample_ext 0 ''co'' [demo_mutation] empty_store = (answer, t)" by fastforce
  then have "t = pushed_store sample_ext 0" by (simp add: pushed_store_def)
  then show ?thesis
    using push_exactly_once [OF empty_reachable _ t, where now' = 1] by (simp add: empty_log max_log_def i64_max_def)
qed

theorem pull_returns_page_witness:
  "pg_head (pull_mutations (pushed_store sample_ext 0) ''co'' 0 10) = int (length (mutations (pushed_store sample_ext 0) ''co''))"
  using pull_returns_page [OF pushed_reachable, of 0 10 sample_ext 0 "''co''"] by simp

theorem rebuild_gives_read_model_witness:
  "same_row (company_document_of (rebuild_projection sample_ext 5 ''co'' (pushed_store sample_ext 0)) ''co'' ''Customer'' ''C1'')
     (company_document_of (pushed_store sample_ext 0) ''co'' ''Customer'' ''C1'')"
  by (rule rebuild_gives_read_model [OF pushed_reachable])

section \<open>History\<close>

text \<open>A digest that tells the two byte strings of a one-entry chain apart.\<close>

definition demo_ext :: ext where
  "demo_ext = sample_ext\<lparr>ext_sha256 := (\<lambda>s. replicate 32 (if s = ''{}'' then CHR ''a'' else CHR ''b''))\<rparr>"

lemma pushed_log: "log_entries (pushed_store x now) ''co'' = [(1, ''m1'', mutation_to_json demo_mutation)]"
  "counters (pushed_store x now) ''co'' = 1"
  by (simp_all add: pushed_store_def push_mutations_def append_one_def apply_projection_def fold_mutation_def folds_documents_def
      demo_mutation_def log_entries_def log_entry_def Let_def i64_succ_def i64_max_def)

lemma demo_canonical: "canonical demo_ext r = ''{}''"
  by (simp add: canonical_def demo_ext_def sample_ext_def)

lemma demo_no_collision:
  "\<not> hash_collision demo_ext (digest_inputs demo_ext GENESIS [(1, ''m1'', r)])"
proof -
  let ?l = "link_input demo_ext GENESIS 1 ''m1'' r"
  have "length ?l = 32 + 8 + 2 + 1 + 32" by (simp add: link_input_def demo_ext_def)
  then have "?l \<noteq> ''{}''" by auto
  moreover have "replicate 32 CHR ''a'' \<noteq> replicate 32 CHR ''b''" by (simp add: replicate_eq_replicate)
  ultimately show ?thesis by (simp add: hash_collision_def demo_canonical) (auto simp: demo_ext_def)
qed

theorem checkpoint_fixes_history_witness:
  "list_all2 (same_entry demo_ext) (log_entries (pushed_store demo_ext 0) ''co'') (log_entries (pushed_store demo_ext 9) ''co'')"
proof -
  have "hash_at (pushed_store demo_ext 0) ''co'' 1 = hash_at (pushed_store demo_ext 9) ''co'' 1"
    using hash_at_chain [OF reachable_log(1) [OF pushed_reachable], of 1 demo_ext _ "''co''"] by (simp add: pushed_log)
  then show ?thesis
    using checkpoint_fixes_history [OF pushed_reachable [of demo_ext 0] pushed_reachable [of demo_ext 9], of 1 "''co''" "''co''"] demo_no_collision
    by (simp add: pushed_log demo_ext_def)
qed

definition demo_report :: lost_history_report where
  "demo_report = \<lparr>lh_recovery_id = ''r1'', lh_lost = [\<lparr>lo_doctype = ''Sales Invoice'', lo_document_id = ''I7'',
     lo_number = Some (format_number ''SINV'' 7), lo_posting_date = None, lo_total = None\<rparr>]\<rparr>"

definition demo_audit :: audit_entry where
  "demo_audit = audit_row sample_env ''co'' sample_actor ''history.lost'' JNull"

lemma demo_lost:
  "\<exists>response t. record_lost_history ''co'' demo_report demo_audit empty_store = ((response, False), t)
     \<and> series t = (\<lambda>_. 0)((''co'', ''SINV'') := 7)"
proof -
  have "floor_for ''Sales Invoice'' (format_number ''SINV'' 7) = Some (''SINV'', 7)"
    by (rule floor_for_format) (simp_all add: series_key_def i64_max_def)
  then show ?thesis
    by (simp add: record_lost_history_def demo_report_def Let_def lost_found_def lost_history_outcome_def lost_step_def case_prod_beta
        raise_floors_def bt_insert.simps fun_eq_iff)
qed

text \<open>The report names number 7; after it the settings are saved, and then an invoice takes the next number.\<close>

theorem lost_number_not_reissued_witness:
  "\<exists>u w. 7 < w \<and> allocated_number u (sample_commit\<lparr>pc_series_key := Some ''SINV''\<rparr>) = Some (format_number ''SINV'' w)
     \<and> u = put_company_settings ''co'' default_settings (snd (record_lost_history ''co'' demo_report demo_audit empty_store))"
proof -
  obtain response t where t: "record_lost_history ''co'' demo_report demo_audit empty_store = ((response, False), t)"
    "series t = (\<lambda>_. 0)((''co'', ''SINV'') := 7)" using demo_lost by blast
  define r where "r = hd (lh_lost demo_report)"
  have r: "r \<in> set (lh_lost demo_report)" "posted_document_of empty_store ''co'' (lo_doctype r) (lo_document_id r) = None"
    "series_key (lo_doctype r) = Some ''SINV''" "lo_number r = Some (format_number ''SINV'' 7)"
    by (simp_all add: r_def demo_report_def posted_document_of_def series_key_def)
  let ?u = "put_company_settings ''co'' default_settings t"
  have "counted_step sample_ext t ?u" using store_step.settings by (simp add: counted_step_def t(2) i64_max_def)
  then have "counted_run sample_ext t ?u" by (simp add: counted_run_def)
  moreover have "series ?u = series t" by (simp add: put_company_settings_def)
  ultimately obtain w where "7 < w" "allocated_number ?u (sample_commit\<lparr>pc_series_key := Some ''SINV''\<rparr>) = Some (format_number ''SINV'' w)"
    using lost_number_not_reissued [OF t(1) r, where k = "sample_commit\<lparr>pc_series_key := Some ''SINV''\<rparr>" and entry' = demo_audit
        and u = ?u and x = sample_ext] t(2)
    by (auto simp: i64_max_def)
  then show ?thesis using t(1) by auto
qed

theorem posted_is_permanent_witness:
  "prefix (gl_entries empty_store ''co'') (gl_entries sample_state ''co'')"
proof -
  have "store_run sample_ext empty_store sample_state" using commit_run [OF sample_post] .
  then show ?thesis using posted_is_permanent by blast
qed

text \<open>Others post a receipt in every attempt but the one numbered 3.\<close>

theorem undisturbed_attempt_decides_witness:
  "let rival = (\<lambda>i s. if i = (3 :: nat) then s else snd (posting_commit sample_ext 0 stock_commit s)) in
    fst (submit_document sample_ext sample_env rival ''fresh'' ''co'' sample_deposit sample_actor sample_state) \<noteq> Inl (PConflict (Command Contention))
    \<and> fst (cancel_document sample_ext sample_env rival ''co'' sample_cancel sample_actor sample_state) \<noteq> Inl (PConflict (Command Contention))"
  using undisturbed_attempt_decides [of 3 "\<lambda>i s. if i = (3 :: nat) then s else snd (posting_commit sample_ext 0 stock_commit s)"
      sample_state sample_ext sample_env "''fresh''" "''co''" sample_deposit sample_actor sample_cancel]
  by (simp add: MAX_RETRIES_def Let_def)

end
