(* ===== verification/Stock_Theorems.thy ===== *)
theory Stock_Theorems
  imports Stock_Costing
begin

text \<open>
  Correctness of the stock valuation: FIFO costing against the queue of unit costs, the balance
  against the number of units left, and the state of the layers on arbitrary quantities.
\<close>

text \<open>C21. FIFO layers are a queue: on whole quantities, the layers left after a ledger hold, unit by
  unit and in order, what a queue holds that receives each receipt's units at its rate and drops each
  issue's units from the front. An issue of more than is left empties it.\<close>

theorem fifo_layers_are_queue:
  assumes "list_all2 row_move rows ms" "list_all move_ok ms"
  shows "layer_units (remaining_layers rows) = foldl spec_move [] ms"
  using assms by (rule remaining_layers_moves(2))

text \<open>A FIFO issue that the stock covers is costed at the average of the unit costs it takes, the
  oldest ones: the summed cost is exact, the only rounding is that of the final division.\<close>

theorem fifo_issue_cost:
  assumes "list_all2 row_move rows ms" "list_all move_ok ms" "foldl spec_move [] ms = map whole us"
    and "0 < n" "n \<le> length us" "n \<le> max_whole" "sum_list (take n us) \<le> max_whole"
  shows "issue_rate rows (whole n) (Some FIFO) = whole (sum_list (take n us)) / whole n"
proof -
  have "\<not> whole n \<le> 0" using assms(4) by (simp add: whole_def zero_f64_def less_eq_f64_def)
  moreover have "fifo_rate rows (whole n) = whole (sum_list (take n us)) / whole n"
    using remaining_layers_moves [OF assms(1,2)] assms(3-7) by (intro fifo_rate_whole) auto
  ultimately show ?thesis by (simp add: issue_rate_def)
qed

text \<open>Movements that never issue more than is there, and their signed quantities.\<close>

fun covered :: "f64 list \<Rightarrow> ((nat \<times> f64) + nat) list \<Rightarrow> bool" where
  "covered us [] \<longleftrightarrow> True"
| "covered us (m # ms) \<longleftrightarrow> (case m of Inl _ \<Rightarrow> True | Inr n \<Rightarrow> n \<le> length us) \<and> covered (spec_move us m) ms"

definition move_qty :: "(nat \<times> f64) + nat \<Rightarrow> int" where
  "move_qty m = (case m of Inl (q, _) \<Rightarrow> int q | Inr n \<Rightarrow> - int n)"

lemma covered_length:
  "covered us ms \<Longrightarrow> int (length (foldl spec_move us ms)) = int (length us) + sum_list (map move_qty ms)"
proof (induction ms arbitrary: us)
  case (Cons m ms)
  then have "int (length (spec_move us m)) = int (length us) + move_qty m"
    by (auto simp: spec_move_def move_qty_def split: sum.splits)
  then show ?case using Cons by simp
qed simp

lemma row_move_qty: "row_move row m \<Longrightarrow> lr_qty_change row = Fin (of_int (move_qty m))"
  by (auto simp: row_move_def move_qty_def whole_def split: sum.splits)

text \<open>The on-hand quantity of a bin is the number of units the FIFO layers hold: the balance fold
  and the layer walk, two separate computations over one ledger, agree when no issue went below zero.\<close>

theorem on_hand_is_layer_units:
  assumes "list_all2 row_move rows ms" "list_all move_ok ms" "covered [] ms"
    and "1000 * sum_list (map (\<lambda>m. \<bar>move_qty m\<bar>) ms) \<le> 2 ^ 53"
  shows "bs_actual_qty (compute_balance rows) = whole (length (layer_units (remaining_layers rows)))"
proof -
  have "list_all2 (\<lambda>row q. lr_qty_change row = Fin (of_int q)) rows (map move_qty ms)"
    using assms(1) by (auto simp: list_all2_map2 intro: list_all2_mono row_move_qty)
  then have "bs_actual_qty (compute_balance rows) = Fin (of_int (sum_list (map move_qty ms)))"
    using assms(4) by (intro compute_balance_qty) (simp_all add: comp_def)
  then show ?thesis
    using remaining_layers_moves(2) [OF assms(1,2)] covered_length [OF assms(3)] by (simp add: whole_def)
qed

text \<open>On any finite ledger, whole quantities or not, every FIFO layer left holds a positive
  quantity: partial consumption never leaves an empty or negative layer, however small the rest.\<close>

theorem layers_hold_stock:
  assumes "list_all (\<lambda>row. wf64 (lr_qty_change row)) prior"
  shows "list_all (\<lambda>l. 0 < la_qty l) (remaining_layers prior)"
  using remaining_layers_ok [OF assms] by (auto simp: list_all_iff layer_ok_def)

section \<open>Instances\<close>

text \<open>Two receipts, 2 units at 3 and 2 at 5, and an issue of 1.\<close>

definition demo_moves :: "((nat \<times> f64) + nat) list" where
  "demo_moves = [Inl (2, whole 3), Inl (2, whole 5), Inr 1]"

definition demo_rows :: "ledger_row list" where
  "demo_rows = [\<lparr>lr_qty_change = whole 2, lr_valuation_rate = whole 3\<rparr>,
     \<lparr>lr_qty_change = whole 2, lr_valuation_rate = whole 5\<rparr>, \<lparr>lr_qty_change = - whole 1, lr_valuation_rate = 0\<rparr>]"

lemma demo_ok:
  "list_all2 row_move demo_rows demo_moves" "list_all move_ok demo_moves" "covered [] demo_moves"
  "foldl spec_move [] demo_moves = map whole [3, 5, 5]"
  "1000 * sum_list (map (\<lambda>m. \<bar>move_qty m\<bar>) demo_moves) \<le> 2 ^ 53"
proof -
  have "replicate 2 a = [a, a]" for a :: f64 by (simp add: numeral_2_eq_2)
  then show "list_all2 row_move demo_rows demo_moves" "list_all move_ok demo_moves" "covered [] demo_moves"
    "foldl spec_move [] demo_moves = map whole [3, 5, 5]"
    "1000 * sum_list (map (\<lambda>m. \<bar>move_qty m\<bar>) demo_moves) \<le> 2 ^ 53"
    by (simp_all add: demo_rows_def demo_moves_def row_move_def move_ok_def spec_move_def max_whole_def move_qty_def)
qed

theorem fifo_layers_are_queue_witness: "layer_units (remaining_layers demo_rows) = map whole [3, 5, 5]"
  using fifo_layers_are_queue [OF demo_ok(1,2)] demo_ok(4) by simp

theorem fifo_issue_cost_witness: "issue_rate demo_rows (whole 2) (Some FIFO) = whole 8 / whole 2"
proof -
  have "take 2 [3, 5, 5 :: nat] = [3, 5]" by (simp add: numeral_2_eq_2)
  then show ?thesis using fifo_issue_cost [OF demo_ok(1,2,4), of 2] by (simp add: max_whole_def)
qed

theorem on_hand_is_layer_units_witness: "bs_actual_qty (compute_balance demo_rows) = whole 3"
  using on_hand_is_layer_units [OF demo_ok(1,2,3,5)] remaining_layers_moves(2) [OF demo_ok(1,2)] demo_ok(4)
  by (simp add: numeral_3_eq_3)

theorem layers_hold_stock_witness: "list_all (\<lambda>l. 0 < la_qty l) (remaining_layers [\<lparr>lr_qty_change = Fin (1 / 2), lr_valuation_rate = 1\<rparr>])"
proof -
  have "representable (1 / 2)" using round_value_dyadic [of 1 "-1"] by (simp add: representable_def pow2_def)
  then show ?thesis using layers_hold_stock [of "[\<lparr>lr_qty_change = Fin (1 / 2), lr_valuation_rate = 1\<rparr>]"] by simp
qed

end
