(* ===== verification/Mem_Identity.thy ===== *)
theory Mem_Identity
  imports Mem_Store "HOL-Library.Product_Lexorder"
begin

text \<open>
  \<^verbatim>\<open>src/src/store/mem.rs\<close>, the identity side of the store: companies, users, memberships, user
  tokens, invitations, devices, blobs, the audit feed, webhook intake and the portal and pay links.
  Fresh ids and the clock are arguments, as for the rest of the store. \<open>identity_ok\<close> is the
  invariant of its tables: a mail address leads to a user, every member is a user, a device is
  stored under its own id and a device token leads to a device.
\<close>

section \<open>Companies, users and memberships\<close>

definition create_company :: "int \<Rightarrow> uuid \<Rightarrow> string \<Rightarrow> inner \<Rightarrow> company \<times> inner" where
  "create_company now fresh name s =
     (let co = \<lparr>co_id = fresh, co_name = name, co_created_at = now\<rparr> in
      (co, s\<lparr>companies := (companies s)(fresh \<mapsto> co)\<rparr>))"

definition company_of :: "inner \<Rightarrow> uuid \<Rightarrow> company option" where
  "company_of s c = companies s c"

text \<open>The indexing \<open>inner.users[id]\<close> panics when the mail index leads nowhere: no result.\<close>

definition upsert_user :: "int \<Rightarrow> uuid \<Rightarrow> string \<Rightarrow> string \<Rightarrow> inner \<Rightarrow> user option \<times> inner" where
  "upsert_user now fresh email display_name s =
     (case users_by_email s email of
        Some u \<Rightarrow> (users s u, s)
      | None \<Rightarrow>
          let us = \<lparr>us_id = fresh, us_email = email, us_display_name = display_name, us_created_at = now\<rparr> in
          (Some us, s\<lparr>users_by_email := (users_by_email s)(email \<mapsto> fresh), users := (users s)(fresh \<mapsto> us)\<rparr>))"

definition upsert_membership :: "int \<Rightarrow> uuid \<Rightarrow> uuid \<Rightarrow> role \<Rightarrow> inner \<Rightarrow> inner" where
  "upsert_membership now u c r s =
     (case map_of (memberships s) (u, c) of
        Some _ \<Rightarrow> s
      | None \<Rightarrow> s\<lparr>memberships := AList.update (u, c) (r, now) (memberships s)\<rparr>)"

definition membership_role :: "inner \<Rightarrow> uuid \<Rightarrow> uuid \<Rightarrow> role option" where
  "membership_role s u c = map_option fst (map_of (memberships s) (u, c))"

definition company_members :: "inner \<Rightarrow> uuid \<Rightarrow> member list" where
  "company_members s c =
     sort_key (\<lambda>m. (me_created_at m, me_user m))
       (List.map_filter (\<lambda>((u, _), (r, t)). map_option (\<lambda>us.
           \<lparr>me_user = u, me_email = us_email us, me_display_name = us_display_name us,
            me_role = r, me_created_at = t\<rparr>) (users s u))
         (filter (\<lambda>((_, co), _). co = c) (memberships s)))"

definition remove_membership :: "uuid \<Rightarrow> uuid \<Rightarrow> inner \<Rightarrow> bool \<times> inner" where
  "remove_membership u c s =
     (map_of (memberships s) (u, c) \<noteq> None, s\<lparr>memberships := AList.delete (u, c) (memberships s)\<rparr>)"

definition set_membership_role :: "uuid \<Rightarrow> uuid \<Rightarrow> role \<Rightarrow> inner \<Rightarrow> bool \<times> inner" where
  "set_membership_role u c r s =
     (case map_of (memberships s) (u, c) of
        Some (_, t) \<Rightarrow> (True, s\<lparr>memberships := AList.update (u, c) (r, t) (memberships s)\<rparr>)
      | None \<Rightarrow> (False, s))"

section \<open>Tokens and devices\<close>

definition revoke_user_devices :: "int \<Rightarrow> uuid \<Rightarrow> uuid \<Rightarrow> inner \<Rightarrow> nat \<times> inner" where
  "revoke_user_devices now c u s =
     (let hit = (\<lambda>d. de_company d = c \<and> de_user d = u \<and> de_revoked_at d = None) in
      (length (filter (\<lambda>(_, d). hit d) (devices s)),
       s\<lparr>devices := map (\<lambda>(i, d). (i, if hit d then d\<lparr>de_revoked_at := Some now\<rparr> else d)) (devices s)\<rparr>))"

definition insert_user_token :: "string \<Rightarrow> uuid \<Rightarrow> uuid \<Rightarrow> int option \<Rightarrow> inner \<Rightarrow> inner" where
  "insert_user_token h u c expires s = s\<lparr>user_tokens := (user_tokens s)(h \<mapsto> (u, c, expires))\<rparr>"

definition resolve_token :: "int \<Rightarrow> string \<Rightarrow> inner \<Rightarrow> token_identity option" where
  "resolve_token now h s =
     (case device_tokens s h of
        Some i \<Rightarrow>
          (case map_of (devices s) i of
             Some d \<Rightarrow>
               if de_revoked_at d = None
               then Some \<lparr>ti_user = de_user d, ti_company = de_company d, ti_device = Some (de_id d)\<rparr>
               else None
           | None \<Rightarrow> None)
      | None \<Rightarrow>
          (case user_tokens s h of
             Some (u, c, expires) \<Rightarrow>
               if (case expires of None \<Rightarrow> True | Some e \<Rightarrow> now < e)
               then Some \<lparr>ti_user = u, ti_company = c, ti_device = None\<rparr>
               else None
           | None \<Rightarrow> None))"

definition delete_user_token :: "string \<Rightarrow> inner \<Rightarrow> bool \<times> inner" where
  "delete_user_token h s = (user_tokens s h \<noteq> None, s\<lparr>user_tokens := (user_tokens s)(h := None)\<rparr>)"

definition create_device :: "device \<Rightarrow> inner \<Rightarrow> inner" where
  "create_device d s =
     s\<lparr>device_tokens := (device_tokens s)(de_token_hash d \<mapsto> de_id d),
       devices := AList.update (de_id d) d (devices s)\<rparr>"

definition devices_of :: "inner \<Rightarrow> uuid \<Rightarrow> device list" where
  "devices_of s c =
     sort_key (\<lambda>d. (de_created_at d, de_id d)) (filter (\<lambda>d. de_company d = c) (map snd (devices s)))"

definition device_of :: "inner \<Rightarrow> uuid \<Rightarrow> uuid \<Rightarrow> device option" where
  "device_of s c i = Option.bind (map_of (devices s) i) (\<lambda>d. if de_company d = c then Some d else None)"

definition revoke_device :: "int \<Rightarrow> uuid \<Rightarrow> uuid \<Rightarrow> inner \<Rightarrow> device option \<times> inner" where
  "revoke_device now c i s =
     (case map_of (devices s) i of
        Some d \<Rightarrow>
          if de_company d = c then
            let d' = (if de_revoked_at d = None then d\<lparr>de_revoked_at := Some now\<rparr> else d) in
            (Some d', s\<lparr>devices := AList.update i d' (devices s)\<rparr>)
          else (None, s)
      | None \<Rightarrow> (None, s))"

definition touch_device_seen :: "uuid \<Rightarrow> int \<Rightarrow> int \<Rightarrow> inner \<Rightarrow> inner" where
  "touch_device_seen i seen_at stale_before s =
     (case map_of (devices s) i of
        Some d \<Rightarrow>
          if (case de_last_seen_at d of None \<Rightarrow> True | Some seen \<Rightarrow> seen < stale_before)
          then s\<lparr>devices := AList.update i (d\<lparr>de_last_seen_at := Some seen_at\<rparr>) (devices s)\<rparr>
          else s
      | None \<Rightarrow> s)"

section \<open>Invitations\<close>

text \<open>The boolean is false when the store answers the conflict ``invitation token exists''.\<close>

definition create_invitation :: "invitation \<Rightarrow> inner \<Rightarrow> bool \<times> inner" where
  "create_invitation i s =
     (if list_ex (\<lambda>(_, e). in_token_hash e = in_token_hash i) (invitations s) then (False, s)
      else (True, s\<lparr>invitations := AList.update (in_id i) i (invitations s)\<rparr>))"

definition invitation_by_hash :: "inner \<Rightarrow> string \<Rightarrow> invitation option" where
  "invitation_by_hash s h = find (\<lambda>i. in_token_hash i = h) (map snd (invitations s))"

text \<open>The boolean is false when the store answers its internal error ``invitation not found''.\<close>

definition mark_invitation_accepted :: "uuid \<Rightarrow> uuid \<Rightarrow> inner \<Rightarrow> bool \<times> inner" where
  "mark_invitation_accepted i u s =
     (case map_of (invitations s) i of
        Some v \<Rightarrow> (True, s\<lparr>invitations := AList.update i (v\<lparr>in_accepted_by := Some u\<rparr>) (invitations s)\<rparr>)
      | None \<Rightarrow> (False, s))"

section \<open>Blobs, audit and webhooks\<close>

definition put_blob :: "uuid \<Rightarrow> string \<Rightarrow> string \<Rightarrow> inner \<Rightarrow> inner" where
  "put_blob c h bytes s =
     (case blobs s (c, h) of Some _ \<Rightarrow> s | None \<Rightarrow> s\<lparr>blobs := (blobs s)((c, h) \<mapsto> bytes)\<rparr>)"

definition get_blob :: "inner \<Rightarrow> uuid \<Rightarrow> string \<Rightarrow> string option" where
  "get_blob s c h = blobs s (c, h)"

definition has_blob :: "inner \<Rightarrow> uuid \<Rightarrow> string \<Rightarrow> bool" where
  "has_blob s c h \<longleftrightarrow> blobs s (c, h) \<noteq> None"

definition append_audit :: "audit_entry \<Rightarrow> inner \<Rightarrow> inner" where
  "append_audit e s = s\<lparr>audit := audit s @ [e]\<rparr>"

definition recent_audit :: "inner \<Rightarrow> uuid \<Rightarrow> int \<Rightarrow> audit_entry list" where
  "recent_audit s c n = take (nat (max n 0)) (filter (\<lambda>e. au_company e = c) (rev (audit s)))"

definition insert_webhook_event :: "webhook_event \<Rightarrow> inner \<Rightarrow> inner" where
  "insert_webhook_event e s = s\<lparr>webhooks := webhooks s @ [e]\<rparr>"

definition count_webhook_events :: "inner \<Rightarrow> webhook_kind \<Rightarrow> string \<Rightarrow> int" where
  "count_webhook_events s k p = int (length (filter (\<lambda>e. wh_kind e = k \<and> wh_provider e = p) (webhooks s)))"

section \<open>Portal and pay links\<close>

definition create_portal_link :: "portal_link \<Rightarrow> inner \<Rightarrow> inner" where
  "create_portal_link l s = s\<lparr>portal_links := AList.update (pl_id l) l (portal_links s)\<rparr>"

definition portal_links_of :: "inner \<Rightarrow> uuid \<Rightarrow> portal_link list" where
  "portal_links_of s c = sort_key pl_created_at (filter (\<lambda>l. pl_company l = c) (map snd (portal_links s)))"

definition revoke_portal_link :: "int \<Rightarrow> uuid \<Rightarrow> uuid \<Rightarrow> inner \<Rightarrow> bool \<times> inner" where
  "revoke_portal_link now c i s =
     (case map_of (portal_links s) i of
        Some l \<Rightarrow>
          if pl_company l = c then
            (True, s\<lparr>portal_links := AList.update i
               (l\<lparr>pl_revoked_at := Some (case pl_revoked_at l of Some t \<Rightarrow> t | None \<Rightarrow> now)\<rparr>) (portal_links s)\<rparr>)
          else (False, s)
      | None \<Rightarrow> (False, s))"

definition portal_link_by_hash :: "inner \<Rightarrow> string \<Rightarrow> portal_link option" where
  "portal_link_by_hash s h = find (\<lambda>l. pl_token_hash l = h) (map snd (portal_links s))"

definition create_pay_link :: "pay_link \<Rightarrow> inner \<Rightarrow> inner" where
  "create_pay_link l s = s\<lparr>pay_links := AList.update (yl_id l) l (pay_links s)\<rparr>"

definition pay_links_of :: "inner \<Rightarrow> uuid \<Rightarrow> pay_link list" where
  "pay_links_of s c = sort_key yl_created_at (filter (\<lambda>l. yl_company l = c) (map snd (pay_links s)))"

definition revoke_pay_link :: "int \<Rightarrow> uuid \<Rightarrow> uuid \<Rightarrow> inner \<Rightarrow> bool \<times> inner" where
  "revoke_pay_link now c i s =
     (case map_of (pay_links s) i of
        Some l \<Rightarrow>
          if yl_company l = c then
            (True, s\<lparr>pay_links := AList.update i
               (l\<lparr>yl_revoked_at := Some (case yl_revoked_at l of Some t \<Rightarrow> t | None \<Rightarrow> now)\<rparr>) (pay_links s)\<rparr>)
          else (False, s)
      | None \<Rightarrow> (False, s))"

definition pay_link_by_hash :: "inner \<Rightarrow> string \<Rightarrow> pay_link option" where
  "pay_link_by_hash s h = find (\<lambda>l. yl_token_hash l = h) (map snd (pay_links s))"

section \<open>Whole-table inspection\<close>

definition webhook_events :: "inner \<Rightarrow> webhook_event list" where
  "webhook_events s = webhooks s"

definition all_stock_ledger_entries :: "inner \<Rightarrow> uuid \<Rightarrow> stock_ledger_entry list" where
  "all_stock_ledger_entries s c = stock_ledger s c"

definition all_party_transactions :: "inner \<Rightarrow> uuid \<Rightarrow> party_transaction list" where
  "all_party_transactions s c = party_transactions s c"

definition all_tax_transactions :: "inner \<Rightarrow> uuid \<Rightarrow> tax_transaction list" where
  "all_tax_transactions s c = tax_transactions s c"

definition all_settlements :: "inner \<Rightarrow> uuid \<Rightarrow> settlement list" where
  "all_settlements s c = settlements s c"

end
