(* ===== verification/Authority.thy ===== *)
theory Authority
  imports Mem_Log
begin

text \<open>
  \<^verbatim>\<open>src/src/authority.rs\<close>: what a device may push into the mutation log. The refusals are the
  constructors of \<open>authority_refusal\<close>, one per message of the code. The lemmas follow an admitted
  mutation through the read model: it never adds or changes a row of a ledger doctype, and it makes
  no document of a server-authority doctype official as long as its docstatus is an \<open>i16\<close>.
\<close>

datatype (plugins only: code size) authority_refusal =
    ReservedDevice string string
  | ReservedPrefix string
  | LedgerRow string string
  | OfficialTransition string string

definition DERIVED_DOCTYPES :: "string list" where
  "DERIVED_DOCTYPES =
     [''GL Entry'', ''Stock Ledger Entry'', ''Bin'', ''Settlement'', ''Customer Transaction'',
      ''Supplier Transaction'', ''Tax Transaction'', ''Posting Batch'']"

definition SERVER_AUTHORITY_DOCTYPES :: "string list" where
  "SERVER_AUTHORITY_DOCTYPES =
     [''Sales Invoice'', ''Purchase Invoice'', ''Purchase Receipt'', ''Delivery Note'', ''Payment Entry'',
      ''Stock Entry'', ''Journal Entry'', ''Expense'', ''Customer Deposit'']"

definition PAYMENTS_DEVICE_ID :: string where
  "PAYMENTS_DEVICE_ID = ''atlas-payments''"

definition PORTAL_DEVICE_ID :: string where
  "PORTAL_DEVICE_ID = ''atlas-portal''"

definition RESERVED_DEVICE_IDS :: "string list" where
  "RESERVED_DEVICE_IDS = [SYSTEM_DEVICE_ID, PAYMENTS_DEVICE_ID, PORTAL_DEVICE_ID]"

definition RESERVED_ID_PREFIXES :: "string list" where
  "RESERVED_ID_PREFIXES = [''postmut-'', ''portal-'']"

definition docstatus :: "mutation_record \<Rightarrow> int" where
  "docstatus m = (case obj_get (mr_payload m) ''docstatus'' of
       Some (JNum n) \<Rightarrow> (case num_i64 n of Some v \<Rightarrow> v | None \<Rightarrow> 0)
     | Some (JStr s) \<Rightarrow> (case parse_i64 (trim s) of Some v \<Rightarrow> v | None \<Rightarrow> 0)
     | _ \<Rightarrow> 0)"

definition check_client_mutation :: "mutation_record \<Rightarrow> authority_refusal + unit" where
  "check_client_mutation m =
     (if mr_device_id m \<in> set RESERVED_DEVICE_IDS then Inl (ReservedDevice (mr_id m) (mr_device_id m))
      else if list_ex (starts_with (mr_id m)) RESERVED_ID_PREFIXES then Inl (ReservedPrefix (mr_id m))
      else if mr_doc_type m \<in> set DERIVED_DOCTYPES then Inl (LedgerRow (mr_doc_type m) (mr_document_id m))
      else if mr_doc_type m \<in> set SERVER_AUTHORITY_DOCTYPES \<and>
          (mr_type m \<in> {SubmitDocument, CancelDocument} \<or>
           mr_type m \<in> {CreateDocument, UpdateDocument} \<and> 1 \<le> docstatus m)
        then Inl (OfficialTransition (mr_doc_type m) (mr_document_id m))
      else Inr ())"

section \<open>Pinning the books lock\<close>

definition blank :: "json \<Rightarrow> bool" where
  "blank v = (case v of JNull \<Rightarrow> True | JStr s \<Rightarrow> trim s = [] | _ \<Rightarrow> False)"

definition same_lock :: "json \<Rightarrow> json \<Rightarrow> bool" where
  "same_lock current server =
     (if blank current \<or> blank server then blank current \<and> blank server
      else map_option trim (as_str current) = as_str server)"

definition server_lock :: "string option \<Rightarrow> json" where
  "server_lock lock = json_opt JStr lock"

text \<open>The closure \<open>pin\<close>: the fields with the lock put back, when it had to be.\<close>

definition pin_fields :: "json \<Rightarrow> jmap \<Rightarrow> jmap option" where
  "pin_fields server flds = (case obj_get flds ''books_lock_date'' of
       None \<Rightarrow> None
     | Some current \<Rightarrow>
         if same_lock current server then None
         else Some (obj_insert ''books_lock_date'' server flds))"

text \<open>The payload after the call, when it changed.\<close>

definition pin_payload :: "ext \<Rightarrow> json \<Rightarrow> jmap \<Rightarrow> jmap option" where
  "pin_payload x server payload = (case obj_get payload ''payload'' of
       Some (JStr inner) \<Rightarrow>
         (case ext_from_str x inner of
            Some (JObj flds) \<Rightarrow>
              map_option (\<lambda>f. obj_insert ''payload'' (JStr (ext_to_string x (JObj f))) payload) (pin_fields server flds)
          | _ \<Rightarrow> None)
     | Some (JObj flds) \<Rightarrow> map_option (\<lambda>f. obj_insert ''payload'' (JObj f) payload) (pin_fields server flds)
     | _ \<Rightarrow> pin_fields server payload)"

definition pin_books_lock :: "ext \<Rightarrow> string option \<Rightarrow> mutation_record \<Rightarrow> bool \<times> mutation_record" where
  "pin_books_lock x lock m =
     (if mr_doc_type m \<noteq> ''Company'' \<or> mr_type m \<notin> {CreateDocument, UpdateDocument} then (False, m)
      else (case pin_payload x (server_lock lock) (mr_payload m) of
              None \<Rightarrow> (False, m)
            | Some p \<Rightarrow> (True, m\<lparr>mr_payload := p\<rparr>)))"

lemma pin_books_lock_frame [simp]:
  "mr_id (snd (pin_books_lock x lock m)) = mr_id m"
  "mr_doc_type (snd (pin_books_lock x lock m)) = mr_doc_type m"
  "mr_document_id (snd (pin_books_lock x lock m)) = mr_document_id m"
  "mr_type (snd (pin_books_lock x lock m)) = mr_type m"
  by (simp_all add: pin_books_lock_def split: option.split)

lemma pin_books_lock_other:
  "mr_doc_type m \<noteq> ''Company'' \<Longrightarrow> pin_books_lock x lock m = (False, m)"
  by (simp add: pin_books_lock_def)

text \<open>The JSON text of an object of fields reads back as that object.\<close>

definition reads_back :: "ext \<Rightarrow> bool" where
  "reads_back x \<longleftrightarrow> (\<forall>s m k v. ext_from_str x s = Some (JObj m) \<longrightarrow> v = JNull \<or> (\<exists>t. v = JStr t) \<longrightarrow>
     ext_from_str x (ext_to_string x (JObj (obj_insert k v m))) = Some (JObj (obj_insert k v m)))"

definition lock_agrees :: "json \<Rightarrow> jmap \<Rightarrow> bool" where
  "lock_agrees server flds = (case obj_get flds ''books_lock_date'' of None \<Rightarrow> True | Some v \<Rightarrow> v = server \<or> same_lock v server)"

lemma pin_fields_agrees:
  "lock_agrees server (case pin_fields server flds of None \<Rightarrow> flds | Some f \<Rightarrow> f)"
  by (simp add: pin_fields_def lock_agrees_def split: option.split)

lemma pinned_lock_agrees:
  assumes "reads_back x"
  shows "lock_agrees (server_lock lock)
    (envelope_fields x (case pin_payload x (server_lock lock) p of None \<Rightarrow> p | Some q \<Rightarrow> q))"
proof -
  let ?sv = "server_lock lock"
  have srv: "?sv = JNull \<or> (\<exists>t. ?sv = JStr t)" by (cases lock) (simp_all add: server_lock_def json_opt_def)
  note agree = pin_fields_agrees [of ?sv]
  consider (str) i where "obj_get p ''payload'' = Some (JStr i)"
    | (obj) f where "obj_get p ''payload'' = Some (JObj f)"
    | (flat) "\<forall>i. obj_get p ''payload'' \<noteq> Some (JStr i)" "\<forall>f. obj_get p ''payload'' \<noteq> Some (JObj f)"
    by blast
  then show ?thesis
  proof cases
    case str
    show ?thesis
    proof (cases "Option.bind (ext_from_str x i) as_object")
      case None
      then have "\<forall>f. ext_from_str x i \<noteq> Some (JObj f)" by auto
      then have "pin_payload x ?sv p = None" using str by (simp add: pin_payload_def split: option.split json.split)
      then show ?thesis using str None by (simp add: envelope_fields_def lock_agrees_def)
    next
      case (Some f)
      then have fs: "ext_from_str x i = Some (JObj f)" by (auto simp: Option.bind_eq_Some_conv elim!: as_object.elims)
      have rb: "ext_from_str x (ext_to_string x (JObj g)) = Some (JObj g)" if "pin_fields ?sv f = Some g" for g
        using assms fs srv that unfolding reads_back_def pin_fields_def
        by (auto split: option.splits if_splits)
      show ?thesis
        using str fs agree [of f] rb
        by (cases "pin_fields ?sv f") (simp_all add: pin_payload_def envelope_fields_def)
    qed
  next
    case obj
    then show ?thesis using agree [of f]
      by (cases "pin_fields ?sv f") (simp_all add: pin_payload_def envelope_fields_def)
  next
    case flat
    have pp: "pin_payload x ?sv p = pin_fields ?sv p"
      using flat by (simp add: pin_payload_def split: option.split json.split)
    have e: "envelope_fields x q = q" if "obj_get q ''payload'' = obj_get p ''payload''" for q
      using flat that by (simp add: envelope_fields_def split: option.split json.split)
    have "obj_get g ''payload'' = obj_get p ''payload''" if "pin_fields ?sv p = Some g" for g
      using that by (auto simp: pin_fields_def split: option.splits if_splits)
    then show ?thesis using agree [of p] e pp by (cases "pin_fields ?sv p") simp_all
  qed
qed

section \<open>What an admitted mutation does to the read model\<close>

definition official :: "company_document option \<Rightarrow> bool" where
  "official d = (case d of Some r \<Rightarrow> 1 \<le> cd_docstatus r | None \<Rightarrow> False)"

text \<open>The docstatus the envelope carries as a number fits the sixteen bits the read model keeps.\<close>

definition docstatus_fits :: "mutation_record \<Rightarrow> bool" where
  "docstatus_fits m = (case obj_get (mr_payload m) ''docstatus'' of
       Some (JNum (JInt n)) \<Rightarrow> - 32768 \<le> n
     | _ \<Rightarrow> True)"

lemma to_i16_id: "- 32768 \<le> n \<Longrightarrow> n \<le> 32767 \<Longrightarrow> to_i16 n = n"
  by (simp add: to_i16_def)

lemma admitted_not_derived:
  "check_client_mutation m = Inr u \<Longrightarrow> mr_doc_type m \<notin> set DERIVED_DOCTYPES"
  by (simp add: check_client_mutation_def split: if_splits)

lemma admitted_unofficial:
  assumes "check_client_mutation m = Inr u" "mr_doc_type m \<in> set SERVER_AUTHORITY_DOCTYPES" "docstatus_fits m"
    and "official (apply_action (fold_mutation x old m c now) old)"
  shows "official old"
proof -
  have t: "mr_type m \<noteq> SubmitDocument" "mr_type m \<noteq> CancelDocument"
    "mr_type m \<in> {CreateDocument, UpdateDocument} \<Longrightarrow> docstatus m < 1"
    using assms(1,2) by (auto simp: check_client_mutation_def split: if_splits)
  show ?thesis
  proof (cases "mr_type m \<in> {CreateDocument, UpdateDocument}")
    case False
    then show ?thesis using t assms(4)
      by (cases "mr_type m = DeleteDocument") (auto simp: fold_mutation_def folds_documents_def apply_action_def official_def)
  next
    case True
    have st: "1 \<le> fold_docstatus m old"
      using True assms(4) by (auto simp: fold_mutation_def folds_documents_def apply_action_def official_def Let_def)
    have "to_i16 v < 1" if "Option.bind (obj_get (mr_payload m) ''docstatus'') as_i64 = Some v" for v
    proof -
      have "docstatus m = v" "- 32768 \<le> v"
        using that assms(3)
        by (auto simp: docstatus_def docstatus_fits_def Option.bind_eq_Some_conv elim!: as_i64.elims num_i64.elims
            dest!: sym [of "Some v"] split: if_splits jnum.splits)
      then show ?thesis using t(3) [OF True] by (simp add: to_i16_id)
    qed
    then show ?thesis using st True
      by (auto simp: fold_docstatus_def official_def split: option.splits mutation_type.splits)
  qed
qed

end
