(* ===== verification/Api_Base.thy ===== *)
theory Api_Base
  imports Mem_Identity Authority Engine_Command
begin

text \<open>
  What every HTTP handler is made of: the errors of \<^verbatim>\<open>src/src/error.rs\<close> with their status codes,
  the configuration of \<^verbatim>\<open>src/src/lib.rs\<close>, and bearer-token authentication and the membership and
  role checks of \<^verbatim>\<open>src/src/auth.rs\<close>.

  A handler is an action: from a store to a result and a store. An error keeps the store as the
  calls before it left it: the handlers have no transaction around their store calls.
\<close>

section \<open>Errors\<close>

datatype (plugins only: code size) api_reason =
    BootstrapGate
  | NameAndEmailRequired
  | EmailRequired
  | InvitationTokenExists
  | InvitationAccepted
  | InvitationExpired
  | DeviceNameRequired
  | OnlyUserTokensRotate
  | LastOwnerRemoved
  | LastOwnerDemoted
  | UnknownRole string
  | Refused authority_refusal
  | PostedImmutable string string int
  | RecoveryIdInvalid
  | TooManyRecords
  | BlobMismatch string string
  | BacklogFull string
  | SettingsNotObject
  | UnknownSetting string
  | LockIsNotASetting
  | InvalidSettings
  | NotADate string
  | LockPastToday
  | ItemIdRequired
  | DoctypeUnsupported string
  | RateExceeded
  | InvoiceIdRequired
  | ExpiresDaysTooSmall
  | PartyRequired
  | QuotationDecided string string
  | SecretNotConfigured
  | SignatureMissing
  | SignatureNoTimestamp
  | SignatureStale
  | SignatureInvalid
  | WebhookNotJson
  | DatabaseUnavailable
  | Posting reason

datatype (plugins only: code size) api_error =
    Unauthorized
  | Forbidden
  | ForbiddenReason api_reason
  | ApiNotFound
  | BadRequest api_reason
  | ApiConflict api_reason
  | Gone api_reason
  | Unprocessable api_reason
  | TooManyRequests api_reason int
  | Unavailable api_reason
  | ApiInternal
  | Panicked

text \<open>The status line of each error; a panicking task is answered by the server with a 500.\<close>

fun api_status :: "api_error \<Rightarrow> nat" where
  "api_status Unauthorized = 401"
| "api_status Forbidden = 403"
| "api_status (ForbiddenReason _) = 403"
| "api_status ApiNotFound = 404"
| "api_status (BadRequest _) = 400"
| "api_status (ApiConflict _) = 409"
| "api_status (Gone _) = 410"
| "api_status (Unprocessable _) = 422"
| "api_status (TooManyRequests _ _) = 429"
| "api_status (Unavailable _) = 503"
| "api_status ApiInternal = 500"
| "api_status Panicked = 500"

fun api_of_store :: "store_error \<Rightarrow> api_error" where
  "api_of_store (Conflict r) = ApiConflict (Posting r)"
| "api_of_store (Stale r) = ApiConflict (Posting r)"
| "api_of_store Internal = ApiInternal"

fun api_of_posting :: "posting_error \<Rightarrow> api_error" where
  "api_of_posting (Validation r) = Unprocessable (Posting r)"
| "api_of_posting NotFound = ApiNotFound"
| "api_of_posting (PConflict r) = ApiConflict (Posting r)"
| "api_of_posting (PStore e) = api_of_store e"

section \<open>Actions\<close>

type_synonym 'a act = "inner \<Rightarrow> (api_error + 'a) \<times> inner"

definition give :: "'a \<Rightarrow> 'a act" where
  "give a s = (Inr a, s)"

definition fail :: "api_error \<Rightarrow> 'a act" where
  "fail e s = (Inl e, s)"

definition chain_act :: "'a act \<Rightarrow> ('a \<Rightarrow> 'b act) \<Rightarrow> 'b act" where
  "chain_act m f s = (case m s of (Inl e, t) \<Rightarrow> (Inl e, t) | (Inr a, t) \<Rightarrow> f a t)"

text \<open>A store method that reads, one that writes, and one that does both.\<close>

definition ask :: "(inner \<Rightarrow> 'a) \<Rightarrow> 'a act" where
  "ask f s = (Inr (f s), s)"

definition tell :: "(inner \<Rightarrow> inner) \<Rightarrow> unit act" where
  "tell g s = (Inr (), g s)"

definition call :: "(inner \<Rightarrow> 'a \<times> inner) \<Rightarrow> 'a act" where
  "call g s = (Inr (fst (g s)), snd (g s))"

definition need :: "bool \<Rightarrow> api_error \<Rightarrow> unit act" where
  "need b e s = (if b then Inr () else Inl e, s)"

definition found :: "'a option \<Rightarrow> api_error \<Rightarrow> 'a act" where
  "found v e s = (ok_or v e, s)"

definition lifted :: "('e \<Rightarrow> api_error) \<Rightarrow> (inner \<Rightarrow> ('e + 'a) \<times> inner) \<Rightarrow> 'a act" where
  "lifted h g s = (case g s of (Inl e, t) \<Rightarrow> (Inl (h e), t) | (Inr a, t) \<Rightarrow> (Inr a, t))"

lemmas act_defs = give_def fail_def ask_def tell_def call_def need_def found_def lifted_def

declare act_defs [eval_simps] chain_act_def [eval_simps]

lemma chain_act_Inr [result_simps]:
  "chain_act m f s = (Inr b, t) \<longleftrightarrow> (\<exists>a u. m s = (Inr a, u) \<and> f a u = (Inr b, t))"
  by (simp add: chain_act_def split: prod.split sum.split)

lemma give_Inr [result_simps]: "give a s = (Inr b, t) \<longleftrightarrow> b = a \<and> t = s"
  by (auto simp: give_def)

lemma fail_Inr [result_simps]: "fail e s = (Inr b, t) \<longleftrightarrow> False"
  by (simp add: fail_def)

lemma ask_Inr [result_simps]: "ask f s = (Inr b, t) \<longleftrightarrow> b = f s \<and> t = s"
  by (auto simp: ask_def)

lemma tell_Inr [result_simps]: "tell g s = (Inr u, t) \<longleftrightarrow> t = g s"
  by (auto simp: tell_def)

lemma call_Inr [result_simps]: "call g s = (Inr b, t) \<longleftrightarrow> g s = (b, t)"
  by (auto simp: call_def)

lemma need_Inr [result_simps]: "need b e s = (Inr u, t) \<longleftrightarrow> b \<and> t = s"
  by (auto simp: need_def)

lemma found_Inr [result_simps]: "found v e s = (Inr a, t) \<longleftrightarrow> v = Some a \<and> t = s"
  by (auto simp: found_def result_simps)

lemma lifted_Inr [result_simps]: "lifted h g s = (Inr a, t) \<longleftrightarrow> g s = (Inr a, t)"
  by (simp add: lifted_def split: prod.split sum.split)

text \<open>A property of the store that an action keeps, whatever it answers.\<close>

definition keeps :: "(inner \<Rightarrow> bool) \<Rightarrow> 'a act \<Rightarrow> bool" where
  "keeps P m \<longleftrightarrow> (\<forall>s. P s \<longrightarrow> P (snd (m s)))"

named_theorems keeps_intros \<open>actions that keep a property of the store\<close>

lemma keepsD: "keeps P m \<Longrightarrow> P s \<Longrightarrow> P (snd (m s))"
  by (simp add: keeps_def)

lemma keeps_chain [keeps_intros]: "keeps P m \<Longrightarrow> (\<And>a. keeps P (f a)) \<Longrightarrow> keeps P (chain_act m f)"
  by (simp add: keeps_def chain_act_def split: prod.split sum.split) (metis snd_conv)

lemma keeps_pure [keeps_intros]:
  "keeps P (give a)" "keeps P (fail e)" "keeps P (ask q)" "keeps P (need b e)" "keeps P (found v e)"
  by (simp_all add: keeps_def act_defs)

lemma keeps_write [keeps_intros]:
  "(\<And>s. P s \<Longrightarrow> P (g s)) \<Longrightarrow> keeps P (tell g)"
  "(\<And>s. P s \<Longrightarrow> P (snd (h s))) \<Longrightarrow> keeps P (call h)"
  "(\<And>s. P s \<Longrightarrow> P (snd (k s))) \<Longrightarrow> keeps P (lifted e k)"
  by (auto simp: keeps_def act_defs split: prod.split sum.split) (metis snd_conv)+

lemma keeps_if [keeps_intros]: "(b \<Longrightarrow> keeps P m) \<Longrightarrow> (\<not> b \<Longrightarrow> keeps P n) \<Longrightarrow> keeps P (if b then m else n)"
  by simp

lemma keeps_option [keeps_intros]:
  "(v = None \<Longrightarrow> keeps P m) \<Longrightarrow> (\<And>a. v = Some a \<Longrightarrow> keeps P (f a)) \<Longrightarrow>
     keeps P (case v of None \<Rightarrow> m | Some a \<Rightarrow> f a)"
  by (simp split: option.split)

section \<open>Configuration\<close>

text \<open>The process environment is a parameter: the value of a variable, when it is set.\<close>

type_synonym vars = "string \<Rightarrow> string option"

definition env_nonempty :: "vars \<Rightarrow> string \<Rightarrow> string option" where
  "env_nonempty vars name = Option.bind (map_option trim (vars name)) (\<lambda>v. if v = [] then None else Some v)"

definition env_parse :: "(string \<Rightarrow> 'a option) \<Rightarrow> vars \<Rightarrow> string \<Rightarrow> 'a \<Rightarrow> 'a" where
  "env_parse parse vars name dflt =
     (case Option.bind (env_nonempty vars name) parse of Some v \<Rightarrow> v | None \<Rightarrow> dflt)"

definition env_flag :: "vars \<Rightarrow> string \<Rightarrow> bool \<Rightarrow> bool" where
  "env_flag vars name dflt = (case env_nonempty vars name of
       Some v \<Rightarrow> map to_ascii_lower v \<notin> {''0'', ''false'', ''no'', ''off''}
     | None \<Rightarrow> dflt)"

record app_config =
  cf_stripe_webhook_secret :: "string option"
  cf_bootstrap_token :: "string option"
  cf_trust_proxy :: bool
  cf_rl_auth_per_min :: nat
  cf_rl_webhook_per_min :: nat
  cf_rl_public_per_min :: nat
  cf_webhook_backlog_max :: int

definition default_config :: app_config where
  "default_config = \<lparr>
     cf_stripe_webhook_secret = None, cf_bootstrap_token = None, cf_trust_proxy = True,
     cf_rl_auth_per_min = 20, cf_rl_webhook_per_min = 120, cf_rl_public_per_min = 60,
     cf_webhook_backlog_max = 1000\<rparr>"

definition config_from_env :: "vars \<Rightarrow> app_config" where
  "config_from_env vars = \<lparr>
     cf_stripe_webhook_secret = env_nonempty vars ''STRIPE_WEBHOOK_SECRET'',
     cf_bootstrap_token = env_nonempty vars ''ATLAS_BOOTSTRAP_TOKEN'',
     cf_trust_proxy = env_flag vars ''ATLAS_TRUST_PROXY'' (cf_trust_proxy default_config),
     cf_rl_auth_per_min = env_parse parse_u32 vars ''ATLAS_RL_AUTH_PER_MIN'' (cf_rl_auth_per_min default_config),
     cf_rl_webhook_per_min = env_parse parse_u32 vars ''ATLAS_RL_WEBHOOK_PER_MIN'' (cf_rl_webhook_per_min default_config),
     cf_rl_public_per_min = env_parse parse_u32 vars ''ATLAS_RL_PUBLIC_PER_MIN'' (cf_rl_public_per_min default_config),
     cf_webhook_backlog_max = env_parse parse_i64 vars ''ATLAS_WEBHOOK_BACKLOG_MAX'' (cf_webhook_backlog_max default_config)\<rparr>"

text \<open>
  What a handler sees from outside the store: the library code, the rendering of instants
  (\<open>DateTime\<close>'s JSON form, its \<open>%Y-%m-%d\<close> date, the date of a Unix time in seconds, whether an instant
  is in the range of \<open>DateTime\<close>), HMAC-SHA256 by key and message, hex decoding, the environment, the
  configuration, and for one request the clock, the fresh ids (two for audit rows: some requests
  write two) and the random token it draws.
\<close>

record web =
  wb_ext :: ext
  wb_rfc3339 :: "int \<Rightarrow> string"
  wb_date :: "int \<Rightarrow> string"
  wb_unix_date :: "int \<Rightarrow> string option"
  wb_in_range :: "int \<Rightarrow> bool"
  wb_hmac :: "string \<Rightarrow> string \<Rightarrow> string"
  wb_unhex :: "string \<Rightarrow> string option"
  wb_vars :: vars
  wb_config :: app_config
  wb_now :: int
  wb_id :: uuid
  wb_user_id :: uuid
  wb_audit_id :: uuid
  wb_pin_audit_id :: uuid
  wb_token :: string

definition json_instant :: "web \<Rightarrow> int \<Rightarrow> json" where
  "json_instant w t = JStr (wb_rfc3339 w t)"

definition MS_PER_DAY :: int where
  "MS_PER_DAY = 86400000"

section \<open>Authentication\<close>

definition DEVICE_SEEN_THROTTLE_MINUTES :: int where
  "DEVICE_SEEN_THROTTLE_MINUTES = 5"

definition hash_token :: "ext \<Rightarrow> string \<Rightarrow> string" where
  "hash_token x token = ext_hex x (ext_sha256 x token)"

definition constant_time_eq :: "ext \<Rightarrow> string \<Rightarrow> string \<Rightarrow> bool" where
  "constant_time_eq x a b \<longleftrightarrow> ext_sha256 x a = ext_sha256 x b"

definition require_device :: "token_identity \<Rightarrow> api_error + uuid" where
  "require_device auth = ok_or (ti_device auth) Forbidden"

text \<open>The extractor: the value of the \<open>Authorization\<close> header, when there is one.\<close>

definition authenticate :: "web \<Rightarrow> string option \<Rightarrow> token_identity act" where
  "authenticate w header =
     chain_act (found header Unauthorized) (\<lambda>h.
     chain_act (found (strip_prefix ''Bearer '' h) Unauthorized) (\<lambda>token.
     chain_act (ask (resolve_token (wb_now w) (hash_token (wb_ext w) token))) (\<lambda>resolved.
     chain_act (found resolved Unauthorized) (\<lambda>identity.
     chain_act (case ti_device identity of
         Some d \<Rightarrow> tell (touch_device_seen d (wb_now w) (wb_now w - DEVICE_SEEN_THROTTLE_MINUTES * 60000))
       | None \<Rightarrow> give ()) (\<lambda>_.
     give identity)))))"

definition require_membership :: "token_identity \<Rightarrow> uuid \<Rightarrow> role act" where
  "require_membership auth c =
     chain_act (need (ti_device auth = None \<or> ti_company auth = c) Forbidden) (\<lambda>_.
     chain_act (ask (\<lambda>s. membership_role s (ti_user auth) c)) (\<lambda>r.
     found r Forbidden))"

definition require_role :: "role \<Rightarrow> role list \<Rightarrow> unit act" where
  "require_role r allowed = need (r \<in> set allowed) Forbidden"

lemma require_membership_Inr [result_simps]:
  "require_membership auth c s = (Inr r, t) \<longleftrightarrow>
     t = s \<and> (ti_device auth = None \<or> ti_company auth = c) \<and> membership_role s (ti_user auth) c = Some r"
  by (auto simp: require_membership_def result_simps)

lemma require_role_Inr [result_simps]: "require_role r allowed s = (Inr u, t) \<longleftrightarrow> t = s \<and> r \<in> set allowed"
  by (auto simp: require_role_def result_simps)

lemma keeps_auth [keeps_intros]: "keeps P (require_membership auth c)" "keeps P (require_role r allowed)"
  by (auto simp: require_membership_def require_role_def intro!: keeps_intros)

end
