(* ===== verification/Api_Identity.thy ===== *)
theory Api_Identity
  imports Api_Base
begin

text \<open>
  \<^verbatim>\<open>src/src/api.rs\<close>, the handlers of companies, invitations, devices, tokens and members. Each is
  the sequence of store calls of the code, in its order, with every early return. The identity of
  the caller comes from \<open>authenticate\<close>.
\<close>

datatype body = JsonBody json | Bytes string | Html string | Csv string | Location string | NoBody

type_synonym reply = "nat \<times> body"

definition ok_json :: "(string \<times> json) list \<Rightarrow> reply" where
  "ok_json kvs = (200, JsonBody (JObj (obj_of kvs)))"

definition created_json :: "(string \<times> json) list \<Rightarrow> reply" where
  "created_json kvs = (201, JsonBody (JObj (obj_of kvs)))"

definition api_audit_row :: "web \<Rightarrow> uuid \<Rightarrow> uuid option \<Rightarrow> uuid option \<Rightarrow> string \<Rightarrow> json \<Rightarrow> audit_entry" where
  "api_audit_row w c u d action detail =
     \<lparr>au_id = wb_audit_id w, au_company = c, au_user = u, au_device = d, au_action = action,
      au_detail = detail, au_at = wb_now w\<rparr>"

text \<open>The helper \<open>audit\<close> of the handlers.\<close>

definition audited :: "web \<Rightarrow> uuid \<Rightarrow> token_identity option \<Rightarrow> string \<Rightarrow> (string \<times> json) list \<Rightarrow> unit act" where
  "audited w c auth action detail =
     tell (append_audit (api_audit_row w c (map_option ti_user auth) (Option.bind auth ti_device) action
       (JObj (obj_of detail))))"

section \<open>Companies and invitations\<close>

definition INVITATION_TTL_DAYS :: int where
  "INVITATION_TTL_DAYS = 7"

definition DEFAULT_USER_TOKEN_TTL_DAYS :: int where
  "DEFAULT_USER_TOKEN_TTL_DAYS = 30"

definition positive_var :: "web \<Rightarrow> string \<Rightarrow> int \<Rightarrow> int" where
  "positive_var w name dflt =
     (case Option.bind (wb_vars w name) (\<lambda>v. parse_i64 (trim v)) of
        Some n \<Rightarrow> if 0 < n then n else dflt
      | None \<Rightarrow> dflt)"

definition user_token_expires_at :: "web \<Rightarrow> int" where
  "user_token_expires_at w =
     wb_now w + positive_var w ''ATLAS_USER_TOKEN_TTL_DAYS'' DEFAULT_USER_TOKEN_TTL_DAYS * MS_PER_DAY"

definition company_to_json :: "web \<Rightarrow> company \<Rightarrow> json" where
  "company_to_json w co = JObj (obj_of
     [(''id'', JStr (co_id co)), (''name'', JStr (co_name co)), (''createdAt'', json_instant w (co_created_at co))])"

record create_company_request =
  cq_name :: string
  cq_owner_email :: string
  cq_owner_name :: string

text \<open>\<open>header\<close> is the value of the bootstrap header, when it is sent and readable.\<close>

definition bootstrap_gate :: "web \<Rightarrow> string option \<Rightarrow> unit act" where
  "bootstrap_gate w header = (case cf_bootstrap_token (wb_config w) of
       Some expected \<Rightarrow>
         need (constant_time_eq (wb_ext w) (unwrap_or_default header) expected) (ForbiddenReason BootstrapGate)
     | None \<Rightarrow> give ())"

definition api_create_company :: "web \<Rightarrow> string option \<Rightarrow> create_company_request \<Rightarrow> reply act" where
  "api_create_company w header req =
     chain_act (bootstrap_gate w header) (\<lambda>_.
     chain_act (need (trim (cq_name req) \<noteq> [] \<and> trim (cq_owner_email req) \<noteq> []) (BadRequest NameAndEmailRequired)) (\<lambda>_.
     chain_act (call (create_company (wb_now w) (wb_id w) (trim (cq_name req)))) (\<lambda>co.
     chain_act (call (upsert_user (wb_now w) (wb_user_id w) (trim (cq_owner_email req)) (trim (cq_owner_name req)))) (\<lambda>upserted.
     chain_act (found upserted Panicked) (\<lambda>owner.
     chain_act (tell (upsert_membership (wb_now w) (us_id owner) (co_id co) Owner)) (\<lambda>_.
     chain_act (tell (insert_user_token (hash_token (wb_ext w) (wb_token w)) (us_id owner) (co_id co)
       (Some (user_token_expires_at w)))) (\<lambda>_.
     chain_act (tell (append_audit (api_audit_row w (co_id co) (Some (us_id owner)) None ''company.create''
       (JObj (obj_of [(''name'', JStr (co_name co)), (''ownerEmail'', JStr (us_email owner))]))))) (\<lambda>_.
     give (created_json
       [(''company'', company_to_json w co), (''userId'', JStr (us_id owner)), (''token'', JStr (wb_token w))])))))))))"

definition api_create_invitation :: "web \<Rightarrow> token_identity \<Rightarrow> uuid \<Rightarrow> string \<Rightarrow> role \<Rightarrow> reply act" where
  "api_create_invitation w auth c email invited =
     (let expires_at = wb_now w + INVITATION_TTL_DAYS * MS_PER_DAY in
     chain_act (require_membership auth c) (\<lambda>r.
     chain_act (require_role r [Owner, Admin]) (\<lambda>_.
     chain_act (need (trim email \<noteq> []) (BadRequest EmailRequired)) (\<lambda>_.
     chain_act (call (create_invitation
       \<lparr>in_id = wb_id w, in_token_hash = hash_token (wb_ext w) (wb_token w), in_company = c,
        in_email = trim email, in_role = invited, in_created_by = ti_user auth, in_accepted_by = None,
        in_created_at = wb_now w, in_expires_at = expires_at\<rparr>)) (\<lambda>stored.
     chain_act (need stored (ApiConflict InvitationTokenExists)) (\<lambda>_.
     chain_act (audited w c (Some auth) ''invitation.create''
       [(''email'', JStr (trim email)), (''role'', JStr (role_as_str invited))]) (\<lambda>_.
     give (created_json [(''token'', JStr (wb_token w)), (''expiresAt'', json_instant w expires_at)]))))))))"

definition api_accept_invitation :: "web \<Rightarrow> string \<Rightarrow> string \<Rightarrow> reply act" where
  "api_accept_invitation w token display_name =
     chain_act (ask (\<lambda>s. invitation_by_hash s (hash_token (wb_ext w) token))) (\<lambda>hit.
     chain_act (found hit Unauthorized) (\<lambda>i.
     chain_act (need (in_accepted_by i = None) (ApiConflict InvitationAccepted)) (\<lambda>_.
     chain_act (need (wb_now w \<le> in_expires_at i) (Gone InvitationExpired)) (\<lambda>_.
     chain_act (call (upsert_user (wb_now w) (wb_user_id w) (in_email i) (trim display_name))) (\<lambda>upserted.
     chain_act (found upserted Panicked) (\<lambda>us.
     chain_act (tell (upsert_membership (wb_now w) (us_id us) (in_company i) (in_role i))) (\<lambda>_.
     chain_act (call (mark_invitation_accepted (in_id i) (us_id us))) (\<lambda>marked.
     chain_act (need marked ApiInternal) (\<lambda>_.
     chain_act (tell (insert_user_token (hash_token (wb_ext w) (wb_token w)) (us_id us) (in_company i)
       (Some (user_token_expires_at w)))) (\<lambda>_.
     chain_act (tell (append_audit (api_audit_row w (in_company i) (Some (us_id us)) None ''invitation.accept''
       (JObj (obj_of [(''email'', JStr (in_email i)), (''role'', JStr (role_as_str (in_role i)))]))))) (\<lambda>_.
     chain_act (ask (\<lambda>s. unwrap_or_default (map_option co_name (company_of s (in_company i))))) (\<lambda>company_name.
     give (created_json
       [(''userId'', JStr (us_id us)), (''companyId'', JStr (in_company i)), (''companyName'', JStr company_name),
        (''role'', JStr (role_as_str (in_role i))), (''token'', JStr (wb_token w))])))))))))))))"

section \<open>Devices and tokens\<close>

definition api_register_device :: "web \<Rightarrow> token_identity \<Rightarrow> uuid \<Rightarrow> string \<Rightarrow> reply act" where
  "api_register_device w auth c name =
     chain_act (require_membership auth c) (\<lambda>_.
     chain_act (need (trim name \<noteq> []) (BadRequest DeviceNameRequired)) (\<lambda>_.
     chain_act (tell (create_device
       \<lparr>de_id = wb_id w, de_company = c, de_user = ti_user auth, de_name = trim name,
        de_token_hash = hash_token (wb_ext w) (wb_token w), de_created_at = wb_now w,
        de_revoked_at = None, de_last_seen_at = None\<rparr>)) (\<lambda>_.
     chain_act (tell (append_audit (api_audit_row w c (Some (ti_user auth)) (Some (wb_id w)) ''device.register''
       (JObj (obj_of [(''name'', JStr (trim name))]))))) (\<lambda>_.
     give (created_json [(''deviceId'', JStr (wb_id w)), (''deviceToken'', JStr (wb_token w))])))))"

definition device_to_json :: "web \<Rightarrow> device \<Rightarrow> json" where
  "device_to_json w d = JObj (obj_of
     [(''id'', JStr (de_id d)), (''userId'', JStr (de_user d)), (''name'', JStr (de_name d)),
      (''createdAt'', json_instant w (de_created_at d)),
      (''revokedAt'', json_opt (json_instant w) (de_revoked_at d)),
      (''lastSeenAt'', json_opt (json_instant w) (de_last_seen_at d))])"

definition api_list_devices :: "web \<Rightarrow> token_identity \<Rightarrow> uuid \<Rightarrow> reply act" where
  "api_list_devices w auth c =
     chain_act (require_membership auth c) (\<lambda>r.
     chain_act (ask (\<lambda>s. filter (\<lambda>d. r \<in> {Owner, Admin} \<or> de_user d = ti_user auth) (devices_of s c))) (\<lambda>ds.
     give (ok_json [(''devices'', JArr (map (device_to_json w) ds))])))"

definition api_revoke_device :: "web \<Rightarrow> token_identity \<Rightarrow> uuid \<Rightarrow> uuid \<Rightarrow> reply act" where
  "api_revoke_device w auth c i =
     chain_act (require_membership auth c) (\<lambda>r.
     chain_act (ask (\<lambda>s. device_of s c i)) (\<lambda>hit.
     chain_act (found hit ApiNotFound) (\<lambda>d.
     chain_act (if de_user d \<noteq> ti_user auth then require_role r [Owner, Admin] else give ()) (\<lambda>_.
     chain_act (call (revoke_device (wb_now w) c i)) (\<lambda>revoked.
     chain_act (found revoked ApiNotFound) (\<lambda>d'.
     chain_act (audited w c (Some auth) ''device.revoke''
       [(''deviceId'', JStr (de_id d')), (''deviceUserId'', JStr (de_user d'))]) (\<lambda>_.
     give (ok_json [(''id'', JStr (de_id d')), (''revokedAt'', json_opt (json_instant w) (de_revoked_at d'))]))))))))"

definition api_rotate_user_token :: "web \<Rightarrow> token_identity \<Rightarrow> string option \<Rightarrow> uuid \<Rightarrow> reply act" where
  "api_rotate_user_token w auth header c =
     chain_act (require_membership auth c) (\<lambda>_.
     chain_act (need (ti_device auth = None) (BadRequest OnlyUserTokensRotate)) (\<lambda>_.
     chain_act (found (Option.bind header (strip_prefix ''Bearer '')) Unauthorized) (\<lambda>presented.
     chain_act (tell (insert_user_token (hash_token (wb_ext w) (wb_token w)) (ti_user auth) c
       (Some (user_token_expires_at w)))) (\<lambda>_.
     chain_act (call (delete_user_token (hash_token (wb_ext w) presented))) (\<lambda>_.
     chain_act (audited w c (Some auth) ''token.rotate'' [(''userId'', JStr (ti_user auth))]) (\<lambda>_.
     give (ok_json
       [(''token'', JStr (wb_token w)), (''expiresAt'', json_instant w (user_token_expires_at w))])))))))"

section \<open>Members\<close>

definition member_to_json :: "web \<Rightarrow> member \<Rightarrow> json" where
  "member_to_json w m = JObj (obj_of
     [(''userId'', JStr (me_user m)), (''email'', JStr (me_email m)), (''displayName'', JStr (me_display_name m)),
      (''role'', JStr (role_as_str (me_role m))), (''createdAt'', json_instant w (me_created_at m))])"

definition api_list_members :: "web \<Rightarrow> token_identity \<Rightarrow> uuid \<Rightarrow> reply act" where
  "api_list_members w auth c =
     chain_act (require_membership auth c) (\<lambda>_.
     chain_act (ask (\<lambda>s. company_members s c)) (\<lambda>ms.
     give (ok_json [(''members'', JArr (map (member_to_json w) ms))])))"

definition owner_count :: "inner \<Rightarrow> uuid \<Rightarrow> nat" where
  "owner_count s c = length (filter (\<lambda>m. me_role m = Owner) (company_members s c))"

text \<open>The reads and early returns of \<open>remove_member\<close>: the role of the member it may remove.\<close>

definition removal_guard :: "token_identity \<Rightarrow> uuid \<Rightarrow> uuid \<Rightarrow> role act" where
  "removal_guard auth c u =
     chain_act (require_membership auth c) (\<lambda>r.
     chain_act (require_role r [Owner, Admin]) (\<lambda>_.
     chain_act (ask (\<lambda>s. membership_role s u c)) (\<lambda>hit.
     chain_act (found hit ApiNotFound) (\<lambda>target.
     chain_act
       (if target = Owner then
          chain_act (need (u = ti_user auth) Forbidden) (\<lambda>_.
          chain_act (ask (\<lambda>s. owner_count s c)) (\<lambda>n.
          need (1 < n) (ApiConflict LastOwnerRemoved)))
        else if target = Admin \<and> r = Admin \<and> u \<noteq> ti_user auth then fail Forbidden
        else give ()) (\<lambda>_.
     give target)))))"

definition removal_apply :: "web \<Rightarrow> token_identity \<Rightarrow> uuid \<Rightarrow> uuid \<Rightarrow> role \<Rightarrow> reply act" where
  "removal_apply w auth c u target =
     chain_act (call (remove_membership u c)) (\<lambda>removed.
     chain_act (need removed ApiNotFound) (\<lambda>_.
     chain_act (call (revoke_user_devices (wb_now w) c u)) (\<lambda>revoked.
     chain_act (audited w c (Some auth) ''member.remove''
       [(''userId'', JStr u), (''role'', JStr (role_as_str target)), (''revokedDevices'', json_int (int revoked))]) (\<lambda>_.
     give (ok_json
       [(''userId'', JStr u), (''removed'', JBool True), (''revokedDevices'', json_int (int revoked))])))))"

definition api_remove_member :: "web \<Rightarrow> token_identity \<Rightarrow> uuid \<Rightarrow> uuid \<Rightarrow> reply act" where
  "api_remove_member w auth c u = chain_act (removal_guard auth c u) (removal_apply w auth c u)"

text \<open>The reads and early returns of \<open>change_member_role\<close>: the role it replaces and the new one.\<close>

definition role_change_guard :: "token_identity \<Rightarrow> uuid \<Rightarrow> uuid \<Rightarrow> string \<Rightarrow> (role \<times> role) act" where
  "role_change_guard auth c u name =
     chain_act (require_membership auth c) (\<lambda>r.
     chain_act (require_role r [Owner]) (\<lambda>_.
     chain_act (found (role_parse name) (BadRequest (UnknownRole name))) (\<lambda>new.
     chain_act (ask (\<lambda>s. membership_role s u c)) (\<lambda>hit.
     chain_act (found hit ApiNotFound) (\<lambda>target.
     chain_act
       (if target = Owner \<and> new \<noteq> Owner then
          chain_act (ask (\<lambda>s. owner_count s c)) (\<lambda>n. need (1 < n) (ApiConflict LastOwnerDemoted))
        else give ()) (\<lambda>_.
     give (target, new)))))))"

definition role_change_apply :: "web \<Rightarrow> token_identity \<Rightarrow> uuid \<Rightarrow> uuid \<Rightarrow> role \<times> role \<Rightarrow> reply act" where
  "role_change_apply w auth c u change =
     chain_act (call (set_membership_role u c (snd change))) (\<lambda>changed.
     chain_act (need changed ApiNotFound) (\<lambda>_.
     chain_act (audited w c (Some auth) ''member.role''
       [(''userId'', JStr u), (''from'', JStr (role_as_str (fst change))), (''to'', JStr (role_as_str (snd change)))]) (\<lambda>_.
     give (ok_json [(''userId'', JStr u), (''role'', JStr (role_as_str (snd change)))]))))"

definition api_change_member_role :: "web \<Rightarrow> token_identity \<Rightarrow> uuid \<Rightarrow> uuid \<Rightarrow> string \<Rightarrow> reply act" where
  "api_change_member_role w auth c u name =
     chain_act (role_change_guard auth c u name) (role_change_apply w auth c u)"

end
