(* ===== verification/Api_Sync.thy ===== *)
theory Api_Sync
  imports Api_Identity
begin

text \<open>
  \<^verbatim>\<open>src/src/api.rs\<close>, the sync plane (push, pull, acknowledge, history, lost-history reports), blobs,
  webhook intake and the audit feed.
\<close>

section \<open>Push\<close>

text \<open>The batch is refused at its first mutation that the authority rules refuse.\<close>

fun check_batch :: "mutation_record list \<Rightarrow> authority_refusal + unit" where
  "check_batch [] = Inr ()"
| "check_batch (m # ms) = and_then (check_client_mutation m) (\<lambda>_. check_batch ms)"

text \<open>The first new mutation of the batch on a document that is officially posted.\<close>

definition touches_posted :: "inner \<Rightarrow> uuid \<Rightarrow> string set \<Rightarrow> mutation_record \<Rightarrow> int option" where
  "touches_posted s c known m =
     (if mr_doc_type m \<notin> set POSTED_DOCTYPES \<or> mr_id m \<in> known then None
      else (case posted_document_of s c (mr_doc_type m) (mr_document_id m) of
              Some doc \<Rightarrow> if 1 \<le> pd_docstatus doc then Some (pd_docstatus doc) else None
            | None \<Rightarrow> None))"

fun check_immutable :: "inner \<Rightarrow> uuid \<Rightarrow> string set \<Rightarrow> mutation_record list \<Rightarrow> api_error + unit" where
  "check_immutable s c known [] = Inr ()"
| "check_immutable s c known (m # ms) =
     (case touches_posted s c known m of
        Some st \<Rightarrow> Inl (ApiConflict (PostedImmutable (mr_doc_type m) (mr_document_id m) st))
      | None \<Rightarrow> check_immutable s c known ms)"

definition pin_batch :: "ext \<Rightarrow> string option \<Rightarrow> mutation_record list \<Rightarrow> string list \<times> mutation_record list" where
  "pin_batch x lock ms =
     (map (\<lambda>m. mr_id m) (filter (\<lambda>m. fst (pin_books_lock x lock m)) ms), map (\<lambda>m. snd (pin_books_lock x lock m)) ms)"

definition pin_company_rows :: "web \<Rightarrow> token_identity \<Rightarrow> uuid \<Rightarrow> mutation_record list \<Rightarrow> mutation_record list act" where
  "pin_company_rows w auth c ms =
     (if list_ex (\<lambda>m. mr_doc_type m = ''Company'') ms then
        chain_act (ask (\<lambda>s. cs_books_lock_date (company_settings_of s c))) (\<lambda>lock.
        let (pinned, ms') = pin_batch (wb_ext w) lock ms in
        chain_act (if pinned \<noteq> [] then audited (w\<lparr>wb_audit_id := wb_pin_audit_id w\<rparr>) c (Some auth) ''sync.books_lock_pinned''
            [(''mutations'', JArr (map JStr pinned)), (''books_lock_date'', json_opt JStr lock)]
          else give ()) (\<lambda>_.
        give ms'))
      else give ms)"

definition api_sync_push :: "web \<Rightarrow> token_identity \<Rightarrow> uuid \<Rightarrow> mutation_record list \<Rightarrow> reply act" where
  "api_sync_push w auth c ms =
     chain_act (require_membership auth c) (\<lambda>_.
     chain_act (lifted id (\<lambda>s. (require_device auth, s))) (\<lambda>_.
     chain_act (lifted (\<lambda>e. Unprocessable (Refused e)) (\<lambda>s. (check_batch ms, s))) (\<lambda>_.
     chain_act (ask (\<lambda>s. known_mutation_ids s c (map mr_id ms))) (\<lambda>known.
     chain_act (lifted id (\<lambda>s. (check_immutable s c known ms, s))) (\<lambda>_.
     chain_act (pin_company_rows w auth c ms) (\<lambda>ms'.
     chain_act (call (push_mutations (wb_ext w) (wb_now w) c ms')) (\<lambda>assigned.
     chain_act (audited w c (Some auth) ''sync.push'' [(''count'', json_int (int (length ms')))]) (\<lambda>_.
     give (ok_json [(''versions'', JObj (obj_of (map (\<lambda>(i, v). (i, json_int v)) assigned)))])))))))))"

section \<open>Pull, acknowledge and history\<close>

definition DEFAULT_SYNC_PULL_PAGE_SIZE :: int where
  "DEFAULT_SYNC_PULL_PAGE_SIZE = 200"

definition pull_limit :: "web \<Rightarrow> int option \<Rightarrow> int" where
  "pull_limit w requested =
     (let cap = positive_var w ''ATLAS_SYNC_PULL_PAGE_SIZE'' DEFAULT_SYNC_PULL_PAGE_SIZE in
      case requested of Some n \<Rightarrow> if 0 < n then min n cap else cap | None \<Rightarrow> cap)"

definition api_sync_pull :: "web \<Rightarrow> token_identity \<Rightarrow> uuid \<Rightarrow> int option \<Rightarrow> int option \<Rightarrow> reply act" where
  "api_sync_pull w auth c after requested =
     chain_act (require_membership auth c) (\<lambda>_.
     chain_act (lifted id (\<lambda>s. (require_device auth, s))) (\<lambda>_.
     chain_act (ask (\<lambda>s. pull_mutations s c (case after of Some v \<Rightarrow> v | None \<Rightarrow> 0) (pull_limit w requested))) (\<lambda>pg.
     give (ok_json
       [(''mutations'', JArr (map mutation_to_json (pg_mutations pg))), (''hasMore'', JBool (pg_has_more pg)),
        (''head'', json_int (pg_head pg))]))))"

definition api_sync_ack :: "web \<Rightarrow> token_identity \<Rightarrow> uuid \<Rightarrow> string list \<Rightarrow> reply act" where
  "api_sync_ack w auth c ids =
     chain_act (require_membership auth c) (\<lambda>_.
     chain_act (lifted id (\<lambda>s. (require_device auth, s))) (\<lambda>_.
     chain_act (call (ack_mutations c ids)) (\<lambda>n.
     chain_act (audited w c (Some auth) ''sync.ack'' [(''count'', json_int (int n))]) (\<lambda>_.
     give (ok_json [(''acknowledged'', json_int (int n))])))))"

definition checkpoint_to_json :: "history_checkpoint \<Rightarrow> json" where
  "checkpoint_to_json hc = JObj (obj_of
     [(''protocol'', json_int (hc_protocol hc)), (''head'', json_int (hc_head hc)),
      (''headHash'', JStr (hc_head_hash hc)), (''at'', json_int (hc_at hc)),
      (''atHash'', json_opt JStr (hc_at_hash hc))])"

definition api_sync_history :: "web \<Rightarrow> token_identity \<Rightarrow> uuid \<Rightarrow> int option \<Rightarrow> reply act" where
  "api_sync_history w auth c v =
     chain_act (require_membership auth c) (\<lambda>_.
     chain_act (lifted id (\<lambda>s. (require_device auth, s))) (\<lambda>_.
     chain_act (ask (\<lambda>s. history_checkpoint (wb_ext w) s c (case v of Some n \<Rightarrow> n | None \<Rightarrow> 0))) (\<lambda>hc.
     give (200, JsonBody (checkpoint_to_json hc)))))"

definition with_history :: "web \<Rightarrow> uuid \<Rightarrow> json \<Rightarrow> reply act" where
  "with_history w c response =
     chain_act (ask (\<lambda>s. history_checkpoint (wb_ext w) s c 0)) (\<lambda>hc.
     give (200, JsonBody (json_put ''history''
       (JObj (obj_of [(''version'', json_int (hc_head hc)), (''hash'', JStr (hc_head_hash hc))])) response)))"

definition is_ascii_alphanumeric :: "char \<Rightarrow> bool" where
  "is_ascii_alphanumeric b \<longleftrightarrow> (let n = (of_char b :: nat) in
     48 \<le> n \<and> n \<le> 57 \<or> 65 \<le> n \<and> n \<le> 90 \<or> 97 \<le> n \<and> n \<le> 122)"

definition recovery_id_ok :: "string \<Rightarrow> bool" where
  "recovery_id_ok i \<longleftrightarrow> i \<noteq> [] \<and> length i \<le> 80
     \<and> list_all (\<lambda>b. is_ascii_alphanumeric b \<or> b = CHR ''-'' \<or> b = CHR ''_'') i"

definition api_report_lost_history :: "web \<Rightarrow> token_identity \<Rightarrow> uuid \<Rightarrow> lost_history_report \<Rightarrow> reply act" where
  "api_report_lost_history w auth c report =
     chain_act (require_membership auth c) (\<lambda>r.
     chain_act (lifted id (\<lambda>s. (require_device auth, s))) (\<lambda>_.
     chain_act (require_role r [Owner, Admin, Accountant]) (\<lambda>_.
     chain_act (need (recovery_id_ok (lh_recovery_id report)) (BadRequest RecoveryIdInvalid)) (\<lambda>_.
     chain_act (need (length (lh_lost report) \<le> 10000) (BadRequest TooManyRecords)) (\<lambda>_.
     chain_act (call (record_lost_history c report
       (api_audit_row w c (Some (ti_user auth)) (ti_device auth) ''sync.lost_history'' JNull))) (\<lambda>(stored, replayed).
     give (200, JsonBody (json_put ''replayed'' (JBool replayed) stored))))))))"

section \<open>Blobs\<close>

text \<open>\<open>to_lowercase\<close> of the digest in the path; outside ASCII it never yields a hexadecimal digit.\<close>

definition lower_hex :: "string \<Rightarrow> string" where
  "lower_hex h = map to_ascii_lower h"

definition api_put_blob :: "web \<Rightarrow> token_identity \<Rightarrow> uuid \<Rightarrow> string \<Rightarrow> string \<Rightarrow> reply act" where
  "api_put_blob w auth c path bytes =
     (let h = lower_hex path; actual = ext_hex (wb_ext w) (ext_sha256 (wb_ext w) bytes) in
     chain_act (require_membership auth c) (\<lambda>_.
     chain_act (need (actual = h) (Unprocessable (BlobMismatch actual h))) (\<lambda>_.
     chain_act (tell (put_blob c h bytes)) (\<lambda>_.
     chain_act (audited w c (Some auth) ''blob.put''
       [(''sha256'', JStr h), (''size'', json_int (int (length bytes)))]) (\<lambda>_.
     give (201, NoBody))))))"

definition api_get_blob :: "web \<Rightarrow> token_identity \<Rightarrow> uuid \<Rightarrow> string \<Rightarrow> reply act" where
  "api_get_blob w auth c path =
     chain_act (require_membership auth c) (\<lambda>_.
     chain_act (ask (\<lambda>s. get_blob s c (lower_hex path))) (\<lambda>hit.
     chain_act (found hit ApiNotFound) (\<lambda>bytes.
     give (200, Bytes bytes))))"

definition api_head_blob :: "web \<Rightarrow> token_identity \<Rightarrow> uuid \<Rightarrow> string \<Rightarrow> reply act" where
  "api_head_blob w auth c path =
     chain_act (require_membership auth c) (\<lambda>_.
     chain_act (ask (\<lambda>s. has_blob s c (lower_hex path))) (\<lambda>hit.
     give (if hit then (200, NoBody) else (404, NoBody))))"

section \<open>Webhook intake and the audit feed\<close>

text \<open>The headers in order, values already decoded; a repeated name keeps its last value.\<close>

definition headers_to_json :: "(string \<times> string) list \<Rightarrow> json" where
  "headers_to_json headers = JObj (obj_of (map (\<lambda>(n, v). (n, JStr v)) headers))"

definition check_webhook_backlog :: "web \<Rightarrow> webhook_kind \<Rightarrow> string \<Rightarrow> unit act" where
  "check_webhook_backlog w kind provider =
     (let cap = cf_webhook_backlog_max (wb_config w) in
      if cap \<le> 0 then give ()
      else chain_act (ask (\<lambda>s. count_webhook_events s kind provider)) (\<lambda>stored.
        need (stored < cap) (TooManyRequests (BacklogFull provider) 60)))"

definition log_webhook :: "web \<Rightarrow> webhook_kind \<Rightarrow> string \<Rightarrow> (string \<times> string) list \<Rightarrow> string \<Rightarrow> reply act" where
  "log_webhook w kind provider headers bytes =
     chain_act (check_webhook_backlog w kind provider) (\<lambda>_.
     chain_act (tell (insert_webhook_event
       \<lparr>wh_id = wb_id w, wh_kind = kind, wh_provider = provider, wh_headers = headers_to_json headers,
        wh_body = bytes, wh_received_at = wb_now w\<rparr>)) (\<lambda>_.
     give (ok_json [(''logged'', JBool True)])))"

definition webhook_payment :: "web \<Rightarrow> string \<Rightarrow> (string \<times> string) list \<Rightarrow> string \<Rightarrow> reply act" where
  "webhook_payment w provider headers bytes = log_webhook w PaymentHook provider headers bytes"

definition webhook_channel :: "web \<Rightarrow> string \<Rightarrow> (string \<times> string) list \<Rightarrow> string \<Rightarrow> reply act" where
  "webhook_channel w connector headers bytes = log_webhook w ChannelHook connector headers bytes"

definition audit_to_json :: "web \<Rightarrow> audit_entry \<Rightarrow> json" where
  "audit_to_json w e = JObj (obj_of
     [(''id'', JStr (au_id e)), (''companyId'', JStr (au_company e)), (''userId'', json_opt JStr (au_user e)),
      (''deviceId'', json_opt JStr (au_device e)), (''action'', JStr (au_action e)), (''detail'', au_detail e),
      (''at'', json_instant w (au_at e))])"

definition DEFAULT_AUDIT_LIMIT :: int where
  "DEFAULT_AUDIT_LIMIT = 100"

definition MAX_AUDIT_LIMIT :: int where
  "MAX_AUDIT_LIMIT = 500"

definition api_read_audit :: "web \<Rightarrow> token_identity \<Rightarrow> uuid \<Rightarrow> int option \<Rightarrow> reply act" where
  "api_read_audit w auth c requested =
     (let n = max 1 (min MAX_AUDIT_LIMIT (case requested of Some v \<Rightarrow> v | None \<Rightarrow> DEFAULT_AUDIT_LIMIT)) in
     chain_act (require_membership auth c) (\<lambda>r.
     chain_act (require_role r [Owner, Admin, Accountant]) (\<lambda>_.
     chain_act (ask (\<lambda>s. recent_audit s c n)) (\<lambda>es.
     give (ok_json [(''entries'', JArr (map (audit_to_json w) es))])))))"

section \<open>Log redaction\<close>

fun split_on :: "char \<Rightarrow> string \<Rightarrow> string list" where
  "split_on sep [] = [[]]"
| "split_on sep (ch # s) =
     (case split_on sep s of
        [] \<Rightarrow> [[]]
      | seg # segs \<Rightarrow> if ch = sep then [] # seg # segs else (ch # seg) # segs)"

fun join_with :: "char \<Rightarrow> string list \<Rightarrow> string" where
  "join_with sep [] = []"
| "join_with sep [seg] = seg"
| "join_with sep (seg # segs) = seg @ sep # join_with sep segs"

definition redact_path :: "string \<Rightarrow> string" where
  "redact_path path =
     (let segments = split_on (CHR ''/'') path in
      join_with (CHR ''/'')
        (if 2 < length segments \<and> segments ! 1 \<in> {''portal'', ''pay'', ''invitations''}
         then segments[2 := ''<token>''] else segments))"

end
