(* ===== verification/Api_Posting.thy ===== *)
theory Api_Posting
  imports Api_Sync Solo_Migration
begin

text \<open>
  \<^verbatim>\<open>src/src/api.rs\<close>, the posting plane: company settings and the books lock, the item registry and
  the submit, cancel and take-on commands. The commands run the engine of \<^verbatim>\<open>src/src/posting/engine.rs\<close>, with
  what other clients do between its reads and its commit in \<open>interfere\<close>.
\<close>

section \<open>Settings\<close>

definition settings_to_json :: "company_settings \<Rightarrow> jmap" where
  "settings_to_json v = obj_of
     [(''allow_negative_stock'', JBool (cs_allow_negative_stock v)),
      (''books_lock_date'', json_opt JStr (cs_books_lock_date v)),
      (''default_receivable_account'', JStr (cs_default_receivable_account v)),
      (''default_payable_account'', JStr (cs_default_payable_account v)),
      (''default_income_account'', JStr (cs_default_income_account v)),
      (''default_expense_account'', JStr (cs_default_expense_account v)),
      (''default_cash_account'', JStr (cs_default_cash_account v)),
      (''default_inventory_account'', JStr (cs_default_inventory_account v)),
      (''default_cogs_account'', JStr (cs_default_cogs_account v)),
      (''default_grni_account'', JStr (cs_default_grni_account v)),
      (''default_stock_adjustment_account'', JStr (cs_default_stock_adjustment_account v)),
      (''default_customer_deposit_account'', JStr (cs_default_customer_deposit_account v)),
      (''default_vat_account'', JStr (cs_default_vat_account v)),
      (''stripe_payment_link_url'', json_opt JStr (cs_stripe_payment_link_url v)),
      (''payment_instructions'', json_opt JStr (cs_payment_instructions v))]"

text \<open>The deserializer of one member: its type, or the default when it is missing.\<close>

definition field_of :: "(json \<Rightarrow> 'a option) \<Rightarrow> 'a \<Rightarrow> jmap \<Rightarrow> string \<Rightarrow> 'a option" where
  "field_of read dflt m k = (case obj_get m k of None \<Rightarrow> Some dflt | Some v \<Rightarrow> read v)"

fun read_opt_str :: "json \<Rightarrow> string option option" where
  "read_opt_str JNull = Some None"
| "read_opt_str (JStr s) = Some (Some s)"
| "read_opt_str _ = None"

definition settings_from_json :: "jmap \<Rightarrow> company_settings option" where
  "settings_from_json m =
     (let d = default_settings; str = (\<lambda>sel k. field_of as_str (sel d) m k) in
      Option.bind (field_of as_bool (cs_allow_negative_stock d) m ''allow_negative_stock'') (\<lambda>negative.
      Option.bind (field_of read_opt_str (cs_books_lock_date d) m ''books_lock_date'') (\<lambda>lock.
      Option.bind (str cs_default_receivable_account ''default_receivable_account'') (\<lambda>receivable.
      Option.bind (str cs_default_payable_account ''default_payable_account'') (\<lambda>payable.
      Option.bind (str cs_default_income_account ''default_income_account'') (\<lambda>income.
      Option.bind (str cs_default_expense_account ''default_expense_account'') (\<lambda>expense.
      Option.bind (str cs_default_cash_account ''default_cash_account'') (\<lambda>cash.
      Option.bind (str cs_default_inventory_account ''default_inventory_account'') (\<lambda>inventory.
      Option.bind (str cs_default_cogs_account ''default_cogs_account'') (\<lambda>cogs.
      Option.bind (str cs_default_grni_account ''default_grni_account'') (\<lambda>grni.
      Option.bind (str cs_default_stock_adjustment_account ''default_stock_adjustment_account'') (\<lambda>adjustment.
      Option.bind (str cs_default_customer_deposit_account ''default_customer_deposit_account'') (\<lambda>deposit.
      Option.bind (str cs_default_vat_account ''default_vat_account'') (\<lambda>vat.
      Option.bind (field_of read_opt_str (cs_stripe_payment_link_url d) m ''stripe_payment_link_url'') (\<lambda>stripe.
      Option.bind (field_of read_opt_str (cs_payment_instructions d) m ''payment_instructions'') (\<lambda>instructions.
      Some \<lparr>cs_allow_negative_stock = negative, cs_books_lock_date = lock, cs_default_receivable_account = receivable,
        cs_default_payable_account = payable, cs_default_income_account = income, cs_default_expense_account = expense,
        cs_default_cash_account = cash, cs_default_inventory_account = inventory, cs_default_cogs_account = cogs,
        cs_default_grni_account = grni, cs_default_stock_adjustment_account = adjustment,
        cs_default_customer_deposit_account = deposit, cs_default_vat_account = vat,
        cs_stripe_payment_link_url = stripe, cs_payment_instructions = instructions\<rparr>))))))))))))))))"

definition merge_setting :: "jmap \<Rightarrow> string \<times> json \<Rightarrow> api_error + jmap" where
  "merge_setting target kv = (case kv of (k, v) \<Rightarrow>
     and_then (ensure (obj_get target k \<noteq> None) (BadRequest (UnknownSetting k))) (\<lambda>_.
     and_then (ensure (\<not> (k = ''books_lock_date'' \<and> obj_get target k \<noteq> Some v
         \<and> \<not> (v = JNull \<and> (obj_get target k = None \<or> obj_get target k = Some JNull))))
       (ApiConflict LockIsNotASetting)) (\<lambda>_.
     Inr (obj_insert k v target))))"

definition merged_settings :: "company_settings \<Rightarrow> json \<Rightarrow> api_error + company_settings" where
  "merged_settings current patch = (case patch of
       JObj flds \<Rightarrow>
         and_then (fold_result merge_setting (settings_to_json current) flds) (\<lambda>m.
         ok_or (settings_from_json m) (BadRequest InvalidSettings))
     | _ \<Rightarrow> Inl (BadRequest SettingsNotObject))"

definition api_put_settings :: "web \<Rightarrow> token_identity \<Rightarrow> uuid \<Rightarrow> json \<Rightarrow> reply act" where
  "api_put_settings w auth c patch =
     chain_act (require_membership auth c) (\<lambda>r.
     chain_act (require_role r [Owner, Admin, Accountant]) (\<lambda>_.
     chain_act (lifted id (\<lambda>s. (merged_settings (company_settings_of s c) patch, s))) (\<lambda>v.
     chain_act (tell (put_company_settings c v)) (\<lambda>_.
     chain_act (tell (append_audit
       (api_audit_row w c (Some (ti_user auth)) (ti_device auth) ''settings.update'' patch))) (\<lambda>_.
     give (200, JsonBody (JObj (settings_to_json v))))))))"

definition api_get_settings :: "web \<Rightarrow> token_identity \<Rightarrow> uuid \<Rightarrow> reply act" where
  "api_get_settings w auth c =
     chain_act (require_membership auth c) (\<lambda>_.
     chain_act (ask (\<lambda>s. company_settings_of s c)) (\<lambda>v.
     give (200, JsonBody (JObj (settings_to_json v)))))"

section \<open>The books lock\<close>

record set_books_lock_request =
  sq_lock_date :: "string option"
  sq_expected_current :: "string option"
  sq_reason :: "string option"

definition normalize_date :: "web \<Rightarrow> string option \<Rightarrow> api_error + string option" where
  "normalize_date w date = (case map_option trim date of
       None \<Rightarrow> Inr None
     | Some raw \<Rightarrow>
         if raw = [] then Inr None
         else (case validated_posting_date (wb_ext w) (wb_date w (wb_now w)) (obj_of [(''posting_date'', JStr raw)]) of
                 Inr d \<Rightarrow> Inr (Some d)
               | Inl _ \<Rightarrow> Inl (Unprocessable (NotADate raw))))"

definition reopens :: "string option \<Rightarrow> string option \<Rightarrow> bool" where
  "reopens expected lock = (case expected of
       None \<Rightarrow> False
     | Some old \<Rightarrow> (case lock of None \<Rightarrow> True | Some new \<Rightarrow> new < old))"

text \<open>\<open>chars().take(n)\<close>: the first \<open>n\<close> characters of a UTF-8 text; a continuation byte is 128 to 191.\<close>

fun take_chars :: "nat \<Rightarrow> string \<Rightarrow> string" where
  "take_chars n [] = []"
| "take_chars n (b # s) =
     (if 128 \<le> (of_char b :: nat) \<and> (of_char b :: nat) \<le> 191 then b # take_chars n s
      else (case n of 0 \<Rightarrow> [] | Suc k \<Rightarrow> b # take_chars k s))"

definition lock_reason :: "string option \<Rightarrow> string option" where
  "lock_reason r = Option.bind (map_option (\<lambda>t. take_chars 500 (trim t)) r) (\<lambda>t. if t = [] then None else Some t)"

definition lock_audit ::
  "web \<Rightarrow> token_identity \<Rightarrow> uuid \<Rightarrow> role \<Rightarrow> string option \<Rightarrow> string option \<Rightarrow> string option \<Rightarrow> audit_entry" where
  "lock_audit w auth c r expected lock why =
     api_audit_row w c (Some (ti_user auth)) (ti_device auth)
       (if lock = None then ''settings.books_unlock'' else ''settings.books_lock'')
       (JObj (obj_of
          [(''from'', json_opt JStr expected), (''to'', json_opt JStr lock), (''role'', JStr (role_as_str r)),
           (''reason'', json_opt JStr (lock_reason why))]))"

definition api_set_books_lock :: "web \<Rightarrow> token_identity \<Rightarrow> uuid \<Rightarrow> set_books_lock_request \<Rightarrow> reply act" where
  "api_set_books_lock w auth c req =
     chain_act (require_membership auth c) (\<lambda>r.
     chain_act (require_role r [Owner, Admin, Accountant]) (\<lambda>_.
     chain_act (lifted id (\<lambda>s. (normalize_date w (sq_lock_date req), s))) (\<lambda>lock.
     chain_act (lifted id (\<lambda>s. (normalize_date w (sq_expected_current req), s))) (\<lambda>expected.
     chain_act (need (case lock of Some l \<Rightarrow> l \<le> wb_date w (wb_now w + MS_PER_DAY) | None \<Rightarrow> True)
       (Unprocessable LockPastToday)) (\<lambda>_.
     chain_act (if reopens expected lock then require_role r [Owner, Admin] else give ()) (\<lambda>_.
     chain_act (lifted api_of_store (set_books_lock c
       \<lparr>bl_expected_current = expected, bl_lock_date = lock,
        bl_audit = lock_audit w auth c r expected lock (sq_reason req)\<rparr>)) (\<lambda>outcome.
     give (ok_json
       [(''books_lock_date'', json_opt JStr (bo_lock_date outcome)),
        (''previous'', json_opt JStr (bo_previous outcome)), (''changed'', JBool (bo_changed outcome))]))))))))"

section \<open>Items and commands\<close>

definition api_upsert_item :: "web \<Rightarrow> token_identity \<Rightarrow> uuid \<Rightarrow> item \<Rightarrow> reply act" where
  "api_upsert_item w auth c it =
     chain_act (require_membership auth c) (\<lambda>r.
     chain_act (require_role r [Owner, Admin, Stock]) (\<lambda>_.
     chain_act (need (trim (it_id it) \<noteq> []) (BadRequest ItemIdRequired)) (\<lambda>_.
     chain_act (tell (upsert_item c it)) (\<lambda>_.
     chain_act (audited w c (Some auth) ''item.upsert''
       [(''id'', JStr (it_id it)), (''itemType'', JStr (it_item_type it))]) (\<lambda>_.
     give (created_json [(''id'', JStr (it_id it))]))))))"

definition env_of :: "web \<Rightarrow> env" where
  "env_of w = \<lparr>ev_now = wb_now w, ev_today = wb_date w (wb_now w), ev_audit_id = wb_audit_id w\<rparr>"

definition api_submit_document ::
  "web \<Rightarrow> (nat \<Rightarrow> inner \<Rightarrow> inner) \<Rightarrow> token_identity \<Rightarrow> uuid \<Rightarrow> submit_command \<Rightarrow> reply act" where
  "api_submit_document w interfere auth c cmd =
     chain_act (require_membership auth c) (\<lambda>r.
     chain_act (lifted id (\<lambda>s. (require_device auth, s))) (\<lambda>_.
     chain_act (found (allowed_roles (sc_doctype cmd)) (BadRequest (DoctypeUnsupported (sc_doctype cmd)))) (\<lambda>allowed.
     chain_act (require_role r allowed) (\<lambda>_.
     chain_act (lifted api_of_posting (submit_document (wb_ext w) (env_of w) interfere (wb_id w) c cmd
       (actor_user (ti_user auth) (ti_device auth)))) (\<lambda>outcome.
     with_history w c (oc_response outcome))))))"

definition api_cancel_document ::
  "web \<Rightarrow> (nat \<Rightarrow> inner \<Rightarrow> inner) \<Rightarrow> token_identity \<Rightarrow> uuid \<Rightarrow> cancel_command \<Rightarrow> reply act" where
  "api_cancel_document w interfere auth c cmd =
     chain_act (require_membership auth c) (\<lambda>r.
     chain_act (lifted id (\<lambda>s. (require_device auth, s))) (\<lambda>_.
     chain_act (found (allowed_roles (cc_doctype cmd)) (BadRequest (DoctypeUnsupported (cc_doctype cmd)))) (\<lambda>allowed.
     chain_act (require_role r allowed) (\<lambda>_.
     chain_act (lifted api_of_posting (cancel_document (wb_ext w) (env_of w) interfere c cmd
       (actor_user (ti_user auth) (ti_device auth)))) (\<lambda>outcome.
     with_history w c (oc_response outcome))))))"

definition api_import_solo_opening ::
  "web \<Rightarrow> (inner \<Rightarrow> inner) \<Rightarrow> token_identity \<Rightarrow> uuid \<Rightarrow> solo_opening_command \<Rightarrow> reply act" where
  "api_import_solo_opening w interfere auth c cmd =
     chain_act (require_membership auth c) (\<lambda>r.
     chain_act (lifted id (\<lambda>s. (require_device auth, s))) (\<lambda>_.
     chain_act (require_role r [Owner]) (\<lambda>_.
     chain_act (lifted api_of_posting (import_solo_opening (wb_ext w) (env_of w) interfere c cmd
       (actor_user (ti_user auth) (ti_device auth)))) (\<lambda>outcome.
     give (200, JsonBody (json_put ''replayed'' (JBool (oc_replayed outcome)) (oc_response outcome)))))))"

end
