(* ===== verification/Identity.thy ===== *)
theory Identity
  imports Api_Posting Store_Run
begin

text \<open>
  Who may act: the server as a state machine over its identity tables. A step is one request to an
  identity handler of \<open>Api_Identity\<close>, run to its end by any caller with any arguments, an
  authentication, or any other operation of the store. \<open>identity_ok\<close> is the invariant: the tables
  refer to each other's rows and every company has an owner. Ids of new companies and devices and
  the hashes of new device tokens are fresh, as random 128-bit ids and 256-bit tokens are.
\<close>

section \<open>The machine\<close>

inductive api_step :: "ext \<Rightarrow> inner \<Rightarrow> inner \<Rightarrow> bool" for x where
  company: "wb_ext w = x \<Longrightarrow> companies s (wb_id w) = None \<Longrightarrow> api_step x s (snd (api_create_company w header req s))"
| invite: "wb_ext w = x \<Longrightarrow> api_step x s (snd (api_create_invitation w auth c email r s))"
| accept: "wb_ext w = x \<Longrightarrow> api_step x s (snd (api_accept_invitation w token name s))"
| register: "wb_ext w = x \<Longrightarrow> map_of (devices s) (wb_id w) = None \<Longrightarrow>
    device_tokens s (hash_token x (wb_token w)) = None \<Longrightarrow> api_step x s (snd (api_register_device w auth c name s))"
| revoke: "wb_ext w = x \<Longrightarrow> api_step x s (snd (api_revoke_device w auth c i s))"
| rotate: "wb_ext w = x \<Longrightarrow> api_step x s (snd (api_rotate_user_token w auth header c s))"
| remove: "wb_ext w = x \<Longrightarrow> api_step x s (snd (api_remove_member w auth c u s))"
| role: "wb_ext w = x \<Longrightarrow> api_step x s (snd (api_change_member_role w auth c u name s))"
| login: "wb_ext w = x \<Longrightarrow> api_step x s (snd (authenticate w header s))"
| audit: "api_step x s (append_audit e s)"
| blob: "api_step x s (put_blob c h bytes s)"
| webhook: "api_step x s (insert_webhook_event ev s)"
| other: "store_step x s t \<Longrightarrow> api_step x s t"

definition api_run :: "ext \<Rightarrow> inner \<Rightarrow> inner \<Rightarrow> bool" where
  "api_run x = (api_step x)\<^sup>*\<^sup>*"

section \<open>What the rest of the store leaves alone\<close>

definition who :: "inner \<Rightarrow> (uuid \<rightharpoonup> company) \<times> (uuid \<rightharpoonup> user) \<times> (string \<rightharpoonup> uuid) \<times> ((uuid \<times> uuid) \<times> (role \<times> int)) list
    \<times> (uuid \<times> invitation) list \<times> (uuid \<times> device) list \<times> (string \<rightharpoonup> uuid)" where
  "who s = (companies s, users s, users_by_email s, memberships s, invitations s, devices s, device_tokens s)"

lemma who_projection [simp]: "who (apply_projection x now c r s) = who s"
  by (simp add: who_def apply_projection_def Let_def split: projection_action.split)

lemma who_update [simp]:
  "who (s\<lparr>counters := a\<rparr>) = who s" "who (s\<lparr>mutation_versions := b\<rparr>) = who s" "who (s\<lparr>chain := d\<rparr>) = who s"
  "who (s\<lparr>mutations := e\<rparr>) = who s" "who (s\<lparr>company_documents := f\<rparr>) = who s" "who (s\<lparr>audit := g\<rparr>) = who s"
  "who (s\<lparr>settings := h\<rparr>) = who s" "who (s\<lparr>items := i\<rparr>) = who s" "who (s\<lparr>series := j\<rparr>) = who s"
  "who (s\<lparr>history_recoveries := k\<rparr>) = who s" "who (s\<lparr>blobs := l\<rparr>) = who s" "who (s\<lparr>webhooks := m\<rparr>) = who s"
  "who (s\<lparr>user_tokens := n\<rparr>) = who s"
  by (simp_all add: who_def)

lemma who_append [simp]: "who (snd (append_mutations x now c rs s)) = who s"
proof -
  have "who (snd (append_one x now c r s)) = who s" for r s
    by (simp add: append_one_def Let_def split: option.split)
  then show ?thesis by (induction rs arbitrary: s) (simp_all add: Let_def case_prod_beta)
qed

lemma who_commit [simp]: "who (snd (posting_commit x now k s)) = who s"
proof -
  have "who (commit_apply x now k s) = who (snd (append_mutations x now (pc_company k) (commit_records x now s k) (commit_tables k s)))"
    by (simp add: commit_apply_def who_def Let_def)
  also have "\<dots> = who s" by (simp only: who_append) (simp add: commit_tables_def who_def)
  finally show ?thesis by (cases rule: posting_commit_cases [of s k x now]) simp_all
qed

lemma who_fold_projection: "who (fold (apply_projection x now c) rs s) = who s"
  by (induction rs arbitrary: s) simp_all

lemma who_store_step: "store_step x s t \<Longrightarrow> who t = who s"
  by (induction rule: store_step.induct)
    (simp_all add: push_mutations_def ack_mutations_def rebuild_projection_def who_fold_projection
      record_lost_history_def put_company_settings_def set_books_lock_def upsert_item_def Let_def case_prod_beta split: option.split)

section \<open>The invariant\<close>

definition has_owner :: "inner \<Rightarrow> uuid \<Rightarrow> bool" where
  "has_owner s c \<longleftrightarrow> (\<exists>u. membership_role s u c = Some Owner)"

definition tables_ok :: "inner \<Rightarrow> bool" where
  "tables_ok s \<longleftrightarrow>
     (\<forall>e u. users_by_email s e = Some u \<longrightarrow> users s u \<noteq> None) \<and>
     (\<forall>u us. users s u = Some us \<longrightarrow> us_id us = u) \<and>
     (\<forall>u c. map_of (memberships s) (u, c) \<noteq> None \<longrightarrow> users s u \<noteq> None \<and> companies s c \<noteq> None) \<and>
     (\<forall>i \<in> snd ` set (invitations s). companies s (in_company i) \<noteq> None) \<and>
     distinct (map fst (memberships s))"

definition identity_ok :: "inner \<Rightarrow> bool" where
  "identity_ok s \<longleftrightarrow> tables_ok s \<and> (\<forall>c. companies s c \<noteq> None \<longrightarrow> has_owner s c)"

lemma identity_cong: "who t = who s \<Longrightarrow> identity_ok t = identity_ok s" "who t = who s \<Longrightarrow> tables_ok t = tables_ok s"
  by (simp_all add: identity_ok_def tables_ok_def who_def has_owner_def membership_role_def)

lemma tables_okD:
  assumes "tables_ok s"
  shows "users_by_email s e = Some u \<Longrightarrow> users s u \<noteq> None" "users s u = Some us \<Longrightarrow> us_id us = u"
    "map_of (memberships s) (u, c) \<noteq> None \<Longrightarrow> users s u \<noteq> None" "map_of (memberships s) (u, c) \<noteq> None \<Longrightarrow> companies s c \<noteq> None"
    "p \<in> set (invitations s) \<Longrightarrow> companies s (in_company (snd p)) \<noteq> None" "distinct (map fst (memberships s))"
  using assms by (auto simp: tables_ok_def)

text \<open>The store operations.\<close>

lemma upsert_user_ok:
  assumes "tables_ok s" "upsert_user now fresh e n s = (res, t)"
  shows "tables_ok t" "\<exists>us. res = Some us \<and> users t (us_id us) \<noteq> None" "memberships t = memberships s" "companies t = companies s"
    "invitations t = invitations s"
proof -
  consider (old) u where "users_by_email s e = Some u" "t = s" "res = users s u"
    | (new) us where "us_id us = fresh" "res = Some us" "users_by_email s e = None"
      "t = s\<lparr>users_by_email := (users_by_email s)(e \<mapsto> fresh), users := (users s)(fresh \<mapsto> us)\<rparr>"
  proof (cases "users_by_email s e")
    case None
    show ?thesis
      by (rule that(2) [where us = "\<lparr>us_id = fresh, us_email = e, us_display_name = n, us_created_at = now\<rparr>"])
        (use assms(2) None in \<open>auto simp: upsert_user_def Let_def\<close>)
  next
    case (Some u)
    show ?thesis by (rule that(1) [OF Some]) (use assms(2) Some in \<open>auto simp: upsert_user_def\<close>)
  qed
  then have "tables_ok t \<and> (\<exists>us. res = Some us \<and> users t (us_id us) \<noteq> None) \<and> memberships t = memberships s
    \<and> companies t = companies s \<and> invitations t = invitations s"
  proof cases
    case old
    obtain us where us: "users s u = Some us" using tables_okD(1) [OF assms(1) old(1)] by blast
    then show ?thesis using old assms(1) tables_okD(2) [OF assms(1) us] by simp
  next
    case new
    show ?thesis using assms(1) new unfolding tables_ok_def by auto blast
  qed
  then show "tables_ok t" "\<exists>us. res = Some us \<and> users t (us_id us) \<noteq> None" "memberships t = memberships s"
    "companies t = companies s" "invitations t = invitations s" by blast+
qed

lemma upsert_membership_ok:
  assumes "tables_ok s" "users s u \<noteq> None" "companies s c \<noteq> None"
  shows "tables_ok (upsert_membership now u c r s)"
proof (cases "map_of (memberships s) (u, c)")
  case None
  have "map_of (AList.update (u, c) (r, now) (memberships s)) = (map_of (memberships s))((u, c) \<mapsto> (r, now))"
    by (rule update_conv')
  then show ?thesis
    using assms None tables_okD [OF assms(1)] unfolding tables_ok_def upsert_membership_def
    by (simp add: distinct_update del: map_of_eq_None_iff)
next
  case (Some v)
  then show ?thesis using assms by (simp add: upsert_membership_def)
qed

lemma upsert_membership_role:
  "membership_role (upsert_membership now u c r s) u' c' =
     (if u' = u \<and> c' = c \<and> membership_role s u c = None then Some r else membership_role s u' c')"
  by (simp add: upsert_membership_def membership_role_def update_conv' split: option.split)

lemma upsert_membership_frame [simp]:
  "companies (upsert_membership now u c r s) = companies s" "users (upsert_membership now u c r s) = users s"
  "invitations (upsert_membership now u c r s) = invitations s"
  by (simp_all add: upsert_membership_def split: option.split)

lemma upsert_membership_owner: "has_owner s c' \<Longrightarrow> has_owner (upsert_membership now u c r s) c'"
  unfolding has_owner_def upsert_membership_role by (metis option.distinct(1))

lemma identity_membership:
  assumes "identity_ok s" "users s u \<noteq> None" "companies s c \<noteq> None"
  shows "identity_ok (upsert_membership now u c r s)"
  using assms by (simp add: identity_ok_def upsert_membership_ok upsert_membership_owner)

lemma identity_user:
  assumes "identity_ok s" "upsert_user now fresh e n s = (res, t)"
  shows "identity_ok t"
  using assms upsert_user_ok [OF _ assms(2)] by (simp add: identity_ok_def has_owner_def membership_role_def)

lemma who_simps [simp]:
  "who (append_audit e s) = who s" "who (insert_user_token h u c ex s) = who s" "who (put_blob c h bytes s) = who s"
  "who (insert_webhook_event ev s) = who s" "who (snd (delete_user_token h s)) = who s"
  by (simp_all add: append_audit_def insert_user_token_def put_blob_def insert_webhook_event_def delete_user_token_def
      split: option.split)

text \<open>A handler that starts with the membership check, and one that starts with any other read.\<close>

lemma after_read:
  assumes "snd (m s) = s" "P s" "\<And>a. m s = (Inr a, s) \<Longrightarrow> P (snd (f a s))"
  shows "P (snd (chain_act m f s))"
proof (cases "fst (m s)")
  case (Inl e)
  then have "m s = (Inl e, s)" using assms(1) by (metis prod.collapse)
  then show ?thesis using assms(2) by (simp add: chain_act_def)
next
  case (Inr a)
  then have "m s = (Inr a, s)" using assms(1) by (metis prod.collapse)
  then show ?thesis using assms(3) by (simp add: chain_act_def)
qed

lemma reads [simp]:
  "snd (require_membership auth c s) = s" "snd (require_role r rs s) = s" "snd (found v e s) = s" "snd (need b e s) = s"
  "snd (ask q s) = s" "snd (give a s) = s" "snd (fail e s) = s"
  by (simp_all add: require_membership_def require_role_def act_defs chain_act_def split: option.split sum.split prod.split)

lemma after_membership:
  assumes "P s" "\<And>r. membership_role s (ti_user auth) c = Some r \<Longrightarrow> P (snd (f r s))"
  shows "P (snd (chain_act (require_membership auth c) f s))"
  by (rule after_read) (use assms in \<open>simp_all add: result_simps\<close>)

lemma alist_update_values: "snd ` set (AList.update k v xs) \<subseteq> insert v (snd ` set xs)"
  by (induction xs) auto

section \<open>Every handler keeps the invariant\<close>

lemma identity_frame [simp]:
  "identity_ok (append_audit e s) = identity_ok s" "identity_ok (insert_user_token h u c ex s) = identity_ok s"
  "identity_ok (put_blob c h bytes s) = identity_ok s" "identity_ok (insert_webhook_event ev s) = identity_ok s"
  "identity_ok (snd (delete_user_token h s)) = identity_ok s"
  by (rule identity_cong(1), simp)+

lemma companies_frame [simp]: "companies (append_audit e s) = companies s"
  by (simp add: append_audit_def)

lemma keeps_audited [keeps_intros]: "(\<And>s e. P s \<Longrightarrow> P (append_audit e s)) \<Longrightarrow> keeps P (audited w c auth act detail)"
  unfolding audited_def by (intro keeps_intros)

text \<open>A new company: its owner's membership completes the tables.\<close>

lemma first_owner:
  assumes "identity_ok s" "companies s c = None" "create_company now c name s = (co, s1)"
    and "upsert_user now u e n s1 = (res, s2)"
  obtains us where "res = Some us" "identity_ok (upsert_membership now (us_id us) c Owner s2)"
proof -
  have s1: "s1 = s\<lparr>companies := (companies s)(c \<mapsto> co)\<rparr>" using assms(3) by (auto simp: create_company_def Let_def)
  have t1: "tables_ok s1" using assms(1) unfolding identity_ok_def tables_ok_def s1 by auto
  note u = upsert_user_ok [OF t1 assms(4)]
  obtain us where us: "res = Some us" "users s2 (us_id us) \<noteq> None" using u(2) by blast
  let ?t = "upsert_membership now (us_id us) c Owner s2"
  have "tables_ok ?t" using u(1,4) us(2) s1 by (simp add: upsert_membership_ok)
  moreover have "has_owner ?t d" if "companies ?t d \<noteq> None" for d
  proof (cases "d = c")
    case True
    have "map_of (memberships s) (us_id us, c) = None"
      using tables_okD(4) [of s "us_id us" c] assms(1,2) unfolding identity_ok_def by blast
    then have "membership_role s2 (us_id us) c = None" using u(3) s1 by (simp add: membership_role_def)
    then show ?thesis using True by (auto simp: has_owner_def upsert_membership_role)
  next
    case False
    then have "has_owner s d" using that u(4) s1 assms(1) by (simp add: identity_ok_def)
    then have "has_owner s2 d" using u(3) s1 by (simp add: has_owner_def membership_role_def)
    then show ?thesis by (rule upsert_membership_owner)
  qed
  ultimately show ?thesis using that us(1) by (simp add: identity_ok_def)
qed

lemma create_company_keeps:
  assumes "identity_ok s" "companies s (wb_id w) = None"
  shows "identity_ok (snd (api_create_company w header req s))"
proof -
  obtain co s1 where c: "create_company (wb_now w) (wb_id w) (trim (cq_name req)) s = (co, s1)" by fastforce
  have id: "co_id co = wb_id w" using c by (auto simp: create_company_def Let_def)
  obtain res s2 where u: "upsert_user (wb_now w) (wb_user_id w) (trim (cq_owner_email req)) (trim (cq_owner_name req)) s1 = (res, s2)"
    by fastforce
  obtain us where us: "res = Some us" "identity_ok (upsert_membership (wb_now w) (us_id us) (wb_id w) Owner s2)"
    by (rule first_owner [OF assms c u])
  have "snd (bootstrap_gate w header s) = s" by (simp add: bootstrap_gate_def split: option.split)
  then obtain g where g: "bootstrap_gate w header s = (g, s)" by (metis prod.collapse)
  show ?thesis
    using assms us unfolding api_create_company_def
    by (cases g) (simp_all add: g chain_act_def act_defs c u id ok_or_def)
qed

lemma identity_invitation:
  assumes "identity_ok s" "companies s (in_company i) \<noteq> None"
  shows "identity_ok (s\<lparr>invitations := AList.update k i (invitations s)\<rparr>)"
proof -
  have all: "companies s (in_company j) \<noteq> None" if "j \<in> snd ` set (AList.update k i (invitations s))" for j
  proof (cases "j = i")
    case False
    then have "j \<in> snd ` set (invitations s)"
      using subsetD [OF alist_update_values that] by simp
    then obtain q where "q \<in> set (invitations s)" "j = snd q" by (rule imageE)
    then show ?thesis using tables_okD(5) [of s q] assms(1) by (simp add: identity_ok_def)
  qed (use assms(2) in simp)
  have "\<forall>j \<in> snd ` set (AList.update k i (invitations s)). companies s (in_company j) \<noteq> None"
    by (intro ballI all)
  moreover have "has_owner (s\<lparr>invitations := v\<rparr>) d = has_owner s d" for v d
    by (simp add: has_owner_def membership_role_def)
  ultimately show ?thesis using assms(1) unfolding identity_ok_def tables_ok_def by simp
qed

lemma keeps_with: "keeps (\<lambda>s. P s \<and> Q s) m \<Longrightarrow> P s \<Longrightarrow> Q s \<Longrightarrow> P (snd (m s))"
  by (simp add: keeps_def)

lemma create_invitation_keeps:
  assumes "identity_ok s"
  shows "identity_ok (snd (api_create_invitation w auth c email r s))"
  unfolding api_create_invitation_def Let_def
proof (rule after_membership, goal_cases)
  case (2 q)
  have inv: "identity_ok (snd (create_invitation i s)) \<and> companies (snd (create_invitation i s)) c \<noteq> None"
    if "identity_ok s \<and> companies s c \<noteq> None" "in_company i = c" for i s
    using that identity_invitation [of s i] by (simp add: create_invitation_def)
  have co: "companies s c \<noteq> None"
    using 2 tables_okD(4) [of s "ti_user auth" c] assms unfolding identity_ok_def membership_role_def by auto
  show ?case
    by (rule keeps_with [where P = identity_ok and Q = "\<lambda>s. companies s c \<noteq> None", OF _ assms co]) (intro keeps_intros inv; simp)
qed (rule assms)

lemma accept_invitation_keeps:
  assumes "identity_ok s"
  shows "identity_ok (snd (api_accept_invitation w token name s))"
proof -
  let ?hit = "invitation_by_hash s (hash_token (wb_ext w) token)"
  show ?thesis
  proof (cases ?hit)
    case None
    then show ?thesis using assms by (simp add: api_accept_invitation_def chain_act_def act_defs ok_or_def)
  next
    case (Some i)
    then obtain k where k: "(k, i) \<in> set (invitations s)"
      by (auto simp: invitation_by_hash_def find_Some_iff set_conv_nth) (metis nth_mem prod.collapse in_set_conv_nth)
    obtain res t where u: "upsert_user (wb_now w) (wb_user_id w) (in_email i) (trim name) s = (res, t)" by fastforce
    have tab: "tables_ok s" using assms by (simp add: identity_ok_def)
    note ok = upsert_user_ok [OF tab u]
    obtain us where us: "res = Some us" "users t (us_id us) \<noteq> None" using ok(2) by blast
    let ?m = "upsert_membership (wb_now w) (us_id us) (in_company i) (in_role i) t"
    have co: "companies s (in_company i) \<noteq> None" using tables_okD(5) [OF tab k] by simp
    have m: "identity_ok ?m"
      by (rule identity_membership [OF identity_user [OF assms u] us(2)]) (use co ok(4) in simp)
    have mark: "identity_ok (snd (mark_invitation_accepted j v ?m))" for j v
    proof (cases "map_of (invitations ?m) j")
      case (Some e)
      have "(j, e) \<in> set (invitations s)" using map_of_SomeD [OF Some] ok(5) by simp
      then have "companies ?m (in_company e) \<noteq> None" using tables_okD(5) [OF tab] ok(4) by fastforce
      then show ?thesis using Some identity_invitation [OF m, of "e\<lparr>in_accepted_by := Some v\<rparr>"]
        by (simp add: mark_invitation_accepted_def)
    qed (use m in \<open>simp add: mark_invitation_accepted_def\<close>)
    show ?thesis
      using assms m mark [of "in_id i" "us_id us"] us(1) identity_user [OF assms u]
      unfolding api_accept_invitation_def
      by (simp add: chain_act_def act_defs Some u ok_or_def)
  qed
qed

lemma devices_frame [simp]:
  "identity_ok (s\<lparr>devices := d\<rparr>) = identity_ok s" "identity_ok (s\<lparr>device_tokens := e\<rparr>) = identity_ok s"
  by (simp_all add: identity_ok_def tables_ok_def has_owner_def membership_role_def)

lemma device_ops_keep [simp]:
  "identity_ok (create_device d s) = identity_ok s" "identity_ok (snd (revoke_device now c i s)) = identity_ok s"
  "identity_ok (touch_device_seen i seen stale s) = identity_ok s" "identity_ok (snd (revoke_user_devices now c u s)) = identity_ok s"
  by (simp_all add: create_device_def revoke_device_def touch_device_seen_def revoke_user_devices_def Let_def split: option.split)

lemma device_handlers_keep:
  "keeps identity_ok (api_register_device w auth c name)" "keeps identity_ok (api_revoke_device w auth c i)"
  "keeps identity_ok (api_rotate_user_token w auth header c)" "keeps identity_ok (authenticate w header)"
  unfolding api_register_device_def api_revoke_device_def api_rotate_user_token_def authenticate_def
  by (intro keeps_intros keeps_option; simp)+

section \<open>Owners\<close>

text \<open>More than one owner counted: another owner than any given user.\<close>

lemma length_filter_map_filter:
  "(\<And>x y. x \<in> set xs \<Longrightarrow> f x = Some y \<Longrightarrow> Q y \<Longrightarrow> R x) \<Longrightarrow>
     length (filter Q (List.map_filter f xs)) \<le> length (filter R xs)"
  by (induction xs) (auto simp: map_filter_simps split: option.split intro: le_SucI)

lemma length_filter_sort: "length (filter Q (sort_key k xs)) = length (filter Q xs)"
  by (simp add: filter_sort)

lemma another_owner:
  assumes "tables_ok s" "1 < owner_count s c"
  obtains v where "v \<noteq> u" "membership_role s v c = Some Owner"
proof -
  let ?O = "filter (\<lambda>p. snd (fst p) = c \<and> fst (snd p) = Owner) (memberships s)"
  have "owner_count s c \<le> length (filter (\<lambda>(_, (r, _)). r = Owner) (filter (\<lambda>((_, co), _). co = c) (memberships s)))"
    unfolding owner_count_def company_members_def length_filter_sort
    by (rule length_filter_map_filter) auto
  also have "\<dots> = length ?O" by (simp add: case_prod_beta)
  finally have "1 < length ?O" using assms(2) by simp
  then obtain a b r where O: "?O = a # b # r" by (cases ?O; cases "tl ?O") auto
  have ab: "a \<in> set ?O" "b \<in> set ?O" unfolding O by simp_all
  have d: "distinct (map fst (memberships s))" using tables_okD(6) [OF assms(1)] .
  have "distinct (map fst ?O)" using d by (simp add: distinct_map_filter)
  then have "fst a \<noteq> fst b" unfolding O by simp
  have own: "membership_role s (fst (fst p)) c = Some Owner" if "p \<in> set ?O" for p
  proof -
    have m: "p \<in> set (memberships s)" "snd (fst p) = c" "fst (snd p) = Owner" using that by auto
    have "map_of (memberships s) (fst (fst p), c) = Some (snd p)"
      using map_of_is_SomeI [OF d, of "fst p" "snd p"] m(1,2) by auto
    then show ?thesis using m(3) by (simp add: membership_role_def)
  qed
  have "fst (fst a) \<noteq> u \<or> fst (fst b) \<noteq> u" using \<open>fst a \<noteq> fst b\<close> ab by (auto simp: prod_eq_iff)
  then show ?thesis using that own ab by blast
qed

text \<open>What a passed guard says; both guards only read.\<close>

lemma reads_only: "keeps (\<lambda>t. t = s) m \<Longrightarrow> snd (m s) = s"
  by (simp add: keeps_def)

lemma guard_reads [simp]: "snd (removal_guard auth c u s) = s" "snd (role_change_guard auth c u name s) = s"
  unfolding removal_guard_def role_change_guard_def by (rule reads_only, intro keeps_intros)+

lemma removal_guardD:
  assumes "removal_guard auth c u s = (Inr target, t)"
  shows "membership_role s u c = Some target" "target = Owner \<Longrightarrow> 1 < owner_count s c"
  using assms by (auto simp: removal_guard_def result_simps split: if_splits)

lemma role_change_guardD:
  assumes "role_change_guard auth c u name s = (Inr (target, new), t)"
  shows "membership_role s u c = Some target" "target = Owner \<Longrightarrow> new \<noteq> Owner \<Longrightarrow> 1 < owner_count s c"
  using assms by (auto simp: role_change_guard_def result_simps split: if_splits)

text \<open>When a member stops being an owner under such a guard, another owner stays.\<close>

lemma owner_stays:
  assumes "identity_ok s" "membership_role s u c = Some target" "target = Owner \<Longrightarrow> 1 < owner_count s c"
  obtains v where "v \<noteq> u" "membership_role s v c = Some Owner"
proof (cases "target = Owner")
  case True
  have "tables_ok s" using assms(1) by (simp add: identity_ok_def)
  then show ?thesis using assms(3) [OF True] by (rule another_owner) (rule that)
next
  case False
  have "map_of (memberships s) (u, c) \<noteq> None" using assms(2) by (auto simp: membership_role_def)
  then have "has_owner s c" using assms(1) tables_okD(4) [of s u c] unfolding identity_ok_def by blast
  then obtain v where v: "membership_role s v c = Some Owner" unfolding has_owner_def by blast
  then have "v \<noteq> u" using False assms(2) by auto
  then show ?thesis using v by (rule that)
qed

lemma identity_memberships:
  assumes "identity_ok s" "distinct (map fst ms)"
    and "\<And>p. map_of ms p \<noteq> None \<Longrightarrow> map_of (memberships s) p \<noteq> None"
    and "\<And>d. has_owner s d \<Longrightarrow> has_owner (s\<lparr>memberships := ms\<rparr>) d"
  shows "identity_ok (s\<lparr>memberships := ms\<rparr>)"
proof -
  have t: "tables_ok s" using assms(1) by (simp add: identity_ok_def)
  have "\<forall>u c. map_of ms (u, c) \<noteq> None \<longrightarrow> users s u \<noteq> None \<and> companies s c \<noteq> None"
    using assms(3) tables_okD(3,4) [OF t] by meson
  then have "tables_ok (s\<lparr>memberships := ms\<rparr>)"
    using t assms(2) unfolding tables_ok_def by simp
  then show ?thesis using assms(1,4) by (simp add: identity_ok_def)
qed

lemma remove_member_keeps:
  assumes "identity_ok s"
  shows "identity_ok (snd (api_remove_member w auth c u s))"
  unfolding api_remove_member_def
proof (rule after_read, goal_cases)
  case (3 target)
  note g = removal_guardD [OF 3]
  obtain v where v: "v \<noteq> u" "membership_role s v c = Some Owner" by (rule owner_stays [OF assms g])
  have "identity_ok (snd (remove_membership u c s))"
    unfolding remove_membership_def snd_conv
  proof (rule identity_memberships [OF assms])
    show "distinct (map fst (AList.delete (u, c) (memberships s)))"
      using assms tables_okD(6) [of s] by (simp add: identity_ok_def distinct_delete)
    show "has_owner (s\<lparr>memberships := AList.delete (u, c) (memberships s)\<rparr>) d" if "has_owner s d" for d
      using that v unfolding has_owner_def membership_role_def
      by (cases "d = c") (simp_all add: delete_conv', metis option.simps(9))
  qed (auto simp: delete_conv' split: if_splits)
  then show ?case
    by (simp add: removal_apply_def audited_def chain_act_def act_defs)
qed (use assms in simp_all)

lemma change_member_role_keeps:
  assumes "identity_ok s"
  shows "identity_ok (snd (api_change_member_role w auth c u name s))"
  unfolding api_change_member_role_def
proof (rule after_read, goal_cases)
  case (3 change)
  obtain target new where ch: "change = (target, new)" by (cases change)
  note g = role_change_guardD [OF 3 [unfolded ch]]
  obtain t where t: "map_of (memberships s) (u, c) = Some (target, t)" using g(1) by (auto simp: membership_role_def)
  have "identity_ok (s\<lparr>memberships := AList.update (u, c) (new, t) (memberships s)\<rparr>)"
  proof (rule identity_memberships [OF assms])
    show "distinct (map fst (AList.update (u, c) (new, t) (memberships s)))"
      using assms tables_okD(6) [of s] by (simp add: identity_ok_def distinct_update)
    show "has_owner (s\<lparr>memberships := AList.update (u, c) (new, t) (memberships s)\<rparr>) d" if d: "has_owner s d" for d
    proof (cases "d = c \<and> new \<noteq> Owner")
      case True
      then obtain v where "v \<noteq> u" "membership_role s v c = Some Owner" using owner_stays [OF assms g] by blast
      then show ?thesis using True by (auto simp: has_owner_def membership_role_def update_conv')
    next
      case False
      then show ?thesis using d by (auto simp: has_owner_def membership_role_def update_conv')
    qed
  qed (use t in \<open>auto simp: update_conv' split: if_splits\<close>)
  then show ?case
    using t by (simp add: role_change_apply_def set_membership_role_def audited_def chain_act_def act_defs ch)
qed (use assms in simp_all)

lemma api_step_keeps: "api_step x s t \<Longrightarrow> identity_ok s \<Longrightarrow> identity_ok t"
proof (induction rule: api_step.induct)
  case (company w s header req)
  then show ?case by (simp add: create_company_keeps)
next
  case (other s t)
  then show ?case using identity_cong(1) [OF who_store_step] by blast
qed (simp_all add: create_invitation_keeps accept_invitation_keeps remove_member_keeps change_member_role_keeps
    keepsD [OF device_handlers_keep(1)] keepsD [OF device_handlers_keep(2)] keepsD [OF device_handlers_keep(3)]
    keepsD [OF device_handlers_keep(4)])

lemma api_run_keeps: "api_run x s t \<Longrightarrow> identity_ok s \<Longrightarrow> identity_ok t"
  unfolding api_run_def by (induction rule: rtranclp_induct) (auto intro: api_step_keeps)

end
