(* ===== verification/Identity_Theorems.thy ===== *)
theory Identity_Theorems
  imports Identity
begin

text \<open>
  The properties of the identity plane: every company keeps an owner, a removed member is locked out
  at once and a revoked device for good, and the race the last-owner check leaves open.
\<close>

section \<open>Devices and their tokens along runs\<close>

text \<open>Tokens stay bound to their device, devices to their user and company, and a revocation stays.\<close>

definition tokens_kept :: "inner \<Rightarrow> inner \<Rightarrow> bool" where
  "tokens_kept s t \<longleftrightarrow> device_tokens s \<subseteq>\<^sub>m device_tokens t \<and>
     (\<forall>i d. map_of (devices s) i = Some d \<longrightarrow> (\<exists>e. map_of (devices t) i = Some e \<and> de_user e = de_user d \<and>
        de_company e = de_company d \<and> (de_revoked_at d \<noteq> None \<longrightarrow> de_revoked_at e = de_revoked_at d)))"

lemma tokens_kept_same: "devices t = devices s \<Longrightarrow> device_tokens t = device_tokens s \<Longrightarrow> tokens_kept s t"
  by (simp add: tokens_kept_def)

lemma tokens_kept_refl [simp]: "tokens_kept s s"
  by (simp add: tokens_kept_same)

lemma tokens_kept_trans: "tokens_kept s t \<Longrightarrow> tokens_kept t u \<Longrightarrow> tokens_kept s u"
  unfolding tokens_kept_def by (metis map_le_trans)

lemma tokens_who: "who t = who s \<Longrightarrow> tokens_kept s t"
  by (simp add: who_def tokens_kept_same)

lemma tokens_devices:
  assumes "\<And>i. map_of ds i = map_option (f i) (map_of (devices s) i)"
    and "\<And>i d. de_user (f i d) = de_user d \<and> de_company (f i d) = de_company d \<and>
      (de_revoked_at d \<noteq> None \<longrightarrow> de_revoked_at (f i d) = de_revoked_at d)"
  shows "tokens_kept s (s\<lparr>devices := ds\<rparr>)"
  using assms unfolding tokens_kept_def by auto

lemma map_of_map_value: "map_of (map (\<lambda>(i, d). (i, f d)) xs) j = map_option f (map_of xs j)"
  by (induction xs) auto

lemma revoke_user_devices_get:
  "map_of (devices (snd (revoke_user_devices now c u s))) i =
     map_option (\<lambda>d. if de_company d = c \<and> de_user d = u \<and> de_revoked_at d = None then d\<lparr>de_revoked_at := Some now\<rparr> else d)
       (map_of (devices s) i)"
  by (simp add: revoke_user_devices_def Let_def map_of_map_value)

lemma revoke_device_get:
  "map_of (devices (snd (revoke_device now c j s))) i =
     map_option (\<lambda>d. if i = j \<and> de_company d = c \<and> de_revoked_at d = None then d\<lparr>de_revoked_at := Some now\<rparr> else d)
       (map_of (devices s) i)"
  by (cases "map_of (devices s) i"; cases "i = j") (simp_all add: revoke_device_def Let_def update_conv' split: option.split)

lemma touch_device_get:
  "map_of (devices (touch_device_seen j seen stale s)) i =
     map_option (\<lambda>d. if i = j \<and> (case de_last_seen_at d of None \<Rightarrow> True | Some v \<Rightarrow> v < stale)
        then d\<lparr>de_last_seen_at := Some seen\<rparr> else d) (map_of (devices s) i)"
  by (cases "map_of (devices s) i"; cases "i = j") (simp_all add: touch_device_seen_def update_conv' split: option.split)

lemma tokens_ops [simp]:
  "tokens_kept s (snd (revoke_user_devices now c u s))" "tokens_kept s (snd (revoke_device now c i s))"
  "tokens_kept s (touch_device_seen i seen stale s)" "tokens_kept s (snd (create_company now c n s))"
  "tokens_kept s (snd (upsert_user now u e n s))" "tokens_kept s (upsert_membership now u c r s)"
  "tokens_kept s (insert_user_token h u c ex s)" "tokens_kept s (append_audit a s)" "tokens_kept s (snd (create_invitation v s))"
  "tokens_kept s (snd (mark_invitation_accepted j u s))" "tokens_kept s (snd (remove_membership u c s))"
  "tokens_kept s (snd (set_membership_role u c r s))" "tokens_kept s (snd (delete_user_token h s))"
  "tokens_kept s (put_blob c h bytes s)" "tokens_kept s (insert_webhook_event ev s)"
proof -
  show "tokens_kept s (snd (revoke_user_devices now c u s))"
    unfolding revoke_user_devices_def Let_def snd_conv
    using revoke_user_devices_get [of now c u s]
    by (intro tokens_devices [where f = "\<lambda>_ d. if de_company d = c \<and> de_user d = u \<and> de_revoked_at d = None then d\<lparr>de_revoked_at := Some now\<rparr> else d"])
      (simp_all add: revoke_user_devices_def Let_def)
  show "tokens_kept s (snd (revoke_device now c i s))" "tokens_kept s (touch_device_seen i seen stale s)"
    by (auto simp: tokens_kept_def revoke_device_get touch_device_get revoke_device_def touch_device_seen_def Let_def
        update_conv' split: option.splits)
qed (simp_all add: tokens_kept_same create_company_def upsert_user_def upsert_membership_def insert_user_token_def append_audit_def
    create_invitation_def mark_invitation_accepted_def remove_membership_def set_membership_role_def delete_user_token_def
    put_blob_def insert_webhook_event_def Let_def split: option.split)

lemma keeps_tokens [keeps_intros]:
  "(\<And>s. tokens_kept s (g s)) \<Longrightarrow> keeps (tokens_kept s0) (tell g)"
  "(\<And>s. tokens_kept s (snd (h s))) \<Longrightarrow> keeps (tokens_kept s0) (call h)"
  unfolding keeps_def act_defs using tokens_kept_trans by auto

lemma keeps_tokens_audited [keeps_intros]: "keeps (tokens_kept s0) (audited w c auth act detail)"
  unfolding audited_def by (intro keeps_tokens) simp

lemma bootstrap_gate_keeps [keeps_intros]: "keeps P (bootstrap_gate w header)"
  unfolding bootstrap_gate_def by (intro keeps_intros)

lemma handlers_keep_tokens:
  "keeps (tokens_kept s0) (api_create_company w header req)" "keeps (tokens_kept s0) (api_create_invitation w auth c email r)"
  "keeps (tokens_kept s0) (api_accept_invitation w token name)" "keeps (tokens_kept s0) (api_revoke_device w auth c i)"
  "keeps (tokens_kept s0) (api_rotate_user_token w auth header c)" "keeps (tokens_kept s0) (api_remove_member w auth c u)"
  "keeps (tokens_kept s0) (api_change_member_role w auth c u name)" "keeps (tokens_kept s0) (authenticate w header)"
  unfolding api_create_company_def api_create_invitation_def api_accept_invitation_def api_revoke_device_def
    api_rotate_user_token_def api_remove_member_def removal_guard_def removal_apply_def api_change_member_role_def
    role_change_guard_def role_change_apply_def authenticate_def Let_def
  by (intro keeps_chain keeps_pure keeps_auth keeps_if keeps_option keeps_tokens keeps_tokens_audited bootstrap_gate_keeps; simp)+

lemma create_device_tokens:
  assumes "map_of (devices s) (de_id d) = None" "device_tokens s (de_token_hash d) = None"
  shows "tokens_kept s (create_device d s)"
  using assms by (auto simp: tokens_kept_def create_device_def map_le_def update_conv' split: if_splits)

lemma register_keeps_tokens:
  assumes "map_of (devices s) (wb_id w) = None" "device_tokens s (hash_token (wb_ext w) (wb_token w)) = None"
  shows "tokens_kept s (snd (api_register_device w auth c name s))"
  unfolding api_register_device_def
proof (rule after_membership, goal_cases)
  case (2 r)
  have a: "tokens_kept s (append_audit e t)" if "tokens_kept s t" for e t using tokens_kept_trans that tokens_ops(8) by blast
  show ?case
    by (cases "trim name = []") (auto simp: chain_act_def act_defs intro!: a create_device_tokens assms)
qed simp

interpretation credentials: run_relation "api_step x" tokens_kept for x
proof
  show "tokens_kept s s" for s by simp
  show "tokens_kept s t \<Longrightarrow> tokens_kept t u \<Longrightarrow> tokens_kept s u" for s t u by (rule tokens_kept_trans)
  show "api_step x s t \<Longrightarrow> tokens_kept s t" for s t
  proof (induction rule: api_step.induct)
    case (other s t)
    then show ?case by (intro tokens_who who_store_step)
  qed (simp_all add: register_keeps_tokens keepsD [OF handlers_keep_tokens(1)] keepsD [OF handlers_keep_tokens(2)]
      keepsD [OF handlers_keep_tokens(3)] keepsD [OF handlers_keep_tokens(4)] keepsD [OF handlers_keep_tokens(5)]
      keepsD [OF handlers_keep_tokens(6)] keepsD [OF handlers_keep_tokens(7)] keepsD [OF handlers_keep_tokens(8)])
qed

lemmas run_tokens = credentials.run_R [folded api_run_def]

text \<open>A token bound to a revoked device authenticates nobody, now or later.\<close>

lemma revoked_unauthorized:
  assumes "device_tokens s (hash_token (wb_ext w) token) = Some i" "map_of (devices s) i = Some d" "de_revoked_at d \<noteq> None"
  shows "authenticate w (Some (''Bearer '' @ token)) s = (Inl Unauthorized, s)"
  using assms by (auto simp: authenticate_def chain_act_def act_defs ok_or_def resolve_token_def)

lemma revoked_stays_out:
  assumes "device_tokens s (hash_token x token) = Some i" "map_of (devices s) i = Some d" "de_revoked_at d \<noteq> None"
    and "api_run x s t" "wb_ext w = x"
  shows "authenticate w (Some (''Bearer '' @ token)) t = (Inl Unauthorized, t)"
proof -
  have k: "tokens_kept s t" using run_tokens assms(4) .
  obtain e where "map_of (devices t) i = Some e" "de_revoked_at e \<noteq> None"
    using k assms(2,3) unfolding tokens_kept_def by metis
  moreover have "device_tokens t (hash_token x token) = Some i"
    using k assms(1) unfolding tokens_kept_def map_le_def by (metis domI)
  ultimately show ?thesis using revoked_unauthorized assms(5) by blast
qed

text \<open>What a removal writes; authentication does not touch the memberships.\<close>

lemma removal_applyD:
  assumes "removal_apply w auth c u target s = (Inr rep, t)"
  shows "membership_role t v d = (if v = u \<and> d = c then None else membership_role s v d)"
    and "\<exists>t1. devices t = devices (snd (revoke_user_devices (wb_now w) c u t1))"
proof -
  obtain r1 t1 where g: "remove_membership u c s = (True, t1)"
    "t = append_audit r1 (snd (revoke_user_devices (wb_now w) c u t1))"
    using assms
    by (cases "remove_membership u c s") (auto simp: removal_apply_def audited_def chain_act_def act_defs split: if_splits)
  show "membership_role t v d = (if v = u \<and> d = c then None else membership_role s v d)"
    using g by (auto simp: remove_membership_def membership_role_def append_audit_def revoke_user_devices_def Let_def delete_conv')
  show "\<exists>t1. devices t = devices (snd (revoke_user_devices (wb_now w) c u t1))" using g(2) by (auto simp: append_audit_def)
qed

lemma remove_memberD:
  assumes "api_remove_member w auth c u s = (Inr rep, t)"
  obtains target where "removal_guard auth c u s = (Inr target, s)" "removal_apply w auth c u target s = (Inr rep, t)"
  using assms guard_reads(1) [of auth c u s] by (auto simp: api_remove_member_def chain_act_Inr simp del: guard_reads)

lemma authenticate_roles:
  "authenticate w header t = (Inr caller, t') \<Longrightarrow> membership_role t' = membership_role t"
  by (auto simp: authenticate_def result_simps membership_role_def touch_device_seen_def fun_eq_iff split: option.splits)

section \<open>The properties\<close>

text \<open>C24. In every state the server reaches by requests handled one after another, each company has
  an owner, and that owner is a user: no sequence of requests, by anybody, leaves a company without one.\<close>

theorem every_company_has_owner:
  assumes "api_run x empty_store s" "companies s c = Some co"
  shows "\<exists>u us. membership_role s u c = Some Owner \<and> users s u = Some us"
proof -
  have "identity_ok empty_store"
    by (simp add: identity_ok_def tables_ok_def empty_store_def)
  then have ok: "identity_ok s" by (rule api_run_keeps [OF assms(1)])
  then obtain u where u: "membership_role s u c = Some Owner" using assms(2) by (auto simp: identity_ok_def has_owner_def)
  then show ?thesis using ok tables_okD(3) [of s u c] by (auto simp: identity_ok_def membership_role_def)
qed

text \<open>C25. Removing a member locks them out: whoever authenticates as that user right after is refused
  the company, and every device they had registered in it stays unauthorized for good, whatever
  requests follow.\<close>

theorem removed_member_locked_out:
  assumes "api_remove_member w auth c u s = (Inr rep, t)"
  shows "(\<forall>w' header caller t'. authenticate w' header t = (Inr caller, t') \<longrightarrow> ti_user caller = u \<longrightarrow>
      require_membership caller c t' = (Inl Forbidden, t')) \<and>
    (\<forall>x token i d w' t'. device_tokens t (hash_token x token) = Some i \<longrightarrow> map_of (devices t) i = Some d \<longrightarrow>
      de_user d = u \<longrightarrow> de_company d = c \<longrightarrow> api_run x t t' \<longrightarrow> wb_ext w' = x \<longrightarrow>
      authenticate w' (Some (''Bearer '' @ token)) t' = (Inl Unauthorized, t'))"
proof (rule remove_memberD [OF assms], intro conjI allI impI)
  fix target w' header caller t'
  assume remove: "removal_apply w auth c u target s = (Inr rep, t)"
    and "authenticate w' header t = (Inr caller, t')" "ti_user caller = u"
  then show "require_membership caller c t' = (Inl Forbidden, t')"
    using authenticate_roles [of w' header t caller t'] removal_applyD(1) [OF remove, of u c]
    by (simp add: require_membership_def chain_act_def act_defs ok_or_def)
next
  fix target x token i d t' and w' :: web
  assume remove: "removal_apply w auth c u target s = (Inr rep, t)"
    and h: "device_tokens t (hash_token x token) = Some i" "map_of (devices t) i = Some d" "de_user d = u" "de_company d = c"
    "api_run x t t'" "wb_ext w' = x"
  show "authenticate w' (Some (''Bearer '' @ token)) t' = (Inl Unauthorized, t')"
  proof (rule revoked_stays_out [OF h(1,2) _ h(5,6)])
    obtain t1 where "devices t = devices (snd (revoke_user_devices (wb_now w) c u t1))"
      using removal_applyD(2) [OF remove] by blast
    then obtain d0 where d0: "d = (if de_company d0 = c \<and> de_user d0 = u \<and> de_revoked_at d0 = None
        then d0\<lparr>de_revoked_at := Some (wb_now w)\<rparr> else d0)"
      using h(2) by (auto simp only: revoke_user_devices_get map_option_eq_Some)
    show "de_revoked_at d \<noteq> None"
    proof (cases "de_company d0 = c \<and> de_user d0 = u \<and> de_revoked_at d0 = None")
      case False
      then have "d = d0" using d0 by simp
      then show ?thesis using False h(3,4) by simp
    qed (use d0 in simp)
  qed
qed

text \<open>
  The last-owner check and the removal are two store calls. When the only two owners leave at the
  same time and both checks run first, both removals succeed and the company has no owner.
\<close>

lemma last_owner_race:
  assumes "removal_guard auth1 c a s = (Inr Owner, s)" "removal_guard auth2 c b s = (Inr Owner, s)" "a \<noteq> b"
    and "\<And>u. membership_role s u c = Some Owner \<Longrightarrow> u = a \<or> u = b"
  obtains rep1 rep2 t1 t2 where "removal_apply w1 auth1 c a Owner s = (Inr rep1, t1)"
    "removal_apply w2 auth2 c b Owner t1 = (Inr rep2, t2)" "\<not> has_owner t2 c"
proof -
  have member: "\<exists>rep t. removal_apply w auth c u Owner s = (Inr rep, t)" if "membership_role s u c \<noteq> None" for w auth u s
    using that by (auto simp: removal_apply_def audited_def chain_act_def act_defs remove_membership_def membership_role_def)
  note g = removal_guardD(1) [OF assms(1)] removal_guardD(1) [OF assms(2)]
  obtain rep1 t1 where 1: "removal_apply w1 auth1 c a Owner s = (Inr rep1, t1)" using member g(1) by blast
  have "membership_role t1 b c = Some Owner" using removal_applyD(1) [OF 1, of b c] g(2) assms(3) by simp
  then obtain rep2 t2 where 2: "removal_apply w2 auth2 c b Owner t1 = (Inr rep2, t2)" using member by blast
  have "membership_role t2 u c \<noteq> Some Owner" for u
    using removal_applyD(1) [OF 1, of u c] removal_applyD(1) [OF 2, of u c] assms(4) [of u] by auto
  then show ?thesis using that 1 2 by (auto simp: has_owner_def)
qed

end
