(* ===== verification/Api_Theorems.thy ===== *)
theory Api_Theorems
  imports Api_Posting
begin

text \<open>
  The properties of the sync and settings handlers: what a device's push can and cannot do to the
  read model, and who may move the books lock.
\<close>

section \<open>A push, row by row\<close>

lemma company_document_append_one:
  "company_document_of (snd (append_one x now c m s)) c dt d =
     (if mutation_versions s (c, mr_id m) \<noteq> None \<or> (mr_doc_type m, mr_document_id m) \<noteq> (dt, d)
      then company_document_of s c dt d
      else apply_action (fold_mutation x (company_document_of s c dt d) m c now) (company_document_of s c dt d))"
  by (auto simp: append_one_def apply_projection_def company_document_of_def Let_def apply_action_def update_conv' delete_conv'
      split: option.split projection_action.split)

lemma versions_append_one:
  "mutation_versions s (c, i) \<noteq> None \<Longrightarrow> mutation_versions (snd (append_one x now c m s)) (c, i) \<noteq> None"
  by (auto simp: append_one_def Let_def split: option.split)

text \<open>A relation between old and new row that every new record of the batch respects.\<close>

lemma append_rows:
  assumes "\<And>a. R a a" "\<And>a b e. R a b \<Longrightarrow> R b e \<Longrightarrow> R a e"
    and "\<And>m a. m \<in> set ms \<Longrightarrow> mutation_versions s (c, mr_id m) = None \<Longrightarrow> (mr_doc_type m, mr_document_id m) = (dt, d) \<Longrightarrow>
      R a (apply_action (fold_mutation x a m c now) a)"
  shows "R (company_document_of s c dt d) (company_document_of (snd (append_mutations x now c ms s)) c dt d)"
  using assms(3)
proof (induction ms arbitrary: s)
  case Nil
  then show ?case using assms(1) by simp
next
  case (Cons m ms)
  let ?s = "snd (append_one x now c m s)"
  have "R (company_document_of s c dt d) (company_document_of ?s c dt d)"
    using Cons.prems [of m] assms(1) by (simp add: company_document_append_one)
  moreover have "R (company_document_of ?s c dt d) (company_document_of (snd (append_mutations x now c ms ?s)) c dt d)"
    using Cons.prems versions_append_one [of s c _ x now m] by (intro Cons.IH) (metis list.set_intros(2))
  ultimately show ?case using assms(2) by (auto simp: Let_def case_prod_beta)
qed

definition pinned_batch :: "web \<Rightarrow> inner \<Rightarrow> uuid \<Rightarrow> mutation_record list \<Rightarrow> mutation_record list" where
  "pinned_batch w s c ms =
     (if list_ex (\<lambda>m. mr_doc_type m = ''Company'') ms
      then map (\<lambda>m. snd (pin_books_lock (wb_ext w) (cs_books_lock_date (company_settings_of s c)) m)) ms else ms)"

lemma pin_company_rowsD:
  assumes "pin_company_rows w auth c ms s = (Inr ms', t)"
  shows "ms' = pinned_batch w s c ms" "company_documents t = company_documents s" "documents t = documents s"
    "mutation_versions t = mutation_versions s"
  using assms
  by (auto simp: pin_company_rows_def pinned_batch_def pin_batch_def chain_act_def act_defs audited_def append_audit_def Let_def
      split: if_splits)

lemma push_succeeds:
  assumes "api_sync_push w auth c ms s = (Inr rep, t)"
  obtains t1 where "check_batch ms = Inr ()" "check_immutable s c (known_mutation_ids s c (map mr_id ms)) ms = Inr ()"
    "company_documents t = company_documents (snd (append_mutations (wb_ext w) (wb_now w) c (pinned_batch w s c ms) t1))"
    "documents t = documents s" "company_documents t1 = company_documents s" "mutation_versions t1 = mutation_versions s"
proof -
  obtain ms' t1 n vs u where r: "check_batch ms = Inr ()" "check_immutable s c (known_mutation_ids s c (map mr_id ms)) ms = Inr ()"
    "pin_company_rows w auth c ms s = (Inr ms', t1)" "push_mutations (wb_ext w) (wb_now w) c ms' t1 = (vs, u)" "t = append_audit n u"
    using assms unfolding api_sync_push_def result_simps audited_def by auto
  note p = pin_company_rowsD [OF r(3)]
  have "documents u = documents t1"
    using arg_cong [OF r(4), of "\<lambda>v. documents (snd v)"] by (simp add: push_mutations_def)
  then show ?thesis
    by (intro that [of t1]) (use r p in \<open>simp_all add: append_audit_def push_mutations_def\<close>)
qed

lemma check_batch_all: "check_batch ms = Inr u \<Longrightarrow> m \<in> set ms \<Longrightarrow> check_client_mutation m = Inr ()"
  by (induction ms) (auto simp: result_simps)

lemma check_immutable_all: "check_immutable s c known ms = Inr u \<Longrightarrow> m \<in> set ms \<Longrightarrow> touches_posted s c known m = None"
  by (induction ms) (auto split: option.splits)

text \<open>A mutation of the batch as it was pushed: only rows of the Company doctype are rewritten.\<close>

lemma pinned_batchE:
  assumes "m \<in> set (pinned_batch w s c ms)"
  obtains m0 where "m0 \<in> set ms" "mr_id m = mr_id m0" "mr_doc_type m = mr_doc_type m0" "mr_document_id m = mr_document_id m0"
    "mr_doc_type m \<noteq> ''Company'' \<Longrightarrow> m = m0"
  using assms that
  by (auto simp: pinned_batch_def pin_books_lock_other split: if_splits)

section \<open>Settings as JSON\<close>

lemma bt_insert_same:
  "sorted_wrt (<) (map fst m) \<Longrightarrow> map_of m k = Some v \<Longrightarrow> bt_insert k v m = m"
  by (induction m) (auto simp: bt_insert.simps dest!: map_of_SomeD split: if_splits)

lemma obj_of_sorted: "sorted_wrt (<) (map fst (obj_of kvs))"
proof -
  have "sorted_wrt (<) (map fst m) \<Longrightarrow> sorted_wrt (<) (map fst (fold (\<lambda>(k, v) m. obj_insert k v m) kvs m))" for m
    by (induction kvs arbitrary: m) (auto simp: obj_insert_def bt_insert_sorted)
  then show ?thesis by (simp add: obj_of_def)
qed

lemma merge_same:
  assumes "sorted_wrt (<) (map fst m)" "\<And>k v. (k, v) \<in> set kvs \<Longrightarrow> obj_get m k = Some v"
  shows "fold_result merge_setting m kvs = Inr m"
  using assms(2)
proof (induction kvs)
  case (Cons kv kvs)
  obtain k v where kv: "kv = (k, v)" by (cases kv)
  have g: "obj_get m k = Some v" using Cons.prems kv by simp
  have "merge_setting m kv = Inr m"
    using g bt_insert_same [OF assms(1), of k v] by (auto simp: merge_setting_def kv ensure_def obj_insert_def obj_get_def)
  then show ?case using Cons by simp
qed simp

lemma settings_round_trip: "settings_from_json (settings_to_json v) = Some v"
  by (cases v) (simp add: settings_from_json_def settings_to_json_def field_of_def obj_of_get json_opt_def Let_def split: option.split)

lemma obj_get_unique: "sorted_wrt (<) (map fst m) \<Longrightarrow> (k, v) \<in> set m \<Longrightarrow> obj_get m k = Some v"
  unfolding obj_get_def by (rule map_of_is_SomeI) (auto simp: strict_sorted_iff)

section \<open>The properties\<close>

text \<open>C26. A device cannot rewrite history: when a push is accepted, the read-model row of every
  officially posted document is what it was, and so is the document.\<close>

theorem push_leaves_posted_rows:
  assumes "api_sync_push w auth c ms s = (Inr rep, t)" "dt \<in> set POSTED_DOCTYPES"
    and "posted_document_of s c dt d = Some doc" "1 \<le> pd_docstatus doc"
  shows "company_document_of t c dt d = company_document_of s c dt d \<and> posted_document_of t c dt d = Some doc"
proof -
  obtain t1 where p: "check_batch ms = Inr ()" "check_immutable s c (known_mutation_ids s c (map mr_id ms)) ms = Inr ()"
    "company_documents t = company_documents (snd (append_mutations (wb_ext w) (wb_now w) c (pinned_batch w s c ms) t1))"
    "documents t = documents s" "company_documents t1 = company_documents s" "mutation_versions t1 = mutation_versions s"
    by (rule push_succeeds [OF assms(1)])
  have "False" if m: "m \<in> set (pinned_batch w s c ms)" "mutation_versions t1 (c, mr_id m) = None"
      "(mr_doc_type m, mr_document_id m) = (dt, d)" for m
  proof -
    obtain m0 where m0: "m0 \<in> set ms" "mr_id m = mr_id m0" "mr_doc_type m = mr_doc_type m0" "mr_document_id m = mr_document_id m0"
      by (rule pinned_batchE [OF m(1)])
    show False
      using check_immutable_all [OF p(2) m0(1)] m m0 p(6) assms(2-4)
      by (auto simp: touches_posted_def known_mutation_ids_def split: if_splits)
  qed
  then have "company_document_of t1 c dt d = company_document_of (snd (append_mutations (wb_ext w) (wb_now w) c (pinned_batch w s c ms) t1)) c dt d"
    by (intro append_rows [where R = "(=)"]) auto
  then show ?thesis using assms(3) p(3-5) by (simp add: company_document_of_def posted_document_of_def)
qed

text \<open>C27. Posting authority on the sync plane: an accepted push changes no row of a ledger doctype
  and makes no document of a server-authority doctype official, provided the docstatus numbers it
  carries fit the sixteen bits of the read model.\<close>

theorem push_respects_authority:
  assumes "api_sync_push w auth c ms s = (Inr rep, t)" "\<And>m. m \<in> set ms \<Longrightarrow> docstatus_fits m"
  shows "(dt \<in> set DERIVED_DOCTYPES \<longrightarrow> company_document_of t c dt d = company_document_of s c dt d) \<and>
    (dt \<in> set SERVER_AUTHORITY_DOCTYPES \<longrightarrow> official (company_document_of t c dt d) \<longrightarrow> official (company_document_of s c dt d))"
proof -
  obtain t1 where p: "check_batch ms = Inr ()"
    "company_documents t = company_documents (snd (append_mutations (wb_ext w) (wb_now w) c (pinned_batch w s c ms) t1))"
    "company_documents t1 = company_documents s"
    by (rule push_succeeds [OF assms(1)])
  have row: "company_document_of t c dt d = company_document_of (snd (append_mutations (wb_ext w) (wb_now w) c (pinned_batch w s c ms) t1)) c dt d"
    "company_document_of t1 c dt d = company_document_of s c dt d"
    using p(2,3) by (simp_all add: company_document_of_def)
  have adm: "check_client_mutation m0 = Inr ()" if "m0 \<in> set ms" for m0 using check_batch_all [OF p(1) that] .
  have "company_document_of t1 c dt d = company_document_of t c dt d" if "dt \<in> set DERIVED_DOCTYPES"
    unfolding row(1)
  proof (rule append_rows [where R = "(=)"])
    fix m a
    assume "m \<in> set (pinned_batch w s c ms)" "(mr_doc_type m, mr_document_id m) = (dt, d)"
    then show "a = apply_action (fold_mutation (wb_ext w) a m c (wb_now w)) a"
      using pinned_batchE [of m w s c ms] admitted_not_derived [OF adm] that by (metis prod.inject)
  qed auto
  moreover have "official (company_document_of t c dt d) \<longrightarrow> official (company_document_of t1 c dt d)"
    if auth: "dt \<in> set SERVER_AUTHORITY_DOCTYPES"
    unfolding row(1)
  proof (rule append_rows [where R = "\<lambda>a b. official b \<longrightarrow> official a"])
    fix m a
    assume m: "m \<in> set (pinned_batch w s c ms)" "(mr_doc_type m, mr_document_id m) = (dt, d)"
    have "dt \<noteq> ''Company''" using auth by (auto simp: SERVER_AUTHORITY_DOCTYPES_def)
    then have "m \<in> set ms" using pinned_batchE [OF m(1)] m(2) by (metis prod.inject)
    then show "official (apply_action (fold_mutation (wb_ext w) a m c (wb_now w)) a) \<longrightarrow> official a"
      using admitted_unofficial [OF adm _ assms(2)] m(2) auth by blast
  qed auto
  ultimately show ?thesis using row(2) by simp
qed

text \<open>The guard's gap: a draft docstatus of -65535 passes it and is stored as docstatus 1, because
  the guard compares the 64-bit number and the read model keeps its low sixteen bits.\<close>

theorem docstatus_wraps_past_guard:
  assumes "obj_get (mr_payload m) ''docstatus'' = Some (JNum (JInt (-65535)))" "mr_type m = CreateDocument"
    and "mr_device_id m \<notin> set RESERVED_DEVICE_IDS" "\<not> list_ex (starts_with (mr_id m)) RESERVED_ID_PREFIXES"
    and "mr_doc_type m = ''Sales Invoice''"
  shows "check_client_mutation m = Inr () \<and> official (apply_action (fold_mutation x old m c now) old)"
  using assms
  by (simp add: check_client_mutation_def docstatus_def i64_max_def DERIVED_DOCTYPES_def fold_mutation_def folds_documents_def
      apply_action_def official_def Let_def fold_docstatus_def to_i16_def)

text \<open>C28. Reopening finalised periods needs an owner or an admin: when a request through the lock
  command clears the books lock or moves it back, the caller holds one of those roles in the company,
  and the change is the last row of the audit feed, under their name.\<close>

theorem reopening_needs_owner_or_admin:
  assumes "api_set_books_lock w auth c req s = (Inr rep, t)" "reopens (current_lock s c) (current_lock t c)"
  shows "membership_role s (ti_user auth) c \<in> {Some Owner, Some Admin} \<and>
    (\<exists>e. audit t = audit s @ [e] \<and> au_company e = c \<and> au_user e = Some (ti_user auth))"
proof -
  obtain r expected lock out where h: "membership_role s (ti_user auth) c = Some r"
    "reopens expected lock \<Longrightarrow> r \<in> {Owner, Admin}"
    "set_books_lock c \<lparr>bl_expected_current = expected, bl_lock_date = lock,
        bl_audit = lock_audit w auth c r expected lock (sq_reason req)\<rparr> s = (Inr out, t)"
    using assms(1) by (auto simp: api_set_books_lock_def result_simps split: if_splits)
  have prev: "current_lock s c = cs_books_lock_date (company_settings_of s c)"
    by (simp add: current_lock_def company_settings_of_def default_settings_def split: option.split)
  have same: "\<not> reopens l l" for l by (simp add: reopens_def split: option.split)
  have "t \<noteq> s" using assms(2) same by auto
  then have "current_lock s c = expected" "current_lock t c = lock"
    "audit t = audit s @ [lock_audit w auth c r expected lock (sq_reason req)]"
    using h(3) by (auto simp: set_books_lock_def Let_def prev [unfolded current_lock_def] current_lock_def split: if_splits)
  then show ?thesis using h(1,2) assms(2) by (auto simp: lock_audit_def api_audit_row_def)
qed

text \<open>Settings round-trip: reading a company's settings and putting the answer back is accepted and
  leaves exactly the settings that were there, the books lock included.\<close>

theorem settings_put_back:
  assumes "membership_role s (ti_user auth) c = Some r" "r \<in> {Owner, Admin, Accountant}"
    and "ti_device auth = None \<or> ti_company auth = c"
  shows "\<exists>rep t. api_put_settings w auth c (JObj (settings_to_json (company_settings_of s c))) s = (Inr rep, t)
    \<and> company_settings_of t c = company_settings_of s c \<and> current_lock t c = current_lock s c"
proof -
  let ?v = "company_settings_of s c"
  have "fold_result merge_setting (settings_to_json ?v) (settings_to_json ?v) = Inr (settings_to_json ?v)"
    by (rule merge_same) (auto simp: settings_to_json_def obj_of_sorted intro: obj_get_unique)
  then have m: "merged_settings ?v (JObj (settings_to_json ?v)) = Inr ?v"
    by (simp add: merged_settings_def settings_round_trip ok_or_def)
  have "require_membership auth c s = (Inr r, s)" using assms by (simp add: result_simps)
  then show ?thesis
    using m assms(2) by (simp add: api_put_settings_def chain_act_def act_defs require_role_def append_audit_def put_company_settings_def
        company_settings_of_def current_lock_def default_settings_def split: option.splits)
qed

end
