(* ===== verification/Limit.thy ===== *)
theory Limit
  imports Api_Sync
begin

text \<open>
  \<^verbatim>\<open>src/src/limit.rs\<close>: the token buckets in front of the unauthenticated endpoints. Instants are
  nanoseconds of the monotonic clock; a check is one run under the limiter's mutex. The budgets are
  \<open>u32\<close>, kept as naturals below \<open>2 ^ 32\<close>, and the token arithmetic is the \<open>f64\<close> arithmetic of the
  code. The invariant: every bucket holds a finite number of tokens between 0 and its capacity.
\<close>

datatype rl_class = AuthClass | WebhookClass | PublicClass

definition NANOS_PER_SEC :: nat where
  "NANOS_PER_SEC = 1000000000"

definition PRUNE_INTERVAL :: nat where
  "PRUNE_INTERVAL = 120 * NANOS_PER_SEC"

definition IDLE_EVICT :: nat where
  "IDLE_EVICT = 120 * NANOS_PER_SEC"

record bucket =
  bk_tokens :: f64
  bk_updated :: nat

record rate_limiter =
  rl_auth_per_min :: nat
  rl_webhook_per_min :: nat
  rl_public_per_min :: nat
  rl_map :: "((rl_class \<times> string) \<times> bucket) list"
  rl_last_prune :: nat

definition new_limiter :: "app_config \<Rightarrow> nat \<Rightarrow> rate_limiter" where
  "new_limiter cf now = \<lparr>
     rl_auth_per_min = cf_rl_auth_per_min cf, rl_webhook_per_min = cf_rl_webhook_per_min cf,
     rl_public_per_min = cf_rl_public_per_min cf, rl_map = [], rl_last_prune = now\<rparr>"

definition per_min :: "rate_limiter \<Rightarrow> rl_class \<Rightarrow> nat" where
  "per_min l cls = (case cls of
       AuthClass \<Rightarrow> rl_auth_per_min l | WebhookClass \<Rightarrow> rl_webhook_per_min l | PublicClass \<Rightarrow> rl_public_per_min l)"

text \<open>\<open>Duration::as_secs_f64\<close>; \<open>duration_since\<close> is zero when the clock has not moved on.\<close>

definition as_secs_f64 :: "nat \<Rightarrow> f64" where
  "as_secs_f64 d = lit (of_nat (d div NANOS_PER_SEC)) + lit (of_nat (d mod NANOS_PER_SEC)) / lit (of_nat NANOS_PER_SEC)"

text \<open>\<open>f64::ceil\<close> and the saturating cast \<open>as u64\<close>.\<close>

fun fceil :: "f64 \<Rightarrow> f64" where
  "fceil (Fin q) = rnd (of_int \<lceil>q\<rceil>)"
| "fceil y = y"

fun to_u64 :: "f64 \<Rightarrow> nat" where
  "to_u64 (Fin q) = (if q < 0 then 0 else min (nat \<lfloor>q\<rfloor>) (2 ^ 64 - 1))"
| "to_u64 PInf = 2 ^ 64 - 1"
| "to_u64 _ = 0"

definition prune :: "nat \<Rightarrow> rate_limiter \<Rightarrow> rate_limiter" where
  "prune now l =
     (if PRUNE_INTERVAL \<le> now - rl_last_prune l
      then l\<lparr>rl_map := filter (\<lambda>(_, b). now - bk_updated b < IDLE_EVICT) (rl_map l), rl_last_prune := now\<rparr>
      else l)"

definition capacity :: "rate_limiter \<Rightarrow> rl_class \<Rightarrow> f64" where
  "capacity l cls = lit (of_nat (per_min l cls))"

text \<open>The tokens of a bucket after the refill.\<close>

definition refilled :: "f64 \<Rightarrow> nat \<Rightarrow> bucket \<Rightarrow> f64" where
  "refilled cap now b = fmin (bk_tokens b + as_secs_f64 (now - bk_updated b) * (cap / lit 60)) cap"

definition check :: "nat \<Rightarrow> rl_class \<Rightarrow> string \<Rightarrow> rate_limiter \<Rightarrow> (nat + unit) \<times> rate_limiter" where
  "check now cls key l =
     (if per_min l cls = 0 then (Inr (), l)
      else
        let cap = capacity l cls;
            rate = cap / lit 60;
            l1 = prune now l;
            b = (case map_of (rl_map l1) (cls, key) of Some b \<Rightarrow> b | None \<Rightarrow> \<lparr>bk_tokens = cap, bk_updated = now\<rparr>);
            tokens = refilled cap now b in
        if 1 \<le> tokens
        then (Inr (), l1\<lparr>rl_map := AList.update (cls, key) \<lparr>bk_tokens = tokens - 1, bk_updated = now\<rparr> (rl_map l1)\<rparr>)
        else (Inl (to_u64 (fmax (fceil ((1 - tokens) / rate)) 1)),
              l1\<lparr>rl_map := AList.update (cls, key) \<lparr>bk_tokens = tokens, bk_updated = now\<rparr> (rl_map l1)\<rparr>))"

text \<open>\<open>client_key\<close>: the header as text when it is readable, and the peer address.\<close>

definition client_key :: "app_config \<Rightarrow> string option \<Rightarrow> string option \<Rightarrow> string" where
  "client_key cf forwarded peer =
     (case (if cf_trust_proxy cf
            then Option.bind forwarded (\<lambda>v. let first = trim (hd (split_on (CHR '','') v)) in
              if first = [] then None else Some first)
            else None) of
        Some first \<Rightarrow> first
      | None \<Rightarrow> (case peer of Some ip \<Rightarrow> ip | None \<Rightarrow> ''unknown''))"

text \<open>The middleware: the handler runs only when the check admits the request.\<close>

definition enforce_limit :: "nat \<Rightarrow> rl_class \<Rightarrow> string \<Rightarrow> rate_limiter \<Rightarrow> 'a act \<Rightarrow> inner \<Rightarrow> ((api_error + 'a) \<times> inner) \<times> rate_limiter" where
  "enforce_limit now cls key l handler s =
     (case check now cls key l of
        (Inr _, l') \<Rightarrow> (handler s, l')
      | (Inl secs, l') \<Rightarrow> ((Inl (TooManyRequests RateExceeded (int secs)), s), l'))"

definition limit_auth :: "web \<Rightarrow> nat \<Rightarrow> string option \<Rightarrow> string option \<Rightarrow> rate_limiter \<Rightarrow> 'a act \<Rightarrow> inner
    \<Rightarrow> ((api_error + 'a) \<times> inner) \<times> rate_limiter" where
  "limit_auth w now forwarded peer l = enforce_limit now AuthClass (client_key (wb_config w) forwarded peer) l"

definition limit_public :: "web \<Rightarrow> nat \<Rightarrow> string option \<Rightarrow> string option \<Rightarrow> rate_limiter \<Rightarrow> 'a act \<Rightarrow> inner
    \<Rightarrow> ((api_error + 'a) \<times> inner) \<times> rate_limiter" where
  "limit_public w now forwarded peer l = enforce_limit now PublicClass (client_key (wb_config w) forwarded peer) l"

definition limit_webhook :: "nat \<Rightarrow> string \<Rightarrow> rate_limiter \<Rightarrow> 'a act \<Rightarrow> inner \<Rightarrow> ((api_error + 'a) \<times> inner) \<times> rate_limiter" where
  "limit_webhook now path l = enforce_limit now WebhookClass path l"

section \<open>The invariant\<close>

definition tokens_ok :: "nat \<Rightarrow> f64 \<Rightarrow> bool" where
  "tokens_ok cap t \<longleftrightarrow> (\<exists>q. t = Fin q \<and> representable q \<and> 0 \<le> q \<and> q \<le> of_nat cap)"

definition limiter_ok :: "rate_limiter \<Rightarrow> bool" where
  "limiter_ok l \<longleftrightarrow> (\<forall>cls. per_min l cls < 2 ^ 32) \<and> distinct (map fst (rl_map l)) \<and>
     (\<forall>cls key b. map_of (rl_map l) (cls, key) = Some b \<longrightarrow> tokens_ok (per_min l cls) (bk_tokens b))"

lemma representable_of_nat: "n < 2 ^ 32 \<Longrightarrow> representable (of_nat n)"
proof -
  assume "n < 2 ^ 32"
  then have "\<bar>int n\<bar> \<le> 2 ^ 53" by simp
  from rnd_int [OF this] show ?thesis using rnd_Fin [of "of_nat n" "of_nat n"] by simp
qed

lemma capacity_Fin: "per_min l cls < 2 ^ 32 \<Longrightarrow> capacity l cls = Fin (of_nat (per_min l cls))"
  unfolding capacity_def by (intro rnd_representable representable_of_nat)

lemma per_min_prune [simp]: "per_min (prune now l) = per_min l"
  by (rule ext) (simp add: per_min_def prune_def split: rl_class.split)

text \<open>Subtracting one token is exact: no bucket gains by rounding.\<close>

lemma representable_minus_one:
  assumes "representable q" "1 \<le> q" "q < 2 ^ 32"
  shows "representable (q - 1)"
proof -
  define u where "u = ulp_expo q"
  have q0: "q \<noteq> 0" using assms(2) by auto
  have eq: "q = of_int (half_even (q / pow2 u)) * pow2 u"
    using assms(1) q0 by (simp add: representable_def round_value_def u_def)
  define m where "m = half_even (q / pow2 u)"
  have "pow2 (expo q) < pow2 32" using expo_bounds(1) [OF q0] assms(2,3) by (simp add: pow2_def)
  then have "expo q \<le> 31" by simp
  then have u: "u \<le> 0" "- 1074 \<le> u" by (simp_all add: u_def ulp_expo_def)
  have one: "(1::rat) = of_int (2 ^ nat (- u)) * pow2 u"
    using u(1) by (simp add: pow2_def)
  have sum: "q - 1 = of_int (m - 2 ^ nat (- u)) * pow2 u"
    using eq one unfolding m_def [symmetric] by (simp add: left_diff_distrib)
  have "q < pow2 (u + 53)"
  proof -
    have "expo q + 1 \<le> u + 53" by (simp add: u_def ulp_expo_def)
    then show ?thesis using expo_bounds(2) [OF q0] pow2_mono [of "expo q + 1" "u + 53"] assms(2) by simp
  qed
  then have "of_int m * pow2 u < of_int (2 ^ 53) * pow2 u"
    using eq pow2_add [of u 53] unfolding m_def [symmetric] by (simp add: mult.commute pow2_def [of 53])
  then have m: "m < 2 ^ 53" by (simp only: mult_less_cancel_right_pos pow2_pos of_int_less_iff)
  have "0 \<le> of_int (m - 2 ^ nat (- u)) * pow2 u" using sum assms(2) by linarith
  then have "0 \<le> m - 2 ^ nat (- u)" using pow2_pos [of u] by (simp only: zero_le_mult_iff of_int_0_le_iff) auto
  moreover have "(0::int) < 2 ^ nat (- u)" by simp
  ultimately have "\<bar>m - 2 ^ nat (- u)\<bar> < 2 ^ 53" using m by linarith
  then have "round_value (q - 1) = q - 1" unfolding sum using u(2) by (rule round_value_dyadic_strict)
  moreover have "\<bar>q - 1\<bar> < 2 ^ 1024"
  proof -
    have "\<bar>q - 1\<bar> < 2 ^ 32" using assms(2,3) by simp
    also have "(2::rat) ^ 32 \<le> 2 ^ 1024" by (rule power_increasing) simp_all
    finally show ?thesis .
  qed
  ultimately show ?thesis by (simp add: representable_def)
qed

lemma nonneg_iff: "0 \<le> t \<longleftrightarrow> t = PInf \<or> (\<exists>q\<ge>0. t = Fin q)" for t :: f64
  by (cases t) (auto simp: zero_f64_def less_eq_f64_def)

lemma nonneg_add: "0 \<le> a \<Longrightarrow> 0 \<le> b \<Longrightarrow> 0 \<le> a + b" for a b :: f64
  unfolding nonneg_iff [of a] nonneg_iff [of b] by (elim disjE exE conjE) (simp_all add: rnd_nonneg nonneg_iff [of PInf])

lemma nonneg_scale: "0 \<le> a \<Longrightarrow> 0 < r \<Longrightarrow> 0 \<le> a * Fin r" for a :: f64
  unfolding nonneg_iff [of a]
  by (elim disjE exE conjE) (simp_all add: times_f64_def inf_of_def rnd_nonneg nonneg_iff [of PInf])

lemma as_secs_nonneg: "0 \<le> as_secs_f64 d"
proof -
  have "lit (of_nat NANOS_PER_SEC) = Fin 1000000000" by (simp add: NANOS_PER_SEC_def)
  moreover have "d mod NANOS_PER_SEC < NANOS_PER_SEC" by (simp add: NANOS_PER_SEC_def)
  then have "lit (of_nat (d mod NANOS_PER_SEC)) = Fin (of_nat (d mod NANOS_PER_SEC))"
    by (intro rnd_representable representable_of_nat) (simp add: NANOS_PER_SEC_def)
  ultimately have "0 \<le> lit (of_nat (d mod NANOS_PER_SEC)) / lit (of_nat NANOS_PER_SEC)"
    by (simp add: divide_f64_def rnd_nonneg)
  then show ?thesis unfolding as_secs_f64_def by (intro nonneg_add rnd_nonneg) simp_all
qed

lemma rate_pos:
  assumes "0 < n" "n < 2 ^ 32"
  obtains r where "Fin (of_nat n) / lit 60 = Fin r" "0 < r"
proof -
  let ?x = "of_nat n / 60 :: rat"
  have d: "Fin (of_nat n) / lit 60 = rnd ?x" by (simp add: divide_f64_def)
  have "pow2 (- 6) \<le> ?x" using assms(1) by (simp add: pow2_def)
  then have "rnd (pow2 (- 6)) \<le> rnd ?x" by (rule rnd_mono)
  moreover have "rnd (pow2 (- 6)) = Fin (pow2 (- 6))"
  proof (rule rnd_representable)
    have "round_value (of_int 1 * pow2 (- 6)) = of_int 1 * pow2 (- 6)" by (rule round_value_dyadic) simp_all
    then show "representable (pow2 (- 6))" by (simp add: representable_def pow2_def)
  qed
  moreover have "rnd ?x \<le> Fin (of_nat n)"
    using rnd_mono [of ?x "of_nat n"] rnd_representable [OF representable_of_nat [OF assms(2)]] by simp
  ultimately obtain r where "rnd ?x = Fin r" "pow2 (- 6) \<le> r" by (auto elim: lit_between)
  then show ?thesis using that d pow2_pos [of "- 6"] by (metis order_less_le_trans)
qed

text \<open>The refill never takes a bucket out of its bounds.\<close>

lemma refilled_ok:
  assumes "0 < n" "n < 2 ^ 32" "tokens_ok n (bk_tokens b)"
  shows "tokens_ok n (refilled (Fin (of_nat n)) now b)"
proof -
  obtain q where q: "bk_tokens b = Fin q" "representable q" "0 \<le> q" "q \<le> of_nat n" using assms(3) by (auto simp: tokens_ok_def)
  obtain r where r: "Fin (of_nat n) / lit 60 = Fin r" "0 < r" by (rule rate_pos [OF assms(1,2)])
  let ?gain = "as_secs_f64 (now - bk_updated b) * Fin r" and ?cap = "Fin (of_nat n)"
  have gain: "0 \<le> ?gain" using as_secs_nonneg r(2) by (rule nonneg_scale)
  have sum: "0 \<le> Fin q + ?gain" using q(3) gain by (intro nonneg_add) (simp add: zero_f64_def)
  have wf: "wf64 (Fin q + ?gain)" by (cases ?gain) auto
  have "tokens_ok n (fmin (Fin q + ?gain) ?cap)"
  proof (cases "Fin q + ?gain")
    case (Fin y)
    then show ?thesis using sum wf representable_of_nat [OF assms(2)]
      by (auto simp: tokens_ok_def fmin_def zero_f64_def)
  qed (use sum representable_of_nat [OF assms(2)] in \<open>auto simp: tokens_ok_def fmin_def nonneg_iff\<close>)
  then show ?thesis unfolding refilled_def q(1) r(1) .
qed

lemma spend_ok:
  assumes "n < 2 ^ 32" "tokens_ok n t" "1 \<le> t"
  shows "\<exists>q. t = Fin q \<and> 1 \<le> q \<and> t - 1 = Fin (q - 1) \<and> tokens_ok n (t - 1)"
proof -
  obtain q where q: "t = Fin q" "representable q" "q \<le> of_nat n" "1 \<le> q"
    using assms(2,3) by (auto simp: tokens_ok_def one_f64_def)
  have "(of_nat n :: rat) < 2 ^ 32" using assms(1) by (metis of_nat_less_iff of_nat_numeral of_nat_power)
  then have "representable (q - 1)" using representable_minus_one [OF q(2,4)] q(3) by simp
  then have "t - 1 = Fin (q - 1)" by (simp add: q(1) minus_f64_def one_f64_def rnd_representable)
  then show ?thesis using q \<open>representable (q - 1)\<close> by (auto simp: tokens_ok_def)
qed

text \<open>The bucket of a key after pruning; one that is dropped starts full again.\<close>

definition bucket_of :: "nat \<Rightarrow> rl_class \<Rightarrow> string \<Rightarrow> rate_limiter \<Rightarrow> bucket" where
  "bucket_of now cls key l = (case map_of (rl_map (prune now l)) (cls, key) of
       Some b \<Rightarrow> b | None \<Rightarrow> \<lparr>bk_tokens = capacity l cls, bk_updated = now\<rparr>)"

lemma prune_ok: "limiter_ok l \<Longrightarrow> limiter_ok (prune now l)"
  unfolding limiter_ok_def per_min_prune
  by (auto simp: prune_def distinct_map_filter dest: map_of_SomeD)

lemma bucket_of_ok:
  assumes "limiter_ok l"
  shows "tokens_ok (per_min l cls) (bk_tokens (bucket_of now cls key l))"
proof -
  have n: "per_min l cls < 2 ^ 32" using assms by (simp add: limiter_ok_def)
  have "tokens_ok (per_min l cls) (capacity l cls)"
    using n representable_of_nat by (simp add: capacity_Fin tokens_ok_def)
  then show ?thesis
    using prune_ok [OF assms, of now] by (auto simp: bucket_of_def limiter_ok_def split: option.split)
qed

text \<open>A check in terms of the bucket it finds: what it answers and the tokens it leaves.\<close>

lemma check_eq:
  assumes "per_min l cls \<noteq> 0"
  shows "check now cls key l =
    (let t = refilled (capacity l cls) now (bucket_of now cls key l);
         put = (\<lambda>v. (prune now l)\<lparr>rl_map := AList.update (cls, key) \<lparr>bk_tokens = v, bk_updated = now\<rparr> (rl_map (prune now l))\<rparr>) in
     if 1 \<le> t then (Inr (), put (t - 1))
     else (Inl (to_u64 (fmax (fceil ((1 - t) / (capacity l cls / lit 60))) 1)), put t))"
  using assms by (simp add: check_def bucket_of_def Let_def)

lemma per_min_map [simp]: "per_min (l\<lparr>rl_map := m\<rparr>) = per_min l"
  by (rule ext) (simp add: per_min_def split: rl_class.split)

lemma check_per_min [simp]: "per_min (snd (check now cls key l)) = per_min l"
  by (cases "per_min l cls = 0") (simp_all add: check_eq Let_def check_def)

text \<open>Every check keeps the invariant.\<close>

lemma put_ok:
  assumes "limiter_ok l" "tokens_ok (per_min l cls) v"
  shows "limiter_ok ((prune now l)\<lparr>rl_map := AList.update (cls, key) \<lparr>bk_tokens = v, bk_updated = now\<rparr> (rl_map (prune now l))\<rparr>)"
  using prune_ok [OF assms(1), of now] assms(2)
  by (auto simp: limiter_ok_def update_conv' distinct_update)

lemma refill_ok:
  assumes "limiter_ok l" "per_min l cls \<noteq> 0"
  shows "tokens_ok (per_min l cls) (refilled (capacity l cls) now (bucket_of now cls key l))"
  using assms refilled_ok [OF _ _ bucket_of_ok [OF assms(1)]] by (simp add: limiter_ok_def capacity_Fin)

lemma check_ok:
  assumes "limiter_ok l"
  shows "limiter_ok (snd (check now cls key l))"
proof (cases "per_min l cls = 0")
  case False
  have n: "per_min l cls < 2 ^ 32" using assms by (simp add: limiter_ok_def)
  let ?t = "refilled (capacity l cls) now (bucket_of now cls key l)"
  have t: "tokens_ok (per_min l cls) ?t" by (rule refill_ok [OF assms False])
  have "1 \<le> ?t \<Longrightarrow> tokens_ok (per_min l cls) (?t - 1)" using spend_ok [OF n t] by blast
  then show ?thesis using t put_ok [OF assms] False by (simp add: check_eq Let_def)
qed (use assms in \<open>simp add: check_def\<close>)

section \<open>Bursts\<close>

text \<open>How many of \<open>n\<close> checks of one key at one instant are admitted.\<close>

fun burst :: "nat \<Rightarrow> rl_class \<Rightarrow> string \<Rightarrow> nat \<Rightarrow> rate_limiter \<Rightarrow> nat" where
  "burst now cls key 0 l = 0"
| "burst now cls key (Suc n) l =
     (case check now cls key l of
        (Inr _, l') \<Rightarrow> Suc (burst now cls key n l')
      | (Inl _, l') \<Rightarrow> burst now cls key n l')"

text \<open>With no time elapsed the refill adds nothing.\<close>

lemma as_secs_0: "as_secs_f64 0 = 0"
  by (simp add: as_secs_f64_def NANOS_PER_SEC_def divide_f64_def zero_f64_def)

lemma refilled_now:
  assumes "0 < n" "n < 2 ^ 32" "tokens_ok n (bk_tokens b)" "bk_updated b = now"
  shows "refilled (Fin (of_nat n)) now b = bk_tokens b"
proof -
  obtain q where q: "bk_tokens b = Fin q" "representable q" "q \<le> of_nat n" using assms(3) by (auto simp: tokens_ok_def)
  obtain r where r: "Fin (of_nat n) / lit 60 = Fin r" by (rule rate_pos [OF assms(1,2)])
  have z: "as_secs_f64 (now - bk_updated b) * Fin r = Fin 0" by (simp add: assms(4) as_secs_0 times_f64_def zero_f64_def)
  show ?thesis unfolding refilled_def r z using q by (simp add: rnd_representable fmin_def)
qed

lemma prune_fresh:
  assumes "map_of (rl_map l) (cls, key) = Some b" "bk_updated b = now" "distinct (map fst (rl_map l))"
  shows "bucket_of now cls key l = b"
proof -
  have "map_of (rl_map (prune now l)) (cls, key) = Some b"
    using assms map_of_SomeD [OF assms(1)]
    by (auto simp: prune_def IDLE_EVICT_def NANOS_PER_SEC_def distinct_map_filter)
  then show ?thesis by (simp add: bucket_of_def)
qed

text \<open>Once a bucket stands at this instant with \<open>q\<close> tokens, at most \<open>q\<close> more checks pass.\<close>

lemma burst_from:
  assumes "limiter_ok l" "per_min l cls \<noteq> 0" "bucket_of now cls key l = b" "bk_updated b = now" "bk_tokens b = Fin q"
  shows "rat_of_nat (burst now cls key n l) \<le> q"
  using assms
proof (induction n arbitrary: l b q)
  case 0
  then show ?case using bucket_of_ok [OF 0(1), of cls now key] by (auto simp: tokens_ok_def)
next
  case (Suc n)
  let ?n = "per_min l cls" and ?l = "snd (check now cls key l)"
  have n: "?n < 2 ^ 32" using Suc.prems(1) by (simp add: limiter_ok_def)
  have tok: "tokens_ok ?n (Fin q)" using bucket_of_ok [OF Suc.prems(1), of cls now key] Suc.prems(3,5) by simp
  have t: "refilled (capacity l cls) now (bucket_of now cls key l) = Fin q"
    using refilled_now [of ?n b now] tok Suc.prems n by (simp add: capacity_Fin)
  have ok: "limiter_ok ?l" by (rule check_ok [OF Suc.prems(1)])
  have step: "rat_of_nat (burst now cls key n ?l) \<le> p" if "map_of (rl_map ?l) (cls, key) = Some \<lparr>bk_tokens = Fin p, bk_updated = now\<rparr>" for p
  proof -
    have "bucket_of now cls key ?l = \<lparr>bk_tokens = Fin p, bk_updated = now\<rparr>"
      using ok that by (intro prune_fresh) (auto simp: limiter_ok_def)
    then show ?thesis by (rule Suc.IH [OF ok, rotated]) (use Suc.prems(2) in simp_all)
  qed
  show ?case
  proof (cases "1 \<le> Fin q")
    case True
    obtain v where v: "Fin q - 1 = Fin v" "v = q - 1" using spend_ok [OF n tok True] by auto
    have "rat_of_nat (burst now cls key n ?l) \<le> v"
      by (rule step) (use True v(1) Suc.prems(2) t in \<open>simp add: check_eq Let_def update_conv'\<close>)
    then show ?thesis using True t Suc.prems(2) v(2) by (simp add: check_eq Let_def)
  next
    case False
    have "rat_of_nat (burst now cls key n ?l) \<le> q"
      by (rule step) (use False Suc.prems(2) t in \<open>simp add: check_eq Let_def update_conv'\<close>)
    then show ?thesis using False t Suc.prems(2) by (simp add: check_eq Let_def)
  qed
qed

text \<open>The limiter after any sequence of checks since it was built.\<close>

definition run_checks :: "(nat \<times> rl_class \<times> string) list \<Rightarrow> rate_limiter \<Rightarrow> rate_limiter" where
  "run_checks rs l = fold (\<lambda>(now, cls, key) l. snd (check now cls key l)) rs l"

lemma run_checks_ok: "limiter_ok l \<Longrightarrow> limiter_ok (run_checks rs l)"
  unfolding run_checks_def by (induction rs arbitrary: l) (auto simp: check_ok)

lemma run_checks_per_min [simp]: "per_min (run_checks rs l) = per_min l"
  unfolding run_checks_def by (induction rs arbitrary: l) auto

lemma new_limiter_ok:
  "cf_rl_auth_per_min cf < 2 ^ 32 \<Longrightarrow> cf_rl_webhook_per_min cf < 2 ^ 32 \<Longrightarrow> cf_rl_public_per_min cf < 2 ^ 32 \<Longrightarrow>
     limiter_ok (new_limiter cf now)"
  by (simp add: limiter_ok_def new_limiter_def per_min_def split: rl_class.split)

lemma burst_within:
  assumes "limiter_ok l" "per_min l cls \<noteq> 0"
  shows "burst now cls key n l \<le> per_min l cls"
proof (cases n)
  case (Suc k)
  let ?n = "per_min l cls" and ?l = "snd (check now cls key l)"
  note ok = assms(1)
  have n: "?n < 2 ^ 32" using ok by (simp add: limiter_ok_def)
  let ?t = "refilled (capacity l cls) now (bucket_of now cls key l)"
  obtain q where q: "?t = Fin q" "tokens_ok ?n ?t" "q \<le> of_nat ?n"
    using refill_ok [OF ok assms(2), of now key] by (auto simp: tokens_ok_def)
  have rest: "rat_of_nat (burst now cls key k ?l) \<le> p"
    if "map_of (rl_map ?l) (cls, key) = Some \<lparr>bk_tokens = Fin p, bk_updated = now\<rparr>" for p
    by (rule burst_from [OF check_ok [OF ok] _ prune_fresh [OF that]])
      (use check_ok [OF ok, of now cls key] assms(2) in \<open>simp_all add: limiter_ok_def\<close>)
  have "rat_of_nat (burst now cls key n l) \<le> of_nat ?n"
  proof (cases "1 \<le> ?t")
    case True
    then obtain v where v: "?t - 1 = Fin v" "v = q - 1" using spend_ok [OF n q(2)] q(1) by auto
    have "rat_of_nat (burst now cls key k ?l) \<le> v"
      by (rule rest) (use True v(1) assms(2) in \<open>simp add: check_eq Let_def update_conv'\<close>)
    then show ?thesis using True assms(2) v(2) q(3) by (simp add: check_eq Let_def Suc)
  next
    case False
    have "rat_of_nat (burst now cls key k ?l) \<le> q"
      by (rule rest) (use False assms(2) q(1) in \<open>simp add: check_eq Let_def update_conv'\<close>)
    then show ?thesis using False assms(2) q(3) by (simp add: check_eq Let_def Suc)
  qed
  then show ?thesis by simp
qed simp

text \<open>A class with the budget 0 is disabled.\<close>

lemma burst_disabled: "per_min l cls = 0 \<Longrightarrow> burst now cls key n l = n"
  by (induction n) (simp_all add: check_def)

text \<open>C29. The rate limiter bounds bursts: whatever traffic came before, of any number of requests of
  one client at one instant at most the class's per-minute budget is admitted, and all of them when the budget is 0, which
  disables the class.\<close>

theorem burst_bounded:
  assumes "cf_rl_auth_per_min cf < 2 ^ 32" "cf_rl_webhook_per_min cf < 2 ^ 32" "cf_rl_public_per_min cf < 2 ^ 32"
    and "l = run_checks rs (new_limiter cf start)"
  shows "if per_min l cls = 0 then burst now cls key n l = n else burst now cls key n l \<le> per_min l cls"
proof -
  have "limiter_ok l" using new_limiter_ok [OF assms(1-3)] run_checks_ok assms(4) by blast
  then show ?thesis by (simp add: burst_within burst_disabled)
qed

end
