(* ===== verification/Witnesses_Api.thy ===== *)
theory Witnesses_Api
  imports Identity_Theorems Api_Theorems Limit Sample
begin

text \<open>
  Instances of the properties of the HTTP plane on a small team: one company, an owner and a sales
  member with a device. The digest of the sample library is the identity, so distinct tokens have
  distinct hashes.
\<close>

definition plain_ext :: ext where
  "plain_ext = sample_ext\<lparr>ext_sha256 := (\<lambda>s. s)\<rparr>"

definition sample_web :: web where
  "sample_web = \<lparr>wb_ext = plain_ext, wb_rfc3339 = (\<lambda>_. ''1970-01-01T00:00:00Z''), wb_date = (\<lambda>_. ''2026-01-15''),
     wb_unix_date = (\<lambda>_. Some ''2026-01-15''), wb_in_range = (\<lambda>_. True), wb_hmac = (\<lambda>k m. k @ m), wb_unhex = Some,
     wb_vars = (\<lambda>_. None), wb_config = default_config, wb_now = 0, wb_id = ''co'', wb_user_id = ''u1'',
     wb_audit_id = ''a1'', wb_pin_audit_id = ''a2'', wb_token = ''t1''\<rparr>"

lemma sample_web_sel [simp]:
  "wb_ext sample_web = plain_ext" "wb_now sample_web = 0" "wb_id sample_web = ''co''" "wb_user_id sample_web = ''u1''"
  "wb_config sample_web = default_config" "wb_token sample_web = ''t1''" "wb_date sample_web t = ''2026-01-15''"
  by (simp_all add: sample_web_def)

lemma plain_hash [simp]: "hash_token plain_ext t = t"
  by (simp add: hash_token_def plain_ext_def sample_ext_def)

definition sample_founding :: create_company_request where
  "sample_founding = \<lparr>cq_name = ''Acme'', cq_owner_email = ''ann@acme'', cq_owner_name = ''Ann''\<rparr>"

definition sample_founded :: inner where
  "sample_founded = snd (api_create_company sample_web None sample_founding empty_store)"

lemma sample_founded_company: "\<exists>co. companies sample_founded ''co'' = Some co"
  by (simp add: sample_founded_def api_create_company_def sample_founding_def bootstrap_gate_def default_config_def chain_act_def
      act_defs create_company_def upsert_user_def empty_store_def upsert_membership_def insert_user_token_def append_audit_def
      trim_graphic graphic_def ok_or_def Let_def)

theorem every_company_has_owner_witness:
  "api_run plain_ext empty_store sample_founded \<and>
   (\<exists>u us. membership_role sample_founded u ''co'' = Some Owner \<and> users sample_founded u = Some us)"
proof -
  have run: "api_run plain_ext empty_store sample_founded"
    unfolding api_run_def sample_founded_def
    by (rule r_into_rtranclp, rule api_step.company) (simp_all add: empty_store_def)
  obtain co where "companies sample_founded ''co'' = Some co" using sample_founded_company by blast
  with run show ?thesis using every_company_has_owner by blast
qed

definition sample_team :: inner where
  "sample_team = empty_store\<lparr>
     companies := [''co'' \<mapsto> \<lparr>co_id = ''co'', co_name = ''Acme'', co_created_at = 0\<rparr>],
     users := [''u1'' \<mapsto> \<lparr>us_id = ''u1'', us_email = ''ann@acme'', us_display_name = ''Ann'', us_created_at = 0\<rparr>,
       ''u2'' \<mapsto> \<lparr>us_id = ''u2'', us_email = ''bob@acme'', us_display_name = ''Bob'', us_created_at = 0\<rparr>],
     memberships := [((''u1'', ''co''), (Owner, 0)), ((''u2'', ''co''), (Sales, 0))],
     devices := [(''dev2'', \<lparr>de_id = ''dev2'', de_company = ''co'', de_user = ''u2'', de_name = ''till'', de_token_hash = ''tok2'',
       de_created_at = 0, de_revoked_at = None, de_last_seen_at = None\<rparr>)],
     device_tokens := [''tok2'' \<mapsto> ''dev2'']\<rparr>"

definition ann :: token_identity where
  "ann = \<lparr>ti_user = ''u1'', ti_company = ''co'', ti_device = None\<rparr>"

definition bobs_till :: token_identity where
  "bobs_till = \<lparr>ti_user = ''u2'', ti_company = ''co'', ti_device = Some ''dev2''\<rparr>"

lemma sample_team_sel [simp]:
  "memberships sample_team = [((''u1'', ''co''), (Owner, 0)), ((''u2'', ''co''), (Sales, 0))]"
  "devices sample_team = [(''dev2'', \<lparr>de_id = ''dev2'', de_company = ''co'', de_user = ''u2'', de_name = ''till'',
     de_token_hash = ''tok2'', de_created_at = 0, de_revoked_at = None, de_last_seen_at = None\<rparr>)]"
  "device_tokens sample_team = [''tok2'' \<mapsto> ''dev2'']" "documents sample_team = []" "settings sample_team c = None"
  "mutation_versions sample_team v = None" "company_documents sample_team = []"
  by (simp_all add: sample_team_def)

lemma team_roles [simp]:
  "membership_role sample_team ''u1'' ''co'' = Some Owner" "membership_role sample_team ''u2'' ''co'' = Some Sales"
  "require_membership ann ''co'' sample_team = (Inr Owner, sample_team)"
  "require_membership bobs_till ''co'' sample_team = (Inr Sales, sample_team)"
  by (simp_all add: membership_role_def ann_def bobs_till_def result_simps)

theorem removed_member_locked_out_witness:
  "\<exists>rep t. api_remove_member sample_web ann ''co'' ''u2'' sample_team = (Inr rep, t) \<and>
     authenticate sample_web (Some (''Bearer '' @ ''tok2'')) t = (Inl Unauthorized, t)"
proof -
  have g: "removal_guard ann ''co'' ''u2'' sample_team = (Inr Sales, sample_team)"
    by (simp add: removal_guard_def chain_act_def act_defs require_role_def ok_or_def)
  have "api_remove_member sample_web ann ''co'' ''u2'' sample_team = removal_apply sample_web ann ''co'' ''u2'' Sales sample_team"
    by (simp add: api_remove_member_def chain_act_def g)
  then obtain rep t where r: "api_remove_member sample_web ann ''co'' ''u2'' sample_team = (Inr rep, t)"
    "device_tokens t ''tok2'' = Some ''dev2''" "\<exists>d. map_of (devices t) ''dev2'' = Some d \<and> de_user d = ''u2'' \<and> de_company d = ''co''"
    by (simp add: removal_apply_def chain_act_def act_defs remove_membership_def audited_def append_audit_def
        revoke_user_devices_def Let_def)
  then obtain d where "map_of (devices t) ''dev2'' = Some d" "de_user d = ''u2''" "de_company d = ''co''" by blast
  then have "authenticate sample_web (Some (''Bearer '' @ ''tok2'')) t = (Inl Unauthorized, t)"
    using conjunct2 [OF removed_member_locked_out [OF r(1)], rule_format, of plain_ext "''tok2''" "''dev2''" d t sample_web] r(2)
    by (simp add: api_run_def)
  then show ?thesis using r(1) by blast
qed

section \<open>A push\<close>

definition sample_draft :: mutation_record where
  "sample_draft = \<lparr>mr_id = ''m1'', mr_type = CreateDocument, mr_doc_type = ''Sales Invoice'', mr_document_id = ''S9'',
     mr_payload = [(''docstatus'', JNum (JInt 0))], mr_device_id = ''dev2'', mr_user_id = ''u2'', mr_local_timestamp = 0,
     mr_sync_version = None, mr_status = Pending\<rparr>"

definition posted_invoice :: posted_document where
  "posted_invoice = \<lparr>pd_id = ''S1'', pd_company = ''co'', pd_doctype = ''Sales Invoice'', pd_payload = JObj [],
     pd_docstatus = 1, pd_official_number = Some ''SINV-00001'', pd_created_at = 0\<rparr>"

definition sample_trading :: inner where
  "sample_trading = sample_team\<lparr>documents := [((''co'', ''Sales Invoice'', ''S1''), posted_invoice)]\<rparr>"

lemma sample_check [simp]: "check_client_mutation sample_draft = Inr ()" "docstatus_fits sample_draft"
  by (simp_all add: check_client_mutation_def sample_draft_def RESERVED_DEVICE_IDS_def SYSTEM_DEVICE_ID_def PAYMENTS_DEVICE_ID_def
      PORTAL_DEVICE_ID_def RESERVED_ID_PREFIXES_def starts_with_def DERIVED_DOCTYPES_def docstatus_def i64_max_def docstatus_fits_def
      obj_get_def)

lemma sample_push: "\<exists>rep t. api_sync_push sample_web bobs_till ''co'' [sample_draft] sample_trading = (Inr rep, t)"
proof -
  have m: "require_membership bobs_till ''co'' sample_trading = (Inr Sales, sample_trading)"
    by (simp add: sample_trading_def membership_role_def bobs_till_def result_simps)
  have d: "require_device bobs_till = Inr ''dev2''" by (simp add: require_device_def bobs_till_def ok_or_def)
  have i: "touches_posted sample_trading ''co'' known sample_draft = None" for known
    by (simp add: touches_posted_def sample_draft_def sample_trading_def posted_document_of_def)
  have p: "pin_company_rows sample_web bobs_till ''co'' [sample_draft] s = (Inr [sample_draft], s)" for s
    by (simp add: pin_company_rows_def sample_draft_def give_def)
  show ?thesis by (simp add: api_sync_push_def chain_act_def m d i p act_defs audited_def)
qed

theorem push_leaves_posted_rows_witness:
  "\<exists>rep t. api_sync_push sample_web bobs_till ''co'' [sample_draft] sample_trading = (Inr rep, t) \<and>
     posted_document_of t ''co'' ''Sales Invoice'' ''S1'' = Some posted_invoice"
proof -
  obtain rep t where p: "api_sync_push sample_web bobs_till ''co'' [sample_draft] sample_trading = (Inr rep, t)"
    using sample_push by blast
  have "posted_document_of sample_trading ''co'' ''Sales Invoice'' ''S1'' = Some posted_invoice" "1 \<le> pd_docstatus posted_invoice"
    "''Sales Invoice'' \<in> set POSTED_DOCTYPES"
    by (simp_all add: sample_trading_def posted_document_of_def posted_invoice_def POSTED_DOCTYPES_def)
  then show ?thesis using push_leaves_posted_rows [OF p] p by blast
qed

theorem push_respects_authority_witness:
  "\<exists>rep t. api_sync_push sample_web bobs_till ''co'' [sample_draft] sample_trading = (Inr rep, t) \<and>
     \<not> official (company_document_of t ''co'' ''Sales Invoice'' ''S9'')"
proof -
  obtain rep t where p: "api_sync_push sample_web bobs_till ''co'' [sample_draft] sample_trading = (Inr rep, t)"
    using sample_push by blast
  have "\<not> official (company_document_of sample_trading ''co'' ''Sales Invoice'' ''S9'')"
    by (simp add: sample_trading_def company_document_of_def official_def)
  moreover have "''Sales Invoice'' \<in> set SERVER_AUTHORITY_DOCTYPES" by (simp add: SERVER_AUTHORITY_DOCTYPES_def)
  ultimately show ?thesis using push_respects_authority [OF p, of "''Sales Invoice''" "''S9''"] p by auto
qed

definition wrapped_draft :: mutation_record where
  "wrapped_draft = sample_draft\<lparr>mr_payload := [(''docstatus'', JNum (JInt (-65535)))]\<rparr>"

theorem docstatus_wraps_past_guard_witness:
  "check_client_mutation wrapped_draft = Inr () \<and>
   official (apply_action (fold_mutation plain_ext None wrapped_draft ''co'' 0) None)"
  by (rule docstatus_wraps_past_guard)
    (simp_all add: wrapped_draft_def sample_draft_def RESERVED_DEVICE_IDS_def SYSTEM_DEVICE_ID_def PAYMENTS_DEVICE_ID_def
      PORTAL_DEVICE_ID_def RESERVED_ID_PREFIXES_def starts_with_def obj_get_def)

section \<open>Settings and the lock\<close>

definition sample_locked :: inner where
  "sample_locked = sample_team\<lparr>settings := [''co'' \<mapsto> default_settings\<lparr>cs_books_lock_date := Some ''2025-12-28''\<rparr>]\<rparr>"

lemma sample_locked_settings [simp]:
  "settings sample_locked ''co'' = Some (default_settings\<lparr>cs_books_lock_date := Some ''2025-12-28''\<rparr>)"
  by (simp add: sample_locked_def)

definition sample_unlock :: set_books_lock_request where
  "sample_unlock = \<lparr>sq_lock_date = None, sq_expected_current = Some ''2025-12-28'', sq_reason = None\<rparr>"

theorem reopening_needs_owner_or_admin_witness:
  "\<exists>rep t. api_set_books_lock sample_web ann ''co'' sample_unlock sample_locked = (Inr rep, t) \<and>
     reopens (current_lock sample_locked ''co'') (current_lock t ''co'') \<and>
     (\<exists>e. audit t = audit sample_locked @ [e] \<and> au_user e = Some ''u1'')"
proof -
  have m: "require_membership ann ''co'' sample_locked = (Inr Owner, sample_locked)"
    by (simp add: sample_locked_def membership_role_def ann_def result_simps)
  have n: "normalize_date sample_web (sq_lock_date sample_unlock) = Inr None"
    "normalize_date sample_web (sq_expected_current sample_unlock) = Inr (Some ''2025-12-28'')"
    by (simp_all add: normalize_date_def sample_unlock_def validated_posting_date_def obj_of_def obj_insert_def obj_get_def
        bt_insert.simps trim_graphic graphic_def real_date_def date_well_formed_def is_digit_def upt_rec date_year_def date_month_def
        date_day_def read_nat_def digit_value_def MAX_POSTING_YEAR_def MIN_POSTING_YEAR_def plain_ext_def sample_ext_def eval_simps
        Let_def)
  obtain rep t where p: "api_set_books_lock sample_web ann ''co'' sample_unlock sample_locked = (Inr rep, t)"
    "current_lock t ''co'' = None"
    by (simp add: api_set_books_lock_def chain_act_def m n act_defs require_role_def reopens_def set_books_lock_def Let_def
        company_settings_of_def current_lock_def)
  moreover have "reopens (current_lock sample_locked ''co'') (current_lock t ''co'')"
    unfolding p(2) by (simp add: reopens_def current_lock_def)
  moreover have "ti_user ann = ''u1''" by (simp add: ann_def)
  ultimately show ?thesis using reopening_needs_owner_or_admin [OF p(1)] by auto
qed

theorem settings_put_back_witness:
  "\<exists>rep t. api_put_settings sample_web ann ''co'' (JObj (settings_to_json (company_settings_of sample_locked ''co''))) sample_locked
      = (Inr rep, t) \<and> current_lock t ''co'' = Some ''2025-12-28''"
proof -
  have "membership_role sample_locked (ti_user ann) ''co'' = Some Owner" "ti_device ann = None \<or> ti_company ann = ''co''"
    by (simp_all add: sample_locked_def membership_role_def ann_def)
  from settings_put_back [OF this(1) _ this(2), of sample_web] show ?thesis
    by (auto simp: sample_locked_def current_lock_def)
qed

theorem burst_bounded_witness:
  "per_min (run_checks [] (new_limiter default_config 0)) AuthClass = 20 \<and>
   burst 7 AuthClass ''10.0.0.1'' 1000 (run_checks [] (new_limiter default_config 0)) \<le> 20"
  using burst_bounded [of default_config "run_checks [] (new_limiter default_config 0)" "[]" 0 AuthClass 7 "''10.0.0.1''" 1000]
  by (simp add: default_config_def new_limiter_def per_min_def)

end
