(* ===== verification/Solo_Theorems.thy ===== *)
theory Solo_Theorems
  imports Solo_Migration Store_Run
begin

text \<open>
  The take-on: what a posted opening guarantees, and that a company takes on one Solo book once.
\<close>

section \<open>From the command to the commit\<close>

lemma solo_migrations_commit:
  "solo_migrations (commit_apply x now k s) = (case pc_solo_migration k of
     Some mark \<Rightarrow> (solo_migrations s)(pc_company k \<mapsto> (sm_migration_id mark, pd_id (pc_document k)))
   | None \<Rightarrow> solo_migrations s)"
  by (simp add: commit_apply_def commit_tables_def Let_def split: option.split)

lemma opening_commit_sel [simp]:
  "pc_company (opening_commit ev c cmd sha key act date gl pts sa n) = c"
  "pc_idempotency_key (opening_commit ev c cmd sha key act date gl pts sa n) = Some key"
  "pc_gl_entries (opening_commit ev c cmd sha key act date gl pts sa n) = gl"
  "pc_party_transactions (opening_commit ev c cmd sha key act date gl pts sa n) = pts"
  "pc_stock_ledger_entries (opening_commit ev c cmd sha key act date gl pts sa n) = sa_sles sa"
  "pc_bins (opening_commit ev c cmd sha key act date gl pts sa n) = sa_bins sa"
  "pc_series_key (opening_commit ev c cmd sha key act date gl pts sa n) = None"
  "pc_preassigned_number (opening_commit ev c cmd sha key act date gl pts sa n) = None"
  "pc_numbering_floors (opening_commit ev c cmd sha key act date gl pts sa n) = fst n"
  "pc_solo_migration (opening_commit ev c cmd sha key act date gl pts sa n) =
     Some \<lparr>sm_migration_id = so_migration_id cmd, sm_package_sha256 = sha\<rparr>"
  by (simp_all add: opening_commit_def Let_def)

text \<open>The package digest the response of the opening carries.\<close>

lemma opening_response_sha:
  "Option.bind (jget (numbered_response s (opening_commit ev c cmd sha key act date gl pts sa n)) ''package_sha256'') as_str = Some sha"
  by (simp add: numbered_response_def Let_def opening_commit_def opening_response_def obj_of_get)

lemma build_openingE:
  assumes "build_opening x ev s c cmd sha key act = Inr k"
  obtains date gl pts sa n where
    "gl = map (opening_gl c (solo_document_id cmd) date) (enumerate 0 (so_lines cmd))"
    "pts = List.map_filter (opening_party_row c (solo_document_id cmd) date) (enumerate 0 (so_lines cmd))"
    "check_period_lock (company_settings_of s c) date = Inr ()" "check_balanced gl = Inr ()"
    "opening_stock_rows c (solo_document_id cmd) date (so_stock cmd) = Inr sa"
    "reconcile (so_expected cmd) gl pts (sa_by_account sa) = Inr ()"
    "fold_result check_numbering ([], []) (so_numbering cmd) = Inr n"
    "k = opening_commit ev c cmd sha key act date gl pts sa n"
  using assms unfolding build_opening_def Let_def result_simps by (auto simp: old.unit.exhaust)

lemma import_postedE:
  assumes "import_solo_opening x ev interfere c cmd act s = (Inr out, t)" "\<not> oc_replayed out"
  obtains k where "build_opening x ev s c cmd (package_sha256 x cmd) (solo_idempotency_key cmd) act = Inr k"
    "posting_commit x (ev_now ev) k (interfere s) = (Inr out, t)"
  using assms
  by (auto simp: import_solo_opening_def Let_def same_package_def split: if_splits option.splits sum.splits prod.splits
      store_error.splits)

section \<open>Numbering floors\<close>

lemma check_numbering_floor:
  assumes "fold_result check_numbering acc ns = Inr n"
  shows "set (fst acc) \<subseteq> set (fst n)"
    and "\<And>v. v \<in> set ns \<Longrightarrow> \<exists>key. series_key (nc_doctype v) = Some key \<and> (key, nc_last_value v) \<in> set (fst n)"
proof -
  have "set (fst acc) \<subseteq> set (fst n) \<and> (\<forall>v\<in>set ns. \<exists>key. series_key (nc_doctype v) = Some key \<and> (key, nc_last_value v) \<in> set (fst n))"
    using assms
  proof (induction ns arbitrary: acc)
    case (Cons v ns)
    then obtain acc' where a: "check_numbering acc v = Inr acc'" "fold_result check_numbering acc' ns = Inr n"
      by (auto simp: result_simps)
    from a(1) have "set (fst acc) \<subseteq> set (fst acc')" "\<exists>key. series_key (nc_doctype v) = Some key \<and> (key, nc_last_value v) \<in> set (fst acc')"
      by (auto simp: check_numbering_def result_simps split: prod.splits)
    then show ?case using Cons.IH [OF a(2)] by auto
  qed simp
  then show "set (fst acc) \<subseteq> set (fst n)"
    "\<And>v. v \<in> set ns \<Longrightarrow> \<exists>key. series_key (nc_doctype v) = Some key \<and> (key, nc_last_value v) \<in> set (fst n)" by blast+
qed

section \<open>Once per company\<close>

text \<open>Take-on marks stay: a company that has one always has one.\<close>

definition marks_stay :: "inner \<Rightarrow> inner \<Rightarrow> bool" where
  "marks_stay s t \<longleftrightarrow> (\<forall>c. solo_migrations s c \<noteq> None \<longrightarrow> solo_migrations t c \<noteq> None)"

lemma fold_projection_marks: "solo_migrations (fold (apply_projection x now c) rs s) = solo_migrations s"
proof -
  have "solo_migrations (apply_projection x now c r s) = solo_migrations s" for r s
    by (simp add: apply_projection_def Let_def split: projection_action.split)
  then show ?thesis by (induction rs arbitrary: s) simp_all
qed

interpretation take_on: run_relation "store_step x" marks_stay for x
proof
  show "store_step x s t \<Longrightarrow> marks_stay s t" for s t
  proof (induction rule: store_step.induct)
    case (commit s now k)
    show ?case
      by (cases rule: posting_commit_cases [of s k x now])
        (auto simp: marks_stay_def solo_migrations_commit split: option.split)
  next
    case (rebuild s now c)
    then show ?case by (simp add: marks_stay_def rebuild_projection_def fold_projection_marks Let_def)
  qed (auto simp: marks_stay_def push_mutations_def ack_mutations_def record_lost_history_def put_company_settings_def
      set_books_lock_def upsert_item_def Let_def case_prod_beta split: option.split)
qed (auto simp: marks_stay_def)

lemmas run_marks = take_on.run_R [folded store_run_def]

lemma marked_refused:
  assumes "solo_migrations s (pc_company k) \<noteq> None" "pc_solo_migration k \<noteq> None"
  shows "posting_commit x now k s = (res, t) \<Longrightarrow> t = s \<and> (\<forall>out. res = Inr out \<longrightarrow> oc_replayed out)"
proof -
  have "commit_checks s k \<noteq> Inr ()"
    using assms checks_passed(3) [of s k] by (auto simp: solo_check_def)
  then show "posting_commit x now k s = (res, t) \<Longrightarrow> t = s \<and> (\<forall>out. res = Inr out \<longrightarrow> oc_replayed out)"
    by (cases rule: posting_commit_cases [of s k x now]) auto
qed

text \<open>C30. A company takes on one Solo book, once. After a posted take-on, in every later state, no
  take-on command posts anything: it fails or answers a stored response. The same migration id gets
  the first response back for the same package and a conflict for any other package.\<close>

theorem take_on_once:
  assumes "import_solo_opening x ev interfere c cmd act s = (Inr out, t)" "\<not> oc_replayed out"
    and "store_run x t u" "store_run x u (interfere' u)"
    and "import_solo_opening x ev' interfere' c cmd' act' u = (res, u')"
  shows "(u' = u \<or> u' = interfere' u) \<and> (\<forall>out'. res = Inr out' \<longrightarrow> oc_replayed out') \<and>
    (so_migration_id cmd' = so_migration_id cmd \<longrightarrow> u' = u \<and>
      res = (if package_sha256 x cmd' = package_sha256 x cmd
             then Inr \<lparr>oc_response = oc_response out, oc_replayed = True\<rparr> else Inl (PConflict (Command PackageChanged))))"
proof -
  obtain k where k: "build_opening x ev s c cmd (package_sha256 x cmd) (solo_idempotency_key cmd) act = Inr k"
    "posting_commit x (ev_now ev) k (interfere s) = (Inr out, t)"
    by (rule import_postedE [OF assms(1,2)])
  obtain date gl pts sa n where kk: "k = opening_commit ev c cmd (package_sha256 x cmd) (solo_idempotency_key cmd) act date gl pts sa n"
    by (rule build_openingE [OF k(1)])
  note posted = posting_commit_posted [OF k(2) assms(2)]
  let ?s = "interfere s"
  have t: "solo_migrations t c \<noteq> None" unfolding posted(2) solo_migrations_commit kk by simp
  have id: "idempotency t (c, solo_idempotency_key cmd) = Some (oc_response out)" unfolding posted(2,3) kk by simp
  have sha: "Option.bind (jget (oc_response out) ''package_sha256'') as_str = Some (package_sha256 x cmd)"
    unfolding posted(3) kk by (rule opening_response_sha)
  have u: "solo_migrations u c \<noteq> None" "solo_migrations (interfere' u) c \<noteq> None"
    using run_marks [OF assms(3)] run_marks [OF assms(4)] t unfolding marks_stay_def by blast+
  have idu: "idempotency u (c, solo_idempotency_key cmd) = Some (oc_response out)"
    using run_grows [OF assms(3)] id unfolding ledgers_grow_def map_le_def by (metis domI)
  have fresh: "t' = interfere' u \<and> (\<forall>out. r = Inr out \<longrightarrow> oc_replayed out)"
    if "build_opening x ev' u c cmd' sha key act' = Inr k'" "posting_commit x (ev_now ev') k' (interfere' u) = (r, t')" for sha key k' r t'
    using marked_refused [OF _ _ that(2)] u(2) build_openingE [OF that(1)] by (metis opening_commit_sel(1,10) option.distinct(1))
  have safe: "safe_id (so_migration_id cmd)" using assms(1) by (auto simp: import_solo_opening_def Let_def split: if_splits)
  show ?thesis
  proof (cases "so_migration_id cmd' = so_migration_id cmd")
    case True
    then have "solo_idempotency_key cmd' = solo_idempotency_key cmd" by (simp add: solo_idempotency_key_def)
    then show ?thesis using assms(5) safe idu sha True
      by (auto simp: import_solo_opening_def Let_def idempotent_response_def same_package_def)
  next
    case False
    show ?thesis
      using assms(5) False fresh
      by (auto simp: import_solo_opening_def Let_def same_package_def split: if_splits option.splits sum.splits prod.splits
          store_error.splits)
  qed
qed

section \<open>Reconciled\<close>

lemma fold_unit: "fold_result f () es = Inr u \<Longrightarrow> e \<in> set es \<Longrightarrow> f () e = Inr ()"
  by (induction es) (auto simp: result_simps)

lemma zero_not_over: "\<not> over_cent (0 - 0)"
proof -
  have "lit 0 \<le> lit (5 / 1000)" by (rule rnd_mono) simp
  then have "0 \<le> CENT" by (simp add: CENT_def zero_f64_def)
  moreover have "\<not> v < \<bar>0 - 0\<bar>" if "0 \<le> v" for v :: f64
    using that by (cases v) (auto simp: minus_f64_def zero_f64_def abs_f64_def less_eq_f64_def)
  ultimately show ?thesis by (simp add: over_cent_def)
qed

lemma reconciled_accounts:
  assumes "reconcile e gl pts by_account = Inr ()"
  shows "\<not> over_cent (get_or_0 (trial_balance gl) a - get_or_0 (filter (\<lambda>(_, net). over_cent net) (et_trial_balance e)) a)"
proof -
  let ?tb = "trial_balance gl" and ?st = "filter (\<lambda>(_, net). over_cent net) (et_trial_balance e)"
  have all: "check_tb_account ?tb ?st () b = Inr ()" if "b \<in> set (map fst ?tb @ map fst ?st)" for b
    using assms fold_unit [of "check_tb_account ?tb ?st" "sort_dedup (map fst ?tb @ map fst ?st)" "()" b] that
    by (auto simp: reconcile_def Let_def result_simps)
  show ?thesis
  proof (cases "a \<in> set (map fst ?tb @ map fst ?st)")
    case True
    then show ?thesis using all by (simp add: check_tb_account_def Let_def ensure_Inr)
  next
    case False
    then have "map_of ?tb a = None" "map_of ?st a = None" by (simp_all add: map_of_eq_None_iff)
    then show ?thesis using zero_not_over by (simp add: get_or_0_def)
  qed
qed

text \<open>C31. A posted take-on is reconciled: the company was empty and had no earlier take-on; the ledger
  rows it adds, one per line of the package, balance and agree, account by account and to the cent,
  with the trial balance the package states; the stock value on each inventory account agrees with that
  account's balance; and every series it names stands at or above the last number the Solo book issued.\<close>

theorem opening_is_reconciled:
  assumes "import_solo_opening x ev interfere c cmd act s = (Inr out, t)" "\<not> oc_replayed out"
  shows "\<exists>gl sa date. gl_entries t c = gl_entries (interfere s) c @ gl \<and> length gl = length (so_lines cmd) \<and>
    \<not> BALANCE_TOLERANCE < \<bar>fsum (map gl_debit gl) - fsum (map gl_credit gl)\<bar> \<and>
    (\<forall>a. \<not> over_cent (get_or_0 (trial_balance gl) a
        - get_or_0 (filter (\<lambda>(_, net). over_cent net) (et_trial_balance (so_expected cmd))) a)) \<and>
    opening_stock_rows c (solo_document_id cmd) date (so_stock cmd) = Inr sa \<and>
    (\<forall>(a, v) \<in> set (sa_by_account sa). \<not> over_cent (get_or_0 (trial_balance gl) a - v)) \<and>
    (\<forall>n \<in> set (so_numbering cmd). \<exists>key. series_key (nc_doctype n) = Some key \<and> nc_last_value n \<le> series t (c, key)) \<and>
    solo_migrations (interfere s) c = None \<and> (\<forall>dt d. posted_document_of (interfere s) c dt d = None)"
proof -
  obtain k where k: "build_opening x ev s c cmd (package_sha256 x cmd) (solo_idempotency_key cmd) act = Inr k"
    "posting_commit x (ev_now ev) k (interfere s) = (Inr out, t)"
    by (rule import_postedE [OF assms])
  obtain date gl pts sa n where b: "gl = map (opening_gl c (solo_document_id cmd) date) (enumerate 0 (so_lines cmd))"
    "check_balanced gl = Inr ()" "opening_stock_rows c (solo_document_id cmd) date (so_stock cmd) = Inr sa"
    "reconcile (so_expected cmd) gl pts (sa_by_account sa) = Inr ()"
    "fold_result check_numbering ([], []) (so_numbering cmd) = Inr n"
    "k = opening_commit ev c cmd (package_sha256 x cmd) (solo_idempotency_key cmd) act date gl pts sa n"
    by (rule build_openingE [OF k(1)])
  note posted = posting_commit_posted [OF k(2) assms(2)]
  have rows: "gl_entries t c = gl_entries (interfere s) c @ gl" unfolding posted(2) b(6) by simp
  have stock: "\<forall>(a, v) \<in> set (sa_by_account sa). \<not> over_cent (get_or_0 (trial_balance gl) a - v)"
    using b(4) fold_unit [of "check_stock_account (trial_balance gl)" "sa_by_account sa"]
    by (fastforce simp: reconcile_def Let_def result_simps check_stock_account_def)
  have series: "series t = raise_floors c (fst n) (series (interfere s))" unfolding posted(2) b(6) by (simp add: series_after_def)
  have floors: "\<forall>v \<in> set (so_numbering cmd). \<exists>key. series_key (nc_doctype v) = Some key \<and> nc_last_value v \<le> series t (c, key)"
    using check_numbering_floor(2) [OF b(5)] raise_floors_covers unfolding series by metis
  have solo: "solo_check (interfere s) k = Inr ()" by (rule checks_passed(3) [OF posted(1)])
  then have "solo_migrations (interfere s) c = None"
    "\<not> list_ex (\<lambda>((co, _, _), _). co = c) (documents (interfere s))"
    by (auto simp: b(6) solo_check_def result_simps split: option.splits)
  moreover from this(2) have "\<forall>dt d. posted_document_of (interfere s) c dt d = None"
    by (auto simp: posted_document_of_def list_ex_iff map_of_eq_None_iff)
  ultimately show ?thesis
    using rows b(1-3) reconciled_accounts [OF b(4)] stock floors
    by (intro exI [of _ gl] exI [of _ sa] exI [of _ date]) (auto simp: check_balanced_def Let_def ensure_Inr)
qed

end
