(* ===== verification/Witnesses_Solo.thy ===== *)
theory Witnesses_Solo
  imports Solo_Theorems Sample_Stock
begin

text \<open>
  A take-on by evaluation: a company with two published accounts and one stock item takes on a book
  with ten units worth 100 against equity and invoice numbers issued up to 7.
\<close>

definition solo_account :: "string \<Rightarrow> company_document" where
  "solo_account a = \<lparr>cd_company = ''co'', cd_doctype = ''Account'', cd_document_id = a, cd_payload = JObj [],
     cd_children = None, cd_docstatus = 0, cd_updated_at = 0\<rparr>"

definition solo_item :: item where
  "solo_item = \<lparr>it_id = ''I1'', it_item_type = ''Stock'', it_valuation_method = None, it_stock_uom = None,
     it_uoms = [], it_inventory_account = None, it_cogs_account = None, it_stock_adjustment_account = None\<rparr>"

definition solo_base :: inner where
  "solo_base = empty_store\<lparr>
     company_documents := [((''co'', ''Account'', ''Stock''), solo_account ''Stock''),
       ((''co'', ''Account'', ''Equity''), solo_account ''Equity'')],
     items := [(''co'', ''I1'') \<mapsto> solo_item]\<rparr>"

lemma solo_base_sel [simp]:
  "settings solo_base c = None" "idempotency solo_base k = None" "solo_migrations solo_base c = None" "documents solo_base = []"
  "stock_ledger solo_base c = []" "items solo_base (''co'', ''I1'') = Some solo_item"
  "company_document_of solo_base ''co'' ''Account'' ''Stock'' = Some (solo_account ''Stock'')"
  "company_document_of solo_base ''co'' ''Account'' ''Equity'' = Some (solo_account ''Equity'')"
  by (simp_all add: solo_base_def company_document_of_def)

definition solo_package :: solo_opening_command where
  "solo_package = \<lparr>so_migration_id = ''solo-2026'', so_posting_date = ''2026-01-15'', so_source = JObj [],
     so_lines = [\<lparr>ol_account = ''Stock'', ol_debit = Fin 100, ol_credit = Fin 0, ol_party_type = None, ol_party = None\<rparr>,
       \<lparr>ol_account = ''Equity'', ol_debit = Fin 0, ol_credit = Fin 100, ol_party_type = None, ol_party = None\<rparr>],
     so_stock = [\<lparr>os_item = ''I1'', os_warehouse = ''Main'', os_qty = Fin 10, os_stock_value = Fin 100, os_account = ''Stock''\<rparr>],
     so_numbering = [\<lparr>nc_doctype = ''Sales Invoice'', nc_last_issued = ''INV-7'', nc_last_value = 7\<rparr>],
     so_expected = \<lparr>et_trial_balance = [(''Equity'', Fin (-100)), (''Stock'', Fin 100)], et_receivables = Fin 0,
       et_payables = Fin 0, et_stock_value = Fin 100\<rparr>\<rparr>"

abbreviation solo_doc :: string where
  "solo_doc \<equiv> solo_document_id solo_package"

definition solo_gl :: "gl_entry list" where
  "solo_gl = map (opening_gl ''co'' solo_doc ''2026-01-15'') (enumerate 0 (so_lines solo_package))"

lemma solo_gl_cols:
  "map gl_debit solo_gl = [Fin 100, Fin 0]" "map gl_credit solo_gl = [Fin 0, Fin 100]" "length solo_gl = 2"
  by (simp_all add: solo_gl_def solo_package_def opening_gl_def)

lemma CENT_eval [simp]: "over_cent (Fin 100)" "over_cent (Fin (-100))" "\<not> over_cent (Fin 0)"
proof -
  obtain e where "MONEY_EPS = Fin e" "1 / 256 \<le> e" by (rule MONEY_EPS_Fin)
  moreover have "CENT = MONEY_EPS" by (simp add: CENT_def MONEY_EPS_def)
  moreover have "MONEY_EPS < Fin 100" by (simp add: eval_simps)
  ultimately show "over_cent (Fin 100)" "over_cent (Fin (-100))" "\<not> over_cent (Fin 0)"
    by (simp_all add: over_cent_def abs_f64_def)
qed

lemma solo_trial_balance: "trial_balance solo_gl = [(''Equity'', Fin (-100)), (''Stock'', Fin 100)]"
  by (simp add: trial_balance_def solo_gl_def solo_package_def opening_gl_def bt_add_def eval_simps minus_f64_def zero_f64_def)

definition solo_stock :: stock_acc where
  "solo_stock = \<lparr>
     sa_sles = [\<lparr>sle_id = ''SLE-'' @ solo_doc @ ''-0'', sle_company = ''co'', sle_trans_type = ''Receipt'', sle_item = ''I1'',
         sle_warehouse = ''Main'', sle_qty_change = Fin 10, sle_valuation_rate = Fin 10,
         sle_voucher_type = ''Journal Entry'', sle_voucher_no = solo_doc, sle_posting_date = ''2026-01-15'', sle_uom = None,
         sle_is_reversal = False, sle_batch_id = ''PB-'' @ solo_doc, sle_seq = 0\<rparr>],
     sa_bins = [\<lparr>bin_company = ''co'', bin_item = ''I1'', bin_warehouse = ''Main'', bin_actual_qty = Fin 10,
       bin_valuation_rate = Fin 10, bin_stock_value = Fin 100\<rparr>],
     sa_pairs = [(''I1'', ''Main'')],
     sa_by_account = [(''Stock'', Fin 100)]\<rparr>"

lemma solo_stock_rows: "opening_stock_rows ''co'' solo_doc ''2026-01-15'' (so_stock solo_package) = Inr solo_stock"
  by (simp add: opening_stock_rows_def solo_package_def check_stock_line_def solo_stock_def finite_non_negative_def bt_add_def
      OPENING_DOCTYPE_def divide_f64_def less_eq_f64_def eval_simps zero_f64_def digit_char_def char_of_48 Let_def)

lemma solo_masters: "check_masters solo_base ''co'' solo_package = Inr ()"
  by (simp add: check_masters_def solo_package_def check_line_def finite_non_negative_def check_account_def sort_dedup_def
      insort_key.simps eval_simps zero_f64_def Let_def)

lemma solo_items: "load_items sample_ext solo_base ''co'' (sa_sles solo_stock) [] ''I1'' = Some solo_item"
  by (simp add: load_items_def solo_stock_def items_of_ids_def items_of_def array_of_def sort_dedup_def insort_key.simps
      List.map_filter_simps solo_item_def eval_simps Let_def)

lemma solo_reconciled: "reconcile (so_expected solo_package) solo_gl [] (sa_by_account solo_stock) = Inr ()"
  by (simp add: reconcile_def solo_trial_balance solo_package_def solo_stock_def check_tb_account_def check_stock_account_def
      get_or_0_def party_total_def fsum_eval sort_dedup_def insort_key.simps eval_simps minus_f64_def Let_def)

definition solo_numbering :: numbering_acc where
  "solo_numbering = ([(''SINV'', 7)], [JObj (obj_of [(''doctype'', JStr ''Sales Invoice''), (''solo_last_issued'', JStr ''INV-7''),
     (''team_next_number'', JStr (format_number ''SINV'' 8))])])"

lemma solo_numbered: "fold_result check_numbering ([], []) (so_numbering solo_package) = Inr solo_numbering"
  by (simp add: solo_package_def check_numbering_def solo_numbering_def series_key_def eval_simps)

lemma solo_date: "validated_posting_date sample_ext (ev_today sample_env) (obj_of [(''posting_date'', JStr (so_posting_date solo_package))])
    = Inr ''2026-01-15''"
  by (simp add: validated_posting_date_def solo_package_def obj_of_def obj_insert_def obj_get_def eval_simps Let_def sample_real_date)

lemma solo_build:
  "build_opening sample_ext sample_env solo_base ''co'' solo_package sha key sample_actor
     = Inr (opening_commit sample_env ''co'' solo_package sha key sample_actor ''2026-01-15'' solo_gl [] solo_stock solo_numbering)"
proof -
  have "check_balanced solo_gl = Inr ()"
    unfolding check_balanced_def solo_gl_cols by (simp add: BALANCE_TOLERANCE_eq fsum_eval eval_simps minus_f64_def abs_f64_def)
  moreover have "List.map_filter (opening_party_row ''co'' solo_doc ''2026-01-15'') (enumerate 0 (so_lines solo_package)) = []"
    by (simp add: solo_package_def opening_party_row_def List.map_filter_simps)
  moreover have "fold_result (check_stock_item (load_items sample_ext solo_base ''co'' (sa_sles solo_stock) [])) () (sa_sles solo_stock)
      = Inr ()"
    using solo_items by (simp add: solo_stock_def check_stock_item_def solo_item_def is_stock_item_type_def eq_ignore_ascii_case_def eval_simps)
  moreover have "check_period_lock (company_settings_of solo_base ''co'') ''2026-01-15'' = Inr ()"
    by (simp add: check_period_lock_def company_settings_of_def default_settings_def)
  moreover have "so_lines solo_package \<noteq> []" "length (so_lines solo_package) \<le> MAX_LINES" "length (so_stock solo_package) \<le> MAX_LINES"
    by (simp_all add: solo_package_def MAX_LINES_def)
  ultimately show ?thesis
    by (simp add: build_opening_def solo_date solo_masters solo_stock_rows solo_reconciled solo_numbered solo_gl_def [symmetric]
        ensure_def Let_def)
qed

lemma solo_import:
  "\<exists>out t. import_solo_opening sample_ext sample_env (\<lambda>s. s) ''co'' solo_package sample_actor solo_base = (Inr out, t) \<and>
     \<not> oc_replayed out"
proof -
  let ?k = "opening_commit sample_env ''co'' solo_package (package_sha256 sample_ext solo_package) (solo_idempotency_key solo_package)
    sample_actor ''2026-01-15'' solo_gl [] solo_stock solo_numbering"
  have "commit_checks solo_base ?k = Inr ()"
    by (simp add: commit_checks_def lock_check_def deposit_check_def solo_check_def existence_check_def number_check_def
        till_check_def opening_commit_def lock_violation_def current_lock_def expectation_check_def pair_count_def sles_for_pair_def
        solo_stock_def sort_dedup_def insort_key.simps ensure_def Let_def)
  moreover have "replayed_response solo_base ?k = None" by (simp add: replayed_response_def opening_commit_def Let_def)
  moreover have "safe_id (so_migration_id solo_package)" by (simp add: solo_package_def safe_id_def id_char_def)
  moreover have "idempotent_response solo_base ''co'' key = None" for key by (simp add: idempotent_response_def)
  ultimately show ?thesis
    by (simp add: import_solo_opening_def solo_build posting_commit_def Let_def)
qed

theorem opening_is_reconciled_witness:
  "\<exists>out t. import_solo_opening sample_ext sample_env (\<lambda>s. s) ''co'' solo_package sample_actor solo_base = (Inr out, t) \<and>
     length (gl_entries t ''co'') = 2 \<and> 7 \<le> series t (''co'', ''SINV'')"
proof -
  obtain out t where p: "import_solo_opening sample_ext sample_env (\<lambda>s. s) ''co'' solo_package sample_actor solo_base = (Inr out, t)"
    "\<not> oc_replayed out" using solo_import by blast
  have "length (so_lines solo_package) = 2" "gl_entries solo_base ''co'' = []"
    "so_numbering solo_package = [\<lparr>nc_doctype = ''Sales Invoice'', nc_last_issued = ''INV-7'', nc_last_value = 7\<rparr>]"
    by (simp_all add: solo_package_def solo_base_def)
  then show ?thesis using opening_is_reconciled [OF p] p(1) by (auto simp: series_key_def)
qed

theorem take_on_once_witness:
  "\<exists>out t. import_solo_opening sample_ext sample_env (\<lambda>s. s) ''co'' solo_package sample_actor solo_base = (Inr out, t) \<and>
     import_solo_opening sample_ext sample_env (\<lambda>s. s) ''co'' solo_package sample_actor t
       = (Inr \<lparr>oc_response = oc_response out, oc_replayed = True\<rparr>, t)"
proof -
  obtain out t where p: "import_solo_opening sample_ext sample_env (\<lambda>s. s) ''co'' solo_package sample_actor solo_base = (Inr out, t)"
    "\<not> oc_replayed out" using solo_import by blast
  have "store_run sample_ext t t" by (simp add: store_run_def)
  then show ?thesis
    using take_on_once [OF p, of t "\<lambda>s. s" sample_env solo_package sample_actor] p(1)
    by (cases "import_solo_opening sample_ext sample_env (\<lambda>s. s) ''co'' solo_package sample_actor t") auto
qed

end
