(* ===== verification/Rendering.thy ===== *)
theory Rendering
  imports Api_Sync
begin

text \<open>
  Text the server renders: numbers as Rust's \<open>Display\<close> writes an \<open>f64\<close>, the escaping of
  \<^verbatim>\<open>src/src/portal.rs\<close> (HTML text, path segments, CSV fields) and the page frame both public planes
  share. Strings are their UTF-8 bytes; everything that is escaped is ASCII, so working on bytes and
  on characters is the same.
\<close>

section \<open>Numbers\<close>

text \<open>
  \<open>f64::to_string\<close>: the shortest decimal that reads back as the number, and of those the nearest,
  without an exponent. A decimal with the least digits is a multiple of the greatest power of ten that
  has one reading back; every finite number is a multiple of \<open>10^-1074\<close>.
\<close>

definition reads_as :: "rat \<Rightarrow> rat \<Rightarrow> bool" where
  "reads_as y x \<longleftrightarrow> rnd y = Fin x"

definition decimal_at :: "rat \<Rightarrow> int \<Rightarrow> nat option" where
  "decimal_at x j =
     (let q = x / pow10 j; lo = \<lfloor>q\<rfloor>; hi = \<lceil>q\<rceil>;
          lo_ok = reads_as (of_int lo * pow10 j) x; hi_ok = reads_as (of_int hi * pow10 j) x in
      if hi_ok \<and> (\<not> lo_ok \<or> of_int hi - q \<le> q - of_int lo) then Some (nat hi)
      else if lo_ok then Some (nat lo) else None)"

fun shortest_from :: "rat \<Rightarrow> nat \<Rightarrow> nat \<times> int" where
  "shortest_from x n =
     (let j = int n - 1074 in
      case decimal_at x j of
        Some m \<Rightarrow> (m, j)
      | None \<Rightarrow> (case n of 0 \<Rightarrow> (0, j) | Suc k \<Rightarrow> shortest_from x k))"

definition pad_zeros :: "nat \<Rightarrow> string \<Rightarrow> string" where
  "pad_zeros n s = replicate (n - length s) CHR ''0'' @ s"

definition show_decimal :: "nat \<Rightarrow> int \<Rightarrow> string" where
  "show_decimal m j =
     (if 0 \<le> j then show_nat (m * 10 ^ nat j)
      else show_nat (m div 10 ^ nat (- j)) @ CHR ''.'' # pad_zeros (nat (- j)) (show_nat (m mod 10 ^ nat (- j))))"

fun show_f64 :: "f64 \<Rightarrow> string" where
  "show_f64 NaN = ''NaN''"
| "show_f64 PInf = ''inf''"
| "show_f64 NInf = ''-inf''"
| "show_f64 (Fin x) = (if x = 0 then ''0'' else
     (let (m, j) = shortest_from \<bar>x\<bar> 1383 in (if x < 0 then ''-'' else []) @ show_decimal m j))"

section \<open>Escaping\<close>

fun escape_char :: "char \<Rightarrow> string" where
  "escape_char c =
     (if c = CHR ''&'' then ''&amp;'' else if c = CHR ''<'' then ''&lt;'' else if c = CHR ''>'' then ''&gt;''
      else if c = CHR 0x22 then ''&quot;'' else if c = CHR 0x27 then ''&#39;'' else [c])"

definition html_escape :: "string \<Rightarrow> string" where
  "html_escape s = concat (map escape_char s)"

definition hex_upper :: "nat \<Rightarrow> char" where
  "hex_upper n = (if n < 10 then digit_char n else char_of (55 + n))"

definition segment_safe :: "char \<Rightarrow> bool" where
  "segment_safe b \<longleftrightarrow> is_ascii_alphanumeric b \<or> b \<in> {CHR ''-'', CHR ''_'', CHR ''.'', CHR ''~''}"

definition encode_segment :: "string \<Rightarrow> string" where
  "encode_segment s = concat (map (\<lambda>b.
     if segment_safe b then [b]
     else [CHR ''%'', hex_upper (of_char b div 16), hex_upper (of_char b mod 16)]) s)"

definition csv_special :: "char \<Rightarrow> bool" where
  "csv_special c \<longleftrightarrow> c \<in> {CHR '','', CHR 0x22, CHR 0x0A, CHR 0x0D}"

definition csv_field :: "string \<Rightarrow> string" where
  "csv_field v =
     (if list_ex csv_special v
      then CHR 0x22 # concat (map (\<lambda>c. if c = CHR 0x22 then [c, c] else [c]) v) @ [CHR 0x22]
      else v)"

section \<open>Pages\<close>

text \<open>A scalar as display text; the text of a number is the library's.\<close>

definition display_value :: "ext \<Rightarrow> json \<Rightarrow> string option" where
  "display_value x v = (case v of
       JStr s \<Rightarrow> Some s
     | JNum n \<Rightarrow> Some (ext_to_string x (JNum n))
     | JBool b \<Rightarrow> Some (if b then ''true'' else ''false'')
     | _ \<Rightarrow> None)"

definition page :: "string \<Rightarrow> string \<Rightarrow> string" where
  "page title contents =
     ''<!doctype html><html lang=\"en\"><head><meta charset=\"utf-8\">'' @
     ''<meta name=\"viewport\" content=\"width=device-width, initial-scale=1\">'' @
     ''<title>'' @ html_escape title @ ''</title></head>'' @
     ''<body style=\"font-family:system-ui,sans-serif;max-width:720px;'' @
     ''margin:2rem auto;padding:0 1rem;color:#1a1a1a;line-height:1.5\">'' @ contents @ ''</body></html>''"

text \<open>The table of line items; the columns are the scalar members in order of first appearance.\<close>

definition add_columns :: "ext \<Rightarrow> string list \<Rightarrow> json \<Rightarrow> string list" where
  "add_columns x columns item = (case item of
       JObj m \<Rightarrow> foldl (\<lambda>cs (k, v). if display_value x v \<noteq> None \<and> k \<notin> set cs then cs @ [k] else cs) columns m
     | _ \<Rightarrow> columns)"

definition CELL :: string where
  "CELL = ''padding:.35rem .75rem;border:1px solid #ddd;text-align:left''"

definition header_cell :: "string \<Rightarrow> string" where
  "header_cell column = ''<th style=\"'' @ CELL @ '';background:#f5f5f5\">'' @ html_escape column @ ''</th>''"

definition item_row :: "ext \<Rightarrow> string list \<Rightarrow> json \<Rightarrow> string" where
  "item_row x columns item =
     ''<tr>'' @ concat (map (\<lambda>column.
        ''<td style=\"'' @ CELL @ ''\">''
        @ html_escape (unwrap_or_default (Option.bind (jget item column) (display_value x))) @ ''</td>'') columns)
     @ ''</tr>''"

definition items_table :: "ext \<Rightarrow> json list \<Rightarrow> string" where
  "items_table x rows =
     (if rows = [] then []
      else
        let columns = foldl (add_columns x) [] rows in
        ''<h2>Line items</h2><table style=\"border-collapse:collapse;width:100%\"><tr>''
        @ concat (map header_cell columns) @ ''</tr>''
        @ concat (map (item_row x columns) rows) @ ''</table>'')"

text \<open>\<open>Accept\<close>: whether the header, when it is readable text, asks for HTML.\<close>

definition visible_ascii :: "char \<Rightarrow> bool" where
  "visible_ascii c \<longleftrightarrow> (let n = (of_char c :: nat) in 32 \<le> n \<and> n < 127 \<or> n = 9)"

definition header_str :: "(string \<times> string) list \<Rightarrow> string \<Rightarrow> string option" where
  "header_str headers name =
     Option.bind (map_of headers name) (\<lambda>v. if list_all visible_ascii v then Some v else None)"

definition wants_html :: "(string \<times> string) list \<Rightarrow> bool" where
  "wants_html headers = (case header_str headers ''accept'' of
       Some v \<Rightarrow> sublist ''text/html'' v
     | None \<Rightarrow> False)"

end
