(* ===== verification/Portal.thy ===== *)
theory Portal
  imports Rendering
begin

text \<open>
  \<^verbatim>\<open>src/src/portal.rs\<close>: links that let a customer see and decide their quotations and see their
  invoices, and an accountant read the ledger and the audit feed, with nothing but the token in the
  path; and the management of those links by owners and admins. The pages are the strings the code
  builds.
\<close>

definition PORTAL_DEFAULT_EXPIRES_DAYS :: int where
  "PORTAL_DEFAULT_EXPIRES_DAYS = 90"

definition QUOTATION :: string where
  "QUOTATION = ''Quotation''"

definition SALES_INVOICE :: string where
  "SALES_INVOICE = ''Sales Invoice''"

definition CUSTOMER_DOCTYPES :: "string list" where
  "CUSTOMER_DOCTYPES = [QUOTATION, SALES_INVOICE]"

section \<open>Management\<close>

record create_portal_link_request =
  kq_kind :: portal_link_kind
  kq_party :: "string option"
  kq_label :: "string option"
  kq_expires_days :: "int option"

definition non_blank :: "string option \<Rightarrow> string option" where
  "non_blank v = Option.bind (map_option trim v) (\<lambda>t. if t = [] then None else Some t)"

text \<open>\<open>now + Duration::days(n)\<close> panics when the sum is outside the range of \<open>DateTime\<close>.\<close>

definition expiry :: "web \<Rightarrow> int \<Rightarrow> int act" where
  "expiry w days = (let e = wb_now w + days * MS_PER_DAY in
     chain_act (need (wb_in_range w e) Panicked) (\<lambda>_. give e))"

definition portal_create_link :: "web \<Rightarrow> token_identity \<Rightarrow> uuid \<Rightarrow> create_portal_link_request \<Rightarrow> reply act" where
  "portal_create_link w auth c req =
     (let party = non_blank (kq_party req);
          days = (case kq_expires_days req of Some n \<Rightarrow> n | None \<Rightarrow> PORTAL_DEFAULT_EXPIRES_DAYS) in
     chain_act (require_membership auth c) (\<lambda>r.
     chain_act (require_role r [Owner, Admin]) (\<lambda>_.
     chain_act (need (kq_kind req = PortalCustomer \<longrightarrow> party \<noteq> None) (BadRequest PartyRequired)) (\<lambda>_.
     chain_act (need (1 \<le> days) (BadRequest ExpiresDaysTooSmall)) (\<lambda>_.
     chain_act (expiry w days) (\<lambda>expires.
     chain_act (tell (create_portal_link
       \<lparr>pl_id = wb_id w, pl_company = c, pl_kind = kq_kind req, pl_party = party, pl_label = non_blank (kq_label req),
        pl_token_hash = hash_token (wb_ext w) (wb_token w), pl_created_by = ti_user auth, pl_created_at = wb_now w,
        pl_expires_at = expires, pl_revoked_at = None\<rparr>)) (\<lambda>_.
     chain_act (audited w c (Some auth) ''portal.link.create''
       [(''linkId'', JStr (wb_id w)), (''kind'', JStr (portal_link_kind_as_str (kq_kind req))),
        (''party'', json_opt JStr party)]) (\<lambda>_.
     give (created_json
       [(''id'', JStr (wb_id w)), (''token'', JStr (wb_token w)), (''url_path'', JStr (''/portal/'' @ wb_token w)),
        (''expiresAt'', json_instant w expires)])))))))))"

definition portal_link_to_json :: "web \<Rightarrow> portal_link \<Rightarrow> json" where
  "portal_link_to_json w l = JObj (obj_of
     [(''id'', JStr (pl_id l)), (''kind'', JStr (portal_link_kind_as_str (pl_kind l))),
      (''party'', json_opt JStr (pl_party l)), (''label'', json_opt JStr (pl_label l)),
      (''createdAt'', json_instant w (pl_created_at l)), (''expiresAt'', json_instant w (pl_expires_at l)),
      (''revoked'', JBool (pl_revoked_at l \<noteq> None)), (''revokedAt'', json_opt (json_instant w) (pl_revoked_at l))])"

definition portal_list_links :: "web \<Rightarrow> token_identity \<Rightarrow> uuid \<Rightarrow> reply act" where
  "portal_list_links w auth c =
     chain_act (require_membership auth c) (\<lambda>r.
     chain_act (require_role r [Owner, Admin]) (\<lambda>_.
     chain_act (ask (\<lambda>s. portal_links_of s c)) (\<lambda>ls.
     give (ok_json [(''links'', JArr (map (portal_link_to_json w) ls))]))))"

definition portal_revoke_link :: "web \<Rightarrow> token_identity \<Rightarrow> uuid \<Rightarrow> uuid \<Rightarrow> reply act" where
  "portal_revoke_link w auth c i =
     chain_act (require_membership auth c) (\<lambda>r.
     chain_act (require_role r [Owner, Admin]) (\<lambda>_.
     chain_act (call (revoke_portal_link (wb_now w) c i)) (\<lambda>hit.
     chain_act (need hit ApiNotFound) (\<lambda>_.
     chain_act (audited w c (Some auth) ''portal.link.revoke'' [(''linkId'', JStr i)]) (\<lambda>_.
     give (ok_json [(''revoked'', JBool True)]))))))"

section \<open>What a link shows\<close>

definition portal_resolve_link :: "web \<Rightarrow> string \<Rightarrow> portal_link act" where
  "portal_resolve_link w token =
     chain_act (ask (\<lambda>s. portal_link_by_hash s (hash_token (wb_ext w) token))) (\<lambda>hit.
     chain_act (found hit ApiNotFound) (\<lambda>link.
     chain_act (need (\<not> (pl_revoked_at link \<noteq> None \<or> pl_expires_at link < wb_now w)) ApiNotFound) (\<lambda>_.
     give link)))"

definition doc_customer :: "company_document \<Rightarrow> string option" where
  "doc_customer doc = Option.bind (jget (cd_payload doc) ''customer'') as_str"

definition payload_num :: "company_document \<Rightarrow> string \<Rightarrow> f64" where
  "payload_num doc field = as_num (jget (cd_payload doc) field)"

definition payload_str :: "company_document \<Rightarrow> string \<Rightarrow> string option" where
  "payload_str doc field = non_blank (Option.bind (jget (cd_payload doc) field) as_str)"

definition open_quotations :: "inner \<Rightarrow> uuid \<Rightarrow> string \<Rightarrow> company_document list" where
  "open_quotations s c party =
     filter (\<lambda>d. cd_docstatus d = 0 \<and> doc_customer d = Some party) (company_documents_of s c QUOTATION)"

definition unpaid_invoices :: "inner \<Rightarrow> uuid \<Rightarrow> string \<Rightarrow> company_document list" where
  "unpaid_invoices s c party =
     filter (\<lambda>d. cd_docstatus d = 1 \<and> doc_customer d = Some party \<and> 0 < payload_num d ''outstanding_amount'')
       (company_documents_of s c SALES_INVOICE)"

definition doc_json :: "company_document \<Rightarrow> json" where
  "doc_json d = JObj (obj_of
     [(''id'', JStr (cd_document_id d)), (''doctype'', JStr (cd_doctype d)), (''docstatus'', json_int (cd_docstatus d)),
      (''payload'', cd_payload d)])"

section \<open>Pages\<close>

definition doc_href :: "string \<Rightarrow> string \<Rightarrow> string \<Rightarrow> string" where
  "doc_href token doctype d =
     ''/portal/'' @ encode_segment token @ ''/documents/'' @ encode_segment doctype @ ''/'' @ encode_segment d"

definition doc_amount :: "ext \<Rightarrow> string \<Rightarrow> company_document \<Rightarrow> string" where
  "doc_amount x field d = (case Option.bind (jget (cd_payload d) field) (display_value x) of
       Some v \<Rightarrow> '' &mdash; '' @ html_escape field @ '': '' @ html_escape v
     | None \<Rightarrow> [])"

definition doc_list_item :: "ext \<Rightarrow> string \<Rightarrow> string \<Rightarrow> company_document \<Rightarrow> string" where
  "doc_list_item x token field d =
     ''<li><a href=\"'' @ doc_href token (cd_doctype d) (cd_document_id d) @ ''\">'' @ html_escape (cd_document_id d) @ ''</a>''
     @ doc_amount x field d @ ''</li>''"

definition doc_list_items :: "ext \<Rightarrow> string \<Rightarrow> company_document list \<Rightarrow> string \<Rightarrow> string" where
  "doc_list_items x token docs field =
     (if docs = [] then ''<p style=\"color:#666\">None.</p>''
      else ''<ul>'' @ concat (map (doc_list_item x token field) docs) @ ''</ul>'')"

text \<open>The em dash of the titles, in UTF-8.\<close>

definition EM_DASH :: string where
  "EM_DASH = [CHR 0xE2, CHR 0x80, CHR 0x94]"

definition customer_summary_page ::
  "ext \<Rightarrow> string \<Rightarrow> string \<Rightarrow> string \<Rightarrow> company_document list \<Rightarrow> company_document list \<Rightarrow> string" where
  "customer_summary_page x token company_name party quotations invoices =
     page (company_name @ '' '' @ EM_DASH @ '' customer portal'')
       (''<h1>'' @ html_escape company_name @ ''</h1><p>Customer: <strong>'' @ html_escape party @ ''</strong></p>'' @
        ''<h2>Open quotations</h2>'' @ doc_list_items x token quotations ''grand_total'' @
        ''<h2>Unpaid invoices</h2>'' @ doc_list_items x token invoices ''outstanding_amount'')"

definition status_line :: "company_document \<Rightarrow> string" where
  "status_line d = (case Option.bind (jget (cd_payload d) ''accepted_on'') as_str of
       Some date \<Rightarrow> ''<p><strong style=\"color:#166534\">Accepted on '' @ html_escape date @ ''</strong></p>''
     | None \<Rightarrow> (case Option.bind (jget (cd_payload d) ''rejected_on'') as_str of
         Some date \<Rightarrow> ''<p><strong style=\"color:#991b1b\">Rejected on '' @ html_escape date @ ''</strong></p>''
       | None \<Rightarrow> ''<p>Status: '' @
           (if cd_docstatus d = 1 then ''Submitted'' else if cd_docstatus d = 2 then ''Cancelled'' else ''Open'') @ ''</p>''))"

definition header_row :: "ext \<Rightarrow> string \<times> json \<Rightarrow> string" where
  "header_row x kv = (case kv of (k, v) \<Rightarrow>
     if k = ''items'' then []
     else (case display_value x v of
       Some t \<Rightarrow> ''<tr><td style=\"padding:.25rem .75rem .25rem 0;color:#555\">'' @ html_escape k @ ''</td>'' @
         ''<td style=\"padding:.25rem 0\">'' @ html_escape t @ ''</td></tr>''
     | None \<Rightarrow> []))"

definition header_table :: "ext \<Rightarrow> company_document \<Rightarrow> string" where
  "header_table x d = (case cd_payload d of
       JObj m \<Rightarrow> ''<table style=\"border-collapse:collapse\">'' @ concat (map (header_row x) m) @ ''</table>''
     | _ \<Rightarrow> [])"

text \<open>The line items of a row: its children, else the member \<open>items\<close> of its payload.\<close>

definition doc_items :: "company_document \<Rightarrow> json list" where
  "doc_items d = (case Option.bind (cd_children d) as_array of
       Some rows \<Rightarrow> rows
     | None \<Rightarrow> (case Option.bind (jget (cd_payload d) ''items'') as_array of Some rows \<Rightarrow> rows | None \<Rightarrow> []))"

definition totals_block :: "ext \<Rightarrow> company_document \<Rightarrow> string" where
  "totals_block x d = concat (map (\<lambda>field.
     case Option.bind (jget (cd_payload d) field) (display_value x) of
       Some t \<Rightarrow> ''<p><strong>'' @ html_escape field @ '':</strong> '' @ html_escape t @ ''</p>''
     | None \<Rightarrow> []) [''grand_total'', ''outstanding_amount''])"

definition undecided :: "company_document \<Rightarrow> bool" where
  "undecided d \<longleftrightarrow> Option.bind (jget (cd_payload d) ''accepted_on'') as_str = None
     \<and> Option.bind (jget (cd_payload d) ''rejected_on'') as_str = None"

definition BUTTON :: string where
  "BUTTON = ''padding:.5rem 1.25rem;border:none;border-radius:4px;color:#fff;cursor:pointer''"

definition decision_forms :: "string \<Rightarrow> company_document \<Rightarrow> string" where
  "decision_forms token d =
     (if cd_doctype d \<noteq> QUOTATION \<or> cd_docstatus d \<noteq> 0 \<or> \<not> undecided d then []
      else
        let base = ''/portal/'' @ encode_segment token @ ''/quotations/'' @ encode_segment (cd_document_id d) in
        ''<div style=\"margin-top:1.5rem\">'' @
        ''<form method=\"post\" action=\"'' @ base @ ''/accept\" style=\"display:inline\">'' @
        ''<button style=\"'' @ BUTTON @ '';background:#166534\">Accept quotation</button></form> '' @
        ''<form method=\"post\" action=\"'' @ base @ ''/reject\" style=\"display:inline\">'' @
        ''<button style=\"'' @ BUTTON @ '';background:#991b1b\">Reject quotation</button></form></div>'')"

definition document_page :: "ext \<Rightarrow> string \<Rightarrow> company_document \<Rightarrow> string" where
  "document_page x token d =
     page (cd_doctype d @ '' '' @ cd_document_id d)
       (''<p><a href=\"/portal/'' @ encode_segment token @ ''\">&larr; Back to summary</a></p>'' @
        ''<h1>'' @ html_escape (cd_doctype d) @ '' '' @ html_escape (cd_document_id d) @ ''</h1>'' @
        status_line d @ header_table x d @ items_table x (doc_items d) @ totals_block x d @ decision_forms token d)"

section \<open>The portal\<close>

definition portal_summary :: "web \<Rightarrow> string \<Rightarrow> (string \<times> string) list \<Rightarrow> reply act" where
  "portal_summary w token headers =
     chain_act (portal_resolve_link w token) (\<lambda>link.
     chain_act (ask (\<lambda>s. company_of s (pl_company link))) (\<lambda>hit.
     chain_act (found hit ApiNotFound) (\<lambda>co.
     case pl_kind link of
       PortalCustomer \<Rightarrow>
         let party = unwrap_or_default (pl_party link) in
         chain_act (ask (\<lambda>s. open_quotations s (pl_company link) party)) (\<lambda>quotations.
         chain_act (ask (\<lambda>s. unpaid_invoices s (pl_company link) party)) (\<lambda>invoices.
         if wants_html headers
         then give (200, Html (customer_summary_page (wb_ext w) token (co_name co) party quotations invoices))
         else give (ok_json
           [(''company'', JStr (co_name co)), (''customer'', JStr party),
            (''quotations'', JArr (map doc_json quotations)), (''invoices'', JArr (map doc_json invoices))])))
     | PortalAccountant \<Rightarrow>
         chain_act (ask (\<lambda>s. posted_document_counts s (pl_company link))) (\<lambda>counts.
         chain_act (ask (\<lambda>s. gl_entries_ordered s (pl_company link))) (\<lambda>entries.
         give (ok_json
           [(''company'', JStr (co_name co)),
            (''documentCounts'', JObj (obj_of (map (\<lambda>(dt, n). (dt, json_int n)) counts))),
            (''glEntryCount'', json_int (int (length entries)))]))))))"

definition portal_document :: "web \<Rightarrow> string \<Rightarrow> string \<Rightarrow> string \<Rightarrow> (string \<times> string) list \<Rightarrow> reply act" where
  "portal_document w token doctype d headers =
     chain_act (portal_resolve_link w token) (\<lambda>link.
     chain_act (need (pl_kind link = PortalCustomer \<and> doctype \<in> set CUSTOMER_DOCTYPES) ApiNotFound) (\<lambda>_.
     chain_act (ask (\<lambda>s. company_document_of s (pl_company link) doctype d)) (\<lambda>hit.
     chain_act (found hit ApiNotFound) (\<lambda>doc.
     chain_act (need (doc_customer doc = Some (unwrap_or_default (pl_party link))) ApiNotFound) (\<lambda>_.
     if wants_html headers then give (200, Html (document_page (wb_ext w) token doc))
     else give (ok_json
       [(''id'', JStr (cd_document_id doc)), (''doctype'', JStr (cd_doctype doc)),
        (''docstatus'', json_int (cd_docstatus doc)), (''payload'', cd_payload doc),
        (''children'', json_opt (\<lambda>v. v) (cd_children doc))]))))))"

section \<open>Decisions\<close>

datatype quote_verb = AcceptQuote | RejectQuote

record verb_spec =
  vs_set :: string
  vs_conflict :: string
  vs_action :: string
  vs_suffix :: string

fun spec :: "quote_verb \<Rightarrow> verb_spec" where
  "spec AcceptQuote = \<lparr>vs_set = ''accepted_on'', vs_conflict = ''rejected_on'',
     vs_action = ''portal.quote.accept'', vs_suffix = ''accept''\<rparr>"
| "spec RejectQuote = \<lparr>vs_set = ''rejected_on'', vs_conflict = ''accepted_on'',
     vs_action = ''portal.quote.reject'', vs_suffix = ''reject''\<rparr>"

definition decided_fields :: "company_document \<Rightarrow> string \<Rightarrow> string \<Rightarrow> jmap" where
  "decided_fields doc field date =
     obj_insert field (JStr date) (obj_remove ''items'' (case cd_payload doc of JObj m \<Rightarrow> m | _ \<Rightarrow> []))"

definition decision_record :: "web \<Rightarrow> string \<Rightarrow> company_document \<Rightarrow> verb_spec \<Rightarrow> mutation_record" where
  "decision_record w q doc v =
     \<lparr>mr_id = ''portal-'' @ q @ ''-'' @ vs_suffix v, mr_type = UpdateDocument, mr_doc_type = QUOTATION, mr_document_id = q,
      mr_payload = row_envelope (wb_ext w) q QUOTATION (cd_docstatus doc)
        (decided_fields doc (vs_set v) (wb_date w (wb_now w))) (wb_now w),
      mr_device_id = PORTAL_DEVICE_ID, mr_user_id = [], mr_local_timestamp = wb_now w, mr_sync_version = None,
      mr_status = Pushed\<rparr>"

definition record_decision :: "web \<Rightarrow> uuid \<Rightarrow> string \<Rightarrow> string \<Rightarrow> company_document \<Rightarrow> verb_spec \<Rightarrow> string act" where
  "record_decision w c q party doc v =
     chain_act (call (push_mutations (wb_ext w) (wb_now w) c [decision_record w q doc v])) (\<lambda>_.
     chain_act (audited w c None (vs_action v) [(''quotation'', JStr q), (''customer'', JStr party)]) (\<lambda>_.
     give (wb_date w (wb_now w))))"

definition quote_action :: "web \<Rightarrow> string \<Rightarrow> string \<Rightarrow> (string \<times> string) list \<Rightarrow> quote_verb \<Rightarrow> reply act" where
  "quote_action w token q headers verb =
     (let v = spec verb in
     chain_act (portal_resolve_link w token) (\<lambda>link.
     chain_act (need (pl_kind link = PortalCustomer) ApiNotFound) (\<lambda>_.
     chain_act (ask (\<lambda>s. company_document_of s (pl_company link) QUOTATION q)) (\<lambda>hit.
     chain_act (found hit ApiNotFound) (\<lambda>doc.
     chain_act (need (doc_customer doc = Some (unwrap_or_default (pl_party link))) ApiNotFound) (\<lambda>_.
     chain_act (need (payload_str doc (vs_conflict v) = None) (ApiConflict (QuotationDecided q (vs_conflict v)))) (\<lambda>_.
     chain_act (case payload_str doc (vs_set v) of
         Some existing \<Rightarrow> give existing
       | None \<Rightarrow> record_decision w (pl_company link) q (unwrap_or_default (pl_party link)) doc v) (\<lambda>date.
     if wants_html headers
     then give (303, Location (''/portal/'' @ token @ ''/documents/'' @ QUOTATION @ ''/'' @ encode_segment q))
     else give (ok_json [(''quotation'', JStr q), (vs_set v, JStr date)])))))))))"

definition quote_accept :: "web \<Rightarrow> string \<Rightarrow> string \<Rightarrow> (string \<times> string) list \<Rightarrow> reply act" where
  "quote_accept w token q headers = quote_action w token q headers AcceptQuote"

definition quote_reject :: "web \<Rightarrow> string \<Rightarrow> string \<Rightarrow> (string \<times> string) list \<Rightarrow> reply act" where
  "quote_reject w token q headers = quote_action w token q headers RejectQuote"

section \<open>The accountant's reads\<close>

definition CSV_HEADER :: string where
  "CSV_HEADER = ''posting_date,voucher_type,voucher_no,account,debit,credit,party_type,party,is_reversal''"

definition gl_csv_row :: "gl_entry \<Rightarrow> string" where
  "gl_csv_row e = join_with (CHR '','')
     [csv_field (gl_posting_date e), csv_field (gl_voucher_type e), csv_field (gl_voucher_no e), csv_field (gl_account e),
      show_f64 (gl_debit e), show_f64 (gl_credit e), csv_field (unwrap_or_default (gl_party_type e)),
      csv_field (unwrap_or_default (gl_party e)), if gl_is_reversal e then ''true'' else ''false'']"

definition gl_csv :: "gl_entry list \<Rightarrow> string" where
  "gl_csv entries = CSV_HEADER @ CHR 0x0A # concat (map (\<lambda>e. gl_csv_row e @ [CHR 0x0A]) entries)"

definition portal_gl_csv :: "web \<Rightarrow> string \<Rightarrow> reply act" where
  "portal_gl_csv w token =
     chain_act (portal_resolve_link w token) (\<lambda>link.
     chain_act (need (pl_kind link = PortalAccountant) ApiNotFound) (\<lambda>_.
     chain_act (ask (\<lambda>s. gl_entries_ordered s (pl_company link))) (\<lambda>entries.
     give (200, Csv (gl_csv entries)))))"

definition portal_audit :: "web \<Rightarrow> string \<Rightarrow> int option \<Rightarrow> reply act" where
  "portal_audit w token requested =
     (let n = max 1 (min MAX_AUDIT_LIMIT (case requested of Some v \<Rightarrow> v | None \<Rightarrow> DEFAULT_AUDIT_LIMIT)) in
     chain_act (portal_resolve_link w token) (\<lambda>link.
     chain_act (need (pl_kind link = PortalAccountant) ApiNotFound) (\<lambda>_.
     chain_act (ask (\<lambda>s. recent_audit s (pl_company link) n)) (\<lambda>es.
     give (ok_json [(''entries'', JArr (map (audit_to_json w) es))])))))"

end
