(* ===== verification/Pay.thy ===== *)
theory Pay
  imports Portal Api_Posting
begin

text \<open>
  \<^verbatim>\<open>src/src/pay.rs\<close>: links that show one submitted sales invoice to whoever holds the token, their
  management, and the Stripe webhook, which verifies a signed event, finds the invoice by the token the
  event carries, and posts the payment through the engine.
\<close>

definition PAY_DEFAULT_EXPIRES_DAYS :: int where
  "PAY_DEFAULT_EXPIRES_DAYS = 60"

definition PAID_EPSILON :: f64 where
  "PAID_EPSILON = lit (5 / 1000)"

definition LINK_ROLES :: "role list" where
  "LINK_ROLES = [Owner, Admin, Sales, Accountant]"

definition MAX_SIGNATURE_SKEW_SECONDS :: int where
  "MAX_SIGNATURE_SKEW_SECONDS = 300"

section \<open>The invoice a link shows\<close>

record invoice_view =
  iv_invoice_id :: string
  iv_official_number :: "string option"
  iv_posting_date :: "string option"
  iv_customer :: "string option"
  iv_grand_total :: f64
  iv_outstanding :: f64
  iv_items :: "json list"

definition paid :: "invoice_view \<Rightarrow> bool" where
  "paid v \<longleftrightarrow> \<bar>iv_outstanding v\<bar> < PAID_EPSILON"

definition str_member :: "json \<Rightarrow> string \<Rightarrow> string option" where
  "str_member payload k = Option.bind (jget payload k) as_str"

definition view_of_posted :: "posted_document \<Rightarrow> invoice_view" where
  "view_of_posted doc = (let p = pd_payload doc in
     \<lparr>iv_invoice_id = pd_id doc, iv_official_number = pd_official_number doc,
      iv_posting_date = str_member p ''posting_date'', iv_customer = str_member p ''customer'',
      iv_grand_total = as_num (jget p ''grand_total''), iv_outstanding = as_num (jget p ''outstanding_amount''),
      iv_items = (case Option.bind (jget p ''items'') as_array of Some rows \<Rightarrow> rows | None \<Rightarrow> [])\<rparr>)"

definition view_of_row :: "company_document \<Rightarrow> invoice_view" where
  "view_of_row doc = (let p = cd_payload doc in
     \<lparr>iv_invoice_id = cd_document_id doc, iv_official_number = str_member p ''official_number'',
      iv_posting_date = str_member p ''posting_date'', iv_customer = str_member p ''customer'',
      iv_grand_total = as_num (jget p ''grand_total''), iv_outstanding = as_num (jget p ''outstanding_amount''),
      iv_items = doc_items doc\<rparr>)"

definition resolve_invoice :: "inner \<Rightarrow> uuid \<Rightarrow> string \<Rightarrow> invoice_view option" where
  "resolve_invoice s c invoice_id =
     (case posted_document_of s c SALES_INVOICE invoice_id of
        Some doc \<Rightarrow> if pd_docstatus doc \<noteq> 1 then None else Some (view_of_posted doc)
      | None \<Rightarrow>
          (case company_document_of s c SALES_INVOICE invoice_id of
             Some doc \<Rightarrow> if cd_docstatus doc \<noteq> 1 then None else Some (view_of_row doc)
           | None \<Rightarrow> None))"

section \<open>Management\<close>

record create_pay_link_request =
  yq_invoice_id :: string
  yq_expires_days :: "int option"

definition pay_create_link :: "web \<Rightarrow> token_identity \<Rightarrow> uuid \<Rightarrow> create_pay_link_request \<Rightarrow> reply act" where
  "pay_create_link w auth c req =
     (let invoice_id = trim (yq_invoice_id req);
          days = (case yq_expires_days req of Some n \<Rightarrow> n | None \<Rightarrow> PAY_DEFAULT_EXPIRES_DAYS) in
     chain_act (require_membership auth c) (\<lambda>r.
     chain_act (require_role r LINK_ROLES) (\<lambda>_.
     chain_act (need (invoice_id \<noteq> []) (BadRequest InvoiceIdRequired)) (\<lambda>_.
     chain_act (ask (\<lambda>s. resolve_invoice s c invoice_id)) (\<lambda>hit.
     chain_act (need (hit \<noteq> None) ApiNotFound) (\<lambda>_.
     chain_act (need (1 \<le> days) (BadRequest ExpiresDaysTooSmall)) (\<lambda>_.
     chain_act (expiry w days) (\<lambda>expires.
     chain_act (tell (create_pay_link
       \<lparr>yl_id = wb_id w, yl_company = c, yl_invoice_id = invoice_id, yl_token_hash = hash_token (wb_ext w) (wb_token w),
        yl_created_by = ti_user auth, yl_created_at = wb_now w, yl_expires_at = expires, yl_revoked_at = None\<rparr>)) (\<lambda>_.
     chain_act (audited w c (Some auth) ''pay.link.create''
       [(''linkId'', JStr (wb_id w)), (''invoiceId'', JStr invoice_id)]) (\<lambda>_.
     give (created_json
       [(''id'', JStr (wb_id w)), (''token'', JStr (wb_token w)), (''url_path'', JStr (''/pay/'' @ wb_token w)),
        (''expiresAt'', json_instant w expires)])))))))))))"

definition pay_link_to_json :: "web \<Rightarrow> pay_link \<Rightarrow> json" where
  "pay_link_to_json w l = JObj (obj_of
     [(''id'', JStr (yl_id l)), (''invoiceId'', JStr (yl_invoice_id l)), (''createdAt'', json_instant w (yl_created_at l)),
      (''expiresAt'', json_instant w (yl_expires_at l)), (''revoked'', JBool (yl_revoked_at l \<noteq> None)),
      (''revokedAt'', json_opt (json_instant w) (yl_revoked_at l))])"

definition pay_list_links :: "web \<Rightarrow> token_identity \<Rightarrow> uuid \<Rightarrow> reply act" where
  "pay_list_links w auth c =
     chain_act (require_membership auth c) (\<lambda>r.
     chain_act (require_role r LINK_ROLES) (\<lambda>_.
     chain_act (ask (\<lambda>s. pay_links_of s c)) (\<lambda>ls.
     give (ok_json [(''links'', JArr (map (pay_link_to_json w) ls))]))))"

definition pay_revoke_link :: "web \<Rightarrow> token_identity \<Rightarrow> uuid \<Rightarrow> uuid \<Rightarrow> reply act" where
  "pay_revoke_link w auth c i =
     chain_act (require_membership auth c) (\<lambda>r.
     chain_act (require_role r LINK_ROLES) (\<lambda>_.
     chain_act (call (revoke_pay_link (wb_now w) c i)) (\<lambda>hit.
     chain_act (need hit ApiNotFound) (\<lambda>_.
     chain_act (audited w c (Some auth) ''pay.link.revoke'' [(''linkId'', JStr i)]) (\<lambda>_.
     give (ok_json [(''revoked'', JBool True)]))))))"

section \<open>The pay page\<close>

definition pay_resolve_link :: "web \<Rightarrow> string \<Rightarrow> pay_link act" where
  "pay_resolve_link w token =
     chain_act (ask (\<lambda>s. pay_link_by_hash s (hash_token (wb_ext w) token))) (\<lambda>hit.
     chain_act (found hit ApiNotFound) (\<lambda>link.
     chain_act (need (\<not> (yl_revoked_at link \<noteq> None \<or> yl_expires_at link < wb_now w)) ApiNotFound) (\<lambda>_.
     give link)))"

definition card_payment_url :: "string \<Rightarrow> string \<Rightarrow> string" where
  "card_payment_url url token = url @ ''?client_reference_id='' @ token @ ''&prefilled_email=''"

definition payment_block :: "invoice_view \<Rightarrow> string option \<Rightarrow> string option \<Rightarrow> string" where
  "payment_block v card_url instructions =
     (if paid v then ''<p><strong style=\"color:#166534\">Paid &mdash; thank you</strong></p>''
      else
        ''<p>Status: <strong style=\"color:#92400e\">Awaiting payment</strong> '' @
        ''&mdash; outstanding '' @ html_escape (show_f64 (iv_outstanding v)) @ ''</p>'' @
        (case card_url of
           Some url \<Rightarrow>
             ''<p><a href=\"'' @ html_escape url @ ''\" style=\"display:inline-block;padding:.6rem 1.5rem;'' @
             ''border-radius:4px;background:#1d4ed8;color:#fff;text-decoration:none\">Pay by card</a></p>''
         | None \<Rightarrow> (case instructions of
             Some t \<Rightarrow>
               ''<h2>Payment instructions</h2><p style=\"white-space:pre-wrap;background:#f5f5f5;padding:1rem;'' @
               ''border-radius:4px\">'' @ html_escape t @ ''</p>''
           | None \<Rightarrow> [])))"

definition invoice_page :: "ext \<Rightarrow> string \<Rightarrow> invoice_view \<Rightarrow> string option \<Rightarrow> string option \<Rightarrow> string" where
  "invoice_page x company_name v card_url instructions =
     page (company_name @ '' '' @ EM_DASH @ '' invoice '' @ iv_invoice_id v)
       (''<h1>'' @ html_escape company_name @ ''</h1><h2>Invoice '' @ html_escape (iv_invoice_id v) @
        (case iv_official_number v of
           Some n \<Rightarrow> '' <span style=\"color:#555\">('' @ html_escape n @ '')</span>'' | None \<Rightarrow> []) @ ''</h2>'' @
        (case iv_posting_date v of Some date \<Rightarrow> ''<p>Posting date: '' @ html_escape date @ ''</p>'' | None \<Rightarrow> []) @
        items_table x (iv_items v) @
        ''<p><strong>Grand total:</strong> '' @ html_escape (show_f64 (iv_grand_total v)) @ ''</p>'' @
        ''<p><strong>Outstanding:</strong> '' @ html_escape (show_f64 (iv_outstanding v)) @ ''</p>'' @
        payment_block v card_url instructions)"

definition pay_page :: "web \<Rightarrow> string \<Rightarrow> (string \<times> string) list \<Rightarrow> reply act" where
  "pay_page w token headers =
     chain_act (pay_resolve_link w token) (\<lambda>link.
     chain_act (ask (\<lambda>s. company_of s (yl_company link))) (\<lambda>hit.
     chain_act (found hit ApiNotFound) (\<lambda>co.
     chain_act (ask (\<lambda>s. resolve_invoice s (yl_company link) (yl_invoice_id link))) (\<lambda>inv.
     chain_act (found inv ApiNotFound) (\<lambda>v.
     chain_act (ask (\<lambda>s. company_settings_of s (yl_company link))) (\<lambda>st.
     let card_url = map_option (\<lambda>url. card_payment_url url token) (non_blank (cs_stripe_payment_link_url st));
         instructions = non_blank (cs_payment_instructions st) in
     if wants_html headers then give (200, Html (invoice_page (wb_ext w) (co_name co) v card_url instructions))
     else give (ok_json
       [(''company'', JStr (co_name co)), (''invoice_id'', JStr (iv_invoice_id v)),
        (''official_number'', json_opt JStr (iv_official_number v)), (''posting_date'', json_opt JStr (iv_posting_date v)),
        (''customer'', json_opt JStr (iv_customer v)), (''items'', JArr (iv_items v)),
        (''grand_total'', json_f64 (iv_grand_total v)), (''outstanding_amount'', json_f64 (iv_outstanding v)),
        (''paid'', JBool (paid v)), (''card_payment_url'', json_opt JStr card_url),
        (''payment_instructions'', json_opt JStr instructions)])))))))"

section \<open>The signature\<close>

definition CHECKOUT_EVENT_TYPES :: "string list" where
  "CHECKOUT_EVENT_TYPES = [''checkout.session.completed'', ''payment_link.completed'']"

text \<open>\<open>str::split_once\<close>.\<close>

fun split_once :: "char \<Rightarrow> string \<Rightarrow> (string \<times> string) option" where
  "split_once sep [] = None"
| "split_once sep (c # s) =
     (if c = sep then Some ([], s) else map_option (\<lambda>(a, b). (c # a, b)) (split_once sep s))"

type_synonym signature = "int option \<times> string list"

definition signature_part :: "web \<Rightarrow> signature \<Rightarrow> string \<Rightarrow> signature" where
  "signature_part w acc part = (case acc of (timestamp, candidates) \<Rightarrow>
     (case split_once (CHR ''='') (trim part) of
        Some (k, v) \<Rightarrow>
          if k = ''t'' then (parse_i64 (trim v), candidates)
          else if k = ''v1'' then
            (case wb_unhex w (trim v) of
               Some sig \<Rightarrow> (timestamp, candidates @ [sig])
             | None \<Rightarrow> (timestamp, candidates))
          else (timestamp, candidates)
      | None \<Rightarrow> (timestamp, candidates)))"

definition read_signature :: "web \<Rightarrow> string \<Rightarrow> signature" where
  "read_signature w header = foldl (signature_part w) (None, []) (split_on (CHR '','') header)"

text \<open>Subtraction and \<open>abs\<close> of \<open>i64\<close>, wrapping as a release build does.\<close>

definition i64_wrap :: "int \<Rightarrow> int" where
  "i64_wrap n = (n + i64_max + 1) mod (2 * i64_max + 2) - i64_max - 1"

definition signed_payload :: "int \<Rightarrow> string \<Rightarrow> string" where
  "signed_payload t bytes = show_int t @ CHR ''.'' # bytes"

definition verify_stripe_signature :: "web \<Rightarrow> string \<Rightarrow> string \<Rightarrow> string \<Rightarrow> int \<Rightarrow> api_error + unit" where
  "verify_stripe_signature w secret header bytes now = (case read_signature w header of (timestamp, candidates) \<Rightarrow>
     and_then (ok_or timestamp (BadRequest SignatureNoTimestamp)) (\<lambda>t.
     and_then (ensure (\<not> MAX_SIGNATURE_SKEW_SECONDS < i64_wrap \<bar>i64_wrap (now - t)\<bar>) (BadRequest SignatureStale)) (\<lambda>_.
     ensure (wb_hmac w secret (signed_payload t bytes) \<in> set candidates) (BadRequest SignatureInvalid))))"

section \<open>The webhook\<close>

definition unhandled :: "string \<Rightarrow> reply" where
  "unhandled reason = ok_json [(''handled'', JBool False), (''reason'', JStr reason)]"

definition stripe_intake :: "web \<Rightarrow> (string \<times> string) list \<Rightarrow> string \<Rightarrow> unit act" where
  "stripe_intake w headers bytes =
     chain_act (check_webhook_backlog w PaymentHook ''stripe'') (\<lambda>_.
     tell (insert_webhook_event
       \<lparr>wh_id = wb_id w, wh_kind = PaymentHook, wh_provider = ''stripe'', wh_headers = headers_to_json headers,
        wh_body = bytes, wh_received_at = wb_now w\<rparr>))"

text \<open>What a checkout event says: its id, the pay token, the amount in cents, the currency and its date.\<close>

record checkout =
  ck_event_id :: string
  ck_token :: string
  ck_cents :: int
  ck_currency :: string
  ck_date :: "string option"

definition str_index :: "json \<Rightarrow> string \<Rightarrow> string option" where
  "str_index v k = non_blank (as_str (jindex v k))"

definition read_checkout :: "web \<Rightarrow> json \<Rightarrow> string + checkout" where
  "read_checkout w event =
     (let obj = jindex (jindex event ''data'') ''object'' in
     and_then (ensure (unwrap_or_default (as_str (jindex event ''type'')) \<in> set CHECKOUT_EVENT_TYPES) ''ignored event type'') (\<lambda>_.
     and_then (ok_or (str_index event ''id'') ''missing event id'') (\<lambda>event_id.
     and_then (ok_or (str_index obj ''client_reference_id'') ''missing client_reference_id'') (\<lambda>token.
     and_then (ok_or (Option.bind (as_i64 (jindex obj ''amount_total'')) (\<lambda>n. if 0 < n then Some n else None))
       ''missing or non-positive amount_total'') (\<lambda>cents.
     Inr \<lparr>ck_event_id = event_id, ck_token = token, ck_cents = cents,
       ck_currency = unwrap_or_default (as_str (jindex obj ''currency'')),
       ck_date = Option.bind (as_i64 (jindex event ''created'')) (wb_unix_date w)\<rparr>)))))"

definition paid_amount :: "checkout \<Rightarrow> f64" where
  "paid_amount ck = lit (of_int (ck_cents ck)) / lit 100"

definition stripe_key :: "checkout \<Rightarrow> string" where
  "stripe_key ck = ''stripe-'' @ ck_event_id ck"

definition payment_payload_of :: "checkout \<Rightarrow> string \<Rightarrow> json \<Rightarrow> f64 \<Rightarrow> jmap" where
  "payment_payload_of ck invoice_id invoice_payload outstanding =
     obj_insert ''references'' (JArr [JObj (obj_of
         [(''reference_doctype'', JStr SALES_INVOICE), (''reference_name'', JStr invoice_id),
          (''allocated_amount'', json_f64 (fmin (paid_amount ck) outstanding))])])
     (insert_opt ''posting_date'' JStr (ck_date ck)
     (insert_opt ''currency'' JStr (if ck_currency ck = [] then None else Some (ck_currency ck))
     (obj_insert ''paid_amount'' (json_f64 (paid_amount ck))
     (insert_opt ''party'' JStr (str_member invoice_payload ''customer'')
     (obj_insert ''payment_type'' (JStr ''Receive'') [])))))"

definition stripe_command :: "checkout \<Rightarrow> string \<Rightarrow> json \<Rightarrow> f64 \<Rightarrow> submit_command" where
  "stripe_command ck invoice_id invoice_payload outstanding =
     \<lparr>sc_doctype = ''Payment Entry'', sc_document_id = Some (''PAY-STRIPE-'' @ ck_event_id ck),
      sc_payload = payment_payload_of ck invoice_id invoice_payload outstanding, sc_items = [],
      sc_idempotency_key = Some (stripe_key ck), sc_offline_fiscal = False\<rparr>"

text \<open>A refusal that can be attributed to a company is audited and answered with a 200.\<close>

definition reject_event :: "web \<Rightarrow> pay_link \<Rightarrow> checkout \<Rightarrow> string \<Rightarrow> reply act" where
  "reject_event w l ck reason =
     chain_act (audited w (yl_company l) None ''pay.webhook.rejected''
       [(''eventId'', JStr (ck_event_id ck)), (''invoiceId'', JStr (yl_invoice_id l)),
        (''amount'', json_f64 (paid_amount ck)), (''currency'', JStr (ck_currency ck)), (''reason'', JStr reason)]) (\<lambda>_.
     give (unhandled reason))"

definition post_payment ::
  "web \<Rightarrow> (nat \<Rightarrow> inner \<Rightarrow> inner) \<Rightarrow> pay_link \<Rightarrow> checkout \<Rightarrow> json \<Rightarrow> f64 \<Rightarrow> reply act" where
  "post_payment w interfere l ck invoice_payload outstanding =
     chain_act (lifted api_of_posting (submit_document (wb_ext w) (env_of w) interfere (wb_id w) (yl_company l)
       (stripe_command ck (yl_invoice_id l) invoice_payload outstanding) (actor_system PAYMENTS_DEVICE_ID))) (\<lambda>outcome.
     let response = oc_response outcome in
     chain_act (audited (w\<lparr>wb_audit_id := wb_pin_audit_id w\<rparr>) (yl_company l) None ''pay.webhook.payment''
       [(''eventId'', JStr (ck_event_id ck)), (''invoiceId'', JStr (yl_invoice_id l)),
        (''documentId'', jindex response ''document_id''), (''number'', jindex response ''number''),
        (''amount'', json_f64 (paid_amount ck)), (''currency'', JStr (ck_currency ck)),
        (''replayed'', JBool (oc_replayed outcome))]) (\<lambda>_.
     give (ok_json
       [(''handled'', JBool True), (''document_id'', jindex response ''document_id''), (''number'', jindex response ''number''),
        (''replayed'', JBool (oc_replayed outcome))])))"

definition settle_checkout :: "web \<Rightarrow> (nat \<Rightarrow> inner \<Rightarrow> inner) \<Rightarrow> checkout \<Rightarrow> reply act" where
  "settle_checkout w interfere ck =
     chain_act (ask (\<lambda>s. pay_link_by_hash s (hash_token (wb_ext w) (ck_token ck)))) (\<lambda>hit.
     case hit of
       None \<Rightarrow> give (unhandled ''unknown payment link'')
     | Some l \<Rightarrow>
         if yl_revoked_at l \<noteq> None \<or> yl_expires_at l < wb_now w
         then reject_event w l ck ''expired or revoked payment link''
         else
           chain_act (ask (\<lambda>s. posted_document_of s (yl_company l) SALES_INVOICE (yl_invoice_id l))) (\<lambda>inv.
           case Option.bind inv (\<lambda>d. if pd_docstatus d = 1 then Some d else None) of
             None \<Rightarrow> reject_event w l ck ''invoice is not an officially posted Sales Invoice''
           | Some invoice \<Rightarrow>
               let outstanding = as_num (jget (pd_payload invoice) ''outstanding_amount'') in
               chain_act (ask (\<lambda>s. idempotent_response s (yl_company l) (stripe_key ck))) (\<lambda>seen.
               if seen = None \<and> outstanding < PAID_EPSILON
               then reject_event w l ck ''invoice has no outstanding amount''
               else post_payment w interfere l ck (pd_payload invoice) outstanding)))"

definition stripe_webhook :: "web \<Rightarrow> (nat \<Rightarrow> inner \<Rightarrow> inner) \<Rightarrow> (string \<times> string) list \<Rightarrow> string \<Rightarrow> reply act" where
  "stripe_webhook w interfere headers bytes =
     chain_act (stripe_intake w headers bytes) (\<lambda>_.
     chain_act (found (cf_stripe_webhook_secret (wb_config w)) (Unavailable SecretNotConfigured)) (\<lambda>secret.
     chain_act (found (header_str headers ''stripe-signature'') (BadRequest SignatureMissing)) (\<lambda>sig.
     chain_act (lifted id (\<lambda>s. (verify_stripe_signature w secret sig bytes (wb_now w div 1000), s))) (\<lambda>_.
     chain_act (found (ext_from_str (wb_ext w) bytes) (BadRequest WebhookNotJson)) (\<lambda>event.
     case read_checkout w event of
       Inl reason \<Rightarrow> give (unhandled reason)
     | Inr ck \<Rightarrow> settle_checkout w interfere ck)))))"

end
