(* ===== verification/Markup.thy ===== *)
theory Markup
  imports Pay
begin

text \<open>
  The pages of the portal and of the pay plane are well-formed markup over a fixed set of elements and
  attributes, whatever the documents, names and tokens they show: data only ever appears as character
  data or inside a quoted attribute value.
\<close>

section \<open>Well-formed markup\<close>

definition TAGS :: "string list" where
  "TAGS = [''html'', ''head'', ''title'', ''body'', ''h1'', ''h2'', ''p'', ''a'', ''ul'', ''li'', ''table'', ''tr'', ''th'', ''td'',
     ''strong'', ''span'', ''div'', ''form'', ''button'']"

definition ATTRIBUTES :: "string list" where
  "ATTRIBUTES = [''lang'', ''charset'', ''name'', ''content'', ''style'', ''href'', ''method'', ''action'']"

definition plain :: "string \<Rightarrow> bool" where
  "plain s \<longleftrightarrow> list_all (\<lambda>c. c \<noteq> CHR ''<'' \<and> c \<noteq> CHR ''>'' \<and> c \<noteq> CHR 0x22) s"

definition attr_text :: "(string \<times> string) list \<Rightarrow> string" where
  "attr_text as = concat (map (\<lambda>(n, v). CHR '' '' # n @ ''=\"'' @ v @ ''\"'') as)"

definition attrs_ok :: "(string \<times> string) list \<Rightarrow> bool" where
  "attrs_ok as \<longleftrightarrow> list_all (\<lambda>(n, v). n \<in> set ATTRIBUTES \<and> plain v) as"

definition element :: "string \<Rightarrow> (string \<times> string) list \<Rightarrow> string \<Rightarrow> string" where
  "element t as b = CHR ''<'' # t @ attr_text as @ CHR ''>'' # b @ CHR ''<'' # CHR ''/'' # t @ ''>''"

inductive markup :: "string \<Rightarrow> bool" where
  chars: "plain s \<Longrightarrow> markup s"
| both: "markup a \<Longrightarrow> markup b \<Longrightarrow> markup (a @ b)"
| element: "t \<in> set TAGS \<Longrightarrow> attrs_ok as \<Longrightarrow> markup b \<Longrightarrow> markup (element t as b)"
| meta: "attrs_ok as \<Longrightarrow> markup (''<meta'' @ attr_text as @ ''>'')"
| doctype: "markup ''<!doctype html>''"

named_theorems markup_intros \<open>text that is well-formed markup\<close>

lemma plain_simps [simp]:
  "plain []" "plain (c # s) \<longleftrightarrow> c \<noteq> CHR ''<'' \<and> c \<noteq> CHR ''>'' \<and> c \<noteq> CHR 0x22 \<and> plain s" "plain (a @ b) \<longleftrightarrow> plain a \<and> plain b"
  by (auto simp: plain_def)

lemma plain_concat: "(\<And>c. c \<in> set s \<Longrightarrow> plain (f c)) \<Longrightarrow> plain (concat (map f s))"
  by (induction s) auto

lemma html_escape_plain [simp]: "plain (html_escape s)"
  unfolding html_escape_def by (rule plain_concat) simp

lemma hex_upper_plain: "n < 16 \<Longrightarrow> plain [hex_upper n]"
proof -
  assume n: "n < 16"
  have "(of_char (hex_upper n) :: nat) = (if n < 10 then 48 + n else 55 + n)"
    using n by (simp add: hex_upper_def digit_char_def)
  then have "(of_char (hex_upper n) :: nat) \<noteq> of_char CHR ''<''" "(of_char (hex_upper n) :: nat) \<noteq> of_char CHR ''>''"
    "(of_char (hex_upper n) :: nat) \<noteq> of_char CHR 0x22" using n by (simp_all split: if_splits)
  then show ?thesis by (auto simp: plain_def)
qed

lemma encode_segment_plain [simp]: "plain (encode_segment s)"
proof -
  have "plain [b]" if "segment_safe b" for b
    using that by (auto simp: segment_safe_def is_ascii_alphanumeric_def Let_def)
  moreover have "(of_char b :: nat) div 16 < 16" for b :: char
    using nat_of_char_less_256 [of b] by (simp add: less_mult_imp_div_less)
  ultimately show ?thesis
    unfolding encode_segment_def
    by (intro plain_concat) (use hex_upper_plain [of "of_char _ div 16"] hex_upper_plain [of "of_char _ mod 16"] in auto)
qed

lemma markup_chars [markup_intros]: "markup []" "plain [c] \<Longrightarrow> markup s \<Longrightarrow> markup (c # s)" "markup (html_escape t)"
  using markup.both [OF markup.chars [of "[c]"], of s] by (auto intro: markup.chars)

lemma markup_concat [markup_intros]: "(\<And>a. a \<in> set as \<Longrightarrow> markup (f a)) \<Longrightarrow> markup (concat (map f as))"
  by (induction as) (auto intro: markup.intros)

lemmas [markup_intros] = markup.both markup.element

lemma tags [simp]: "t \<in> set TAGS \<longleftrightarrow> t \<in> {''html'', ''head'', ''title'', ''body'', ''h1'', ''h2'', ''p'', ''a'', ''ul'', ''li'', ''table'',
    ''tr'', ''th'', ''td'', ''strong'', ''span'', ''div'', ''form'', ''button''}"
  by (simp add: TAGS_def)

lemma attrs_ok_simps [simp]:
  "attrs_ok []" "attrs_ok ((n, v) # as) \<longleftrightarrow> n \<in> set ATTRIBUTES \<and> plain v \<and> attrs_ok as"
  by (simp_all add: attrs_ok_def)

lemmas element_text = element_def attr_text_def

lemma page_eq:
  "page t b = ''<!doctype html>'' @ element ''html'' [(''lang'', ''en'')]
     (element ''head'' [] (''<meta'' @ attr_text [(''charset'', ''utf-8'')] @ ''>'' @
        (''<meta'' @ attr_text [(''name'', ''viewport''), (''content'', ''width=device-width, initial-scale=1'')] @ ''>'') @
        element ''title'' [] (html_escape t)) @
      element ''body'' [(''style'', ''font-family:system-ui,sans-serif;max-width:720px;margin:2rem auto;padding:0 1rem;color:#1a1a1a;line-height:1.5'')] b)"
  by (simp add: page_def element_text)

lemma page_markup:
  assumes "markup b"
  shows "markup (page t b)"
proof -
  have meta: "attrs_ok as \<Longrightarrow> markup c \<Longrightarrow> markup (''<meta'' @ attr_text as @ ''>'' @ c)" for as c
    using markup.both [OF markup.meta [of as], of c] by simp
  show ?thesis
    unfolding page_eq
    by (intro markup.both [OF markup.doctype] markup_intros meta markup.meta assms) (simp_all add: ATTRIBUTES_def)
qed

section \<open>The pages\<close>

lemma items_table_markup [markup_intros]: "markup (items_table x rows)"
proof -
  have cell: "markup (header_cell c)" for c
  proof -
    have "header_cell c = element ''th'' [(''style'', CELL @ '';background:#f5f5f5'')] (html_escape c)"
      by (simp add: header_cell_def element_text)
    then show ?thesis by (auto intro!: markup_intros simp: ATTRIBUTES_def CELL_def)
  qed
  have row: "markup (item_row x cs r)" for cs r
  proof -
    have "item_row x cs r = element ''tr'' [] (concat (map (\<lambda>c. element ''td'' [(''style'', CELL)]
        (html_escape (unwrap_or_default (Option.bind (jget r c) (display_value x))))) cs))"
      by (simp add: item_row_def element_text)
    then show ?thesis by (auto intro!: markup_intros simp: ATTRIBUTES_def CELL_def)
  qed
  let ?columns = "foldl (add_columns x) [] rows"
  have "items_table x rows = (if rows = [] then [] else element ''h2'' [] ''Line items'' @
      element ''table'' [(''style'', ''border-collapse:collapse;width:100%'')]
        (element ''tr'' [] (concat (map header_cell ?columns)) @ concat (map (item_row x ?columns) rows)))"
    by (simp add: items_table_def element_text Let_def)
  then show ?thesis by (auto intro!: markup_intros cell row simp: ATTRIBUTES_def)
qed

lemma doc_list_items_markup [markup_intros]: "markup (doc_list_items x token docs field)"
proof -
  have amount: "markup (doc_amount x field d)" for d
    by (auto intro!: markup_intros simp: doc_amount_def split: option.split)
  have item: "markup (doc_list_item x token field d)" for d
  proof -
    have "doc_list_item x token field d = element ''li'' []
        (element ''a'' [(''href'', doc_href token (cd_doctype d) (cd_document_id d))] (html_escape (cd_document_id d)) @ doc_amount x field d)"
      by (simp add: doc_list_item_def element_text)
    then show ?thesis by (auto intro!: markup_intros amount simp: ATTRIBUTES_def doc_href_def)
  qed
  have "doc_list_items x token docs field = (if docs = [] then element ''p'' [(''style'', ''color:#666'')] ''None.''
      else element ''ul'' [] (concat (map (doc_list_item x token field) docs)))"
    by (simp add: doc_list_items_def element_text)
  then show ?thesis by (auto intro!: markup_intros item simp: ATTRIBUTES_def)
qed

lemma customer_summary_markup: "markup (customer_summary_page x token name party quotations invoices)"
proof -
  have "customer_summary_page x token name party quotations invoices = page (name @ '' '' @ EM_DASH @ '' customer portal'')
      (element ''h1'' [] (html_escape name) @ element ''p'' [] (''Customer: '' @ element ''strong'' [] (html_escape party)) @
       element ''h2'' [] ''Open quotations'' @ doc_list_items x token quotations ''grand_total'' @
       element ''h2'' [] ''Unpaid invoices'' @ doc_list_items x token invoices ''outstanding_amount'')"
    by (simp add: customer_summary_page_def element_text)
  then show ?thesis by (auto intro!: markup_intros page_markup)
qed

lemma status_line_markup [markup_intros]: "markup (status_line d)"
proof -
  have "status_line d = element ''p'' [] (case Option.bind (jget (cd_payload d) ''accepted_on'') as_str of
       Some date \<Rightarrow> element ''strong'' [(''style'', ''color:#166534'')] (''Accepted on '' @ html_escape date)
     | None \<Rightarrow> (case Option.bind (jget (cd_payload d) ''rejected_on'') as_str of
         Some date \<Rightarrow> element ''strong'' [(''style'', ''color:#991b1b'')] (''Rejected on '' @ html_escape date)
       | None \<Rightarrow> ''Status: '' @
           (if cd_docstatus d = 1 then ''Submitted'' else if cd_docstatus d = 2 then ''Cancelled'' else ''Open'')))"
    by (simp add: status_line_def element_text split: option.split)
  then show ?thesis by (auto intro!: markup_intros simp: ATTRIBUTES_def split: option.split)
qed

lemma header_table_markup [markup_intros]: "markup (header_table x d)"
proof -
  have row: "markup (header_row x kv)" for kv
  proof -
    have "header_row x (k, v) = (if k = ''items'' then [] else case display_value x v of
         Some t \<Rightarrow> element ''tr'' [] (element ''td'' [(''style'', ''padding:.25rem .75rem .25rem 0;color:#555'')] (html_escape k) @
           element ''td'' [(''style'', ''padding:.25rem 0'')] (html_escape t))
       | None \<Rightarrow> [])" for k v
      by (simp add: header_row_def element_text split: option.split)
    then show ?thesis by (cases kv) (auto intro!: markup_intros simp: ATTRIBUTES_def split: option.split)
  qed
  have "header_table x d = (case cd_payload d of
       JObj m \<Rightarrow> element ''table'' [(''style'', ''border-collapse:collapse'')] (concat (map (header_row x) m)) | _ \<Rightarrow> [])"
    by (simp add: header_table_def element_text split: json.split)
  then show ?thesis by (auto intro!: markup_intros row simp: ATTRIBUTES_def split: json.split)
qed

lemma totals_block_markup [markup_intros]: "markup (totals_block x d)"
proof -
  have "totals_block x d = concat (map (\<lambda>field. case Option.bind (jget (cd_payload d) field) (display_value x) of
       Some t \<Rightarrow> element ''p'' [] (element ''strong'' [] (html_escape field @ '':'') @ '' '' @ html_escape t)
     | None \<Rightarrow> []) [''grand_total'', ''outstanding_amount''])"
    by (simp add: totals_block_def element_text split: option.split)
  then show ?thesis by (auto intro!: markup_intros split: option.split)
qed

lemma decision_forms_markup [markup_intros]: "markup (decision_forms token d)"
proof (cases "decision_forms token d = []")
  case False
  let ?base = "''/portal/'' @ encode_segment token @ ''/quotations/'' @ encode_segment (cd_document_id d)"
  have "decision_forms token d = element ''div'' [(''style'', ''margin-top:1.5rem'')]
     (element ''form'' [(''method'', ''post''), (''action'', ?base @ ''/accept''), (''style'', ''display:inline'')]
        (element ''button'' [(''style'', BUTTON @ '';background:#166534'')] ''Accept quotation'') @ '' '' @
      element ''form'' [(''method'', ''post''), (''action'', ?base @ ''/reject''), (''style'', ''display:inline'')]
        (element ''button'' [(''style'', BUTTON @ '';background:#991b1b'')] ''Reject quotation''))"
    using False by (simp add: decision_forms_def element_text split: if_splits)
  then show ?thesis by (auto intro!: markup_intros simp: ATTRIBUTES_def BUTTON_def)
qed (simp add: markup_chars)

lemma document_page_markup: "markup (document_page x token d)"
proof -
  have "document_page x token d = page (cd_doctype d @ '' '' @ cd_document_id d)
      (element ''p'' [] (element ''a'' [(''href'', ''/portal/'' @ encode_segment token)] ''&larr; Back to summary'') @
       element ''h1'' [] (html_escape (cd_doctype d) @ '' '' @ html_escape (cd_document_id d)) @
       status_line d @ header_table x d @ items_table x (doc_items d) @ totals_block x d @ decision_forms token d)"
    by (simp add: document_page_def element_text)
  then show ?thesis by (auto intro!: markup_intros page_markup simp: ATTRIBUTES_def)
qed

lemma payment_block_markup [markup_intros]: "markup (payment_block v url instructions)"
proof -
  have "payment_block v url instructions =
     (if paid v then element ''p'' [] (element ''strong'' [(''style'', ''color:#166534'')] ''Paid &mdash; thank you'')
      else element ''p'' [] (''Status: '' @ element ''strong'' [(''style'', ''color:#92400e'')] ''Awaiting payment'' @
          '' &mdash; outstanding '' @ html_escape (show_f64 (iv_outstanding v))) @
        (case url of
           Some u \<Rightarrow> element ''p'' [] (element ''a'' [(''href'', html_escape u), (''style'',
             ''display:inline-block;padding:.6rem 1.5rem;border-radius:4px;background:#1d4ed8;color:#fff;text-decoration:none'')] ''Pay by card'')
         | None \<Rightarrow> (case instructions of
             Some t \<Rightarrow> element ''h2'' [] ''Payment instructions'' @ element ''p'' [(''style'',
               ''white-space:pre-wrap;background:#f5f5f5;padding:1rem;border-radius:4px'')] (html_escape t)
           | None \<Rightarrow> [])))"
    by (simp add: payment_block_def element_text split: option.split)
  then show ?thesis by (auto intro!: markup_intros simp: ATTRIBUTES_def split: option.split)
qed

lemma invoice_page_markup: "markup (invoice_page x name v url instructions)"
proof -
  have "invoice_page x name v url instructions = page (name @ '' '' @ EM_DASH @ '' invoice '' @ iv_invoice_id v)
      (element ''h1'' [] (html_escape name) @
       element ''h2'' [] (''Invoice '' @ html_escape (iv_invoice_id v) @ (case iv_official_number v of
          Some n \<Rightarrow> '' '' @ element ''span'' [(''style'', ''color:#555'')] (''('' @ html_escape n @ '')'') | None \<Rightarrow> [])) @
       (case iv_posting_date v of Some date \<Rightarrow> element ''p'' [] (''Posting date: '' @ html_escape date) | None \<Rightarrow> []) @
       items_table x (iv_items v) @
       element ''p'' [] (element ''strong'' [] ''Grand total:'' @ '' '' @ html_escape (show_f64 (iv_grand_total v))) @
       element ''p'' [] (element ''strong'' [] ''Outstanding:'' @ '' '' @ html_escape (show_f64 (iv_outstanding v))) @
       payment_block v url instructions)"
    by (simp add: invoice_page_def element_text split: option.split)
  then show ?thesis by (auto intro!: markup_intros page_markup simp: ATTRIBUTES_def split: option.split)
qed

end
