(* ===== verification/Rendering_Facts.thy ===== *)
theory Rendering_Facts
  imports Rendering
begin

text \<open>
  Rendered text reads back: a printed \<open>f64\<close> parses to itself, and a reader of RFC 4180 recovers the
  cells of a CSV text built with \<open>csv_field\<close>.
\<close>

section \<open>The shortest decimal reads back\<close>

lemma pow10_powi: "pow10 e = 10 powi e"
  by (simp add: pow10_def power_int_def field_simps)

lemma pow10_pos [simp]: "0 < pow10 e"
  by (simp add: pow10_def)

lemma pow10_add: "pow10 (a + b) = pow10 a * pow10 b"
  by (simp add: pow10_powi power_int_add)

lemma decimal_at_reads:
  assumes "decimal_at x j = Some m" "0 \<le> x"
  shows "rnd (of_nat m * pow10 j) = Fin x"
proof -
  have q: "0 \<le> x / pow10 j" using assms(2) pow10_pos [of j] by (simp add: less_imp_le)
  then have "0 \<le> \<lfloor>x / pow10 j\<rfloor>" "0 \<le> \<lceil>x / pow10 j\<rceil>" by simp_all
  then show ?thesis using assms(1) by (auto simp: decimal_at_def reads_as_def Let_def split: if_splits)
qed

lemma pow2_pow10: "\<exists>k. pow2 (- int n) = of_int k * pow10 (- int n)"
proof (cases "n = 0")
  case False
  then have "pow2 (- int n) = of_int (5 ^ n) * pow10 (- int n)"
    by (simp add: pow2_def pow10_def field_simps power_mult_distrib [symmetric])
  then show ?thesis by blast
qed (auto simp: pow2_def pow10_def intro: exI [of _ 1])

lemma representable_decimal:
  assumes "representable x"
  obtains k :: int where "x = of_int k * pow10 (- 1074)"
proof -
  obtain m e where x: "x = of_int m * pow2 e" "- 1074 \<le> e"
  proof (cases "x = 0")
    case True
    then show ?thesis using that [of 0 0] by simp
  next
    case False
    then have "x = of_int (half_even (x / pow2 (ulp_expo x))) * pow2 (ulp_expo x)"
      using assms by (simp add: representable_def round_value_def)
    then show ?thesis by (rule that) (simp add: ulp_expo_def)
  qed
  have "pow2 e = of_int (2 ^ nat (e + 1074)) * pow2 (- 1074)"
    using x(2) pow2_add [of "e + 1074" "- 1074"] by (simp add: pow2_int)
  moreover obtain k where "pow2 (- 1074) = of_int k * pow10 (- 1074)" using pow2_pow10 [of 1074] by auto
  ultimately have "x = of_int (m * 2 ^ nat (e + 1074) * k) * pow10 (- 1074)" by (simp add: x(1) mult.assoc)
  then show ?thesis by (rule that)
qed

lemma shortest_reads:
  assumes "representable x" "0 \<le> x" "shortest_from x n = (m, j)"
  shows "rnd (of_nat m * pow10 j) = Fin x"
  using assms(3)
proof (induction n)
  case 0
  obtain k where k: "x = of_int k * pow10 (- 1074)" by (rule representable_decimal [OF assms(1)])
  then have "x / pow10 (- 1074) = of_int k" using pow10_pos [of "- 1074"] by (simp add: less_imp_neq [symmetric])
  then have "decimal_at x (- 1074) = Some (nat k)"
    using k rnd_representable [OF assms(1)] by (simp add: decimal_at_def reads_as_def Let_def)
  then show ?case using 0 decimal_at_reads [of x "- 1074" "nat k"] assms(2) by simp
next
  case (Suc n)
  then show ?case
    using decimal_at_reads [of x "int (Suc n) - 1074"] assms(2)
    by (subst (asm) shortest_from.simps) (auto simp: Let_def simp del: shortest_from.simps split: option.splits)
qed

section \<open>Reading a printed number\<close>

lemma digit_hd: "list_all is_digit s \<Longrightarrow> s \<noteq> [] \<Longrightarrow> is_digit (hd s)"
  by (cases s) auto

lemma not_digit_sign [simp]: "\<not> is_digit CHR ''-''" "\<not> is_digit CHR ''+''" "\<not> is_digit CHR ''.''" "is_digit CHR ''0''"
  by (simp_all add: is_digit_def)

lemma parse_sign_digit: "s \<noteq> [] \<Longrightarrow> is_digit (hd s) \<Longrightarrow> parse_sign s = (False, s)"
  by (cases s) (auto simp: parse_sign_def)

lemma digit_not_word:
  assumes "is_digit (hd s)" "w \<in> {''inf'', ''infinity'', ''nan''}"
  shows "\<not> eq_ignore_ascii_case s w"
proof -
  have "to_ascii_lower c = c" if "is_digit c" for c using that by (simp add: to_ascii_lower_def is_digit_def Let_def)
  moreover have "\<not> is_digit CHR ''i''" "\<not> is_digit CHR ''n''" by (simp_all add: is_digit_def)
  moreover have "to_ascii_lower CHR ''i'' = CHR ''i''" "to_ascii_lower CHR ''n'' = CHR ''n''"
    by (simp_all add: to_ascii_lower_def)
  ultimately show ?thesis using assms by (cases s) (auto simp: eq_ignore_ascii_case_def)
qed

lemma read_nat_append: "list_all is_digit t \<Longrightarrow> read_nat (s @ t) = read_nat s * 10 ^ length t + read_nat t"
proof (induction t rule: rev_induct)
  case Nil
  then show ?case by (simp add: read_nat_def)
next
  case (snoc c t)
  then show ?case by (simp add: read_nat_snoc append_assoc [symmetric] algebra_simps del: append_assoc)
qed

lemma read_nat_all_zeros: "read_nat (replicate k CHR ''0'') = 0"
  by (induction k) (simp_all add: read_nat_def digit_value_def)

lemma length_show_nat: "n < 10 ^ Suc k \<Longrightarrow> length (show_nat n) \<le> Suc k"
proof (induction k arbitrary: n)
  case 0
  then show ?case by (simp add: show_nat.simps)
next
  case (Suc k)
  show ?case
  proof (cases "n < 10")
    case False
    have "n div 10 < 10 ^ Suc k" using Suc.prems by simp
    then show ?thesis using Suc.IH False by (subst show_nat.simps) simp
  qed (simp add: show_nat.simps)
qed

lemma pad_zeros_facts:
  assumes "b < 10 ^ k" "0 < k"
  shows "length (pad_zeros k (show_nat b)) = k" "read_nat (pad_zeros k (show_nat b)) = b"
    "list_all is_digit (pad_zeros k (show_nat b))"
proof -
  have "length (show_nat b) \<le> k" using assms length_show_nat [of b "k - 1"] by simp
  then show "length (pad_zeros k (show_nat b)) = k" by (simp add: pad_zeros_def)
  show "read_nat (pad_zeros k (show_nat b)) = b"
    using show_nat_digits [of b] by (simp add: pad_zeros_def read_nat_append read_nat_all_zeros)
  show "list_all is_digit (pad_zeros k (show_nat b))"
    using show_nat_digits [of b] by (auto simp: pad_zeros_def list_all_iff)
qed

lemma span_digits_all: "list_all is_digit s \<Longrightarrow> span_digits s = (s, [])"
  by (induction s) (simp_all add: span_digits_def)

lemma span_digits_dot: "list_all is_digit s \<Longrightarrow> span_digits (s @ CHR ''.'' # t) = (s, CHR ''.'' # t)"
  by (induction s) (simp_all add: span_digits_def)

lemma parse_show_decimal: "parse_decimal (show_decimal m j) = Some (of_nat m * pow10 j)"
proof (cases "0 \<le> j")
  case True
  then show ?thesis
    using span_digits_all [OF show_nat_digits] by (simp add: show_decimal_def parse_decimal_def parse_exponent_def pow10_def)
next
  case False
  define k where "k = nat (- j)"
  have k: "0 < k" "j = - int k" using False by (simp_all add: k_def)
  let ?a = "show_nat (m div 10 ^ k)" and ?b = "pad_zeros k (show_nat (m mod 10 ^ k))"
  have b: "length ?b = k" "read_nat ?b = m mod 10 ^ k" "list_all is_digit ?b"
    by (rule pad_zeros_facts; simp add: k(1))+
  have "read_nat (?a @ ?b) = m" using b by (simp add: read_nat_append div_mult_mod_eq)
  then show ?thesis
    using span_digits_dot [OF show_nat_digits, of "m div 10 ^ k" ?b] span_digits_all [OF b(3)] b(1) False
    by (simp add: show_decimal_def parse_decimal_def parse_exponent_def k_def [symmetric] k(2))
qed

lemma show_decimal_digit: "show_decimal m j \<noteq> [] \<and> is_digit (hd (show_decimal m j))"
  using digit_hd [OF show_nat_digits show_nat_nonempty] by (simp add: show_decimal_def hd_append)

lemma parse_show_f64: "wf64 v \<Longrightarrow> parse_f64 (show_f64 v) = Some v"
proof (cases v)
  case (Fin x)
  assume "wf64 v"
  then have r: "representable \<bar>x\<bar>" using Fin by (cases "0 \<le> x") (auto simp: representable_def round_value_minus)
  show ?thesis
  proof (cases "x = 0")
    case True
    then show ?thesis
      using digit_not_word [of "''0''"]
      by (simp add: Fin parse_f64_def parse_sign_def parse_decimal_def span_digits_def parse_exponent_def read_nat_def digit_value_def
          rnd_def round_value_def Let_def)
  next
    case False
    obtain m j where mj: "shortest_from \<bar>x\<bar> 1383 = (m, j)" by (cases "shortest_from \<bar>x\<bar> 1383")
    let ?d = "show_decimal m j"
    have rd: "rnd (of_nat m * pow10 j) = Fin \<bar>x\<bar>" by (rule shortest_reads [OF r _ mj]) simp
    have w: "\<not> eq_ignore_ascii_case ?d ''inf''" "\<not> eq_ignore_ascii_case ?d ''infinity''" "\<not> eq_ignore_ascii_case ?d ''nan''"
      using digit_not_word show_decimal_digit by blast+
    have "parse_sign (''-'' @ ?d) = (True, ?d)" "parse_sign ?d = (False, ?d)"
      using parse_sign_digit show_decimal_digit by (simp_all add: parse_sign_def)
    then show ?thesis
      using False mj rd w by (simp add: Fin parse_f64_def parse_show_decimal del: shortest_from.simps)
  qed
qed (use char_of_char [of "CHR ''n''", where 'a = nat] in
    \<open>simp_all add: parse_f64_def parse_sign_def eq_ignore_ascii_case_def to_ascii_lower_def Let_def\<close>)

section \<open>A reader of CSV\<close>

text \<open>A quoted cell ends at a quote that is not doubled; a plain one at a separator.\<close>

abbreviation quote_mark :: char where
  "quote_mark \<equiv> CHR 0x22"

fun unquote :: "string \<Rightarrow> string \<times> string" where
  "unquote [] = ([], [])"
| "unquote [c] = (if c = quote_mark then ([], []) else ([c], []))"
| "unquote (c # d # s) =
     (if c = quote_mark then
        if d = quote_mark then (case unquote s of (f, t) \<Rightarrow> (quote_mark # f, t)) else ([], d # s)
      else (case unquote (d # s) of (f, t) \<Rightarrow> (c # f, t)))"

definition read_cell :: "string \<Rightarrow> string \<times> string" where
  "read_cell s = (case s of
       [] \<Rightarrow> ([], [])
     | c # r \<Rightarrow> if c = quote_mark then unquote r
                else (takeWhile (\<lambda>c. \<not> csv_special c) s, dropWhile (\<lambda>c. \<not> csv_special c) s))"

lemma unquote_length: "length (snd (unquote s)) \<le> length s"
  by (induction s rule: unquote.induct) (auto split: prod.splits)

lemma read_cell_length: "length (snd (read_cell s)) \<le> length s"
  using unquote_length [of "tl s"] length_dropWhile_le [of "\<lambda>c. \<not> csv_special c" s]
  by (auto simp: read_cell_def split: list.split)

function csv_cells :: "string \<Rightarrow> string list \<times> string" where
  "csv_cells s = (case read_cell s of
       (f, []) \<Rightarrow> ([f], [])
     | (f, d # r) \<Rightarrow> if d = CHR '','' then (case csv_cells r of (fs, t) \<Rightarrow> (f # fs, t)) else ([f], r))"
  by pat_completeness auto
termination
proof (relation "measure length")
  fix s f y d r
  assume "(f, y) = read_cell s" "y = d # r" "d = CHR '',''"
  then have "snd (read_cell s) = d # r" by (metis snd_conv)
  then show "(r, s) \<in> measure length" using read_cell_length [of s] by simp
qed simp

declare csv_cells.simps [simp del]

lemma csv_cells_shorter: "length (snd (csv_cells s)) \<le> length s - 1"
proof (induction s rule: csv_cells.induct)
  case (1 s)
  show ?case
  proof (cases "read_cell s")
    case (Pair f t)
    then show ?thesis
      using 1 [OF Pair [symmetric]] read_cell_length [of s]
      by (cases t) (fastforce simp: csv_cells.simps [of s] split: prod.split)+
  qed
qed

function csv_rows :: "string \<Rightarrow> string list list" where
  "csv_rows s = (if s = [] then [] else (case csv_cells s of (cells, t) \<Rightarrow> cells # csv_rows t))"
  by pat_completeness auto
termination
proof (relation "measure length")
  fix s cells t
  assume "s \<noteq> []" "(cells, t) = csv_cells s"
  then have "snd (csv_cells s) = t" by (metis snd_conv)
  then show "(t, s) \<in> measure length" using csv_cells_shorter [of s] \<open>s \<noteq> []\<close> by (cases s) auto
qed simp

declare csv_rows.simps [simp del]

lemma unquote_doubled:
  assumes "d \<noteq> quote_mark"
  shows "unquote (concat (map (\<lambda>c. if c = quote_mark then [c, c] else [c]) v) @ quote_mark # d # r) = (v, d # r)"
proof (induction v)
  case (Cons c v)
  let ?e = "concat (map (\<lambda>c. if c = quote_mark then [c, c] else [c]) v)"
  obtain a t where at: "?e @ quote_mark # d # r = a # t" by (cases "?e @ quote_mark # d # r") auto
  show ?case
  proof (cases "c = quote_mark")
    case False
    then have "unquote (c # ?e @ quote_mark # d # r) = (case unquote (?e @ quote_mark # d # r) of (f, t) \<Rightarrow> (c # f, t))"
      unfolding at by simp
    then show ?thesis using False Cons.IH by simp
  qed (use Cons.IH in simp)
qed (use assms in simp)

lemma read_csv_field:
  assumes "d = CHR '','' \<or> d = CHR 0x0A"
  shows "read_cell (csv_field v @ d # r) = (v, d # r)"
proof (cases "list_ex csv_special v")
  case True
  then show ?thesis using unquote_doubled [of d v r] assms by (auto simp: read_cell_def csv_field_def)
next
  case False
  then have plain: "\<forall>c \<in> set v. \<not> csv_special c" by (simp add: list_ex_iff)
  have d: "csv_special d" "d \<noteq> quote_mark" using assms by (auto simp: csv_special_def)
  have hd: "c \<noteq> quote_mark" if "c \<in> set v" for c using plain that by (auto simp: csv_special_def)
  have "takeWhile (\<lambda>c. \<not> csv_special c) (v @ d # r) = v" "dropWhile (\<lambda>c. \<not> csv_special c) (v @ d # r) = d # r"
    using plain d by (simp_all add: takeWhile_append2 dropWhile_append2)
  then show ?thesis using False d hd by (cases v) (auto simp: read_cell_def csv_field_def)
qed

lemma csv_cells_row: "cells \<noteq> [] \<Longrightarrow> csv_cells (join_with (CHR '','') (map csv_field cells) @ CHR 0x0A # r) = (cells, r)"
proof (induction cells rule: induct_list012)
  case (2 v)
  then show ?case by (simp add: csv_cells.simps [of "csv_field v @ _"] read_csv_field)
next
  case (3 v u vs)
  then show ?case
    using csv_cells.simps [of "csv_field v @ CHR '','' # join_with (CHR '','') (map csv_field (u # vs)) @ CHR 0x0A # r"]
    by (simp add: read_csv_field)
qed simp

lemma csv_rows_text:
  "\<forall>cells \<in> set rows. cells \<noteq> [] \<Longrightarrow>
   csv_rows (concat (map (\<lambda>cells. join_with (CHR '','') (map csv_field cells) @ [CHR 0x0A]) rows)) = rows"
proof (induction rows)
  case (Cons cells rows)
  then show ?case
    using csv_rows.simps [of "join_with (CHR '','') (map csv_field cells) @ CHR 0x0A # _"] csv_cells_row [of cells]
    by (simp split: prod.split)
qed (simp add: csv_rows.simps)

end
