(* ===== verification/Portal_Theorems.thy ===== *)
theory Portal_Theorems
  imports Markup Rendering_Facts Api_Theorems
begin

text \<open>
  The properties of the portal: what a customer link can show, what a decision does, that the ledger
  export loses nothing, and that no page carries markup of its data.
\<close>

section \<open>Every tag of a page is one of the template\<close>

definition TAG_STARTS :: "string list" where
  "TAG_STARTS = [''/'', ''!doctype html>''] @ concat (map (\<lambda>t. [t @ '' '', t @ ''>'']) (''meta'' # TAGS))"

definition tags_known :: "string \<Rightarrow> bool" where
  "tags_known h \<longleftrightarrow> (\<forall>p r. h = p @ CHR ''<'' # r \<longrightarrow> list_ex (\<lambda>t. prefix t r) TAG_STARTS)"

lemma plain_no_tag: "plain s \<Longrightarrow> CHR ''<'' \<notin> set s"
  by (auto simp: plain_def list_all_iff)

lemma tags_known_append:
  assumes "tags_known a" "tags_known b"
  shows "tags_known (a @ b)"
  unfolding tags_known_def
proof (intro allI impI)
  fix p r
  assume "a @ b = p @ CHR ''<'' # r"
  then consider u where "a = p @ CHR ''<'' # u" "r = u @ b" | u where "b = u @ CHR ''<'' # r"
    by (fastforce simp: append_eq_append_conv2 append_eq_Cons_conv)
  then show "list_ex (\<lambda>t. prefix t r) TAG_STARTS"
    using assms by cases (fastforce simp: tags_known_def list_ex_iff)+
qed

lemma tags_known_plain: "CHR ''<'' \<notin> set s \<Longrightarrow> tags_known s"
  by (auto simp: tags_known_def)

lemma tags_known_open:
  assumes "CHR ''<'' \<notin> set s" "list_ex (\<lambda>t. prefix t s) TAG_STARTS"
  shows "tags_known (CHR ''<'' # s)"
  using assms by (auto simp: tags_known_def Cons_eq_append_conv)

lemma attr_text_no_tag: "attrs_ok as \<Longrightarrow> CHR ''<'' \<notin> set (attr_text as)"
  using plain_no_tag by (fastforce simp: attrs_ok_def attr_text_def list_all_iff ATTRIBUTES_def)

lemma attr_text_start: "attr_text as = [] \<or> (\<exists>u. attr_text as = CHR '' '' # u)"
  by (cases as) (auto simp: attr_text_def)

lemma tags_known_start:
  assumes "t \<in> set (''meta'' # TAGS)" "attrs_ok as"
  shows "tags_known (CHR ''<'' # t @ attr_text as @ ''>'')"
proof (rule tags_known_open)
  show "CHR ''<'' \<notin> set (t @ attr_text as @ ''>'')" using assms(1) attr_text_no_tag [OF assms(2)] by auto
  have "t @ '' '' \<in> set TAG_STARTS" "t @ ''>'' \<in> set TAG_STARTS"
    using assms(1) by (auto simp: TAG_STARTS_def simp del: tags)
  moreover have "prefix (t @ '' '') (t @ attr_text as @ ''>'') \<or> prefix (t @ ''>'') (t @ attr_text as @ ''>'')"
    using attr_text_start [of as] by auto
  ultimately show "list_ex (\<lambda>u. prefix u (t @ attr_text as @ ''>'')) TAG_STARTS" unfolding list_ex_iff by blast
qed

lemma markup_tags_known: "markup h \<Longrightarrow> tags_known h"
proof (induction rule: markup.induct)
  case (element t as b)
  have "tags_known (CHR ''<'' # ''/'' @ t @ ''>'')"
    using element(1) by (intro tags_known_open) (auto simp: TAG_STARTS_def)
  moreover have "tags_known (CHR ''<'' # t @ attr_text as @ ''>'')"
    using element(1,2) by (intro tags_known_start) simp_all
  ultimately have "tags_known ((CHR ''<'' # t @ attr_text as @ ''>'') @ b @ (CHR ''<'' # ''/'' @ t @ ''>''))"
    using element.IH tags_known_append by blast
  then show ?case by (simp add: element_def)
next
  case (meta as)
  then show ?case using tags_known_start [of "''meta''" as] by simp
next
  case doctype
  show ?case by (rule tags_known_open) (auto simp: TAG_STARTS_def)
qed (auto intro: tags_known_append tags_known_plain dest: plain_no_tag)

text \<open>C34. No page carries markup of its data: the HTML that the portal and the pay plane answer is
  well-formed over the elements and attributes of the templates, and every tag in it is one of those,
  whatever the documents, names, links and settings contain.\<close>

theorem pages_carry_no_foreign_markup:
  assumes "portal_summary w token headers s = (Inr (code, Html h), t) \<or>
    portal_document w token dt d headers s = (Inr (code, Html h), t) \<or>
    pay_page w token headers s = (Inr (code, Html h), t)"
  shows "markup h \<and> (\<forall>p r. h = p @ CHR ''<'' # r \<longrightarrow> list_ex (\<lambda>t. prefix t r) TAG_STARTS)"
proof -
  have "markup h"
    using assms
    by (auto simp: portal_summary_def portal_document_def pay_page_def result_simps ok_json_def Let_def
        customer_summary_markup document_page_markup invoice_page_markup split: if_splits portal_link_kind.splits)
  then show ?thesis using markup_tags_known tags_known_def by blast
qed

section \<open>Customer links\<close>

text \<open>What a customer may see of a company: its rows that name the customer, by key and in order.\<close>

definition own_row :: "inner \<Rightarrow> uuid \<Rightarrow> string \<Rightarrow> string \<Rightarrow> string \<Rightarrow> company_document option" where
  "own_row s c party dt d =
     Option.bind (company_document_of s c dt d) (\<lambda>r. if doc_customer r = Some party then Some r else None)"

definition own_rows :: "inner \<Rightarrow> uuid \<Rightarrow> string \<Rightarrow> string \<Rightarrow> company_document list" where
  "own_rows s c party dt = filter (\<lambda>r. doc_customer r = Some party) (company_documents_of s c dt)"

definition same_for_customer :: "uuid \<Rightarrow> string \<Rightarrow> inner \<Rightarrow> inner \<Rightarrow> bool" where
  "same_for_customer c party s s' \<longleftrightarrow> company_of s c = company_of s' c \<and>
     (\<forall>dt. own_rows s c party dt = own_rows s' c party dt) \<and> (\<forall>dt d. own_row s c party dt d = own_row s' c party dt d)"

lemma open_quotations_own: "open_quotations s c party = filter (\<lambda>d. cd_docstatus d = 0) (own_rows s c party QUOTATION)"
  by (auto simp: open_quotations_def own_rows_def intro!: filter_cong)

lemma unpaid_invoices_own:
  "unpaid_invoices s c party = filter (\<lambda>d. cd_docstatus d = 1 \<and> 0 < payload_num d ''outstanding_amount'') (own_rows s c party SALES_INVOICE)"
  by (auto simp: unpaid_invoices_def own_rows_def intro!: filter_cong)

lemma resolve_portal:
  "portal_link_by_hash s (hash_token (wb_ext w) token) = Some l \<Longrightarrow>
   portal_resolve_link w token s =
     (if pl_revoked_at l \<noteq> None \<or> pl_expires_at l < wb_now w then Inl ApiNotFound else Inr l, s)"
  by (simp add: portal_resolve_link_def chain_act_def act_defs ok_or_def)

lemma own_row_step:
  "chain_act (ask (\<lambda>s. company_document_of s c dt d)) (\<lambda>hit. chain_act (found hit ApiNotFound) (\<lambda>doc.
     chain_act (need (doc_customer doc = Some party) ApiNotFound) (\<lambda>_. f doc))) s =
   (case own_row s c party dt d of None \<Rightarrow> (Inl ApiNotFound, s) | Some doc \<Rightarrow> f doc s)"
  by (simp add: chain_act_def act_defs ok_or_def own_row_def split: option.split)

definition decision_answer :: "string \<Rightarrow> string \<Rightarrow> (string \<times> string) list \<Rightarrow> verb_spec \<Rightarrow> string \<Rightarrow> reply" where
  "decision_answer token q headers v date =
     (if wants_html headers then (303, Location (''/portal/'' @ token @ ''/documents/'' @ QUOTATION @ ''/'' @ encode_segment q))
      else ok_json [(''quotation'', JStr q), (vs_set v, JStr date)])"

definition after_decision :: "web \<Rightarrow> uuid \<Rightarrow> string \<Rightarrow> string \<Rightarrow> company_document \<Rightarrow> verb_spec \<Rightarrow> inner \<Rightarrow> inner" where
  "after_decision w c q party doc v s = snd (record_decision w c q party doc v s)"

lemma record_decision_answer:
  "record_decision w c q party doc v s = (Inr (wb_date w (wb_now w)), after_decision w c q party doc v s)"
  by (simp add: after_decision_def record_decision_def audited_def chain_act_def act_defs)

lemma quote_action_eq:
  assumes "portal_link_by_hash s (hash_token (wb_ext w) token) = Some l" "pl_kind l = PortalCustomer"
  shows "quote_action w token q headers verb s =
    (if pl_revoked_at l \<noteq> None \<or> pl_expires_at l < wb_now w then (Inl ApiNotFound, s)
     else case own_row s (pl_company l) (unwrap_or_default (pl_party l)) QUOTATION q of
       None \<Rightarrow> (Inl ApiNotFound, s)
     | Some doc \<Rightarrow>
         if payload_str doc (vs_conflict (spec verb)) \<noteq> None then (Inl (ApiConflict (QuotationDecided q (vs_conflict (spec verb)))), s)
         else (case payload_str doc (vs_set (spec verb)) of
             Some date \<Rightarrow> (Inr (decision_answer token q headers (spec verb) date), s)
           | None \<Rightarrow> (Inr (decision_answer token q headers (spec verb) (wb_date w (wb_now w))),
               after_decision w (pl_company l) q (unwrap_or_default (pl_party l)) doc (spec verb) s)))"
proof -
  have decide: "chain_act (need (payload_str doc k = None) e) (\<lambda>_. chain_act (case payload_str doc f of
        Some existing \<Rightarrow> give existing | None \<Rightarrow> record_decision w c q p doc v) (\<lambda>date. if b then give (x1 date) else give (x2 date))) s =
      (if payload_str doc k \<noteq> None then (Inl e, s) else case payload_str doc f of
         Some date \<Rightarrow> (Inr (if b then x1 date else x2 date), s)
       | None \<Rightarrow> (Inr (if b then x1 (wb_date w (wb_now w)) else x2 (wb_date w (wb_now w))), after_decision w c q p doc v s))"
    for doc :: company_document and k f e c p v b x1 x2
    by (simp add: chain_act_def need_def give_def record_decision_answer split: option.split)
  show ?thesis
    using assms(2) resolve_portal [OF assms(1)]
    by (simp add: quote_action_def own_row_step decide chain_act_def [of "portal_resolve_link w token"] chain_act_def [of "need _ ApiNotFound"]
        need_def [of _ ApiNotFound] Let_def decision_answer_def split: option.split)
qed

text \<open>C33. A customer link shows that customer's documents and nothing else: on two stores that differ in
  any other way, but agree on the company's name and on the documents that name the customer, every page
  and every answer of the link is the same. Another customer's document id is answered like one that does
  not exist. The ledger export and the audit feed are refused.\<close>

theorem customer_link_confined:
  assumes "portal_link_by_hash s (hash_token (wb_ext w) token) = Some l" "portal_link_by_hash s' (hash_token (wb_ext w) token) = Some l"
    and "pl_kind l = PortalCustomer" "same_for_customer (pl_company l) (unwrap_or_default (pl_party l)) s s'"
  shows "fst (portal_summary w token headers s) = fst (portal_summary w token headers s') \<and>
    fst (portal_document w token dt d headers s) = fst (portal_document w token dt d headers s') \<and>
    fst (quote_action w token d headers verb s) = fst (quote_action w token d headers verb s') \<and>
    portal_gl_csv w token s = (Inl ApiNotFound, s) \<and> portal_audit w token n s = (Inl ApiNotFound, s)"
proof -
  note link = resolve_portal [OF assms(1)] resolve_portal [OF assms(2)]
  note same = assms(4) [unfolded same_for_customer_def]
  show ?thesis
  proof (intro conjI)
    show "fst (portal_summary w token headers s) = fst (portal_summary w token headers s')"
      using same link assms(3)
      by (simp add: portal_summary_def chain_act_def act_defs open_quotations_own unpaid_invoices_own ok_or_def Let_def split: option.split)
    show "fst (portal_document w token dt d headers s) = fst (portal_document w token dt d headers s')"
      using same link assms(3)
      by (auto simp: portal_document_def own_row_step chain_act_def [of "portal_resolve_link w token"] chain_act_def [of "need _ _"]
          need_def give_def split: option.split)
    show "fst (quote_action w token d headers verb s) = fst (quote_action w token d headers verb s')"
      using same by (simp add: quote_action_eq [OF assms(1,3)] quote_action_eq [OF assms(2,3)] split: option.split)
  qed (use link assms(3) in \<open>simp_all add: portal_gl_csv_def portal_audit_def chain_act_def act_defs Let_def\<close>)
qed

section \<open>Decisions\<close>

lemma push_one: "snd (push_mutations x now c [m] s) = snd (append_one x now c m s)"
  by (simp add: push_mutations_def case_prod_beta)

lemma append_one_links [simp]: "portal_links (snd (append_one x now c m s)) = portal_links s"
  by (simp add: append_one_def apply_projection_def Let_def split: option.split projection_action.split)

lemma after_decision_row:
  "company_document_of (after_decision w c q party doc v s) c QUOTATION q =
     (if mutation_versions s (c, ''portal-'' @ q @ ''-'' @ vs_suffix v) \<noteq> None then company_document_of s c QUOTATION q
      else apply_action (fold_mutation (wb_ext w) (company_document_of s c QUOTATION q) (decision_record w q doc v) c (wb_now w))
        (company_document_of s c QUOTATION q))"
  "portal_link_by_hash (after_decision w c q party doc v s) h = portal_link_by_hash s h"
proof -
  let ?u = "snd (append_one (wb_ext w) (wb_now w) c (decision_record w q doc v) s)"
  have a: "company_documents (after_decision w c q party doc v s) = company_documents ?u"
    "portal_links (after_decision w c q party doc v s) = portal_links ?u"
    by (simp_all add: after_decision_def record_decision_def audited_def chain_act_def act_defs append_audit_def push_one)
  have m: "mr_id (decision_record w q doc v) = ''portal-'' @ q @ ''-'' @ vs_suffix v" "mr_doc_type (decision_record w q doc v) = QUOTATION"
    "mr_document_id (decision_record w q doc v) = q" by (simp_all add: decision_record_def)
  show "portal_link_by_hash (after_decision w c q party doc v s) h = portal_link_by_hash s h"
    by (simp add: portal_link_by_hash_def a(2))
  have "company_document_of (after_decision w c q party doc v s) c QUOTATION q = company_document_of ?u c QUOTATION q"
    by (simp add: company_document_of_def a(1))
  then show "company_document_of (after_decision w c q party doc v s) c QUOTATION q =
     (if mutation_versions s (c, ''portal-'' @ q @ ''-'' @ vs_suffix v) \<noteq> None then company_document_of s c QUOTATION q
      else apply_action (fold_mutation (wb_ext w) (company_document_of s c QUOTATION q) (decision_record w q doc v) c (wb_now w))
        (company_document_of s c QUOTATION q))"
    unfolding company_document_append_one m by simp
qed

lemma decision_fold:
  assumes "flds = decided_fields doc (vs_set v) (wb_date w (wb_now w))" "ext_from_str (wb_ext w) (ext_to_string (wb_ext w) (JObj flds)) = Some (JObj flds)"
    and "- 32768 \<le> cd_docstatus doc" "cd_docstatus doc < 32768"
  obtains row where "fold_mutation (wb_ext w) existing (decision_record w q doc v) c now = Upsert row"
    "cd_payload row = JObj (obj_remove ''__children'' flds)" "cd_docstatus row = cd_docstatus doc"
proof -
  let ?m = "decision_record w q doc v"
  have get: "obj_get (mr_payload ?m) ''payload'' = Some (JStr (ext_to_string (wb_ext w) (JObj flds)))"
    "obj_get (mr_payload ?m) ''docstatus'' = Some (json_int (cd_docstatus doc))"
    by (simp_all add: decision_record_def row_envelope_def obj_of_get assms(1))
  have ty: "mr_type ?m = UpdateDocument" by (simp add: decision_record_def)
  have "envelope_fields (wb_ext w) (mr_payload ?m) = flds" using assms(2) by (simp add: envelope_fields_def get)
  moreover have "fold_docstatus ?m existing = cd_docstatus doc"
    using assms(3,4) by (simp add: fold_docstatus_def get json_int_def i64_max_def to_i16_def)
  ultimately show ?thesis using that by (simp add: fold_mutation_def ty folds_documents_def Let_def)
qed

text \<open>A decision is taken once: when a customer decides an undecided quotation, its row keeps every
  header field and gains the date; deciding the same way again answers that first date and changes
  nothing, and the opposite decision is a conflict.\<close>

theorem decision_taken_once:
  assumes "portal_link_by_hash s (hash_token (wb_ext w) token) = Some l" "pl_kind l = PortalCustomer"
    and "own_row s (pl_company l) (unwrap_or_default (pl_party l)) QUOTATION q = Some doc"
    and "payload_str doc ''accepted_on'' = None" "payload_str doc ''rejected_on'' = None"
    and "mutation_versions s (pl_company l, ''portal-'' @ q @ ''-'' @ vs_suffix (spec verb)) = None"
    and "today = wb_date w (wb_now w)" "non_blank (Some today) = Some today"
    and "flds = decided_fields doc (vs_set (spec verb)) today" "ext_from_str (wb_ext w) (ext_to_string (wb_ext w) (JObj flds)) = Some (JObj flds)"
    and "- 32768 \<le> cd_docstatus doc" "cd_docstatus doc < 32768"
    and "quote_action w token q headers verb s = (Inr rep, t)"
  shows "(\<exists>row. own_row t (pl_company l) (unwrap_or_default (pl_party l)) QUOTATION q = Some row \<and>
      payload_str row (vs_set (spec verb)) = Some today \<and> cd_docstatus row = cd_docstatus doc \<and>
      (\<forall>k. k \<notin> {vs_set (spec verb), ''items'', ''__children''} \<longrightarrow> jget (cd_payload row) k = jget (cd_payload doc) k)) \<and>
    (\<forall>w' headers'. wb_ext w' = wb_ext w \<longrightarrow> pl_revoked_at l = None \<longrightarrow> wb_now w' \<le> pl_expires_at l \<longrightarrow>
      quote_action w' token q headers' verb t = (Inr (decision_answer token q headers' (spec verb) today), t) \<and>
      (\<forall>verb'. verb' \<noteq> verb \<longrightarrow>
        quote_action w' token q headers' verb' t = (Inl (ApiConflict (QuotationDecided q (vs_set (spec verb)))), t)))"
proof -
  let ?c = "pl_company l" and ?p = "unwrap_or_default (pl_party l)" and ?v = "spec verb"
  have set: "vs_set ?v \<noteq> ''customer''" "vs_set ?v \<noteq> ''items''" "vs_set ?v \<noteq> ''__children''" "vs_set ?v \<noteq> vs_conflict ?v"
    "vs_conflict ?v \<notin> {''items'', ''__children''}"
    by (cases verb; simp)+
  have t: "t = after_decision w ?c q ?p doc ?v s"
    using assms(4,5,13) unfolding quote_action_eq [OF assms(1,2)] assms(3)
    by (cases verb) (auto split: if_splits)
  have mine: "company_document_of s ?c QUOTATION q = Some doc" "doc_customer doc = Some ?p"
    using assms(3) by (auto simp: own_row_def Option.bind_eq_Some_conv split: if_splits)
  then obtain m where m: "cd_payload doc = JObj m" by (cases "cd_payload doc") (auto simp: doc_customer_def jget_def)
  obtain row where row: "fold_mutation (wb_ext w) (Some doc) (decision_record w q doc ?v) ?c (wb_now w) = Upsert row"
    "cd_payload row = JObj (obj_remove ''__children'' flds)" "cd_docstatus row = cd_docstatus doc"
    by (rule decision_fold [OF assms(9) [unfolded assms(7)] assms(10-12)])
  have get: "jget (cd_payload row) k = (if k = ''__children'' then None else if k = vs_set ?v then Some (JStr today)
      else if k = ''items'' then None else jget (cd_payload doc) k)" for k
    by (simp add: row(2) assms(9) decided_fields_def m)
  have "company_document_of t ?c QUOTATION q = Some row"
    unfolding t after_decision_row(1) mine(1) row(1) assms(6) by (simp add: apply_action_def)
  moreover have "doc_customer row = Some ?p" using mine(2) set(1) by (simp add: doc_customer_def get)
  ultimately have own: "own_row t ?c ?p QUOTATION q = Some row" by (simp add: own_row_def)
  have decided: "payload_str row (vs_set ?v) = Some today" "payload_str row (vs_conflict ?v) = None"
  proof -
    show "payload_str row (vs_set ?v) = Some today" using set assms(8) by (simp add: payload_str_def get)
    have "payload_str row (vs_conflict ?v) = payload_str doc (vs_conflict ?v)" using set by (auto simp: payload_str_def get)
    then show "payload_str row (vs_conflict ?v) = None" using assms(4,5) by (cases verb) simp_all
  qed
  have link: "portal_link_by_hash t (hash_token (wb_ext w) token) = Some l" unfolding t after_decision_row(2) by (rule assms(1))
  have "quote_action w' token q headers' verb t = (Inr (decision_answer token q headers' ?v today), t) \<and>
      (\<forall>verb'. verb' \<noteq> verb \<longrightarrow> quote_action w' token q headers' verb' t = (Inl (ApiConflict (QuotationDecided q (vs_set ?v))), t))"
    if h: "wb_ext w' = wb_ext w" "pl_revoked_at l = None" "wb_now w' \<le> pl_expires_at l" for w' headers'
  proof -
    have l': "portal_link_by_hash t (hash_token (wb_ext w') token) = Some l" using link h(1) by simp
    have opp: "vs_conflict (spec verb') = vs_set ?v" if "verb' \<noteq> verb" for verb' using that by (cases verb; cases verb') simp_all
    show ?thesis using h own decided opp by (simp add: quote_action_eq [OF l' assms(2)])
  qed
  then show ?thesis using own decided(1) row(3) get by auto
qed

text \<open>
  What the id of the decision leaves open: it is the same for every decision of that kind, so when the
  row lost its date to a later push, deciding again answers success and stores nothing.
\<close>

lemma repeated_decision_lost:
  assumes "portal_link_by_hash s (hash_token (wb_ext w) token) = Some l" "pl_kind l = PortalCustomer"
    and "pl_revoked_at l = None" "wb_now w \<le> pl_expires_at l"
    and "own_row s (pl_company l) (unwrap_or_default (pl_party l)) QUOTATION q = Some doc"
    and "payload_str doc ''accepted_on'' = None" "payload_str doc ''rejected_on'' = None"
    and "mutation_versions s (pl_company l, ''portal-'' @ q @ ''-'' @ vs_suffix (spec verb)) \<noteq> None"
  shows "\<exists>t. quote_action w token q headers verb s = (Inr (decision_answer token q headers (spec verb) (wb_date w (wb_now w))), t) \<and>
    company_document_of t (pl_company l) QUOTATION q = company_document_of s (pl_company l) QUOTATION q"
proof -
  have "payload_str doc (vs_conflict (spec verb)) = None" "payload_str doc (vs_set (spec verb)) = None"
    using assms(6,7) by (cases verb; simp)+
  then show ?thesis
    using assms(3-5,8) by (auto simp: quote_action_eq [OF assms(1,2)] after_decision_row(1))
qed

section \<open>The ledger export\<close>

definition gl_csv_cells :: "gl_entry \<Rightarrow> string list" where
  "gl_csv_cells e = [gl_posting_date e, gl_voucher_type e, gl_voucher_no e, gl_account e, show_f64 (gl_debit e), show_f64 (gl_credit e),
     unwrap_or_default (gl_party_type e), unwrap_or_default (gl_party e), if gl_is_reversal e then ''true'' else ''false'']"

text \<open>What a row of the export says, and its reading from the cells.\<close>

type_synonym gl_summary = "string \<times> string \<times> string \<times> string \<times> f64 \<times> f64 \<times> string \<times> string \<times> bool"

definition gl_summary_of :: "gl_entry \<Rightarrow> gl_summary" where
  "gl_summary_of e = (gl_posting_date e, gl_voucher_type e, gl_voucher_no e, gl_account e, gl_debit e, gl_credit e,
     unwrap_or_default (gl_party_type e), unwrap_or_default (gl_party e), gl_is_reversal e)"

fun read_gl_row :: "string list \<Rightarrow> gl_summary option" where
  "read_gl_row [date, vt, vn, account, debit, credit, pt, party, reversal] =
     Option.bind (parse_f64 debit) (\<lambda>dr. Option.bind (parse_f64 credit) (\<lambda>cr.
       Some (date, vt, vn, account, dr, cr, pt, party, reversal = ''true'')))"
| "read_gl_row _ = None"

lemma digit_not_special: "is_digit c \<Longrightarrow> \<not> csv_special c"
  by (auto simp: csv_special_def is_digit_def)

lemma digits_plain: "list_all is_digit s \<Longrightarrow> \<not> list_ex csv_special s"
  using digit_not_special by (auto simp: list_all_iff list_ex_iff)

lemma show_decimal_plain: "\<not> list_ex csv_special (show_decimal m j)"
proof -
  have "list_all is_digit (pad_zeros k (show_nat n))" for k n
    using show_nat_digits [of n] by (auto simp: pad_zeros_def list_all_iff)
  moreover have "\<not> csv_special CHR ''.''" by (simp add: csv_special_def)
  ultimately show ?thesis using digits_plain show_nat_digits by (simp add: show_decimal_def)
qed

lemma show_f64_plain: "csv_field (show_f64 v) = show_f64 v"
proof -
  have "\<not> list_ex csv_special (show_f64 v)"
    using show_decimal_plain by (cases v) (auto simp: case_prod_beta csv_special_def simp del: shortest_from.simps)
  then show ?thesis by (simp add: csv_field_def)
qed

lemma gl_csv_rows: "csv_rows (gl_csv es) = [''posting_date'', ''voucher_type'', ''voucher_no'', ''account'', ''debit'', ''credit'',
    ''party_type'', ''party'', ''is_reversal''] # map gl_csv_cells es"
proof -
  let ?h = "[''posting_date'', ''voucher_type'', ''voucher_no'', ''account'', ''debit'', ''credit'', ''party_type'', ''party'', ''is_reversal'']"
  have h: "map csv_field ?h = ?h" by (simp add: csv_field_def csv_special_def)
  have row: "gl_csv_row e = join_with (CHR '','') (map csv_field (gl_csv_cells e))" for e
    by (simp add: gl_csv_row_def gl_csv_cells_def show_f64_plain) (simp add: csv_field_def csv_special_def)
  have "gl_csv es = concat (map (\<lambda>cells. join_with (CHR '','') (map csv_field cells) @ [CHR 0x0A]) (?h # map gl_csv_cells es))"
    by (simp add: gl_csv_def CSV_HEADER_def row h comp_def del: map_map list.map(2)) (simp add: csv_field_def csv_special_def comp_def)
  then show ?thesis using csv_rows_text [of "?h # map gl_csv_cells es"] by (auto simp: gl_csv_cells_def)
qed

text \<open>C35. The ledger export loses nothing: reading the CSV that an accountant link downloads, by RFC 4180,
  gives every ledger row of the company in order, with the texts as stored, whatever separators, quotes
  and line breaks they contain, and the amounts exactly.\<close>

theorem ledger_export_lossless:
  assumes "portal_gl_csv w token s = (Inr (code, Csv export), t)" "portal_link_by_hash s (hash_token (wb_ext w) token) = Some l"
    and "\<And>e. e \<in> set (gl_entries s (pl_company l)) \<Longrightarrow> wf64 (gl_debit e) \<and> wf64 (gl_credit e)"
  shows "map read_gl_row (tl (csv_rows export)) = map (\<lambda>e. Some (gl_summary_of e)) (gl_entries_ordered s (pl_company l))"
proof -
  have "export = gl_csv (gl_entries_ordered s (pl_company l))"
    using assms(1) resolve_portal [OF assms(2)] by (auto simp: portal_gl_csv_def result_simps split: if_splits)
  moreover have "read_gl_row (gl_csv_cells e) = Some (gl_summary_of e)" if "e \<in> set (gl_entries_ordered s (pl_company l))" for e
    using assms(3) [of e] that by (simp add: gl_csv_cells_def gl_summary_of_def parse_show_f64 gl_entries_ordered_def)
  ultimately show ?thesis by (simp add: gl_csv_rows)
qed

end
