(* ===== verification/Witnesses_Links.thy ===== *)
theory Witnesses_Links
  imports Portal_Theorems Witnesses_Api
begin

text \<open>
  Instances of the properties of the portal: a company with a customer link and an accountant link, a
  quotation, and a ledger row whose account needs quoting.
\<close>

definition shop_quote :: company_document where
  "shop_quote = \<lparr>cd_company = ''co'', cd_doctype = ''Quotation'', cd_document_id = ''Q1'',
     cd_payload = JObj [(''customer'', JStr ''C1''), (''note'', JStr ''<b>'')], cd_children = None, cd_docstatus = 0, cd_updated_at = 0\<rparr>"

definition shop_link :: portal_link where
  "shop_link = \<lparr>pl_id = ''k1'', pl_company = ''co'', pl_kind = PortalCustomer, pl_party = Some ''C1'', pl_label = None,
     pl_token_hash = ''ct'', pl_created_by = ''u1'', pl_created_at = 0, pl_expires_at = 1000, pl_revoked_at = None\<rparr>"

definition books_link :: portal_link where
  "books_link = shop_link\<lparr>pl_id := ''k2'', pl_kind := PortalAccountant, pl_party := None, pl_token_hash := ''at''\<rparr>"

definition shop_row :: gl_entry where
  "shop_row = (ctx_gl sample_ctx ''GL-1'' ''Sales, \"local\"'' (Fin 0) (Fin 100) None None)"

definition shop :: inner where
  "shop = sample_team\<lparr>portal_links := [(''k1'', shop_link), (''k2'', books_link)],
     company_documents := [((''co'', ''Quotation'', ''Q1''), shop_quote)], gl_entries := (\<lambda>_. [shop_row])\<rparr>"

lemma shop_links [simp]: "portal_link_by_hash shop ''ct'' = Some shop_link" "portal_link_by_hash shop ''at'' = Some books_link"
  by (simp_all add: shop_def portal_link_by_hash_def books_link_def) (simp_all add: shop_link_def)

lemma shop_link_sel [simp]:
  "pl_company shop_link = ''co''" "pl_kind shop_link = PortalCustomer" "pl_party shop_link = Some ''C1''"
  "pl_revoked_at shop_link = None" "pl_expires_at shop_link = 1000"
  by (simp_all add: shop_link_def)

lemma shop_sel [simp]:
  "company_of shop ''co'' = Some \<lparr>co_id = ''co'', co_name = ''Acme'', co_created_at = 0\<rparr>"
  "company_document_of shop ''co'' ''Quotation'' ''Q1'' = Some shop_quote" "mutation_versions shop v = None"
  by (simp_all add: shop_def sample_team_def company_of_def company_document_of_def)

definition browser :: "(string \<times> string) list" where
  "browser = [(''accept'', ''text/html'')]"

theorem pages_carry_no_foreign_markup_witness:
  "\<exists>h. portal_document sample_web ''ct'' ''Quotation'' ''Q1'' browser shop = (Inr (200, Html h), shop) \<and> markup h"
proof -
  have "wants_html browser" by code_simp
  moreover have "doc_customer shop_quote = Some ''C1''" by (simp add: doc_customer_def shop_quote_def eval_simps)
  ultimately have "portal_document sample_web ''ct'' ''Quotation'' ''Q1'' browser shop =
      (Inr (200, Html (document_page plain_ext ''ct'' shop_quote)), shop)"
    by (simp add: portal_document_def resolve_portal chain_act_def act_defs ok_or_def unwrap_or_default_def CUSTOMER_DOCTYPES_def QUOTATION_def)
  then show ?thesis using pages_carry_no_foreign_markup [of sample_web "''ct''" browser shop] by blast
qed

text \<open>A store that differs in another customer's quotation.\<close>

definition other_quote :: company_document where
  "other_quote = shop_quote\<lparr>cd_document_id := ''Q2'', cd_payload := JObj [(''customer'', JStr ''C2'')]\<rparr>"

definition shop' :: inner where
  "shop' = shop\<lparr>company_documents := ((''co'', ''Quotation'', ''Q2''), other_quote) # company_documents shop\<rparr>"

theorem customer_link_confined_witness:
  "fst (portal_document sample_web ''ct'' ''Quotation'' ''Q2'' [] shop') = fst (portal_document sample_web ''ct'' ''Quotation'' ''Q2'' [] shop)
   \<and> company_document_of shop' ''co'' ''Quotation'' ''Q2'' = Some other_quote"
proof -
  have q: "doc_customer other_quote = Some ''C2''" by (simp add: doc_customer_def other_quote_def eval_simps)
  have l: "portal_link_by_hash shop' (hash_token plain_ext ''ct'') = Some shop_link"
    using shop_links(1) by (simp add: shop'_def portal_link_by_hash_def)
  have "filter (\<lambda>r. doc_customer r = Some ''C1'') (sort_key cd_document_id (other_quote # rs)) =
      filter (\<lambda>r. doc_customer r = Some ''C1'') (sort_key cd_document_id rs)" for rs
    by (simp only: filter_sort) (simp add: q)
  then have "same_for_customer ''co'' ''C1'' shop' shop"
    using q
    by (auto simp: same_for_customer_def company_of_def own_rows_def own_row_def company_documents_of_def company_document_of_def shop'_def)
      (simp add: shop_def)
  then show ?thesis
    using customer_link_confined [of shop' sample_web "''ct''" shop_link shop "[]" "''Quotation''" "''Q2''"] l
    by (auto simp: unwrap_or_default_def shop'_def company_document_of_def)
qed

definition decided :: jmap where
  "decided = [(''accepted_on'', JStr ''2026-01-15''), (''customer'', JStr ''C1''), (''note'', JStr ''<b>'')]"

definition decision_web :: web where
  "decision_web = sample_web\<lparr>wb_ext := plain_ext\<lparr>ext_from_str := (\<lambda>_. Some (JObj decided))\<rparr>\<rparr>"

lemma decision_web_sel [simp]:
  "wb_now decision_web = 0" "wb_date decision_web n = ''2026-01-15''" "hash_token (wb_ext decision_web) k = k"
  "ext_from_str (wb_ext decision_web) j = Some (JObj decided)"
  by (simp_all add: decision_web_def hash_token_def plain_ext_def sample_ext_def)

theorem decision_taken_once_witness:
  "\<exists>rep t row. quote_accept decision_web ''ct'' ''Q1'' [] shop = (Inr rep, t) \<and>
     own_row t ''co'' ''C1'' ''Quotation'' ''Q1'' = Some row \<and> payload_str row ''accepted_on'' = Some ''2026-01-15'' \<and>
     quote_reject decision_web ''ct'' ''Q1'' [] t = (Inl (ApiConflict (QuotationDecided ''Q1'' ''accepted_on'')), t)"
proof -
  have q: "doc_customer shop_quote = Some ''C1''" "payload_str shop_quote ''accepted_on'' = None"
    "payload_str shop_quote ''rejected_on'' = None" "cd_docstatus shop_quote = 0"
    "decided_fields shop_quote ''accepted_on'' ''2026-01-15'' = decided"
    by (simp_all add: doc_customer_def payload_str_def decided_fields_def non_blank_def decided_def shop_quote_def eval_simps)
  have own: "own_row shop ''co'' ''C1'' QUOTATION ''Q1'' = Some shop_quote" by (simp add: own_row_def QUOTATION_def q(1))
  obtain rep t where r: "quote_action decision_web ''ct'' ''Q1'' [] AcceptQuote shop = (Inr rep, t)"
    using own q(2,3) by (auto simp: quote_action_eq [of shop decision_web "''ct''" shop_link] unwrap_or_default_def)
  have "non_blank (Some ''2026-01-15'') = Some ''2026-01-15''" by (simp add: non_blank_def trim_graphic graphic_def)
  then show ?thesis
    using decision_taken_once [OF _ _ _ _ _ _ refl _ refl _ _ _ r, of shop_link shop_quote] r own q
    by (auto simp: quote_accept_def quote_reject_def unwrap_or_default_def QUOTATION_def)
qed

lemma shop_row_sel [simp]: "gl_debit shop_row = Fin 0" "gl_credit shop_row = Fin 100"
  by (simp_all add: shop_row_def ctx_gl_def)

theorem ledger_export_lossless_witness:
  "\<exists>export. portal_gl_csv sample_web ''at'' shop = (Inr (200, Csv export), shop) \<and>
     map read_gl_row (tl (csv_rows export)) = [Some (gl_summary_of shop_row)]"
proof -
  have l: "pl_company books_link = ''co''" "pl_kind books_link = PortalAccountant" "pl_revoked_at books_link = None" "pl_expires_at books_link = 1000"
    by (simp_all add: books_link_def)
  have e: "gl_entries shop c = [shop_row]" for c by (simp add: shop_def)
  have r: "portal_gl_csv sample_web ''at'' shop = (Inr (200, Csv (gl_csv [shop_row])), shop)"
    by (simp add: portal_gl_csv_def resolve_portal chain_act_def act_defs l gl_entries_ordered_def e)
  have "wf64 (Fin (of_int n))" if "\<bar>n\<bar> \<le> 2 ^ 53" for n using rnd_int [OF that] wf64_rnd by metis
  from this [of 0] this [of 100] have "wf64 (Fin 0)" "wf64 (Fin 100)" by simp_all
  then show ?thesis
    using ledger_export_lossless [OF r, of books_link] r by (simp add: l e gl_entries_ordered_def)
qed

end
