(* ===== verification/Pay_Theorems.thy ===== *)
theory Pay_Theorems
  imports Pay Engine_Theorems
begin

text \<open>
  The properties of the Stripe webhook: an event that is not signed with the secret posts nothing, and
  an event posts at most one payment however often it is delivered.
\<close>

section \<open>Forged events\<close>

lemma stripe_intakeE:
  assumes "stripe_intake w headers bytes s = (r, t)"
  obtains e where "r = Inl e" "t = s" | ev where "r = Inr ()" "t = s\<lparr>webhooks := webhooks s @ [ev]\<rparr>"
  using assms
  by (auto simp: stripe_intake_def check_webhook_backlog_def chain_act_def act_defs insert_webhook_event_def Let_def
      split: if_splits)

definition signed_with :: "web \<Rightarrow> string \<Rightarrow> string \<Rightarrow> string \<Rightarrow> bool" where
  "signed_with w secret header bytes \<longleftrightarrow> (\<exists>t. fst (read_signature w header) = Some t \<and>
     wb_hmac w secret (signed_payload t bytes) \<in> set (snd (read_signature w header)))"

lemma verify_signed: "verify_stripe_signature w secret header bytes now = Inr u \<Longrightarrow> signed_with w secret header bytes"
  by (auto simp: verify_stripe_signature_def signed_with_def case_prod_beta result_simps)

text \<open>A delivery that does not carry a signature of its body under the configured secret is refused,
  and so is every delivery when no secret is configured: nothing changes but the intake log.\<close>

theorem forged_event_posts_nothing:
  assumes "\<And>secret header. cf_stripe_webhook_secret (wb_config w) = Some secret \<Longrightarrow>
      header_str headers ''stripe-signature'' = Some header \<Longrightarrow> \<not> signed_with w secret header bytes"
  shows "\<exists>e t. stripe_webhook w interfere headers bytes s = (Inl e, t) \<and>
    (t = s \<or> (\<exists>ev. t = s\<lparr>webhooks := webhooks s @ [ev]\<rparr>))"
proof -
  obtain r t where i: "stripe_intake w headers bytes s = (r, t)" by fastforce
  then show ?thesis
  proof (cases rule: stripe_intakeE)
    case (1 e)
    then show ?thesis using i by (auto simp: stripe_webhook_def chain_act_def)
  next
    case (2 ev)
    show ?thesis
    proof (cases "cf_stripe_webhook_secret (wb_config w)")
      case None
      then show ?thesis using i 2 by (auto simp: stripe_webhook_def chain_act_def found_def ok_or_def)
    next
      case secret: (Some secret)
      show ?thesis
      proof (cases "header_str headers ''stripe-signature''")
        case None
        then show ?thesis using i 2 secret by (auto simp: stripe_webhook_def chain_act_def found_def ok_or_def)
      next
        case (Some header)
        then obtain e where "verify_stripe_signature w secret header bytes (wb_now w div 1000) = Inl e"
          using assms [OF secret] verify_signed by (cases "verify_stripe_signature w secret header bytes (wb_now w div 1000)") auto
        then show ?thesis using i 2 secret Some by (auto simp: stripe_webhook_def chain_act_def found_def ok_or_def lifted_def)
      qed
    qed
  qed
qed

section \<open>Later states\<close>

text \<open>
  Between two deliveries anything may happen: store operations, links created under fresh ids and
  revoked, and every write that leaves the links and the idempotency keys alone.
\<close>

inductive later_step :: "ext \<Rightarrow> inner \<Rightarrow> inner \<Rightarrow> bool" for x where
  store: "store_step x s t \<Longrightarrow> later_step x s t"
| link: "yl_id l \<notin> fst ` set (pay_links s) \<Longrightarrow> later_step x s (create_pay_link l s)"
| revoke: "later_step x s (snd (revoke_pay_link now c i s))"
| elsewhere: "pay_links t = pay_links s \<Longrightarrow> idempotency t = idempotency s \<Longrightarrow> later_step x s t"

definition later :: "ext \<Rightarrow> inner \<Rightarrow> inner \<Rightarrow> bool" where
  "later x = (later_step x)\<^sup>*\<^sup>*"

text \<open>A committed key keeps its response, and a token keeps its company.\<close>

definition payments_stay :: "inner \<Rightarrow> inner \<Rightarrow> bool" where
  "payments_stay s t \<longleftrightarrow> idempotency s \<subseteq>\<^sub>m idempotency t \<and>
     (\<forall>h l. pay_link_by_hash s h = Some l \<longrightarrow> (\<exists>l'. pay_link_by_hash t h = Some l' \<and> yl_company l' = yl_company l))"

lemma fold_projection_links [simp]: "pay_links (fold (apply_projection x now c) rs s) = pay_links s"
proof (induction rs arbitrary: s)
  case (Cons r rs)
  have "pay_links (apply_projection x now c r s) = pay_links s"
    by (simp add: apply_projection_def Let_def split: option.split projection_action.split)
  then show ?case using Cons by simp
qed simp

lemma append_mutations_links [simp]: "pay_links (snd (append_mutations x now c ms s)) = pay_links s"
proof (induction ms arbitrary: s)
  case (Cons m ms)
  have "pay_links (snd (append_one x now c m s)) = pay_links s"
    by (simp add: append_one_def apply_projection_def Let_def split: option.split projection_action.split)
  then show ?case using Cons by (simp add: case_prod_beta Let_def)
qed simp

lemma store_step_links: "store_step x s t \<Longrightarrow> pay_links t = pay_links s"
proof (induction rule: store_step.induct)
  case (commit s now k)
  have "pay_links (commit_apply x now k s) = pay_links s"
    by (simp add: commit_apply_def commit_tables_def case_prod_beta Let_def)
  then show ?case by (cases rule: posting_commit_cases [of s k x now]) simp_all
qed (auto simp: push_mutations_def ack_mutations_def put_company_settings_def upsert_item_def rebuild_projection_def
    record_lost_history_def set_books_lock_def Let_def case_prod_beta split: option.splits)

lemma revoke_links:
  assumes "pay_link_by_hash s h = Some l"
  shows "\<exists>l'. pay_link_by_hash (snd (revoke_pay_link now c i s)) h = Some l' \<and> yl_company l' = yl_company l"
proof -
  have step: "\<exists>l'. find (\<lambda>l. yl_token_hash l = h) (map snd (AList.update i v ls)) = Some l' \<and> yl_company l' = yl_company l"
    if "find (\<lambda>l. yl_token_hash l = h) (map snd ls) = Some l" "map_of ls i = Some u" "yl_token_hash v = yl_token_hash u"
      "yl_company v = yl_company u" for ls u v
    using that by (induction ls) (auto split: if_splits)
  show ?thesis
    using assms step [of "pay_links s"]
    by (auto simp: revoke_pay_link_def pay_link_by_hash_def split: option.split)
qed

lemma create_links:
  assumes "pay_link_by_hash s h = Some l" "yl_id n \<notin> fst ` set (pay_links s)"
  shows "pay_link_by_hash (create_pay_link n s) h = Some l"
proof -
  have "find P (map snd (AList.update i n ls)) = Some l" if "find P (map snd ls) = Some l" "i \<notin> fst ` set ls" for P i ls
    using that by (induction ls) (auto split: if_splits)
  then show ?thesis using assms by (simp add: pay_link_by_hash_def create_pay_link_def)
qed

interpretation settled: run_relation "later_step x" payments_stay for x
proof
  show "payments_stay s s" for s by (simp add: payments_stay_def)
  show "payments_stay s t \<Longrightarrow> payments_stay t u \<Longrightarrow> payments_stay s u" for s t u
    by (auto simp: payments_stay_def intro: map_le_trans) metis
  show "later_step x s t \<Longrightarrow> payments_stay s t" for s t
  proof (induction rule: later_step.induct)
    case (store s t)
    then show ?case
      using growth.R_step [OF store] store_step_links [OF store]
      by (simp add: payments_stay_def ledgers_grow_def pay_link_by_hash_def)
  next
    case (link l s)
    then show ?case using create_links [of s _ _ l] by (auto simp: payments_stay_def create_pay_link_def)
  next
    case (revoke s now c i)
    have "idempotency (snd (revoke_pay_link now c i s)) = idempotency s"
      by (simp add: revoke_pay_link_def split: option.split)
    then show ?case using revoke_links [of s _ _ now c i] by (simp add: payments_stay_def)
  qed (auto simp: payments_stay_def pay_link_by_hash_def)
qed

lemmas later_stays = settled.run_R [folded later_def]

section \<open>One payment per event\<close>

definition answer :: "reply \<Rightarrow> string \<Rightarrow> json option" where
  "answer rep k = (case snd rep of JsonBody v \<Rightarrow> jget v k | _ \<Rightarrow> None)"

text \<open>The tables a payment would change.\<close>

definition same_books :: "inner \<Rightarrow> inner \<Rightarrow> bool" where
  "same_books s t \<longleftrightarrow> gl_entries t = gl_entries s \<and> party_transactions t = party_transactions s \<and> settlements t = settlements s \<and>
     documents t = documents s \<and> series t = series s \<and> idempotency t = idempotency s"

lemma same_books_refl [simp]: "same_books s s"
  by (simp add: same_books_def)

lemma reject_event_books:
  "\<exists>u. reject_event w l ck reason s = (Inr (unhandled reason), u) \<and> same_books s u"
  by (simp add: reject_event_def audited_def chain_act_def act_defs same_books_def append_audit_def)

lemma unhandled_answer: "answer (unhandled reason) ''handled'' = Some (JBool False)"
  by (simp add: answer_def unhandled_def ok_json_def obj_of_get)

text \<open>A checkout is answered without posting, or comes to \<open>post_payment\<close> for the link its token names.\<close>

lemma settle_checkout_cases:
  obtains reason u where "settle_checkout w interfere ck s = (Inr (unhandled reason), u)" "same_books s u"
  | l payload due where "pay_link_by_hash s (hash_token (wb_ext w) (ck_token ck)) = Some l"
      "settle_checkout w interfere ck s = post_payment w interfere l ck payload due s"
proof (cases "pay_link_by_hash s (hash_token (wb_ext w) (ck_token ck))")
  case None
  show thesis by (rule that(1) [of "''unknown payment link''" s]) (simp_all add: settle_checkout_def None act_defs chain_act_def)
next
  case link: (Some l)
  have refused: thesis if "settle_checkout w interfere ck s = reject_event w l ck reason s" for reason
    using reject_event_books [of w l ck reason s] \<open>\<And>reason u. \<lbrakk>settle_checkout w interfere ck s = (Inr (unhandled reason), u); same_books s u\<rbrakk> \<Longrightarrow> thesis\<close> that
    by auto
  let ?inv = "Option.bind (posted_document_of s (yl_company l) SALES_INVOICE (yl_invoice_id l))
    (\<lambda>d. if pd_docstatus d = 1 then Some d else None)"
  show thesis
  proof (cases "yl_revoked_at l \<noteq> None \<or> yl_expires_at l < wb_now w")
    case True
    then show thesis by (intro refused) (simp add: settle_checkout_def link ask_def chain_act_def)
  next
    case live: False
    show thesis
    proof (cases ?inv)
      case None
      then show thesis using live by (intro refused) (simp add: settle_checkout_def link ask_def chain_act_def)
    next
      case (Some inv)
      note go = settle_checkout_def link ask_def chain_act_def Some Let_def
      show thesis
      proof (cases "idempotent_response s (yl_company l) (stripe_key ck) = None \<and>
          as_num (jget (pd_payload inv) ''outstanding_amount'') < PAID_EPSILON")
        case True
        then show thesis using live by (intro refused) (simp add: go)
      next
        case False
        then show thesis using live by (intro that(2) [OF link]) (auto simp add: go)
      qed
    qed
  qed
qed

lemma post_paymentE:
  assumes "post_payment w interfere l ck payload due s = (r, t)"
  obtains out u where
    "submit_document (wb_ext w) (env_of w) interfere (wb_id w) (yl_company l) (stripe_command ck (yl_invoice_id l) payload due)
       (actor_system PAYMENTS_DEVICE_ID) s = (Inr out, u)"
    "r = Inr (ok_json [(''handled'', JBool True), (''document_id'', jindex (oc_response out) ''document_id''),
       (''number'', jindex (oc_response out) ''number''), (''replayed'', JBool (oc_replayed out))])"
    "same_books u t" "pay_links t = pay_links u"
  | e where
    "submit_document (wb_ext w) (env_of w) interfere (wb_id w) (yl_company l) (stripe_command ck (yl_invoice_id l) payload due)
       (actor_system PAYMENTS_DEVICE_ID) s = (Inl e, t)"
    "r = Inl (api_of_posting e)"
proof (cases "submit_document (wb_ext w) (env_of w) interfere (wb_id w) (yl_company l) (stripe_command ck (yl_invoice_id l) payload due)
       (actor_system PAYMENTS_DEVICE_ID) s")
  case (Pair res u)
  then show thesis
    using assms that
    by (cases res) (auto simp: post_payment_def Let_def audited_def chain_act_def act_defs append_audit_def same_books_def)
qed

lemma later_run: "store_run x s t \<Longrightarrow> later x s t"
  unfolding store_run_def later_def by (rule mono_rtranclp [rule_format]) (rule later_step.store)

lemma payments_stay_trans: "payments_stay s t \<Longrightarrow> payments_stay t u \<Longrightarrow> payments_stay s u"
  by (rule settled.R_trans)

text \<open>A payment that was posted has its answer under the event's key, and its link is still there.\<close>

lemma posted_once:
  assumes "submit_document (wb_ext w) (env_of w) interfere (wb_id w) (yl_company l) (stripe_command ck invoice_id payload due) act s = (Inr out, t)"
    and "\<not> oc_replayed out" "\<And>i s. store_run (wb_ext w) s (interfere i s)"
  shows "payments_stay s t" "idempotency t (yl_company l, stripe_key ck) = Some (oc_response out)"
    "answers_for (oc_response out) ''Payment Entry'' (''PAY-STRIPE-'' @ ck_event_id ck)"
proof -
  show "payments_stay s t"
    using assms
  proof (cases rule: submit_documentE)
    case (1 s1 s2 k)
    then show ?thesis using commit_run [OF 1(4)] by (blast intro: later_stays later_run payments_stay_trans)
  qed
  show "idempotency t (yl_company l, stripe_key ck) = Some (oc_response out)"
    by (rule submit_stores_answer(1) [OF assms]) (simp_all add: stripe_command_def)
  show "answers_for (oc_response out) ''Payment Entry'' (''PAY-STRIPE-'' @ ck_event_id ck)"
    using submit_stores_answer(2) [OF assms _ store_run_refl, of "stripe_key ck"]
    by (simp add: stripe_command_def submitted_id_def)
qed

text \<open>A payment whose key has an answer is replayed.\<close>

lemma posted_again:
  assumes "idempotency s (c, stripe_key ck) = Some r" "answers_for r ''Payment Entry'' (''PAY-STRIPE-'' @ ck_event_id ck)"
  shows "submit_document x ev interfere fresh_id c (stripe_command ck invoice_id payload due) act s = (Inr \<lparr>oc_response = r, oc_replayed = True\<rparr>, s)"
  using assms bound_replay_answers [of "\<lparr>oc_response = r, oc_replayed = True\<rparr>"]
  by (simp add: submit_document_def stripe_command_def replay_def idempotent_response_def POSTED_DOCTYPES_def)

lemma chain_act_Inl:
  "chain_act m f s = (Inl e, t) \<longleftrightarrow> m s = (Inl e, t) \<or> (\<exists>a u. m s = (Inr a, u) \<and> f a u = (Inl e, t))"
  by (simp add: chain_act_def split: prod.split sum.split)

lemma found_Inl: "found v e s = (Inl e', t) \<longleftrightarrow> v = None \<and> e' = e \<and> t = s"
  by (cases v) (auto simp: found_def act_defs ok_or_def)

lemma lifted_Inl: "lifted h g s = (Inl e, t) \<longleftrightarrow> (\<exists>e'. g s = (Inl e', t) \<and> e = h e')"
  by (auto simp: lifted_def split: prod.split sum.split)

lemma either_Inl: "(case v of Inl a \<Rightarrow> give (f a) | Inr b \<Rightarrow> g b) s = (Inl e, t) \<longleftrightarrow> (\<exists>b. v = Inr b \<and> g b s = (Inl e, t))"
  by (cases v) (simp_all add: give_def)

text \<open>Every delivery takes the intake step first; past its checks it settles the checkout it carries.\<close>

lemma stripe_webhook_cases:
  assumes "stripe_webhook w interfere headers bytes s = (r, t)"
  obtains "same_books s t" "\<And>rep. r = Inr rep \<Longrightarrow> answer rep ''handled'' = Some (JBool False)"
  | event ck s1 where "ext_from_str (wb_ext w) bytes = Some event" "read_checkout w event = Inr ck"
      "same_books s s1" "pay_links s1 = pay_links s" "settle_checkout w interfere ck s1 = (r, t)"
proof -
  obtain i s1 where i: "stripe_intake w headers bytes s = (i, s1)" by fastforce
  have s1: "same_books s s1" "pay_links s1 = pay_links s"
    using i by (cases rule: stripe_intakeE; simp add: same_books_def)+
  show thesis
  proof (cases r)
    case (Inl e)
    then have "t = s1 \<or> (\<exists>event ck. ext_from_str (wb_ext w) bytes = Some event \<and> read_checkout w event = Inr ck \<and>
        settle_checkout w interfere ck s1 = (r, t))"
      using assms i
      by (auto simp: stripe_webhook_def chain_act_Inl found_Inl lifted_Inr lifted_Inl found_Inr either_Inl)
    then show thesis using that s1 Inl by blast
  next
    case (Inr rep)
    then obtain event where ev: "ext_from_str (wb_ext w) bytes = Some event"
      "(case read_checkout w event of Inl reason \<Rightarrow> give (unhandled reason) | Inr ck \<Rightarrow> settle_checkout w interfere ck) s1 = (Inr rep, t)"
      using assms i by (auto simp: stripe_webhook_def result_simps)
    show thesis
    proof (cases "read_checkout w event")
      case (Inl reason)
      then show thesis using that(1) s1 Inr ev(2) unhandled_answer by (simp add: result_simps)
    next
      case (Inr ck)
      then show thesis using that(2) [OF ev(1) Inr s1] ev(2) \<open>r = Inr rep\<close> by simp
    qed
  qed
qed

lemma read_checkout_same:
  "read_checkout w event = Inr ck \<Longrightarrow> read_checkout w' event = Inr ck' \<Longrightarrow> ck_event_id ck' = ck_event_id ck \<and> ck_token ck' = ck_token ck"
  by (auto simp: read_checkout_def result_simps Let_def)

text \<open>What a delivery that posted leaves behind.\<close>

lemma handled_leaves:
  assumes "stripe_webhook w interfere headers bytes s = (Inr rep, t)"
    and "answer rep ''handled'' = Some (JBool True)" "answer rep ''replayed'' = Some (JBool False)"
    and "\<And>i s. store_run (wb_ext w) s (interfere i s)"
  obtains event ck l r where "ext_from_str (wb_ext w) bytes = Some event" "read_checkout w event = Inr ck"
    "pay_link_by_hash t (hash_token (wb_ext w) (ck_token ck)) = Some l"
    "idempotency t (yl_company l, stripe_key ck) = Some r"
    "answers_for r ''Payment Entry'' (''PAY-STRIPE-'' @ ck_event_id ck)"
    "answer rep ''document_id'' = Some (jindex r ''document_id'')" "answer rep ''number'' = Some (jindex r ''number'')"
  using assms(1)
proof (cases rule: stripe_webhook_cases)
  case 1
  then show thesis using assms(2) by simp
next
  case (2 event ck s1)
  show thesis
  proof (cases rule: settle_checkout_cases [of w interfere ck s1])
    case (1 reason u)
    then show thesis using 2 assms(2) by (simp add: unhandled_answer)
  next
    case l: (2 l payload due)
    then have "post_payment w interfere l ck payload due s1 = (Inr rep, t)" using 2 by simp
    then show thesis
    proof (cases rule: post_paymentE)
      case (1 out u)
      have rep: "answer rep k = obj_get (obj_of [(''handled'', JBool True), (''document_id'', jindex (oc_response out) ''document_id''),
         (''number'', jindex (oc_response out) ''number''), (''replayed'', JBool (oc_replayed out))]) k" for k
        using 1(2) by (simp add: answer_def ok_json_def)
      have "\<not> oc_replayed out" using assms(3) by (simp add: rep obj_of_get)
      note p = posted_once [OF 1(1) this assms(4)]
      then obtain l' where "pay_link_by_hash u (hash_token (wb_ext w) (ck_token ck)) = Some l'" "yl_company l' = yl_company l"
        using l(1) by (auto simp: payments_stay_def)
      moreover have "pay_link_by_hash t h = pay_link_by_hash u h" for h using 1(4) by (simp add: pay_link_by_hash_def)
      moreover have "idempotency t = idempotency u" using 1(3) by (simp add: same_books_def)
      ultimately show thesis
        using p 2 by (intro that [of event ck l' "oc_response out"]) (simp_all add: rep obj_of_get)
    qed simp
  qed
qed

text \<open>C32. An event that posted a payment posts no other: however often it is delivered again, by
  whatever server and whatever happened since, the books stay as they are, and a delivery that
  answers that it was handled names the same document and number and says it is a replay.\<close>

theorem stripe_event_pays_once:
  assumes "stripe_webhook w interfere headers bytes s = (Inr rep, t)"
    and "answer rep ''handled'' = Some (JBool True)" "answer rep ''replayed'' = Some (JBool False)"
    and "\<And>i s. store_run (wb_ext w) s (interfere i s)" "later (wb_ext w) t t'" "wb_ext w' = wb_ext w"
    and "stripe_webhook w' interfere' headers' bytes t' = (res, u)"
  shows "same_books t' u \<and> (\<forall>rep'. res = Inr rep' \<and> answer rep' ''handled'' = Some (JBool True) \<longrightarrow>
    answer rep' ''document_id'' = answer rep ''document_id'' \<and> answer rep' ''number'' = answer rep ''number'' \<and>
    answer rep' ''replayed'' = Some (JBool True))"
  using assms(7)
proof (cases rule: stripe_webhook_cases)
  case again: (2 event ck' s1)
  from assms(1-4) obtain ck l r where first: "read_checkout w event = Inr ck"
    "pay_link_by_hash t (hash_token (wb_ext w) (ck_token ck)) = Some l"
    "idempotency t (yl_company l, stripe_key ck) = Some r"
    "answers_for r ''Payment Entry'' (''PAY-STRIPE-'' @ ck_event_id ck)"
    "answer rep ''document_id'' = Some (jindex r ''document_id'')" "answer rep ''number'' = Some (jindex r ''number'')"
    using again(1) assms(6) by (elim handled_leaves) auto
  note same = read_checkout_same [OF first(1) again(2)]
  have kept: "payments_stay t s1"
    using later_stays [OF assms(5)] again(3,4) by (simp add: payments_stay_def same_books_def pay_link_by_hash_def)
  show ?thesis
  proof (cases rule: settle_checkout_cases [of w' interfere' ck' s1])
    case (1 reason v)
    then have "res = Inr (unhandled reason)" "same_books t' u" using again by (auto simp: same_books_def)
    then show ?thesis using unhandled_answer [of reason] by auto
  next
    case (2 l' payload due)
    have l': "yl_company l' = yl_company l" using kept first(2) 2(1) same assms(6) by (fastforce simp: payments_stay_def)
    have key: "idempotency s1 (yl_company l', stripe_key ck') = Some r"
      using kept first(3) same l' by (auto simp: payments_stay_def stripe_key_def map_le_def dom_def)
    have sub: "submit_document x ev i f (yl_company l') (stripe_command ck' inv_id payload due) act s1 =
      (Inr \<lparr>oc_response = r, oc_replayed = True\<rparr>, s1)" for x ev i f inv_id act
      using posted_again [OF key] first(4) same by simp
    have "post_payment w' interfere' l' ck' payload due s1 = (res, u)" using again(5) 2(2) by simp
    then show ?thesis
      by (cases rule: post_paymentE)
        (use again(3) first(5,6) in \<open>auto simp: sub same_books_def answer_def ok_json_def obj_of_get\<close>)
  qed
qed fastforce

end
