(* ===== verification/Witnesses_Pay.thy ===== *)
theory Witnesses_Pay
  imports Pay_Theorems Witnesses_Api Witnesses_Store
begin

text \<open>
  Instances of the properties of the Stripe webhook: a checkout of 40 for a posted invoice of 100,
  signed with the configured secret. The keyed digest of the sample library is concatenation.
\<close>

definition checkout_event :: json where
  "checkout_event = JObj [(''data'', JObj [(''object'', JObj [(''amount_total'', JNum (JInt 4000)), (''client_reference_id'', JStr ''pt'')])]),
     (''id'', JStr ''e1''), (''type'', JStr ''checkout.session.completed'')]"

definition pay_ext :: ext where
  "pay_ext = plain_ext\<lparr>ext_from_str := (\<lambda>_. Some checkout_event)\<rparr>"

definition pay_web :: web where
  "pay_web = sample_web\<lparr>wb_ext := pay_ext, wb_config := default_config\<lparr>cf_stripe_webhook_secret := Some ''k''\<rparr>\<rparr>"

lemma pay_web_sel [simp]:
  "wb_ext pay_web = pay_ext" "cf_stripe_webhook_secret (wb_config pay_web) = Some ''k''" "wb_now pay_web = 0"
  "cf_webhook_backlog_max (wb_config pay_web) = 1000" "wb_hmac pay_web k m = k @ m" "wb_unhex pay_web h = Some h"
  "ev_now (env_of pay_web) = 0" "ev_today (env_of pay_web) = ''2026-01-15''" "wb_id pay_web = ''co''"
  by (simp_all add: pay_web_def sample_web_def default_config_def env_of_def)

definition stripe_headers :: "string \<Rightarrow> (string \<times> string) list" where
  "stripe_headers sig = [(''stripe-signature'', ''t=0,v1='' @ sig)]"

lemma parse_zero: "parse_i64 ''0'' = Some 0"
  by code_simp

lemma read_headers:
  "header_str (stripe_headers ''k0.e'') ''stripe-signature'' = Some ''t=0,v1=k0.e''"
  "header_str (stripe_headers ''x'') ''stripe-signature'' = Some ''t=0,v1=x''"
  by (simp_all add: header_str_def stripe_headers_def visible_ascii_def)

lemma read_sample_signature:
  "read_signature pay_web ''t=0,v1=k0.e'' = (Some 0, [''k0.e''])" "read_signature pay_web ''t=0,v1=x'' = (Some 0, [''x''])"
  by (simp_all add: read_signature_def signature_part_def trim_graphic graphic_def parse_zero)

lemma signed_sample: "signed_payload 0 ''e'' = ''0.e''"
  by (simp add: signed_payload_def show_int_def show_nat.simps digit_char_def char_of_48)

theorem forged_event_posts_nothing_witness:
  "\<exists>e t. stripe_webhook pay_web (\<lambda>_ s. s) (stripe_headers ''x'') ''e'' billed_store = (Inl e, t) \<and>
     (t = billed_store \<or> (\<exists>ev. t = billed_store\<lparr>webhooks := webhooks billed_store @ [ev]\<rparr>))"
  by (rule forged_event_posts_nothing) (auto simp: read_headers signed_with_def read_sample_signature signed_sample)

section \<open>The payment\<close>

definition owed_invoice :: posted_document where
  "owed_invoice = \<lparr>pd_id = ''I1'', pd_company = ''co'', pd_doctype = ''Sales Invoice'',
     pd_payload = JObj [(''customer'', JStr ''C1''), (''grand_total'', JNum (JInt 100)), (''outstanding_amount'', JNum (JInt 100))],
     pd_docstatus = 1, pd_official_number = Some ''SINV-00001'', pd_created_at = 0\<rparr>"

definition owed_link :: pay_link where
  "owed_link = \<lparr>yl_id = ''y1'', yl_company = ''co'', yl_invoice_id = ''I1'', yl_token_hash = ''pt'', yl_created_by = ''u1'',
     yl_created_at = 0, yl_expires_at = 1000, yl_revoked_at = None\<rparr>"

definition owed_store :: "webhook_event list \<Rightarrow> inner" where
  "owed_store ws = empty_store\<lparr>documents := [((''co'', ''Sales Invoice'', ''I1''), owed_invoice)],
     pay_links := [(''y1'', owed_link)], webhooks := ws\<rparr>"

lemma owed_intake:
  "\<exists>ws. stripe_intake pay_web (stripe_headers ''k0.e'') ''e'' (owed_store []) = (Inr (), owed_store ws)"
  by (simp add: stripe_intake_def check_webhook_backlog_def count_webhook_events_def chain_act_def act_defs
      insert_webhook_event_def owed_store_def) (rule exI, rule refl)

lemma owed_sel [simp]:
  "settings (owed_store ws) c = None" "settlements (owed_store ws) c = []" "company_documents (owed_store ws) = []"
  "items (owed_store ws) p = None" "stock_ledger (owed_store ws) c = []" "idempotency (owed_store ws) r = None"
  "posted_document_of (owed_store ws) ''co'' ''Payment Entry'' d = None" "solo_migrations (owed_store ws) c = None"
  "posted_document_of (owed_store ws) ''co'' ''Sales Invoice'' ''I1'' = Some owed_invoice"
  "documents (owed_store ws) = [((''co'', ''Sales Invoice'', ''I1''), owed_invoice)]"
  "pay_link_by_hash (owed_store ws) ''pt'' = Some owed_link"
  by (simp_all add: owed_store_def posted_document_of_def pay_link_by_hash_def) (simp add: owed_link_def)

lemma owed_link_sel [simp]:
  "yl_company owed_link = ''co''" "yl_invoice_id owed_link = ''I1''" "yl_revoked_at owed_link = None" "yl_expires_at owed_link = 1000"
  by (simp_all add: owed_link_def)

definition sample_checkout :: checkout where
  "sample_checkout = \<lparr>ck_event_id = ''e1'', ck_token = ''pt'', ck_cents = 4000, ck_currency = [], ck_date = None\<rparr>"

lemma read_sample_checkout: "read_checkout pay_web checkout_event = Inr sample_checkout"
  by (simp add: read_checkout_def checkout_event_def sample_checkout_def CHECKOUT_EVENT_TYPES_def str_index_def non_blank_def
      unwrap_or_default_def eval_simps jindex_def Let_def i64_max_def)

definition stripe_payment :: submit_command where
  "stripe_payment = stripe_command sample_checkout ''I1'' (pd_payload owed_invoice) (Fin 100)"

definition stripe_sent :: jmap where
  "stripe_sent = [(''paid_amount'', JNum (JFloat (Fin 40))), (''party'', JStr ''C1''), (''payment_type'', JStr ''Receive''),
     (''references'', JArr [JObj [(''allocated_amount'', JNum (JFloat (Fin 40))), (''reference_doctype'', JStr ''Sales Invoice''),
        (''reference_name'', JStr ''I1'')]])]"

lemma stripe_payment_eq: "stripe_payment = \<lparr>sc_doctype = ''Payment Entry'', sc_document_id = Some ''PAY-STRIPE-e1'',
     sc_payload = stripe_sent, sc_items = [], sc_idempotency_key = Some ''stripe-e1'', sc_offline_fiscal = False\<rparr>"
proof -
  have "paid_amount sample_checkout = Fin 40" by (simp add: paid_amount_def sample_checkout_def eval_simps)
  then show ?thesis
    by (simp add: stripe_payment_def stripe_command_def payment_payload_of_def stripe_key_def stripe_sent_def owed_invoice_def
        str_member_def fmin_def SALES_INVOICE_def eval_simps) (simp add: sample_checkout_def eval_simps)
qed

definition stripe_payload :: jmap where
  "stripe_payload = [(''items'', JArr []), (''paid_amount'', JNum (JFloat (Fin 40))), (''paid_from'', JStr ''Debtors''),
     (''paid_to'', JStr ''Cash''), (''party'', JStr ''C1''), (''payment_type'', JStr ''Receive''), (''posting_date'', JStr ''2026-01-15''),
     (''references'', JArr [JObj [(''allocated_amount'', JNum (JFloat (Fin 40))), (''reference_doctype'', JStr ''Sales Invoice''),
        (''reference_name'', JStr ''I1'')]])]"

lemma pay_real_date: "real_date pay_ext ''2026-01-15''"
  using sample_real_date by (simp add: real_date_def pay_ext_def plain_ext_def)

lemma stripe_payload_eq:
  "submit_payload pay_ext (env_of pay_web) (owed_store ws) ''co'' stripe_payment ''PAY-STRIPE-e1'' = Inr (''2026-01-15'', stripe_payload, None)"
  by (simp add: stripe_payment_eq stripe_sent_def stripe_payload_def validated_posting_date_def check_period_lock_def company_settings_of_def
      default_settings_def validate_c5_document_def resolve_account_fallbacks_def fallbacks_for_def fallback_account_def
      invoice_rules_def submit_payload_def deposit_application_def eval_simps Let_def pay_real_date)

definition stripe_ctx :: row_context where
  "stripe_ctx = \<lparr>cx_company = ''co'', cx_document_id = ''PAY-STRIPE-e1'', cx_doctype = ''Payment Entry'',
     cx_posting_date = ''2026-01-15'', cx_batch_id = ''PB-PAY-STRIPE-e1''\<rparr>"

lemma stripe_rows:
  fixes dr ws defines "dr \<equiv> derive_rows pay_ext (owed_store ws) stripe_ctx stripe_payload"
  shows "map gl_account (dr_gl dr) = [''Debtors'', ''Cash'']" "map gl_debit (dr_gl dr) = [Fin 0, Fin 40]"
    "map gl_credit (dr_gl dr) = [Fin 40, Fin 0]" "dr_ledgers dr = empty_ledgers"
  unfolding dr_def
  by (simp_all add: stripe_ctx_def stripe_payload_def eval_simps engine_eval payment_gl_def
      stamp_base_amounts_def stamp_gl_def conversion_rate_of_def Let_def)

definition stripe_settlement :: settlement where
  "stripe_settlement = payment_settlement\<lparr>st_id := ''STL-PAY-STRIPE-e1-0'', st_payment_voucher_no := ''PAY-STRIPE-e1'',
     st_batch_id := ''PB-PAY-STRIPE-e1''\<rparr>"

lemma stripe_settlements: "derive_settlements stripe_ctx stripe_payload = [stripe_settlement]"
  by (simp add: stripe_ctx_def stripe_payload_def eval_simps derive_settlements_def settlement_row_def array_of_def object_rows_def
      List.map_filter_simps stripe_settlement_def payment_settlement_def digit_char_def char_of_48)

lemma stripe_valid: "validate_payment_submit stripe_payload [stripe_settlement] = Inr ()"
proof -
  have "\<not> Fin 40 + MONEY_EPS < Fin 40"
  proof -
    obtain e where e: "MONEY_EPS = Fin e" "1 / 256 \<le> e" by (rule MONEY_EPS_Fin)
    then have "Fin 40 \<le> rnd (40 + e)" using rnd_mono [of 40 "40 + e"] rnd_int [of 40] by simp
    then show ?thesis unfolding e(1) by (cases "rnd (40 + e)") (auto simp: less_eq_f64_def)
  qed
  then show ?thesis
    by (simp add: validate_payment_submit_def stripe_payload_def stripe_settlement_def payment_settlement_def payment_allocation_def
        SETTLEABLE_DOCTYPES_def eval_simps Let_def)
qed

lemma stripe_updates: "\<exists>ups. payment_outstanding_updates (owed_store ws) ''co'' [stripe_settlement] True = Inr ups"
proof -
  have "\<not> Fin 100 + MONEY_EPS < Fin 40"
  proof -
    obtain e where e: "MONEY_EPS = Fin e" "1 / 256 \<le> e" by (rule MONEY_EPS_Fin)
    then have "Fin 100 \<le> rnd (100 + e)" using rnd_mono [of 100 "100 + e"] rnd_int [of 100] by simp
    then show ?thesis unfolding e(1) by (cases "rnd (100 + e)") (auto simp: less_eq_f64_def)
  qed
  then show ?thesis
    by (simp add: payment_outstanding_updates_def outstanding_update_def stripe_settlement_def payment_settlement_def
        settlements_for_invoice_def outstanding_amount_def owed_invoice_def eval_simps Let_def)
qed

lemma stripe_build:
  "\<exists>ups. build_submit pay_ext (env_of pay_web) (owed_store ws) ''co'' stripe_payment ''PAY-STRIPE-e1'' act =
     Inr (submit_commit (env_of pay_web) ''co'' stripe_payment ''PAY-STRIPE-e1'' act ''2026-01-15'' stripe_payload None
       (derive_rows pay_ext (owed_store ws) stripe_ctx stripe_payload) [] [stripe_settlement] ups)"
proof -
  obtain ups where ups: "payment_outstanding_updates (owed_store ws) ''co'' [stripe_settlement] True = Inr ups"
    using stripe_updates by blast
  let ?dr = "derive_rows pay_ext (owed_store ws) stripe_ctx stripe_payload"
  have "check_balanced (dr_gl ?dr) = Inr ()"
    unfolding check_balanced_def stripe_rows by (simp add: BALANCE_TOLERANCE_eq fsum_eval eval_simps minus_f64_def abs_f64_def)
  moreover have "check_group_accounts (owed_store ws) ''co'' (dr_gl ?dr) = Inr ()"
    unfolding check_group_accounts_def stripe_rows
    by (simp add: group_account_step_def company_document_of_def sort_dedup_def insort_key.simps eval_simps)
  moreover have "sc_doctype stripe_payment = ''Payment Entry''" "\<not> sc_offline_fiscal stripe_payment" by (simp_all add: stripe_payment_eq)
  ultimately show ?thesis
    using stripe_settlements stripe_valid ups stripe_rows(4) [of ws]
    by (intro exI [of _ ups]) (simp add: build_submit_def stripe_payload_eq stripe_ctx_def [symmetric] Let_def check_negative_stock_def
        empty_ledgers_def)
qed

lemma stripe_submit:
  "\<exists>out t. submit_document pay_ext (env_of pay_web) (\<lambda>_ s. s) ''co'' ''co'' stripe_payment act (owed_store ws) = (Inr out, t)
     \<and> \<not> oc_replayed out"
proof -
  obtain ups where b: "build_submit pay_ext (env_of pay_web) (owed_store ws) ''co'' stripe_payment ''PAY-STRIPE-e1'' act =
     Inr (submit_commit (env_of pay_web) ''co'' stripe_payment ''PAY-STRIPE-e1'' act ''2026-01-15'' stripe_payload None
       (derive_rows pay_ext (owed_store ws) stripe_ctx stripe_payload) [] [stripe_settlement] ups)" (is "_ = Inr ?k")
    using stripe_build by blast
  have "commit_checks (owed_store ws) ?k = Inr ()"
    using stripe_rows(4) [of ws]
    by (simp add: commit_checks_def lock_check_def deposit_check_def solo_check_def existence_check_def number_check_def
        till_check_def submit_commit_def stripe_payment_eq lock_violation_def current_lock_def expectations_def doc_key_of_def
        empty_ledgers_def ensure_def Let_def)
  moreover have "replayed_response (owed_store ws) ?k = None" by (simp add: replayed_response_def submit_commit_def stripe_payment_eq Let_def)
  ultimately have p: "posting_commit pay_ext 0 ?k (owed_store ws) =
      (Inr \<lparr>oc_response = numbered_response (owed_store ws) ?k, oc_replayed = False\<rparr>, commit_apply pay_ext 0 ?k (owed_store ws))"
    by (simp add: posting_commit_def)
  have "replay (owed_store ws) ''co'' (Some ''stripe-e1'') = None" by (simp add: replay_def idempotent_response_def)
  moreover have "sc_doctype stripe_payment = ''Payment Entry''" "sc_document_id stripe_payment = Some ''PAY-STRIPE-e1''"
    "sc_idempotency_key stripe_payment = Some ''stripe-e1''" "\<not> sc_offline_fiscal stripe_payment"
    by (simp_all add: stripe_payment_eq)
  moreover have "commit_loop MAX_RETRIES (\<lambda>s. build_submit pay_ext (env_of pay_web) s ''co'' stripe_payment ''PAY-STRIPE-e1'' act)
      (\<lambda>_ s. s) pay_ext 0 ''Payment Entry'' ''PAY-STRIPE-e1'' (owed_store ws) =
      (Inr \<lparr>oc_response = numbered_response (owed_store ws) ?k, oc_replayed = False\<rparr>, commit_apply pay_ext 0 ?k (owed_store ws))"
    by (rule commit_loop_first [where k = ?k]) (simp_all add: b p)
  ultimately show ?thesis by (simp add: submit_document_def POSTED_DOCTYPES_def Let_def)
qed

lemma stripe_delivered:
  "\<exists>rep t. stripe_webhook pay_web (\<lambda>_ s. s) (stripe_headers ''k0.e'') ''e'' (owed_store []) = (Inr rep, t) \<and>
     answer rep ''handled'' = Some (JBool True) \<and> answer rep ''replayed'' = Some (JBool False)"
proof -
  obtain ws where i: "stripe_intake pay_web (stripe_headers ''k0.e'') ''e'' (owed_store []) = (Inr (), owed_store ws)"
    using owed_intake by blast
  have v: "verify_stripe_signature pay_web ''k'' ''t=0,v1=k0.e'' ''e'' 0 = Inr ()"
    by (simp add: verify_stripe_signature_def read_sample_signature signed_sample MAX_SIGNATURE_SKEW_SECONDS_def i64_wrap_def i64_max_def
        ok_or_def ensure_def)
  have e: "ext_from_str pay_ext ''e'' = Some checkout_event" "hash_token pay_ext k = k" for k
    by (simp_all add: pay_ext_def hash_token_def plain_ext_def sample_ext_def)
  have due: "as_num (jget (pd_payload owed_invoice) ''outstanding_amount'') = Fin 100" "pd_docstatus owed_invoice = 1"
    by (simp_all add: owed_invoice_def eval_simps)
  have eps: "\<not> Fin 100 < PAID_EPSILON"
  proof -
    have "rnd (5 / 1000) \<le> Fin 100" using rnd_mono [of "5 / 1000" 100] rnd_int [of 100] by simp
    then show ?thesis unfolding PAID_EPSILON_def by (cases "rnd (5 / 1000)") (auto simp: less_eq_f64_def)
  qed
  obtain out t where s: "submit_document pay_ext (env_of pay_web) (\<lambda>_ s. s) ''co'' ''co'' stripe_payment
      (actor_system PAYMENTS_DEVICE_ID) (owed_store ws) = (Inr out, t)" "\<not> oc_replayed out"
    using stripe_submit by blast
  have tok: "ck_token sample_checkout = ''pt''" by (simp add: sample_checkout_def)
  have "settle_checkout pay_web (\<lambda>_ s. s) sample_checkout (owed_store ws) =
      post_payment pay_web (\<lambda>_ s. s) owed_link sample_checkout (pd_payload owed_invoice) (Fin 100) (owed_store ws)"
    by (simp add: settle_checkout_def chain_act_def ask_def e tok due eps SALES_INVOICE_def Let_def)
  then show ?thesis
    using s
    by (simp add: stripe_webhook_def chain_act_def i found_def lifted_def ok_or_def read_headers v e read_sample_checkout
        post_payment_def stripe_payment_def [symmetric] audited_def act_defs Let_def answer_def ok_json_def obj_of_get)
qed

theorem stripe_event_pays_once_witness:
  "\<exists>rep t res u. stripe_webhook pay_web (\<lambda>_ s. s) (stripe_headers ''k0.e'') ''e'' (owed_store []) = (Inr rep, t) \<and>
     stripe_webhook pay_web (\<lambda>_ s. s) (stripe_headers ''k0.e'') ''e'' t = (res, u) \<and> same_books t u"
proof -
  obtain rep t where d: "stripe_webhook pay_web (\<lambda>_ s. s) (stripe_headers ''k0.e'') ''e'' (owed_store []) = (Inr rep, t)"
    "answer rep ''handled'' = Some (JBool True)" "answer rep ''replayed'' = Some (JBool False)"
    using stripe_delivered by blast
  obtain res u where r: "stripe_webhook pay_web (\<lambda>_ s. s) (stripe_headers ''k0.e'') ''e'' t = (res, u)" by fastforce
  have "later (wb_ext pay_web) t t" by (simp add: later_def)
  from stripe_event_pays_once [OF d _ this refl r] d(1) r show ?thesis by auto
qed

end
