(* ===== verification/Pg_Tables.thy ===== *)
theory Pg_Tables
  imports Mem_Identity Mem_Commit
begin

text \<open>
  The database of \<^verbatim>\<open>src/src/store/pg.rs\<close>: one list of rows per table of \<^verbatim>\<open>src/migrations\<close>, in insertion order,
  with its primary key, unique, foreign key and check constraints, and the few SQL statements the code
  uses. A statement that violates a constraint is an error of the driver, which every caller passes
  on; a transaction that ends in an error leaves the database as it was, but for the identity of the
  stock ledger rows, which PostgreSQL does not roll back. A method of the store is one step: the
  writers that read first do so under the advisory lock of the company, or under its counter row.

  A \<open>jsonb\<close> column returns the value written to it. Columns that hold a value of the program through
  \<open>serde_json\<close> (a mutation record, an item) hold that value here; the settings, into which SQL
  writes a member, are JSON. Text columns of enumerations hold the enumeration, the role apart, which
  the code parses with an error of its own.
\<close>

section \<open>Statements\<close>

text \<open>\<open>insert\<close> into a table with a key, under the other constraints of the row.\<close>

definition insert_row :: "('r \<Rightarrow> 'k) \<Rightarrow> ('r \<Rightarrow> bool) \<Rightarrow> 'r \<Rightarrow> 'r list \<Rightarrow> 'r list option" where
  "insert_row key ok r rows = (if ok r \<and> key r \<notin> key ` set rows then Some (rows @ [r]) else None)"

text \<open>\<open>insert \<dots> on conflict (key) do nothing\<close>, and \<open>do update\<close> with a function of the old and the new row.\<close>

definition insert_or_keep :: "('r \<Rightarrow> 'k) \<Rightarrow> ('r \<Rightarrow> bool) \<Rightarrow> 'r \<Rightarrow> 'r list \<Rightarrow> 'r list option" where
  "insert_or_keep key ok r rows =
     (if \<not> ok r then None else if key r \<in> key ` set rows then Some rows else Some (rows @ [r]))"

definition update_where :: "('r \<Rightarrow> bool) \<Rightarrow> ('r \<Rightarrow> 'r) \<Rightarrow> 'r list \<Rightarrow> 'r list" where
  "update_where P f rows = map (\<lambda>r. if P r then f r else r) rows"

definition insert_or_update :: "('r \<Rightarrow> 'k) \<Rightarrow> ('r \<Rightarrow> bool) \<Rightarrow> ('r \<Rightarrow> 'r \<Rightarrow> 'r) \<Rightarrow> 'r \<Rightarrow> 'r list \<Rightarrow> 'r list option" where
  "insert_or_update key ok upd r rows =
     (if \<not> ok r then None
      else if key r \<in> key ` set rows then Some (update_where (\<lambda>q. key q = key r) (\<lambda>q. upd q r) rows)
      else Some (rows @ [r]))"

text \<open>\<open>limit\<close>, which refuses a negative number.\<close>

definition sql_limit :: "int \<Rightarrow> 'r list \<Rightarrow> 'r list option" where
  "sql_limit n rows = (if n < 0 then None else Some (take (nat n) rows))"

section \<open>Tables\<close>

record membership_row =
  mb_user :: uuid
  mb_company :: uuid
  mb_role :: string
  mb_created_at :: int

record token_row =
  tk_hash :: string
  tk_user :: uuid
  tk_company :: uuid
  tk_expires_at :: "int option"

record mutation_row =
  mt_company :: uuid
  mt_id :: string
  mt_version :: int
  mt_record :: mutation_record
  mt_acknowledged :: bool
  mt_chain_hash :: "string option"

record counter_row =
  ct_company :: uuid
  ct_last_version :: int
  ct_last_hash :: "string option"

record db =
  t_companies :: "company list"
  t_users :: "user list"
  t_memberships :: "membership_row list"
  t_invitations :: "invitation list"
  t_devices :: "device list"
  t_user_tokens :: "token_row list"
  t_mutations :: "mutation_row list"
  t_sync_counters :: "counter_row list"
  t_blobs :: "(uuid \<times> string \<times> string) list"
  t_audit_log :: "audit_entry list"
  t_webhook_events :: "webhook_event list"
  t_company_settings :: "(uuid \<times> json) list"
  t_items :: "(uuid \<times> item) list"
  t_documents :: "posted_document list"
  t_numbering_series :: "((uuid \<times> string) \<times> int) list"
  t_gl_entries :: "gl_entry list"
  t_stock_ledger :: "stock_ledger_entry list"
  t_sle_identity :: int
  t_bins :: "bin list"
  t_settlements :: "settlement list"
  t_posting_batches :: "posting_batch list"
  t_idempotency_keys :: "((uuid \<times> string) \<times> json) list"
  t_company_documents :: "company_document list"
  t_portal_links :: "portal_link list"
  t_pay_links :: "pay_link list"
  t_party_transactions :: "party_transaction list"
  t_tax_transactions :: "tax_transaction list"
  t_solo_migrations :: "(uuid \<times> string \<times> string \<times> string) list"
  t_history_recoveries :: "((uuid \<times> string) \<times> json) list"

definition empty_db :: db where
  "empty_db = \<lparr>t_companies = [], t_users = [], t_memberships = [], t_invitations = [], t_devices = [], t_user_tokens = [],
     t_mutations = [], t_sync_counters = [], t_blobs = [], t_audit_log = [], t_webhook_events = [], t_company_settings = [],
     t_items = [], t_documents = [], t_numbering_series = [], t_gl_entries = [], t_stock_ledger = [], t_sle_identity = 0,
     t_bins = [], t_settlements = [], t_posting_batches = [], t_idempotency_keys = [], t_company_documents = [],
     t_portal_links = [], t_pay_links = [], t_party_transactions = [], t_tax_transactions = [], t_solo_migrations = [],
     t_history_recoveries = []\<rparr>"

section \<open>Foreign keys\<close>

definition company_exists :: "db \<Rightarrow> uuid \<Rightarrow> bool" where
  "company_exists s c \<longleftrightarrow> c \<in> co_id ` set (t_companies s)"

definition user_exists :: "db \<Rightarrow> uuid \<Rightarrow> bool" where
  "user_exists s u \<longleftrightarrow> u \<in> us_id ` set (t_users s)"

definition device_exists :: "db \<Rightarrow> uuid \<Rightarrow> bool" where
  "device_exists s d \<longleftrightarrow> d \<in> de_id ` set (t_devices s)"

text \<open>A nullable reference.\<close>

definition opt_ref :: "('a \<Rightarrow> bool) \<Rightarrow> 'a option \<Rightarrow> bool" where
  "opt_ref P v \<longleftrightarrow> (case v of None \<Rightarrow> True | Some a \<Rightarrow> P a)"

section \<open>Programs over the database\<close>

type_synonym 'a dbm = "db \<Rightarrow> (store_error + 'a) \<times> db"

definition and_run :: "'a dbm \<Rightarrow> ('a \<Rightarrow> 'b dbm) \<Rightarrow> 'b dbm" where
  "and_run m f s = (case m s of (Inl e, t) \<Rightarrow> (Inl e, t) | (Inr a, t) \<Rightarrow> f a t)"

definition yields :: "'a \<Rightarrow> 'a dbm" where
  "yields a s = (Inr a, s)"

definition refuse :: "store_error \<Rightarrow> 'a dbm" where
  "refuse e s = (Inl e, s)"

definition from_result :: "(db \<Rightarrow> store_error + 'a) \<Rightarrow> 'a dbm" where
  "from_result f s = (f s, s)"

text \<open>A query, and a statement, whose failure is an error of the driver.\<close>

definition query :: "(db \<Rightarrow> 'a) \<Rightarrow> 'a dbm" where
  "query f s = (Inr (f s), s)"

definition execute :: "(db \<Rightarrow> db option) \<Rightarrow> unit dbm" where
  "execute f s = (case f s of Some t \<Rightarrow> (Inr (), t) | None \<Rightarrow> (Inl Internal, s))"

definition transaction :: "'a dbm \<Rightarrow> 'a dbm" where
  "transaction m s = (case m s of (Inl e, t) \<Rightarrow> (Inl e, s\<lparr>t_sle_identity := t_sle_identity t\<rparr>) | (Inr a, t) \<Rightarrow> (Inr a, t))"

fun for_each :: "('a \<Rightarrow> unit dbm) \<Rightarrow> 'a list \<Rightarrow> unit dbm" where
  "for_each f [] = yields ()"
| "for_each f (a # as) = and_run (f a) (\<lambda>_. for_each f as)"

lemmas dbm_defs = and_run_def yields_def refuse_def from_result_def query_def execute_def

declare dbm_defs [eval_simps]

lemma and_run_Inr: "and_run m f s = (Inr b, t) \<longleftrightarrow> (\<exists>a u. m s = (Inr a, u) \<and> f a u = (Inr b, t))"
  by (simp add: and_run_def split: prod.split sum.split)

lemma yields_Inr: "yields a s = (Inr b, t) \<longleftrightarrow> b = a \<and> t = s"
  by (auto simp: yields_def)

lemma query_Inr: "query f s = (Inr b, t) \<longleftrightarrow> b = f s \<and> t = s"
  by (auto simp: query_def)

lemma execute_Inr: "execute f s = (Inr u, t) \<longleftrightarrow> f s = Some t"
  by (simp add: execute_def split: option.split)

lemma refuse_Inr: "refuse e s = (Inr b, t) \<longleftrightarrow> False"
  by (simp add: refuse_def)

lemma from_result_Inr: "from_result f s = (Inr b, t) \<longleftrightarrow> f s = Inr b \<and> t = s"
  by (auto simp: from_result_def)

lemmas dbm_Inr = and_run_Inr yields_Inr query_Inr execute_Inr refuse_Inr from_result_Inr

text \<open>A transaction that fails has changed nothing.\<close>

lemma transaction_failed: "transaction m s = (Inl e, t) \<Longrightarrow> t = s\<lparr>t_sle_identity := t_sle_identity t\<rparr>"
  by (auto simp: transaction_def split: prod.splits sum.splits)

lemma transaction_Inr: "transaction m s = (Inr a, t) \<longleftrightarrow> m s = (Inr a, t)"
  by (simp add: transaction_def split: prod.split sum.split)

end
