(* ===== verification/Pg_Log.thy ===== *)
theory Pg_Log
  imports Pg_Tables
begin

text \<open>
  The mutation log, its read model and its history in \<^verbatim>\<open>src/src/store/pg.rs\<close>. The counter row of a company,
  locked by \<open>for update\<close>, makes an append one step; \<open>db_chain_tip\<close> links the rows that carry no chain
  value yet, those an older server wrote, before the chain is extended.
\<close>

section \<open>Rows of a company\<close>

definition log_rows :: "db \<Rightarrow> uuid \<Rightarrow> mutation_row list" where
  "log_rows s c = sort_key mt_version (filter (\<lambda>r. mt_company r = c) (t_mutations s))"

definition counter_of :: "db \<Rightarrow> uuid \<Rightarrow> counter_row option" where
  "counter_of s c = find (\<lambda>r. ct_company r = c) (t_sync_counters s)"

definition version_of :: "db \<Rightarrow> uuid \<Rightarrow> string \<Rightarrow> int option" where
  "version_of s c i = map_option mt_version (find (\<lambda>r. mt_company r = c \<and> mt_id r = i) (t_mutations s))"

section \<open>The read model\<close>

definition cd_key :: "company_document \<Rightarrow> doc_key" where
  "cd_key d = (cd_company d, cd_doctype d, cd_document_id d)"

definition db_company_document :: "db \<Rightarrow> uuid \<Rightarrow> string \<Rightarrow> string \<Rightarrow> company_document option" where
  "db_company_document s c doctype d = find (\<lambda>r. cd_key r = (c, doctype, d)) (t_company_documents s)"

definition db_company_documents :: "db \<Rightarrow> uuid \<Rightarrow> string \<Rightarrow> company_document list" where
  "db_company_documents s c doctype =
     sort_key cd_document_id (filter (\<lambda>r. cd_company r = c \<and> cd_doctype r = doctype) (t_company_documents s))"

definition db_apply_projection :: "ext \<Rightarrow> int \<Rightarrow> uuid \<Rightarrow> mutation_record \<Rightarrow> unit dbm" where
  "db_apply_projection x now c record =
     and_run (query (\<lambda>s. db_company_document s c (mr_doc_type record) (mr_document_id record))) (\<lambda>existing.
     case fold_mutation x existing record c now of
       Upsert doc \<Rightarrow> execute (\<lambda>s. map_option (\<lambda>rows. s\<lparr>t_company_documents := rows\<rparr>)
         (insert_or_update cd_key (\<lambda>r. company_exists s (cd_company r))
           (\<lambda>old new. old\<lparr>cd_payload := cd_payload new, cd_children := cd_children new,
              cd_docstatus := cd_docstatus new, cd_updated_at := cd_updated_at new\<rparr>)
           (doc\<lparr>cd_company := c\<rparr>) (t_company_documents s)))
     | Delete \<Rightarrow> execute (\<lambda>s. Some (s\<lparr>t_company_documents :=
         filter (\<lambda>r. cd_key r \<noteq> (c, mr_doc_type record, mr_document_id record)) (t_company_documents s)\<rparr>))
     | Keep \<Rightarrow> yields ())"

section \<open>The chain\<close>

definition ensure_counter :: "uuid \<Rightarrow> unit dbm" where
  "ensure_counter c = execute (\<lambda>s. map_option (\<lambda>rows. s\<lparr>t_sync_counters := rows\<rparr>)
     (insert_or_keep ct_company (\<lambda>r. company_exists s (ct_company r))
       \<lparr>ct_company = c, ct_last_version = 0, ct_last_hash = None\<rparr> (t_sync_counters s)))"

definition counter_row_of :: "uuid \<Rightarrow> counter_row dbm" where
  "counter_row_of c = from_result (\<lambda>s. ok_or (counter_of s c) Internal)"

definition set_last_hash :: "uuid \<Rightarrow> string \<Rightarrow> unit dbm" where
  "set_last_hash c h = execute (\<lambda>s. Some (s\<lparr>t_sync_counters :=
     update_where (\<lambda>r. ct_company r = c) (\<lambda>r. r\<lparr>ct_last_hash := Some h\<rparr>) (t_sync_counters s)\<rparr>))"

definition set_chain_hash :: "uuid \<Rightarrow> int \<Rightarrow> string \<Rightarrow> db \<Rightarrow> db" where
  "set_chain_hash c v h s = s\<lparr>t_mutations :=
     update_where (\<lambda>r. mt_company r = c \<and> mt_version r = v) (\<lambda>r. r\<lparr>mt_chain_hash := Some h\<rparr>) (t_mutations s)\<rparr>"

text \<open>The loop that links the rows above the newest linked one.\<close>

fun link_rows :: "ext \<Rightarrow> uuid \<Rightarrow> mutation_row list \<Rightarrow> string \<Rightarrow> string dbm" where
  "link_rows x c [] tip = yields tip"
| "link_rows x c (r # rs) tip =
     (let tip' = link x tip (mt_version r) (mt_id r) (mutation_to_json (mt_record r)) in
      and_run (execute (\<lambda>s. Some (set_chain_hash c (mt_version r) tip' s))) (\<lambda>_. link_rows x c rs tip'))"

definition chain_anchor :: "db \<Rightarrow> uuid \<Rightarrow> int \<times> string" where
  "chain_anchor s c =
     (case filter (\<lambda>r. mt_chain_hash r \<noteq> None) (rev (log_rows s c)) of
        r # _ \<Rightarrow> (mt_version r, the (mt_chain_hash r))
      | [] \<Rightarrow> (0, GENESIS))"

definition db_chain_tip :: "ext \<Rightarrow> uuid \<Rightarrow> int \<Rightarrow> string dbm" where
  "db_chain_tip x c head =
     (if head = 0 then yields GENESIS
      else
        and_run (counter_row_of c) (\<lambda>cached.
        and_run (query (\<lambda>s. chain_anchor s c)) (\<lambda>(from, tip).
        if from = head \<and> ct_last_hash cached = Some tip then yields tip
        else
          and_run (query (\<lambda>s. filter (\<lambda>r. from < mt_version r) (log_rows s c))) (\<lambda>rows.
          and_run (link_rows x c rows tip) (\<lambda>tip'.
          and_run (set_last_hash c tip') (\<lambda>_. yields tip'))))))"

section \<open>Appending\<close>

definition insert_mutation :: "uuid \<Rightarrow> int \<Rightarrow> string \<Rightarrow> mutation_record \<Rightarrow> unit dbm" where
  "insert_mutation c v h record = execute (\<lambda>s. map_option (\<lambda>rows. s\<lparr>t_mutations := rows\<rparr>)
     (insert_row (\<lambda>r. (mt_company r, mt_id r))
       (\<lambda>r. company_exists s (mt_company r) \<and> (mt_company r, mt_version r) \<notin> (\<lambda>q. (mt_company q, mt_version q)) ` set (t_mutations s))
       \<lparr>mt_company = c, mt_id = mr_id record, mt_version = v, mt_record = record, mt_acknowledged = False,
        mt_chain_hash = Some h\<rparr> (t_mutations s)))"

fun append_rows :: "ext \<Rightarrow> int \<Rightarrow> uuid \<Rightarrow> mutation_record list \<Rightarrow> int \<Rightarrow> string \<Rightarrow> ((string \<times> int) list \<times> int \<times> string) dbm" where
  "append_rows x now c [] head tip = yields ([], head, tip)"
| "append_rows x now c (record # records) head tip =
     and_run (query (\<lambda>s. version_of s c (mr_id record))) (\<lambda>existing.
     case existing of
       Some v \<Rightarrow>
         and_run (append_rows x now c records head tip) (\<lambda>(vs, head', tip').
         yields ((mr_id record, v) # vs, head', tip'))
     | None \<Rightarrow>
         let v = i64_succ head; h = link x tip v (mr_id record) (mutation_to_json record) in
         and_run (insert_mutation c v h record) (\<lambda>_.
         and_run (db_apply_projection x now c record) (\<lambda>_.
         and_run (append_rows x now c records v h) (\<lambda>(vs, head', tip').
         yields ((mr_id record, v) # vs, head', tip')))))"

definition set_counter :: "uuid \<Rightarrow> int \<Rightarrow> string \<Rightarrow> unit dbm" where
  "set_counter c v h = execute (\<lambda>s. Some (s\<lparr>t_sync_counters :=
     update_where (\<lambda>r. ct_company r = c) (\<lambda>r. r\<lparr>ct_last_version := v, ct_last_hash := Some h\<rparr>) (t_sync_counters s)\<rparr>))"

definition db_append_mutations :: "ext \<Rightarrow> int \<Rightarrow> uuid \<Rightarrow> mutation_record list \<Rightarrow> (string \<times> int) list dbm" where
  "db_append_mutations x now c ms =
     and_run (ensure_counter c) (\<lambda>_.
     and_run (counter_row_of c) (\<lambda>row.
     and_run (db_chain_tip x c (ct_last_version row)) (\<lambda>tip.
     and_run (append_rows x now c ms (ct_last_version row) tip) (\<lambda>(vs, v, h).
     and_run (set_counter c v h) (\<lambda>_. yields vs)))))"

definition db_push_mutations :: "ext \<Rightarrow> int \<Rightarrow> uuid \<Rightarrow> mutation_record list \<Rightarrow> (string \<times> int) list dbm" where
  "db_push_mutations x now c ms = transaction (db_append_mutations x now c ms)"

section \<open>Reading\<close>

definition db_pull_mutations :: "db \<Rightarrow> uuid \<Rightarrow> int \<Rightarrow> int \<Rightarrow> store_error + mutation_page" where
  "db_pull_mutations s c after page =
     and_then (ok_or (sql_limit (min i64_max (page + 1)) (filter (\<lambda>r. after < mt_version r) (log_rows s c))) Internal) (\<lambda>rows.
     let out = map (\<lambda>r. (mt_record r)\<lparr>mr_sync_version := Some (show_int (mt_version r))\<rparr>) rows;
         limit = (if page < 0 then 0 else nat page) in
     Inr \<lparr>pg_mutations = take limit out, pg_has_more = limit < length out,
       pg_head = max_or 0 (map mt_version (filter (\<lambda>r. mt_company r = c) (t_mutations s)))\<rparr>)"

definition db_history_checkpoint :: "ext \<Rightarrow> uuid \<Rightarrow> int \<Rightarrow> history_checkpoint dbm" where
  "db_history_checkpoint x c v = transaction (
     and_run (ensure_counter c) (\<lambda>_.
     and_run (counter_row_of c) (\<lambda>row.
     let head = ct_last_version row in
     and_run (db_chain_tip x c head) (\<lambda>head_hash.
     and_run (query (\<lambda>s.
       if v \<le> 0 then Some GENESIS
       else if head < v then None
       else Option.bind (find (\<lambda>r. mt_company r = c \<and> mt_version r = v) (t_mutations s)) mt_chain_hash)) (\<lambda>at_hash.
     yields \<lparr>hc_protocol = HISTORY_PROTOCOL, hc_head = head, hc_head_hash = ext_hex x head_hash, hc_at = max v 0,
       hc_at_hash = map_option (ext_hex x) at_hash\<rparr>)))))"

definition db_ack_mutations :: "uuid \<Rightarrow> string list \<Rightarrow> db \<Rightarrow> nat \<times> db" where
  "db_ack_mutations c ids s =
     (let hit = (\<lambda>r. mt_company r = c \<and> mt_id r \<in> set ids \<and> \<not> mt_acknowledged r) in
      (length (filter hit (t_mutations s)),
       s\<lparr>t_mutations := update_where hit (\<lambda>r. r\<lparr>mt_acknowledged := True\<rparr>) (t_mutations s)\<rparr>))"

definition db_known_mutation_ids :: "db \<Rightarrow> uuid \<Rightarrow> string list \<Rightarrow> string set" where
  "db_known_mutation_ids s c ids = mt_id ` set (filter (\<lambda>r. mt_company r = c \<and> mt_id r \<in> set ids) (t_mutations s))"

definition db_rebuild_projection :: "ext \<Rightarrow> int \<Rightarrow> uuid \<Rightarrow> unit dbm" where
  "db_rebuild_projection x now c = transaction (
     and_run (execute (\<lambda>s. Some (s\<lparr>t_company_documents := filter (\<lambda>r. cd_company r \<noteq> c) (t_company_documents s)\<rparr>))) (\<lambda>_.
     and_run (query (\<lambda>s. map mt_record (log_rows s c))) (\<lambda>records.
     for_each (db_apply_projection x now c) records)))"

end
