(* ===== verification/Pg_Store.thy ===== *)
theory Pg_Store
  imports Pg_Log Api_Posting
begin

text \<open>
  The methods of \<open>PgStore\<close> in \<^verbatim>\<open>src/src/store/pg.rs\<close> on identities, settings, items, links, the audit
  feed and the posted tables; the log is in the theory of the log and the posting transaction in the
  one of the commit. A method that writes is a program over the database, one that reads a function
  of it. What PostgreSQL computes on \<open>jsonb\<close> beyond members is a parameter: the text \<open>->>\<close> gives of a
  value that is neither null nor a string, and the value \<open>to_jsonb\<close> gives of a double. Text columns
  are ordered by their bytes.
\<close>

record pgsql =
  pg_text :: "json \<Rightarrow> string"
  pg_float :: "f64 \<Rightarrow> json"

section \<open>Statements on one table\<close>

definition insert_into :: "(db \<Rightarrow> 'r list) \<Rightarrow> ('r list \<Rightarrow> db \<Rightarrow> db) \<Rightarrow> ('r \<Rightarrow> 'k) \<Rightarrow> (db \<Rightarrow> 'r \<Rightarrow> bool) \<Rightarrow> 'r \<Rightarrow> unit dbm" where
  "insert_into get put key ok r = execute (\<lambda>s. map_option (\<lambda>rows. put rows s) (insert_row key (ok s) r (get s)))"

text \<open>\<open>collect\<close> into a \<open>Result\<close>: the first error, or every value.\<close>

primrec collect_results :: "('a \<Rightarrow> 'e + 'b) \<Rightarrow> 'a list \<Rightarrow> 'e + 'b list" where
  "collect_results f [] = Inr []"
| "collect_results f (a # as) = and_then (f a) (\<lambda>b. and_then (collect_results f as) (\<lambda>bs. Inr (b # bs)))"

text \<open>The operator \<open>->>\<close>.\<close>

definition json_arrow_text :: "pgsql \<Rightarrow> json \<Rightarrow> string \<Rightarrow> string option" where
  "json_arrow_text p j k = (case jget j k of
       None \<Rightarrow> None
     | Some JNull \<Rightarrow> None
     | Some (JStr v) \<Rightarrow> Some v
     | Some v \<Rightarrow> Some (pg_text p v))"

text \<open>\<open>jsonb_set\<close> on one member: an object gets the member; a scalar, or an array under a name, is an error.\<close>

definition jsonb_set :: "json \<Rightarrow> string \<Rightarrow> json \<Rightarrow> json option" where
  "jsonb_set j k v = (case j of
       JObj m \<Rightarrow> Some (JObj (obj_insert k v m))
     | _ \<Rightarrow> None)"

section \<open>Companies, users and memberships\<close>

definition parse_role :: "string \<Rightarrow> store_error + role" where
  "parse_role raw = ok_or (role_parse raw) Internal"

definition db_create_company :: "int \<Rightarrow> uuid \<Rightarrow> string \<Rightarrow> company dbm" where
  "db_create_company now fresh name =
     (let co = \<lparr>co_id = fresh, co_name = name, co_created_at = now\<rparr> in
      and_run (insert_into t_companies (\<lambda>rows. t_companies_update (\<lambda>_. rows)) co_id (\<lambda>_ _. True) co) (\<lambda>_. yields co))"

definition db_company :: "db \<Rightarrow> uuid \<Rightarrow> company option" where
  "db_company s c = find (\<lambda>r. co_id r = c) (t_companies s)"

text \<open>\<open>on conflict (email) do update set email = excluded.email\<close> returns the row that is there.\<close>

definition db_upsert_user :: "int \<Rightarrow> uuid \<Rightarrow> string \<Rightarrow> string \<Rightarrow> user dbm" where
  "db_upsert_user now fresh email display_name =
     and_run (execute (\<lambda>s. map_option (\<lambda>rows. s\<lparr>t_users := rows\<rparr>)
       (insert_or_update us_email (\<lambda>r. us_email r \<in> us_email ` set (t_users s) \<or> us_id r \<notin> us_id ` set (t_users s))
         (\<lambda>old new. old\<lparr>us_email := us_email new\<rparr>)
         \<lparr>us_id = fresh, us_email = email, us_display_name = display_name, us_created_at = now\<rparr> (t_users s)))) (\<lambda>_.
     from_result (\<lambda>s. ok_or (find (\<lambda>r. us_email r = email) (t_users s)) Internal))"

definition mb_key :: "membership_row \<Rightarrow> uuid \<times> uuid" where
  "mb_key r = (mb_user r, mb_company r)"

definition db_upsert_membership :: "int \<Rightarrow> uuid \<Rightarrow> uuid \<Rightarrow> role \<Rightarrow> unit dbm" where
  "db_upsert_membership now u c r = execute (\<lambda>s. map_option (\<lambda>rows. s\<lparr>t_memberships := rows\<rparr>)
     (insert_or_keep mb_key (\<lambda>q. mb_key q \<in> mb_key ` set (t_memberships s) \<or> user_exists s (mb_user q) \<and> company_exists s (mb_company q))
       \<lparr>mb_user = u, mb_company = c, mb_role = role_as_str r, mb_created_at = now\<rparr> (t_memberships s)))"

definition db_membership_role :: "db \<Rightarrow> uuid \<Rightarrow> uuid \<Rightarrow> store_error + role option" where
  "db_membership_role s u c = (case find (\<lambda>r. mb_key r = (u, c)) (t_memberships s) of
       Some row \<Rightarrow> and_then (parse_role (mb_role row)) (\<lambda>r. Inr (Some r))
     | None \<Rightarrow> Inr None)"

definition member_of_row :: "membership_row \<times> user \<Rightarrow> store_error + member" where
  "member_of_row q = (case q of (m, us) \<Rightarrow>
     and_then (parse_role (mb_role m)) (\<lambda>r.
     Inr \<lparr>me_user = mb_user m, me_email = us_email us, me_display_name = us_display_name us,
       me_role = r, me_created_at = mb_created_at m\<rparr>))"

definition db_company_members :: "db \<Rightarrow> uuid \<Rightarrow> store_error + member list" where
  "db_company_members s c =
     collect_results member_of_row
       (sort_key (\<lambda>(m, _). (mb_created_at m, mb_user m))
         [(m, us). m \<leftarrow> t_memberships s, mb_company m = c, us \<leftarrow> t_users s, us_id us = mb_user m])"

definition db_remove_membership :: "uuid \<Rightarrow> uuid \<Rightarrow> db \<Rightarrow> bool \<times> db" where
  "db_remove_membership u c s =
     ((u, c) \<in> mb_key ` set (t_memberships s),
      s\<lparr>t_memberships := filter (\<lambda>r. mb_key r \<noteq> (u, c)) (t_memberships s)\<rparr>)"

definition db_set_membership_role :: "uuid \<Rightarrow> uuid \<Rightarrow> role \<Rightarrow> db \<Rightarrow> bool \<times> db" where
  "db_set_membership_role u c r s =
     ((u, c) \<in> mb_key ` set (t_memberships s),
      s\<lparr>t_memberships := update_where (\<lambda>q. mb_key q = (u, c)) (\<lambda>q. q\<lparr>mb_role := role_as_str r\<rparr>) (t_memberships s)\<rparr>)"

section \<open>Tokens and devices\<close>

definition db_revoke_user_devices :: "int \<Rightarrow> uuid \<Rightarrow> uuid \<Rightarrow> db \<Rightarrow> nat \<times> db" where
  "db_revoke_user_devices now c u s =
     (let hit = (\<lambda>d. de_company d = c \<and> de_user d = u \<and> de_revoked_at d = None) in
      (length (filter hit (t_devices s)),
       s\<lparr>t_devices := update_where hit (\<lambda>d. d\<lparr>de_revoked_at := Some now\<rparr>) (t_devices s)\<rparr>))"

definition db_insert_user_token :: "string \<Rightarrow> uuid \<Rightarrow> uuid \<Rightarrow> int option \<Rightarrow> unit dbm" where
  "db_insert_user_token h u c expires =
     insert_into t_user_tokens (\<lambda>rows. t_user_tokens_update (\<lambda>_. rows)) tk_hash
       (\<lambda>s r. user_exists s (tk_user r) \<and> company_exists s (tk_company r))
       \<lparr>tk_hash = h, tk_user = u, tk_company = c, tk_expires_at = expires\<rparr>"

definition db_delete_user_token :: "string \<Rightarrow> db \<Rightarrow> bool \<times> db" where
  "db_delete_user_token h s =
     (h \<in> tk_hash ` set (t_user_tokens s), s\<lparr>t_user_tokens := filter (\<lambda>r. tk_hash r \<noteq> h) (t_user_tokens s)\<rparr>)"

definition db_resolve_token :: "int \<Rightarrow> string \<Rightarrow> db \<Rightarrow> token_identity option" where
  "db_resolve_token now h s =
     (case find (\<lambda>d. de_token_hash d = h \<and> de_revoked_at d = None) (t_devices s) of
        Some d \<Rightarrow> Some \<lparr>ti_user = de_user d, ti_company = de_company d, ti_device = Some (de_id d)\<rparr>
      | None \<Rightarrow>
          map_option (\<lambda>r. \<lparr>ti_user = tk_user r, ti_company = tk_company r, ti_device = None\<rparr>)
            (find (\<lambda>r. tk_hash r = h \<and> (case tk_expires_at r of None \<Rightarrow> True | Some e \<Rightarrow> now < e)) (t_user_tokens s)))"

definition db_create_device :: "device \<Rightarrow> unit dbm" where
  "db_create_device d =
     insert_into t_devices (\<lambda>rows. t_devices_update (\<lambda>_. rows)) de_id
       (\<lambda>s r. company_exists s (de_company r) \<and> user_exists s (de_user r) \<and> de_token_hash r \<notin> de_token_hash ` set (t_devices s)) d"

definition db_devices :: "db \<Rightarrow> uuid \<Rightarrow> device list" where
  "db_devices s c = sort_key (\<lambda>d. (de_created_at d, de_id d)) (filter (\<lambda>d. de_company d = c) (t_devices s))"

definition db_device :: "db \<Rightarrow> uuid \<Rightarrow> uuid \<Rightarrow> device option" where
  "db_device s c i = find (\<lambda>d. de_id d = i \<and> de_company d = c) (t_devices s)"

definition db_revoke_device :: "int \<Rightarrow> uuid \<Rightarrow> uuid \<Rightarrow> db \<Rightarrow> device option \<times> db" where
  "db_revoke_device now c i s =
     (let t = s\<lparr>t_devices := update_where (\<lambda>d. de_id d = i \<and> de_company d = c)
            (\<lambda>d. d\<lparr>de_revoked_at := Some (case de_revoked_at d of Some r \<Rightarrow> r | None \<Rightarrow> now)\<rparr>) (t_devices s)\<rparr> in
      (db_device t c i, t))"

definition db_touch_device_seen :: "uuid \<Rightarrow> int \<Rightarrow> int \<Rightarrow> db \<Rightarrow> db" where
  "db_touch_device_seen i seen_at stale_before s =
     s\<lparr>t_devices := update_where
         (\<lambda>d. de_id d = i \<and> (case de_last_seen_at d of None \<Rightarrow> True | Some seen \<Rightarrow> seen < stale_before))
         (\<lambda>d. d\<lparr>de_last_seen_at := Some seen_at\<rparr>) (t_devices s)\<rparr>"

section \<open>Invitations\<close>

definition db_create_invitation :: "invitation \<Rightarrow> unit dbm" where
  "db_create_invitation i =
     insert_into t_invitations (\<lambda>rows. t_invitations_update (\<lambda>_. rows)) in_id
       (\<lambda>s r. company_exists s (in_company r) \<and> user_exists s (in_created_by r) \<and> opt_ref (user_exists s) (in_accepted_by r)
          \<and> in_token_hash r \<notin> in_token_hash ` set (t_invitations s)) i"

definition db_invitation_by_hash :: "db \<Rightarrow> string \<Rightarrow> invitation option" where
  "db_invitation_by_hash s h = find (\<lambda>i. in_token_hash i = h) (t_invitations s)"

definition db_mark_invitation_accepted :: "uuid \<Rightarrow> uuid \<Rightarrow> unit dbm" where
  "db_mark_invitation_accepted i u = execute (\<lambda>s.
     if i \<in> in_id ` set (t_invitations s) \<and> \<not> user_exists s u then None
     else Some (s\<lparr>t_invitations := update_where (\<lambda>r. in_id r = i) (\<lambda>r. r\<lparr>in_accepted_by := Some u\<rparr>) (t_invitations s)\<rparr>))"

section \<open>Blobs, audit and webhooks\<close>

definition blob_key :: "uuid \<times> string \<times> string \<Rightarrow> uuid \<times> string" where
  "blob_key b = (fst b, fst (snd b))"

definition db_put_blob :: "uuid \<Rightarrow> string \<Rightarrow> string \<Rightarrow> unit dbm" where
  "db_put_blob c h bytes = execute (\<lambda>s. map_option (\<lambda>rows. s\<lparr>t_blobs := rows\<rparr>)
     (insert_or_keep blob_key (\<lambda>r. company_exists s (fst r)) (c, h, bytes) (t_blobs s)))"

definition db_get_blob :: "db \<Rightarrow> uuid \<Rightarrow> string \<Rightarrow> string option" where
  "db_get_blob s c h = map_option (\<lambda>b. snd (snd b)) (find (\<lambda>b. blob_key b = (c, h)) (t_blobs s))"

definition db_has_blob :: "db \<Rightarrow> uuid \<Rightarrow> string \<Rightarrow> bool" where
  "db_has_blob s c h \<longleftrightarrow> (c, h) \<in> blob_key ` set (t_blobs s)"

definition insert_audit :: "audit_entry \<Rightarrow> unit dbm" where
  "insert_audit e =
     insert_into t_audit_log (\<lambda>rows. t_audit_log_update (\<lambda>_. rows)) au_id
       (\<lambda>s r. company_exists s (au_company r) \<and> opt_ref (user_exists s) (au_user r) \<and> opt_ref (device_exists s) (au_device r)) e"

definition db_append_audit :: "audit_entry \<Rightarrow> unit dbm" where
  "db_append_audit e = insert_audit e"

definition db_recent_audit :: "db \<Rightarrow> uuid \<Rightarrow> int \<Rightarrow> store_error + audit_entry list" where
  "db_recent_audit s c n =
     ok_or (sql_limit n (sort_key (\<lambda>e. (- au_at e, au_id e)) (filter (\<lambda>e. au_company e = c) (t_audit_log s)))) Internal"

definition db_insert_webhook_event :: "webhook_event \<Rightarrow> unit dbm" where
  "db_insert_webhook_event e = insert_into t_webhook_events (\<lambda>rows. t_webhook_events_update (\<lambda>_. rows)) wh_id (\<lambda>_ _. True) e"

definition db_count_webhook_events :: "db \<Rightarrow> webhook_kind \<Rightarrow> string \<Rightarrow> int" where
  "db_count_webhook_events s k provider =
     int (length (filter (\<lambda>e. wh_kind e = k \<and> wh_provider e = provider) (t_webhook_events s)))"

definition db_webhook_events :: "db \<Rightarrow> webhook_event list" where
  "db_webhook_events s = sort_key (\<lambda>e. (wh_received_at e, wh_id e)) (t_webhook_events s)"

section \<open>Settings and the books lock\<close>

definition settings_from_value :: "json \<Rightarrow> store_error + company_settings" where
  "settings_from_value j = ok_or (Option.bind (as_object j) settings_from_json) Internal"

definition settings_row :: "db \<Rightarrow> uuid \<Rightarrow> json option" where
  "settings_row s c = map_of (t_company_settings s) c"

definition db_company_settings :: "db \<Rightarrow> uuid \<Rightarrow> store_error + company_settings" where
  "db_company_settings s c = (case settings_row s c of
       Some value \<Rightarrow> settings_from_value value
     | None \<Rightarrow> Inr default_settings)"

text \<open>
  The stored lock of a row, \<open>coalesce(settings -> 'books_lock_date', 'null')\<close>, goes into the new
  settings; a new row starts unlocked.
\<close>

definition stored_lock :: "json \<Rightarrow> json" where
  "stored_lock j = (case jget j ''books_lock_date'' of Some v \<Rightarrow> v | None \<Rightarrow> JNull)"

definition db_put_company_settings :: "uuid \<Rightarrow> company_settings \<Rightarrow> unit dbm" where
  "db_put_company_settings c v = execute (\<lambda>s.
     if \<not> company_exists s c then None
     else
       map_option (\<lambda>j. s\<lparr>t_company_settings := AList.update c j (t_company_settings s)\<rparr>)
         (jsonb_set (JObj (settings_to_json v)) ''books_lock_date''
           (case settings_row s c of Some old \<Rightarrow> stored_lock old | None \<Rightarrow> JNull)))"

definition db_set_books_lock :: "uuid \<Rightarrow> books_lock_change \<Rightarrow> books_lock_outcome dbm" where
  "db_set_books_lock c change = transaction (
     and_run (from_result (\<lambda>s. db_company_settings s c)) (\<lambda>v.
     let previous = cs_books_lock_date v in
     if previous = bl_lock_date change then
       yields \<lparr>bo_previous = previous, bo_lock_date = previous, bo_changed = False\<rparr>
     else if previous \<noteq> bl_expected_current change then
       refuse (Conflict (Period (BooksLockMoved previous)))
     else
       and_run (execute (\<lambda>s. if company_exists s c
         then Some (s\<lparr>t_company_settings := AList.update c
           (JObj (settings_to_json (v\<lparr>cs_books_lock_date := bl_lock_date change\<rparr>))) (t_company_settings s)\<rparr>)
         else None)) (\<lambda>_.
       and_run (insert_audit (bl_audit change)) (\<lambda>_.
       yields \<lparr>bo_previous = previous, bo_lock_date = bl_lock_date change, bo_changed = True\<rparr>))))"

section \<open>Items and lookups\<close>

definition item_key :: "uuid \<times> item \<Rightarrow> uuid \<times> string" where
  "item_key r = (fst r, it_id (snd r))"

definition db_upsert_item :: "uuid \<Rightarrow> item \<Rightarrow> unit dbm" where
  "db_upsert_item c item = execute (\<lambda>s. map_option (\<lambda>rows. s\<lparr>t_items := rows\<rparr>)
     (insert_or_update item_key (\<lambda>r. company_exists s (fst r)) (\<lambda>old new. (fst old, snd new)) (c, item) (t_items s)))"

definition db_items :: "db \<Rightarrow> uuid \<Rightarrow> string list \<Rightarrow> item list" where
  "db_items s c ids = map snd (filter (\<lambda>r. fst r = c \<and> it_id (snd r) \<in> set ids) (t_items s))"

definition pd_key :: "posted_document \<Rightarrow> doc_key" where
  "pd_key d = (pd_company d, pd_doctype d, pd_id d)"

definition db_posted_document :: "db \<Rightarrow> uuid \<Rightarrow> string \<Rightarrow> string \<Rightarrow> posted_document option" where
  "db_posted_document s c doctype d = find (\<lambda>r. pd_key r = (c, doctype, d)) (t_documents s)"

definition btrim :: "string \<Rightarrow> string" where
  "btrim t = rev (dropWhile (\<lambda>ch. ch = CHR '' '') (rev (dropWhile (\<lambda>ch. ch = CHR '' '') t)))"

definition db_deposit_applications :: "pgsql \<Rightarrow> db \<Rightarrow> uuid \<Rightarrow> string \<Rightarrow> posted_document list" where
  "db_deposit_applications p s c deposit_id =
     sort_key pd_id (filter (\<lambda>r. pd_company r = c \<and> pd_doctype r = ''Payment Entry''
       \<and> map_option btrim (json_arrow_text p (pd_payload r) ''deposit'') = Some deposit_id) (t_documents s))"

definition sles_of :: "db \<Rightarrow> uuid \<Rightarrow> stock_ledger_entry list" where
  "sles_of s c = sort_key sle_seq (filter (\<lambda>e. sle_company e = c) (t_stock_ledger s))"

definition db_sles_for_pair :: "db \<Rightarrow> uuid \<Rightarrow> string \<Rightarrow> string \<Rightarrow> stock_ledger_entry list" where
  "db_sles_for_pair s c item wh = filter (\<lambda>e. sle_item e = item \<and> sle_warehouse e = wh) (sles_of s c)"

definition db_sles_for_voucher :: "db \<Rightarrow> uuid \<Rightarrow> string \<Rightarrow> stock_ledger_entry list" where
  "db_sles_for_voucher s c v = filter (\<lambda>e. sle_voucher_no e = v) (sles_of s c)"

definition db_gl_for_voucher :: "db \<Rightarrow> uuid \<Rightarrow> string \<Rightarrow> gl_entry list" where
  "db_gl_for_voucher s c v = sort_key gl_id (filter (\<lambda>e. gl_company e = c \<and> gl_voucher_no e = v) (t_gl_entries s))"

definition db_party_transactions_for_voucher :: "db \<Rightarrow> uuid \<Rightarrow> string \<Rightarrow> party_transaction list" where
  "db_party_transactions_for_voucher s c v =
     sort_key pt_id (filter (\<lambda>t. pt_company t = c \<and> pt_voucher_no t = v) (t_party_transactions s))"

definition db_tax_transactions_for_voucher :: "db \<Rightarrow> uuid \<Rightarrow> string \<Rightarrow> tax_transaction list" where
  "db_tax_transactions_for_voucher s c v =
     sort_key tt_id (filter (\<lambda>t. tt_company t = c \<and> tt_voucher_no t = v) (t_tax_transactions s))"

definition db_settlements_for_invoice :: "db \<Rightarrow> uuid \<Rightarrow> string \<Rightarrow> string \<Rightarrow> settlement list" where
  "db_settlements_for_invoice s c doctype no =
     filter (\<lambda>t. st_company t = c \<and> st_invoice_voucher_type t = doctype \<and> st_invoice_voucher_no t = no) (t_settlements s)"

definition db_settlements_for_payment :: "db \<Rightarrow> uuid \<Rightarrow> string \<Rightarrow> settlement list" where
  "db_settlements_for_payment s c no = filter (\<lambda>t. st_company t = c \<and> st_payment_voucher_no t = no) (t_settlements s)"

definition db_idempotent_response :: "db \<Rightarrow> uuid \<Rightarrow> string \<Rightarrow> json option" where
  "db_idempotent_response s c key = map_of (t_idempotency_keys s) (c, key)"

section \<open>Series and lost history\<close>

text \<open>\<open>on conflict \<dots> do update set next_value = greatest(\<dots>)\<close>, for each floor.\<close>

definition raise_floor :: "uuid \<Rightarrow> string \<times> int \<Rightarrow> unit dbm" where
  "raise_floor c f = execute (\<lambda>s.
     if \<not> company_exists s c then None
     else Some (s\<lparr>t_numbering_series := (case map_of (t_numbering_series s) (c, fst f) of
         Some v \<Rightarrow> AList.update (c, fst f) (max v (snd f)) (t_numbering_series s)
       | None \<Rightarrow> t_numbering_series s @ [((c, fst f), snd f)])\<rparr>))"

definition db_lost_found :: "db \<Rightarrow> uuid \<Rightarrow> lost_record \<Rightarrow> bool \<times> string option" where
  "db_lost_found s c r =
     (db_posted_document s c (lo_doctype r) (lo_document_id r) \<noteq> None,
      (case lo_number r of
         Some n \<Rightarrow>
           if n \<noteq> [] then map_option pd_id (find (\<lambda>d. pd_company d = c \<and> pd_doctype d = lo_doctype r
             \<and> pd_official_number d = Some n \<and> pd_id d \<noteq> lo_document_id r) (t_documents s))
           else None
       | None \<Rightarrow> None))"

text \<open>The \<open>on conflict do nothing\<close> of the insert cannot fire after the lookup, in one transaction.\<close>

definition db_record_lost_history :: "uuid \<Rightarrow> lost_history_report \<Rightarrow> audit_entry \<Rightarrow> (json \<times> bool) dbm" where
  "db_record_lost_history c report entry = transaction (
     and_run (query (\<lambda>s. map_of (t_history_recoveries s) (c, lh_recovery_id report))) (\<lambda>stored.
     case stored of
       Some response \<Rightarrow> yields (response, True)
     | None \<Rightarrow>
         and_run (query (\<lambda>s. map (db_lost_found s c) (lh_lost report))) (\<lambda>found.
         let (response, floors) = lost_history_outcome report found in
         and_run (insert_into t_history_recoveries (\<lambda>rows. t_history_recoveries_update (\<lambda>_. rows)) fst
           (\<lambda>s r. company_exists s (fst (fst r))) ((c, lh_recovery_id report), response)) (\<lambda>_.
         and_run (for_each (raise_floor c) floors) (\<lambda>_.
         and_run (insert_audit (entry\<lparr>au_detail := lost_history_audit_detail report response\<rparr>)) (\<lambda>_.
         yields (response, False)))))))"

section \<open>Links\<close>

definition db_create_portal_link :: "portal_link \<Rightarrow> unit dbm" where
  "db_create_portal_link l =
     insert_into t_portal_links (\<lambda>rows. t_portal_links_update (\<lambda>_. rows)) pl_id
       (\<lambda>s r. company_exists s (pl_company r) \<and> user_exists s (pl_created_by r)
          \<and> pl_token_hash r \<notin> pl_token_hash ` set (t_portal_links s)) l"

definition db_portal_links :: "db \<Rightarrow> uuid \<Rightarrow> portal_link list" where
  "db_portal_links s c = sort_key pl_created_at (filter (\<lambda>l. pl_company l = c) (t_portal_links s))"

definition db_revoke_portal_link :: "int \<Rightarrow> uuid \<Rightarrow> uuid \<Rightarrow> db \<Rightarrow> bool \<times> db" where
  "db_revoke_portal_link now c i s =
     (let hit = (\<lambda>l. pl_company l = c \<and> pl_id l = i) in
      (list_ex hit (t_portal_links s),
       s\<lparr>t_portal_links := update_where hit
           (\<lambda>l. l\<lparr>pl_revoked_at := Some (case pl_revoked_at l of Some t \<Rightarrow> t | None \<Rightarrow> now)\<rparr>) (t_portal_links s)\<rparr>))"

definition db_portal_link_by_hash :: "db \<Rightarrow> string \<Rightarrow> portal_link option" where
  "db_portal_link_by_hash s h = find (\<lambda>l. pl_token_hash l = h) (t_portal_links s)"

definition db_create_pay_link :: "pay_link \<Rightarrow> unit dbm" where
  "db_create_pay_link l =
     insert_into t_pay_links (\<lambda>rows. t_pay_links_update (\<lambda>_. rows)) yl_id
       (\<lambda>s r. company_exists s (yl_company r) \<and> user_exists s (yl_created_by r)
          \<and> yl_token_hash r \<notin> yl_token_hash ` set (t_pay_links s)) l"

definition db_pay_links :: "db \<Rightarrow> uuid \<Rightarrow> pay_link list" where
  "db_pay_links s c = sort_key yl_created_at (filter (\<lambda>l. yl_company l = c) (t_pay_links s))"

definition db_revoke_pay_link :: "int \<Rightarrow> uuid \<Rightarrow> uuid \<Rightarrow> db \<Rightarrow> bool \<times> db" where
  "db_revoke_pay_link now c i s =
     (let hit = (\<lambda>l. yl_company l = c \<and> yl_id l = i) in
      (list_ex hit (t_pay_links s),
       s\<lparr>t_pay_links := update_where hit
           (\<lambda>l. l\<lparr>yl_revoked_at := Some (case yl_revoked_at l of Some t \<Rightarrow> t | None \<Rightarrow> now)\<rparr>) (t_pay_links s)\<rparr>))"

definition db_pay_link_by_hash :: "db \<Rightarrow> string \<Rightarrow> pay_link option" where
  "db_pay_link_by_hash s h = find (\<lambda>l. yl_token_hash l = h) (t_pay_links s)"

section \<open>Whole tables\<close>

definition db_posted_document_counts :: "db \<Rightarrow> uuid \<Rightarrow> (string \<times> int) list" where
  "db_posted_document_counts s c =
     (let dts = map pd_doctype (filter (\<lambda>d. pd_company d = c) (t_documents s)) in
      map (\<lambda>dt. (dt, int (count_list dts dt))) (sort (remdups dts)))"

definition db_gl_entries_ordered :: "db \<Rightarrow> uuid \<Rightarrow> gl_entry list" where
  "db_gl_entries_ordered s c =
     sort_key (\<lambda>e. [gl_posting_date e, gl_voucher_no e, gl_id e]) (filter (\<lambda>e. gl_company e = c) (t_gl_entries s))"

definition db_all_stock_ledger_entries :: "db \<Rightarrow> uuid \<Rightarrow> stock_ledger_entry list" where
  "db_all_stock_ledger_entries s c = sles_of s c"

definition db_all_party_transactions :: "db \<Rightarrow> uuid \<Rightarrow> party_transaction list" where
  "db_all_party_transactions s c = sort_key pt_id (filter (\<lambda>t. pt_company t = c) (t_party_transactions s))"

definition db_all_tax_transactions :: "db \<Rightarrow> uuid \<Rightarrow> tax_transaction list" where
  "db_all_tax_transactions s c = sort_key tt_id (filter (\<lambda>t. tt_company t = c) (t_tax_transactions s))"

definition db_all_settlements :: "db \<Rightarrow> uuid \<Rightarrow> settlement list" where
  "db_all_settlements s c = sort_key st_id (filter (\<lambda>t. st_company t = c) (t_settlements s))"

definition db_all_bins :: "db \<Rightarrow> uuid \<Rightarrow> bin list" where
  "db_all_bins s c = sort_key (\<lambda>b. [bin_item b, bin_warehouse b]) (filter (\<lambda>b. bin_company b = c) (t_bins s))"

end
