(* ===== verification/Pg_Commit.thy ===== *)
theory Pg_Commit
  imports Pg_Store
begin

text \<open>
  \<open>posting_commit\<close> of \<^verbatim>\<open>src/src/store/pg.rs\<close>: one transaction under the advisory lock of the company. The
  checks come in the order of the code, then the writes, each under the constraints of its table; the
  first error ends the transaction and undoes it.
\<close>

section \<open>The checks\<close>

definition db_replayed :: "db \<Rightarrow> posting_commit_rec \<Rightarrow> json option" where
  "db_replayed s k = Option.bind (pc_idempotency_key k) (\<lambda>key. map_of (t_idempotency_keys s) (pc_company k, key))"

definition db_lock_check :: "pgsql \<Rightarrow> db \<Rightarrow> posting_commit_rec \<Rightarrow> store_error + unit" where
  "db_lock_check p s k = (case pc_lock_check_date k of
       None \<Rightarrow> Inr ()
     | Some date \<Rightarrow>
         (case lock_violation date (Option.bind (settings_row s (pc_company k)) (\<lambda>j. json_arrow_text p j ''books_lock_date'')) of
            Some reason \<Rightarrow> Inl (Stale reason)
          | None \<Rightarrow> Inr ()))"

definition db_deposit_check :: "pgsql \<Rightarrow> db \<Rightarrow> posting_commit_rec \<Rightarrow> store_error + unit" where
  "db_deposit_check p s k = (case pc_deposit_guard k of
       None \<Rightarrow> Inr ()
     | Some guard \<Rightarrow>
         let deposit_id = deposit_id_of guard;
             deposit = db_posted_document s (pc_company k) ''Customer Deposit'' deposit_id;
             applications = filter (\<lambda>r. pd_company r = pc_company k \<and> pd_doctype r = ''Payment Entry''
               \<and> json_arrow_text p (pd_payload r) ''deposit'' = Some deposit_id) (t_documents s) in
         (case deposit_guard_violation guard deposit applications of
            Some reason \<Rightarrow> Inl (Stale reason)
          | None \<Rightarrow> Inr ()))"

definition db_solo_check :: "db \<Rightarrow> posting_commit_rec \<Rightarrow> store_error + unit" where
  "db_solo_check s k = (case pc_solo_migration k of
       None \<Rightarrow> Inr ()
     | Some mark \<Rightarrow>
         (case find (\<lambda>r. fst r = pc_company k) (t_solo_migrations s) of
            Some row \<Rightarrow> Inl (Conflict (Document (EarlierTakeOn (fst (snd row)))))
          | None \<Rightarrow>
              ensure (\<not> list_ex (\<lambda>d. pd_company d = pc_company k) (t_documents s))
                (Conflict (Document (CompanyNotEmpty (sm_migration_id mark))))))"

definition db_expectation_check :: "db \<Rightarrow> uuid \<Rightarrow> unit \<Rightarrow> string \<times> string \<times> nat \<Rightarrow> store_error + unit" where
  "db_expectation_check s c u e = (case e of (item, warehouse, expected) \<Rightarrow>
     let actual = length (filter (\<lambda>r. sle_company r = c \<and> sle_item r = item \<and> sle_warehouse r = warehouse) (t_stock_ledger s)) in
     ensure (actual = expected) (Stale (Ledger (LedgerMoved item warehouse expected actual))))"

definition db_existence_check :: "db \<Rightarrow> posting_commit_rec \<Rightarrow> store_error + unit" where
  "db_existence_check s k =
     (let dt = pd_doctype (pc_document k); d = pd_id (pc_document k);
          existing = map_option pd_docstatus (db_posted_document s (pc_company k) dt d) in
      if pc_document_is_new k then ensure (existing = None) (Conflict (Document (DocumentExists dt d)))
      else (case existing of
              None \<Rightarrow> Inl (Conflict (Document (DocumentMissing dt d)))
            | Some status \<Rightarrow> ensure (status = 1) (Conflict (Document (DocumentNotSubmitted dt d)))))"

definition db_number_check :: "db \<Rightarrow> posting_commit_rec \<Rightarrow> store_error + unit" where
  "db_number_check s k = (case pc_preassigned_number k of
       None \<Rightarrow> Inr ()
     | Some number \<Rightarrow>
         ensure (\<not> list_ex (\<lambda>d. pd_company d = pc_company k \<and> pd_doctype d = pd_doctype (pc_document k)
             \<and> pd_official_number d = Some number) (t_documents s))
           (Conflict (Document (NumberTaken number (pd_doctype (pc_document k))))))"

definition db_till_check :: "pgsql \<Rightarrow> db \<Rightarrow> posting_commit_rec \<Rightarrow> store_error + unit" where
  "db_till_check p s k = (case pc_till_binding k of
       None \<Rightarrow> Inr ()
     | Some (ser, dev) \<Rightarrow>
         ensure (\<not> list_ex (\<lambda>d. pd_company d = pc_company k \<and> pd_doctype d = pd_doctype (pc_document k)
             \<and> json_arrow_text p (pd_payload d) ''till_series'' = Some ser
             \<and> (case json_arrow_text p (pd_payload d) ''till_device'' of Some other \<Rightarrow> other \<noteq> dev | None \<Rightarrow> False)) (t_documents s))
           (Conflict (Document (TillSeriesBound ser))))"

definition db_commit_checks :: "pgsql \<Rightarrow> db \<Rightarrow> posting_commit_rec \<Rightarrow> store_error + unit" where
  "db_commit_checks p s k =
     and_then (db_lock_check p s k) (\<lambda>_.
     and_then (db_deposit_check p s k) (\<lambda>_.
     and_then (db_solo_check s k) (\<lambda>_.
     and_then (fold_result (db_expectation_check s (pc_company k)) () (pc_sle_expectations k)) (\<lambda>_.
     and_then (db_existence_check s k) (\<lambda>_.
     and_then (db_number_check s k) (\<lambda>_.
     db_till_check p s k))))))"

section \<open>Numbers\<close>

text \<open>The row of a series, made at zero when it is missing, and its next value: a \<open>bigint\<close> does not wrap.\<close>

definition db_next_value :: "uuid \<Rightarrow> string \<Rightarrow> int dbm" where
  "db_next_value c key =
     and_run (execute (\<lambda>s. map_option (\<lambda>rows. s\<lparr>t_numbering_series := rows\<rparr>)
       (insert_or_keep fst (\<lambda>r. company_exists s (fst (fst r))) ((c, key), 0) (t_numbering_series s)))) (\<lambda>_.
     and_run (from_result (\<lambda>s. ok_or (map_of (t_numbering_series s) (c, key)) Internal)) (\<lambda>v.
     and_run (execute (\<lambda>s. if v < i64_max
       then Some (s\<lparr>t_numbering_series := update_where (\<lambda>r. fst r = (c, key)) (\<lambda>r. (fst r, v + 1)) (t_numbering_series s)\<rparr>)
       else None)) (\<lambda>_. yields (v + 1))))"

text \<open>The number of the document and the member \<open>number\<close> of the response.\<close>

definition db_numbered :: "posting_commit_rec \<Rightarrow> (posted_document \<times> json) dbm" where
  "db_numbered k =
     (let with_number = (\<lambda>n (d, r). (d\<lparr>pd_official_number := Some n\<rparr>, json_put ''number'' (JStr n) r));
          start = (case pc_preassigned_number k of
            Some n \<Rightarrow> with_number n (pc_document k, pc_response k) | None \<Rightarrow> (pc_document k, pc_response k)) in
      case pc_series_key k of
        Some key \<Rightarrow> and_run (db_next_value (pc_company k) key) (\<lambda>v. yields (with_number (format_number key v) start))
      | None \<Rightarrow> yields start)"

section \<open>The writes\<close>

definition insert_solo_mark :: "posting_commit_rec \<Rightarrow> unit dbm" where
  "insert_solo_mark k = (case pc_solo_migration k of
       Some mark \<Rightarrow> insert_into t_solo_migrations (\<lambda>rows. t_solo_migrations_update (\<lambda>_. rows)) fst
         (\<lambda>s r. company_exists s (fst r))
         (pc_company k, sm_migration_id mark, pd_id (pc_document k), sm_package_sha256 mark)
     | None \<Rightarrow> yields ())"

text \<open>The constraints of \<open>documents\<close>: the unique index on the official number is the one of migration 0011.\<close>

definition number_key :: "posted_document \<Rightarrow> uuid \<times> string \<times> string option" where
  "number_key d = (pd_company d, pd_doctype d, pd_official_number d)"

definition document_ok :: "db \<Rightarrow> posted_document \<Rightarrow> bool" where
  "document_ok s r \<longleftrightarrow> company_exists s (pd_company r) \<and> pd_docstatus r \<in> {1, 2}
     \<and> (pd_official_number r = None \<or> number_key r \<notin> number_key ` set (t_documents s))"

definition db_write_document :: "posting_commit_rec \<Rightarrow> posted_document \<Rightarrow> unit dbm" where
  "db_write_document k document =
     (let row = document\<lparr>pd_company := pc_company k\<rparr> in
      if pc_document_is_new k then insert_into t_documents (\<lambda>rows. t_documents_update (\<lambda>_. rows)) pd_key document_ok row
      else execute (\<lambda>s. if pd_key row \<in> pd_key ` set (t_documents s) \<and> pd_docstatus document \<notin> {1, 2} then None
        else Some (s\<lparr>t_documents := update_where (\<lambda>r. pd_key r = pd_key row)
          (\<lambda>r. r\<lparr>pd_payload := pd_payload document, pd_docstatus := pd_docstatus document\<rparr>) (t_documents s)\<rparr>)))"

definition insert_gl :: "uuid \<Rightarrow> gl_entry \<Rightarrow> unit dbm" where
  "insert_gl c e = insert_into t_gl_entries (\<lambda>rows. t_gl_entries_update (\<lambda>_. rows)) (\<lambda>r. (gl_company r, gl_id r))
     (\<lambda>s r. company_exists s (gl_company r)) (e\<lparr>gl_company := c\<rparr>)"

text \<open>The identity is drawn before the constraints are checked.\<close>

definition insert_sle :: "uuid \<Rightarrow> stock_ledger_entry \<Rightarrow> unit dbm" where
  "insert_sle c e =
     and_run (execute (\<lambda>s. Some (s\<lparr>t_sle_identity := t_sle_identity s + 1\<rparr>))) (\<lambda>_.
     and_run (query t_sle_identity) (\<lambda>n.
     insert_into t_stock_ledger (\<lambda>rows. t_stock_ledger_update (\<lambda>_. rows)) (\<lambda>r. (sle_company r, sle_id r))
       (\<lambda>s r. company_exists s (sle_company r)) (e\<lparr>sle_company := c, sle_seq := n\<rparr>)))"

definition insert_party :: "uuid \<Rightarrow> party_transaction \<Rightarrow> unit dbm" where
  "insert_party c t = insert_into t_party_transactions (\<lambda>rows. t_party_transactions_update (\<lambda>_. rows)) (\<lambda>r. (pt_company r, pt_id r))
     (\<lambda>s r. company_exists s (pt_company r)) (t\<lparr>pt_company := c\<rparr>)"

definition insert_tax :: "uuid \<Rightarrow> tax_transaction \<Rightarrow> unit dbm" where
  "insert_tax c t = insert_into t_tax_transactions (\<lambda>rows. t_tax_transactions_update (\<lambda>_. rows)) (\<lambda>r. (tt_company r, tt_id r))
     (\<lambda>s r. company_exists s (tt_company r)) (t\<lparr>tt_company := c\<rparr>)"

definition insert_settlement :: "uuid \<Rightarrow> settlement \<Rightarrow> unit dbm" where
  "insert_settlement c t = insert_into t_settlements (\<lambda>rows. t_settlements_update (\<lambda>_. rows)) (\<lambda>r. (st_company r, st_id r))
     (\<lambda>s r. company_exists s (st_company r)) (t\<lparr>st_company := c\<rparr>)"

definition bin_key :: "bin \<Rightarrow> uuid \<times> string \<times> string" where
  "bin_key b = (bin_company b, bin_item b, bin_warehouse b)"

definition write_bin :: "uuid \<Rightarrow> bin \<Rightarrow> unit dbm" where
  "write_bin c b = execute (\<lambda>s. map_option (\<lambda>rows. s\<lparr>t_bins := rows\<rparr>)
     (insert_or_update bin_key (\<lambda>r. company_exists s (bin_company r))
       (\<lambda>old new. old\<lparr>bin_actual_qty := bin_actual_qty new, bin_valuation_rate := bin_valuation_rate new,
          bin_stock_value := bin_stock_value new\<rparr>)
       (b\<lparr>bin_company := c\<rparr>) (t_bins s)))"

definition write_outstanding :: "pgsql \<Rightarrow> uuid \<Rightarrow> string \<times> string \<times> f64 \<Rightarrow> unit dbm" where
  "write_outstanding p c u = (case u of (doctype, i, v) \<Rightarrow> execute (\<lambda>s.
     let hit = (\<lambda>r. pd_key r = (c, doctype, i)) in
     if list_ex (\<lambda>r. hit r \<and> jsonb_set (pd_payload r) ''outstanding_amount'' (pg_float p v) = None) (t_documents s) then None
     else Some (s\<lparr>t_documents := update_where hit
       (\<lambda>r. r\<lparr>pd_payload := the (jsonb_set (pd_payload r) ''outstanding_amount'' (pg_float p v))\<rparr>) (t_documents s)\<rparr>)))"

text \<open>The invoices of the outstanding updates, read back after all of them.\<close>

definition outstanding_docs :: "posting_commit_rec \<Rightarrow> db \<Rightarrow> posted_document list" where
  "outstanding_docs k s =
     List.map_filter (\<lambda>(doctype, i, _). db_posted_document s (pc_company k) doctype i) (pc_outstanding_updates k)"

definition insert_batch :: "posting_commit_rec \<Rightarrow> unit dbm" where
  "insert_batch k = insert_into t_posting_batches (\<lambda>rows. t_posting_batches_update (\<lambda>_. rows)) (\<lambda>r. (pb_company r, pb_id r))
     (\<lambda>s r. company_exists s (pb_company r) \<and> pb_kind r \<in> {''submit'', ''cancel''}) ((pc_batch k)\<lparr>pb_company := pc_company k\<rparr>)"

definition insert_idempotency :: "posting_commit_rec \<Rightarrow> json \<Rightarrow> unit dbm" where
  "insert_idempotency k response = (case pc_idempotency_key k of
       Some key \<Rightarrow> insert_into t_idempotency_keys (\<lambda>rows. t_idempotency_keys_update (\<lambda>_. rows)) fst
         (\<lambda>s r. company_exists s (fst (fst r))) ((pc_company k, key), response)
     | None \<Rightarrow> yields ())"

section \<open>The transaction\<close>

definition db_write_tables :: "pgsql \<Rightarrow> posting_commit_rec \<Rightarrow> posted_document \<Rightarrow> unit dbm" where
  "db_write_tables p k document =
     (let c = pc_company k in
      and_run (for_each (raise_floor c) (pc_numbering_floors k)) (\<lambda>_.
      and_run (insert_solo_mark k) (\<lambda>_.
      and_run (db_write_document k document) (\<lambda>_.
      and_run (for_each (insert_gl c) (pc_gl_entries k)) (\<lambda>_.
      and_run (for_each (insert_sle c) (pc_stock_ledger_entries k)) (\<lambda>_.
      and_run (for_each (insert_party c) (pc_party_transactions k)) (\<lambda>_.
      and_run (for_each (insert_tax c) (pc_tax_transactions k)) (\<lambda>_.
      and_run (for_each (insert_settlement c) (pc_settlements k)) (\<lambda>_.
      and_run (for_each (write_bin c) (pc_bins k)) (\<lambda>_.
      for_each (write_outstanding p c) (pc_outstanding_updates k)))))))))))"

definition db_commit_effects :: "pgsql \<Rightarrow> ext \<Rightarrow> int \<Rightarrow> posting_commit_rec \<Rightarrow> json dbm" where
  "db_commit_effects p x now k =
     (let c = pc_company k in
      and_run (db_numbered k) (\<lambda>(document, response).
      and_run (db_write_tables p k document) (\<lambda>_.
      and_run (query (\<lambda>s. replication_mutations x now (commit_sources k document (pc_stock_ledger_entries k) (outstanding_docs k s)))) (\<lambda>records.
      and_run (db_append_mutations x now c records) (\<lambda>_.
      and_run (insert_batch k) (\<lambda>_.
      and_run (insert_audit (pc_audit k)) (\<lambda>_.
      and_run (insert_idempotency k response) (\<lambda>_.
      yields response))))))))"

definition db_posting_commit :: "pgsql \<Rightarrow> ext \<Rightarrow> int \<Rightarrow> posting_commit_rec \<Rightarrow> commit_outcome dbm" where
  "db_posting_commit p x now k = transaction (
     and_run (query (\<lambda>s. db_replayed s k)) (\<lambda>stored.
     case stored of
       Some response \<Rightarrow> yields \<lparr>oc_response = response, oc_replayed = True\<rparr>
     | None \<Rightarrow>
         and_run (from_result (\<lambda>s. db_commit_checks p s k)) (\<lambda>_.
         and_run (db_commit_effects p x now k) (\<lambda>response.
         yields \<lparr>oc_response = response, oc_replayed = False\<rparr>))))"

end
