(* ===== verification/Pg_Log_Theorems.thy ===== *)
theory Pg_Log_Theorems
  imports Pg_Log
begin

text \<open>
  The log of the database simulates the log of the memory store: \<open>log_sim\<close> relates a database, in
  which a suffix of the rows may still carry no chain value and the cached tip may be stale, with a
  memory store; every operation on the log answers the same on both and keeps the relation.
\<close>

section \<open>Rows in order\<close>

lemma insort_key_map: "(\<And>r. f (g r) = f r) \<Longrightarrow> insort_key f (g a) (map g xs) = map g (insort_key f a xs)"
  by (induction xs) auto

lemma sort_key_map: "(\<And>r. f (g r) = f r) \<Longrightarrow> sort_key f (map g xs) = map g (sort_key f xs)"
  by (induction xs) (auto simp: insort_key_map)

lemma insort_key_snoc: "f a \<le> f b \<Longrightarrow> insort_key f a (xs @ [b]) = insort_key f a xs @ [b]"
  by (induction xs) auto

lemma sort_key_snoc: "(\<And>a. a \<in> set xs \<Longrightarrow> f a \<le> f b) \<Longrightarrow> sort_key f (xs @ [b]) = sort_key f xs @ [b]"
  by (induction xs) (auto simp: insort_key_snoc)

lemma find_key:
  assumes "distinct (map f ys)" "set ys = {r \<in> set xs. P r}"
  shows "find (\<lambda>r. P r \<and> f r = k) xs = find (\<lambda>r. f r = k) ys"
proof (cases "find (\<lambda>r. f r = k) ys")
  case None
  then have "find (\<lambda>r. P r \<and> f r = k) xs = None" using assms(2) by (auto simp: find_None_iff)
  then show ?thesis using None by simp
next
  case (Some r)
  then have r: "r \<in> set xs" "P r" "f r = k" "r \<in> set ys" using assms(2) by (auto simp: find_Some_iff)
  then obtain q where q: "find (\<lambda>r. P r \<and> f r = k) xs = Some q"
    by (metis (mono_tags, lifting) find_None_iff not_None_eq)
  then have "q \<in> set ys" "f q = k" using assms(2) by (auto simp: find_Some_iff)
  then show ?thesis using r q Some assms(1) by (auto simp: distinct_map inj_on_def)
qed

lemma find_distinct: "distinct (map f xs) \<Longrightarrow> r \<in> set xs \<Longrightarrow> find (\<lambda>q. f q = f r) xs = Some r"
  by (induction xs) (auto simp: image_iff)

lemma map_of_find: "map_of (map (\<lambda>r. (f r, g r)) xs) k = map_option g (find (\<lambda>r. f r = k) xs)"
  by (induction xs) auto

lemma set_log_rows: "set (log_rows d c) = {r \<in> set (t_mutations d). mt_company r = c}"
  by (auto simp: log_rows_def)

section \<open>The relation\<close>

definition log_row :: "uuid \<Rightarrow> stored_mutation \<Rightarrow> string option \<Rightarrow> mutation_row" where
  "log_row c m h = \<lparr>mt_company = c, mt_id = mr_id (sd_record m), mt_version = sd_version m, mt_record = sd_record m,
     mt_acknowledged = sd_acknowledged m, mt_chain_hash = h\<rparr>"

text \<open>The rows of a log whose first \<open>k\<close> rows are linked.\<close>

definition linked_rows :: "uuid \<Rightarrow> nat \<Rightarrow> inner \<Rightarrow> mutation_row list" where
  "linked_rows c k s = map (\<lambda>i. log_row c (mutations s c ! i) (if i < k then Some (chain s c ! i) else None)) [0..<length (mutations s c)]"

definition same_read_model :: "uuid \<Rightarrow> inner \<Rightarrow> db \<Rightarrow> bool" where
  "same_read_model c s d \<longleftrightarrow> (\<forall>dt i. db_company_document d c dt i = company_document_of s c dt i)"

definition same_counter :: "uuid \<Rightarrow> inner \<Rightarrow> db \<Rightarrow> bool" where
  "same_counter c s d \<longleftrightarrow> (case counter_of d c of Some r \<Rightarrow> ct_last_version r = counters s c | None \<Rightarrow> counters s c = 0)"

definition log_sim :: "ext \<Rightarrow> uuid \<Rightarrow> inner \<Rightarrow> db \<Rightarrow> bool" where
  "log_sim x c s d \<longleftrightarrow> log_inv x c s \<and> company_exists d c \<and> same_counter c s d \<and> same_read_model c s d
     \<and> (\<exists>k \<le> length (mutations s c). log_rows d c = linked_rows c k s)"

text \<open>What an operation on the log of one company leaves alone.\<close>

definition only_log :: "uuid \<Rightarrow> db \<Rightarrow> db \<Rightarrow> bool" where
  "only_log c d d' \<longleftrightarrow> (\<exists>ms cs rs. d' = d\<lparr>t_mutations := ms, t_sync_counters := cs, t_company_documents := rs\<rparr>)
     \<and> (\<forall>b. b \<noteq> c \<longrightarrow> log_rows d' b = log_rows d b \<and> counter_of d' b = counter_of d b
         \<and> db_company_document d' b = db_company_document d b)"

lemma only_log_refl [simp]: "only_log c d d"
  by (auto simp: only_log_def intro!: exI [of _ "t_mutations d"] exI [of _ "t_sync_counters d"] exI [of _ "t_company_documents d"])

lemma only_log_trans: "only_log c d d' \<Longrightarrow> only_log c d' d'' \<Longrightarrow> only_log c d d''"
  by (force simp: only_log_def)

lemma only_log_company [simp]: "only_log c d d' \<Longrightarrow> company_exists d' b = company_exists d b"
  by (auto simp: only_log_def company_exists_def)

lemma linked_rows_length [simp]: "length (linked_rows c k s) = length (mutations s c)"
  by (simp add: linked_rows_def)

lemma linked_rows_nth:
  "i < length (mutations s c) \<Longrightarrow> linked_rows c k s ! i = log_row c (mutations s c ! i) (if i < k then Some (chain s c ! i) else None)"
  by (simp add: linked_rows_def)

lemma log_row_sel [simp]:
  "mt_company (log_row c m h) = c" "mt_id (log_row c m h) = mr_id (sd_record m)" "mt_version (log_row c m h) = sd_version m"
  "mt_record (log_row c m h) = sd_record m" "mt_acknowledged (log_row c m h) = sd_acknowledged m" "mt_chain_hash (log_row c m h) = h"
  by (simp_all add: log_row_def)

lemma linked_rows_map:
  assumes "\<And>m h. f (log_row c m h) = g m"
  shows "map f (linked_rows c k s) = map g (mutations s c)"
  by (rule nth_equalityI) (simp_all add: linked_rows_nth assms)

lemmas linked_rows_ids = linked_rows_map [of mt_id _ "\<lambda>m. mr_id (sd_record m)", simplified]
lemmas linked_rows_versions = linked_rows_map [of mt_version _ sd_version, simplified]

lemma chain_facts:
  assumes "log_inv x c s"
  shows "length (chain s c) = length (mutations s c)"
    and "i < length (mutations s c) \<Longrightarrow> chain s c ! i = chain_value x (take (Suc i) (log_entries s c))"
    and "chain_tip s c = chain_value x (log_entries s c)"
proof -
  note ch = log_invD(5) [OF assms]
  show "length (chain s c) = length (mutations s c)" by (simp add: ch chain_of_def log_entries_def)
  show "i < length (mutations s c) \<Longrightarrow> chain s c ! i = chain_value x (take (Suc i) (log_entries s c))"
    by (simp add: ch chain_of_def log_entries_def)
  show "chain_tip s c = chain_value x (log_entries s c)" by (simp only: chain_tip_def ch chain_of_last)
qed

lemma sim_distinct:
  assumes "log_inv x c s" "log_rows d c = linked_rows c k s"
  shows "distinct (map mt_id (log_rows d c))" "distinct (map mt_version (log_rows d c))"
proof -
  show "distinct (map mt_id (log_rows d c))"
    using log_invD(3) [OF assms(1)] by (simp add: assms(2) linked_rows_ids log_records_def comp_def)
  show "distinct (map mt_version (log_rows d c))"
    unfolding assms(2) linked_rows_versions log_invD(1) [OF assms(1)] by (simp add: distinct_map del: upt_Suc)
qed

lemma version_of_sim:
  assumes "log_inv x c s" "log_rows d c = linked_rows c k s"
  shows "version_of d c i = mutation_versions s (c, i)"
proof -
  have "version_of d c i = map_option mt_version (find (\<lambda>r. mt_id r = i) (log_rows d c))"
    unfolding version_of_def by (subst find_key [OF sim_distinct(1) [OF assms] set_log_rows]) simp
  also have "\<dots> = map_of (map (\<lambda>r. (mt_id r, mt_version r)) (log_rows d c)) i" by (simp add: map_of_find)
  also have "map (\<lambda>r. (mt_id r, mt_version r)) (log_rows d c) = map (\<lambda>m. (mr_id (sd_record m), sd_version m)) (mutations s c)"
    unfolding assms(2) by (rule linked_rows_map) simp
  finally show ?thesis using log_invD(4) [OF assms(1)] by simp
qed

section \<open>Linking\<close>

lemma log_rows_update:
  assumes "\<And>r. mt_version (f r) = mt_version r" "\<And>r. mt_company (f r) = mt_company r"
  shows "log_rows (d\<lparr>t_mutations := update_where P f (t_mutations d)\<rparr>) c = update_where P f (log_rows d c)"
proof -
  let ?g = "\<lambda>r. if P r then f r else r"
  have "filter (\<lambda>r. mt_company r = c) (map ?g xs) = map ?g (filter (\<lambda>r. mt_company r = c) xs)" for xs
    using assms(2) by (induction xs) auto
  then show ?thesis
    using assms(1) sort_key_map [of mt_version ?g] by (simp add: log_rows_def update_where_def)
qed

lemma set_chain_hash_rows: "log_rows (set_chain_hash c v h d) b =
    update_where (\<lambda>r. mt_company r = c \<and> mt_version r = v) (\<lambda>r. r\<lparr>mt_chain_hash := Some h\<rparr>) (log_rows d b)"
  unfolding set_chain_hash_def by (rule log_rows_update) simp_all

lemma update_other_company: "b \<noteq> c \<Longrightarrow> update_where (\<lambda>r. mt_company r = c \<and> Q r) f (log_rows d b) = log_rows d b"
  by (auto simp: update_where_def log_rows_def intro!: map_idI)

lemma set_chain_hash_only [simp]: "only_log c d (set_chain_hash c v h d)"
proof -
  have "log_rows (set_chain_hash c v h d) b = log_rows d b" if "b \<noteq> c" for b
    using that by (simp add: set_chain_hash_rows update_other_company)
  then show ?thesis
    by (auto simp: only_log_def set_chain_hash_def counter_of_def db_company_document_def fun_eq_iff
        intro!: exI [of _ "t_sync_counters d"] exI [of _ "t_company_documents d"])
qed

lemma set_chain_hash_frame [simp]:
  "t_sync_counters (set_chain_hash c v h d) = t_sync_counters d" "t_company_documents (set_chain_hash c v h d) = t_company_documents d"
  by (simp_all add: set_chain_hash_def)

lemma link_step:
  assumes "log_inv x c s" "log_rows d c = linked_rows c k s" "k < length (mutations s c)"
  shows "log_rows (set_chain_hash c (int (Suc k)) (chain s c ! k) d) c = linked_rows c (Suc k) s"
proof (rule nth_equalityI)
  fix i
  assume "i < length (log_rows (set_chain_hash c (int (Suc k)) (chain s c ! k) d) c)"
  then have i: "i < length (mutations s c)" by (simp add: set_chain_hash_rows update_where_def assms(2))
  then show "log_rows (set_chain_hash c (int (Suc k)) (chain s c ! k) d) c ! i = linked_rows c (Suc k) s ! i"
    using log_version_nth [OF assms(1) i]
    by (auto simp: set_chain_hash_rows update_where_def assms(2) linked_rows_nth log_row_def less_Suc_eq)
qed (simp add: set_chain_hash_rows update_where_def assms(2))

lemma chain_link:
  assumes "log_inv x c s" "k < length (mutations s c)"
  shows "link x (chain_value x (take k (log_entries s c))) (int (Suc k)) (mr_id (sd_record (mutations s c ! k)))
      (mutation_to_json (sd_record (mutations s c ! k))) = chain s c ! k"
proof -
  have k: "take (Suc k) (log_entries s c) = take k (log_entries s c) @ [log_entry (mutations s c ! k)]"
    using assms(2) by (simp add: take_Suc_conv_app_nth log_entries_def)
  show ?thesis
    using chain_facts(2) [OF assms] log_version_nth [OF assms] by (simp add: k log_entry_def chain_value_snoc)
qed

lemma link_rows_sim:
  assumes "log_inv x c s" "log_rows d c = linked_rows c k s" "k \<le> length (mutations s c)"
    and "rows = drop k (linked_rows c j s)" "tip = chain_value x (take k (log_entries s c))"
  shows "\<exists>d'. link_rows x c rows tip d = (Inr (chain_tip s c), d') \<and> log_rows d' c = linked_rows c (length (mutations s c)) s \<and>
    only_log c d d' \<and> t_sync_counters d' = t_sync_counters d \<and> t_company_documents d' = t_company_documents d"
  using assms(2-)
proof (induction rows arbitrary: k tip d)
  case Nil
  then have "k = length (mutations s c)" by simp
  then show ?case using Nil chain_facts(3) [OF assms(1)] by (auto simp: yields_def log_entries_def)
next
  case (Cons r rows)
  then have k: "k < length (mutations s c)" by (cases "k = length (mutations s c)") auto
  then have r: "r = linked_rows c j s ! k" "rows = drop (Suc k) (linked_rows c j s)"
    using Cons.prems(3) Cons_nth_drop_Suc [of k "linked_rows c j s"] by (metis linked_rows_length list.inject)+
  let ?d = "set_chain_hash c (int (Suc k)) (chain s c ! k) d"
  have tip: "chain s c ! k = chain_value x (take (Suc k) (log_entries s c))" using chain_facts(2) [OF assms(1) k] .
  have l: "link x tip (int (Suc k)) (mt_id r) (mutation_to_json (mt_record r)) = chain s c ! k" "mt_version r = int (Suc k)"
    using chain_link [OF assms(1) k] log_version_nth [OF assms(1) k] Cons.prems(4) by (simp_all add: r(1) linked_rows_nth k)
  from Cons.IH [OF link_step [OF assms(1) Cons.prems(1) k] _ r(2) tip] k
  obtain d' where d': "link_rows x c rows (chain s c ! k) ?d = (Inr (chain_tip s c), d')" "log_rows d' c = linked_rows c (length (mutations s c)) s"
    "only_log c ?d d'" "t_sync_counters d' = t_sync_counters ?d" "t_company_documents d' = t_company_documents ?d" by auto
  moreover have "link_rows x c (r # rows) tip d = link_rows x c rows (chain s c ! k) ?d"
    by (simp only: link_rows.simps l Let_def and_run_def execute_def option.case prod.case sum.case)
  ultimately show ?case using only_log_trans [OF set_chain_hash_only d'(3)] by auto
qed

lemma chain_anchor_sim:
  assumes "log_inv x c s" "log_rows d c = linked_rows c k s" "k \<le> length (mutations s c)"
  shows "chain_anchor d c = (int k, chain_value x (take k (log_entries s c)))"
proof -
  let ?P = "\<lambda>r. mt_chain_hash r \<noteq> None"
  have f: "filter ?P (linked_rows c k s) = take k (linked_rows c k s)"
  proof -
    have "filter ?P (take k (linked_rows c k s)) = take k (linked_rows c k s)" "filter ?P (drop k (linked_rows c k s)) = []"
      using assms(3) by (auto simp: filter_id_conv filter_empty_conv in_set_conv_nth linked_rows_nth)
    then show ?thesis by (metis append_Nil2 append_take_drop_id filter_append)
  qed
  show ?thesis
  proof (cases k)
    case 0
    then show ?thesis using f by (simp add: chain_anchor_def assms(2) rev_filter [symmetric] chain_value_def)
  next
    case (Suc j)
    then have j: "j < length (mutations s c)" using assms(3) by simp
    then have "take k (linked_rows c k s) = take j (linked_rows c k s) @ [linked_rows c k s ! j]"
      by (simp add: Suc take_Suc_conv_app_nth)
    then show ?thesis
      using f chain_facts(2) [OF assms(1) j] log_version_nth [OF assms(1) j] j
      by (simp add: chain_anchor_def assms(2) rev_filter [symmetric] Suc linked_rows_nth)
  qed
qed

lemma drop_linked:
  assumes "log_inv x c s" "log_rows d c = linked_rows c k s"
  shows "filter (\<lambda>r. int j < mt_version r) (log_rows d c) = drop j (linked_rows c k s)"
  unfolding assms(2) using log_version_nth [OF assms(1)]
  by (intro filter_by_index) (auto simp: linked_rows_nth)

lemma set_last_hash_eq: "set_last_hash c h d = (Inr (), d\<lparr>t_sync_counters :=
    update_where (\<lambda>r. ct_company r = c) (\<lambda>r. r\<lparr>ct_last_hash := Some h\<rparr>) (t_sync_counters d)\<rparr>)"
  by (simp add: set_last_hash_def execute_def)

lemma counter_update:
  assumes "\<And>r. ct_company (f r) = ct_company r"
  shows "counter_of (d\<lparr>t_sync_counters := update_where (\<lambda>r. ct_company r = c) f (t_sync_counters d)\<rparr>) b =
    (if b = c then map_option f (counter_of d c) else counter_of d b)"
proof -
  have "find (\<lambda>r. ct_company r = b) (map (\<lambda>r. if ct_company r = c then f r else r) xs) =
    (if b = c then map_option f (find (\<lambda>r. ct_company r = c) xs) else find (\<lambda>r. ct_company r = b) xs)" for xs
    using assms by (induction xs) auto
  then show ?thesis by (simp add: counter_of_def update_where_def)
qed

lemma counter_update_only:
  assumes "\<And>r. ct_company (f r) = ct_company r"
  shows "only_log c d (d\<lparr>t_sync_counters := update_where (\<lambda>r. ct_company r = c) f (t_sync_counters d)\<rparr>)"
  by (auto simp: only_log_def log_rows_def db_company_document_def fun_eq_iff counter_update [OF assms]
      intro!: exI [of _ "t_mutations d"] exI [of _ "t_company_documents d"])

text \<open>The tip of the chain, and a database in which every row of the company is linked.\<close>

definition all_linked :: "uuid \<Rightarrow> inner \<Rightarrow> db \<Rightarrow> bool" where
  "all_linked c s d \<longleftrightarrow> log_rows d c = linked_rows c (length (mutations s c)) s"

lemma chain_tip_sim:
  assumes "log_sim x c s d" "counter_of d c = Some row"
  shows "\<exists>d'. db_chain_tip x c (ct_last_version row) d = (Inr (chain_tip s c), d') \<and> log_sim x c s d' \<and> all_linked c s d' \<and>
    only_log c d d' \<and> (\<exists>row'. counter_of d' c = Some row' \<and> ct_last_version row' = ct_last_version row)"
proof -
  obtain k where inv: "log_inv x c s" and k: "log_rows d c = linked_rows c k s" "k \<le> length (mutations s c)"
    using assms(1) by (auto simp: log_sim_def)
  have head: "ct_last_version row = int (length (mutations s c))"
    using assms log_invD(2) [OF inv] by (simp add: log_sim_def same_counter_def)
  have anchor: "chain_anchor d c = (int k, chain_value x (take k (log_entries s c)))" by (rule chain_anchor_sim [OF inv k])
  note tip = chain_facts(3) [OF inv]
  show ?thesis
  proof (cases "mutations s c = []")
    case True
    then show ?thesis
      using assms k tip head by (simp add: db_chain_tip_def yields_def all_linked_def log_entries_def chain_value_def)
  next
    case False
    show ?thesis
    proof (cases "int k = ct_last_version row \<and> ct_last_hash row = Some (chain_value x (take k (log_entries s c)))")
      case True
      then have "db_chain_tip x c (ct_last_version row) d = (Inr (chain_tip s c), d)"
        using False head tip anchor assms(2)
        by (simp add: db_chain_tip_def and_run_def query_def counter_row_of_def from_result_def ok_or_def yields_def log_entries_def)
      moreover have "k = length (mutations s c)" using True head by simp
      ultimately show ?thesis using assms k(1) by (auto simp: all_linked_def)
    next
      case relink: False
      obtain d' where d': "link_rows x c (drop k (linked_rows c k s)) (chain_value x (take k (log_entries s c))) d = (Inr (chain_tip s c), d')"
        "log_rows d' c = linked_rows c (length (mutations s c)) s" "only_log c d d'"
        "t_sync_counters d' = t_sync_counters d" "t_company_documents d' = t_company_documents d"
        using link_rows_sim [OF inv k refl refl] by blast
      let ?e = "d'\<lparr>t_sync_counters := update_where (\<lambda>r. ct_company r = c) (\<lambda>r. r\<lparr>ct_last_hash := Some (chain_tip s c)\<rparr>) (t_sync_counters d')\<rparr>"
      have run: "db_chain_tip x c (ct_last_version row) d = (Inr (chain_tip s c), ?e)"
        using False head relink anchor assms(2) d'(1)
        by (auto simp add: db_chain_tip_def and_run_def query_def counter_row_of_def from_result_def ok_or_def yields_def
            drop_linked [OF inv k(1)] set_last_hash_eq)
      have o: "only_log c d ?e" by (rule only_log_trans [OF d'(3) counter_update_only]) simp
      have ct: "counter_of ?e c = Some (row\<lparr>ct_last_hash := Some (chain_tip s c)\<rparr>)"
        using assms(2) d'(4) by (subst counter_update) (simp_all add: counter_of_def)
      moreover have rows: "log_rows ?e c = linked_rows c (length (mutations s c)) s" using d'(2) by (simp add: log_rows_def)
      moreover have "same_read_model c s ?e"
        using assms(1) d'(5) by (simp add: log_sim_def same_read_model_def db_company_document_def)
      ultimately have "log_sim x c s ?e"
        using assms inv o by (auto simp: log_sim_def same_counter_def)
      then show ?thesis using run o ct rows by (auto simp: all_linked_def)
    qed
  qed
qed

section \<open>Appending\<close>

lemma find_update: "(\<And>q. key (upd q) = key q) \<Longrightarrow>
    find (\<lambda>r. key r = k) (update_where (\<lambda>q. key q = j) upd rows) =
      (if k = j then map_option upd (find (\<lambda>r. key r = k) rows) else find (\<lambda>r. key r = k) rows)"
  by (induction rows) (auto simp: update_where_def)

lemma find_append: "find P (xs @ ys) = (case find P xs of Some a \<Rightarrow> Some a | None \<Rightarrow> find P ys)"
  by (induction xs) auto

lemma find_other: "k \<noteq> j \<Longrightarrow> find (\<lambda>r. key r = k) (filter (\<lambda>r. key r \<noteq> j) rows) = find (\<lambda>r. key r = k) rows"
  by (induction rows) auto

lemma upsert_find:
  assumes "insert_or_update key ok (\<lambda>old new. upd old new) r rows = Some rows'" "\<And>q. key q = key r \<Longrightarrow> upd q r = r"
  shows "find (\<lambda>q. key q = k) rows' = (if k = key r then Some r else find (\<lambda>q. key q = k) rows)"
proof -
  have "find (\<lambda>q. key q = k) (update_where (\<lambda>q. key q = key r) (\<lambda>q. upd q r) rs) =
      (if k = key r \<and> key r \<in> key ` set rs then Some r else find (\<lambda>q. key q = k) rs)" for rs
    using assms(2) by (induction rs) (auto simp: update_where_def)
  moreover have "key r \<notin> key ` set rows \<Longrightarrow> find (\<lambda>q. key q = key r) rows = None" by (metis (mono_tags, lifting) find_None_iff imageI)
  ultimately show ?thesis
    using assms(1) by (auto simp: insert_or_update_def find_append split: if_splits option.splits)
qed

lemma projection_sim:
  assumes "same_read_model c s d" "company_exists d c"
  shows "\<exists>rs. db_apply_projection x now c r d = (Inr (), d\<lparr>t_company_documents := rs\<rparr>) \<and>
    same_read_model c (apply_projection x now c r s) (d\<lparr>t_company_documents := rs\<rparr>) \<and>
    (\<forall>b. b \<noteq> c \<longrightarrow> db_company_document (d\<lparr>t_company_documents := rs\<rparr>) b = db_company_document d b)"
proof -
  let ?k = "(c, mr_doc_type r, mr_document_id r)"
  have ex: "db_company_document d c (mr_doc_type r) (mr_document_id r) = map_of (company_documents s) ?k"
    using assms(1) by (simp add: same_read_model_def company_document_of_def)
  show ?thesis
  proof (cases "fold_mutation x (map_of (company_documents s) ?k) r c now")
    case (Upsert doc)
    have key: "cd_key doc = ?k" "doc\<lparr>cd_company := c\<rparr> = doc"
      using Upsert by (auto simp: fold_mutation_def cd_key_def Let_def split: if_splits)
    let ?upd = "\<lambda>old new. old\<lparr>cd_payload := cd_payload new, cd_children := cd_children new,
              cd_docstatus := cd_docstatus new, cd_updated_at := cd_updated_at new\<rparr>"
    obtain rs where rs: "insert_or_update cd_key (\<lambda>r. company_exists d (cd_company r)) ?upd doc (t_company_documents d) = Some rs"
      using assms(2) key(2) by (cases "cd_key doc \<in> cd_key ` set (t_company_documents d)") (auto simp: insert_or_update_def dest: arg_cong [of _ _ cd_company])
    have upd: "?upd q doc = doc" if "cd_key q = cd_key doc" for q using that by (cases q; cases doc) (simp add: cd_key_def)
    have f: "find (\<lambda>q. cd_key q = k) rs = (if k = ?k then Some doc else find (\<lambda>q. cd_key q = k) (t_company_documents d))" for k
      using upsert_find [OF rs upd] key(1) by simp
    have "db_apply_projection x now c r d = (Inr (), d\<lparr>t_company_documents := rs\<rparr>)"
      using Upsert rs by (simp add: db_apply_projection_def and_run_def query_def ex key(2) execute_def)
    moreover have "same_read_model c (apply_projection x now c r s) (d\<lparr>t_company_documents := rs\<rparr>)"
      using assms(1) Upsert f by (auto simp: same_read_model_def db_company_document_def company_document_of_def
          apply_projection_def Let_def update_conv')
    ultimately show ?thesis using f by (auto simp: db_company_document_def fun_eq_iff)
  next
    case Delete
    then have "db_apply_projection x now c r d = (Inr (), d\<lparr>t_company_documents := filter (\<lambda>r. cd_key r \<noteq> ?k) (t_company_documents d)\<rparr>)"
      by (simp add: db_apply_projection_def and_run_def query_def ex execute_def)
    moreover have "find (\<lambda>q. cd_key q = ?k) (filter (\<lambda>r. cd_key r \<noteq> ?k) (t_company_documents d)) = None" by (simp add: find_None_iff)
    ultimately show ?thesis
      using assms(1) Delete
      by (auto simp: same_read_model_def db_company_document_def company_document_of_def apply_projection_def Let_def
          delete_conv' find_other fun_eq_iff restrict_map_def)
  next
    case Keep
    then have "db_apply_projection x now c r d = (Inr (), d\<lparr>t_company_documents := t_company_documents d\<rparr>)"
      by (simp add: db_apply_projection_def and_run_def query_def ex yields_def)
    then show ?thesis using assms(1) Keep by (intro exI [of _ "t_company_documents d"]) (auto simp: apply_projection_def Let_def)
  qed
qed

text \<open>Inside an append the counter row is behind; the rest of the relation holds.\<close>

definition appending :: "ext \<Rightarrow> uuid \<Rightarrow> inner \<Rightarrow> db \<Rightarrow> bool" where
  "appending x c s d \<longleftrightarrow> log_inv x c s \<and> company_exists d c \<and> same_read_model c s d \<and> all_linked c s d"

lemma insert_mutation_sim:
  assumes "appending x c s d" "mutation_versions s (c, mr_id r) = None" "length (mutations s c) < max_log"
  defines "v \<equiv> int (Suc (length (mutations s c)))"
  shows "\<exists>ms. insert_mutation c v h r d = (Inr (), d\<lparr>t_mutations := ms\<rparr>) \<and>
    log_rows (d\<lparr>t_mutations := ms\<rparr>) c = log_rows d c @ [log_row c \<lparr>sd_record = r, sd_version = v, sd_acknowledged = False\<rparr> (Some h)] \<and>
    (\<forall>b. b \<noteq> c \<longrightarrow> log_rows (d\<lparr>t_mutations := ms\<rparr>) b = log_rows d b)"
proof -
  have inv: "log_inv x c s" and rows: "log_rows d c = linked_rows c (length (mutations s c)) s" and ce: "company_exists d c"
    using assms(1) by (auto simp: appending_def all_linked_def)
  let ?r = "log_row c \<lparr>sd_record = r, sd_version = v, sd_acknowledged = False\<rparr> (Some h)"
  have old: "mt_version q < v" if "q \<in> set (t_mutations d)" "mt_company q = c" for q
  proof -
    have "q \<in> set (log_rows d c)" using that by (simp add: set_log_rows)
    then obtain i where "i < length (mutations s c)" "q = linked_rows c (length (mutations s c)) s ! i"
      unfolding rows by (auto simp: in_set_conv_nth)
    then show ?thesis using log_version_nth [OF inv] by (simp add: linked_rows_nth v_def)
  qed
  have new: "mt_id q \<noteq> mr_id r" if "q \<in> set (t_mutations d)" "mt_company q = c" for q
  proof
    assume "mt_id q = mr_id r"
    then have "version_of d c (mr_id r) \<noteq> None" using that by (auto simp: version_of_def find_None_iff)
    then show False using version_of_sim [OF inv rows] assms(2) by simp
  qed
  have free: "(c, mr_id r) \<notin> (\<lambda>q. (mt_company q, mt_id q)) ` set (t_mutations d)"
    "(c, v) \<notin> (\<lambda>q. (mt_company q, mt_version q)) ` set (t_mutations d)"
    by (metis (no_types, lifting) imageE new prod.inject) (metis (no_types, lifting) imageE old order_less_irrefl prod.inject)
  have "insert_mutation c v h r d = (Inr (), d\<lparr>t_mutations := t_mutations d @ [?r]\<rparr>)"
    using free ce by (simp add: insert_mutation_def execute_def insert_row_def log_row_def)
  moreover have "log_rows (d\<lparr>t_mutations := t_mutations d @ [?r]\<rparr>) c = log_rows d c @ [?r]"
    using old sort_key_snoc [of "filter (\<lambda>r. mt_company r = c) (t_mutations d)" mt_version ?r] by (simp add: log_rows_def less_imp_le)
  moreover have "log_rows (d\<lparr>t_mutations := t_mutations d @ [?r]\<rparr>) b = log_rows d b" if "b \<noteq> c" for b
    using that by (simp add: log_rows_def)
  ultimately show ?thesis by blast
qed

lemma linked_rows_append:
  assumes "mutations t c = mutations s c @ [m]" "chain t c = chain s c @ [h]" "length (chain s c) = length (mutations s c)"
  shows "linked_rows c (length (mutations t c)) t = linked_rows c (length (mutations s c)) s @ [log_row c m (Some h)]"
  by (rule nth_equalityI) (auto simp: linked_rows_nth assms nth_append less_Suc_eq)

lemma append_one_sim:
  assumes "appending x c s d" "mutation_versions s (c, mr_id r) = None" "length (mutations s c) < max_log"
  shows "\<exists>d1 d'. insert_mutation c (i64_succ (counters s c)) (link x (chain_tip s c) (i64_succ (counters s c)) (mr_id r) (mutation_to_json r)) r d
      = (Inr (), d1) \<and> db_apply_projection x now c r d1 = (Inr (), d') \<and>
    appending x c (snd (append_one x now c r s)) d' \<and> only_log c d d' \<and> t_sync_counters d' = t_sync_counters d"
proof -
  let ?v = "int (Suc (length (mutations s c)))" and ?t = "snd (append_one x now c r s)"
  let ?h = "link x (chain_tip s c) ?v (mr_id r) (mutation_to_json r)"
  have inv: "log_inv x c s" using assms(1) by (simp add: appending_def)
  have v: "i64_succ (counters s c) = ?v" using log_invD(2) [OF inv] max_log_counter [OF assms(3)] by simp
  obtain ms where ms: "insert_mutation c ?v ?h r d = (Inr (), d\<lparr>t_mutations := ms\<rparr>)"
    "log_rows (d\<lparr>t_mutations := ms\<rparr>) c = log_rows d c @ [log_row c \<lparr>sd_record = r, sd_version = ?v, sd_acknowledged = False\<rparr> (Some ?h)]"
    "\<forall>b. b \<noteq> c \<longrightarrow> log_rows (d\<lparr>t_mutations := ms\<rparr>) b = log_rows d b"
    using insert_mutation_sim [OF assms] by blast
  let ?d1 = "d\<lparr>t_mutations := ms\<rparr>"
  have "same_read_model c s ?d1" "company_exists ?d1 c"
    using assms(1) by (simp_all add: appending_def same_read_model_def db_company_document_def company_exists_def)
  then obtain rs where rs: "db_apply_projection x now c r ?d1 = (Inr (), ?d1\<lparr>t_company_documents := rs\<rparr>)"
    "same_read_model c (apply_projection x now c r s) (?d1\<lparr>t_company_documents := rs\<rparr>)"
    "\<forall>b. b \<noteq> c \<longrightarrow> db_company_document (?d1\<lparr>t_company_documents := rs\<rparr>) b = db_company_document ?d1 b"
    using projection_sim by blast
  let ?d' = "?d1\<lparr>t_company_documents := rs\<rparr>"
  have nr: "mr_id r \<notin> mr_id ` set (log_records s c)" "length (log_records s c) < max_log"
    using log_inv_known [OF inv, of "mr_id r"] assms(2,3) by (auto simp: log_records_def)
  note new = append_one_new [OF inv nr, of now]
  have "mutations ?t c = mutations s c @ [\<lparr>sd_record = r, sd_version = ?v, sd_acknowledged = False\<rparr>]" "chain ?t c = chain s c @ [?h]"
    using new(1,4) by (simp_all add: log_records_def)
  note linked = linked_rows_append [OF this chain_facts(1) [OF inv]]
  have "all_linked c ?t ?d'"
    using assms(1) ms(2) linked by (simp add: appending_def all_linked_def log_rows_def)
  moreover have "same_read_model c ?t ?d'"
    using rs(2) by (simp add: same_read_model_def company_document_of_append assms(2))
  moreover have "log_inv x c ?t" using append_one_inv [OF inv nr(2)] .
  ultimately have "appending x c ?t ?d'" using assms(1) by (simp add: appending_def company_exists_def)
  moreover have "only_log c d ?d'"
    using ms(3) rs(3)
    by (auto simp: only_log_def counter_of_def db_company_document_def log_rows_def fun_eq_iff intro!: exI [of _ ms] exI [of _ "t_sync_counters d"] exI [of _ rs])
  ultimately show ?thesis using ms(1) rs(1) v by auto
qed

lemma append_rows_sim:
  assumes "appending x c s d" "length (mutations s c) + length ms \<le> max_log"
  shows "\<exists>d'. append_rows x now c ms (counters s c) (chain_tip s c) d =
      (Inr (fst (append_mutations x now c ms s), counters (snd (append_mutations x now c ms s)) c, chain_tip (snd (append_mutations x now c ms s)) c), d')
    \<and> appending x c (snd (append_mutations x now c ms s)) d' \<and> only_log c d d' \<and> t_sync_counters d' = t_sync_counters d"
  using assms
proof (induction ms arbitrary: s d)
  case Nil
  then show ?case by (simp add: yields_def)
next
  case (Cons r ms)
  have inv: "log_inv x c s" and rows: "log_rows d c = linked_rows c (length (mutations s c)) s"
    using Cons.prems(1) by (auto simp: appending_def all_linked_def)
  let ?t = "snd (append_one x now c r s)"
  show ?case
  proof (cases "mutation_versions s (c, mr_id r)")
    case (Some v)
    then have one: "append_one x now c r s = ((mr_id r, v), s)" by (simp add: append_one_def)
    from Cons.IH [OF Cons.prems(1)] Cons.prems(2) show ?thesis
      using Some by (auto simp: and_run_def query_def version_of_sim [OF inv rows] one case_prod_beta yields_def)
  next
    case None
    obtain d1 d2 where st: "insert_mutation c (i64_succ (counters s c))
        (link x (chain_tip s c) (i64_succ (counters s c)) (mr_id r) (mutation_to_json r)) r d = (Inr (), d1)"
      "db_apply_projection x now c r d1 = (Inr (), d2)" "appending x c ?t d2" "only_log c d d2" "t_sync_counters d2 = t_sync_counters d"
      using append_one_sim [OF Cons.prems(1) None, of now] Cons.prems(2) by auto
    have nr: "mr_id r \<notin> mr_id ` set (log_records s c)" "length (log_records s c) < max_log"
      using log_inv_known [OF inv, of "mr_id r"] None Cons.prems(2) by (auto simp: log_records_def)
    note new = append_one_new [OF inv nr, of now]
    have v: "i64_succ (counters s c) = counters ?t c" "link x (chain_tip s c) (counters ?t c) (mr_id r) (mutation_to_json r) = chain_tip ?t c"
      "fst (append_one x now c r s) = (mr_id r, counters ?t c)"
      using new log_invD(2) [OF inv] max_log_counter nr(2) by (simp_all add: log_records_def chain_tip_def)
    have "length (mutations ?t c) + length ms \<le> max_log" using new(1) Cons.prems(2) by simp
    from Cons.IH [OF st(3) this] st v only_log_trans [OF st(4)] show ?thesis
      by (auto simp: and_run_def query_def version_of_sim [OF inv rows] None Let_def case_prod_beta yields_def)
  qed
qed

lemma ensure_counter_sim:
  assumes "log_sim x c s d"
  shows "\<exists>d' row. ensure_counter c d = (Inr (), d') \<and> counter_row_of c d' = (Inr row, d') \<and> counter_of d' c = Some row \<and>
    ct_last_version row = counters s c \<and> log_sim x c s d' \<and> only_log c d d'"
proof (cases "counter_of d c")
  case (Some row)
  then have "c \<in> ct_company ` set (t_sync_counters d)" by (auto simp: counter_of_def find_Some_iff)
  then have "ensure_counter c d = (Inr (), d)"
    using assms by (simp add: ensure_counter_def execute_def insert_or_keep_def log_sim_def)
  then show ?thesis using Some assms by (auto simp: counter_row_of_def from_result_def ok_or_def log_sim_def same_counter_def)
next
  case None
  let ?row = "\<lparr>ct_company = c, ct_last_version = 0, ct_last_hash = None\<rparr>"
  let ?d = "d\<lparr>t_sync_counters := t_sync_counters d @ [?row]\<rparr>"
  have "c \<notin> ct_company ` set (t_sync_counters d)" using None by (auto simp: counter_of_def find_None_iff)
  then have run: "ensure_counter c d = (Inr (), ?d)"
    using assms by (simp add: ensure_counter_def execute_def insert_or_keep_def log_sim_def)
  have ct: "counter_of ?d c = Some ?row" using None by (simp add: counter_of_def find_append)
  have "only_log c d ?d"
    by (auto simp: only_log_def log_rows_def db_company_document_def counter_of_def find_append fun_eq_iff
        intro!: exI [of _ "t_mutations d"] exI [of _ "t_company_documents d"] split: option.split)
  moreover have zero: "counters s c = 0" using assms None by (simp add: log_sim_def same_counter_def)
  ultimately have "log_sim x c s ?d"
    using assms ct by (simp add: log_sim_def same_counter_def log_rows_def same_read_model_def db_company_document_def company_exists_def)
  with run ct zero \<open>only_log c d ?d\<close> show ?thesis by (auto simp: counter_row_of_def from_result_def ok_or_def)
qed

text \<open>An append answers as the memory store does and keeps the relation.\<close>

lemma append_mutations_sim:
  assumes "log_sim x c s d" "length (mutations s c) + length ms \<le> max_log"
  shows "\<exists>d'. db_append_mutations x now c ms d = (Inr (fst (append_mutations x now c ms s)), d') \<and>
    log_sim x c (snd (append_mutations x now c ms s)) d' \<and> all_linked c (snd (append_mutations x now c ms s)) d' \<and> only_log c d d'"
proof -
  let ?t = "snd (append_mutations x now c ms s)"
  obtain d1 row where d1: "ensure_counter c d = (Inr (), d1)" "counter_row_of c d1 = (Inr row, d1)" "counter_of d1 c = Some row"
    "ct_last_version row = counters s c" "log_sim x c s d1" "only_log c d d1"
    using ensure_counter_sim [OF assms(1)] by blast
  obtain d2 row2 where d2: "db_chain_tip x c (ct_last_version row) d1 = (Inr (chain_tip s c), d2)" "log_sim x c s d2" "all_linked c s d2"
    "only_log c d1 d2" "counter_of d2 c = Some row2"
    using chain_tip_sim [OF d1(5,3)] by blast
  have "appending x c s d2" using d2 by (simp add: appending_def log_sim_def)
  then obtain d3 where d3: "append_rows x now c ms (counters s c) (chain_tip s c) d2 =
      (Inr (fst (append_mutations x now c ms s), counters ?t c, chain_tip ?t c), d3)"
    "appending x c ?t d3" "only_log c d2 d3" "t_sync_counters d3 = t_sync_counters d2"
    using append_rows_sim assms(2) by blast
  let ?f = "\<lambda>r. r\<lparr>ct_last_version := counters ?t c, ct_last_hash := Some (chain_tip ?t c)\<rparr>"
  let ?d = "d3\<lparr>t_sync_counters := update_where (\<lambda>r. ct_company r = c) ?f (t_sync_counters d3)\<rparr>"
  have run: "db_append_mutations x now c ms d = (Inr (fst (append_mutations x now c ms s)), ?d)"
    using d1 d2 d3 by (simp add: db_append_mutations_def and_run_def set_counter_def execute_def yields_def)
  have "counter_of ?d c = Some (?f row2)"
    using d2(5) d3(4) by (subst counter_update) (simp_all add: counter_of_def)
  then have "same_counter c ?t ?d" by (simp add: same_counter_def)
  moreover have "only_log c d ?d"
    by (intro only_log_trans [OF d1(6) only_log_trans [OF d2(4) only_log_trans [OF d3(3) counter_update_only]]]) simp
  moreover have "all_linked c ?t ?d" "same_read_model c ?t ?d" "company_exists ?d c" "log_inv x c ?t"
    using d3(2) by (simp_all add: appending_def all_linked_def log_rows_def same_read_model_def db_company_document_def company_exists_def)
  ultimately show ?thesis using run by (auto simp: log_sim_def all_linked_def)
qed

section \<open>Reading\<close>

lemma linked_rows_zip:
  assumes "\<And>m h. P (log_row c m h) = Q m" "\<And>m h. f (log_row c m h) = g m"
  shows "map f (filter P (linked_rows c k s)) = map g (filter Q (mutations s c))"
proof -
  have "map f (filter P (map (\<lambda>i. log_row c (ms ! i) (hs i)) is)) = map g (filter Q (map (\<lambda>i. ms ! i) is))" for ms hs "is"
    using assms by (induction "is") auto
  then show ?thesis using map_nth [of "mutations s c"] by (simp add: linked_rows_def)
qed

lemma pull_sim:
  assumes "log_sim x c s d" "0 \<le> page" "page < i64_max"
  shows "db_pull_mutations d c after page = Inr (pull_mutations s c after page)"
proof -
  obtain k where inv: "log_inv x c s" and rows: "log_rows d c = linked_rows c k s" using assms(1) by (auto simp: log_sim_def)
  have out: "map (\<lambda>r. (mt_record r)\<lparr>mr_sync_version := Some (show_int (mt_version r))\<rparr>) (filter (\<lambda>r. after < mt_version r) (log_rows d c)) =
      map stamped (filter (\<lambda>m. after < sd_version m) (mutations s c))" (is "map ?f ?rows = map _ ?ms")
    unfolding rows by (rule linked_rows_zip) (simp_all add: stamped_def)
  have "sorted (map sd_version (mutations s c))" using log_sorted [OF inv, of 0] by simp
  then have "sorted (map fst (map (\<lambda>m. (sd_version m, stamped m)) ?ms))" by (simp add: comp_def sorted_filter)
  then have mem: "pull_mutations s c after page = \<lparr>pg_mutations = take (nat page) (map stamped ?ms), pg_has_more = nat page < length ?ms,
      pg_head = max_or 0 (map sd_version (mutations s c))\<rparr>"
    using assms(2) unfolding pull_mutations_def stamped_def Let_def
    by (subst sort_key_sorted) (simp_all add: take_map comp_def)
  have len: "length ?rows = length ?ms" using arg_cong [OF out, of length] by simp
  have head: "max_or 0 (map mt_version (filter (\<lambda>r. mt_company r = c) (t_mutations d))) = max_or 0 (map sd_version (mutations s c))"
  proof -
    have "set (map mt_version (filter (\<lambda>r. mt_company r = c) (t_mutations d))) = set (map mt_version (log_rows d c))"
      by (simp add: log_rows_def)
    moreover have "max_or 0 xs = max_or 0 ys" if "set xs = set ys" for xs ys :: "int list"
    proof -
      have m: "foldl max v vs = Max (set (v # vs))" for v and vs :: "int list"
        unfolding Max.set_eq_fold foldl_conv_fold by (simp add: max.commute)
      show ?thesis using that by (cases xs; cases ys) (simp_all add: max_or_def m del: set_simps, simp_all)
    qed
    ultimately show ?thesis using linked_rows_versions [of c k s] by (simp add: rows)
  qed
  have "sql_limit (min i64_max (page + 1)) ?rows = Some (take (Suc (nat page)) ?rows)"
    using assms(2,3) by (simp add: sql_limit_def nat_add_distrib)
  then show ?thesis
    using assms(2) len head by (auto simp: db_pull_mutations_def ok_or_def mem take_map [symmetric] out Let_def min_def)
qed

lemma checkpoint_sim:
  assumes "log_sim x c s d"
  shows "\<exists>d'. db_history_checkpoint x c v d = (Inr (history_checkpoint x s c v), d') \<and> log_sim x c s d' \<and> only_log c d d'"
proof -
  obtain d1 row where d1: "ensure_counter c d = (Inr (), d1)" "counter_row_of c d1 = (Inr row, d1)" "counter_of d1 c = Some row"
    "ct_last_version row = counters s c" "log_sim x c s d1" "only_log c d d1"
    using ensure_counter_sim [OF assms(1)] by blast
  obtain d2 where d2: "db_chain_tip x c (ct_last_version row) d1 = (Inr (chain_tip s c), d2)" "log_sim x c s d2" "all_linked c s d2"
    "only_log c d1 d2"
    using chain_tip_sim [OF d1(5,3)] by blast
  have inv: "log_inv x c s" and rows: "log_rows d2 c = linked_rows c (length (mutations s c)) s"
    using assms d2(3) by (auto simp: log_sim_def all_linked_def)
  note head = log_invD(2) [OF inv]
  have at: "Option.bind (find (\<lambda>r. mt_company r = c \<and> mt_version r = v) (t_mutations d2)) mt_chain_hash = hash_at s c v"
    if "0 < v" "v \<le> counters s c"
  proof -
    let ?i = "nat (v - 1)"
    have i: "?i < length (mutations s c)" "v = int (Suc ?i)" using that head by auto
    have "find (\<lambda>r. mt_version r = v) (log_rows d2 c) = Some (log_row c (mutations s c ! ?i) (Some (chain s c ! ?i)))"
    proof -
      have "log_row c (mutations s c ! ?i) (Some (chain s c ! ?i)) \<in> set (log_rows d2 c)"
        unfolding rows using i(1) linked_rows_nth [OF i(1), of "length (mutations s c)"] nth_mem [of ?i] by (metis linked_rows_length)
      moreover have "mt_version (log_row c (mutations s c ! ?i) (Some (chain s c ! ?i))) = v"
        using log_version_nth [OF inv i(1)] i(2) by simp
      ultimately show ?thesis
        using find_distinct [OF sim_distinct(2) [OF inv rows]] by metis
    qed
    then show ?thesis
      using find_key [OF sim_distinct(2) [OF inv rows] set_log_rows, of v] i that chain_facts(1) [OF inv] by (simp add: hash_at_def)
  qed
  have tip: "hash_at s c (counters s c) = Some (chain_tip s c)"
    using head chain_facts(1) [OF inv] by (cases "mutations s c") (auto simp: hash_at_def chain_tip_def last_conv_nth nat_diff_distrib)
  have "db_history_checkpoint x c v d = (Inr (history_checkpoint x s c v), d2)"
    using d1 d2(1) tip at [of] head by (auto simp: db_history_checkpoint_def transaction_def and_run_def query_def yields_def Let_def history_checkpoint_def
        unwrap_or_default_def hash_at_def)
  then show ?thesis using d2(2) only_log_trans [OF d1(6) d2(4)] by blast
qed

end
