(* ===== verification/Pg_Log_Refines.thy ===== *)
theory Pg_Log_Refines
  imports Pg_Log_Theorems
begin

text \<open>
  Every sequence of calls on the log of a company is answered alike by the memory store and by the
  database: the trait \<open>Store\<close> of \<^verbatim>\<open>src/src/store/mod.rs\<close> promises one behaviour, and the tests run on the
  memory store. The calls are the methods of the log; \<open>run_calls\<close> makes them in order and collects
  the answers.
\<close>

section \<open>The remaining calls\<close>

lemma known_sim:
  assumes "log_sim x c s d"
  shows "db_known_mutation_ids d c ids = known_mutation_ids s c ids"
proof -
  obtain k where inv: "log_inv x c s" and rows: "log_rows d c = linked_rows c k s" using assms by (auto simp: log_sim_def)
  have "version_of d c i \<noteq> None \<longleftrightarrow> (\<exists>r \<in> set (t_mutations d). mt_company r = c \<and> mt_id r = i)" for i
    by (auto simp: version_of_def find_None_iff)
  then have "mutation_versions s (c, i) \<noteq> None \<longleftrightarrow> (\<exists>r \<in> set (t_mutations d). mt_company r = c \<and> mt_id r = i)" for i
    by (simp add: version_of_sim [OF inv rows])
  then show ?thesis by (auto simp: db_known_mutation_ids_def known_mutation_ids_def)
qed

lemma linked_rows_ack:
  assumes "mutations t c = map f (mutations s c)" "chain t c = chain s c" "\<And>m h. g (log_row c m h) = log_row c (f m) h"
  shows "linked_rows c k t = map g (linked_rows c k s)"
  using assms by (simp add: linked_rows_def)

lemma find_within: "(\<And>r. P r \<Longrightarrow> Q r) \<Longrightarrow> find P (filter Q rows) = find P rows"
  by (induction rows) auto

lemma length_hits:
  "length (filter (\<lambda>r. P r \<and> Q r) xs) = length (filter Q (sort_key f (filter P xs)))"
  by (simp add: filter_sort conj_commute)

lemma ack_sim:
  assumes "log_sim x c s d"
  shows "fst (db_ack_mutations c ids d) = fst (ack_mutations c ids s)"
    and "log_sim x c (snd (ack_mutations c ids s)) (snd (db_ack_mutations c ids d))"
    and "only_log c d (snd (db_ack_mutations c ids d))"
proof -
  let ?s = "snd (ack_mutations c ids s)" and ?d = "snd (db_ack_mutations c ids d)"
  obtain k where k: "k \<le> length (mutations s c)" and inv: "log_inv x c s" and rows: "log_rows d c = linked_rows c k s"
    using assms by (auto simp: log_sim_def)
  let ?hit = "\<lambda>r. mt_company r = c \<and> (mt_id r \<in> set ids \<and> \<not> mt_acknowledged r)" and ?up = "\<lambda>r. r\<lparr>mt_acknowledged := True\<rparr>"
  have d: "?d = d\<lparr>t_mutations := update_where ?hit ?up (t_mutations d)\<rparr>" by (simp add: db_ack_mutations_def Let_def)
  have at: "log_rows ?d b = update_where ?hit ?up (log_rows d b)" for b unfolding d by (rule log_rows_update) simp_all
  have "length (filter ?hit (t_mutations d)) = length (filter (\<lambda>r. mt_id r \<in> set ids \<and> \<not> mt_acknowledged r) (log_rows d c))"
    unfolding log_rows_def by (rule length_hits)
  also have "\<dots> = length (filter (\<lambda>m. mr_id (sd_record m) \<in> set ids \<and> \<not> sd_acknowledged m) (mutations s c))"
    using arg_cong [OF linked_rows_zip [of "\<lambda>r. mt_id r \<in> set ids \<and> \<not> mt_acknowledged r" c
        "\<lambda>m. mr_id (sd_record m) \<in> set ids \<and> \<not> sd_acknowledged m" "\<lambda>_. ()" "\<lambda>_. ()"], of length]
    by (simp add: rows)
  finally show "fst (db_ack_mutations c ids d) = fst (ack_mutations c ids s)"
    by (simp add: db_ack_mutations_def ack_mutations_def Let_def conj_assoc)
  have "linked_rows c k ?s = map (\<lambda>r. if ?hit r then ?up r else r) (linked_rows c k s)"
    by (rule linked_rows_ack [where f = "\<lambda>m. if mr_id (sd_record m) \<in> set ids \<and> \<not> sd_acknowledged m then m\<lparr>sd_acknowledged := True\<rparr> else m"])
      (auto simp: ack_mutations_def Let_def log_row_def)
  then have "log_rows ?d c = linked_rows c k ?s" by (simp add: at rows update_where_def)
  moreover have "log_inv x c ?s" by (rule ack_log_inv [OF inv])
  moreover have "length (mutations ?s c) = length (mutations s c)" "counters ?s = counters s" "company_documents ?s = company_documents s"
    by (simp_all add: ack_mutations_def Let_def)
  ultimately show "log_sim x c ?s ?d"
    using assms k by (auto simp: log_sim_def d company_exists_def same_counter_def counter_of_def same_read_model_def
        db_company_document_def company_document_of_def split: option.splits)
  have "log_rows ?d b = log_rows d b" if "b \<noteq> c" for b unfolding at by (rule update_other_company [OF that])
  then show "only_log c d ?d"
    by (auto simp: only_log_def d counter_of_def db_company_document_def fun_eq_iff
        intro!: exI [of _ "t_sync_counters d"] exI [of _ "t_company_documents d"])
qed

lemma projections_sim:
  assumes "same_read_model c s d" "company_exists d c"
  shows "\<exists>rs. for_each (db_apply_projection x now c) records d = (Inr (), d\<lparr>t_company_documents := rs\<rparr>) \<and>
    same_read_model c (fold (apply_projection x now c) records s) (d\<lparr>t_company_documents := rs\<rparr>) \<and>
    (\<forall>b. b \<noteq> c \<longrightarrow> db_company_document (d\<lparr>t_company_documents := rs\<rparr>) b = db_company_document d b)"
  using assms
proof (induction records arbitrary: s d)
  case Nil
  then show ?case by (intro exI [of _ "t_company_documents d"]) (simp add: yields_def)
next
  case (Cons r records)
  obtain rs where rs: "db_apply_projection x now c r d = (Inr (), d\<lparr>t_company_documents := rs\<rparr>)"
    "same_read_model c (apply_projection x now c r s) (d\<lparr>t_company_documents := rs\<rparr>)"
    "\<forall>b. b \<noteq> c \<longrightarrow> db_company_document (d\<lparr>t_company_documents := rs\<rparr>) b = db_company_document d b"
    using projection_sim [OF Cons.prems] by blast
  have "company_exists (d\<lparr>t_company_documents := rs\<rparr>) c" using Cons.prems(2) by (simp add: company_exists_def)
  then show ?case using Cons.IH [OF rs(2)] rs by (auto simp: and_run_def)
qed

lemma fold_projection_log [simp]:
  "mutations (fold (apply_projection x now c) rs s) = mutations s" "chain (fold (apply_projection x now c) rs s) = chain s"
  "counters (fold (apply_projection x now c) rs s) = counters s"
  "mutation_versions (fold (apply_projection x now c) rs s) = mutation_versions s"
  by (induction rs arbitrary: s) simp_all

lemma rebuild_sim:
  assumes "log_sim x c s d"
  shows "\<exists>d'. db_rebuild_projection x now c d = (Inr (), d') \<and> log_sim x c (rebuild_projection x now c s) d' \<and> only_log c d d'"
proof -
  let ?d = "d\<lparr>t_company_documents := filter (\<lambda>r. cd_company r \<noteq> c) (t_company_documents d)\<rparr>"
  let ?s = "s\<lparr>company_documents := filter (\<lambda>(k, _). fst k \<noteq> c) (company_documents s)\<rparr>"
  obtain k where k: "k \<le> length (mutations s c)" and inv: "log_inv x c s" and rows: "log_rows d c = linked_rows c k s"
    using assms by (auto simp: log_sim_def)
  have recs: "map mt_record (log_rows ?d c) = map snd (sort_key fst (map (\<lambda>m. (sd_version m, sd_record m)) (mutations s c)))"
  proof -
    have "sorted (map sd_version (mutations s c))" using log_sorted [OF inv, of 0] by simp
    then have "sorted (map fst (map (\<lambda>m. (sd_version m, sd_record m)) (mutations s c)))" by (simp add: comp_def)
    then have "map snd (sort_key fst (map (\<lambda>m. (sd_version m, sd_record m)) (mutations s c))) = map sd_record (mutations s c)"
      by (simp only: sort_key_sorted) (simp add: comp_def)
    moreover have "log_rows ?d c = log_rows d c" by (simp add: log_rows_def)
    ultimately show ?thesis by (simp add: rows linked_rows_map [of mt_record _ sd_record])
  qed
  have none: "db_company_document ?d c dt i = None" for dt i
    by (auto simp: db_company_document_def find_None_iff cd_key_def)
  have gone: "company_document_of ?s c dt i = None" for dt i
    by (auto simp: company_document_of_def map_of_eq_None_iff)
  have other: "db_company_document ?d b dt i = db_company_document d b dt i" if "b \<noteq> c" for b dt i
    using find_within [of "\<lambda>r. cd_key r = (b, dt, i)" "\<lambda>r. cd_company r \<noteq> c" "t_company_documents d"] that
    by (auto simp: db_company_document_def cd_key_def)
  have "same_read_model c ?s ?d" using none gone by (simp add: same_read_model_def)
  moreover have "company_exists ?d c" using assms by (simp add: log_sim_def company_exists_def)
  ultimately obtain rs where rs: "for_each (db_apply_projection x now c) (map mt_record (log_rows ?d c)) ?d = (Inr (), ?d\<lparr>t_company_documents := rs\<rparr>)"
    "same_read_model c (fold (apply_projection x now c) (map mt_record (log_rows ?d c)) ?s) (?d\<lparr>t_company_documents := rs\<rparr>)"
    "\<forall>b. b \<noteq> c \<longrightarrow> db_company_document (?d\<lparr>t_company_documents := rs\<rparr>) b = db_company_document ?d b"
    using projections_sim by blast
  let ?t = "rebuild_projection x now c s" and ?e = "d\<lparr>t_company_documents := rs\<rparr>"
  have t: "?t = fold (apply_projection x now c) (map mt_record (log_rows ?d c)) ?s" by (simp add: rebuild_projection_def recs)
  have run: "db_rebuild_projection x now c d = (Inr (), ?e)"
    using rs(1) by (simp add: db_rebuild_projection_def transaction_def and_run_def execute_def query_def)
  have log: "mutations ?t = mutations s" "chain ?t = chain s" "counters ?t = counters s" "mutation_versions ?t = mutation_versions s"
    by (simp_all add: t)
  have "log_inv x c ?t" using inv by (simp add: log_inv_def log log_records_def log_entries_def)
  moreover have "linked_rows c k ?t = linked_rows c k s" by (simp add: linked_rows_def log)
  moreover have "same_read_model c ?t ?e" using rs(2) by (simp only: t) simp
  moreover have "same_counter c ?t ?e" using assms by (auto simp: log_sim_def same_counter_def counter_of_def log split: option.splits)
  moreover have "company_exists ?e c" "log_rows ?e c = log_rows d c" using assms by (simp_all add: log_sim_def company_exists_def log_rows_def)
  ultimately have "log_sim x c ?t ?e" using k rows by (auto simp: log_sim_def log)
  moreover have "only_log c d ?e"
    using rs(3) other by (auto simp: only_log_def log_rows_def counter_of_def fun_eq_iff
        intro!: exI [of _ "t_mutations d"] exI [of _ "t_sync_counters d"])
  ultimately show ?thesis using run by blast
qed

section \<open>Sequences of calls\<close>

primrec run_calls :: "('op \<Rightarrow> 's \<Rightarrow> 'a \<times> 's) \<Rightarrow> 'op list \<Rightarrow> 's \<Rightarrow> 'a list \<times> 's" where
  "run_calls step [] s = ([], s)"
| "run_calls step (call # calls) s =
     (let (a, t) = step call s; (as, u) = run_calls step calls t in (a # as, u))"

text \<open>
  Two stores that answer every call alike, and stay related, answer every sequence of calls alike.
  The relation sees the calls still to come, so that it can bound what they add; \<open>frame\<close> relates the
  states of the second store before and after.
\<close>

locale answers_alike =
  fixes step1 :: "'op \<Rightarrow> 's \<Rightarrow> 'a \<times> 's"
    and step2 :: "'op \<Rightarrow> 't \<Rightarrow> 'a \<times> 't"
    and related :: "'op list \<Rightarrow> 's \<Rightarrow> 't \<Rightarrow> bool"
    and frame :: "'t \<Rightarrow> 't \<Rightarrow> bool"
  assumes answer: "related (call # calls) s t \<Longrightarrow> fst (step2 call t) = fst (step1 call s)"
    and stay: "related (call # calls) s t \<Longrightarrow> related calls (snd (step1 call s)) (snd (step2 call t))"
    and framed: "related (call # calls) s t \<Longrightarrow> frame t (snd (step2 call t))"
    and frame_refl: "frame t t"
    and frame_trans: "frame t u \<Longrightarrow> frame u v \<Longrightarrow> frame t v"
begin

lemma calls_alike:
  assumes "related calls s t"
  shows "fst (run_calls step2 calls t) = fst (run_calls step1 calls s)"
    and "related [] (snd (run_calls step1 calls s)) (snd (run_calls step2 calls t))"
    and "frame t (snd (run_calls step2 calls t))"
  using assms
proof (induction calls arbitrary: s t)
  case Nil
  { case 1 then show ?case by simp next case 2 then show ?case by simp next case 3 then show ?case by (simp add: frame_refl) }
next
  case (Cons call calls)
  { case 1 then show ?case using answer Cons.IH(1) [OF stay] by (simp add: case_prod_beta Let_def)
  next case 2 then show ?case using Cons.IH(2) [OF stay] by (simp add: case_prod_beta Let_def)
  next case 3 then show ?case using frame_trans [OF framed Cons.IH(3) [OF stay]] by (simp add: case_prod_beta Let_def) }
qed

end

datatype log_call = Push int "mutation_record list" | Pull int int | Checkpoint int | Acknowledge "string list"
  | Known "string list" | Rebuild int | Row string string

datatype log_answer = Versions "(string \<times> int) list" | Page mutation_page | Head history_checkpoint | Count nat
  | Ids "string set" | Rebuilt | Document "company_document option" | Failed store_error

fun mem_log_step :: "ext \<Rightarrow> uuid \<Rightarrow> log_call \<Rightarrow> inner \<Rightarrow> log_answer \<times> inner" where
  "mem_log_step x c (Push now ms) s = (let (vs, t) = push_mutations x now c ms s in (Versions vs, t))"
| "mem_log_step x c (Pull after page) s = (Page (pull_mutations s c after page), s)"
| "mem_log_step x c (Checkpoint v) s = (Head (history_checkpoint x s c v), s)"
| "mem_log_step x c (Acknowledge ids) s = (let (n, t) = ack_mutations c ids s in (Count n, t))"
| "mem_log_step x c (Known ids) s = (Ids (known_mutation_ids s c ids), s)"
| "mem_log_step x c (Rebuild now) s = (Rebuilt, rebuild_projection x now c s)"
| "mem_log_step x c (Row doctype d) s = (Document (company_document_of s c doctype d), s)"

definition answer_with :: "('a \<Rightarrow> log_answer) \<Rightarrow> (store_error + 'a) \<times> db \<Rightarrow> log_answer \<times> db" where
  "answer_with f r = (case fst r of Inl e \<Rightarrow> Failed e | Inr a \<Rightarrow> f a, snd r)"

fun db_log_step :: "ext \<Rightarrow> uuid \<Rightarrow> log_call \<Rightarrow> db \<Rightarrow> log_answer \<times> db" where
  "db_log_step x c (Push now ms) d = answer_with Versions (db_push_mutations x now c ms d)"
| "db_log_step x c (Pull after page) d = answer_with Page (db_pull_mutations d c after page, d)"
| "db_log_step x c (Checkpoint v) d = answer_with Head (db_history_checkpoint x c v d)"
| "db_log_step x c (Acknowledge ids) d = (let (n, e) = db_ack_mutations c ids d in (Count n, e))"
| "db_log_step x c (Known ids) d = (Ids (db_known_mutation_ids d c ids), d)"
| "db_log_step x c (Rebuild now) d = answer_with (\<lambda>_. Rebuilt) (db_rebuild_projection x now c d)"
| "db_log_step x c (Row doctype i) d = (Document (db_company_document d c doctype i), d)"

text \<open>The calls a client can make: the page size is not negative, and the versions fit an \<open>i64\<close>.\<close>

fun call_ok :: "log_call \<Rightarrow> bool" where
  "call_ok (Pull after page) \<longleftrightarrow> 0 \<le> page \<and> page < i64_max"
| "call_ok _ \<longleftrightarrow> True"

fun pushed :: "log_call \<Rightarrow> nat" where
  "pushed (Push now ms) = length ms"
| "pushed _ = 0"

definition calls_related :: "ext \<Rightarrow> uuid \<Rightarrow> log_call list \<Rightarrow> inner \<Rightarrow> db \<Rightarrow> bool" where
  "calls_related x c calls s d \<longleftrightarrow> log_sim x c s d \<and> list_all call_ok calls
     \<and> length (mutations s c) + sum_list (map pushed calls) \<le> max_log"

lemma append_adds_at_most:
  assumes "log_inv x c s" "length (mutations s c) + length ms \<le> max_log"
  shows "length (mutations (snd (append_mutations x now c ms s)) c) \<le> length (mutations s c) + length ms"
proof -
  let ?t = "snd (append_mutations x now c ms s)"
  have a: "log_inv x c ?t" "mr_id ` set (log_records ?t c) = mr_id ` set ms \<union> mr_id ` set (log_records s c)"
    using append_inv [OF assms(1), of ms now] assms(2) by (simp_all add: log_records_def)
  have "length (mutations ?t c) = card (mr_id ` set (log_records ?t c))"
    using distinct_card [OF log_invD(3) [OF a(1)]] by (simp add: log_records_def image_image)
  also have "\<dots> \<le> card (mr_id ` set ms) + card (mr_id ` set (log_records s c))" by (simp add: a(2) card_Un_le)
  also have "\<dots> \<le> length ms + length (log_records s c)"
    by (intro add_mono) (metis card_length length_map list.set_map)+
  finally show ?thesis by (simp add: log_records_def)
qed

lemma log_step_sim:
  assumes "log_sim x c s d" "call_ok call" "length (mutations s c) + pushed call \<le> max_log"
  shows "\<exists>d'. db_log_step x c call d = (fst (mem_log_step x c call s), d') \<and> log_sim x c (snd (mem_log_step x c call s)) d' \<and> only_log c d d'
    \<and> length (mutations (snd (mem_log_step x c call s)) c) \<le> length (mutations s c) + pushed call"
proof (cases call)
  case (Push now ms)
  have inv: "log_inv x c s" using assms(1) by (simp add: log_sim_def)
  have len: "length (mutations s c) + length ms \<le> max_log" using assms(3) Push by simp
  obtain d' where "db_append_mutations x now c ms d = (Inr (fst (append_mutations x now c ms s)), d')"
    "log_sim x c (snd (append_mutations x now c ms s)) d'" "only_log c d d'"
    using append_mutations_sim [OF assms(1) len] by blast
  then show ?thesis
    using append_adds_at_most [OF inv len] by (simp add: Push db_push_mutations_def push_mutations_def transaction_def answer_with_def Let_def case_prod_beta)
next
  case (Pull after page)
  then show ?thesis using assms pull_sim [of x c s d page after] by (simp add: answer_with_def)
next
  case (Checkpoint v)
  then show ?thesis using assms checkpoint_sim [OF assms(1), of v] by (auto simp: answer_with_def)
next
  case (Acknowledge ids)
  then show ?thesis using ack_sim [OF assms(1), of ids] by (simp add: Let_def case_prod_beta) (simp add: ack_mutations_def Let_def)
next
  case (Known ids)
  then show ?thesis using assms known_sim [OF assms(1)] by simp
next
  case (Rebuild now)
  have "mutations (rebuild_projection x now c s) = mutations s" by (simp add: rebuild_projection_def Let_def)
  then show ?thesis using Rebuild rebuild_sim [OF assms(1), of now] by (auto simp: answer_with_def)
next
  case (Row doctype i)
  then show ?thesis using assms by (simp add: log_sim_def same_read_model_def)
qed

interpretation log_calls: answers_alike "mem_log_step x c" "db_log_step x c" "calls_related x c" "only_log c"
  for x c
proof
  fix call calls s d
  assume r: "calls_related x c (call # calls) s d"
  then obtain d' where d': "db_log_step x c call d = (fst (mem_log_step x c call s), d')" "log_sim x c (snd (mem_log_step x c call s)) d'"
    "only_log c d d'" "length (mutations (snd (mem_log_step x c call s)) c) \<le> length (mutations s c) + pushed call"
    using log_step_sim [of x c s d call] by (auto simp: calls_related_def)
  show "fst (db_log_step x c call d) = fst (mem_log_step x c call s)" "only_log c d (snd (db_log_step x c call d))" using d' by simp_all
  show "calls_related x c calls (snd (mem_log_step x c call s)) (snd (db_log_step x c call d))"
    using r d' by (simp add: calls_related_def)
qed (auto intro: only_log_trans)

text \<open>C38. The PostgreSQL store and the memory store agree on the log: on related states any sequence of pushes, pulls,
  checkpoints, acknowledgements, known-id queries, rebuilds and reads of one company is answered the same by both, even
  when an older server left a suffix of the rows without chain values or the cached tip is stale. The stores stay related, no
  call fails, and no other table and no other company's log changes.\<close>

theorem stores_agree_on_log:
  assumes "log_sim x c s d" "list_all call_ok calls" "length (mutations s c) + sum_list (map pushed calls) \<le> max_log"
  shows "fst (run_calls (db_log_step x c) calls d) = fst (run_calls (mem_log_step x c) calls s)
    \<and> log_sim x c (snd (run_calls (mem_log_step x c) calls s)) (snd (run_calls (db_log_step x c) calls d))
    \<and> only_log c d (snd (run_calls (db_log_step x c) calls d))"
  using log_calls.calls_alike [of x c calls s d] assms by (simp add: calls_related_def)

end
