(* ===== verification/Pg_Relation.thy ===== *)
theory Pg_Relation
  imports Pg_Commit Pg_Log_Refines
begin

text \<open>
  When the memory store and the database hold the same books of a company. The documents stand in the
  same order, equal but for the way the amount in \<open>outstanding_amount\<close> is written as a number; the
  ledgers are the same lists, the row sequence apart, which PostgreSQL draws for the whole database;
  series, bins, batches, keys and marks answer the same lookups; the logs hold the same mutations
  under the same versions.
\<close>

section \<open>Documents\<close>

definition OUTSTANDING :: string where
  "OUTSTANDING = ''outstanding_amount''"

definition is_object :: "json \<Rightarrow> bool" where
  "is_object j \<longleftrightarrow> as_object j \<noteq> None"

text \<open>Two payloads that agree on every member, the outstanding amount as a number.\<close>

definition payload_sim :: "json \<Rightarrow> json \<Rightarrow> bool" where
  "payload_sim a b \<longleftrightarrow> (is_object a \<longleftrightarrow> is_object b) \<and> (\<forall>k. k \<noteq> OUTSTANDING \<longrightarrow> jget a k = jget b k)
     \<and> Option.bind (jget a OUTSTANDING) as_f64 = Option.bind (jget b OUTSTANDING) as_f64"

text \<open>A member read with \<open>->>\<close> is text, null or absent; the deposit has no blanks around it.\<close>

definition text_member :: "json \<Rightarrow> string \<Rightarrow> bool" where
  "text_member j k \<longleftrightarrow> (case jget j k of None \<Rightarrow> True | Some JNull \<Rightarrow> True | Some (JStr _) \<Rightarrow> True | _ \<Rightarrow> False)"

definition plain_texts :: "json \<Rightarrow> bool" where
  "plain_texts j \<longleftrightarrow> text_member j ''deposit'' \<and> text_member j ''till_series'' \<and> text_member j ''till_device''
     \<and> (\<forall>v. jget j ''deposit'' = Some (JStr v) \<longrightarrow> trim v = v)"

definition doc_sim :: "doc_key \<times> posted_document \<Rightarrow> posted_document \<Rightarrow> bool" where
  "doc_sim e r \<longleftrightarrow> fst e = pd_key r \<and> pd_key (snd e) = pd_key r \<and> pd_docstatus (snd e) = pd_docstatus r
     \<and> pd_official_number (snd e) = pd_official_number r \<and> pd_created_at (snd e) = pd_created_at r
     \<and> payload_sim (pd_payload (snd e)) (pd_payload r) \<and> plain_texts (pd_payload r)"

definition docs_of :: "(doc_key \<times> posted_document) list \<Rightarrow> uuid \<Rightarrow> (doc_key \<times> posted_document) list" where
  "docs_of ds c = filter (\<lambda>e. fst (fst e) = c) ds"

definition rows_of :: "posted_document list \<Rightarrow> uuid \<Rightarrow> posted_document list" where
  "rows_of rs c = filter (\<lambda>r. pd_company r = c) rs"

definition docs_sim :: "uuid \<Rightarrow> (doc_key \<times> posted_document) list \<Rightarrow> posted_document list \<Rightarrow> bool" where
  "docs_sim c ds rs \<longleftrightarrow> list_all2 doc_sim (docs_of ds c) (rows_of rs c) \<and> distinct (map fst (docs_of ds c))"

lemma payload_sim_refl [simp]: "payload_sim a a"
  by (simp add: payload_sim_def)

lemma payload_sim_get: "payload_sim a b \<Longrightarrow> k \<noteq> OUTSTANDING \<Longrightarrow> jget a k = jget b k"
  by (simp add: payload_sim_def)

lemma json_arrow_text_plain:
  assumes "text_member j k"
  shows "json_arrow_text p j k = Option.bind (jget j k) as_str"
  using assms by (auto simp: text_member_def json_arrow_text_def split: option.splits json.splits)

lemma pd_key_iff: "pd_key r = (c, dt, i) \<longleftrightarrow> pd_company r = c \<and> pd_doctype r = dt \<and> pd_id r = i"
  by (auto simp: pd_key_def)

lemma map_of_docs: "map_of ds (c, dt, i) = map_of (docs_of ds c) (c, dt, i)"
  by (induction ds) (auto simp: docs_of_def)

lemma find_rows: "find (\<lambda>r. pd_key r = (c, dt, i)) rs = find (\<lambda>r. pd_key r = (c, dt, i)) (rows_of rs c)"
  by (induction rs) (auto simp: rows_of_def pd_key_iff)

lemma doc_sim_lookup:
  assumes "list_all2 doc_sim es rs"
  shows "rel_option (\<lambda>m r. doc_sim (key, m) r) (map_of es key) (find (\<lambda>r. pd_key r = key) rs)"
  using assms
proof (induction rule: list_all2_induct)
  case (Cons e es r rs)
  then show ?case by (cases e) (auto simp: doc_sim_def)
qed simp

lemma docs_sim_lookup:
  assumes "docs_sim c (documents s) (t_documents d)"
  shows "rel_option (\<lambda>m r. doc_sim ((c, dt, i), m) r) (posted_document_of s c dt i) (db_posted_document d c dt i)"
  using doc_sim_lookup [of "docs_of (documents s) c" "rows_of (t_documents d) c" "(c, dt, i)"] assms
  by (simp add: docs_sim_def posted_document_of_def db_posted_document_def map_of_docs [symmetric] find_rows [symmetric])

text \<open>A scan of the documents of the company finds matching ones on both sides, in the same order.\<close>

lemma docs_sim_filter:
  assumes "docs_sim c ds rs" "\<And>m r. doc_sim m r \<Longrightarrow> pd_company r = c \<Longrightarrow> P m \<longleftrightarrow> Q r"
    and "\<And>m. P m \<Longrightarrow> fst (fst m) = c" "\<And>r. Q r \<Longrightarrow> pd_company r = c"
  shows "list_all2 doc_sim (filter P ds) (filter Q rs)"
proof -
  have "list_all2 (\<lambda>m r. doc_sim m r \<and> (P m \<longleftrightarrow> Q r)) (docs_of ds c) (rows_of rs c)"
  proof (rule list.rel_mono_strong)
    show "list_all2 doc_sim (docs_of ds c) (rows_of rs c)" using assms(1) by (simp add: docs_sim_def)
    show "doc_sim m r \<and> (P m \<longleftrightarrow> Q r)" if "m \<in> set (docs_of ds c)" "r \<in> set (rows_of rs c)" "doc_sim m r" for m r
      using assms(2) [OF that(3)] that by (simp add: rows_of_def)
  qed
  then have "list_all2 doc_sim (filter P (docs_of ds c)) (filter Q (rows_of rs c))"
    by (induction rule: list_all2_induct) auto
  moreover have "filter P (docs_of ds c) = filter P ds"
    unfolding docs_of_def filter_filter by (rule filter_cong [OF refl]) (use assms(3) in blast)
  moreover have "filter Q (rows_of rs c) = filter Q rs"
    unfolding rows_of_def filter_filter by (rule filter_cong [OF refl]) (use assms(4) in blast)
  ultimately show ?thesis by simp
qed

lemma docs_sim_scan:
  assumes "docs_sim c ds rs" "\<And>m r. doc_sim m r \<Longrightarrow> pd_company r = c \<Longrightarrow> P m \<longleftrightarrow> Q r"
    and "\<And>m. P m \<Longrightarrow> fst (fst m) = c" "\<And>r. Q r \<Longrightarrow> pd_company r = c"
  shows "list_ex P ds \<longleftrightarrow> list_ex Q rs"
proof -
  have "list_ex P ds \<longleftrightarrow> filter P ds \<noteq> []" "list_ex Q rs \<longleftrightarrow> filter Q rs \<noteq> []" by (auto simp: list_ex_iff filter_empty_conv)
  moreover have "list_all2 doc_sim (filter P ds) (filter Q rs)" by (rule docs_sim_filter [OF assms(1)]) (use assms in blast)+
  ultimately show ?thesis by auto
qed

text \<open>Writing a document on both sides.\<close>

lemma docs_of_update:
  "docs_of (AList.update key m ds) c = (if fst key = c then AList.update key m (docs_of ds c) else docs_of ds c)"
  by (induction ds) (auto simp: docs_of_def)

lemma doc_sim_keys: "list_all2 doc_sim es rs \<Longrightarrow> map pd_key rs = map fst es"
  by (induction rule: list_all2_induct) (auto simp: doc_sim_def)

lemma doc_sim_update:
  assumes "list_all2 doc_sim es rs" "distinct (map fst es)" "key \<in> fst ` set es"
    and "\<And>r. r \<in> set rs \<Longrightarrow> pd_key r = key \<Longrightarrow> doc_sim (key, m) (f r)"
  shows "list_all2 doc_sim (AList.update key m es) (update_where (\<lambda>r. pd_key r = key) f rs)"
  using assms
proof (induction rule: list_all2_induct)
  case (Cons e es r rs)
  obtain k0 m0 where e: "e = (k0, m0)" by fastforce
  have k0: "pd_key r = k0" using Cons.hyps(1) e by (simp add: doc_sim_def)
  show ?case
  proof (cases "k0 = key")
    case True
    have "pd_key q \<noteq> key" if "q \<in> set rs" for q
      using that Cons.prems(1) True e doc_sim_keys [OF Cons.hyps(2)] by (metis distinct.simps(2) fst_conv image_eqI list.set_map list.simps(9))
    then have "update_where (\<lambda>r. pd_key r = key) f rs = rs" by (auto simp: update_where_def intro: map_idI)
    then show ?thesis using True e k0 Cons.prems(3) [of r] Cons.hyps(2) by (simp add: update_where_def)
  next
    case False
    then show ?thesis using Cons e k0 by (auto simp: update_where_def)
  qed
qed simp

lemma rows_of_update:
  assumes "\<And>r. pd_key (f r) = pd_key r"
  shows "rows_of (update_where (\<lambda>r. pd_key r = key) f rs) c =
    (if fst key = c then update_where (\<lambda>r. pd_key r = key) f (rows_of rs c) else rows_of rs c)"
proof -
  have "pd_company (f r) = pd_company r" for r using assms [of r] by (simp add: pd_key_def)
  then show ?thesis by (induction rs) (auto simp: rows_of_def update_where_def pd_key_def)
qed

section \<open>The books of a company\<close>

definition unseq :: "stock_ledger_entry \<Rightarrow> stock_ledger_entry" where
  "unseq e = e\<lparr>sle_seq := 0\<rparr>"

definition ledgers_sim :: "uuid \<Rightarrow> inner \<Rightarrow> db \<Rightarrow> bool" where
  "ledgers_sim c s d \<longleftrightarrow>
     gl_entries s c = filter (\<lambda>e. gl_company e = c) (t_gl_entries d)
   \<and> map unseq (stock_ledger s c) = map unseq (filter (\<lambda>e. sle_company e = c) (t_stock_ledger d))
   \<and> party_transactions s c = filter (\<lambda>t. pt_company t = c) (t_party_transactions d)
   \<and> tax_transactions s c = filter (\<lambda>t. tt_company t = c) (t_tax_transactions d)
   \<and> settlements s c = filter (\<lambda>t. st_company t = c) (t_settlements d)"

definition series_of :: "db \<Rightarrow> uuid \<Rightarrow> string \<Rightarrow> int" where
  "series_of d c key = (case map_of (t_numbering_series d) (c, key) of Some v \<Rightarrow> v | None \<Rightarrow> 0)"

definition lookups_sim :: "uuid \<Rightarrow> inner \<Rightarrow> db \<Rightarrow> bool" where
  "lookups_sim c s d \<longleftrightarrow>
     (\<forall>key. series_of d c key = series s (c, key))
   \<and> (\<forall>key. map_of (t_idempotency_keys d) (c, key) = idempotency s (c, key))
   \<and> (\<forall>i. find (\<lambda>b. (pb_company b, pb_id b) = (c, i)) (t_posting_batches d) = batches s (c, i))
   \<and> (\<forall>i w. find (\<lambda>b. bin_key b = (c, i, w)) (t_bins d) = map_of (bins s) (c, i, w))
   \<and> map_option (\<lambda>r. (fst (snd r), fst (snd (snd r)))) (find (\<lambda>r. fst r = c) (t_solo_migrations d)) = solo_migrations s c
   \<and> settings_row d c = map_option (\<lambda>v. JObj (settings_to_json v)) (settings s c)"

text \<open>The mutations of a log by id, version and acknowledgement; the payloads of two logs may differ.\<close>

definition log_shape :: "uuid \<Rightarrow> inner \<Rightarrow> (string \<times> int \<times> bool) list" where
  "log_shape c s = map (\<lambda>m. (mr_id (sd_record m), sd_version m, sd_acknowledged m)) (mutations s c)"

definition same_log :: "ext \<Rightarrow> uuid \<Rightarrow> inner \<Rightarrow> db \<Rightarrow> bool" where
  "same_log x c s d \<longleftrightarrow> log_inv x c s \<and> (\<exists>s0. log_sim x c s0 d \<and> log_shape c s0 = log_shape c s)"

text \<open>The rows of the stock ledger stand in the order of their identities.\<close>

definition identities_ok :: "db \<Rightarrow> bool" where
  "identities_ok d \<longleftrightarrow> sorted (map sle_seq (t_stock_ledger d)) \<and> (\<forall>e \<in> set (t_stock_ledger d). sle_seq e \<le> t_sle_identity d)"

definition books_sim :: "ext \<Rightarrow> uuid \<Rightarrow> inner \<Rightarrow> db \<Rightarrow> bool" where
  "books_sim x c s d \<longleftrightarrow> docs_sim c (documents s) (t_documents d) \<and> ledgers_sim c s d \<and> lookups_sim c s d
     \<and> audit s = t_audit_log d \<and> same_log x c s d \<and> identities_ok d"

lemma books_simD:
  assumes "books_sim x c s d"
  shows "docs_sim c (documents s) (t_documents d)" "ledgers_sim c s d" "lookups_sim c s d" "audit s = t_audit_log d"
    "same_log x c s d" "identities_ok d" "company_exists d c"
  using assms by (auto simp: books_sim_def same_log_def log_sim_def)

section \<open>The checks agree\<close>

lemma settings_lock:
  "json_arrow_text p (JObj (settings_to_json v)) ''books_lock_date'' = cs_books_lock_date v"
proof -
  have "obj_get (settings_to_json v) ''books_lock_date'' = Some (json_opt JStr (cs_books_lock_date v))"
    by (simp add: settings_to_json_def obj_of_get)
  then show ?thesis by (simp add: json_arrow_text_def json_opt_def split: option.split)
qed

lemma lock_check_sim:
  assumes "lookups_sim (pc_company k) s d"
  shows "db_lock_check p d k = lock_check s k"
proof -
  have "Option.bind (settings_row d (pc_company k)) (\<lambda>j. json_arrow_text p j ''books_lock_date'') = current_lock s (pc_company k)"
    using assms by (cases "settings s (pc_company k)") (simp_all add: lookups_sim_def current_lock_def settings_lock)
  then show ?thesis by (cases "pc_lock_check_date k") (simp_all add: db_lock_check_def lock_check_def)
qed

lemma doc_sim_get: "doc_sim e r \<Longrightarrow> f \<noteq> OUTSTANDING \<Longrightarrow> jget (pd_payload (snd e)) f = jget (pd_payload r) f"
  by (simp add: doc_sim_def payload_sim_def)

lemma doc_sim_eqs:
  "doc_sim e r \<Longrightarrow> pd_id (snd e) = pd_id r" "doc_sim e r \<Longrightarrow> pd_doctype (snd e) = pd_doctype r"
  "doc_sim e r \<Longrightarrow> pd_docstatus (snd e) = pd_docstatus r"
  by (auto simp: doc_sim_def pd_key_def)

lemma live_applications_sim:
  assumes "list_all2 doc_sim es rs"
  shows "map pd_id (live_applications (map snd es)) = map pd_id (live_applications rs)"
    and "map (\<lambda>p. as_num (jget (pd_payload p) ''paid_amount'')) (live_applications (map snd es)) =
      map (\<lambda>p. as_num (jget (pd_payload p) ''paid_amount'')) (live_applications rs)"
  using assms
  by (induction rule: list_all2_induct)
    (simp_all add: live_applications_def doc_sim_eqs doc_sim_get [of _ _ "''paid_amount''", unfolded OUTSTANDING_def, simplified])

lemma guard_violation_cong:
  assumes "rel_option (\<lambda>m r. doc_sim (key, m) r) dep dep'" "list_all2 doc_sim es rs"
  shows "deposit_guard_violation guard dep (map snd es) = deposit_guard_violation guard dep' rs"
proof -
  have "jget (pd_payload m) ''customer'' = jget (pd_payload r) ''customer''" "jget (pd_payload m) ''amount'' = jget (pd_payload r) ''amount''"
    "pd_docstatus m = pd_docstatus r" if "doc_sim (key, m) r" for m r
    using doc_sim_get [OF that, of "''customer''"] doc_sim_get [OF that, of "''amount''"] doc_sim_eqs(3) [OF that]
    by (simp_all add: OUTSTANDING_def)
  then show ?thesis
    using assms(1) live_applications_sim [OF assms(2)]
    by (cases guard; cases dep; cases dep') (simp_all add: deposit_guard_violation_def Let_def)
qed

lemma doc_sim_deposit:
  assumes "doc_sim m r"
  shows "json_arrow_text p (pd_payload r) ''deposit'' = map_option trim (Option.bind (jget (pd_payload (snd m)) ''deposit'') as_str)"
proof -
  have "jget (pd_payload (snd m)) ''deposit'' = jget (pd_payload r) ''deposit''"
    using assms by (auto simp: doc_sim_def OUTSTANDING_def intro: payload_sim_get)
  moreover have "plain_texts (pd_payload r)" using assms by (simp add: doc_sim_def)
  ultimately show ?thesis
    by (auto simp: json_arrow_text_def plain_texts_def text_member_def split: option.splits json.splits)
qed

lemma deposit_check_sim:
  assumes "docs_sim (pc_company k) (documents s) (t_documents d)"
  shows "db_deposit_check p d k = deposit_check s k"
proof (cases "pc_deposit_guard k")
  case None
  then show ?thesis by (simp add: db_deposit_check_def deposit_check_def)
next
  case (Some guard)
  let ?c = "pc_company k" and ?i = "deposit_id_of guard"
  let ?P = "\<lambda>((co, dt, _), doc). co = ?c \<and> dt = ''Payment Entry''
       \<and> map_option trim (Option.bind (jget (pd_payload doc) ''deposit'') as_str) = Some ?i"
  let ?Q = "\<lambda>r. pd_company r = ?c \<and> pd_doctype r = ''Payment Entry'' \<and> json_arrow_text p (pd_payload r) ''deposit'' = Some ?i"
  have "?P m \<longleftrightarrow> ?Q r" if "doc_sim m r" for m r
    using that doc_sim_deposit [OF that] by (cases m) (auto simp: doc_sim_def pd_key_def)
  then have "list_all2 doc_sim (filter ?P (documents s)) (filter ?Q (t_documents d))"
    by (intro docs_sim_filter [OF assms]) auto
  then have "deposit_guard_violation guard (posted_document_of s ?c ''Customer Deposit'' ?i) (deposit_applications s ?c ?i) =
      deposit_guard_violation guard (db_posted_document d ?c ''Customer Deposit'' ?i) (filter ?Q (t_documents d))"
    unfolding deposit_applications_def by (rule guard_violation_cong [OF docs_sim_lookup [OF assms]])
  then show ?thesis by (simp add: Some db_deposit_check_def deposit_check_def Let_def)
qed

lemma solo_check_sim:
  assumes "docs_sim (pc_company k) (documents s) (t_documents d)" "lookups_sim (pc_company k) s d"
  shows "db_solo_check d k = solo_check s k"
proof -
  let ?c = "pc_company k"
  have "list_ex (\<lambda>((c, _, _), _). c = ?c) (documents s) \<longleftrightarrow> list_ex (\<lambda>d. pd_company d = ?c) (t_documents d)"
    by (rule docs_sim_scan [OF assms(1)]) (auto simp: doc_sim_def pd_key_def)
  moreover have "map_option (\<lambda>r. (fst (snd r), fst (snd (snd r)))) (find (\<lambda>r. fst r = ?c) (t_solo_migrations d)) = solo_migrations s ?c"
    using assms(2) by (simp add: lookups_sim_def)
  ultimately show ?thesis
    by (cases "find (\<lambda>r. fst r = ?c) (t_solo_migrations d)") (auto simp: db_solo_check_def solo_check_def split: option.splits)
qed

lemma pair_count_sim:
  assumes "ledgers_sim c s d"
  shows "length (filter (\<lambda>r. sle_company r = c \<and> sle_item r = item \<and> sle_warehouse r = wh) (t_stock_ledger d)) = pair_count s c item wh"
proof -
  let ?f = "\<lambda>e. sle_item e = item \<and> sle_warehouse e = wh"
  have len: "length (filter ?f es) = length (filter ?f (map unseq es))" for es
    by (induction es) (simp_all add: unseq_def)
  have "length (filter ?f (filter (\<lambda>e. sle_company e = c) (t_stock_ledger d))) = length (filter ?f (stock_ledger s c))"
    using assms len [of "stock_ledger s c"] len [of "filter (\<lambda>e. sle_company e = c) (t_stock_ledger d)"] by (simp add: ledgers_sim_def)
  then show ?thesis by (simp add: pair_count_def sles_for_pair_def conj_ac)
qed

lemma expectations_sim:
  assumes "ledgers_sim c s d"
  shows "fold_result (db_expectation_check d c) u es = fold_result (expectation_check s c) u es"
proof -
  have "db_expectation_check d c = expectation_check s c"
    by (auto simp: fun_eq_iff db_expectation_check_def expectation_check_def pair_count_sim [OF assms])
  then show ?thesis by simp
qed

lemma existence_check_sim:
  assumes "docs_sim (pc_company k) (documents s) (t_documents d)"
  shows "db_existence_check d k = existence_check s k"
  using docs_sim_lookup [OF assms, of "pd_doctype (pc_document k)" "pd_id (pc_document k)"]
  by (cases "db_posted_document d (pc_company k) (pd_doctype (pc_document k)) (pd_id (pc_document k))";
      cases "posted_document_of s (pc_company k) (pd_doctype (pc_document k)) (pd_id (pc_document k))")
    (simp_all add: db_existence_check_def existence_check_def Let_def doc_key_of_def posted_document_of_def doc_sim_def)

lemma number_check_sim:
  assumes "docs_sim (pc_company k) (documents s) (t_documents d)"
  shows "db_number_check d k = number_check s k"
proof (cases "pc_preassigned_number k")
  case (Some n)
  have "list_ex (\<lambda>((c, dt, _), doc). c = pc_company k \<and> dt = pd_doctype (pc_document k) \<and> pd_official_number doc = Some n) (documents s)
    \<longleftrightarrow> list_ex (\<lambda>d. pd_company d = pc_company k \<and> pd_doctype d = pd_doctype (pc_document k) \<and> pd_official_number d = Some n) (t_documents d)"
    by (rule docs_sim_scan [OF assms]) (auto simp: doc_sim_def pd_key_def)
  then show ?thesis by (simp add: Some db_number_check_def number_check_def)
qed (simp add: db_number_check_def number_check_def)

lemma till_check_sim:
  assumes "docs_sim (pc_company k) (documents s) (t_documents d)"
  shows "db_till_check p d k = till_check s k"
proof (cases "pc_till_binding k")
  case (Some b)
  obtain ser dev where b: "b = (ser, dev)" by fastforce
  have texts: "json_arrow_text p (pd_payload r) f = Option.bind (jget (pd_payload (snd m)) f) as_str"
    if "doc_sim m r" "f \<in> {''till_series'', ''till_device''}" for m r f
  proof -
    have "jget (pd_payload (snd m)) f = jget (pd_payload r) f"
      using that by (auto simp: doc_sim_def OUTSTANDING_def intro: payload_sim_get)
    moreover have "text_member (pd_payload r) f" using that by (auto simp: doc_sim_def plain_texts_def)
    ultimately show ?thesis by (simp add: json_arrow_text_plain)
  qed
  let ?P = "\<lambda>((c, dt, _), doc). c = pc_company k \<and> dt = pd_doctype (pc_document k)
             \<and> Option.bind (jget (pd_payload doc) ''till_series'') as_str = Some ser
             \<and> (case Option.bind (jget (pd_payload doc) ''till_device'') as_str of Some d \<Rightarrow> d \<noteq> dev | None \<Rightarrow> False)"
  let ?Q = "\<lambda>d. pd_company d = pc_company k \<and> pd_doctype d = pd_doctype (pc_document k)
             \<and> json_arrow_text p (pd_payload d) ''till_series'' = Some ser
             \<and> (case json_arrow_text p (pd_payload d) ''till_device'' of Some other \<Rightarrow> other \<noteq> dev | None \<Rightarrow> False)"
  have "?P m \<longleftrightarrow> ?Q r" if "doc_sim m r" for m r
    using that texts [OF that, of "''till_series''"] texts [OF that, of "''till_device''"] by (cases m) (auto simp: doc_sim_def pd_key_def)
  then have "list_ex ?P (documents s) \<longleftrightarrow> list_ex ?Q (t_documents d)" by (intro docs_sim_scan [OF assms]) auto
  then show ?thesis by (simp add: Some b db_till_check_def till_check_def)
qed (simp add: db_till_check_def till_check_def)

lemma commit_checks_sim:
  assumes "books_sim x (pc_company k) s d"
  shows "db_commit_checks p d k = commit_checks s k"
  using books_simD [OF assms]
  by (simp add: db_commit_checks_def commit_checks_def lock_check_sim deposit_check_sim solo_check_sim expectations_sim
      existence_check_sim number_check_sim till_check_sim)

end
