(* ===== verification/Pg_Commit_Theorems.thy ===== *)
theory Pg_Commit_Theorems
  imports Pg_Relation
begin

text \<open>
  The posting transaction of the database refines the commit of the memory store. The first part says
  what each statement leaves behind when it succeeds, the second that a failing statement is always
  an error of the driver, the third puts the transaction together.
\<close>

section \<open>Statements that succeed\<close>

lemma insert_into_Inr:
  "insert_into get put key ok r s = (Inr u, t) \<longleftrightarrow> ok s r \<and> key r \<notin> key ` set (get s) \<and> t = put (get s @ [r]) s"
  by (auto simp: insert_into_def execute_def insert_row_def split: option.splits)

lemma for_each_adds:
  assumes "\<And>e s t. f e s = (Inr (), t) \<Longrightarrow> t = put [g e] s"
    and "\<And>s. put [] s = s" "\<And>a b s. put (a @ b) s = put b (put a s)"
  shows "for_each f es s = (Inr (), t) \<Longrightarrow> t = put (map g es) s"
proof (induction es arbitrary: s)
  case Nil
  then show ?case by (simp add: yields_def assms(2))
next
  case (Cons e es)
  then obtain s1 where "f e s = (Inr (), s1)" "for_each f es s1 = (Inr (), t)" by (auto simp: and_run_Inr)
  then show ?case using Cons.IH [of s1] assms(1) [of e s s1] assms(3) [of "[g e]" "map g es" s] by simp
qed

lemma insert_gls: "for_each (insert_gl c) es s = (Inr (), t) \<Longrightarrow>
    t = s\<lparr>t_gl_entries := t_gl_entries s @ map (\<lambda>e. e\<lparr>gl_company := c\<rparr>) es\<rparr>"
  by (rule for_each_adds [where put = "\<lambda>rs s. s\<lparr>t_gl_entries := t_gl_entries s @ rs\<rparr>"])
    (simp_all add: insert_gl_def insert_into_Inr)

lemma insert_parties: "for_each (insert_party c) es s = (Inr (), t) \<Longrightarrow>
    t = s\<lparr>t_party_transactions := t_party_transactions s @ map (\<lambda>e. e\<lparr>pt_company := c\<rparr>) es\<rparr>"
  by (rule for_each_adds [where put = "\<lambda>rs s. s\<lparr>t_party_transactions := t_party_transactions s @ rs\<rparr>"])
    (simp_all add: insert_party_def insert_into_Inr)

lemma insert_taxes: "for_each (insert_tax c) es s = (Inr (), t) \<Longrightarrow>
    t = s\<lparr>t_tax_transactions := t_tax_transactions s @ map (\<lambda>e. e\<lparr>tt_company := c\<rparr>) es\<rparr>"
  by (rule for_each_adds [where put = "\<lambda>rs s. s\<lparr>t_tax_transactions := t_tax_transactions s @ rs\<rparr>"])
    (simp_all add: insert_tax_def insert_into_Inr)

lemma insert_settlements: "for_each (insert_settlement c) es s = (Inr (), t) \<Longrightarrow>
    t = s\<lparr>t_settlements := t_settlements s @ map (\<lambda>e. e\<lparr>st_company := c\<rparr>) es\<rparr>"
  by (rule for_each_adds [where put = "\<lambda>rs s. s\<lparr>t_settlements := t_settlements s @ rs\<rparr>"])
    (simp_all add: insert_settlement_def insert_into_Inr)

text \<open>The stock rows draw consecutive identities.\<close>

fun drawn :: "uuid \<Rightarrow> int \<Rightarrow> stock_ledger_entry list \<Rightarrow> stock_ledger_entry list" where
  "drawn c n [] = []"
| "drawn c n (e # es) = e\<lparr>sle_company := c, sle_seq := n + 1\<rparr> # drawn c (n + 1) es"

lemma insert_sles: "for_each (insert_sle c) es s = (Inr (), t) \<Longrightarrow>
    t = s\<lparr>t_stock_ledger := t_stock_ledger s @ drawn c (t_sle_identity s) es, t_sle_identity := t_sle_identity s + int (length es)\<rparr>"
proof (induction es arbitrary: s)
  case (Cons e es)
  then obtain s1 where s1: "insert_sle c e s = (Inr (), s1)" "for_each (insert_sle c) es s1 = (Inr (), t)" by (auto simp: and_run_Inr)
  from s1(1) have "s1 = s\<lparr>t_stock_ledger := t_stock_ledger s @ [e\<lparr>sle_company := c, sle_seq := t_sle_identity s + 1\<rparr>],
      t_sle_identity := t_sle_identity s + 1\<rparr>"
    by (auto simp: insert_sle_def dbm_Inr insert_into_Inr)
  then show ?case using Cons.IH [OF s1(2)] by (simp add: add.assoc)
qed (simp add: yields_def)

lemma drawn_seqs: "\<forall>e \<in> set (drawn c n es). n < sle_seq e \<and> sle_seq e \<le> n + int (length es)"
  by (induction es arbitrary: n) fastforce+

lemma drawn_rows:
  "\<forall>e \<in> set es. sle_company e = c \<Longrightarrow> map unseq (drawn c n es) = map unseq es"
  "filter (\<lambda>e. sle_company e = c) (drawn c n es) = drawn c n es"
  "sorted (map sle_seq (drawn c n es))"
proof -
  show "\<forall>e \<in> set es. sle_company e = c \<Longrightarrow> map unseq (drawn c n es) = map unseq es"
    by (induction es arbitrary: n) (auto simp: unseq_def)
  show "filter (\<lambda>e. sle_company e = c) (drawn c n es) = drawn c n es" by (induction es arbitrary: n) auto
  show "sorted (map sle_seq (drawn c n es))"
  proof (induction es arbitrary: n)
    case (Cons e es)
    then show ?case using drawn_seqs [of c "n + 1" es] by fastforce
  qed simp
qed

lemma unseq_assign: "map unseq (snd (assign_seq n es)) = map unseq es"
  by (induction es arbitrary: n) (auto simp: Let_def case_prod_beta unseq_def)

section \<open>Series\<close>

fun raise_rows :: "uuid \<Rightarrow> (string \<times> int) list \<Rightarrow> ((uuid \<times> string) \<times> int) list \<Rightarrow> ((uuid \<times> string) \<times> int) list" where
  "raise_rows c [] rows = rows"
| "raise_rows c (f # fs) rows = raise_rows c fs (case map_of rows (c, fst f) of
     Some v \<Rightarrow> AList.update (c, fst f) (max v (snd f)) rows
   | None \<Rightarrow> rows @ [((c, fst f), snd f)])"

lemma raise_floors_rows: "for_each (raise_floor c) fs s = (Inr (), t) \<Longrightarrow>
    t = s\<lparr>t_numbering_series := raise_rows c fs (t_numbering_series s)\<rparr>"
proof (induction fs arbitrary: s)
  case (Cons f fs)
  then obtain s1 where s1: "raise_floor c f s = (Inr (), s1)" "for_each (raise_floor c) fs s1 = (Inr (), t)" by (auto simp: and_run_Inr)
  then show ?case using Cons.IH [OF s1(2)] by (auto simp: raise_floor_def execute_Inr split: if_splits)
qed (simp add: yields_def)

definition value_in :: "((uuid \<times> string) \<times> int) list \<Rightarrow> uuid \<times> string \<Rightarrow> int" where
  "value_in rows q = (case map_of rows q of Some v \<Rightarrow> v | None \<Rightarrow> 0)"

lemma series_of_value: "series_of d c key = value_in (t_numbering_series d) (c, key)"
  by (simp add: series_of_def value_in_def)

lemma raise_rows_value:
  "\<forall>f \<in> set fs. 0 \<le> snd f \<Longrightarrow> value_in (raise_rows c fs rows) = raise_floors c fs (value_in rows)"
proof (induction fs arbitrary: rows)
  case (Cons f fs)
  let ?rows = "case map_of rows (c, fst f) of Some v \<Rightarrow> AList.update (c, fst f) (max v (snd f)) rows
     | None \<Rightarrow> rows @ [((c, fst f), snd f)]"
  have "value_in ?rows = (value_in rows)((c, fst f) := max (value_in rows (c, fst f)) (snd f))"
    using Cons.prems by (auto simp: value_in_def update_conv' map_add_def fun_eq_iff split: option.splits)
  then show ?case using Cons by (simp add: raise_floors_def case_prod_beta)
qed (simp add: raise_floors_def)

lemma raise_floors_at: "raise_floors c fs m (c, key) = raise_floors c fs m' (c, key)" if "\<And>key. m (c, key) = m' (c, key)"
  using that
proof (induction fs arbitrary: m m')
  case (Cons f fs)
  then show ?case by (simp add: raise_floors_def case_prod_beta)
qed (simp add: raise_floors_def)

lemma next_value_rows:
  assumes "db_next_value c key d = (Inr v, t)"
  shows "v = series_of d c key + 1" "series_of d c key < i64_max"
    "\<exists>rows. t = d\<lparr>t_numbering_series := rows\<rparr> \<and> value_in rows = (value_in (t_numbering_series d))((c, key) := v)"
proof -
  let ?rows = "if (c, key) \<in> fst ` set (t_numbering_series d) then t_numbering_series d else t_numbering_series d @ [((c, key), 0)]"
  obtain u where u: "map_of ?rows (c, key) = Some u" "u < i64_max" "v = u + 1"
    "t = d\<lparr>t_numbering_series := update_where (\<lambda>r. fst r = (c, key)) (\<lambda>r. (fst r, u + 1)) ?rows\<rparr>"
    using assms by (auto simp: db_next_value_def dbm_Inr insert_or_keep_def ok_or_def split: option.splits if_splits)
  have val: "value_in ?rows = value_in (t_numbering_series d)"
    by (auto simp: value_in_def fun_eq_iff map_add_def split: option.splits dest: map_of_SomeD)
  have at: "value_in (t_numbering_series d) (c, key) = u" using u(1) fun_cong [OF val, of "(c, key)"] by (simp add: value_in_def)
  show "v = series_of d c key + 1" "series_of d c key < i64_max" using u at by (simp_all add: series_of_value)
  have "map_of (update_where (\<lambda>r. fst r = (c, key)) (\<lambda>r. (fst r, u + 1)) rows) q =
      (if q = (c, key) then map_option (\<lambda>_. u + 1) (map_of rows q) else map_of rows q)" for rows q
    by (induction rows) (auto simp: update_where_def)
  then have "value_in (update_where (\<lambda>r. fst r = (c, key)) (\<lambda>r. (fst r, u + 1)) rows) = (value_in rows)((c, key) := u + 1)"
    if "map_of rows (c, key) = Some u" for rows using that by (auto simp: value_in_def fun_eq_iff)
  note upd = this [OF u(1)]
  then show "\<exists>rows. t = d\<lparr>t_numbering_series := rows\<rparr> \<and> value_in rows = (value_in (t_numbering_series d))((c, key) := v)"
    by (intro exI conjI) (rule u(4), simp only: upd val u(3))
qed

section \<open>Bins\<close>

lemma insert_bins_Cons: "insert_bins c (b # bs) m = insert_bins c bs (AList.update (c, bin_item b, bin_warehouse b) b m)"
  by (simp add: insert_bins_def)

lemma write_bins_rows:
  assumes "for_each (write_bin c) bs s = (Inr (), t)" "\<forall>b \<in> set bs. bin_company b = c"
    and "\<And>i w. find (\<lambda>b. bin_key b = (c, i, w)) (t_bins s) = map_of m (c, i, w)"
  shows "\<exists>rows. t = s\<lparr>t_bins := rows\<rparr> \<and> (\<forall>i w. find (\<lambda>b. bin_key b = (c, i, w)) rows = map_of (insert_bins c bs m) (c, i, w))"
  using assms
proof (induction bs arbitrary: s m)
  case Nil
  then show ?case by (intro exI [of _ "t_bins s"]) (simp add: yields_def insert_bins_def)
next
  case (Cons b bs)
  let ?upd = "\<lambda>old new. old\<lparr>bin_actual_qty := bin_actual_qty new, bin_valuation_rate := bin_valuation_rate new,
          bin_stock_value := bin_stock_value new\<rparr>"
  have b: "b\<lparr>bin_company := c\<rparr> = b" "bin_key b = (c, bin_item b, bin_warehouse b)"
    using Cons.prems(2) by (cases b, simp) (simp add: bin_key_def Cons.prems(2))
  obtain s1 where w: "write_bin c b s = (Inr (), s1)" and rest: "for_each (write_bin c) bs s1 = (Inr (), t)"
    using Cons.prems(1) by (auto simp: and_run_Inr)
  obtain rows where s1: "insert_or_update bin_key (\<lambda>r. company_exists s (bin_company r)) ?upd b (t_bins s) = Some rows"
    "s1 = s\<lparr>t_bins := rows\<rparr>"
    using w b by (auto simp: write_bin_def execute_Inr)
  have "?upd q b = b" if "bin_key q = bin_key b" for q using that by (cases q; cases b) (simp add: bin_key_def)
  note f = upsert_find [OF s1(1) this]
  have "find (\<lambda>b. bin_key b = (c, i, w)) (t_bins s1) = map_of (AList.update (c, bin_item b, bin_warehouse b) b m) (c, i, w)" for i w
    using f [of "(c, i, w)"] Cons.prems(3) b(2) s1(2) by (simp add: update_conv')
  from Cons.IH [OF rest _ this] Cons.prems(2) show ?case by (auto simp: s1(2) insert_bins_Cons)
qed

section \<open>Documents\<close>

lemma docs_sim_keys:
  assumes "docs_sim c ds rs"
  shows "(c, dt, i) \<in> fst ` set (docs_of ds c) \<longleftrightarrow> (c, dt, i) \<in> pd_key ` set rs"
proof -
  have "set (map fst (docs_of ds c)) = set (map pd_key (rows_of rs c))"
    using doc_sim_keys assms by (metis docs_sim_def)
  then show ?thesis by (auto simp: rows_of_def pd_key_def image_iff)
qed

lemma update_new: "k \<notin> fst ` set al \<Longrightarrow> AList.update k v al = al @ [(k, v)]"
  by (induction al) auto

lemma docs_sim_append:
  assumes "docs_sim c ds rs" "doc_sim ((c, dt, i), m) r" "(c, dt, i) \<notin> pd_key ` set rs"
  shows "docs_sim c (AList.update (c, dt, i) m ds) (rs @ [r])"
proof -
  have new: "(c, dt, i) \<notin> fst ` set (docs_of ds c)" using docs_sim_keys [OF assms(1)] assms(3) by simp
  then have "AList.update (c, dt, i) m (docs_of ds c) = docs_of ds c @ [((c, dt, i), m)]" by (rule update_new)
  moreover have "pd_company r = c" using assms(2) by (simp add: doc_sim_def pd_key_def)
  ultimately show ?thesis
    using assms(1,2) new by (auto simp: docs_sim_def docs_of_update rows_of_def list_all2_appendI)
qed

lemma docs_sim_replace:
  assumes "docs_sim c ds rs" "(c, dt, i) \<in> fst ` set (docs_of ds c)"
    and "\<And>r. pd_key (f r) = pd_key r" "\<And>r. r \<in> set rs \<Longrightarrow> pd_key r = (c, dt, i) \<Longrightarrow> doc_sim ((c, dt, i), m) (f r)"
  shows "docs_sim c (AList.update (c, dt, i) m ds) (update_where (\<lambda>r. pd_key r = (c, dt, i)) f rs)"
proof -
  have "list_all2 doc_sim (AList.update (c, dt, i) m (docs_of ds c)) (update_where (\<lambda>r. pd_key r = (c, dt, i)) f (rows_of rs c))"
    using assms by (intro doc_sim_update) (auto simp: docs_sim_def rows_of_def)
  moreover have "distinct (map fst (AList.update (c, dt, i) m (docs_of ds c)))"
    using assms(1) by (intro distinct_update) (simp add: docs_sim_def)
  ultimately show ?thesis by (simp add: docs_sim_def docs_of_update rows_of_update [OF assms(3)])
qed

text \<open>The outstanding updates of a commit.\<close>

definition float_ok :: "pgsql \<Rightarrow> bool" where
  "float_ok p \<longleftrightarrow> (\<forall>v. as_f64 (pg_float p v) = (if is_finite v then Some v else None))"

lemma is_object_JObj: "is_object j \<longleftrightarrow> (\<exists>m. j = JObj m)"
  by (cases j) (simp_all add: is_object_def)

lemma plain_texts_cong: "(\<And>k. k \<noteq> OUTSTANDING \<Longrightarrow> jget a k = jget b k) \<Longrightarrow> plain_texts a = plain_texts b"
  by (simp add: plain_texts_def text_member_def OUTSTANDING_def)

lemma list_all2_partner: "list_all2 R xs ys \<Longrightarrow> y \<in> set ys \<Longrightarrow> \<exists>x. x \<in> set xs \<and> R x y"
  by (induction rule: list_all2_induct) auto

lemma docs_sim_partner:
  assumes "docs_sim c ds rs" "r \<in> set rs" "pd_key r = (c, dt, i)" "map_of ds (c, dt, i) = Some m"
  shows "doc_sim ((c, dt, i), m) r"
proof -
  have "r \<in> set (rows_of rs c)" using assms(2,3) by (simp add: rows_of_def pd_key_def)
  then obtain e where e: "e \<in> set (docs_of ds c)" "doc_sim e r"
    using assms(1) list_all2_partner [of doc_sim "docs_of ds c" "rows_of rs c" r] unfolding docs_sim_def by blast
  then have "fst e = (c, dt, i)" using assms(3) by (simp add: doc_sim_def)
  moreover have "map_of (docs_of ds c) (fst e) = Some (snd e)"
    using e(1) assms(1) by (intro map_of_is_SomeI) (simp_all add: docs_sim_def)
  ultimately have "e = ((c, dt, i), m)" using assms(4) map_of_docs [of ds c dt i] by (metis option.inject prod.collapse)
  then show ?thesis using e(2) by simp
qed

lemma outstanding_doc_sim:
  assumes "float_ok p" "doc_sim (key, m) r" "jsonb_set (pd_payload r) OUTSTANDING (pg_float p v) = Some j"
  shows "doc_sim (key, set_outstanding v m) (r\<lparr>pd_payload := j\<rparr>)"
proof -
  obtain b where b: "pd_payload r = JObj b" "j = JObj (obj_insert OUTSTANDING (pg_float p v) b)"
    using assms(3) by (cases "pd_payload r") (auto simp: jsonb_set_def)
  obtain a where a: "pd_payload m = JObj a" using assms(2) b by (auto simp: doc_sim_def payload_sim_def is_object_JObj)
  have f: "as_f64 (json_f64 v) = as_f64 (pg_float p v)" using assms(1) by (simp add: float_ok_def json_f64_def)
  have "payload_sim (JObj (obj_insert OUTSTANDING (json_f64 v) a)) j"
    using assms(2) a b f by (simp add: doc_sim_def payload_sim_def is_object_JObj)
  moreover have "plain_texts j"
    using assms(2) b plain_texts_cong [of j "pd_payload r"] by (simp add: doc_sim_def)
  moreover have "pd_key (set_outstanding v m) = pd_key m" "pd_created_at (set_outstanding v m) = pd_created_at m"
    by (simp_all add: pd_key_def set_outstanding_def split: json.split)
  moreover have "pd_key (r\<lparr>pd_payload := j\<rparr>) = pd_key r" by (simp add: pd_key_def)
  ultimately show ?thesis
    using assms(2) a by (simp add: doc_sim_def) (simp add: set_outstanding_def OUTSTANDING_def)
qed

lemma write_outstanding_sim:
  assumes "float_ok p" "write_outstanding p c (dt, i, v) s = (Inr (), t)" "docs_sim c ds (t_documents s)"
  shows "docs_sim c (fst (outstanding_step c (ds, acc) (dt, i, v))) (t_documents t) \<and> t = s\<lparr>t_documents := t_documents t\<rparr>"
proof -
  let ?set = "\<lambda>r. jsonb_set (pd_payload r) OUTSTANDING (pg_float p v)"
  let ?f = "\<lambda>r. r\<lparr>pd_payload := the (?set r)\<rparr>"
  have ok: "\<forall>r \<in> set (t_documents s). pd_key r = (c, dt, i) \<longrightarrow> ?set r \<noteq> None"
    and t: "t = s\<lparr>t_documents := update_where (\<lambda>r. pd_key r = (c, dt, i)) ?f (t_documents s)\<rparr>"
    using assms(2) by (auto simp: write_outstanding_def execute_Inr Let_def list_ex_iff OUTSTANDING_def split: if_splits)
  have "docs_sim c (fst (outstanding_step c (ds, acc) (dt, i, v))) (update_where (\<lambda>r. pd_key r = (c, dt, i)) ?f (t_documents s))"
  proof (cases "map_of ds (c, dt, i)")
    case None
    then have "(c, dt, i) \<notin> pd_key ` set (t_documents s)"
      using docs_sim_keys [OF assms(3), of dt i] by (auto simp: map_of_docs [of ds] map_of_eq_None_iff)
    then have "update_where (\<lambda>r. pd_key r = (c, dt, i)) ?f (t_documents s) = t_documents s"
      unfolding update_where_def by (intro map_idI) (metis (no_types, lifting) image_eqI)
    then show ?thesis using None assms(3) by (simp add: outstanding_step_def)
  next
    case (Some m)
    have in_docs: "(c, dt, i) \<in> fst ` set (docs_of ds c)"
      using Some map_of_docs [of ds c dt i] by (metis fst_conv image_eqI map_of_SomeD)
    have "doc_sim ((c, dt, i), set_outstanding v m) (?f r)" if r: "r \<in> set (t_documents s)" "pd_key r = (c, dt, i)" for r
      using docs_sim_partner [OF assms(3) r Some] ok r outstanding_doc_sim [OF assms(1)] by (metis option.exhaust_sel)
    then have "docs_sim c (AList.update (c, dt, i) (set_outstanding v m) ds) (update_where (\<lambda>r. pd_key r = (c, dt, i)) ?f (t_documents s))"
      by (intro docs_sim_replace [OF assms(3) in_docs]) (simp add: pd_key_def)
    then show ?thesis by (simp add: Some outstanding_step_def Let_def)
  qed
  then show ?thesis using t by simp
qed

lemma write_outstandings_sim:
  assumes "float_ok p"
  shows "for_each (write_outstanding p c) us s = (Inr (), t) \<Longrightarrow> docs_sim c (fst acc) (t_documents s) \<Longrightarrow>
    docs_sim c (fst (foldl (outstanding_step c) acc us)) (t_documents t) \<and> t = s\<lparr>t_documents := t_documents t\<rparr>"
proof (induction us arbitrary: s acc)
  case Nil
  then show ?case by (simp add: yields_def)
next
  case (Cons u us)
  obtain dt i v where u: "u = (dt, i, v)" by (cases u)
  obtain s1 where s1: "write_outstanding p c u s = (Inr (), s1)" "for_each (write_outstanding p c) us s1 = (Inr (), t)"
    using Cons.prems(1) by (auto simp: and_run_Inr)
  have step: "docs_sim c (fst (outstanding_step c acc u)) (t_documents s1)" "s1 = s\<lparr>t_documents := t_documents s1\<rparr>"
    using write_outstanding_sim [OF assms, of c dt i v s s1 "fst acc" "snd acc"] s1(1) Cons.prems(2) u by simp_all
  from Cons.IH [OF s1(2) step(1)] have "docs_sim c (fst (foldl (outstanding_step c) acc (u # us))) (t_documents t)" "t = s1\<lparr>t_documents := t_documents t\<rparr>"
    by simp_all
  then show ?case using step(2) by (metis db.surjective db.update_convs(14))
qed

end
