(* ===== verification/Pg_Commit_Refines.thy ===== *)
theory Pg_Commit_Refines
  imports Pg_Commit_Theorems Solo_Theorems
begin

text \<open>
  The posting transaction as a whole: on related books it answers as the memory store and keeps the
  books related, or it fails with an error of the driver and changes nothing.
\<close>

section \<open>Errors of the driver\<close>

text \<open>A program whose only error is \<open>Internal\<close>.\<close>

definition only_internal :: "'a dbm \<Rightarrow> bool" where
  "only_internal m \<longleftrightarrow> (\<forall>s e t. m s = (Inl e, t) \<longrightarrow> e = Internal)"

lemma only_internal_simps [simp]:
  "only_internal (yields a)" "only_internal (query f)" "only_internal (execute g)"
  "only_internal (from_result (\<lambda>s. ok_or (h s) Internal))" "only_internal (insert_into get put key ok r)"
  by (auto simp: only_internal_def yields_def query_def execute_def from_result_def ok_or_def insert_into_def split: option.splits)

lemma only_internal_run [intro!]: "only_internal m \<Longrightarrow> (\<And>a. only_internal (f a)) \<Longrightarrow> only_internal (and_run m f)"
  by (fastforce simp: only_internal_def and_run_def split: prod.splits sum.splits)

lemma only_internal_each [intro!]: "(\<And>a. only_internal (f a)) \<Longrightarrow> only_internal (for_each f as)"
  by (induction as) auto

lemma only_internal_link: "only_internal (link_rows x c rows tip)"
  by (induction rows arbitrary: tip) (auto simp: Let_def)

lemma only_internal_projection: "only_internal (db_apply_projection x now c r)"
  by (auto simp: db_apply_projection_def split: projection_action.split)

lemma only_internal_append_rows: "only_internal (append_rows x now c ms head tip)"
proof (induction ms arbitrary: head tip)
  case (Cons m ms)
  then show ?case
    by (auto simp: Let_def insert_mutation_def case_prod_beta only_internal_projection split: option.split)
qed auto

lemma only_internal_append: "only_internal (db_append_mutations x now c ms)"
proof -
  have "only_internal (db_chain_tip x c head)" for head
    by (auto simp: db_chain_tip_def counter_row_of_def set_last_hash_def case_prod_beta only_internal_link)
  then show ?thesis
    by (auto simp: db_append_mutations_def ensure_counter_def counter_row_of_def set_counter_def case_prod_beta only_internal_append_rows)
qed

lemma only_internal_effects: "only_internal (db_commit_effects p x now k)"
proof -
  have "only_internal (db_numbered k)"
    by (auto simp: db_numbered_def db_next_value_def Let_def split: option.split)
  moreover have "only_internal (db_write_tables p k document)" for document
    by (auto simp: db_write_tables_def raise_floor_def insert_solo_mark_def db_write_document_def insert_gl_def insert_sle_def
        insert_party_def insert_tax_def insert_settlement_def write_bin_def write_outstanding_def Let_def split: option.split prod.split)
  ultimately show ?thesis
    by (auto simp: db_commit_effects_def Let_def case_prod_beta only_internal_append insert_batch_def insert_audit_def insert_idempotency_def
        split: option.split)
qed

section \<open>Numbers and the document\<close>

definition commit_fits :: "inner \<Rightarrow> posting_commit_rec \<Rightarrow> bool" where
  "commit_fits s k \<longleftrightarrow> (let c = pc_company k in
     pd_company (pc_document k) = c \<and> plain_texts (pd_payload (pc_document k)) \<and> pb_company (pc_batch k) = c
   \<and> (\<forall>e \<in> set (pc_gl_entries k). gl_company e = c) \<and> (\<forall>e \<in> set (pc_stock_ledger_entries k). sle_company e = c)
   \<and> (\<forall>t \<in> set (pc_party_transactions k). pt_company t = c) \<and> (\<forall>t \<in> set (pc_tax_transactions k). tt_company t = c)
   \<and> (\<forall>t \<in> set (pc_settlements k). st_company t = c) \<and> (\<forall>b \<in> set (pc_bins k). bin_company b = c)
   \<and> (\<forall>f \<in> set (pc_numbering_floors k). 0 \<le> snd f)
   \<and> (\<not> pc_document_is_new k \<longrightarrow> pc_series_key k = None \<and> pc_preassigned_number k = None
        \<and> (\<forall>doc. map_of (documents s) (doc_key_of k) = Some doc \<longrightarrow>
             pd_official_number (pc_document k) = pd_official_number doc \<and> pd_created_at (pc_document k) = pd_created_at doc)))"

lemma numbered_sim:
  assumes "lookups_sim (pc_company k) s d" "db_numbered k d = (Inr (document, response), t)"
  shows "document = numbered_document s k" "response = numbered_response s k"
    "\<exists>rows. t = d\<lparr>t_numbering_series := rows\<rparr> \<and> (\<forall>key. value_in rows (pc_company k, key) =
      (case pc_series_key k of Some key' \<Rightarrow> (series s)((pc_company k, key') := next_value s k key') | None \<Rightarrow> series s) (pc_company k, key))"
proof -
  let ?c = "pc_company k"
  have ser: "value_in (t_numbering_series d) (?c, key) = series s (?c, key)" for key
    using assms(1) by (simp add: lookups_sim_def series_of_value)
  have "document = numbered_document s k \<and> response = numbered_response s k \<and>
    (\<exists>rows. t = d\<lparr>t_numbering_series := rows\<rparr> \<and> (\<forall>key. value_in rows (?c, key) =
      (case pc_series_key k of Some key' \<Rightarrow> (series s)((?c, key') := next_value s k key') | None \<Rightarrow> series s) (?c, key)))"
  proof (cases "pc_series_key k")
    case None
    then show ?thesis
      using assms(2) ser by (auto simp: db_numbered_def yields_def Let_def numbered_document_def numbered_response_def allocated_number_def
          intro!: exI [of _ "t_numbering_series d"] split: option.splits)
  next
    case (Some key)
    then obtain v where v: "db_next_value ?c key d = (Inr v, t)"
      and out: "document = (pc_document k)\<lparr>pd_official_number := Some (format_number key v)\<rparr>"
        "response = json_put ''number'' (JStr (format_number key v))
          (case pc_preassigned_number k of Some n \<Rightarrow> json_put ''number'' (JStr n) (pc_response k) | None \<Rightarrow> pc_response k)"
      using assms(2) by (auto simp: db_numbered_def dbm_Inr Let_def split: option.splits)
    note n = next_value_rows [OF v]
    have "next_value s k key = v"
      using n(1,2) ser [of key] by (simp add: next_value_def series_of_value i64_succ_def)
    moreover obtain rows where "t = d\<lparr>t_numbering_series := rows\<rparr>" "value_in rows = (value_in (t_numbering_series d))((?c, key) := v)"
      using n(3) by blast
    ultimately show ?thesis
      using out ser Some by (auto simp: numbered_document_def numbered_response_def allocated_number_def Let_def intro!: exI [of _ rows] split: option.split)
  qed
  then show "document = numbered_document s k" "response = numbered_response s k"
    "\<exists>rows. t = d\<lparr>t_numbering_series := rows\<rparr> \<and> (\<forall>key. value_in rows (?c, key) =
      (case pc_series_key k of Some key' \<Rightarrow> (series s)((?c, key') := next_value s k key') | None \<Rightarrow> series s) (?c, key))"
    by simp_all
qed

lemma write_document_sim:
  assumes "docs_sim (pc_company k) (documents s) (t_documents d)" "existence_check s k = Inr ()" "commit_fits s k"
    and "db_write_document k (numbered_document s k) d = (Inr (), t)"
  shows "t = d\<lparr>t_documents := t_documents t\<rparr> \<and>
    docs_sim (pc_company k) (AList.update (doc_key_of k) (numbered_document s k) (documents s)) (t_documents t)"
proof -
  let ?c = "pc_company k" and ?doc = "numbered_document s k"
  have doc: "pd_company ?doc = ?c" "pd_key ?doc = doc_key_of k" "plain_texts (pd_payload ?doc)" "?doc\<lparr>pd_company := ?c\<rparr> = ?doc"
    using assms(3) by (auto simp: commit_fits_def Let_def numbered_document_def pd_key_def doc_key_of_def split: option.split)
  show ?thesis
  proof (cases "pc_document_is_new k")
    case True
    then have t: "t = d\<lparr>t_documents := t_documents d @ [?doc]\<rparr>" "doc_key_of k \<notin> pd_key ` set (t_documents d)"
      using assms(4) doc by (auto simp: db_write_document_def insert_into_Inr Let_def)
    have "doc_sim (doc_key_of k, ?doc) ?doc" using doc by (simp add: doc_sim_def)
    then show ?thesis using docs_sim_append [OF assms(1)] t unfolding doc_key_of_def by simp
  next
    case False
    let ?f = "\<lambda>r. r\<lparr>pd_payload := pd_payload ?doc, pd_docstatus := pd_docstatus ?doc\<rparr>"
    have t: "t = d\<lparr>t_documents := update_where (\<lambda>r. pd_key r = doc_key_of k) ?f (t_documents d)\<rparr>"
      using assms(4) doc False by (auto simp: db_write_document_def execute_Inr Let_def split: if_splits)
    obtain old where old: "map_of (documents s) (doc_key_of k) = Some old"
      using assms(2) False by (auto simp: existence_check_def Let_def split: option.splits)
    have num: "pd_official_number ?doc = pd_official_number old" "pd_created_at ?doc = pd_created_at old"
      using assms(3) False old by (auto simp: commit_fits_def Let_def numbered_document_def allocated_number_def)
    have in_docs: "doc_key_of k \<in> fst ` set (docs_of (documents s) ?c)"
      using old unfolding doc_key_of_def map_of_docs [of "documents s"] by (metis fst_conv image_eqI map_of_SomeD)
    have "doc_sim (doc_key_of k, ?doc) (?f r)" if r: "r \<in> set (t_documents d)" "pd_key r = doc_key_of k" for r
    proof -
      have "doc_sim (doc_key_of k, old) r" using docs_sim_partner [OF assms(1) r(1)] r(2) old by (simp add: doc_key_of_def)
      moreover have "pd_key (?f r) = pd_key r" by (simp add: pd_key_def)
      ultimately show ?thesis using r doc num by (simp add: doc_sim_def)
    qed
    then show ?thesis
      using docs_sim_replace [OF assms(1) in_docs [unfolded doc_key_of_def], where f = ?f and m = ?doc] t
      unfolding doc_key_of_def by (simp add: pd_key_def)
  qed
qed

section \<open>The log\<close>

lemma outstanding_ids:
  assumes "\<And>key m. map_of ds key = Some m \<Longrightarrow> fst key = c \<Longrightarrow> pd_key m = key"
  shows "map pd_id (snd (foldl (outstanding_step c) (ds, acc) us)) =
    map pd_id acc @ map (\<lambda>(dt, i, v). i) (filter (\<lambda>(dt, i, v). map_of ds (c, dt, i) \<noteq> None) us)"
  using assms
proof (induction us arbitrary: ds acc)
  case (Cons u us)
  obtain dt i v where u: "u = (dt, i, v)" by (cases u)
  show ?case
  proof (cases "map_of ds (c, dt, i)")
    case None
    then show ?thesis using Cons.IH [OF Cons.prems] by (simp add: u outstanding_step_def)
  next
    case (Some m)
    let ?ds = "AList.update (c, dt, i) (set_outstanding v m) ds"
    have m: "pd_key m = (c, dt, i)" using Cons.prems [OF Some] by simp
    have "pd_key q = key" if "map_of ?ds key = Some q" "fst key = c" for key q
      using that Cons.prems m by (auto simp: update_conv' pd_key_def split: if_splits)
    moreover have "map_of ?ds key = None \<longleftrightarrow> map_of ds key = None" for key using Some by (simp add: update_conv')
    ultimately show ?thesis
      using Cons.IH [of ?ds "acc @ [set_outstanding v m]"] Some m by (simp add: u outstanding_step_def Let_def pd_key_def)
  qed
qed simp

lemma docs_sim_key:
  assumes "docs_sim c ds rs" "map_of ds key = Some m" "fst key = c"
  shows "pd_key m = key"
proof -
  obtain dt i where key: "key = (c, dt, i)" using assms(3) by (cases key) auto
  have "rel_option (\<lambda>m r. doc_sim (key, m) r) (map_of ds key) (find (\<lambda>r. pd_key r = key) (rows_of rs c))"
    using doc_sim_lookup [of "docs_of ds c" "rows_of rs c" key] assms(1) by (simp add: key docs_sim_def map_of_docs [symmetric])
  then show ?thesis using assms(2) by (auto simp: doc_sim_def option_rel_Some1)
qed

lemma map_filter_ids:
  assumes "\<And>dt i. map_option g (f dt i) = (if P dt i then Some i else None)"
  shows "map (\<lambda>(dt, i, v). i) (filter (\<lambda>(dt, i, v). P dt i) us) = map g (List.map_filter (\<lambda>(dt, i, v). f dt i) us)"
proof (induction us)
  case (Cons u us)
  obtain dt i v where "u = (dt, i, v)" by (cases u)
  then show ?case using Cons assms [of dt i] by (cases "f dt i") (auto simp: List.map_filter_def split: if_splits)
qed (simp add: List.map_filter_def)

text \<open>The ids of the replicated mutations come from the ids of the rows.\<close>

lemma replicated_ids:
  fixes k document
  defines "src \<equiv> commit_sources k document [] []"
  shows "map mr_id (replication_mutations x now (commit_sources k document sles docs)) =
    mr_id (replicate_document x now src) # map (\<lambda>e. mr_id (replicate_gl x now src e)) (pc_gl_entries k)
    @ map (\<lambda>i. ''postmut-'' @ i) (map sle_id sles)
    @ map (\<lambda>e. mr_id (replicate_party x now src e)) (pc_party_transactions k) @ map (\<lambda>e. mr_id (replicate_tax x now src e)) (pc_tax_transactions k)
    @ map (\<lambda>e. mr_id (replicate_settlement x now src e)) (pc_settlements k) @ map (\<lambda>e. mr_id (replicate_bin x now src e)) (pc_bins k)
    @ map (\<lambda>i. ''postmut-'' @ pd_id document @ ''-outstanding-'' @ i @ replica_sfx src) (map pd_id docs)"
  by (simp add: src_def replication_mutations_def commit_sources_def replicate_defs Let_def replica_sfx_def)

text \<open>Both stores replicate the same mutations, up to the payloads of the invoices.\<close>

lemma record_ids:
  assumes "docs_sim (pc_company k) ds (t_documents t)" "float_ok p"
    and "docs_sim (pc_company k) ds0 (t_documents t0)"
    and "foldl (outstanding_step (pc_company k)) (ds0, []) (pc_outstanding_updates k) = (ds, docs)"
    and "\<And>key. map_of ds key = None \<longleftrightarrow> map_of ds0 key = None"
  shows "map mr_id (replication_mutations x now (commit_sources k document sles (outstanding_docs k t))) =
    map mr_id (replication_mutations x now (commit_sources k document (snd (assign_seq n sles)) docs))"
proof -
  let ?c = "pc_company k"
  have "map pd_id docs = map (\<lambda>(dt, i, v). i) (filter (\<lambda>(dt, i, v). map_of ds (?c, dt, i) \<noteq> None) (pc_outstanding_updates k))"
    using outstanding_ids [of ds0 ?c "[]" "pc_outstanding_updates k"] docs_sim_key [OF assms(3)] assms(4,5) by simp
  also have "\<dots> = map pd_id (outstanding_docs k t)"
  proof -
    have "map_option pd_id (find (\<lambda>r. pd_key r = (?c, dt, i)) (t_documents t)) = (if map_of ds (?c, dt, i) \<noteq> None then Some i else None)" for dt i
    proof -
      have "rel_option (\<lambda>m r. doc_sim ((?c, dt, i), m) r) (map_of ds (?c, dt, i)) (find (\<lambda>r. pd_key r = (?c, dt, i)) (t_documents t))"
        using doc_sim_lookup [of "docs_of ds ?c" "rows_of (t_documents t) ?c" "(?c, dt, i)"] assms(1)
        by (simp add: docs_sim_def map_of_docs [symmetric] find_rows [symmetric])
      then show ?thesis by (cases "map_of ds (?c, dt, i)") (auto simp: option_rel_Some1 doc_sim_def pd_key_def)
    qed
    then have "map (\<lambda>(dt, i, v). i) (filter (\<lambda>(dt, i, v). map_of ds (?c, dt, i) \<noteq> None) us) =
        map pd_id (List.map_filter (\<lambda>(dt, i, _). db_posted_document t ?c dt i) us)" for us
      unfolding db_posted_document_def by (rule map_filter_ids)
    then show ?thesis by (simp add: outstanding_docs_def)
  qed
  finally have ids: "map pd_id docs = map pd_id (outstanding_docs k t)" .
  have sle: "map sle_id (snd (assign_seq n sles)) = map sle_id sles"
    by (induction sles arbitrary: n) (auto simp: Let_def case_prod_beta)
  show ?thesis unfolding replicated_ids ids sle ..
qed

lemma append_shape:
  assumes "log_inv x c s" "log_inv x c s0" "log_shape c s0 = log_shape c s" "map mr_id ms0 = map mr_id ms"
    and "length (mutations s c) + length ms \<le> max_log"
  shows "log_shape c (snd (append_mutations x now c ms0 s0)) = log_shape c (snd (append_mutations x now c ms s))"
  using assms
proof (induction ms arbitrary: ms0 s s0)
  case (Cons m ms)
  then obtain m0 ms1 where ms0: "ms0 = m0 # ms1" "mr_id m0 = mr_id m" "map mr_id ms1 = map mr_id ms" by auto
  let ?s = "snd (append_one x now c m s)" and ?old = "snd (append_one x now c m0 s0)"
  have shape: "map fst (log_shape c u) = map mr_id (log_records u c)" for u by (simp add: log_shape_def log_records_def)
  have ids: "map mr_id (log_records s0 c) = map mr_id (log_records s c)" using Cons.prems(3) shape by metis
  then have len: "length (log_records s0 c) = length (log_records s c)" "length (log_records s c) = length (mutations s c)"
    by (metis length_map) (simp add: log_records_def)
  have room: "length (log_records s c) < max_log" "length (log_records s0 c) < max_log" using Cons.prems(5) len by simp_all
  note inv = append_one_inv [OF Cons.prems(1) room(1), of now m] append_one_inv [OF Cons.prems(2) room(2), of now m0]
  have "log_shape c ?old = log_shape c ?s \<and> length (mutations ?s c) \<le> Suc (length (mutations s c))"
  proof (cases "mr_id m \<in> mr_id ` set (log_records s c)")
    case True
    then have "mr_id m0 \<in> mr_id ` set (log_records s0 c)" using ids ms0(2) by (metis image_set)
    then have "?s = s" "?old = s0"
      using append_one_known [OF Cons.prems(1) True, of now] append_one_known [OF Cons.prems(2), of m0 now] by simp_all
    then show ?thesis using Cons.prems(3) by simp
  next
    case False
    moreover from this have "mr_id m0 \<notin> mr_id ` set (log_records s0 c)" using ids ms0(2) by (metis image_set)
    ultimately show ?thesis
      using append_one_new(1) [OF Cons.prems(1) _ room(1), of m now] append_one_new(1) [OF Cons.prems(2) _ room(2), of m0 now] ms0(2) Cons.prems(3) len
      by (simp add: log_shape_def)
  qed
  then show ?case using Cons.IH [OF inv(1,2) _ ms0(3)] Cons.prems(5) by (simp add: ms0(1) Let_def case_prod_beta)
qed simp

lemma log_sim_frame:
  assumes "t_mutations e = t_mutations d" "t_sync_counters e = t_sync_counters d" "t_company_documents e = t_company_documents d"
    "t_companies e = t_companies d"
  shows "log_sim x c s e = log_sim x c s d"
  using assms by (simp add: log_sim_def company_exists_def same_counter_def counter_of_def same_read_model_def db_company_document_def log_rows_def)

section \<open>The tables\<close>

definition solo_rows :: "posting_commit_rec \<Rightarrow> (uuid \<times> string \<times> string \<times> string) list" where
  "solo_rows k = (case pc_solo_migration k of
     Some mark \<Rightarrow> [(pc_company k, sm_migration_id mark, pd_id (pc_document k), sm_package_sha256 mark)] | None \<Rightarrow> [])"

lemma insert_solo_rows:
  assumes "insert_solo_mark k d = (Inr (), t)"
  shows "t = d\<lparr>t_solo_migrations := t_solo_migrations d @ solo_rows k\<rparr>"
  using assms by (auto simp: insert_solo_mark_def solo_rows_def insert_into_Inr yields_def split: option.splits)

lemma same_company:
  "\<forall>e \<in> set es. gl_company e = c \<Longrightarrow> map (\<lambda>e. e\<lparr>gl_company := c\<rparr>) es = es"
  "\<forall>e \<in> set ps. pt_company e = c \<Longrightarrow> map (\<lambda>e. e\<lparr>pt_company := c\<rparr>) ps = ps"
  "\<forall>e \<in> set ts. tt_company e = c \<Longrightarrow> map (\<lambda>e. e\<lparr>tt_company := c\<rparr>) ts = ts"
  "\<forall>e \<in> set ss. st_company e = c \<Longrightarrow> map (\<lambda>e. e\<lparr>st_company := c\<rparr>) ss = ss"
  by (auto intro!: map_idI)

lemma write_tables_steps:
  assumes "db_write_tables p k document d = (Inr (), t)" "commit_fits s k"
  obtains d1 d2 d3 where
    "d1 = d\<lparr>t_numbering_series := raise_rows (pc_company k) (pc_numbering_floors k) (t_numbering_series d),
       t_solo_migrations := t_solo_migrations d @ solo_rows k\<rparr>"
    "db_write_document k document d1 = (Inr (), d2)"
    "for_each (write_bin (pc_company k)) (pc_bins k) (d2\<lparr>t_gl_entries := t_gl_entries d2 @ pc_gl_entries k,
       t_stock_ledger := t_stock_ledger d2 @ drawn (pc_company k) (t_sle_identity d2) (pc_stock_ledger_entries k),
       t_sle_identity := t_sle_identity d2 + int (length (pc_stock_ledger_entries k)),
       t_party_transactions := t_party_transactions d2 @ pc_party_transactions k,
       t_tax_transactions := t_tax_transactions d2 @ pc_tax_transactions k,
       t_settlements := t_settlements d2 @ pc_settlements k\<rparr>) = (Inr (), d3)"
    "for_each (write_outstanding p (pc_company k)) (pc_outstanding_updates k) d3 = (Inr (), t)"
proof -
  let ?c = "pc_company k"
  obtain f g h e1 e2 e3 e4 e5 e6 where r: "for_each (raise_floor ?c) (pc_numbering_floors k) d = (Inr (), f)" "insert_solo_mark k f = (Inr (), g)"
    "db_write_document k document g = (Inr (), h)" "for_each (insert_gl ?c) (pc_gl_entries k) h = (Inr (), e1)"
    "for_each (insert_sle ?c) (pc_stock_ledger_entries k) e1 = (Inr (), e2)" "for_each (insert_party ?c) (pc_party_transactions k) e2 = (Inr (), e3)"
    "for_each (insert_tax ?c) (pc_tax_transactions k) e3 = (Inr (), e4)" "for_each (insert_settlement ?c) (pc_settlements k) e4 = (Inr (), e5)"
    "for_each (write_bin ?c) (pc_bins k) e5 = (Inr (), e6)" "for_each (write_outstanding p ?c) (pc_outstanding_updates k) e6 = (Inr (), t)"
    using assms(1) by (auto simp: db_write_tables_def and_run_Inr Let_def)
  have wf: "map (\<lambda>e. e\<lparr>gl_company := ?c\<rparr>) (pc_gl_entries k) = pc_gl_entries k"
    "map (\<lambda>e. e\<lparr>pt_company := ?c\<rparr>) (pc_party_transactions k) = pc_party_transactions k"
    "map (\<lambda>e. e\<lparr>tt_company := ?c\<rparr>) (pc_tax_transactions k) = pc_tax_transactions k"
    "map (\<lambda>e. e\<lparr>st_company := ?c\<rparr>) (pc_settlements k) = pc_settlements k"
    using assms(2) by (simp_all add: commit_fits_def Let_def same_company)
  note e1 = insert_gls [OF r(4), unfolded wf] and e2 = insert_sles [OF r(5)] and e3 = insert_parties [OF r(6), unfolded wf]
    and e4 = insert_taxes [OF r(7), unfolded wf] and e5 = insert_settlements [OF r(8), unfolded wf]
  have "g = d\<lparr>t_numbering_series := raise_rows ?c (pc_numbering_floors k) (t_numbering_series d), t_solo_migrations := t_solo_migrations d @ solo_rows k\<rparr>"
    using raise_floors_rows [OF r(1)] insert_solo_rows [OF r(2)] by simp
  moreover have "e5 = h\<lparr>t_gl_entries := t_gl_entries h @ pc_gl_entries k,
       t_stock_ledger := t_stock_ledger h @ drawn ?c (t_sle_identity h) (pc_stock_ledger_entries k),
       t_sle_identity := t_sle_identity h + int (length (pc_stock_ledger_entries k)),
       t_party_transactions := t_party_transactions h @ pc_party_transactions k,
       t_tax_transactions := t_tax_transactions h @ pc_tax_transactions k,
       t_settlements := t_settlements h @ pc_settlements k\<rparr>"
    by (simp add: e5 e4 e3 e2 e1)
  ultimately show ?thesis using that [OF _ r(3) _ r(10)] r(9) by simp
qed

text \<open>The database after the tables are written, but for the documents and bins, which are related.\<close>

definition written :: "posting_commit_rec \<Rightarrow> db \<Rightarrow> posted_document list \<Rightarrow> bin list \<Rightarrow> db" where
  "written k d docs bs = d\<lparr>t_numbering_series := raise_rows (pc_company k) (pc_numbering_floors k) (t_numbering_series d),
     t_solo_migrations := t_solo_migrations d @ solo_rows k, t_documents := docs,
     t_gl_entries := t_gl_entries d @ pc_gl_entries k,
     t_stock_ledger := t_stock_ledger d @ drawn (pc_company k) (t_sle_identity d) (pc_stock_ledger_entries k),
     t_sle_identity := t_sle_identity d + int (length (pc_stock_ledger_entries k)),
     t_party_transactions := t_party_transactions d @ pc_party_transactions k,
     t_tax_transactions := t_tax_transactions d @ pc_tax_transactions k,
     t_settlements := t_settlements d @ pc_settlements k, t_bins := bs\<rparr>"

lemma write_tables_sim:
  assumes "db_write_tables p k (numbered_document s k) d = (Inr (), t)" "commit_fits s k" "float_ok p" "existence_check s k = Inr ()"
    and "docs_sim (pc_company k) (documents s) (t_documents d)"
    and "\<And>i w. find (\<lambda>b. bin_key b = (pc_company k, i, w)) (t_bins d) = map_of (bins s) (pc_company k, i, w)"
  shows "\<exists>docs bs. t = written k d docs bs \<and> docs_sim (pc_company k) (fst (commit_documents s k)) docs
    \<and> (\<forall>i w. find (\<lambda>b. bin_key b = (pc_company k, i, w)) bs = map_of (insert_bins (pc_company k) (pc_bins k) (bins s)) (pc_company k, i, w))
    \<and> (\<exists>rs. docs_sim (pc_company k) (AList.update (doc_key_of k) (numbered_document s k) (documents s)) rs)"
proof -
  let ?c = "pc_company k" and ?ds = "AList.update (doc_key_of k) (numbered_document s k) (documents s)"
  obtain d1 d2 d3 where st:
    "d1 = d\<lparr>t_numbering_series := raise_rows ?c (pc_numbering_floors k) (t_numbering_series d), t_solo_migrations := t_solo_migrations d @ solo_rows k\<rparr>"
    "db_write_document k (numbered_document s k) d1 = (Inr (), d2)"
    "for_each (write_bin ?c) (pc_bins k) (d2\<lparr>t_gl_entries := t_gl_entries d2 @ pc_gl_entries k,
       t_stock_ledger := t_stock_ledger d2 @ drawn ?c (t_sle_identity d2) (pc_stock_ledger_entries k),
       t_sle_identity := t_sle_identity d2 + int (length (pc_stock_ledger_entries k)),
       t_party_transactions := t_party_transactions d2 @ pc_party_transactions k,
       t_tax_transactions := t_tax_transactions d2 @ pc_tax_transactions k,
       t_settlements := t_settlements d2 @ pc_settlements k\<rparr>) = (Inr (), d3)"
    "for_each (write_outstanding p ?c) (pc_outstanding_updates k) d3 = (Inr (), t)"
    using write_tables_steps [OF assms(1,2)] by blast
  have d1: "docs_sim ?c (documents s) (t_documents d1)" using assms(5) by (simp add: st(1))
  obtain docs2 where d2: "d2 = d1\<lparr>t_documents := docs2\<rparr>" "docs_sim ?c ?ds docs2"
    using write_document_sim [OF d1 assms(4,2) st(2)] by blast
  have b2: "t_bins d2 = t_bins d" by (simp add: d2(1) st(1))
  obtain bs where d3: "d3 = d2\<lparr>t_gl_entries := t_gl_entries d2 @ pc_gl_entries k,
       t_stock_ledger := t_stock_ledger d2 @ drawn ?c (t_sle_identity d2) (pc_stock_ledger_entries k),
       t_sle_identity := t_sle_identity d2 + int (length (pc_stock_ledger_entries k)),
       t_party_transactions := t_party_transactions d2 @ pc_party_transactions k,
       t_tax_transactions := t_tax_transactions d2 @ pc_tax_transactions k,
       t_settlements := t_settlements d2 @ pc_settlements k, t_bins := bs\<rparr>"
    "\<forall>i w. find (\<lambda>b. bin_key b = (?c, i, w)) bs = map_of (insert_bins ?c (pc_bins k) (bins s)) (?c, i, w)"
    using write_bins_rows [OF st(3), of "bins s"] assms(2,6) b2 by (auto simp: commit_fits_def Let_def)
  have "docs_sim ?c (fst (?ds, [] :: posted_document list)) (t_documents d3)" using d2(2) by (simp add: d3(1) d2(1))
  then obtain docs where t: "docs_sim ?c (fst (commit_documents s k)) docs" "t = d3\<lparr>t_documents := docs\<rparr>"
    using write_outstandings_sim [OF assms(3) st(4)] unfolding commit_documents_def by blast
  have "t = written k d docs bs" by (simp add: t(2) d3(1) d2(1) st(1) written_def)
  then show ?thesis using t(1) d3(2) d2(2) by blast
qed

section \<open>The transaction\<close>

lemma append_log_sim:
  assumes "same_log x c s d" "commit_fits s k" "c = pc_company k"
    and "t_mutations e = t_mutations d" "t_sync_counters e = t_sync_counters d" "t_company_documents e = t_company_documents d"
      "t_companies e = t_companies d"
    and "map mr_id records = map mr_id (commit_records x now s k)" "length (mutations s c) + length (commit_records x now s k) \<le> max_log"
  shows "\<exists>vs e'. db_append_mutations x now c records e = (Inr vs, e') \<and> only_log c e e' \<and> same_log x c (commit_apply x now k s) e'"
proof -
  obtain s0 where s0: "log_inv x c s" "log_sim x c s0 e" "log_shape c s0 = log_shape c s"
    using assms(1) log_sim_frame [OF assms(4-7)] unfolding same_log_def by blast
  have len: "length records = length (commit_records x now s k)" "length (mutations s0 c) = length (mutations s c)"
    using arg_cong [OF assms(8), of length] arg_cong [OF s0(3), of length] by (simp_all add: log_shape_def)
  obtain vs e' where e': "db_append_mutations x now c records e = (Inr vs, e')"
    "log_sim x c (snd (append_mutations x now c records s0)) e'" "only_log c e e'"
    using append_mutations_sim [OF s0(2), of records now] len assms(9) by auto
  let ?u = "snd (append_mutations x now c (commit_records x now s k) (commit_tables k s))"
  have tab: "log_inv x c (commit_tables k s)" using s0(1) by (subst log_inv_cong [of _ _ s]) simp_all
  have "log_inv x c ?u" using append_inv [OF tab] assms(9) by (simp add: log_records_def)
  then have "log_inv x c (commit_apply x now k s)" by (subst log_inv_cong [of _ _ ?u]) (simp_all add: assms(3))
  moreover have "log_shape c (snd (append_mutations x now c records s0)) = log_shape c ?u"
    using s0 tab assms(8,9) by (intro append_shape) (simp_all add: log_sim_def log_shape_def)
  moreover have "log_shape c ?u = log_shape c (commit_apply x now k s)" by (simp add: log_shape_def assms(3))
  ultimately show ?thesis using e' unfolding same_log_def by metis
qed

text \<open>What the last statements add.\<close>

definition keyed_rows :: "posting_commit_rec \<Rightarrow> json \<Rightarrow> ((uuid \<times> string) \<times> json) list" where
  "keyed_rows k response = (case pc_idempotency_key k of Some key \<Rightarrow> [((pc_company k, key), response)] | None \<Rightarrow> [])"

lemma effects_steps:
  assumes "db_commit_effects p x now k d = (Inr response, t)" "commit_fits s k"
  obtains d1 d2 d3 document vs where "db_numbered k d = (Inr (document, response), d1)" "db_write_tables p k document d1 = (Inr (), d2)"
    "db_append_mutations x now (pc_company k)
       (replication_mutations x now (commit_sources k document (pc_stock_ledger_entries k) (outstanding_docs k d2))) d2 = (Inr vs, d3)"
    "t = d3\<lparr>t_posting_batches := t_posting_batches d3 @ [pc_batch k], t_audit_log := t_audit_log d3 @ [pc_audit k],
       t_idempotency_keys := t_idempotency_keys d3 @ keyed_rows k response\<rparr>"
    "(pc_company k, pb_id (pc_batch k)) \<notin> (\<lambda>r. (pb_company r, pb_id r)) ` set (t_posting_batches d3)"
    "fst ` set (keyed_rows k response) \<inter> fst ` set (t_idempotency_keys d3) = {}"
proof -
  let ?c = "pc_company k"
  obtain document d1 d2 d3 d4 d5 vs where r: "db_numbered k d = (Inr (document, response), d1)" "db_write_tables p k document d1 = (Inr (), d2)"
    "db_append_mutations x now ?c (replication_mutations x now (commit_sources k document (pc_stock_ledger_entries k) (outstanding_docs k d2))) d2 = (Inr vs, d3)"
    "insert_batch k d3 = (Inr (), d4)" "insert_audit (pc_audit k) d4 = (Inr (), d5)" "insert_idempotency k response d5 = (Inr (), t)"
    using assms(1) by (auto simp: db_commit_effects_def and_run_Inr query_Inr yields_Inr Let_def case_prod_beta)
  have "(pc_batch k)\<lparr>pb_company := ?c\<rparr> = pc_batch k" using assms(2) by (cases "pc_batch k") (simp add: commit_fits_def Let_def)
  then have d4: "d4 = d3\<lparr>t_posting_batches := t_posting_batches d3 @ [pc_batch k]\<rparr>"
    "(?c, pb_id (pc_batch k)) \<notin> (\<lambda>r. (pb_company r, pb_id r)) ` set (t_posting_batches d3)"
    using r(4) assms(2) by (auto simp: insert_batch_def insert_into_Inr commit_fits_def Let_def)
  have d5: "d5 = d4\<lparr>t_audit_log := t_audit_log d4 @ [pc_audit k]\<rparr>" using r(5) by (simp add: insert_audit_def insert_into_Inr)
  have t: "t = d5\<lparr>t_idempotency_keys := t_idempotency_keys d5 @ keyed_rows k response\<rparr>"
    "fst ` set (keyed_rows k response) \<inter> fst ` set (t_idempotency_keys d5) = {}"
    using r(6) by (auto simp: insert_idempotency_def keyed_rows_def insert_into_Inr yields_def split: option.splits)
  show ?thesis using that [OF r(1-3)] d4 t by (simp add: d5)
qed

text \<open>The parts of the relation after the transaction.\<close>

lemma ledgers_after:
  assumes "ledgers_sim (pc_company k) s d" "commit_fits s k"
    and "t_gl_entries t = t_gl_entries d @ pc_gl_entries k" "t_party_transactions t = t_party_transactions d @ pc_party_transactions k"
      "t_stock_ledger t = t_stock_ledger d @ drawn (pc_company k) n (pc_stock_ledger_entries k)"
      "t_tax_transactions t = t_tax_transactions d @ pc_tax_transactions k" "t_settlements t = t_settlements d @ pc_settlements k"
  shows "ledgers_sim (pc_company k) (commit_apply x now k s) t"
proof -
  let ?c = "pc_company k"
  have all: "filter (\<lambda>e. gl_company e = ?c) (pc_gl_entries k) = pc_gl_entries k"
    "filter (\<lambda>e. pt_company e = ?c) (pc_party_transactions k) = pc_party_transactions k"
    "filter (\<lambda>e. tt_company e = ?c) (pc_tax_transactions k) = pc_tax_transactions k"
    "filter (\<lambda>e. st_company e = ?c) (pc_settlements k) = pc_settlements k"
    "map unseq (drawn ?c n (pc_stock_ledger_entries k)) = map unseq (pc_stock_ledger_entries k)"
    using assms(2) by (auto simp: commit_fits_def Let_def filter_id_conv drawn_rows(1))
  show ?thesis
    using assms(1,3-7) all by (simp add: ledgers_sim_def drawn_rows(2) unseq_assign)
qed

lemma identities_after:
  assumes "identities_ok d" "t_stock_ledger t = t_stock_ledger d @ drawn c (t_sle_identity d) es" "t_sle_identity t = t_sle_identity d + int (length es)"
  shows "identities_ok t"
  using assms drawn_seqs [of c "t_sle_identity d" es] drawn_rows(3) [of c "t_sle_identity d" es]
  by (fastforce simp: identities_ok_def sorted_append)

lemma find_snoc: "find P (xs @ [a]) = (case find P xs of Some b \<Rightarrow> Some b | None \<Rightarrow> if P a then Some a else None)"
  by (cases "find P xs") (simp_all add: find_append)

lemma lookups_after:
  assumes "lookups_sim (pc_company k) s d" "commit_fits s k" "solo_check s k = Inr ()"
    and series: "\<forall>key. value_in rows (pc_company k, key) =
      (case pc_series_key k of Some key' \<Rightarrow> (series s)((pc_company k, key') := next_value s k key') | None \<Rightarrow> series s) (pc_company k, key)"
    and bins: "\<forall>i w. find (\<lambda>b. bin_key b = (pc_company k, i, w)) (t_bins t) =
      map_of (insert_bins (pc_company k) (pc_bins k) (bins s)) (pc_company k, i, w)"
    and t: "t_numbering_series t = raise_rows (pc_company k) (pc_numbering_floors k) rows"
      "t_posting_batches t = t_posting_batches d @ [pc_batch k]" "t_solo_migrations t = t_solo_migrations d @ solo_rows k"
      "t_idempotency_keys t = t_idempotency_keys d @ keyed_rows k (numbered_response s k)" "t_company_settings t = t_company_settings d"
    and new: "(pc_company k, pb_id (pc_batch k)) \<notin> (\<lambda>r. (pb_company r, pb_id r)) ` set (t_posting_batches d)"
      "fst ` set (keyed_rows k (numbered_response s k)) \<inter> fst ` set (t_idempotency_keys d) = {}"
  shows "lookups_sim (pc_company k) (commit_apply x now k s) t"
proof -
  let ?c = "pc_company k" and ?t = "commit_apply x now k s"
  have "series_of t ?c key = series ?t (?c, key)" for key
    using assms(2) raise_floors_at [of "value_in rows" ?c, OF series [rule_format]]
    by (simp add: series_of_value t(1) raise_rows_value commit_fits_def Let_def series_after_def)
  moreover have "map_of (t_idempotency_keys t) (?c, key) = idempotency ?t (?c, key)" for key
  proof (cases "pc_idempotency_key k")
    case None
    then show ?thesis using assms(1) t(4) by (simp add: lookups_sim_def keyed_rows_def)
  next
    case (Some key')
    then have "map_of (t_idempotency_keys d) (?c, key') = None" using new(2) by (auto simp: keyed_rows_def map_of_eq_None_iff)
    then show ?thesis using assms(1) t(4) Some by (auto simp: lookups_sim_def keyed_rows_def map_add_def split: option.split)
  qed
  moreover have "find (\<lambda>b. (pb_company b, pb_id b) = (?c, i)) (t_posting_batches t) = batches ?t (?c, i)" for i
  proof -
    have "pb_company (pc_batch k) = ?c" using assms(2) by (simp add: commit_fits_def Let_def)
    moreover have "find (\<lambda>b. (pb_company b, pb_id b) = (?c, pb_id (pc_batch k))) (t_posting_batches d) = None"
      using new(1) by (force simp: find_None_iff image_iff)
    ultimately show ?thesis using assms(1) t(2) by (auto simp: lookups_sim_def find_snoc split: option.split)
  qed
  moreover have "map_option (\<lambda>r. (fst (snd r), fst (snd (snd r)))) (find (\<lambda>r. fst r = ?c) (t_solo_migrations t)) = solo_migrations ?t ?c"
  proof (cases "pc_solo_migration k")
    case None
    then show ?thesis using assms(1) t(3) by (simp add: lookups_sim_def solo_rows_def solo_migrations_commit)
  next
    case (Some mark)
    then have "solo_migrations s ?c = None" using assms(3) by (auto simp: solo_check_def split: option.splits)
    then have "find (\<lambda>r. fst r = ?c) (t_solo_migrations d) = None" using assms(1) by (simp add: lookups_sim_def)
    then show ?thesis using t(3) Some by (simp add: solo_rows_def find_snoc solo_migrations_commit)
  qed
  moreover have "settings_row t ?c = map_option (\<lambda>v. JObj (settings_to_json v)) (settings ?t ?c)"
    using assms(1) t(5) by (simp add: lookups_sim_def settings_row_def)
  ultimately show ?thesis using bins by (simp add: lookups_sim_def)
qed

text \<open>After the tables the records of the commit go to the log.\<close>

lemma log_after_tables:
  assumes "books_sim x (pc_company k) s d" "commit_fits s k" "float_ok p" "commit_checks s k = Inr ()"
    and "length (mutations s (pc_company k)) + length (commit_records x now s k) \<le> max_log"
    and d1: "d1 = d\<lparr>t_numbering_series := rows\<rparr>" and tables: "db_write_tables p k (numbered_document s k) d1 = (Inr (), d2)"
  obtains docs bs vs d3 where "d2 = written k d1 docs bs" "docs_sim (pc_company k) (fst (commit_documents s k)) docs"
    "\<forall>i w. find (\<lambda>b. bin_key b = (pc_company k, i, w)) bs = map_of (insert_bins (pc_company k) (pc_bins k) (bins s)) (pc_company k, i, w)"
    "db_append_mutations x now (pc_company k)
      (replication_mutations x now (commit_sources k (numbered_document s k) (pc_stock_ledger_entries k) (outstanding_docs k d2))) d2 = (Inr vs, d3)"
    "only_log (pc_company k) d2 d3" "same_log x (pc_company k) (commit_apply x now k s) d3"
proof -
  let ?c = "pc_company k" and ?doc = "numbered_document s k"
  note sim = books_simD [OF assms(1)] and checks = checks_passed [OF assms(4)]
  obtain docs bs rs where w: "d2 = written k d1 docs bs" "docs_sim ?c (fst (commit_documents s k)) docs"
    "\<forall>i w. find (\<lambda>b. bin_key b = (?c, i, w)) bs = map_of (insert_bins ?c (pc_bins k) (bins s)) (?c, i, w)"
    "docs_sim ?c (AList.update (doc_key_of k) ?doc (documents s)) rs"
    using write_tables_sim [OF tables assms(2,3) checks(5)] sim(1,3) by (auto simp: d1 lookups_sim_def)
  have ids: "map mr_id (replication_mutations x now (commit_sources k ?doc (pc_stock_ledger_entries k) (outstanding_docs k d2))) =
      map mr_id (commit_records x now s k)"
  proof -
    have "map_of (fst (commit_documents s k)) key = None \<longleftrightarrow> map_of (AList.update (doc_key_of k) ?doc (documents s)) key = None" for key
      using outstanding_loop_keeps [of "\<lambda>_. ()" ?c "(AList.update (doc_key_of k) ?doc (documents s), [])" "pc_outstanding_updates k" key]
      unfolding commit_documents_def by (metis fst_conv option.map_disc_iff)
    then show ?thesis
      unfolding commit_records_def
      by (intro record_ids [where ds = "fst (commit_documents s k)" and ?ds0.0 = "AList.update (doc_key_of k) ?doc (documents s)" and ?t0.0 = "d\<lparr>t_documents := rs\<rparr>", OF _ assms(3)])
        (use w in \<open>simp_all add: written_def commit_documents_def\<close>)
  qed
  have "\<exists>vs e'. db_append_mutations x now ?c (replication_mutations x now (commit_sources k ?doc (pc_stock_ledger_entries k) (outstanding_docs k d2))) d2 = (Inr vs, e')
      \<and> only_log ?c d2 e' \<and> same_log x ?c (commit_apply x now k s) e'"
    by (rule append_log_sim [OF sim(5) assms(2) refl _ _ _ _ ids assms(5)]) (simp_all add: w(1) written_def d1)
  then show ?thesis using that [OF w(1-3)] by blast
qed

lemma effects_sim:
  assumes "books_sim x (pc_company k) s d" "commit_fits s k" "float_ok p" "commit_checks s k = Inr ()"
    and "length (mutations s (pc_company k)) + length (commit_records x now s k) \<le> max_log"
    and "db_commit_effects p x now k d = (Inr response, t)"
  shows "response = numbered_response s k \<and> books_sim x (pc_company k) (commit_apply x now k s) t"
proof -
  let ?c = "pc_company k" and ?doc = "numbered_document s k"
  note sim = books_simD [OF assms(1)] and checks = checks_passed [OF assms(4)]
  obtain d1 d2 d3 document vs where st: "db_numbered k d = (Inr (document, response), d1)" "db_write_tables p k document d1 = (Inr (), d2)"
    "db_append_mutations x now ?c (replication_mutations x now (commit_sources k document (pc_stock_ledger_entries k) (outstanding_docs k d2))) d2 = (Inr vs, d3)"
    "t = d3\<lparr>t_posting_batches := t_posting_batches d3 @ [pc_batch k], t_audit_log := t_audit_log d3 @ [pc_audit k],
       t_idempotency_keys := t_idempotency_keys d3 @ keyed_rows k response\<rparr>"
    "(?c, pb_id (pc_batch k)) \<notin> (\<lambda>r. (pb_company r, pb_id r)) ` set (t_posting_batches d3)"
    "fst ` set (keyed_rows k response) \<inter> fst ` set (t_idempotency_keys d3) = {}"
    by (rule effects_steps [OF assms(6,2)])
  note num = numbered_sim [OF sim(3) st(1)]
  obtain rows where rows: "d1 = d\<lparr>t_numbering_series := rows\<rparr>" "\<forall>key. value_in rows (?c, key) =
      (case pc_series_key k of Some key' \<Rightarrow> (series s)((?c, key') := next_value s k key') | None \<Rightarrow> series s) (?c, key)"
    using num(3) by blast
  obtain docs bs where w: "d2 = written k d1 docs bs" "docs_sim ?c (fst (commit_documents s k)) docs"
    "\<forall>i w. find (\<lambda>b. bin_key b = (?c, i, w)) bs = map_of (insert_bins ?c (pc_bins k) (bins s)) (?c, i, w)"
    and d3: "only_log ?c d2 d3" "same_log x ?c (commit_apply x now k s) d3"
    using log_after_tables [OF assms(1-5) rows(1) st(2) [unfolded num(1)]] st(3) [unfolded num(1)] by (metis Pair_inject)
  from d3(1) obtain ms cs ps where d3': "d3 = d2\<lparr>t_mutations := ms, t_sync_counters := cs, t_company_documents := ps\<rparr>" by (auto simp: only_log_def)
  have "same_log x ?c (commit_apply x now k s) t"
    using d3(2) log_sim_frame [of t d3 x ?c] unfolding same_log_def by (simp add: st(4))
  moreover have "docs_sim ?c (documents (commit_apply x now k s)) (t_documents t)"
    using w(2) by (simp add: st(4) d3' w(1) written_def)
  moreover have "ledgers_sim ?c (commit_apply x now k s) t"
    by (rule ledgers_after [OF sim(2) assms(2)]) (simp_all add: st(4) d3' w(1) written_def rows(1))
  moreover have "identities_ok t"
    by (rule identities_after [OF sim(6)]) (simp_all add: st(4) d3' w(1) written_def rows(1))
  moreover have "lookups_sim ?c (commit_apply x now k s) t"
    by (rule lookups_after [OF sim(3) assms(2) checks(3) rows(2)])
      (use w(3) st(5,6) num(2) in \<open>simp_all add: st(4) d3' w(1) written_def rows(1)\<close>)
  moreover have "audit (commit_apply x now k s) = t_audit_log t" using sim(4) by (simp add: st(4) d3' w(1) written_def rows(1))
  ultimately show ?thesis using num(2) by (simp add: books_sim_def)
qed

lemma books_sim_identity:
  assumes "books_sim x c s d" "t_sle_identity d \<le> n"
  shows "books_sim x c s (d\<lparr>t_sle_identity := n\<rparr>)"
proof -
  have "log_sim x c s0 (d\<lparr>t_sle_identity := n\<rparr>) = log_sim x c s0 d" for s0 by (rule log_sim_frame) simp_all
  then show ?thesis
    using assms by (auto simp: books_sim_def ledgers_sim_def lookups_sim_def series_of_def settings_row_def same_log_def identities_ok_def)
qed

text \<open>No statement takes an identity back.\<close>

definition grows :: "'a dbm \<Rightarrow> bool" where
  "grows m \<longleftrightarrow> (\<forall>s. t_sle_identity s \<le> t_sle_identity (snd (m s)))"

lemma grows_simps [simp]: "grows (yields a)" "grows (query f)" "grows (from_result h)"
  by (simp_all add: grows_def yields_def query_def from_result_def)

lemma grows_execute [intro!]: "(\<And>s t. g s = Some t \<Longrightarrow> t_sle_identity s \<le> t_sle_identity t) \<Longrightarrow> grows (execute g)"
  by (simp add: grows_def execute_def split: option.split)

lemma grows_insert [intro!]: "(\<And>rows s. t_sle_identity (put rows s) = t_sle_identity s) \<Longrightarrow> grows (insert_into get put key ok r)"
  unfolding insert_into_def by (rule grows_execute) auto

lemma grows_run [intro!]: "grows m \<Longrightarrow> (\<And>a. grows (f a)) \<Longrightarrow> grows (and_run m f)"
  unfolding grows_def and_run_def by (simp split: prod.split sum.split) (metis order_trans snd_conv)

lemma grows_each [intro!]: "(\<And>a. grows (f a)) \<Longrightarrow> grows (for_each f as)"
  by (induction as) auto

lemma grows_link: "grows (link_rows x c rows tip)"
  by (induction rows arbitrary: tip) (auto simp: Let_def set_chain_hash_def)

lemma grows_projection: "grows (db_apply_projection x now c r)"
  by (auto simp: db_apply_projection_def split: projection_action.split)

lemma grows_append_rows: "grows (append_rows x now c ms head tip)"
proof (induction ms arbitrary: head tip)
  case (Cons m ms)
  then show ?case by (auto simp: Let_def insert_mutation_def case_prod_beta grows_projection split: option.split)
qed auto

lemma grows_append: "grows (db_append_mutations x now c ms)"
proof -
  have "grows (db_chain_tip x c head)" for head
    by (auto simp: db_chain_tip_def counter_row_of_def set_last_hash_def case_prod_beta grows_link)
  then show ?thesis
    by (auto simp: db_append_mutations_def ensure_counter_def counter_row_of_def set_counter_def case_prod_beta grows_append_rows)
qed

lemma grows_effects: "grows (db_commit_effects p x now k)"
proof -
  have "grows (db_numbered k)"
    by (auto simp: db_numbered_def db_next_value_def Let_def split: option.split if_splits)
  moreover have "grows (write_outstanding p c u)" for c u
    by (auto simp: write_outstanding_def Let_def split: prod.split if_splits)
  moreover have "grows (db_write_document k document)" for document
    by (auto simp: db_write_document_def Let_def split: if_splits)
  ultimately have "grows (db_write_tables p k document)" for document
    by (auto simp: db_write_tables_def raise_floor_def insert_solo_mark_def insert_gl_def insert_sle_def
        insert_party_def insert_tax_def insert_settlement_def write_bin_def Let_def split: option.split if_splits)
  with \<open>grows (db_numbered k)\<close> show ?thesis
    by (auto simp: db_commit_effects_def Let_def case_prod_beta grows_append insert_batch_def insert_audit_def insert_idempotency_def
        split: option.split)
qed

text \<open>C36. The posting transaction of PostgreSQL refines the commit of the memory store. On related books, and for a commit of
  the shape the engine builds, it either gives the answer of the memory store, be it a replay, a refusal or a posting, and leaves related
  books; or a constraint of the schema failed, and then the answer is an internal error and no table changed.\<close>

theorem pg_commit_refines:
  assumes "books_sim x (pc_company k) s d" "commit_fits s k" "float_ok p"
    and "length (mutations s (pc_company k)) + length (commit_records x now s k) \<le> max_log"
    and "db_posting_commit p x now k d = (answer, d')" "posting_commit x now k s = (answer', s')"
  shows "answer = answer' \<and> books_sim x (pc_company k) s' d'
    \<or> answer = Inl Internal \<and> d' = d\<lparr>t_sle_identity := t_sle_identity d'\<rparr> \<and> books_sim x (pc_company k) s d'"
proof -
  let ?c = "pc_company k"
  have replay: "db_replayed d k = replayed_response s k"
    using books_simD(3) [OF assms(1)] by (cases "pc_idempotency_key k") (simp_all add: db_replayed_def replayed_response_def lookups_sim_def)
  have checks: "db_commit_checks p d k = commit_checks s k" by (rule commit_checks_sim [OF assms(1)])
  show ?thesis
  proof (cases rule: posting_commit_cases [of s k x now])
    case (replay r)
    then show ?thesis
      using assms(1,5,6) \<open>db_replayed d k = replayed_response s k\<close> by (auto simp: db_posting_commit_def transaction_def and_run_def query_def yields_def)
  next
    case (refuse e)
    then show ?thesis
      using assms(1,5,6) replay checks by (auto simp: db_posting_commit_def transaction_def and_run_def query_def from_result_def)
  next
    case post
    obtain r t where eff: "db_commit_effects p x now k d = (r, t)" by fastforce
    show ?thesis
    proof (cases r)
      case (Inl e)
      then have "e = Internal" using only_internal_effects [of p x now k] eff by (auto simp: only_internal_def)
      moreover have "t_sle_identity d \<le> t_sle_identity t" using grows_effects [of p x now k] eff unfolding grows_def by (metis snd_conv)
      ultimately show ?thesis
        using assms(1,5) replay checks post eff Inl books_sim_identity [OF assms(1)]
        by (auto simp: db_posting_commit_def transaction_def and_run_def query_def from_result_def)
    next
      case (Inr response)
      then show ?thesis
        using assms(5,6) replay checks post eff effects_sim [OF assms(1,2,3) post(2) assms(4), of response t]
        by (auto simp: db_posting_commit_def transaction_def and_run_def query_def from_result_def yields_def)
    qed
  qed
qed

end
