(* ===== verification/Pg_Commit_Admits.thy ===== *)
theory Pg_Commit_Admits
  imports Pg_Commit_Refines
begin

text \<open>
  When the schema lets a commit through: \<open>admits\<close> names the keys that have to be free, the references
  that have to exist and the checks on columns. An admitted commit is answered as the memory store
  answers it, so the internal error of the refinement theorem comes from those constraints alone.
\<close>

section \<open>Statements that go through\<close>

lemma insert_into_ok:
  "ok s r \<Longrightarrow> key r \<notin> key ` set (get s) \<Longrightarrow> insert_into get put key ok r s = (Inr (), put (get s @ [r]) s)"
  by (simp add: insert_into_def execute_def insert_row_def)

lemma for_each_ok:
  assumes "\<And>e s. company_exists s c \<Longrightarrow> key (g e) \<notin> key ` set (get s) \<Longrightarrow>
      \<exists>t r. f e s = (Inr (), t) \<and> company_exists t c \<and> get t = get s @ [r] \<and> key r = key (g e)"
  shows "company_exists s c \<Longrightarrow> distinct (map (\<lambda>e. key (g e)) es) \<Longrightarrow> (\<forall>e \<in> set es. key (g e) \<notin> key ` set (get s)) \<Longrightarrow>
    \<exists>t. for_each f es s = (Inr (), t)"
proof (induction es arbitrary: s)
  case Nil
  then show ?case by (simp add: yields_def)
next
  case (Cons e es)
  obtain t r where t: "f e s = (Inr (), t)" "company_exists t c" "get t = get s @ [r]" "key r = key (g e)"
    using assms [of s e] Cons.prems by auto
  have "\<exists>u. for_each f es t = (Inr (), u)"
  proof (rule Cons.IH)
    show "\<forall>e' \<in> set es. key (g e') \<notin> key ` set (get t)" using Cons.prems(2,3) t(3,4) by (auto simp: image_iff)
  qed (use Cons.prems t in simp_all)
  then show ?case using t(1) by (auto simp: and_run_Inr)
qed

lemma company_exists_frame [simp]:
  "company_exists (s\<lparr>t_gl_entries := v1\<rparr>) c = company_exists s c" "company_exists (s\<lparr>t_stock_ledger := v2\<rparr>) c = company_exists s c"
  "company_exists (s\<lparr>t_party_transactions := v3\<rparr>) c = company_exists s c" "company_exists (s\<lparr>t_tax_transactions := v4\<rparr>) c = company_exists s c"
  "company_exists (s\<lparr>t_settlements := v5\<rparr>) c = company_exists s c" "company_exists (s\<lparr>t_sle_identity := v6\<rparr>) c = company_exists s c"
  "company_exists (s\<lparr>t_bins := v7\<rparr>) c = company_exists s c" "company_exists (s\<lparr>t_documents := v8\<rparr>) c = company_exists s c"
  "company_exists (s\<lparr>t_numbering_series := v9\<rparr>) c = company_exists s c" "company_exists (s\<lparr>t_solo_migrations := v10\<rparr>) c = company_exists s c"
  by (simp_all add: company_exists_def)

text \<open>The keys of new rows are new, and differ.\<close>

definition fresh_keys :: "('r \<Rightarrow> uuid \<times> string) \<Rightarrow> 'r list \<Rightarrow> (uuid \<times> string) list \<Rightarrow> bool" where
  "fresh_keys key rows ks \<longleftrightarrow> distinct ks \<and> set ks \<inter> key ` set rows = {}"

lemma fresh_keysD:
  assumes "fresh_keys key rows (map (\<lambda>e. (c, i e)) es)" "\<And>e. key (g e) = (c, i e)"
  shows "distinct (map (\<lambda>e. key (g e)) es)" "\<forall>e \<in> set es. key (g e) \<notin> key ` set rows"
  using assms(1) by (auto simp: fresh_keys_def assms(2))

lemma gls_ok:
  assumes "company_exists s c" "fresh_keys (\<lambda>r. (gl_company r, gl_id r)) (t_gl_entries s) (map (\<lambda>e. (c, gl_id e)) es)"
  shows "\<exists>t. for_each (insert_gl c) es s = (Inr (), t)"
proof (rule for_each_ok [where key = "\<lambda>r. (gl_company r, gl_id r)" and g = "\<lambda>e. e\<lparr>gl_company := c\<rparr>" and get = t_gl_entries])
  show "company_exists s c" by (rule assms(1))
qed (use fresh_keysD [OF assms(2), of "\<lambda>e. e\<lparr>gl_company := c\<rparr>"] in \<open>auto simp: insert_gl_def insert_into_ok\<close>)

lemma parties_ok:
  assumes "company_exists s c" "fresh_keys (\<lambda>r. (pt_company r, pt_id r)) (t_party_transactions s) (map (\<lambda>e. (c, pt_id e)) es)"
  shows "\<exists>t. for_each (insert_party c) es s = (Inr (), t)"
proof (rule for_each_ok [where key = "\<lambda>r. (pt_company r, pt_id r)" and g = "\<lambda>e. e\<lparr>pt_company := c\<rparr>" and get = t_party_transactions])
  show "company_exists s c" by (rule assms(1))
qed (use fresh_keysD [OF assms(2), of "\<lambda>e. e\<lparr>pt_company := c\<rparr>"] in \<open>auto simp: insert_party_def insert_into_ok\<close>)

lemma taxes_ok:
  assumes "company_exists s c" "fresh_keys (\<lambda>r. (tt_company r, tt_id r)) (t_tax_transactions s) (map (\<lambda>e. (c, tt_id e)) es)"
  shows "\<exists>t. for_each (insert_tax c) es s = (Inr (), t)"
proof (rule for_each_ok [where key = "\<lambda>r. (tt_company r, tt_id r)" and g = "\<lambda>e. e\<lparr>tt_company := c\<rparr>" and get = t_tax_transactions])
  show "company_exists s c" by (rule assms(1))
qed (use fresh_keysD [OF assms(2), of "\<lambda>e. e\<lparr>tt_company := c\<rparr>"] in \<open>auto simp: insert_tax_def insert_into_ok\<close>)

lemma settlements_ok:
  assumes "company_exists s c" "fresh_keys (\<lambda>r. (st_company r, st_id r)) (t_settlements s) (map (\<lambda>e. (c, st_id e)) es)"
  shows "\<exists>t. for_each (insert_settlement c) es s = (Inr (), t)"
proof (rule for_each_ok [where key = "\<lambda>r. (st_company r, st_id r)" and g = "\<lambda>e. e\<lparr>st_company := c\<rparr>" and get = t_settlements])
  show "company_exists s c" by (rule assms(1))
qed (use fresh_keysD [OF assms(2), of "\<lambda>e. e\<lparr>st_company := c\<rparr>"] in \<open>auto simp: insert_settlement_def insert_into_ok\<close>)

lemma sles_ok:
  assumes "company_exists s c" "fresh_keys (\<lambda>r. (sle_company r, sle_id r)) (t_stock_ledger s) (map (\<lambda>e. (c, sle_id e)) es)"
  shows "\<exists>t. for_each (insert_sle c) es s = (Inr (), t)"
proof (rule for_each_ok [where key = "\<lambda>r. (sle_company r, sle_id r)" and g = "\<lambda>e. e\<lparr>sle_company := c\<rparr>" and get = t_stock_ledger])
  show "company_exists s c" by (rule assms(1))
qed (use fresh_keysD [OF assms(2), of "\<lambda>e. e\<lparr>sle_company := c\<rparr>"] in
    \<open>auto simp: insert_sle_def and_run_def execute_def query_def insert_into_def insert_row_def\<close>)

lemma floors_ok: "company_exists s c \<Longrightarrow> \<exists>t. for_each (raise_floor c) fs s = (Inr (), t)"
  by (induction fs arbitrary: s) (auto simp: yields_def and_run_def raise_floor_def execute_def)

lemma bins_ok: "company_exists s c \<Longrightarrow> \<exists>t. for_each (write_bin c) bs s = (Inr (), t)"
  by (induction bs arbitrary: s) (auto simp: yields_def and_run_def write_bin_def execute_def insert_or_update_def)

lemma outstandings_ok:
  "(\<forall>u \<in> set us. \<forall>r \<in> set (t_documents s). pd_key r = (c, fst u, fst (snd u)) \<longrightarrow> is_object (pd_payload r)) \<Longrightarrow>
    \<exists>t. for_each (write_outstanding p c) us s = (Inr (), t)"
proof (induction us arbitrary: s)
  case Nil
  then show ?case by (simp add: yields_def)
next
  case (Cons u us)
  obtain dt i v where u: "u = (dt, i, v)" by (cases u)
  let ?set = "\<lambda>r. jsonb_set (pd_payload r) OUTSTANDING (pg_float p v)"
  let ?f = "\<lambda>r. r\<lparr>pd_payload := the (?set r)\<rparr>"
  let ?t = "s\<lparr>t_documents := update_where (\<lambda>r. pd_key r = (c, dt, i)) ?f (t_documents s)\<rparr>"
  have set: "\<exists>m. ?set r = Some (JObj m)" if "is_object (pd_payload r)" for r
    using that by (auto simp: is_object_JObj jsonb_set_def)
  have "\<forall>r \<in> set (t_documents s). pd_key r = (c, dt, i) \<longrightarrow> ?set r \<noteq> None" using Cons.prems u set by fastforce
  then have step: "write_outstanding p c u s = (Inr (), ?t)"
    by (auto simp: u write_outstanding_def execute_def Let_def list_ex_iff OUTSTANDING_def)
  have "is_object (pd_payload (?f r))" if "is_object (pd_payload r)" for r using set [OF that] by (auto simp: is_object_JObj)
  moreover have "pd_key (?f r) = pd_key r" for r by (simp add: pd_key_def)
  ultimately have "\<exists>w. for_each (write_outstanding p c) us ?t = (Inr (), w)"
    using Cons.prems u by (intro Cons.IH) (fastforce simp: update_where_def)
  then show ?case using step by (auto simp: and_run_def)
qed

lemma next_value_ok:
  assumes "company_exists d c" "series_of d c key < i64_max"
  shows "\<exists>v t. db_next_value c key d = (Inr v, t)"
proof -
  let ?rows = "if (c, key) \<in> fst ` set (t_numbering_series d) then t_numbering_series d else t_numbering_series d @ [((c, key), 0)]"
  obtain v where v: "map_of ?rows (c, key) = Some v" by (cases "map_of ?rows (c, key)") (auto simp: map_of_eq_None_iff split: if_splits)
  moreover have "v = series_of d c key"
    using v by (auto simp: series_of_def map_add_def split: if_splits option.splits dest: map_of_SomeD)
  ultimately show ?thesis
    using assms v by (cases "(c, key) \<in> fst ` set (t_numbering_series d)")
      (simp_all add: db_next_value_def and_run_def execute_def insert_or_keep_def from_result_def ok_or_def yields_def)
qed

section \<open>Admitted commits\<close>

definition admits :: "inner \<Rightarrow> db \<Rightarrow> posting_commit_rec \<Rightarrow> bool" where
  "admits s d k \<longleftrightarrow> (let c = pc_company k; document = numbered_document s k in
     (\<forall>key. pc_series_key k = Some key \<longrightarrow> series_of d c key < i64_max)
   \<and> pd_docstatus document \<in> {1, 2} \<and> pb_kind (pc_batch k) \<in> {''submit'', ''cancel''}
   \<and> (pc_document_is_new k \<longrightarrow> pd_official_number document = None \<or> number_key document \<notin> number_key ` set (t_documents d))
   \<and> fresh_keys (\<lambda>r. (gl_company r, gl_id r)) (t_gl_entries d) (map (\<lambda>e. (c, gl_id e)) (pc_gl_entries k))
   \<and> fresh_keys (\<lambda>r. (sle_company r, sle_id r)) (t_stock_ledger d) (map (\<lambda>e. (c, sle_id e)) (pc_stock_ledger_entries k))
   \<and> fresh_keys (\<lambda>r. (pt_company r, pt_id r)) (t_party_transactions d) (map (\<lambda>e. (c, pt_id e)) (pc_party_transactions k))
   \<and> fresh_keys (\<lambda>r. (tt_company r, tt_id r)) (t_tax_transactions d) (map (\<lambda>e. (c, tt_id e)) (pc_tax_transactions k))
   \<and> fresh_keys (\<lambda>r. (st_company r, st_id r)) (t_settlements d) (map (\<lambda>e. (c, st_id e)) (pc_settlements k))
   \<and> is_object (pd_payload document)
   \<and> (\<forall>u \<in> set (pc_outstanding_updates k). \<forall>r \<in> set (t_documents d). pd_key r = (c, fst u, fst (snd u)) \<longrightarrow> is_object (pd_payload r))
   \<and> fresh_keys (\<lambda>r. (pb_company r, pb_id r)) (t_posting_batches d) [(c, pb_id (pc_batch k))]
   \<and> au_id (pc_audit k) \<notin> au_id ` set (t_audit_log d) \<and> company_exists d (au_company (pc_audit k))
   \<and> opt_ref (user_exists d) (au_user (pc_audit k)) \<and> opt_ref (device_exists d) (au_device (pc_audit k)))"

lemma numbered_ok:
  assumes "company_exists d (pc_company k)" "\<forall>key. pc_series_key k = Some key \<longrightarrow> series_of d (pc_company k) key < i64_max"
  shows "\<exists>document response t. db_numbered k d = (Inr (document, response), t)"
proof (cases "pc_series_key k")
  case None
  then show ?thesis by (cases "pc_preassigned_number k") (simp_all add: db_numbered_def yields_def Let_def)
next
  case (Some key)
  then obtain v t where "db_next_value (pc_company k) key d = (Inr v, t)" using next_value_ok assms by blast
  then show ?thesis using Some by (auto simp: db_numbered_def and_run_def yields_def Let_def split: option.split)
qed

lemma write_document_ok:
  assumes "existence_check s k = Inr ()" "commit_fits s k" "docs_sim (pc_company k) (documents s) (t_documents d)" "company_exists d (pc_company k)"
    and "pd_docstatus (numbered_document s k) \<in> {1, 2}"
    and "pc_document_is_new k \<longrightarrow> pd_official_number (numbered_document s k) = None
      \<or> number_key (numbered_document s k) \<notin> number_key ` set (t_documents d)"
  shows "\<exists>t. db_write_document k (numbered_document s k) d = (Inr (), t)"
proof (cases "pc_document_is_new k")
  case True
  let ?doc = "numbered_document s k"
  have doc: "pd_company ?doc = pc_company k" "pd_key ?doc = doc_key_of k" "?doc\<lparr>pd_company := pc_company k\<rparr> = ?doc"
    using assms(2) by (auto simp: commit_fits_def Let_def numbered_document_def pd_key_def doc_key_of_def split: option.split)
  have "map_of (documents s) (doc_key_of k) = None" using assms(1) True by (simp add: existence_check_def Let_def ensure_def split: if_splits)
  then have "doc_key_of k \<notin> fst ` set (docs_of (documents s) (pc_company k))"
    unfolding doc_key_of_def map_of_docs [of "documents s"] by (simp add: map_of_eq_None_iff)
  then have "doc_key_of k \<notin> pd_key ` set (t_documents d)" using docs_sim_keys [OF assms(3)] unfolding doc_key_of_def by blast
  moreover have "document_ok d ?doc" using True assms(4,5,6) doc(1) by (simp add: document_ok_def)
  ultimately have "insert_into t_documents (\<lambda>rows. t_documents_update (\<lambda>_. rows)) pd_key document_ok ?doc d =
      (Inr (), d\<lparr>t_documents := t_documents d @ [?doc]\<rparr>)"
    by (intro insert_into_ok) (simp_all add: doc(2))
  then show ?thesis using True by (simp add: db_write_document_def Let_def doc(3))
next
  case False
  then show ?thesis using assms(5) by (auto simp: db_write_document_def Let_def execute_def)
qed

lemma written_payloads:
  assumes "db_write_document k document g = (Inr (), h)" "r \<in> set (t_documents h)"
  shows "r \<in> set (t_documents g) \<or> pd_payload r = pd_payload document"
proof (cases "pc_document_is_new k")
  case True
  then have "h = g\<lparr>t_documents := t_documents g @ [document\<lparr>pd_company := pc_company k\<rparr>]\<rparr>"
    using assms(1) by (simp add: db_write_document_def Let_def insert_into_Inr)
  then show ?thesis using assms(2) by auto
next
  case False
  let ?f = "\<lambda>r. r\<lparr>pd_payload := pd_payload document, pd_docstatus := pd_docstatus document\<rparr>"
  obtain P where "h = g\<lparr>t_documents := update_where P ?f (t_documents g)\<rparr>"
    using assms(1) False by (auto simp: db_write_document_def Let_def execute_Inr split: if_splits)
  then show ?thesis using assms(2) by (auto simp: update_where_def)
qed

lemma write_tables_ok:
  assumes "books_sim x (pc_company k) s d0" "d = d0\<lparr>t_numbering_series := rows\<rparr>" "commit_fits s k" "commit_checks s k = Inr ()" "admits s d0 k"
  shows "\<exists>t. db_write_tables p k (numbered_document s k) d = (Inr (), t)"
proof -
  let ?c = "pc_company k" and ?doc = "numbered_document s k"
  note sim = books_simD [OF assms(1)] and checks = checks_passed [OF assms(4)]
  have adm: "pd_docstatus ?doc \<in> {1, 2}" "is_object (pd_payload ?doc)"
    "pc_document_is_new k \<longrightarrow> pd_official_number ?doc = None \<or> number_key ?doc \<notin> number_key ` set (t_documents d0)"
    "\<forall>u \<in> set (pc_outstanding_updates k). \<forall>r \<in> set (t_documents d0). pd_key r = (?c, fst u, fst (snd u)) \<longrightarrow> is_object (pd_payload r)"
    "fresh_keys (\<lambda>r. (gl_company r, gl_id r)) (t_gl_entries d0) (map (\<lambda>e. (?c, gl_id e)) (pc_gl_entries k))"
    "fresh_keys (\<lambda>r. (sle_company r, sle_id r)) (t_stock_ledger d0) (map (\<lambda>e. (?c, sle_id e)) (pc_stock_ledger_entries k))"
    "fresh_keys (\<lambda>r. (pt_company r, pt_id r)) (t_party_transactions d0) (map (\<lambda>e. (?c, pt_id e)) (pc_party_transactions k))"
    "fresh_keys (\<lambda>r. (tt_company r, tt_id r)) (t_tax_transactions d0) (map (\<lambda>e. (?c, tt_id e)) (pc_tax_transactions k))"
    "fresh_keys (\<lambda>r. (st_company r, st_id r)) (t_settlements d0) (map (\<lambda>e. (?c, st_id e)) (pc_settlements k))"
    using assms(5) by (simp_all add: admits_def Let_def)
  have c: "company_exists d ?c" using sim(7) assms(2) by simp
  obtain f where f: "for_each (raise_floor ?c) (pc_numbering_floors k) d = (Inr (), f)" using floors_ok [OF c] by blast
  note f' = raise_floors_rows [OF f]
  obtain g where g: "insert_solo_mark k f = (Inr (), g)"
  proof (cases "pc_solo_migration k")
    case None
    then show ?thesis using that by (simp add: insert_solo_mark_def yields_def)
  next
    case (Some mark)
    then have "solo_migrations s ?c = None" using checks(3) by (auto simp: solo_check_def split: option.splits)
    then have "find (\<lambda>r. fst r = ?c) (t_solo_migrations d0) = None" using sim(3) by (simp add: lookups_sim_def)
    then have "?c \<notin> fst ` set (t_solo_migrations f)" by (auto simp: find_None_iff f' assms(2))
    then show ?thesis using that Some c by (simp add: insert_solo_mark_def insert_into_ok f')
  qed
  note g' = insert_solo_rows [OF g, unfolded f']
  have gd: "t_documents g = t_documents d0" "company_exists g ?c" using c by (simp_all add: g' assms(2))
  obtain h where h: "db_write_document k ?doc g = (Inr (), h)"
    using write_document_ok [OF checks(5) assms(3), of g] sim(1) adm(1,3) gd by auto
  have hd: "docs_sim ?c (documents s) (t_documents g)" using sim(1) gd(1) by simp
  obtain ds where h': "h = g\<lparr>t_documents := ds\<rparr>" using write_document_sim [OF hd checks(5) assms(3) h] by blast
  have obj: "\<forall>u \<in> set (pc_outstanding_updates k). \<forall>r \<in> set ds. pd_key r = (?c, fst u, fst (snd u)) \<longrightarrow> is_object (pd_payload r)"
    using written_payloads [OF h] adm(2,4) gd(1) h' by fastforce
  have hc: "company_exists h ?c" using gd(2) h' by simp
  obtain e1 where e1: "for_each (insert_gl ?c) (pc_gl_entries k) h = (Inr (), e1)"
    using gls_ok [OF hc, of "pc_gl_entries k"] adm(5) by (auto simp: h' g' assms(2))
  note e1' = insert_gls [OF e1]
  obtain e2 where e2: "for_each (insert_sle ?c) (pc_stock_ledger_entries k) e1 = (Inr (), e2)"
    using sles_ok [of e1 ?c "pc_stock_ledger_entries k"] adm(6) hc by (auto simp: e1' h' g' assms(2))
  note e2' = insert_sles [OF e2]
  obtain e3 where e3: "for_each (insert_party ?c) (pc_party_transactions k) e2 = (Inr (), e3)"
    using parties_ok [of e2 ?c "pc_party_transactions k"] adm(7) hc by (auto simp: e2' e1' h' g' assms(2))
  note e3' = insert_parties [OF e3]
  obtain e4 where e4: "for_each (insert_tax ?c) (pc_tax_transactions k) e3 = (Inr (), e4)"
    using taxes_ok [of e3 ?c "pc_tax_transactions k"] adm(8) hc by (auto simp: e3' e2' e1' h' g' assms(2))
  note e4' = insert_taxes [OF e4]
  obtain e5 where e5: "for_each (insert_settlement ?c) (pc_settlements k) e4 = (Inr (), e5)"
    using settlements_ok [of e4 ?c "pc_settlements k"] adm(9) hc by (auto simp: e4' e3' e2' e1' h' g' assms(2))
  note e5' = insert_settlements [OF e5]
  obtain e6 where e6: "for_each (write_bin ?c) (pc_bins k) e5 = (Inr (), e6)"
    using bins_ok [of e5 ?c "pc_bins k"] hc by (auto simp: e5' e4' e3' e2' e1')
  have "t_documents e6 = ds"
    using write_bins_rows [OF e6, of "map (\<lambda>b. (bin_key b, b)) (t_bins e5)"] assms(3)
    by (auto simp: commit_fits_def Let_def map_of_find comp_def e5' e4' e3' e2' e1' h' option.map_ident)
  then obtain t where "for_each (write_outstanding p ?c) (pc_outstanding_updates k) e6 = (Inr (), t)" using outstandings_ok obj by metis
  then show ?thesis using f g h e1 e2 e3 e4 e5 e6 by (simp add: db_write_tables_def and_run_def Let_def)
qed

lemma effects_ok:
  assumes "books_sim x (pc_company k) s d" "commit_fits s k" "float_ok p" "commit_checks s k = Inr ()" "replayed_response s k = None"
    and "length (mutations s (pc_company k)) + length (commit_records x now s k) \<le> max_log" "admits s d k"
  shows "\<exists>response t. db_commit_effects p x now k d = (Inr response, t)"
proof -
  let ?c = "pc_company k"
  note sim = books_simD [OF assms(1)]
  have adm: "\<forall>key. pc_series_key k = Some key \<longrightarrow> series_of d ?c key < i64_max" "pb_kind (pc_batch k) \<in> {''submit'', ''cancel''}"
    "(?c, pb_id (pc_batch k)) \<notin> (\<lambda>r. (pb_company r, pb_id r)) ` set (t_posting_batches d)"
    "au_id (pc_audit k) \<notin> au_id ` set (t_audit_log d)" "company_exists d (au_company (pc_audit k))"
    "opt_ref (user_exists d) (au_user (pc_audit k))" "opt_ref (device_exists d) (au_device (pc_audit k))"
    using assms(7) by (simp_all add: admits_def Let_def fresh_keys_def)
  obtain document response d1 where n: "db_numbered k d = (Inr (document, response), d1)" using numbered_ok [OF sim(7) adm(1)] by blast
  note num = numbered_sim [OF sim(3) n]
  obtain rows where d1: "d1 = d\<lparr>t_numbering_series := rows\<rparr>" using num(3) by blast
  obtain d2 where w: "db_write_tables p k (numbered_document s k) d1 = (Inr (), d2)"
    using write_tables_ok [OF assms(1) d1 assms(2,4,7)] by blast
  obtain docs bs vs d3 where d2: "d2 = written k d1 docs bs"
    and log: "db_append_mutations x now ?c
      (replication_mutations x now (commit_sources k (numbered_document s k) (pc_stock_ledger_entries k) (outstanding_docs k d2))) d2 = (Inr vs, d3)"
    and only: "only_log ?c d2 d3"
    by (rule log_after_tables [OF assms(1-4,6) d1 w])
  from only obtain ms cs ps where "d3 = d2\<lparr>t_mutations := ms, t_sync_counters := cs, t_company_documents := ps\<rparr>" by (auto simp: only_log_def)
  then have same: "t_posting_batches d3 = t_posting_batches d" "t_audit_log d3 = t_audit_log d" "t_companies d3 = t_companies d"
    "t_users d3 = t_users d" "t_devices d3 = t_devices d" "t_idempotency_keys d3 = t_idempotency_keys d"
    by (simp_all add: d2 written_def d1)
  let ?d4 = "d3\<lparr>t_posting_batches := t_posting_batches d3 @ [(pc_batch k)\<lparr>pb_company := ?c\<rparr>]\<rparr>"
  have d4: "insert_batch k d3 = (Inr (), ?d4)"
    unfolding insert_batch_def using adm(2,3) sim(7) by (subst insert_into_ok) (simp_all add: same company_exists_def)
  let ?d5 = "?d4\<lparr>t_audit_log := t_audit_log d3 @ [pc_audit k]\<rparr>"
  have d5: "insert_audit (pc_audit k) ?d4 = (Inr (), ?d5)"
    unfolding insert_audit_def using adm(4-7)
    by (subst insert_into_ok) (auto simp: same company_exists_def user_exists_def device_exists_def opt_ref_def split: option.splits)
  have "\<exists>t. insert_idempotency k response ?d5 = (Inr (), t)"
  proof (cases "pc_idempotency_key k")
    case None
    then show ?thesis by (simp add: insert_idempotency_def yields_def)
  next
    case (Some key)
    then have "map_of (t_idempotency_keys d) (?c, key) = None"
      using assms(5) sim(3) by (simp add: replayed_response_def lookups_sim_def)
    then have "(?c, key) \<notin> fst ` set (t_idempotency_keys ?d5)" by (simp add: map_of_eq_None_iff same)
    then show ?thesis using Some sim(7) by (simp add: insert_idempotency_def insert_into_ok same company_exists_def)
  qed
  then show ?thesis
    using n w log d4 d5 by (auto simp: db_commit_effects_def and_run_def query_def yields_def Let_def num(1))
qed

text \<open>C37. A commit that the schema admits posts on PostgreSQL as it does in memory: with the keys of its rows free, its references
  present and its number not taken, the transaction gives the answer of the memory store, never an internal error, and
  leaves related books.\<close>

theorem pg_commit_admitted:
  assumes "books_sim x (pc_company k) s d" "commit_fits s k" "float_ok p" "admits s d k"
    and "length (mutations s (pc_company k)) + length (commit_records x now s k) \<le> max_log"
  shows "fst (db_posting_commit p x now k d) = fst (posting_commit x now k s)
    \<and> books_sim x (pc_company k) (snd (posting_commit x now k s)) (snd (db_posting_commit p x now k d))"
proof -
  have replay: "db_replayed d k = replayed_response s k"
    using books_simD(3) [OF assms(1)] by (cases "pc_idempotency_key k") (simp_all add: db_replayed_def replayed_response_def lookups_sim_def)
  have checks: "db_commit_checks p d k = commit_checks s k" by (rule commit_checks_sim [OF assms(1)])
  show ?thesis
  proof (cases rule: posting_commit_cases [of s k x now])
    case (replay r)
    then show ?thesis
      using assms(1) \<open>db_replayed d k = replayed_response s k\<close> by (simp add: db_posting_commit_def transaction_def and_run_def query_def yields_def)
  next
    case (refuse e)
    then show ?thesis
      using assms(1) replay checks by (simp add: db_posting_commit_def transaction_def and_run_def query_def from_result_def)
  next
    case post
    obtain response t where eff: "db_commit_effects p x now k d = (Inr response, t)"
      using effects_ok [OF assms(1,2,3) post(2,1) assms(5,4)] by blast
    then show ?thesis
      using replay checks post effects_sim [OF assms(1,2,3) post(2) assms(5) eff]
      by (simp add: db_posting_commit_def transaction_def and_run_def query_def from_result_def yields_def)
  qed
qed

text \<open>C40. When the number a series would issue next is already the number of another document of the doctype, say a till receipt
  named like it, the unique index of migration 0011 fails the transaction: the answer is an internal error and the tables, the series
  among them, stay as they were, so that the next attempt meets the same number. The memory store posts the document instead.\<close>

theorem taken_number_blocks_commit:
  assumes "books_sim x (pc_company k) s d" "commit_fits s k" "replayed_response s k = None" "commit_checks s k = Inr ()" "pc_document_is_new k"
    and "r \<in> set (t_documents d)" "number_key r = number_key (numbered_document s k)" "pd_official_number r \<noteq> None"
  shows "fst (db_posting_commit p x now k d) = Inl Internal
    \<and> snd (db_posting_commit p x now k d) = d\<lparr>t_sle_identity := t_sle_identity (snd (db_posting_commit p x now k d))\<rparr>
    \<and> fst (posting_commit x now k s) = Inr \<lparr>oc_response = numbered_response s k, oc_replayed = False\<rparr>"
proof -
  note sim = books_simD [OF assms(1)]
  have replay: "db_replayed d k = None"
    using sim(3) assms(3) by (cases "pc_idempotency_key k") (simp_all add: db_replayed_def replayed_response_def lookups_sim_def)
  have checks: "db_commit_checks p d k = Inr ()" using commit_checks_sim [OF assms(1)] assms(4) by simp
  obtain e t where eff: "db_commit_effects p x now k d = (Inl e, t)"
  proof (cases "fst (db_commit_effects p x now k d)")
    case (Inl e)
    then show ?thesis using that by (metis prod.collapse)
  next
    case (Inr response)
    then obtain t where "db_commit_effects p x now k d = (Inr response, t)" by (metis prod.collapse)
    then obtain document d1 d2 where n: "db_numbered k d = (Inr (document, response), d1)" and w: "db_write_tables p k document d1 = (Inr (), d2)"
      by (rule effects_steps [OF _ assms(2)])
    note num = numbered_sim [OF sim(3) n]
    obtain g h d3 where "g = d1\<lparr>t_numbering_series := raise_rows (pc_company k) (pc_numbering_floors k) (t_numbering_series d1),
        t_solo_migrations := t_solo_migrations d1 @ solo_rows k\<rparr>" "db_write_document k document g = (Inr (), h)"
      by (rule write_tables_steps [OF w assms(2)])
    then have "t_documents g = t_documents d1" "db_write_document k document g = (Inr (), h)" by simp_all
    moreover have "t_documents d1 = t_documents d" using num(3) by auto
    ultimately have g: "db_write_document k (numbered_document s k) g = (Inr (), h)" "t_documents g = t_documents d" by (simp_all add: num(1))
    have doc: "(numbered_document s k)\<lparr>pd_company := pc_company k\<rparr> = numbered_document s k"
      using assms(2) by (auto simp: commit_fits_def Let_def numbered_document_def split: option.split)
    have "document_ok g (numbered_document s k)"
      using g(1) assms(5) unfolding db_write_document_def Let_def doc by (simp add: insert_into_Inr)
    moreover have "pd_official_number (numbered_document s k) \<noteq> None" using assms(7,8) by (simp add: number_key_def)
    ultimately have False using assms(6,7) g(2) unfolding document_ok_def by (metis imageI)
    then show ?thesis ..
  qed
  moreover have "e = Internal" using only_internal_effects [of p x now k] eff by (auto simp: only_internal_def)
  ultimately show ?thesis
    using assms(3,4) replay checks by (simp add: db_posting_commit_def transaction_def and_run_def query_def from_result_def posting_commit_def)
qed

end
