(* ===== verification/Witnesses_Pg.thy ===== *)
theory Witnesses_Pg
  imports Witnesses_Store Pg_Commit_Admits
begin

text \<open>
  Instances for the PostgreSQL store: a database whose only mutation was written by a server that kept
  no chain, beside the memory store with the same log; and a journal posted in a new
  company, and in one where its number is taken.
\<close>

section \<open>A log without chain values\<close>

definition old_row :: mutation_row where
  "old_row = \<lparr>mt_company = ''co'', mt_id = ''m1'', mt_version = 1, mt_record = demo_mutation, mt_acknowledged = False, mt_chain_hash = None\<rparr>"

definition old_document :: company_document where
  "old_document = \<lparr>cd_company = ''co'', cd_doctype = ''Customer'', cd_document_id = ''C1'', cd_payload = JObj [(''name'', JStr ''Ann'')],
     cd_children = None, cd_docstatus = 0, cd_updated_at = 0\<rparr>"

definition old_db :: db where
  "old_db = empty_db\<lparr>t_companies := [\<lparr>co_id = ''co'', co_name = ''Acme'', co_created_at = 0\<rparr>], t_mutations := [old_row],
     t_sync_counters := [\<lparr>ct_company = ''co'', ct_last_version = 1, ct_last_hash = None\<rparr>], t_company_documents := [old_document]\<rparr>"

lemma pushed_documents: "company_documents (pushed_store x 0) = [((''co'', ''Customer'', ''C1''), old_document)]"
  by (simp add: pushed_store_def push_mutations_def append_one_def apply_projection_def fold_mutation_def folds_documents_def
      demo_mutation_def Let_def i64_succ_def i64_max_def old_document_def
      envelope_fields_def fold_children_def fold_docstatus_def obj_get_def obj_remove_def bt_remove_def)

lemma pushed_mutations: "mutations (pushed_store x 0) ''co'' = [\<lparr>sd_record = demo_mutation, sd_version = 1, sd_acknowledged = False\<rparr>]"
  by (simp add: pushed_store_def push_mutations_def append_one_def Let_def i64_succ_def i64_max_def)
  
lemma old_db_sim: "log_sim x ''co'' (pushed_store x 0) old_db"
proof -
  have "log_inv x ''co'' (pushed_store x 0)" by (rule reachable_log(1) [OF pushed_reachable])
  moreover have "log_rows old_db ''co'' = linked_rows ''co'' 0 (pushed_store x 0)"
    by (simp add: log_rows_def old_db_def old_row_def linked_rows_def pushed_mutations log_row_def demo_mutation_def)
  moreover have "same_read_model ''co'' (pushed_store x 0) old_db"
    by (auto simp: same_read_model_def db_company_document_def company_document_of_def pushed_documents old_db_def old_document_def cd_key_def)
  moreover have "same_counter ''co'' (pushed_store x 0) old_db"
    by (simp add: same_counter_def counter_of_def old_db_def pushed_log)
  ultimately show ?thesis by (auto simp: log_sim_def company_exists_def old_db_def intro!: exI [of _ 0])
qed

theorem stores_agree_on_log_witness:
  "fst (run_calls (db_log_step sample_ext ''co'') [Checkpoint 1, Push 5 [demo_mutation], Pull 0 10] old_db)
    = fst (run_calls (mem_log_step sample_ext ''co'') [Checkpoint 1, Push 5 [demo_mutation], Pull 0 10] (pushed_store sample_ext 0))"
proof -
  let ?calls = "[Checkpoint 1, Push 5 [demo_mutation], Pull 0 10]"
  have "list_all call_ok ?calls" by (simp add: i64_max_def)
  moreover have "length (mutations (pushed_store sample_ext 0) ''co'') + sum_list (map pushed ?calls) \<le> max_log"
    by (simp add: pushed_mutations max_log_def i64_max_def)
  ultimately show ?thesis using stores_agree_on_log [OF old_db_sim] by blast
qed

section \<open>A journal in a new company\<close>

definition sample_pg :: pgsql where
  "sample_pg = \<lparr>pg_text = (\<lambda>_. []), pg_float = (\<lambda>v. if is_finite v then JNum (JFloat v) else JStr ''NaN'')\<rparr>"

definition new_db :: db where
  "new_db = empty_db\<lparr>t_companies := [\<lparr>co_id = ''co'', co_name = ''Acme'', co_created_at = 0\<rparr>]\<rparr>"

definition journal_row :: "string \<Rightarrow> string \<Rightarrow> f64 \<Rightarrow> f64 \<Rightarrow> gl_entry" where
  "journal_row i account debit credit = \<lparr>gl_id = i, gl_company = ''co'', gl_account = account, gl_debit = debit, gl_credit = credit,
     gl_party_type = None, gl_party = None, gl_cost_center = None, gl_voucher_type = ''Journal Entry'', gl_voucher_no = ''J1'',
     gl_posting_date = ''2026-01-15'', gl_currency = None, gl_conversion_rate = None, gl_base_debit = None, gl_base_credit = None,
     gl_is_reversal = False, gl_batch_id = ''b1''\<rparr>"

definition journal_commit :: posting_commit_rec where
  "journal_commit = \<lparr>pc_company = ''co'', pc_idempotency_key = Some ''key'',
     pc_batch = \<lparr>pb_id = ''b1'', pb_company = ''co'', pb_document_id = ''J1'', pb_doctype = ''Journal Entry'', pb_kind = ''submit'',
       pb_reversal_of = None, pb_created_at = 0\<rparr>,
     pc_document = \<lparr>pd_id = ''J1'', pd_company = ''co'', pd_doctype = ''Journal Entry'', pd_payload = JObj [(''remark'', JStr ''opening'')],
       pd_docstatus = 1, pd_official_number = None, pd_created_at = 0\<rparr>,
     pc_document_is_new = True, pc_series_key = Some ''JV'', pc_preassigned_number = None, pc_till_binding = None,
     pc_gl_entries = [journal_row ''g1'' ''Cash'' (Fin 5) (Fin 0), journal_row ''g2'' ''Equity'' (Fin 0) (Fin 5)],
     pc_stock_ledger_entries = [], pc_party_transactions = [], pc_tax_transactions = [], pc_settlements = [], pc_bins = [],
     pc_outstanding_updates = [], pc_sle_expectations = [], pc_replication_device_id = None,
     pc_audit = \<lparr>au_id = ''a1'', au_company = ''co'', au_user = None, au_device = None, au_action = ''posting.submit'', au_detail = JNull, au_at = 0\<rparr>,
     pc_response = JObj [], pc_numbering_floors = [], pc_solo_migration = None, pc_lock_check_date = None, pc_deposit_guard = None\<rparr>"

lemma journal_company [simp]: "pc_company journal_commit = ''co''"
  by (simp add: journal_commit_def)

lemma sample_float_ok: "float_ok sample_pg"
  by (simp add: float_ok_def sample_pg_def)

lemma new_books_sim: "books_sim x ''co'' empty_store new_db"
proof -
  have "log_sim x ''co'' empty_store new_db"
    using log_inv_empty [of x "''co''"] by (auto simp: log_sim_def new_db_def empty_db_def company_exists_def same_counter_def counter_of_def same_read_model_def
        db_company_document_def company_document_of_def log_rows_def linked_rows_def empty_store_def)
  then have "same_log x ''co'' empty_store new_db" by (auto simp: same_log_def)
  then show ?thesis
    by (simp add: books_sim_def docs_sim_def docs_of_def rows_of_def ledgers_sim_def lookups_sim_def series_of_def settings_row_def
        identities_ok_def new_db_def empty_db_def empty_store_def)
qed

lemma journal_fits: "commit_fits empty_store journal_commit"
  by (simp add: commit_fits_def Let_def journal_commit_def journal_row_def plain_texts_def text_member_def obj_get_def)

lemma jv_text: "format_number ''JV'' 1 = ''JV-00001''"
  by code_simp

lemma journal_number: "numbered_document empty_store journal_commit = (pc_document journal_commit)\<lparr>pd_official_number := Some ''JV-00001''\<rparr>"
  by (simp add: numbered_document_def allocated_number_def next_value_def journal_commit_def i64_max_def jv_text)

lemma journal_admitted: "admits empty_store new_db journal_commit"
  unfolding admits_def journal_number
  by (simp add: Let_def journal_commit_def journal_row_def new_db_def empty_db_def series_of_def i64_max_def fresh_keys_def
      is_object_def company_exists_def opt_ref_def)

lemma journal_room: "length (mutations empty_store (pc_company journal_commit)) + length (commit_records x now empty_store journal_commit) \<le> max_log"
  by (simp add: commit_records_def replication_mutations_def commit_sources_def commit_documents_def journal_commit_def max_log_def i64_max_def)

lemma journal_posts: "fst (posting_commit x now journal_commit empty_store) =
    Inr \<lparr>oc_response = JObj [(''number'', JStr ''JV-00001'')], oc_replayed = False\<rparr>"
proof -
  have "replayed_response empty_store journal_commit = None" by (simp add: replayed_response_def journal_commit_def empty_store_def)
  moreover have "commit_checks empty_store journal_commit = Inr ()"
    by (simp add: commit_checks_def lock_check_def deposit_check_def solo_check_def existence_check_def number_check_def till_check_def
        journal_commit_def ensure_def eval_simps)
  moreover have "numbered_response empty_store journal_commit = JObj [(''number'', JStr ''JV-00001'')]"
    by (simp add: numbered_response_def next_value_def journal_commit_def i64_max_def json_put_def jv_text obj_insert_def bt_insert.simps)
  ultimately show ?thesis by (simp add: posting_commit_def)
qed

theorem pg_commit_admitted_witness:
  "fst (db_posting_commit sample_pg sample_ext 0 journal_commit new_db) =
    Inr \<lparr>oc_response = JObj [(''number'', JStr ''JV-00001'')], oc_replayed = False\<rparr>"
  using pg_commit_admitted [of sample_ext journal_commit empty_store new_db sample_pg 0] new_books_sim journal_fits sample_float_ok
    journal_admitted journal_room journal_posts by simp

theorem pg_commit_refines_witness:
  "\<exists>answer t. db_posting_commit sample_pg sample_ext 0 journal_commit new_db = (answer, t) \<and>
     (answer = Inr \<lparr>oc_response = JObj [(''number'', JStr ''JV-00001'')], oc_replayed = False\<rparr>
      \<or> answer = Inl Internal \<and> t = new_db\<lparr>t_sle_identity := t_sle_identity t\<rparr>)"
proof -
  obtain answer t where a: "db_posting_commit sample_pg sample_ext 0 journal_commit new_db = (answer, t)" by fastforce
  obtain answer' s' where b: "posting_commit sample_ext 0 journal_commit empty_store = (answer', s')" by fastforce
  have "books_sim sample_ext (pc_company journal_commit) empty_store new_db" using new_books_sim by simp
  from pg_commit_refines [OF this journal_fits sample_float_ok journal_room a b] show ?thesis
    using a b journal_posts [of sample_ext 0] by auto
qed

section \<open>A number already taken\<close>

definition earlier_journal :: posted_document where
  "earlier_journal = \<lparr>pd_id = ''J0'', pd_company = ''co'', pd_doctype = ''Journal Entry'', pd_payload = JObj [],
     pd_docstatus = 1, pd_official_number = Some ''JV-00001'', pd_created_at = 0\<rparr>"

definition taken_store :: inner where
  "taken_store = empty_store\<lparr>documents := [((''co'', ''Journal Entry'', ''J0''), earlier_journal)]\<rparr>"

definition taken_db :: db where
  "taken_db = new_db\<lparr>t_documents := [earlier_journal]\<rparr>"

lemma taken_books_sim: "books_sim x ''co'' taken_store taken_db"
proof -
  have "same_log x ''co'' empty_store new_db" using new_books_sim by (simp add: books_sim_def)
  moreover have "log_inv x ''co'' taken_store = log_inv x ''co'' empty_store" by (rule log_inv_cong) (simp_all add: taken_store_def)
  moreover have "log_sim x ''co'' s0 taken_db = log_sim x ''co'' s0 new_db" for s0 by (rule log_sim_frame) (simp_all add: taken_db_def)
  moreover have "log_shape ''co'' taken_store = log_shape ''co'' empty_store" by (simp add: log_shape_def taken_store_def)
  ultimately have "same_log x ''co'' taken_store taken_db" by (simp add: same_log_def)
  moreover have "docs_sim ''co'' (documents taken_store) (t_documents taken_db)"
    by (simp add: docs_sim_def docs_of_def rows_of_def taken_store_def taken_db_def doc_sim_def pd_key_def earlier_journal_def
        plain_texts_def text_member_def)
  ultimately show ?thesis
    by (simp add: books_sim_def ledgers_sim_def lookups_sim_def series_of_def settings_row_def identities_ok_def taken_store_def
        taken_db_def new_db_def empty_db_def empty_store_def)
qed

lemma taken_checks: "commit_checks taken_store journal_commit = Inr ()" "replayed_response taken_store journal_commit = None"
  "commit_fits taken_store journal_commit"
  "numbered_document taken_store journal_commit = (pc_document journal_commit)\<lparr>pd_official_number := Some ''JV-00001''\<rparr>"
proof -
  show "commit_checks taken_store journal_commit = Inr ()"
    by (simp add: commit_checks_def lock_check_def deposit_check_def solo_check_def existence_check_def number_check_def till_check_def
        journal_commit_def ensure_def doc_key_of_def taken_store_def eval_simps)
  show "replayed_response taken_store journal_commit = None" by (simp add: replayed_response_def journal_commit_def taken_store_def empty_store_def)
  show "commit_fits taken_store journal_commit"
    by (simp add: commit_fits_def Let_def journal_commit_def journal_row_def plain_texts_def text_member_def obj_get_def)
  show "numbered_document taken_store journal_commit = (pc_document journal_commit)\<lparr>pd_official_number := Some ''JV-00001''\<rparr>"
    by (simp add: numbered_document_def allocated_number_def next_value_def journal_commit_def i64_max_def jv_text taken_store_def)
qed

theorem taken_number_blocks_commit_witness:
  "fst (db_posting_commit sample_pg sample_ext 0 journal_commit taken_db) = Inl Internal"
proof -
  have "books_sim sample_ext (pc_company journal_commit) taken_store taken_db" using taken_books_sim by simp
  moreover have "pc_document_is_new journal_commit" by (simp add: journal_commit_def)
  moreover have "earlier_journal \<in> set (t_documents taken_db)" "pd_official_number earlier_journal \<noteq> None"
    "number_key earlier_journal = number_key (numbered_document taken_store journal_commit)"
    by (simp_all add: taken_db_def earlier_journal_def number_key_def taken_checks(4)) (simp add: journal_commit_def)
  ultimately show ?thesis using taken_number_blocks_commit taken_checks(1-3) by blast
qed

end
