(* ===== verification/Pg_Identity.thy ===== *)
theory Pg_Identity
  imports Pg_Store Pg_Log_Refines
begin

text \<open>
  The identity side of the two stores: companies, users, memberships, tokens, devices, invitations, blobs, the audit feed, webhooks
  and links. \<open>identity_sim\<close> says that the tables of \<^verbatim>\<open>src/src/store/pg.rs\<close> hold what the maps of \<^verbatim>\<open>src/src/store/mem.rs\<close>
  hold; under the constraints of the schema, which fresh ids and tokens and the checks of the handlers meet, both stores answer every
  call alike. Left out is the audit page, whose rows of one instant the database orders by id.
\<close>

section \<open>Tables with a key\<close>

definition keyed :: "('r \<Rightarrow> 'k) \<Rightarrow> ('k \<times> 'r) list \<Rightarrow> 'r list \<Rightarrow> bool" where
  "keyed key al rows \<longleftrightarrow> al = map (\<lambda>r. (key r, r)) rows \<and> distinct (map key rows)"

lemma keyed_lookup: "keyed key al rows \<Longrightarrow> map_of al k = find (\<lambda>r. key r = k) rows"
proof -
  have "map_of (map (\<lambda>r. (key r, r)) rows) k = find (\<lambda>r. key r = k) rows" by (induction rows) auto
  then show "keyed key al rows \<Longrightarrow> map_of al k = find (\<lambda>r. key r = k) rows" by (simp add: keyed_def)
qed

lemma keyed_rows: "keyed key al rows \<Longrightarrow> map snd al = rows"
  by (simp add: keyed_def comp_def)

lemma find_None_key: "find (\<lambda>r. key r = k) rows = None \<longleftrightarrow> k \<notin> key ` set rows"
  by (auto simp: find_None_iff image_iff)

lemma update_append: "k \<notin> fst ` set al \<Longrightarrow> AList.update k v al = al @ [(k, v)]"
  by (induction al) auto

lemma keyed_add: "keyed key al rows \<Longrightarrow> key r \<notin> key ` set rows \<Longrightarrow> keyed key (AList.update (key r) r al) (rows @ [r])"
  by (auto simp: keyed_def update_append image_image)

text \<open>An update of the row of a key, by \<open>update\<close> of the list and by \<open>update \<dots> where\<close> of the table.\<close>

lemma keyed_change:
  assumes "keyed key al rows" "map_of al k = Some r" "P r" "key (f r) = k"
  shows "keyed key (AList.update k (f r) al) (update_where (\<lambda>q. key q = k \<and> P q) f rows)"
proof -
  have r: "r \<in> set rows" "key r = k" using assms(1,2) by (auto simp: keyed_lookup find_Some_iff)
  have d: "distinct (map key rows)" using assms(1) by (simp add: keyed_def)
  have "AList.update k (f r) (map (\<lambda>q. (key q, q)) rs) = map (\<lambda>q. (key q, q)) (update_where (\<lambda>q. key q = k \<and> P q) f rs)"
    if "distinct (map key rs)" "r \<in> set rs" for rs
    using that
  proof (induction rs)
    case (Cons q rs)
    show ?case
    proof (cases "q = r")
      case True
      have "update_where (\<lambda>q. key q = k \<and> P q) f rs = rs"
        using Cons.prems r(2) True by (auto simp: update_where_def intro!: map_idI) (metis image_eqI)
      then show ?thesis using True r(2) assms(3,4) by (simp add: update_where_def)
    next
      case False
      then have "key q \<noteq> k" using Cons.prems r(2) by auto
      then show ?thesis using Cons False by (simp add: update_where_def)
    qed
  qed simp
  moreover have "map key (update_where (\<lambda>q. key q = k \<and> P q) f rows) = map key rows"
  proof -
    have "q = r" if "q \<in> set rows" "key q = k" for q using that r d by (metis (no_types) distinct_map inj_on_def)
    then show ?thesis using assms(4) by (auto simp: update_where_def)
  qed
  ultimately show ?thesis using assms(1) d r(1) by (simp add: keyed_def)
qed

lemma update_nowhere: "(\<And>q. q \<in> set rows \<Longrightarrow> \<not> P q) \<Longrightarrow> update_where P f rows = rows"
  by (auto simp: update_where_def intro!: map_idI)

lemma find_row: "find P rows = Some r \<Longrightarrow> P r \<and> r \<in> set rows"
  by (induction rows) (auto split: if_splits)

lemma keyed_unique:
  assumes "keyed key al rows" "map_of al (key q) = Some r" "q \<in> set rows"
  shows "q = r"
proof -
  have "key r = key q" "r \<in> set rows" using find_row [of _ rows r] assms(1,2) by (auto simp: keyed_lookup)
  moreover have "inj_on key (set rows)" using assms(1) by (simp add: keyed_def distinct_map)
  ultimately show ?thesis using assms(3) by (metis inj_onD)
qed

lemma keyed_absent: "keyed key al rows \<Longrightarrow> map_of al k = None \<Longrightarrow> q \<in> set rows \<Longrightarrow> key q \<noteq> k"
  by (auto simp: keyed_lookup find_None_iff)

lemma keyed_map:
  assumes "keyed key al rows" "\<And>r. key (g r) = key r"
  shows "keyed key (map (\<lambda>(i, r). (i, g r)) al) (map g rows)"
  using assms by (simp add: keyed_def comp_def)

lemma sort_key_image: "sort_key f (map g xs) = map g (sort_key (\<lambda>x. f (g x)) xs)"
proof -
  have "insort_key f (g a) (map g ys) = map g (insort_key (\<lambda>x. f (g x)) a ys)" for a ys by (induction ys) simp_all
  then show ?thesis by (induction xs) simp_all
qed

text \<open>With unique values of \<open>key\<close>, a second condition can be tested on the row found.\<close>

lemma find_and:
  assumes "distinct (map key rows)"
  shows "find (\<lambda>r. key r = k \<and> P r) rows = Option.bind (find (\<lambda>r. key r = k) rows) (\<lambda>r. if P r then Some r else None)"
  using assms
proof (induction rows)
  case (Cons r rows)
  have "find (\<lambda>q. key q = key r) rows = None" using Cons.prems by (simp add: find_None_key)
  then show ?case using Cons by auto
qed simp

section \<open>The relation\<close>

definition mb_row :: "(uuid \<times> uuid) \<times> (role \<times> int) \<Rightarrow> membership_row" where
  "mb_row e = \<lparr>mb_user = fst (fst e), mb_company = snd (fst e), mb_role = role_as_str (fst (snd e)), mb_created_at = snd (snd e)\<rparr>"

definition people_sim :: "inner \<Rightarrow> db \<Rightarrow> bool" where
  "people_sim s d \<longleftrightarrow>
     (\<forall>c. companies s c = find (\<lambda>r. co_id r = c) (t_companies d)) \<and>
     (\<forall>u. users s u = find (\<lambda>r. us_id r = u) (t_users d)) \<and>
     (\<forall>e. users_by_email s e = map_option us_id (find (\<lambda>r. us_email r = e) (t_users d))) \<and>
     distinct (map us_id (t_users d)) \<and>
     t_memberships d = map mb_row (memberships s) \<and> distinct (map fst (memberships s))"

definition tokens_sim :: "inner \<Rightarrow> db \<Rightarrow> bool" where
  "tokens_sim s d \<longleftrightarrow>
     (\<forall>h. user_tokens s h = map_option (\<lambda>r. (tk_user r, tk_company r, tk_expires_at r)) (find (\<lambda>r. tk_hash r = h) (t_user_tokens d))) \<and>
     distinct (map tk_hash (t_user_tokens d)) \<and>
     keyed de_id (devices s) (t_devices d) \<and> distinct (map de_token_hash (t_devices d)) \<and>
     (\<forall>h. device_tokens s h = map_option de_id (find (\<lambda>r. de_token_hash r = h) (t_devices d))) \<and>
     (\<forall>h. user_tokens s h = None \<or> device_tokens s h = None) \<and>
     keyed in_id (invitations s) (t_invitations d) \<and>
     keyed pl_id (portal_links s) (t_portal_links d) \<and> keyed yl_id (pay_links s) (t_pay_links d)"

definition records_sim :: "inner \<Rightarrow> db \<Rightarrow> bool" where
  "records_sim s d \<longleftrightarrow>
     (\<forall>c h. blobs s (c, h) = map_option (\<lambda>b. snd (snd b)) (find (\<lambda>b. blob_key b = (c, h)) (t_blobs d))) \<and>
     t_audit_log d = audit s \<and> t_webhook_events d = webhooks s"

definition identity_sim :: "inner \<Rightarrow> db \<Rightarrow> bool" where
  "identity_sim s d \<longleftrightarrow> people_sim s d \<and> tokens_sim s d \<and> records_sim s d"

text \<open>The tables of the books, which no call on identities touches.\<close>

definition books_tables :: "db \<Rightarrow> db" where
  "books_tables d = d\<lparr>t_companies := [], t_users := [], t_memberships := [], t_invitations := [], t_devices := [], t_user_tokens := [],
     t_blobs := [], t_audit_log := [], t_webhook_events := [], t_portal_links := [], t_pay_links := []\<rparr>"

lemma exists_sim:
  assumes "people_sim s d"
  shows "company_exists d c \<longleftrightarrow> companies s c \<noteq> None" "user_exists d u \<longleftrightarrow> users s u \<noteq> None"
  using assms by (simp_all add: people_sim_def company_exists_def user_exists_def find_None_key)

lemma device_exists_sim: "tokens_sim s d \<Longrightarrow> device_exists d i \<longleftrightarrow> map_of (devices s) i \<noteq> None"
proof -
  assume "tokens_sim s d"
  then have "map_of (devices s) i = find (\<lambda>r. de_id r = i) (t_devices d)" by (simp add: tokens_sim_def keyed_lookup)
  then show ?thesis using find_None_key [of de_id i "t_devices d"] by (auto simp: device_exists_def)
qed

section \<open>Calls\<close>

datatype (plugins only: code size) identity_call =
    AddCompany int uuid string | FindCompany uuid
  | AddUser int uuid string string
  | AddMember int uuid uuid role | RoleOf uuid uuid | MembersOf uuid | DropMember uuid uuid | SetRole uuid uuid role
  | DropDevicesOf int uuid uuid
  | AddToken string uuid uuid "int option" | Resolve int string | DropToken string
  | AddInvitation invitation | FindInvitation string | AcceptWith uuid uuid
  | AddDevice device | DevicesOf uuid | FindDevice uuid uuid | DropDevice int uuid uuid | SeenDevice uuid int int
  | AddBlob uuid string string | FindBlob uuid string | AskBlob uuid string
  | AddAudit audit_entry | AuditPage uuid int | AddWebhook webhook_event | CountWebhooks webhook_kind string | AllWebhooks
  | AddPortal portal_link | PortalsOf uuid | DropPortal int uuid uuid | FindPortal string
  | AddPay pay_link | PaysOf uuid | DropPay int uuid uuid | FindPay string

datatype (plugins only: code size) identity_answer =
    Done | Flag bool | Tally int
  | TheCompany "company option" | TheUser "user option" | TheRole "role option" | TheMembers "member list"
  | TheIdentity "token_identity option" | TheInvitation "invitation option" | TheDevice "device option" | TheDevices "device list"
  | TheBlob "string option" | ThePortal "portal_link option" | ThePortals "portal_link list" | ThePay "pay_link option"
  | ThePays "pay_link list" | TheAudit "audit_entry list" | TheWebhooks "webhook_event list" | InvitationTaken | StoreFailed store_error

fun mem_identity_step :: "identity_call \<Rightarrow> inner \<Rightarrow> identity_answer \<times> inner" where
  "mem_identity_step (AddCompany now fresh name) s = (let (co, t) = create_company now fresh name s in (TheCompany (Some co), t))"
| "mem_identity_step (FindCompany c) s = (TheCompany (company_of s c), s)"
| "mem_identity_step (AddUser now fresh e n) s = (let (us, t) = upsert_user now fresh e n s in (TheUser us, t))"
| "mem_identity_step (AddMember now u c r) s = (Done, upsert_membership now u c r s)"
| "mem_identity_step (RoleOf u c) s = (TheRole (membership_role s u c), s)"
| "mem_identity_step (MembersOf c) s = (TheMembers (company_members s c), s)"
| "mem_identity_step (DropMember u c) s = (let (b, t) = remove_membership u c s in (Flag b, t))"
| "mem_identity_step (SetRole u c r) s = (let (b, t) = set_membership_role u c r s in (Flag b, t))"
| "mem_identity_step (DropDevicesOf now c u) s = (let (n, t) = revoke_user_devices now c u s in (Tally (int n), t))"
| "mem_identity_step (AddToken h u c expires) s = (Done, insert_user_token h u c expires s)"
| "mem_identity_step (Resolve now h) s = (TheIdentity (resolve_token now h s), s)"
| "mem_identity_step (DropToken h) s = (let (b, t) = delete_user_token h s in (Flag b, t))"
| "mem_identity_step (AddInvitation i) s =
     (let (stored, t) = create_invitation i s in (if stored then Done else InvitationTaken, t))"
| "mem_identity_step (FindInvitation h) s = (TheInvitation (invitation_by_hash s h), s)"
| "mem_identity_step (AcceptWith i u) s =
     (let (marked, t) = mark_invitation_accepted i u s in (if marked then Done else StoreFailed Internal, t))"
| "mem_identity_step (AddDevice v) s = (Done, create_device v s)"
| "mem_identity_step (DevicesOf c) s = (TheDevices (devices_of s c), s)"
| "mem_identity_step (FindDevice c i) s = (TheDevice (device_of s c i), s)"
| "mem_identity_step (DropDevice now c i) s = (let (v, t) = revoke_device now c i s in (TheDevice v, t))"
| "mem_identity_step (SeenDevice i t0 t1) s = (Done, touch_device_seen i t0 t1 s)"
| "mem_identity_step (AddBlob c h bytes) s = (Done, put_blob c h bytes s)"
| "mem_identity_step (FindBlob c h) s = (TheBlob (get_blob s c h), s)"
| "mem_identity_step (AskBlob c h) s = (Flag (has_blob s c h), s)"
| "mem_identity_step (AddAudit e) s = (Done, append_audit e s)"
| "mem_identity_step (AuditPage c n) s = (TheAudit (recent_audit s c n), s)"
| "mem_identity_step AllWebhooks s = (TheWebhooks (webhook_events s), s)"
| "mem_identity_step (AddWebhook e) s = (Done, insert_webhook_event e s)"
| "mem_identity_step (CountWebhooks k p) s = (Tally (count_webhook_events s k p), s)"
| "mem_identity_step (AddPortal l) s = (Done, create_portal_link l s)"
| "mem_identity_step (PortalsOf c) s = (ThePortals (portal_links_of s c), s)"
| "mem_identity_step (DropPortal now c i) s = (let (b, t) = revoke_portal_link now c i s in (Flag b, t))"
| "mem_identity_step (FindPortal h) s = (ThePortal (portal_link_by_hash s h), s)"
| "mem_identity_step (AddPay l) s = (Done, create_pay_link l s)"
| "mem_identity_step (PaysOf c) s = (ThePays (pay_links_of s c), s)"
| "mem_identity_step (DropPay now c i) s = (let (b, t) = revoke_pay_link now c i s in (Flag b, t))"
| "mem_identity_step (FindPay h) s = (ThePay (pay_link_by_hash s h), s)"

definition answered :: "('a \<Rightarrow> identity_answer) \<Rightarrow> (store_error + 'a) \<times> db \<Rightarrow> identity_answer \<times> db" where
  "answered f r = (case fst r of Inl e \<Rightarrow> StoreFailed e | Inr a \<Rightarrow> f a, snd r)"

fun db_identity_step :: "identity_call \<Rightarrow> db \<Rightarrow> identity_answer \<times> db" where
  "db_identity_step (AddCompany now fresh name) d = answered (\<lambda>co. TheCompany (Some co)) (db_create_company now fresh name d)"
| "db_identity_step (FindCompany c) d = (TheCompany (db_company d c), d)"
| "db_identity_step (AddUser now fresh e n) d = answered (\<lambda>us. TheUser (Some us)) (db_upsert_user now fresh e n d)"
| "db_identity_step (AddMember now u c r) d = answered (\<lambda>_. Done) (db_upsert_membership now u c r d)"
| "db_identity_step (RoleOf u c) d = answered TheRole (db_membership_role d u c, d)"
| "db_identity_step (MembersOf c) d = answered TheMembers (db_company_members d c, d)"
| "db_identity_step (DropMember u c) d = (let (b, t) = db_remove_membership u c d in (Flag b, t))"
| "db_identity_step (SetRole u c r) d = (let (b, t) = db_set_membership_role u c r d in (Flag b, t))"
| "db_identity_step (DropDevicesOf now c u) d = (let (n, t) = db_revoke_user_devices now c u d in (Tally (int n), t))"
| "db_identity_step (AddToken h u c expires) d = answered (\<lambda>_. Done) (db_insert_user_token h u c expires d)"
| "db_identity_step (Resolve now h) d = (TheIdentity (db_resolve_token now h d), d)"
| "db_identity_step (DropToken h) d = (let (b, t) = db_delete_user_token h d in (Flag b, t))"
| "db_identity_step (AddInvitation i) d = answered (\<lambda>_. Done) (db_create_invitation i d)"
| "db_identity_step (FindInvitation h) d = (TheInvitation (db_invitation_by_hash d h), d)"
| "db_identity_step (AcceptWith i u) d = answered (\<lambda>_. Done) (db_mark_invitation_accepted i u d)"
| "db_identity_step (AddDevice v) d = answered (\<lambda>_. Done) (db_create_device v d)"
| "db_identity_step (DevicesOf c) d = (TheDevices (db_devices d c), d)"
| "db_identity_step (FindDevice c i) d = (TheDevice (db_device d c i), d)"
| "db_identity_step (DropDevice now c i) d = (let (v, t) = db_revoke_device now c i d in (TheDevice v, t))"
| "db_identity_step (SeenDevice i t0 t1) d = (Done, db_touch_device_seen i t0 t1 d)"
| "db_identity_step (AddBlob c h bytes) d = answered (\<lambda>_. Done) (db_put_blob c h bytes d)"
| "db_identity_step (FindBlob c h) d = (TheBlob (db_get_blob d c h), d)"
| "db_identity_step (AskBlob c h) d = (Flag (db_has_blob d c h), d)"
| "db_identity_step (AddAudit e) d = answered (\<lambda>_. Done) (db_append_audit e d)"
| "db_identity_step (AuditPage c n) d = answered TheAudit (db_recent_audit d c n, d)"
| "db_identity_step AllWebhooks d = (TheWebhooks (db_webhook_events d), d)"
| "db_identity_step (AddWebhook e) d = answered (\<lambda>_. Done) (db_insert_webhook_event e d)"
| "db_identity_step (CountWebhooks k p) d = (Tally (db_count_webhook_events d k p), d)"
| "db_identity_step (AddPortal l) d = answered (\<lambda>_. Done) (db_create_portal_link l d)"
| "db_identity_step (PortalsOf c) d = (ThePortals (db_portal_links d c), d)"
| "db_identity_step (DropPortal now c i) d = (let (b, t) = db_revoke_portal_link now c i d in (Flag b, t))"
| "db_identity_step (FindPortal h) d = (ThePortal (db_portal_link_by_hash d h), d)"
| "db_identity_step (AddPay l) d = answered (\<lambda>_. Done) (db_create_pay_link l d)"
| "db_identity_step (PaysOf c) d = (ThePays (db_pay_links d c), d)"
| "db_identity_step (DropPay now c i) d = (let (b, t) = db_revoke_pay_link now c i d in (Flag b, t))"
| "db_identity_step (FindPay h) d = (ThePay (db_pay_link_by_hash d h), d)"

text \<open>
  When a call meets the constraints of the schema: new ids and hashes are new, and references lead to rows. PostgreSQL lists audit entries
  and webhook events by their time and then by their id, the memory store in the order they came, so a listing is admitted when no two of
  its rows have one instant and the times follow that order; and a page is of no negative size, which PostgreSQL refuses.
\<close>

fun call_admitted :: "identity_call \<Rightarrow> inner \<Rightarrow> bool" where
  "call_admitted (AddCompany now fresh name) s \<longleftrightarrow> companies s fresh = None"
| "call_admitted (AddUser now fresh e n) s \<longleftrightarrow> users s fresh = None"
| "call_admitted (AddMember now u c r) s \<longleftrightarrow> users s u \<noteq> None \<and> companies s c \<noteq> None"
| "call_admitted (AddToken h u c expires) s \<longleftrightarrow>
     users s u \<noteq> None \<and> companies s c \<noteq> None \<and> user_tokens s h = None \<and> device_tokens s h = None"
| "call_admitted (AddInvitation i) s \<longleftrightarrow>
     companies s (in_company i) \<noteq> None \<and> users s (in_created_by i) \<noteq> None \<and> in_accepted_by i = None \<and>
     map_of (invitations s) (in_id i) = None \<and> invitation_by_hash s (in_token_hash i) = None"
| "call_admitted (AcceptWith i u) s \<longleftrightarrow> users s u \<noteq> None \<and> map_of (invitations s) i \<noteq> None"
| "call_admitted (AddDevice v) s \<longleftrightarrow>
     companies s (de_company v) \<noteq> None \<and> users s (de_user v) \<noteq> None \<and> map_of (devices s) (de_id v) = None \<and>
     device_tokens s (de_token_hash v) = None \<and> user_tokens s (de_token_hash v) = None"
| "call_admitted (AddBlob c h bytes) s \<longleftrightarrow> companies s c \<noteq> None"
| "call_admitted (AddAudit e) s \<longleftrightarrow>
     au_id e \<notin> au_id ` set (audit s) \<and> companies s (au_company e) \<noteq> None \<and> opt_ref (\<lambda>u. users s u \<noteq> None) (au_user e) \<and>
     opt_ref (\<lambda>i. map_of (devices s) i \<noteq> None) (au_device e)"
| "call_admitted (AuditPage c n) s \<longleftrightarrow>
     0 \<le> n \<and> sorted_wrt (\<lambda>a b. au_at a < au_at b) (filter (\<lambda>e. au_company e = c) (audit s))"
| "call_admitted AllWebhooks s \<longleftrightarrow> sorted_wrt (\<lambda>a b. wh_received_at a < wh_received_at b) (webhooks s)"
| "call_admitted (AddWebhook e) s \<longleftrightarrow> wh_id e \<notin> wh_id ` set (webhooks s)"
| "call_admitted (AddPortal l) s \<longleftrightarrow>
     companies s (pl_company l) \<noteq> None \<and> users s (pl_created_by l) \<noteq> None \<and> map_of (portal_links s) (pl_id l) = None \<and>
     portal_link_by_hash s (pl_token_hash l) = None"
| "call_admitted (AddPay l) s \<longleftrightarrow>
     companies s (yl_company l) \<noteq> None \<and> users s (yl_created_by l) \<noteq> None \<and> map_of (pay_links s) (yl_id l) = None \<and>
     pay_link_by_hash s (yl_token_hash l) = None"
| "call_admitted _ s \<longleftrightarrow> True"

primrec calls_admitted :: "identity_call list \<Rightarrow> inner \<Rightarrow> bool" where
  "calls_admitted [] s \<longleftrightarrow> True"
| "calls_admitted (k # ks) s \<longleftrightarrow> call_admitted k s \<and> calls_admitted ks (snd (mem_identity_step k s))"

end
