(* ===== verification/Pg_Identity_Refines.thy ===== *)
theory Pg_Identity_Refines
  imports Pg_Identity "HOL-Library.Multiset"
begin

text \<open>
  Every call on identities is answered alike by the two stores: call by call, and for sequences of calls by the interface
  \<open>answers_alike\<close> of the log.
\<close>

definition alike :: "identity_call \<Rightarrow> inner \<Rightarrow> db \<Rightarrow> bool" where
  "alike k s d \<longleftrightarrow> fst (db_identity_step k d) = fst (mem_identity_step k s) \<and>
     identity_sim (snd (mem_identity_step k s)) (snd (db_identity_step k d)) \<and>
     books_tables (snd (db_identity_step k d)) = books_tables d"

lemmas table_defs = insert_into_def insert_row_def insert_or_keep_def insert_or_update_def dbm_defs answered_def

lemma sim_frame [simp]:
  "people_sim (s\<lparr>user_tokens := a1\<rparr>) d = people_sim s d" "people_sim (s\<lparr>devices := a2\<rparr>) d = people_sim s d"
  "people_sim (s\<lparr>device_tokens := a3\<rparr>) d = people_sim s d" "people_sim (s\<lparr>invitations := a4\<rparr>) d = people_sim s d"
  "people_sim (s\<lparr>portal_links := a5\<rparr>) d = people_sim s d" "people_sim (s\<lparr>pay_links := a6\<rparr>) d = people_sim s d"
  "people_sim (s\<lparr>blobs := a7\<rparr>) d = people_sim s d" "people_sim (s\<lparr>audit := a8\<rparr>) d = people_sim s d"
  "people_sim (s\<lparr>webhooks := a9\<rparr>) d = people_sim s d"
  "people_sim s (d\<lparr>t_user_tokens := b1\<rparr>) = people_sim s d" "people_sim s (d\<lparr>t_devices := b2\<rparr>) = people_sim s d"
  "people_sim s (d\<lparr>t_invitations := b4\<rparr>) = people_sim s d" "people_sim s (d\<lparr>t_portal_links := b5\<rparr>) = people_sim s d"
  "people_sim s (d\<lparr>t_pay_links := b6\<rparr>) = people_sim s d" "people_sim s (d\<lparr>t_blobs := b7\<rparr>) = people_sim s d"
  "people_sim s (d\<lparr>t_audit_log := b8\<rparr>) = people_sim s d" "people_sim s (d\<lparr>t_webhook_events := b9\<rparr>) = people_sim s d"
  "tokens_sim (s\<lparr>companies := c1\<rparr>) d = tokens_sim s d" "tokens_sim (s\<lparr>users := c2\<rparr>) d = tokens_sim s d"
  "tokens_sim (s\<lparr>users_by_email := c3\<rparr>) d = tokens_sim s d" "tokens_sim (s\<lparr>memberships := c4\<rparr>) d = tokens_sim s d"
  "tokens_sim (s\<lparr>blobs := a7\<rparr>) d = tokens_sim s d" "tokens_sim (s\<lparr>audit := a8\<rparr>) d = tokens_sim s d"
  "tokens_sim (s\<lparr>webhooks := a9\<rparr>) d = tokens_sim s d"
  "tokens_sim s (d\<lparr>t_companies := d1\<rparr>) = tokens_sim s d" "tokens_sim s (d\<lparr>t_users := d2\<rparr>) = tokens_sim s d"
  "tokens_sim s (d\<lparr>t_memberships := d4\<rparr>) = tokens_sim s d" "tokens_sim s (d\<lparr>t_blobs := b7\<rparr>) = tokens_sim s d"
  "tokens_sim s (d\<lparr>t_audit_log := b8\<rparr>) = tokens_sim s d" "tokens_sim s (d\<lparr>t_webhook_events := b9\<rparr>) = tokens_sim s d"
  by (simp_all add: people_sim_def tokens_sim_def)

lemma records_frame [simp]:
  "records_sim (s\<lparr>companies := c1\<rparr>) d = records_sim s d" "records_sim (s\<lparr>users := c2\<rparr>) d = records_sim s d"
  "records_sim (s\<lparr>users_by_email := c3\<rparr>) d = records_sim s d" "records_sim (s\<lparr>memberships := c4\<rparr>) d = records_sim s d"
  "records_sim (s\<lparr>user_tokens := a1\<rparr>) d = records_sim s d" "records_sim (s\<lparr>devices := a2\<rparr>) d = records_sim s d"
  "records_sim (s\<lparr>device_tokens := a3\<rparr>) d = records_sim s d" "records_sim (s\<lparr>invitations := a4\<rparr>) d = records_sim s d"
  "records_sim (s\<lparr>portal_links := a5\<rparr>) d = records_sim s d" "records_sim (s\<lparr>pay_links := a6\<rparr>) d = records_sim s d"
  "records_sim s (d\<lparr>t_companies := d1\<rparr>) = records_sim s d" "records_sim s (d\<lparr>t_users := d2\<rparr>) = records_sim s d"
  "records_sim s (d\<lparr>t_memberships := d4\<rparr>) = records_sim s d"
  "records_sim s (d\<lparr>t_user_tokens := b1\<rparr>) = records_sim s d" "records_sim s (d\<lparr>t_devices := b2\<rparr>) = records_sim s d"
  "records_sim s (d\<lparr>t_invitations := b4\<rparr>) = records_sim s d" "records_sim s (d\<lparr>t_portal_links := b5\<rparr>) = records_sim s d"
  "records_sim s (d\<lparr>t_pay_links := b6\<rparr>) = records_sim s d"
  by (simp_all add: records_sim_def)

lemma books_frame [simp]:
  "books_tables (d\<lparr>t_companies := d1\<rparr>) = books_tables d" "books_tables (d\<lparr>t_users := d2\<rparr>) = books_tables d"
  "books_tables (d\<lparr>t_memberships := d4\<rparr>) = books_tables d" "books_tables (d\<lparr>t_user_tokens := b1\<rparr>) = books_tables d"
  "books_tables (d\<lparr>t_devices := b2\<rparr>) = books_tables d" "books_tables (d\<lparr>t_invitations := b4\<rparr>) = books_tables d"
  "books_tables (d\<lparr>t_portal_links := b5\<rparr>) = books_tables d" "books_tables (d\<lparr>t_pay_links := b6\<rparr>) = books_tables d"
  "books_tables (d\<lparr>t_blobs := b7\<rparr>) = books_tables d" "books_tables (d\<lparr>t_audit_log := b8\<rparr>) = books_tables d"
  "books_tables (d\<lparr>t_webhook_events := b9\<rparr>) = books_tables d"
  by (simp_all add: books_tables_def)

section \<open>Companies, users and members\<close>

lemma alike_company:
  assumes "identity_sim s d" "companies s fresh = None"
  shows "alike (AddCompany now fresh name) s d"
proof -
  have "fresh \<notin> co_id ` set (t_companies d)" "find (\<lambda>r. co_id r = fresh) (t_companies d) = None"
    using assms by (auto simp: identity_sim_def people_sim_def find_None_key [symmetric])
  then show ?thesis
    using assms(1)
    by (auto simp: alike_def db_create_company_def create_company_def table_defs Let_def identity_sim_def people_sim_def find_append split: option.split)
qed

lemma alike_user:
  assumes "identity_sim s d" "users s fresh = None"
  shows "alike (AddUser now fresh e n) s d"
proof (cases "find (\<lambda>r. us_email r = e) (t_users d)")
  case None
  then have "e \<notin> us_email ` set (t_users d)" by (simp add: find_None_key)
  moreover have "fresh \<notin> us_id ` set (t_users d)" "find (\<lambda>r. us_id r = fresh) (t_users d) = None"
    using assms by (auto simp: identity_sim_def people_sim_def find_None_key [symmetric])
  ultimately show ?thesis
    using assms(1) None
    by (auto simp: alike_def db_upsert_user_def upsert_user_def table_defs ok_or_def Let_def identity_sim_def people_sim_def find_append split: option.split)
next
  case (Some r)
  have r: "us_email r = e" "r \<in> set (t_users d)" using find_row [OF Some] by simp_all
  have same: "update_where (\<lambda>q. us_email q = e) (\<lambda>q. q\<lparr>us_email := e\<rparr>) (t_users d) = t_users d"
    by (auto simp: update_where_def intro!: map_idI)
  have by_id: "users s (us_id r) = Some r"
  proof -
    have "distinct (map us_id (t_users d))" "users s (us_id r) = find (\<lambda>q. us_id q = us_id r) (t_users d)"
      using assms(1) by (simp_all add: identity_sim_def people_sim_def)
    then show ?thesis
      using r(2) keyed_unique [of us_id "map (\<lambda>q. (us_id q, q)) (t_users d)" "t_users d" r]
        keyed_lookup [of us_id "map (\<lambda>q. (us_id q, q)) (t_users d)" "t_users d" "us_id r"]
      by (cases "find (\<lambda>q. us_id q = us_id r) (t_users d)") (auto simp: keyed_def find_None_iff)
  qed
  have "users_by_email s e = Some (us_id r)" using assms(1) Some by (simp add: identity_sim_def people_sim_def)
  then show ?thesis
    using assms(1) Some r by_id
    by (simp add: alike_def db_upsert_user_def upsert_user_def table_defs same ok_or_def rev_image_eqI)
qed

lemma mb_key_row [simp]: "mb_key (mb_row e) = fst e"
  by (simp add: mb_key_def mb_row_def)

lemma mb_keys: "mb_key ` set (map mb_row al) = fst ` set al"
  by (simp add: image_image)

lemma find_member: "find (\<lambda>r. mb_key r = k) (map mb_row al) = map_option (\<lambda>v. mb_row (k, v)) (map_of al k)"
  by (induction al) auto

lemma mb_new: "mb_key \<lparr>mb_user = u, mb_company = c, mb_role = r, mb_created_at = t\<rparr> = (u, c)"
  by (simp add: mb_key_def)

lemma alike_member:
  assumes "identity_sim s d" "users s u \<noteq> None" "companies s c \<noteq> None"
  shows "alike (AddMember now u c r) s d"
proof -
  have m: "t_memberships d = map mb_row (memberships s)" "distinct (map fst (memberships s))" "people_sim s d"
    using assms(1) by (simp_all add: identity_sim_def people_sim_def)
  note ex = exists_sim [OF m(3)]
  show ?thesis
  proof (cases "map_of (memberships s) (u, c)")
    case None
    then have n: "(u, c) \<notin> fst ` set (memberships s)" by (simp add: map_of_eq_None_iff)
    have "mb_key ` mb_row ` set (memberships s) = fst ` set (memberships s)" using mb_keys by simp
    then show ?thesis
      using assms n m None ex(1) [of c] ex(2) [of u]
      by (simp add: alike_def db_upsert_membership_def upsert_membership_def table_defs mb_new update_append identity_sim_def)
        (simp add: people_sim_def mb_row_def)
  next
    case (Some v)
    then have "(u, c) \<in> fst ` set (memberships s)" by (metis map_of_eq_None_iff option.distinct(1))
    then have "(u, c) \<in> mb_key ` mb_row ` set (memberships s)" using mb_keys [of "memberships s"] by simp
    then show ?thesis
      using assms(1) m Some
      by (simp add: alike_def db_upsert_membership_def upsert_membership_def table_defs mb_new identity_sim_def people_sim_def)
  qed
qed

lemma alike_role: "identity_sim s d \<Longrightarrow> alike (RoleOf u c) s d"
  by (simp add: alike_def db_membership_role_def membership_role_def identity_sim_def people_sim_def find_member answered_def
      parse_role_def ok_or_def mb_row_def split: option.split)

lemma alike_drop_member: "identity_sim s d \<Longrightarrow> alike (DropMember u c) s d"
proof -
  assume sim: "identity_sim s d"
  then have m: "t_memberships d = map mb_row (memberships s)" "distinct (map fst (memberships s))"
    by (simp_all add: identity_sim_def people_sim_def)
  have "filter (\<lambda>r. mb_key r \<noteq> (u, c)) (map mb_row al) = map mb_row (AList.delete (u, c) al)" for al
    by (induction al) (auto simp: AList.delete_eq)
  moreover have "(u, c) \<in> mb_key ` set (map mb_row (memberships s)) \<longleftrightarrow> map_of (memberships s) (u, c) \<noteq> None"
    unfolding mb_keys by (simp add: map_of_eq_None_iff)
  ultimately show ?thesis
    using sim m by (simp add: alike_def db_remove_membership_def remove_membership_def identity_sim_def) (simp add: people_sim_def distinct_delete)
qed

lemma alike_set_role: "identity_sim s d \<Longrightarrow> alike (SetRole u c r) s d"
proof -
  assume sim: "identity_sim s d"
  then have m: "t_memberships d = map mb_row (memberships s)" "distinct (map fst (memberships s))"
    by (simp_all add: identity_sim_def people_sim_def)
  have k: "(u, c) \<in> mb_key ` set (map mb_row (memberships s)) \<longleftrightarrow> map_of (memberships s) (u, c) \<noteq> None"
    unfolding mb_keys by (simp add: map_of_eq_None_iff)
  have upd: "update_where (\<lambda>q. mb_key q = (u, c)) (\<lambda>q. q\<lparr>mb_role := role_as_str r\<rparr>) (map mb_row al) =
      (case map_of al (u, c) of None \<Rightarrow> map mb_row al | Some (_, t) \<Rightarrow> map mb_row (AList.update (u, c) (r, t) al))"
    if "distinct (map fst al)" for al
    using that
  proof (induction al)
    case (Cons e al)
    show ?case
    proof (cases "fst e = (u, c)")
      case True
      then have "map_of al (u, c) = None" using Cons.prems by (auto simp: map_of_eq_None_iff)
      then show ?thesis using Cons True by (cases e) (auto simp: update_where_def mb_row_def mb_new)
    next
      case False
      then show ?thesis using Cons by (cases e) (auto simp: update_where_def split: option.split)
    qed
  qed (simp add: update_where_def)
  have "d\<lparr>t_memberships := map mb_row (memberships s)\<rparr> = d" using m(1) by simp
  then show ?thesis
    using sim m k upd [OF m(2)]
    by (auto simp: alike_def db_set_membership_role_def set_membership_role_def identity_sim_def people_sim_def distinct_update
        split: option.split)
qed

lemma join_users:
  fixes ms :: "'m list"
  assumes "distinct (map us_id us)"
  shows "[(m, v). m \<leftarrow> ms, P m, v \<leftarrow> us, us_id v = g m] =
    List.map_filter (\<lambda>m. if P m then map_option (Pair m) (find (\<lambda>v. us_id v = g m) us) else None) ms"
proof -
  have "concat (map (\<lambda>v. if us_id v = k then [(m, v)] else []) us) = (case find (\<lambda>v. us_id v = k) us of Some v \<Rightarrow> [(m, v)] | None \<Rightarrow> [])"
    for k and m :: 'm
    using assms
  proof (induction us)
    case (Cons v us)
    then show ?case by (auto simp: find_None_key [of us_id, symmetric] split: option.split)
  qed simp
  then show ?thesis by (induction ms) (auto simp: List.map_filter_simps split: option.split)
qed

definition joined_member :: "membership_row \<times> user \<Rightarrow> member" where
  "joined_member q = \<lparr>me_user = mb_user (fst q), me_email = us_email (snd q), me_display_name = us_display_name (snd q),
     me_role = the (role_parse (mb_role (fst q))), me_created_at = mb_created_at (fst q)\<rparr>"

lemma collect_all: "(\<And>a. a \<in> set as \<Longrightarrow> f a = Inr (g a)) \<Longrightarrow> collect_results f as = Inr (map g as)"
  by (induction as) auto

lemma alike_members: "identity_sim s d \<Longrightarrow> alike (MembersOf c) s d"
proof -
  assume sim: "identity_sim s d"
  then have m: "t_memberships d = map mb_row (memberships s)" "distinct (map us_id (t_users d))"
    "users s = (\<lambda>u. find (\<lambda>r. us_id r = u) (t_users d))"
    by (auto simp: identity_sim_def people_sim_def)
  let ?h = "\<lambda>m. if mb_company m = c then map_option (Pair m) (find (\<lambda>v. us_id v = mb_user m) (t_users d)) else None"
  let ?J = "List.map_filter ?h (map mb_row (memberships s))"
  have rows: "member_of_row q = Inr (joined_member q)" if "q \<in> set ?J" for q
    using that by (auto simp: List.map_filter_def member_of_row_def joined_member_def parse_role_def ok_or_def mb_row_def split: if_splits)
  have mem: "List.map_filter (\<lambda>((u, _), (r, t)). map_option (\<lambda>us. \<lparr>me_user = u, me_email = us_email us, me_display_name = us_display_name us,
        me_role = r, me_created_at = t\<rparr>) (users s u)) (filter (\<lambda>((_, co), _). co = c) al) =
      map joined_member (List.map_filter ?h (map mb_row al))" for al
    by (induction al) (auto simp: List.map_filter_simps m(3) mb_row_def joined_member_def split: option.split)
  have "db_company_members d c = collect_results member_of_row (sort_key (\<lambda>(m, _). (mb_created_at m, mb_user m)) ?J)"
    unfolding db_company_members_def m(1) by (simp only: join_users [OF m(2)])
  also have "\<dots> = Inr (map joined_member (sort_key (\<lambda>(m, _). (mb_created_at m, mb_user m)) ?J))"
    by (rule collect_all) (simp add: rows)
  also have "(\<lambda>(m, _). (mb_created_at m, mb_user m)) = (\<lambda>q. (me_created_at (joined_member q), me_user (joined_member q)))"
    by (auto simp: joined_member_def)
  finally have "db_company_members d c = Inr (company_members s c)"
    by (simp add: company_members_def mem sort_key_image)
  then show ?thesis using sim by (simp add: alike_def answered_def)
qed

section \<open>Tokens and devices\<close>

lemma tokens_simD:
  assumes "identity_sim s d"
  shows "keyed de_id (devices s) (t_devices d)" "distinct (map de_token_hash (t_devices d))"
    "device_tokens s h = map_option de_id (find (\<lambda>r. de_token_hash r = h) (t_devices d))"
    "user_tokens s h = map_option (\<lambda>r. (tk_user r, tk_company r, tk_expires_at r)) (find (\<lambda>r. tk_hash r = h) (t_user_tokens d))"
    "distinct (map tk_hash (t_user_tokens d))"
    "keyed in_id (invitations s) (t_invitations d)" "keyed pl_id (portal_links s) (t_portal_links d)" "keyed yl_id (pay_links s) (t_pay_links d)"
  using assms unfolding identity_sim_def tokens_sim_def by blast+

lemma tokens_disjoint: "identity_sim s d \<Longrightarrow> device_tokens s h \<noteq> None \<Longrightarrow> user_tokens s h = None"
  unfolding identity_sim_def tokens_sim_def by metis

lemma alike_add_token:
  assumes "identity_sim s d" "users s u \<noteq> None" "companies s c \<noteq> None" "user_tokens s h = None" "device_tokens s h = None"
  shows "alike (AddToken h u c expires) s d"
proof -
  have p: "people_sim s d" using assms(1) by (simp add: identity_sim_def)
  have n: "find (\<lambda>r. tk_hash r = h) (t_user_tokens d) = None" using tokens_simD(4) [OF assms(1), of h] assms(4) by simp
  then have "h \<notin> tk_hash ` set (t_user_tokens d)" by (simp add: find_None_key)
  then show ?thesis
    using assms n exists_sim [OF p]
    by (auto simp: alike_def db_insert_user_token_def insert_user_token_def table_defs identity_sim_def tokens_sim_def find_append
        split: option.split)
qed

lemma alike_resolve: "identity_sim s d \<Longrightarrow> alike (Resolve now h) s d"
proof -
  assume sim: "identity_sim s d"
  note t = tokens_simD [OF sim]
  have "db_resolve_token now h d = resolve_token now h s"
  proof (cases "find (\<lambda>r. de_token_hash r = h) (t_devices d)")
    case None
    then show ?thesis
      using t(3,4) [of h] unfolding db_resolve_token_def resolve_token_def find_and [OF t(2)] find_and [OF t(5)]
      by (auto split: option.split bind_splits)
  next
    case (Some v)
    have "map_of (devices s) (de_id v) = Some v"
    proof -
      have v: "v \<in> set (t_devices d)" using find_row [OF Some] by simp
      then show ?thesis using keyed_unique [OF t(1), of v] keyed_absent [OF t(1), of "de_id v" v] by (cases "map_of (devices s) (de_id v)") auto
    qed
    moreover have "find (\<lambda>r. tk_hash r = h) (t_user_tokens d) = None" using t(3,4) [of h] tokens_disjoint [OF sim, of h] Some by simp
    ultimately show ?thesis
      using t(3) [of h] Some unfolding db_resolve_token_def resolve_token_def find_and [OF t(2)] find_and [OF t(5)] by auto
  qed
  then show ?thesis using sim by (simp add: alike_def)
qed

lemma alike_drop_token: "identity_sim s d \<Longrightarrow> alike (DropToken h) s d"
proof -
  assume sim: "identity_sim s d"
  note t = tokens_simD [OF sim]
  have "find (\<lambda>r. tk_hash r = h') (filter (\<lambda>r. tk_hash r \<noteq> h) rows) = (if h' = h then None else find (\<lambda>r. tk_hash r = h') rows)" for h' rows
    by (induction rows) auto
  note dropped = this
  have "tokens_sim (s\<lparr>user_tokens := (user_tokens s)(h := None)\<rparr>) (d\<lparr>t_user_tokens := filter (\<lambda>r. tk_hash r \<noteq> h) (t_user_tokens d)\<rparr>)"
    using sim by (auto simp: identity_sim_def tokens_sim_def distinct_map_filter dropped)
  moreover have "h \<in> tk_hash ` set (t_user_tokens d) \<longleftrightarrow> user_tokens s h \<noteq> None" using t(4) [of h] by (simp add: find_None_key)
  ultimately show ?thesis
    using sim by (simp add: alike_def db_delete_user_token_def delete_user_token_def identity_sim_def)
qed

text \<open>A change of device rows that keeps ids and token hashes.\<close>

lemma find_map: "(\<And>r. key (g r) = key r) \<Longrightarrow> find (\<lambda>r. key r = k) (map g rows) = map_option g (find (\<lambda>r. key r = k) rows)"
  by (induction rows) auto

lemma devices_changed:
  assumes "identity_sim s d" "keyed de_id al (update_where P f (t_devices d))" "\<And>r. de_id (f r) = de_id r" "\<And>r. de_token_hash (f r) = de_token_hash r"
  shows "identity_sim (s\<lparr>devices := al\<rparr>) (d\<lparr>t_devices := update_where P f (t_devices d)\<rparr>)"
proof -
  let ?g = "\<lambda>r. if P r then f r else r"
  have g: "de_id (?g r) = de_id r" "de_token_hash (?g r) = de_token_hash r" for r using assms(3,4) by auto
  have "distinct (map de_token_hash (map ?g (t_devices d)))" using tokens_simD(2) [OF assms(1)] by (simp add: comp_def g)
  moreover have "map_option de_id (find (\<lambda>r. de_token_hash r = h) (map ?g (t_devices d))) =
      map_option de_id (find (\<lambda>r. de_token_hash r = h) (t_devices d))" for h
    by (simp only: find_map [of de_token_hash ?g, OF g(2)] option.map_comp comp_def g(1))
  ultimately show ?thesis
    using assms(1,2) by (auto simp: identity_sim_def tokens_sim_def update_where_def)
qed

lemma alike_add_device:
  assumes "identity_sim s d" "companies s (de_company v) \<noteq> None" "users s (de_user v) \<noteq> None" "map_of (devices s) (de_id v) = None"
    "device_tokens s (de_token_hash v) = None" "user_tokens s (de_token_hash v) = None"
  shows "alike (AddDevice v) s d"
proof -
  have p: "people_sim s d" using assms(1) by (simp add: identity_sim_def)
  note t = tokens_simD [OF assms(1)]
  have i: "de_id v \<notin> de_id ` set (t_devices d)" using assms(4) by (simp add: keyed_lookup [OF t(1)] find_None_key)
  have n: "find (\<lambda>r. de_token_hash r = de_token_hash v) (t_devices d) = None" using t(3) [of "de_token_hash v"] assms(5) by simp
  then have h: "de_token_hash v \<notin> de_token_hash ` set (t_devices d)" by (simp add: find_None_key)
  show ?thesis
    using assms i h n exists_sim [OF p] keyed_add [OF t(1) i]
    by (auto simp: alike_def db_create_device_def create_device_def table_defs identity_sim_def tokens_sim_def find_append
        split: option.split)
qed

lemma alike_device_reads: "identity_sim s d \<Longrightarrow> alike (DevicesOf c) s d" "identity_sim s d \<Longrightarrow> alike (FindDevice c i) s d"
proof -
  assume sim: "identity_sim s d"
  note t = tokens_simD(1) [OF sim]
  show "alike (DevicesOf c) s d" using sim by (simp add: alike_def db_devices_def devices_of_def keyed_rows [OF t])
  have "db_device d c i = device_of s c i"
    unfolding db_device_def device_of_def keyed_lookup [OF t] using t by (intro find_and) (simp add: keyed_def)
  then show "alike (FindDevice c i) s d" using sim by (simp add: alike_def)
qed

lemma alike_drop_devices: "identity_sim s d \<Longrightarrow> alike (DropDevicesOf now c u) s d"
proof -
  assume sim: "identity_sim s d"
  note t = tokens_simD(1) [OF sim]
  let ?hit = "\<lambda>v. de_company v = c \<and> de_user v = u \<and> de_revoked_at v = None"
  have "keyed de_id (map (\<lambda>(i, v). (i, if ?hit v then v\<lparr>de_revoked_at := Some now\<rparr> else v)) (devices s))
      (update_where ?hit (\<lambda>v. v\<lparr>de_revoked_at := Some now\<rparr>) (t_devices d))"
    unfolding update_where_def by (rule keyed_map [OF t]) simp
  moreover have "length (filter (\<lambda>(_, v). ?hit v) (devices s)) = length (filter ?hit (t_devices d))"
    using t by (simp add: keyed_def filter_map comp_def)
  ultimately show ?thesis
    using sim by (simp add: alike_def db_revoke_user_devices_def revoke_user_devices_def Let_def devices_changed)
qed

lemma keyed_found: "keyed key al rows \<Longrightarrow> map_of al k = Some r \<Longrightarrow> key r = k \<and> r \<in> set rows"
  by (auto simp: keyed_lookup dest: find_row)

lemma keyed_unchanged:
  assumes "keyed key al rows" "\<And>r. map_of al k = Some r \<Longrightarrow> \<not> P r"
  shows "update_where (\<lambda>q. key q = k \<and> P q) f rows = rows"
proof (rule update_nowhere)
  fix q
  assume q: "q \<in> set rows"
  show "\<not> (key q = k \<and> P q)"
    using keyed_absent [OF assms(1) _ q, of k] keyed_unique [OF assms(1) _ q] assms(2) by (cases "map_of al k") auto
qed

text \<open>The row of a key, changed when it satisfies a condition.\<close>

definition change_at :: "'k \<Rightarrow> ('r \<Rightarrow> bool) \<Rightarrow> ('r \<Rightarrow> 'r) \<Rightarrow> ('k \<times> 'r) list \<Rightarrow> ('k \<times> 'r) list" where
  "change_at k P f al = (case map_of al k of Some r \<Rightarrow> if P r then AList.update k (f r) al else al | None \<Rightarrow> al)"

lemma keyed_change_at:
  assumes "keyed key al rows" "\<And>r. key (f r) = key r"
  shows "keyed key (change_at k P f al) (update_where (\<lambda>q. key q = k \<and> P q) f rows)"
proof (cases "\<exists>r. map_of al k = Some r \<and> P r")
  case True
  then obtain r where r: "map_of al k = Some r" "P r" by blast
  then show ?thesis
    using keyed_change [of key al rows k r P f, OF assms(1) r] keyed_found [OF assms(1) r(1)] assms(2) by (simp add: change_at_def)
next
  case False
  then have "update_where (\<lambda>q. key q = k \<and> P q) f rows = rows" by (intro keyed_unchanged [OF assms(1)]) blast
  then show ?thesis using False assms(1) by (auto simp: change_at_def split: option.split)
qed

lemma map_of_change_at:
  "map_of (change_at k P f al) k = map_option (\<lambda>r. if P r then f r else r) (map_of al k)"
  by (simp add: change_at_def update_conv' split: option.split)

lemma keyed_hit: "keyed key al rows \<Longrightarrow> list_ex (\<lambda>q. P q \<and> key q = k) rows \<longleftrightarrow> (\<exists>r. map_of al k = Some r \<and> P r)"
  using keyed_unique [of key al rows] keyed_found [of key al rows] keyed_absent [of key al rows k]
  by (cases "map_of al k") (auto simp: list_ex_iff)

lemma alike_drop_device: "identity_sim s d \<Longrightarrow> alike (DropDevice now c i) s d"
proof -
  assume sim: "identity_sim s d"
  note t = tokens_simD(1) [OF sim]
  let ?P = "\<lambda>v. de_company v = c"
  let ?f = "\<lambda>v. v\<lparr>de_revoked_at := Some (case de_revoked_at v of Some r \<Rightarrow> r | None \<Rightarrow> now)\<rparr>"
  let ?al = "change_at i ?P ?f (devices s)"
  have k: "keyed de_id ?al (update_where (\<lambda>v. de_id v = i \<and> ?P v) ?f (t_devices d))" by (rule keyed_change_at [OF t]) simp
  have f: "?f v = (if de_revoked_at v = None then v\<lparr>de_revoked_at := Some now\<rparr> else v)" for v by (auto split: option.split)
  have "revoke_device now c i s = (Option.bind (map_of ?al i) (\<lambda>v. if ?P v then Some v else None), s\<lparr>devices := ?al\<rparr>)"
    unfolding map_of_change_at by (auto simp: revoke_device_def change_at_def f Let_def split: option.split)
  moreover have "db_revoke_device now c i d = (Option.bind (map_of ?al i) (\<lambda>v. if ?P v then Some v else None),
      d\<lparr>t_devices := update_where (\<lambda>v. de_id v = i \<and> ?P v) ?f (t_devices d)\<rparr>)"
    using k find_and [of de_id "update_where (\<lambda>v. de_id v = i \<and> ?P v) ?f (t_devices d)" i ?P]
    by (simp add: db_revoke_device_def db_device_def keyed_lookup [OF k] Let_def) (simp add: keyed_def)
  moreover have "identity_sim (s\<lparr>devices := ?al\<rparr>) (d\<lparr>t_devices := update_where (\<lambda>v. de_id v = i \<and> ?P v) ?f (t_devices d)\<rparr>)"
    by (rule devices_changed [OF sim k]) simp_all
  ultimately show ?thesis by (simp add: alike_def)
qed

lemma alike_seen: "identity_sim s d \<Longrightarrow> alike (SeenDevice i t0 t1) s d"
proof -
  assume sim: "identity_sim s d"
  let ?P = "\<lambda>v. case de_last_seen_at v of None \<Rightarrow> True | Some seen \<Rightarrow> seen < t1"
  let ?f = "\<lambda>v. v\<lparr>de_last_seen_at := Some t0\<rparr>"
  have k: "keyed de_id (change_at i ?P ?f (devices s)) (update_where (\<lambda>v. de_id v = i \<and> ?P v) ?f (t_devices d))"
    by (rule keyed_change_at [OF tokens_simD(1) [OF sim]]) simp
  have "touch_device_seen i t0 t1 s = s\<lparr>devices := change_at i ?P ?f (devices s)\<rparr>"
    by (simp add: touch_device_seen_def change_at_def split: option.split)
  moreover have "identity_sim (s\<lparr>devices := change_at i ?P ?f (devices s)\<rparr>)
      (d\<lparr>t_devices := update_where (\<lambda>v. de_id v = i \<and> ?P v) ?f (t_devices d)\<rparr>)"
    by (rule devices_changed [OF sim k]) simp_all
  ultimately show ?thesis by (simp add: alike_def db_touch_device_seen_def)
qed

section \<open>Invitations and links\<close>

lemma alike_add_invitation:
  assumes "identity_sim s d" "call_admitted (AddInvitation n) s"
  shows "alike (AddInvitation n) s d"
proof -
  have p: "people_sim s d" using assms(1) by (simp add: identity_sim_def)
  note t = tokens_simD(6) [OF assms(1)]
  have i: "in_id n \<notin> in_id ` set (t_invitations d)" using assms(2) by (simp add: keyed_lookup [OF t] find_None_key)
  have h: "in_token_hash n \<notin> in_token_hash ` set (t_invitations d)"
    using assms(2) by (simp add: invitation_by_hash_def keyed_rows [OF t] find_None_key)
  moreover have "\<not> list_ex (\<lambda>(_, e). in_token_hash e = in_token_hash n) (invitations s)"
    using h t by (auto simp: keyed_def list_ex_iff) (metis image_eqI snd_conv)
  ultimately show ?thesis
    using assms i exists_sim [OF p] keyed_add [OF t i]
    by (auto simp: alike_def db_create_invitation_def create_invitation_def table_defs opt_ref_def identity_sim_def tokens_sim_def)
qed

lemma alike_accept:
  assumes "identity_sim s d" "users s u \<noteq> None" "map_of (invitations s) i \<noteq> None"
  shows "alike (AcceptWith i u) s d"
proof -
  have p: "people_sim s d" using assms(1) by (simp add: identity_sim_def)
  note t = tokens_simD(6) [OF assms(1)]
  obtain n where n: "map_of (invitations s) i = Some n" using assms(3) by blast
  have "keyed in_id (AList.update i (n\<lparr>in_accepted_by := Some u\<rparr>) (invitations s))
      (update_where (\<lambda>r. in_id r = i) (\<lambda>r. r\<lparr>in_accepted_by := Some u\<rparr>) (t_invitations d))"
    using keyed_change [OF t n, of "\<lambda>_. True" "\<lambda>r. r\<lparr>in_accepted_by := Some u\<rparr>"] keyed_found [OF t n] by simp
  then show ?thesis
    using assms n exists_sim [OF p]
    by (auto simp: alike_def db_mark_invitation_accepted_def mark_invitation_accepted_def table_defs identity_sim_def tokens_sim_def)
qed

lemma alike_add_portal:
  assumes "identity_sim s d" "call_admitted (AddPortal l) s"
  shows "alike (AddPortal l) s d"
proof -
  have p: "people_sim s d" using assms(1) by (simp add: identity_sim_def)
  note t = tokens_simD(7) [OF assms(1)]
  have i: "pl_id l \<notin> pl_id ` set (t_portal_links d)" using assms(2) by (simp add: keyed_lookup [OF t] find_None_key)
  have "pl_token_hash l \<notin> pl_token_hash ` set (t_portal_links d)"
    using assms(2) by (simp add: portal_link_by_hash_def keyed_rows [OF t] find_None_key)
  then show ?thesis
    using assms i exists_sim [OF p] keyed_add [OF t i]
    by (auto simp: alike_def db_create_portal_link_def create_portal_link_def table_defs identity_sim_def tokens_sim_def)
qed

lemma alike_add_pay:
  assumes "identity_sim s d" "call_admitted (AddPay l) s"
  shows "alike (AddPay l) s d"
proof -
  have p: "people_sim s d" using assms(1) by (simp add: identity_sim_def)
  note t = tokens_simD(8) [OF assms(1)]
  have i: "yl_id l \<notin> yl_id ` set (t_pay_links d)" using assms(2) by (simp add: keyed_lookup [OF t] find_None_key)
  have "yl_token_hash l \<notin> yl_token_hash ` set (t_pay_links d)"
    using assms(2) by (simp add: pay_link_by_hash_def keyed_rows [OF t] find_None_key)
  then show ?thesis
    using assms i exists_sim [OF p] keyed_add [OF t i]
    by (auto simp: alike_def db_create_pay_link_def create_pay_link_def table_defs identity_sim_def tokens_sim_def)
qed

lemma alike_drop_links: "identity_sim s d \<Longrightarrow> alike (DropPortal now c i) s d" "identity_sim s d \<Longrightarrow> alike (DropPay now c i) s d"
proof -
  assume sim: "identity_sim s d"
  note t = tokens_simD(7,8) [OF sim]
  have swap: "(\<lambda>l. P l \<and> Q l) = (\<lambda>l. Q l \<and> P l)" for P Q :: "'x \<Rightarrow> bool" by auto
  let ?f = "\<lambda>l. l\<lparr>pl_revoked_at := Some (case pl_revoked_at l of Some t \<Rightarrow> t | None \<Rightarrow> now)\<rparr>"
  have "keyed pl_id (change_at i (\<lambda>l. pl_company l = c) ?f (portal_links s))
      (update_where (\<lambda>l. pl_id l = i \<and> pl_company l = c) ?f (t_portal_links d))"
    by (rule keyed_change_at [OF t(1)]) simp
  moreover have "revoke_portal_link now c i s =
      (\<exists>l. map_of (portal_links s) i = Some l \<and> pl_company l = c, s\<lparr>portal_links := change_at i (\<lambda>l. pl_company l = c) ?f (portal_links s)\<rparr>)"
    by (auto simp: revoke_portal_link_def change_at_def split: option.split)
  ultimately show "alike (DropPortal now c i) s d"
    using sim keyed_hit [OF t(1), of "\<lambda>l. pl_company l = c" i]
    by (auto simp: alike_def db_revoke_portal_link_def Let_def swap [of "\<lambda>l. pl_company l = c"] identity_sim_def tokens_sim_def)
  let ?g = "\<lambda>l. l\<lparr>yl_revoked_at := Some (case yl_revoked_at l of Some t \<Rightarrow> t | None \<Rightarrow> now)\<rparr>"
  have "keyed yl_id (change_at i (\<lambda>l. yl_company l = c) ?g (pay_links s))
      (update_where (\<lambda>l. yl_id l = i \<and> yl_company l = c) ?g (t_pay_links d))"
    by (rule keyed_change_at [OF t(2)]) simp
  moreover have "revoke_pay_link now c i s =
      (\<exists>l. map_of (pay_links s) i = Some l \<and> yl_company l = c, s\<lparr>pay_links := change_at i (\<lambda>l. yl_company l = c) ?g (pay_links s)\<rparr>)"
    by (auto simp: revoke_pay_link_def change_at_def split: option.split)
  ultimately show "alike (DropPay now c i) s d"
    using sim keyed_hit [OF t(2), of "\<lambda>l. yl_company l = c" i]
    by (auto simp: alike_def db_revoke_pay_link_def Let_def swap [of "\<lambda>l. yl_company l = c"] identity_sim_def tokens_sim_def)
qed

section \<open>Records and reads\<close>

lemma alike_add_blob:
  assumes "identity_sim s d" "companies s c \<noteq> None"
  shows "alike (AddBlob c h bytes) s d"
proof -
  have p: "people_sim s d" using assms(1) by (simp add: identity_sim_def)
  have b: "blobs s (c, h) = map_option (\<lambda>b. snd (snd b)) (find (\<lambda>b. blob_key b = (c, h)) (t_blobs d))"
    using assms(1) by (simp add: identity_sim_def records_sim_def)
  have k: "blob_key (c, h, bytes) = (c, h)" by (simp add: blob_key_def)
  show ?thesis
  proof (cases "find (\<lambda>b. blob_key b = (c, h)) (t_blobs d)")
    case None
    then have "(c, h) \<notin> blob_key ` set (t_blobs d)" by (simp add: find_None_key)
    then show ?thesis
      using assms b None exists_sim [OF p]
      by (auto simp: alike_def db_put_blob_def put_blob_def table_defs k identity_sim_def records_sim_def find_append split: option.split)
  next
    case (Some v)
    then have "(c, h) \<in> blob_key ` set (t_blobs d)" using find_row [OF Some] by (metis image_eqI)
    then show ?thesis
      using assms b Some exists_sim [OF p] by (simp add: alike_def db_put_blob_def put_blob_def table_defs k)
  qed
qed

lemma alike_records:
  assumes "identity_sim s d"
  shows "call_admitted (AddAudit e) s \<Longrightarrow> alike (AddAudit e) s d" "call_admitted (AddWebhook ev) s \<Longrightarrow> alike (AddWebhook ev) s d"
proof -
  have p: "people_sim s d" "tokens_sim s d" using assms by (simp_all add: identity_sim_def)
  note ex = exists_sim [OF p(1)] device_exists_sim [OF p(2)]
  show "call_admitted (AddAudit e) s \<Longrightarrow> alike (AddAudit e) s d"
    using assms
    by (auto simp: alike_def db_append_audit_def insert_audit_def append_audit_def table_defs identity_sim_def records_sim_def opt_ref_def ex
        split: option.splits)
  show "call_admitted (AddWebhook ev) s \<Longrightarrow> alike (AddWebhook ev) s d"
    using assms by (auto simp: alike_def db_insert_webhook_event_def insert_webhook_event_def table_defs identity_sim_def records_sim_def)
qed

lemma alike_reads:
  assumes "identity_sim s d"
  shows "alike (FindCompany c) s d" "alike (FindInvitation h) s d" "alike (FindBlob c h) s d" "alike (AskBlob c h) s d"
    "alike (CountWebhooks kd pr) s d" "alike (PortalsOf c) s d" "alike (FindPortal h) s d" "alike (PaysOf c) s d" "alike (FindPay h) s d"
proof -
  have p: "companies s c = find (\<lambda>r. co_id r = c) (t_companies d)" "t_webhook_events d = webhooks s"
    "blobs s (c, h) = map_option (\<lambda>b. snd (snd b)) (find (\<lambda>b. blob_key b = (c, h)) (t_blobs d))"
    using assms by (auto simp: identity_sim_def people_sim_def records_sim_def)
  note t = tokens_simD [OF assms]
  show "alike (FindCompany c) s d" "alike (FindInvitation h) s d" "alike (FindBlob c h) s d" "alike (AskBlob c h) s d"
    "alike (CountWebhooks kd pr) s d" "alike (PortalsOf c) s d" "alike (FindPortal h) s d" "alike (PaysOf c) s d" "alike (FindPay h) s d"
    using assms p
    by (simp_all add: alike_def db_company_def company_of_def db_invitation_by_hash_def invitation_by_hash_def db_get_blob_def get_blob_def
        db_has_blob_def has_blob_def db_count_webhook_events_def count_webhook_events_def db_portal_links_def portal_links_of_def
        db_portal_link_by_hash_def portal_link_by_hash_def db_pay_links_def pay_links_of_def db_pay_link_by_hash_def pay_link_by_hash_def
        keyed_rows [OF t(6)] keyed_rows [OF t(7)] keyed_rows [OF t(8)] find_None_key)
qed

text \<open>Listings by time: rows that came in the order of their times are sorted as they stand, or backwards.\<close>

lemma sort_by_time:
  fixes tm :: "'r \<Rightarrow> int" and key :: "'r \<Rightarrow> 'k :: linorder"
  assumes "sorted_wrt (\<lambda>a b. tm a < tm b) rs"
  shows "sort_key (\<lambda>r. (tm r, key r)) rs = rs" "sort_key (\<lambda>r. (- tm r, key r)) rs = rev rs"
proof -
  have up: "sorted_wrt (\<lambda>a b. (tm a, key a) < (tm b, key b)) rs"
    using assms by (rule sorted_wrt_mono_rel [rotated]) simp
  then have "sorted (map (\<lambda>r. (tm r, key r)) rs)" unfolding sorted_map by (rule sorted_wrt_mono_rel [rotated]) auto
  then show "sort_key (\<lambda>r. (tm r, key r)) rs = rs" by (rule sort_key_id_if_sorted)
  have down: "sorted_wrt (\<lambda>a b. (- tm a, key a) < (- tm b, key b)) (rev rs)"
    using assms unfolding sorted_wrt_rev by (rule sorted_wrt_mono_rel [rotated]) simp
  then have s: "sorted (map (\<lambda>r. (- tm r, key r)) (rev rs))" unfolding sorted_map by (rule sorted_wrt_mono_rel [rotated]) auto
  have "sorted_wrt (<) (map tm rs)" using assms by (simp add: sorted_wrt_map)
  then have "inj_on tm (set rs)" by (simp add: strict_sorted_iff distinct_map)
  then have "inj_on (\<lambda>r. (- tm r, key r)) (set rs)" by (simp add: inj_on_def)
  then show "sort_key (\<lambda>r. (- tm r, key r)) rs = rev rs"
    using s by (intro sort_key_inj_key_eq) auto
qed

lemma alike_listings:
  assumes "identity_sim s d"
  shows "call_admitted (AuditPage c n) s \<Longrightarrow> alike (AuditPage c n) s d" "call_admitted AllWebhooks s \<Longrightarrow> alike AllWebhooks s d"
proof -
  have p: "t_audit_log d = audit s" "t_webhook_events d = webhooks s" using assms by (auto simp: identity_sim_def records_sim_def)
  show "call_admitted (AuditPage c n) s \<Longrightarrow> alike (AuditPage c n) s d"
    using assms by (simp add: alike_def answered_def db_recent_audit_def recent_audit_def p sort_by_time sql_limit_def ok_or_def rev_filter)
  show "call_admitted AllWebhooks s \<Longrightarrow> alike AllWebhooks s d"
    using assms by (simp add: alike_def db_webhook_events_def webhook_events_def p sort_by_time)
qed

section \<open>Sequences of calls\<close>

lemma identity_step_alike: "identity_sim s d \<Longrightarrow> call_admitted k s \<Longrightarrow> alike k s d"
  by (cases k)
    (simp_all add: alike_company alike_user alike_member alike_role alike_members alike_drop_member alike_set_role alike_drop_devices
      alike_add_token alike_resolve alike_drop_token alike_add_invitation alike_accept alike_add_device alike_device_reads
      alike_drop_device alike_seen alike_add_blob alike_records alike_add_portal alike_add_pay alike_drop_links alike_reads
      alike_listings)

definition identity_related :: "identity_call list \<Rightarrow> inner \<Rightarrow> db \<Rightarrow> bool" where
  "identity_related ks s d \<longleftrightarrow> identity_sim s d \<and> calls_admitted ks s"

interpretation identity_calls: answers_alike mem_identity_step db_identity_step identity_related "\<lambda>d e. books_tables e = books_tables d"
proof
  fix k ks s d
  assume r: "identity_related (k # ks) s d"
  then have a: "alike k s d" using identity_step_alike by (simp add: identity_related_def)
  then show "fst (db_identity_step k d) = fst (mem_identity_step k s)" "books_tables (snd (db_identity_step k d)) = books_tables d"
    by (simp_all add: alike_def)
  show "identity_related ks (snd (mem_identity_step k s)) (snd (db_identity_step k d))"
    using r a by (simp add: identity_related_def alike_def)
qed simp_all

text \<open>C39. The PostgreSQL store and the memory store agree on identities: on related states any sequence of calls on companies, users,
  members, tokens, devices, invitations, blobs, audit entries, webhook events and links is answered the same by both, the stores stay related,
  and the books of no company change, provided that new ids and token hashes are new, references lead to rows, and the audit entries or webhook
  events that a call lists came at increasing instants: entries of one instant PostgreSQL lists by their id, the memory store as they came.\<close>

theorem stores_agree_on_identity:
  assumes "identity_sim s d" "calls_admitted ks s"
  shows "fst (run_calls db_identity_step ks d) = fst (run_calls mem_identity_step ks s)
    \<and> identity_sim (snd (run_calls mem_identity_step ks s)) (snd (run_calls db_identity_step ks d))
    \<and> books_tables (snd (run_calls db_identity_step ks d)) = books_tables d"
  using identity_calls.calls_alike [of ks s d] assms by (simp add: identity_related_def)

end
