(* ===== verification/Witnesses_Identity.thy ===== *)
theory Witnesses_Identity
  imports Witnesses_Pg Pg_Identity_Refines
begin

text \<open>
  Instance for the identity calls of the two stores: a new company is set up on both, its owner signs in, a device is registered and
  revoked, every token is resolved, and the audit feed is read.
\<close>

definition till :: device where
  "till = \<lparr>de_id = ''d1'', de_company = ''co'', de_user = ''u1'', de_name = ''Till'', de_token_hash = ''t2'', de_created_at = 0,
     de_revoked_at = None, de_last_seen_at = None\<rparr>"

definition noted :: "uuid \<Rightarrow> int \<Rightarrow> audit_entry" where
  "noted i now = \<lparr>au_id = i, au_company = ''co'', au_user = Some ''u1'', au_device = None, au_action = ''note'', au_detail = JNull, au_at = now\<rparr>"

definition set_up :: "identity_call list" where
  "set_up = [AddCompany 0 ''co'' ''Acme'', AddUser 0 ''u1'' ''ann@acme'' ''Ann'', AddMember 0 ''u1'' ''co'' Owner,
     AddToken ''t1'' ''u1'' ''co'' None, AddDevice till, Resolve 1 ''t2'', DropDevice 2 ''co'' ''d1'', Resolve 3 ''t2'', Resolve 3 ''t1'',
     AddAudit (noted ''a9'' 4), AddAudit (noted ''a1'' 5), AuditPage ''co'' 10]"

lemma new_stores_alike: "identity_sim empty_store empty_db"
  by (simp add: identity_sim_def people_sim_def tokens_sim_def records_sim_def keyed_def empty_store_def empty_db_def)

lemmas mem_set_up_simps = empty_store_def till_def create_company_def upsert_user_def upsert_membership_def insert_user_token_def
  create_device_def resolve_token_def revoke_device_def append_audit_def recent_audit_def noted_def opt_ref_def Let_def

lemma set_up_admitted: "calls_admitted set_up empty_store"
  by (simp add: set_up_def mem_set_up_simps)

lemma set_up_answers: "drop 5 (fst (run_calls mem_identity_step set_up empty_store)) =
    [TheIdentity (Some \<lparr>ti_user = ''u1'', ti_company = ''co'', ti_device = Some ''d1''\<rparr>), TheDevice (Some (till\<lparr>de_revoked_at := Some 2\<rparr>)),
     TheIdentity None, TheIdentity (Some \<lparr>ti_user = ''u1'', ti_company = ''co'', ti_device = None\<rparr>),
     Done, Done, TheAudit [noted ''a1'' 5, noted ''a9'' 4]]"
  by (simp add: set_up_def mem_set_up_simps)

theorem stores_agree_on_identity_witness:
  "identity_sim empty_store empty_db \<and> calls_admitted set_up empty_store
    \<and> drop 5 (fst (run_calls db_identity_step set_up empty_db)) =
      [TheIdentity (Some \<lparr>ti_user = ''u1'', ti_company = ''co'', ti_device = Some ''d1''\<rparr>), TheDevice (Some (till\<lparr>de_revoked_at := Some 2\<rparr>)),
       TheIdentity None, TheIdentity (Some \<lparr>ti_user = ''u1'', ti_company = ''co'', ti_device = None\<rparr>),
       Done, Done, TheAudit [noted ''a1'' 5, noted ''a9'' 4]]
    \<and> books_tables (snd (run_calls db_identity_step set_up empty_db)) = books_tables empty_db"
  using stores_agree_on_identity [OF new_stores_alike set_up_admitted] new_stores_alike set_up_admitted set_up_answers by simp

end
