(* ===== verification/Protocol.thy ===== *)
theory Protocol
  imports Api_Sync
begin

text \<open>
  \<^verbatim>\<open>src/src/protocol.rs\<close>: the protocol level of clients. The middleware answers a client below the
  server's minimum before its request reaches any handler.
\<close>

definition PROTOCOL :: nat where
  "PROTOCOL = 3"

definition UNVERSIONED :: nat where
  "UNVERSIONED = 0"

definition DEFAULT_MIN_CLIENT_PROTOCOL :: nat where
  "DEFAULT_MIN_CLIENT_PROTOCOL = 0"

definition parse_min :: "string option \<Rightarrow> nat" where
  "parse_min raw = min (case Option.bind raw (\<lambda>v. parse_u32 (trim v)) of
       Some n \<Rightarrow> n | None \<Rightarrow> DEFAULT_MIN_CLIENT_PROTOCOL) PROTOCOL"

definition min_client_protocol :: "vars \<Rightarrow> nat" where
  "min_client_protocol vars = parse_min (vars ''ATLAS_MIN_CLIENT_PROTOCOL'')"

definition is_client_plane :: "string \<Rightarrow> bool" where
  "is_client_plane path \<longleftrightarrow> starts_with path ''/companies'' \<or> starts_with path ''/invitations''"

datatype refusal_reason = NotANumber | TooOld nat nat

text \<open>The status and the message of a refusal.\<close>

definition refusal :: "string option \<Rightarrow> nat \<Rightarrow> (nat \<times> refusal_reason) option" where
  "refusal client least =
     (case (case client of None \<Rightarrow> Some UNVERSIONED | Some raw \<Rightarrow> parse_u32 (trim raw)) of
        None \<Rightarrow> Some (400, NotANumber)
      | Some level \<Rightarrow> if level < least then Some (426, TooOld level least) else None)"

text \<open>The middleware around the rest of the server; \<open>client\<close> is the header, ``?'' when it is not text.\<close>

definition enforce_protocol ::
  "vars \<Rightarrow> string \<Rightarrow> string option \<Rightarrow> ('s \<Rightarrow> 'r \<times> 's) \<Rightarrow> 's \<Rightarrow> ((nat \<times> refusal_reason) + 'r) \<times> 's" where
  "enforce_protocol vars path client rest s =
     (case (if is_client_plane path then refusal client (min_client_protocol vars) else None) of
        Some r \<Rightarrow> (Inl r, s)
      | None \<Rightarrow> (Inr (fst (rest s)), snd (rest s)))"

text \<open>A server never asks for more than it speaks, and an outdated client changes nothing.\<close>

lemma parse_min_le: "parse_min raw \<le> PROTOCOL"
  by (simp add: parse_min_def)

lemma outdated_changes_nothing:
  assumes "is_client_plane path" "case client of None \<Rightarrow> 0 < min_client_protocol vars
    | Some raw \<Rightarrow> \<exists>n. parse_u32 (trim raw) = Some n \<and> n < min_client_protocol vars"
  shows "\<exists>r. enforce_protocol vars path client rest s = (Inl (426, r), s)"
  using assms by (auto simp: enforce_protocol_def refusal_def UNVERSIONED_def split: option.splits)

end
