(* ===== verification/Server.thy ===== *)
theory Server
  imports Pay Limit Protocol
begin

text \<open>
  The server as a whole: \<open>router\<close> and \<open>request_log\<close> of \<^verbatim>\<open>src/src/api.rs\<close>, the route tables of
  \<^verbatim>\<open>portal.rs\<close> and \<^verbatim>\<open>pay.rs\<close>, the response of an error (\<^verbatim>\<open>error.rs\<close>) and the health endpoints. A
  request goes through the request log, the protocol gate and the rate limiter of its route to its handler,
  whose extractors authenticate the caller and cap the body.

  The web framework matches a path against the routes and decodes path, query and body. Here a
  request carries its path as sent and the call that comes out of this decoding; a request that matches no route, or
  does not decode, reaches no handler and is not a call.
\<close>

section \<open>Calls and routes\<close>

datatype (plugins only: code size) api_call =
    Health
  | Ready
  | ProtocolInfo
  | CreateCompany create_company_request
  | AcceptInvitation string string
  | CreateInvitation uuid string role
  | RegisterDevice uuid string
  | ListDevices uuid
  | RevokeDevice uuid uuid
  | RotateUserToken uuid
  | ListMembers uuid
  | RemoveMember uuid uuid
  | ChangeMemberRole uuid uuid string
  | SyncPush uuid "mutation_record list"
  | SyncPull uuid "int option" "int option"
  | SyncAck uuid "string list"
  | SyncHistory uuid "int option"
  | PutBlob uuid string string
  | GetBlob uuid string
  | HeadBlob uuid string
  | ReadAudit uuid "int option"
  | PutSettings uuid json
  | GetSettings uuid
  | UpsertItem uuid item
  | SubmitDocument uuid submit_command
  | CancelDocument uuid cancel_command
  | ImportSoloOpening uuid solo_opening_command
  | ReportLostHistory uuid lost_history_report
  | SetBooksLock uuid set_books_lock_request
  | CreatePortalLink uuid create_portal_link_request
  | ListPortalLinks uuid
  | RevokePortalLink uuid uuid
  | CreatePayLink uuid create_pay_link_request
  | ListPayLinks uuid
  | RevokePayLink uuid uuid
  | WebhookPayment string string
  | WebhookChannel string string
  | StripeWebhook string
  | PortalSummary string
  | PortalDocument string string string
  | QuoteAccept string string
  | QuoteReject string string
  | PortalGlCsv string
  | PortalAudit string "int option"
  | PayPage string

datatype http_method = Get | Post | Put | Delete | Head

text \<open>A segment of a route: a word, or a parameter and the value it has in the call.\<close>

datatype segment = Word string | Param string

definition company_route :: "uuid \<Rightarrow> segment list \<Rightarrow> segment list" where
  "company_route c rest = Word ''companies'' # Param c # rest"

definition portal_route :: "string \<Rightarrow> segment list \<Rightarrow> segment list" where
  "portal_route token rest = Word ''portal'' # Param token # rest"

fun route :: "api_call \<Rightarrow> http_method \<times> segment list" where
  "route Health = (Get, [Word ''health''])"
| "route Ready = (Get, [Word ''ready''])"
| "route ProtocolInfo = (Get, [Word ''protocol''])"
| "route (CreateCompany _) = (Post, [Word ''companies''])"
| "route (AcceptInvitation token _) = (Post, [Word ''invitations'', Param token, Word ''accept''])"
| "route (CreateInvitation c _ _) = (Post, company_route c [Word ''invitations''])"
| "route (RegisterDevice c _) = (Post, company_route c [Word ''devices''])"
| "route (ListDevices c) = (Get, company_route c [Word ''devices''])"
| "route (RevokeDevice c d) = (Post, company_route c [Word ''devices'', Param d, Word ''revoke''])"
| "route (RotateUserToken c) = (Post, company_route c [Word ''tokens'', Word ''rotate''])"
| "route (ListMembers c) = (Get, company_route c [Word ''members''])"
| "route (RemoveMember c u) = (Delete, company_route c [Word ''members'', Param u])"
| "route (ChangeMemberRole c u _) = (Post, company_route c [Word ''members'', Param u, Word ''role''])"
| "route (SyncPush c _) = (Post, company_route c [Word ''sync'', Word ''push''])"
| "route (SyncPull c _ _) = (Get, company_route c [Word ''sync'', Word ''pull''])"
| "route (SyncAck c _) = (Post, company_route c [Word ''sync'', Word ''ack''])"
| "route (SyncHistory c _) = (Get, company_route c [Word ''sync'', Word ''history''])"
| "route (PutBlob c h _) = (Put, company_route c [Word ''blobs'', Param h])"
| "route (GetBlob c h) = (Get, company_route c [Word ''blobs'', Param h])"
| "route (HeadBlob c h) = (Head, company_route c [Word ''blobs'', Param h])"
| "route (ReadAudit c _) = (Get, company_route c [Word ''audit''])"
| "route (PutSettings c _) = (Put, company_route c [Word ''settings''])"
| "route (GetSettings c) = (Get, company_route c [Word ''settings''])"
| "route (UpsertItem c _) = (Post, company_route c [Word ''items''])"
| "route (SubmitDocument c _) = (Post, company_route c [Word ''commands'', Word ''submit-document''])"
| "route (CancelDocument c _) = (Post, company_route c [Word ''commands'', Word ''cancel-document''])"
| "route (ImportSoloOpening c _) = (Post, company_route c [Word ''commands'', Word ''import-solo-opening''])"
| "route (ReportLostHistory c _) = (Post, company_route c [Word ''commands'', Word ''report-lost-history''])"
| "route (SetBooksLock c _) = (Post, company_route c [Word ''commands'', Word ''set-books-lock''])"
| "route (CreatePortalLink c _) = (Post, company_route c [Word ''portal-links''])"
| "route (ListPortalLinks c) = (Get, company_route c [Word ''portal-links''])"
| "route (RevokePortalLink c l) = (Delete, company_route c [Word ''portal-links'', Param l])"
| "route (CreatePayLink c _) = (Post, company_route c [Word ''pay-links''])"
| "route (ListPayLinks c) = (Get, company_route c [Word ''pay-links''])"
| "route (RevokePayLink c l) = (Delete, company_route c [Word ''pay-links'', Param l])"
| "route (WebhookPayment provider _) = (Post, [Word ''webhooks'', Word ''payments'', Param provider])"
| "route (WebhookChannel connector _) = (Post, [Word ''webhooks'', Word ''channels'', Param connector])"
| "route (StripeWebhook _) = (Post, [Word ''webhooks'', Word ''payments'', Word ''stripe''])"
| "route (PortalSummary token) = (Get, portal_route token [])"
| "route (PortalDocument token doctype d) = (Get, portal_route token [Word ''documents'', Param doctype, Param d])"
| "route (QuoteAccept token q) = (Post, portal_route token [Word ''quotations'', Param q, Word ''accept''])"
| "route (QuoteReject token q) = (Post, portal_route token [Word ''quotations'', Param q, Word ''reject''])"
| "route (PortalGlCsv token) = (Get, portal_route token [Word ''gl.csv''])"
| "route (PortalAudit token _) = (Get, portal_route token [Word ''audit''])"
| "route (PayPage token) = (Get, [Word ''pay'', Param token])"

text \<open>The path of a request that was routed to a call: the words of the route, and one segment that is not empty per parameter.\<close>

fun segment_ok :: "segment \<Rightarrow> string \<Rightarrow> bool" where
  "segment_ok (Word l) seg \<longleftrightarrow> seg = l"
| "segment_ok (Param _) seg \<longleftrightarrow> seg \<noteq> []"

definition routed :: "api_call \<Rightarrow> string \<Rightarrow> bool" where
  "routed rc path \<longleftrightarrow> (\<exists>segs. split_on (CHR ''/'') path = [] # segs \<and> list_all2 segment_ok (snd (route rc)) segs)"

text \<open>The groups of \<open>router\<close> that a rate limiter wraps.\<close>

definition limiter_of :: "api_call \<Rightarrow> rl_class option" where
  "limiter_of rc = (case rc of
       CreateCompany _ \<Rightarrow> Some AuthClass
     | AcceptInvitation _ _ \<Rightarrow> Some AuthClass
     | WebhookPayment _ _ \<Rightarrow> Some WebhookClass
     | WebhookChannel _ _ \<Rightarrow> Some WebhookClass
     | StripeWebhook _ \<Rightarrow> Some WebhookClass
     | PortalSummary _ \<Rightarrow> Some PublicClass
     | PortalDocument _ _ _ \<Rightarrow> Some PublicClass
     | QuoteAccept _ _ \<Rightarrow> Some PublicClass
     | QuoteReject _ _ \<Rightarrow> Some PublicClass
     | PortalGlCsv _ \<Rightarrow> Some PublicClass
     | PortalAudit _ _ \<Rightarrow> Some PublicClass
     | PayPage _ \<Rightarrow> Some PublicClass
     | _ \<Rightarrow> None)"

section \<open>Handlers behind their extractors\<close>

record http_request =
  rq_path :: string
  rq_headers :: "(string \<times> string) list"
  rq_peer :: "string option"
  rq_length :: nat
  rq_fresh_id :: string

definition BOOTSTRAP_TOKEN_HEADER :: string where
  "BOOTSTRAP_TOKEN_HEADER = ''x-atlas-bootstrap-token''"

definition JSON_BODY_LIMIT_BYTES :: nat where
  "JSON_BODY_LIMIT_BYTES = 2 * 1024 * 1024"

definition DEFAULT_MAX_BLOB_MB :: nat where
  "DEFAULT_MAX_BLOB_MB = 25"

definition parse_usize :: "string \<Rightarrow> nat option" where
  "parse_usize s =
     (let r = (case s of c # t \<Rightarrow> if c = CHR ''+'' then t else s | [] \<Rightarrow> s) in
      if r \<noteq> [] \<and> list_all is_digit r \<and> read_nat r < 2 ^ 64 then Some (read_nat r) else None)"

text \<open>The product wraps, as in a release build.\<close>

definition max_blob_bytes :: "vars \<Rightarrow> nat" where
  "max_blob_bytes vars =
     (let mb = (case Option.bind (vars ''ATLAS_MAX_BLOB_MB'') (\<lambda>v. parse_usize (trim v)) of
          Some n \<Rightarrow> if 0 < n then n else DEFAULT_MAX_BLOB_MB
        | None \<Rightarrow> DEFAULT_MAX_BLOB_MB) in
      mb * 1024 * 1024 mod 2 ^ 64)"

text \<open>The extractors of a handler: \<open>AuthContext\<close> first, and the body last, which is refused with a 413 above the cap of the route.\<close>

definition with_auth :: "web \<Rightarrow> http_request \<Rightarrow> (token_identity \<Rightarrow> reply act) \<Rightarrow> reply act" where
  "with_auth w rq handler = chain_act (authenticate w (header_str (rq_headers rq) ''authorization'')) handler"

definition capped :: "nat \<Rightarrow> http_request \<Rightarrow> reply act \<Rightarrow> reply act" where
  "capped cap rq handler = (if cap < rq_length rq then give (413, NoBody) else handler)"

definition json_in :: "http_request \<Rightarrow> reply act \<Rightarrow> reply act" where
  "json_in rq handler = capped JSON_BODY_LIMIT_BYTES rq handler"

definition api_health :: "reply act" where
  "api_health = give (ok_json [(''status'', JStr ''ok'')])"

definition CARGO_PKG_VERSION :: string where
  "CARGO_PKG_VERSION = ''0.1.0''"

text \<open>The default of the trait, which the memory store keeps: no schema to report.\<close>

definition readiness :: "inner \<Rightarrow> store_error + int option" where
  "readiness s = Inr None"

definition api_ready :: "(inner \<Rightarrow> store_error + int option) \<Rightarrow> reply act" where
  "api_ready probe s = (case probe s of
       Inr schema_version \<Rightarrow>
         (Inr (ok_json [(''status'', JStr ''ready''), (''schemaVersion'', json_opt json_int schema_version),
            (''version'', JStr CARGO_PKG_VERSION), (''protocol'', json_int (int PROTOCOL))]), s)
     | Inl _ \<Rightarrow> (Inl (Unavailable DatabaseUnavailable), s))"

definition describe :: "vars \<Rightarrow> json" where
  "describe vars = JObj (obj_of
     [(''protocol'', json_int (int PROTOCOL)), (''minClientProtocol'', json_int (int (min_client_protocol vars))),
      (''version'', JStr CARGO_PKG_VERSION)])"

definition api_protocol :: "web \<Rightarrow> reply act" where
  "api_protocol w = give (200, JsonBody (describe (wb_vars w)))"

fun endpoint :: "web \<Rightarrow> (nat \<Rightarrow> inner \<Rightarrow> inner) \<Rightarrow> http_request \<Rightarrow> api_call \<Rightarrow> reply act" where
  "endpoint w e rq Health = api_health"
| "endpoint w e rq Ready = api_ready readiness"
| "endpoint w e rq ProtocolInfo = api_protocol w"
| "endpoint w e rq (CreateCompany req) =
     json_in rq (api_create_company w (header_str (rq_headers rq) BOOTSTRAP_TOKEN_HEADER) req)"
| "endpoint w e rq (AcceptInvitation token name) = json_in rq (api_accept_invitation w token name)"
| "endpoint w e rq (CreateInvitation c email r) = with_auth w rq (\<lambda>auth. json_in rq (api_create_invitation w auth c email r))"
| "endpoint w e rq (RegisterDevice c name) = with_auth w rq (\<lambda>auth. json_in rq (api_register_device w auth c name))"
| "endpoint w e rq (ListDevices c) = with_auth w rq (\<lambda>auth. api_list_devices w auth c)"
| "endpoint w e rq (RevokeDevice c d) = with_auth w rq (\<lambda>auth. api_revoke_device w auth c d)"
| "endpoint w e rq (RotateUserToken c) =
     with_auth w rq (\<lambda>auth. api_rotate_user_token w auth (header_str (rq_headers rq) ''authorization'') c)"
| "endpoint w e rq (ListMembers c) = with_auth w rq (\<lambda>auth. api_list_members w auth c)"
| "endpoint w e rq (RemoveMember c u) = with_auth w rq (\<lambda>auth. api_remove_member w auth c u)"
| "endpoint w e rq (ChangeMemberRole c u name) = with_auth w rq (\<lambda>auth. json_in rq (api_change_member_role w auth c u name))"
| "endpoint w e rq (SyncPush c ms) = with_auth w rq (\<lambda>auth. json_in rq (api_sync_push w auth c ms))"
| "endpoint w e rq (SyncPull c after n) = with_auth w rq (\<lambda>auth. api_sync_pull w auth c after n)"
| "endpoint w e rq (SyncAck c ids) = with_auth w rq (\<lambda>auth. json_in rq (api_sync_ack w auth c ids))"
| "endpoint w e rq (SyncHistory c v) = with_auth w rq (\<lambda>auth. api_sync_history w auth c v)"
| "endpoint w e rq (PutBlob c h bytes) = with_auth w rq (\<lambda>auth. capped (max_blob_bytes (wb_vars w)) rq (api_put_blob w auth c h bytes))"
| "endpoint w e rq (GetBlob c h) = with_auth w rq (\<lambda>auth. api_get_blob w auth c h)"
| "endpoint w e rq (HeadBlob c h) = with_auth w rq (\<lambda>auth. api_head_blob w auth c h)"
| "endpoint w e rq (ReadAudit c n) = with_auth w rq (\<lambda>auth. api_read_audit w auth c n)"
| "endpoint w e rq (PutSettings c patch) = with_auth w rq (\<lambda>auth. json_in rq (api_put_settings w auth c patch))"
| "endpoint w e rq (GetSettings c) = with_auth w rq (\<lambda>auth. api_get_settings w auth c)"
| "endpoint w e rq (UpsertItem c it) = with_auth w rq (\<lambda>auth. json_in rq (api_upsert_item w auth c it))"
| "endpoint w e rq (SubmitDocument c cmd) = with_auth w rq (\<lambda>auth. json_in rq (api_submit_document w e auth c cmd))"
| "endpoint w e rq (CancelDocument c cmd) = with_auth w rq (\<lambda>auth. json_in rq (api_cancel_document w e auth c cmd))"
| "endpoint w e rq (ImportSoloOpening c cmd) = with_auth w rq (\<lambda>auth. json_in rq (api_import_solo_opening w (e 0) auth c cmd))"
| "endpoint w e rq (ReportLostHistory c report) = with_auth w rq (\<lambda>auth. json_in rq (api_report_lost_history w auth c report))"
| "endpoint w e rq (SetBooksLock c req) = with_auth w rq (\<lambda>auth. json_in rq (api_set_books_lock w auth c req))"
| "endpoint w e rq (CreatePortalLink c req) = with_auth w rq (\<lambda>auth. json_in rq (portal_create_link w auth c req))"
| "endpoint w e rq (ListPortalLinks c) = with_auth w rq (\<lambda>auth. portal_list_links w auth c)"
| "endpoint w e rq (RevokePortalLink c l) = with_auth w rq (\<lambda>auth. portal_revoke_link w auth c l)"
| "endpoint w e rq (CreatePayLink c req) = with_auth w rq (\<lambda>auth. json_in rq (pay_create_link w auth c req))"
| "endpoint w e rq (ListPayLinks c) = with_auth w rq (\<lambda>auth. pay_list_links w auth c)"
| "endpoint w e rq (RevokePayLink c l) = with_auth w rq (\<lambda>auth. pay_revoke_link w auth c l)"
| "endpoint w e rq (WebhookPayment provider bytes) = json_in rq (webhook_payment w provider (rq_headers rq) bytes)"
| "endpoint w e rq (WebhookChannel connector bytes) = json_in rq (webhook_channel w connector (rq_headers rq) bytes)"
| "endpoint w e rq (StripeWebhook bytes) = json_in rq (stripe_webhook w e (rq_headers rq) bytes)"
| "endpoint w e rq (PortalSummary token) = portal_summary w token (rq_headers rq)"
| "endpoint w e rq (PortalDocument token doctype d) = portal_document w token doctype d (rq_headers rq)"
| "endpoint w e rq (QuoteAccept token q) = quote_accept w token q (rq_headers rq)"
| "endpoint w e rq (QuoteReject token q) = quote_reject w token q (rq_headers rq)"
| "endpoint w e rq (PortalGlCsv token) = portal_gl_csv w token"
| "endpoint w e rq (PortalAudit token n) = portal_audit w token n"
| "endpoint w e rq (PayPage token) = pay_page w token (rq_headers rq)"

section \<open>The middleware\<close>

text \<open>The response: an error is a JSON object with its message, here the error itself, and an exceeded budget says when to come back.\<close>

datatype content = Content body | ErrorContent api_error | Outdated refusal_reason nat

record response =
  rs_status :: nat
  rs_content :: content
  rs_retry_after :: "int option"
  rs_protocol :: "nat option"
  rs_request_id :: "string option"

definition retry_after :: "api_error \<Rightarrow> int option" where
  "retry_after err = (case err of TooManyRequests _ secs \<Rightarrow> Some secs | _ \<Rightarrow> None)"

definition into_response :: "api_error + reply \<Rightarrow> response" where
  "into_response r = (case r of
       Inl err \<Rightarrow> \<lparr>rs_status = api_status err, rs_content = ErrorContent err, rs_retry_after = retry_after err,
         rs_protocol = None, rs_request_id = None\<rparr>
     | Inr (status, content) \<Rightarrow> \<lparr>rs_status = status, rs_content = Content content, rs_retry_after = None,
         rs_protocol = None, rs_request_id = None\<rparr>)"

text \<open>\<open>route_layer\<close>: the limiter of the group around the handler; the other routes have none.\<close>

definition limited :: "web \<Rightarrow> nat \<Rightarrow> http_request \<Rightarrow> api_call \<Rightarrow> reply act \<Rightarrow> rate_limiter \<times> inner \<Rightarrow> response \<times> rate_limiter \<times> inner" where
  "limited w clock rq rc handler st =
     (let (l, s) = st; forwarded = header_str (rq_headers rq) ''x-forwarded-for'';
          ((r, t), l') = (case limiter_of rc of
              Some AuthClass \<Rightarrow> limit_auth w clock forwarded (rq_peer rq) l handler s
            | Some PublicClass \<Rightarrow> limit_public w clock forwarded (rq_peer rq) l handler s
            | Some WebhookClass \<Rightarrow> limit_webhook clock (rq_path rq) l handler s
            | None \<Rightarrow> (handler s, l)) in
      (into_response r, l', t))"

definition protocol_header :: "http_request \<Rightarrow> string option" where
  "protocol_header rq = map_option (\<lambda>v. if list_all visible_ascii v then v else ''?'') (map_of (rq_headers rq) ''x-atlas-protocol'')"

text \<open>The gate stamps the protocol of the server on every response.\<close>

definition gated :: "web \<Rightarrow> http_request \<Rightarrow> ('s \<Rightarrow> response \<times> 's) \<Rightarrow> 's \<Rightarrow> response \<times> 's" where
  "gated w rq rest st = (case enforce_protocol (wb_vars w) (rq_path rq) (protocol_header rq) rest st of
       (Inl (status, reason), t) \<Rightarrow>
         (\<lparr>rs_status = status, rs_content = Outdated reason (min_client_protocol (wb_vars w)), rs_retry_after = None,
           rs_protocol = Some PROTOCOL, rs_request_id = None\<rparr>, t)
     | (Inr r, t) \<Rightarrow> (r\<lparr>rs_protocol := Some PROTOCOL\<rparr>, t))"

datatype log_level = LogInfo | LogWarn | LogError

record log_line =
  ll_level :: log_level
  ll_request_id :: string
  ll_method :: http_method
  ll_path :: string
  ll_status :: nat

definition request_id :: "http_request \<Rightarrow> string" where
  "request_id rq = (case Option.bind (header_str (rq_headers rq) ''x-request-id'')
       (\<lambda>v. if v \<noteq> [] \<and> length v \<le> 64 then Some v else None) of
     Some v \<Rightarrow> v | None \<Rightarrow> rq_fresh_id rq)"

definition request_log :: "http_request \<Rightarrow> http_method \<Rightarrow> ('s \<Rightarrow> response \<times> 's) \<Rightarrow> 's \<Rightarrow> (response \<times> log_line) \<times> 's" where
  "request_log rq method rest st =
     (let (r, t) = rest st; i = request_id rq in
      ((r\<lparr>rs_request_id := Some i\<rparr>,
        \<lparr>ll_level = (if 500 \<le> rs_status r then LogError else if 400 \<le> rs_status r then LogWarn else LogInfo),
         ll_request_id = i, ll_method = method, ll_path = redact_path (rq_path rq), ll_status = rs_status r\<rparr>), t))"

text \<open>One request to the server: \<open>clock\<close> is the monotonic clock of the limiter, \<open>e\<close> what others do to the store during a command.\<close>

definition serve ::
  "web \<Rightarrow> (nat \<Rightarrow> inner \<Rightarrow> inner) \<Rightarrow> nat \<Rightarrow> http_request \<Rightarrow> api_call \<Rightarrow> rate_limiter \<times> inner \<Rightarrow> (response \<times> log_line) \<times> rate_limiter \<times> inner" where
  "serve w e clock rq rc =
     request_log rq (fst (route rc)) (gated w rq (limited w clock rq rc (endpoint w e rq rc)))"

section \<open>The process\<close>

text \<open>
  \<open>main\<close>: the store, the port and the form of the log lines come from the arguments and the environment; without a store to run on
  the process stops. \<open>router_with\<close> gives the state the first request meets: full rate budgets, and the store as it is. A secret token is
  the hexadecimal form of 32 random bytes.
\<close>

datatype backing = MemBacked | PgBacked string

definition choose_store :: "string list \<Rightarrow> vars \<Rightarrow> backing option" where
  "choose_store args vars =
     (if ''--mem'' \<in> set args then Some MemBacked else map_option PgBacked (vars ''DATABASE_URL''))"

definition parse_u16 :: "string \<Rightarrow> nat option" where
  "parse_u16 s = Option.bind (parse_usize s) (\<lambda>n. if n < 2 ^ 16 then Some n else None)"

definition listen_port :: "vars \<Rightarrow> nat" where
  "listen_port vars = (case Option.bind (vars ''PORT'') parse_u16 of Some p \<Rightarrow> p | None \<Rightarrow> 8080)"

definition json_logs :: "vars \<Rightarrow> bool" where
  "json_logs vars = (case vars ''ATLAS_LOG_FORMAT'' of Some v \<Rightarrow> map to_ascii_lower v = ''json'' | None \<Rightarrow> False)"

definition router_with :: "app_config \<Rightarrow> nat \<Rightarrow> inner \<Rightarrow> rate_limiter \<times> inner" where
  "router_with config clock store = (new_limiter config clock, store)"

definition router_from_env :: "vars \<Rightarrow> nat \<Rightarrow> inner \<Rightarrow> rate_limiter \<times> inner" where
  "router_from_env vars clock store = router_with (config_from_env vars) clock store"

definition generate_token :: "ext \<Rightarrow> string \<Rightarrow> string" where
  "generate_token x bytes = ext_hex x bytes"

end
