(* ===== verification/Tenancy.thy ===== *)
theory Tenancy
  imports Server Engine_Facts
begin

text \<open>
  What the server keeps for one company, and that a request for another company does not touch it. The
  view of a company is every table with a company column restricted to it, its user tokens and the index of its device tokens
  included, whatever the handler, the store operation or the engine did in between. Two fields can be left out of it, the credential
  of the caller: one user token, by its hash, and the instant one device was last seen.
\<close>

section \<open>The data of a company\<close>

record tenant =
  tn_company :: "company option"
  tn_members :: "((uuid \<times> uuid) \<times> (role \<times> int)) list"
  tn_invitations :: "(uuid \<times> invitation) list"
  tn_devices :: "(uuid \<times> device) list"
  tn_portal_links :: "(uuid \<times> portal_link) list"
  tn_pay_links :: "(uuid \<times> pay_link) list"
  tn_log :: "stored_mutation list \<times> (string \<rightharpoonup> int) \<times> int \<times> string list"
  tn_rows :: "(doc_key \<times> company_document) list"
  tn_records :: "(string \<rightharpoonup> json) \<times> (string \<rightharpoonup> string) \<times> audit_entry list"
  tn_masters :: "company_settings option \<times> (string \<rightharpoonup> item)"
  tn_documents :: "(doc_key \<times> posted_document) list"
  tn_ledgers :: "gl_entry list \<times> stock_ledger_entry list \<times> int \<times> party_transaction list \<times> tax_transaction list \<times> settlement list"
  tn_bins :: "((uuid \<times> string \<times> string) \<times> bin) list"
  tn_tokens :: "(string \<rightharpoonup> uuid \<times> uuid \<times> int option) \<times> (string \<rightharpoonup> uuid)"
  tn_postings :: "(string \<rightharpoonup> posting_batch) \<times> (string \<Rightarrow> int) \<times> (string \<times> string) option \<times> (string \<rightharpoonup> json)"

text \<open>What is left out: the hash of a user token, and the ids of devices whose last-seen stamp is.\<close>

type_synonym exempt = "string option \<times> uuid set"

definition unseen :: "uuid set \<Rightarrow> uuid \<times> device \<Rightarrow> uuid \<times> device" where
  "unseen x e = (if fst e \<in> x then (fst e, (snd e)\<lparr>de_last_seen_at := None\<rparr>) else e)"

lemma fst_unseen [simp]: "fst (unseen x e) = fst e"
  by (simp add: unseen_def)

definition devices_view :: "exempt \<Rightarrow> uuid \<Rightarrow> (uuid \<times> device) list \<Rightarrow> (uuid \<times> device) list" where
  "devices_view ex b ds = map (unseen (snd ex)) (filter (\<lambda>e. de_company (snd e) = b) ds)"

definition tokens_view :: "exempt \<Rightarrow> uuid \<Rightarrow> (string \<rightharpoonup> uuid \<times> uuid \<times> int option) \<Rightarrow> string \<rightharpoonup> uuid \<times> uuid \<times> int option" where
  "tokens_view ex b ts h =
     (if Some h = fst ex then None
      else case ts h of Some (u, c, expires) \<Rightarrow> if c = b then Some (u, c, expires) else None | None \<Rightarrow> None)"

definition device_tokens_view :: "(uuid \<times> device) list \<Rightarrow> (string \<rightharpoonup> uuid) \<Rightarrow> string \<rightharpoonup> uuid" where
  "device_tokens_view ds ts h = (case ts h of Some i \<Rightarrow> if i \<in> fst ` set ds then Some i else None | None \<Rightarrow> None)"

definition tenant_of :: "exempt \<Rightarrow> inner \<Rightarrow> uuid \<Rightarrow> tenant" where
  "tenant_of ex s b = \<lparr>
     tn_company = companies s b,
     tn_members = filter (\<lambda>e. snd (fst e) = b) (memberships s),
     tn_invitations = filter (\<lambda>e. in_company (snd e) = b) (invitations s),
     tn_devices = devices_view ex b (devices s),
     tn_portal_links = filter (\<lambda>e. pl_company (snd e) = b) (portal_links s),
     tn_pay_links = filter (\<lambda>e. yl_company (snd e) = b) (pay_links s),
     tn_log = (mutations s b, \<lambda>i. mutation_versions s (b, i), counters s b, chain s b),
     tn_rows = filter (\<lambda>e. fst (fst e) = b) (company_documents s),
     tn_records = (\<lambda>i. history_recoveries s (b, i), \<lambda>h. blobs s (b, h), filter (\<lambda>e. au_company e = b) (audit s)),
     tn_masters = (settings s b, \<lambda>i. items s (b, i)),
     tn_documents = filter (\<lambda>e. fst (fst e) = b) (documents s),
     tn_ledgers = (gl_entries s b, stock_ledger s b, sle_seqs s b, party_transactions s b, tax_transactions s b, settlements s b),
     tn_bins = filter (\<lambda>e. fst (fst e) = b) (bins s),
     tn_tokens = (tokens_view ex b (user_tokens s), device_tokens_view (devices_view ex b (devices s)) (device_tokens s)),
     tn_postings = (\<lambda>i. batches s (b, i), \<lambda>k. series s (b, k), solo_migrations s b, \<lambda>k. idempotency s (b, k))\<rparr>"

section \<open>Tables\<close>

text \<open>Replacing the first entry of a key by one that is as good for the view; adding one that is not in it.\<close>

lemma view_update:
  assumes "map_of al k = Some u" "P (k, v) = P (k, u)" "P (k, u) \<Longrightarrow> f (k, v) = f (k, u)"
  shows "map f (filter P (AList.update k v al)) = map f (filter P al)"
  using assms by (induction al) (auto split: if_splits)

lemma view_insert:
  assumes "k \<notin> fst ` set (filter P al)" "\<not> P (k, v)"
  shows "filter P (AList.update k v al) = filter P al"
  using assms by (induction al) (auto split: if_splits)

lemma filter_update_key: "(\<And>u. \<not> P (k, u)) \<Longrightarrow> filter P (AList.update k v al) = filter P al"
  by (induction al) auto

lemma filter_delete_key: "(\<And>u. \<not> P (k, u)) \<Longrightarrow> filter P (AList.delete k al) = filter P al"
  by (induction al) (auto simp: AList.delete_eq)

section \<open>Store operations\<close>

lemma tenant_projection: "c \<noteq> b \<Longrightarrow> tenant_of ex (apply_projection x now c r s) b = tenant_of ex s b"
  by (simp add: tenant_of_def apply_projection_def Let_def filter_update_key filter_delete_key split: projection_action.split)

lemma tenant_append_one: "c \<noteq> b \<Longrightarrow> tenant_of ex (snd (append_one x now c r s)) b = tenant_of ex s b"
proof -
  assume c: "c \<noteq> b"
  have m: "mutations (apply_projection x now c r t) = mutations t" for t
    by (simp add: apply_projection_def Let_def split: projection_action.split)
  have "tenant_of ex (s2\<lparr>mutations := m(c := ms)\<rparr>) b = tenant_of ex s2 b" if "m b = mutations s2 b" for s2 m ms
    using c that by (simp add: tenant_of_def)
  moreover have "tenant_of ex (s\<lparr>counters := (counters s)(c := v), mutation_versions := (mutation_versions s)((c, mr_id r) \<mapsto> v),
      chain := (chain s)(c := h)\<rparr>) b = tenant_of ex s b" for v h using c by (simp add: tenant_of_def)
  ultimately show ?thesis using c by (simp add: append_one_def Let_def tenant_projection m split: option.split)
qed

lemma tenant_append: "c \<noteq> b \<Longrightarrow> tenant_of ex (snd (append_mutations x now c rs s)) b = tenant_of ex s b"
  by (induction rs arbitrary: s) (simp_all add: Let_def case_prod_beta tenant_append_one)

lemma tenant_floors_other: "c \<noteq> b \<Longrightarrow> raise_floors c fs m (b, k) = m (b, k)"
  unfolding raise_floors_def by (induction fs arbitrary: m) (auto simp: case_prod_beta)

lemma tenant_bins_other: "c \<noteq> b \<Longrightarrow> filter (\<lambda>e. fst (fst e) = b) (insert_bins c bs m) = filter (\<lambda>e. fst (fst e) = b) m"
  unfolding insert_bins_def by (induction bs arbitrary: m) (auto simp: filter_update_key)

lemma outstanding_other:
  "c \<noteq> b \<Longrightarrow> filter (\<lambda>e. fst (fst e) = b) (fst (foldl (outstanding_step c) acc us)) = filter (\<lambda>e. fst (fst e) = b) (fst acc)"
  by (induction us arbitrary: acc)
    (auto simp: outstanding_step_def filter_update_key Let_def split: option.splits)

lemma tenant_tables: "pc_company k \<noteq> b \<Longrightarrow> tenant_of ex (commit_tables k s) b = tenant_of ex s b"
  by (simp add: tenant_of_def commit_tables_def series_after_def tenant_floors_other commit_documents_def outstanding_other doc_key_of_def
      filter_update_key split: option.split)

lemma tenant_apply:
  assumes "pc_company k \<noteq> b" "au_company (pc_audit k) \<noteq> b"
  shows "tenant_of ex (commit_apply x now k s) b = tenant_of ex s b"
proof -
  let ?s2 = "snd (append_mutations x now (pc_company k) (commit_records x now s k) (commit_tables k s))"
  have "tenant_of ex (commit_apply x now k s) b = tenant_of ex ?s2 b"
    using assms by (simp add: commit_apply_def Let_def tenant_of_def tenant_bins_other split: option.split)
  also have "\<dots> = tenant_of ex s b" using assms(1) by (simp add: tenant_append tenant_tables)
  finally show ?thesis .
qed

lemma tenant_commit:
  "pc_company k \<noteq> b \<Longrightarrow> au_company (pc_audit k) \<noteq> b \<Longrightarrow> tenant_of ex (snd (posting_commit x now k s)) b = tenant_of ex s b"
  by (cases rule: posting_commit_cases [of s k x now]) (simp_all add: tenant_apply)

text \<open>The operations the handlers call directly.\<close>

lemma tenant_ops:
  assumes "c \<noteq> b"
  shows "tenant_of ex (snd (ack_mutations c ids s)) b = tenant_of ex s b"
    and "tenant_of ex (upsert_membership now u c r s) b = tenant_of ex s b"
    and "tenant_of ex (snd (remove_membership u c s)) b = tenant_of ex s b"
    and "tenant_of ex (snd (set_membership_role u c r s)) b = tenant_of ex s b"
    and "tenant_of ex (put_blob c h bytes s) b = tenant_of ex s b"
    and "tenant_of ex (put_company_settings c st s) b = tenant_of ex s b"
    and "tenant_of ex (upsert_item c it s) b = tenant_of ex s b"
    and "tenant_of ex (snd (create_company now c name s)) b = tenant_of ex s b"
    and "au_company (bl_audit change) \<noteq> b \<Longrightarrow> tenant_of ex (snd (set_books_lock c change s)) b = tenant_of ex s b"
    and "au_company entry \<noteq> b \<Longrightarrow> tenant_of ex (snd (record_lost_history c report entry s)) b = tenant_of ex s b"
  using assms
  by (simp_all add: tenant_of_def ack_mutations_def upsert_membership_def remove_membership_def
      set_membership_role_def put_blob_def put_company_settings_def upsert_item_def create_company_def set_books_lock_def
      record_lost_history_def tenant_floors_other filter_update_key filter_delete_key Let_def case_prod_beta split: option.split)

lemma tenant_push: "c \<noteq> b \<Longrightarrow> tenant_of ex (snd (push_mutations x now c ms s)) b = tenant_of ex s b"
  by (simp add: push_mutations_def tenant_append)

lemma tenant_global:
  "tenant_of ex (snd (upsert_user now i e n s)) b = tenant_of ex s b"
  "tenant_of ex (insert_webhook_event ev s) b = tenant_of ex s b"
  "au_company a \<noteq> b \<Longrightarrow> tenant_of ex (append_audit a s) b = tenant_of ex s b"
  by (simp_all add: tenant_of_def upsert_user_def insert_webhook_event_def append_audit_def
      Let_def split: option.split)

text \<open>A token whose hash no token of the company has is another company's; a user token is deleted by its owner's request.\<close>

definition unused_hash :: "string \<Rightarrow> tenant \<Rightarrow> bool" where
  "unused_hash h v \<longleftrightarrow> fst (tn_tokens v) h = None \<and> snd (tn_tokens v) h = None"

lemma tenant_tokens:
  "c \<noteq> b \<Longrightarrow> unused_hash h (tenant_of ex s b) \<Longrightarrow> tenant_of ex (insert_user_token h u c expires s) b = tenant_of ex s b"
  "fst ex = Some h \<Longrightarrow> tenant_of ex (snd (delete_user_token h s)) b = tenant_of ex s b"
  by (auto simp: tenant_of_def insert_user_token_def delete_user_token_def unused_hash_def tokens_view_def fun_eq_iff
      split: option.splits if_splits)

lemma tenant_devices:
  "devices_view ex b ds = devices_view ex b (devices s) \<Longrightarrow> tenant_of ex (s\<lparr>devices := ds\<rparr>) b = tenant_of ex s b"
  by (simp add: tenant_of_def)

lemma devices_view_update:
  assumes "map_of ds i = Some d" "de_company d' = de_company d"
    and "de_company d = b \<Longrightarrow> unseen (snd ex) (i, d') = unseen (snd ex) (i, d)"
  shows "devices_view ex b (AList.update i d' ds) = devices_view ex b ds"
  unfolding devices_view_def by (rule view_update [OF assms(1)]) (use assms(2,3) in simp_all)

lemma tenant_touch: "i \<in> snd ex \<Longrightarrow> tenant_of ex (touch_device_seen i t0 t1 s) b = tenant_of ex s b"
  by (auto simp: touch_device_seen_def unseen_def split: option.split intro!: tenant_devices devices_view_update)

lemma tenant_revoke:
  assumes "c \<noteq> b"
  shows "tenant_of ex (snd (revoke_device now c i s)) b = tenant_of ex s b"
    and "tenant_of ex (snd (revoke_user_devices now c u s)) b = tenant_of ex s b"
    and "tenant_of ex (snd (revoke_portal_link now c i s)) b = tenant_of ex s b"
    and "tenant_of ex (snd (revoke_pay_link now c i s)) b = tenant_of ex s b"
proof -
  note swap = view_update [where f = "\<lambda>e. e", unfolded list.map_ident]
  have "devices_view ex b (AList.update i d' (devices s)) = devices_view ex b (devices s)"
    if "map_of (devices s) i = Some d" "de_company d = c" "de_company d' = c" for d d'
    by (rule devices_view_update [OF that(1)]) (use that assms in simp_all)
  then show "tenant_of ex (snd (revoke_device now c i s)) b = tenant_of ex s b"
    by (simp add: revoke_device_def Let_def tenant_devices split: option.split)
  let ?hit = "\<lambda>d. de_company d = c \<and> de_user d = u \<and> de_revoked_at d = None"
  have "filter (\<lambda>e. de_company (snd e) = b) (map (\<lambda>(i, d). (i, if ?hit d then d\<lparr>de_revoked_at := Some now\<rparr> else d)) ds) =
      filter (\<lambda>e. de_company (snd e) = b) ds" for ds
    using assms by (induction ds) auto
  note same = this [of "devices s"]
  show "tenant_of ex (snd (revoke_user_devices now c u s)) b = tenant_of ex s b"
    unfolding revoke_user_devices_def Let_def snd_conv by (rule tenant_devices) (simp only: devices_view_def same)
  have "filter (\<lambda>e. pl_company (snd e) = b) (AList.update i l' (portal_links s)) = filter (\<lambda>e. pl_company (snd e) = b) (portal_links s)"
    if "map_of (portal_links s) i = Some l" "pl_company l = c" "pl_company l' = c" for l l'
    using swap [OF that(1), of "\<lambda>e. pl_company (snd e) = b" l'] that assms by simp
  then show "tenant_of ex (snd (revoke_portal_link now c i s)) b = tenant_of ex s b"
    by (simp add: tenant_of_def revoke_portal_link_def split: option.split)
  have "filter (\<lambda>e. yl_company (snd e) = b) (AList.update i l' (pay_links s)) = filter (\<lambda>e. yl_company (snd e) = b) (pay_links s)"
    if "map_of (pay_links s) i = Some l" "yl_company l = c" "yl_company l' = c" for l l'
    using swap [OF that(1), of "\<lambda>e. yl_company (snd e) = b" l'] that assms by simp
  then show "tenant_of ex (snd (revoke_pay_link now c i s)) b = tenant_of ex s b"
    by (simp add: tenant_of_def revoke_pay_link_def split: option.split)
qed

text \<open>An id under which the company has nothing yet: the rows created under it are new.\<close>

definition unused :: "uuid \<Rightarrow> tenant \<Rightarrow> bool" where
  "unused i v \<longleftrightarrow> i \<notin> fst ` set (tn_invitations v) \<and> i \<notin> fst ` set (tn_devices v) \<and>
     i \<notin> fst ` set (tn_portal_links v) \<and> i \<notin> fst ` set (tn_pay_links v)"

lemma tenant_create:
  "in_company n \<noteq> b \<Longrightarrow> unused (in_id n) (tenant_of ex s b) \<Longrightarrow> tenant_of ex (snd (create_invitation n s)) b = tenant_of ex s b"
  "de_company d \<noteq> b \<Longrightarrow> unused (de_id d) (tenant_of ex s b) \<Longrightarrow> unused_hash (de_token_hash d) (tenant_of ex s b) \<Longrightarrow>
     tenant_of ex (create_device d s) b = tenant_of ex s b"
  "pl_company l \<noteq> b \<Longrightarrow> unused (pl_id l) (tenant_of ex s b) \<Longrightarrow> tenant_of ex (create_portal_link l s) b = tenant_of ex s b"
  "yl_company y \<noteq> b \<Longrightarrow> unused (yl_id y) (tenant_of ex s b) \<Longrightarrow> tenant_of ex (create_pay_link y s) b = tenant_of ex s b"
proof -
  assume d: "de_company d \<noteq> b" "unused (de_id d) (tenant_of ex s b)" "unused_hash (de_token_hash d) (tenant_of ex s b)"
  have i: "de_id d \<notin> fst ` set (filter (\<lambda>e. de_company (snd e) = b) (devices s))"
    using d(2) by (simp add: unused_def tenant_of_def devices_view_def image_image)
  then have "devices_view ex b (AList.update (de_id d) d (devices s)) = devices_view ex b (devices s)"
    using d(1) by (simp add: devices_view_def view_insert)
  moreover have "device_tokens_view (devices_view ex b (devices s)) ((device_tokens s)(de_token_hash d \<mapsto> de_id d)) =
      device_tokens_view (devices_view ex b (devices s)) (device_tokens s)"
    using i d(3) by (auto simp: device_tokens_view_def fun_eq_iff unused_hash_def tenant_of_def devices_view_def image_image
        split: option.splits if_splits)
  ultimately show "tenant_of ex (create_device d s) b = tenant_of ex s b" by (simp add: tenant_of_def create_device_def)
qed (simp_all add: unused_def tenant_of_def create_invitation_def create_portal_link_def create_pay_link_def view_insert)

lemma tenant_mark:
  assumes "i \<notin> fst ` set (tn_invitations (tenant_of ex s b))"
  shows "tenant_of ex (snd (mark_invitation_accepted i u s)) b = tenant_of ex s b"
proof (cases "map_of (invitations s) i")
  case (Some n)
  have "in_company n \<noteq> b" using assms map_of_SomeD [OF Some] by (force simp: tenant_of_def)
  then have "filter (\<lambda>e. in_company (snd e) = b) (AList.update i (n\<lparr>in_accepted_by := Some u\<rparr>) (invitations s)) =
      filter (\<lambda>e. in_company (snd e) = b) (invitations s)"
    using view_update [OF Some, of "\<lambda>e. in_company (snd e) = b" "n\<lparr>in_accepted_by := Some u\<rparr>" "\<lambda>e. e"] by simp
  then show ?thesis using Some by (simp add: mark_invitation_accepted_def tenant_of_def)
qed (simp add: mark_invitation_accepted_def)

section \<open>The engine\<close>

text \<open>Every commit that the engine builds is of the company of the command.\<close>

definition commit_of :: "uuid \<Rightarrow> posting_commit_rec \<Rightarrow> bool" where
  "commit_of c k \<longleftrightarrow> pc_company k = c \<and> au_company (pc_audit k) = c"

lemma built_commits:
  "build_submit x ev s c cmd d act = Inr k \<Longrightarrow> commit_of c k"
  "build_cancel x ev s c ccmd act = Inr k \<Longrightarrow> commit_of c k"
  "build_opening x ev s c ocmd sha key act = Inr k \<Longrightarrow> commit_of c k"
  by (auto simp: commit_of_def build_submit_def build_cancel_def build_opening_def submit_commit_def cancel_commit_def
      opening_commit_def audit_row_def result_simps Let_def split: if_splits)

lemma tenant_loop:
  assumes "\<And>i t. tenant_of ex (interfere i t) b = tenant_of ex t b" "\<And>t k. build t = Inr k \<Longrightarrow> commit_of c k" "c \<noteq> b"
  shows "tenant_of ex (snd (commit_loop n build interfere x now dt d s)) b = tenant_of ex s b"
  by (rule commit_loop_keeps [where Q = "commit_of c"]) (use assms in \<open>auto simp: commit_of_def tenant_commit\<close>)

lemma tenant_commands:
  assumes "\<And>i t. tenant_of ex (interfere i t) b = tenant_of ex t b" "c \<noteq> b"
  shows "tenant_of ex (snd (submit_document x ev interfere d c cmd act s)) b = tenant_of ex s b"
    and "tenant_of ex (snd (cancel_document x ev interfere c ccmd act s)) b = tenant_of ex s b"
    and "tenant_of ex (snd (import_solo_opening x ev (interfere j) c ocmd act s)) b = tenant_of ex s b"
proof -
  note loop = tenant_loop [OF assms(1) _ assms(2)]
  show "tenant_of ex (snd (submit_document x ev interfere d c cmd act s)) b = tenant_of ex s b"
    by (auto simp: submit_document_def Let_def built_commits(1) loop split: option.split sum.split)
  show "tenant_of ex (snd (cancel_document x ev interfere c ccmd act s)) b = tenant_of ex s b"
    by (auto simp: cancel_document_def built_commits(2) loop split: option.split)
  have "tenant_of ex t b = tenant_of ex s b"
    if "build_opening x ev s c ocmd sha key act = Inr k" "posting_commit x now k (interfere j s) = (r, t)" for sha key k now r t
    using tenant_commit [where k = k and b = b and x = x and now = now and s = "interfere j s"] built_commits(3) [OF that(1)] that(2) assms by (simp add: commit_of_def)
  then show "tenant_of ex (snd (import_solo_opening x ev (interfere j) c ocmd act s)) b = tenant_of ex s b"
    by (auto simp: import_solo_opening_def Let_def split: option.split sum.split prod.split store_error.split)
qed

end
