(* ===== verification/Tenancy_Theorems.thy ===== *)
theory Tenancy_Theorems
  imports Tenancy
begin

text \<open>
  Companies are isolated: a request to the server leaves the data of every company alone but the one it is
  about. The frame rule of the handlers (\<open>keeps\<close>) carries the store lemmas of the theory before this
  one through every handler, the extractors and the middleware.
\<close>

section \<open>Handlers\<close>

abbreviation apart :: "exempt \<Rightarrow> uuid \<Rightarrow> tenant \<Rightarrow> 'a act \<Rightarrow> bool" where
  "apart ex b v m \<equiv> keeps (\<lambda>s. tenant_of ex s b = v) m"

lemma apart_write:
  "(\<And>s. tenant_of ex (g s) b = tenant_of ex s b) \<Longrightarrow> apart ex b v (tell g)"
  "(\<And>s. tenant_of ex (snd (h s)) b = tenant_of ex s b) \<Longrightarrow> apart ex b v (call h)"
  "(\<And>s. tenant_of ex (snd (k s)) b = tenant_of ex s b) \<Longrightarrow> apart ex b v (lifted err k)"
  by (rule keeps_write; simp)+

lemma keeps_check [keeps_intros]: "keeps P (lifted err (\<lambda>s. (q s, s)))"
  by (rule keeps_write) simp

lemma apart_create:
  "in_company n \<noteq> b \<Longrightarrow> unused (in_id n) v \<Longrightarrow> apart ex b v (call (create_invitation n))"
  "de_company d \<noteq> b \<Longrightarrow> unused (de_id d) v \<Longrightarrow> unused_hash (de_token_hash d) v \<Longrightarrow> apart ex b v (tell (create_device d))"
  "pl_company l \<noteq> b \<Longrightarrow> unused (pl_id l) v \<Longrightarrow> apart ex b v (tell (create_portal_link l))"
  "yl_company y \<noteq> b \<Longrightarrow> unused (yl_id y) v \<Longrightarrow> apart ex b v (tell (create_pay_link y))"
  "c \<noteq> b \<Longrightarrow> unused_hash h v \<Longrightarrow> apart ex b v (tell (insert_user_token h u c expires))"
  by (rule keeps_write; simp add: tenant_create tenant_tokens)+

lemma apart_audited: "c \<noteq> b \<Longrightarrow> apart ex b v (audited w c auth action detail)"
  unfolding audited_def by (rule apart_write) (simp add: tenant_global api_audit_row_def)

text \<open>The caller: the token of the \<open>Authorization\<close> header, by its hash, and the identity it resolves to.\<close>

definition presented :: "web \<Rightarrow> http_request \<Rightarrow> string option" where
  "presented w rq = map_option (hash_token (wb_ext w))
     (Option.bind (header_str (rq_headers rq) ''authorization'') (strip_prefix ''Bearer ''))"

definition bearer :: "web \<Rightarrow> http_request \<Rightarrow> inner \<Rightarrow> token_identity option" where
  "bearer w rq s =
     Option.bind (header_str (rq_headers rq) ''authorization'') (\<lambda>h.
     Option.bind (strip_prefix ''Bearer '' h) (\<lambda>token. resolve_token (wb_now w) (hash_token (wb_ext w) token) s))"

definition own_device :: "web \<Rightarrow> http_request \<Rightarrow> inner \<Rightarrow> uuid set" where
  "own_device w rq s = (case bearer w rq s of Some auth \<Rightarrow> set_option (ti_device auth) | None \<Rightarrow> {})"

lemma tenant_authenticate:
  assumes "own_device w rq s \<subseteq> snd ex"
  shows "tenant_of ex (snd (authenticate w (header_str (rq_headers rq) ''authorization'') s)) b = tenant_of ex s b"
  using assms
  by (auto simp: tenant_touch authenticate_def own_device_def bearer_def chain_act_def act_defs ok_or_def split: option.splits)

lemma keeps_expiry [keeps_intros]: "keeps P (expiry w days)"
  unfolding expiry_def Let_def by (intro keeps_intros)

lemma keeps_resolve [keeps_intros]: "keeps P (portal_resolve_link w token)" "keeps P (pay_resolve_link w token)"
  unfolding portal_resolve_link_def pay_resolve_link_def by (intro keeps_intros)+

lemma keeps_history [keeps_intros]: "keeps P (with_history w c response)"
  unfolding with_history_def by (intro keeps_intros)

lemmas tenant_writes = tenant_ops tenant_push tenant_global tenant_revoke tenant_commands

lemmas read_intros = keeps_chain keeps_pure keeps_auth keeps_check keeps_if keeps_option keeps_expiry keeps_resolve keeps_history

lemmas apart_intros = read_intros apart_audited apart_create apart_write

text \<open>A step whose result says for which company the rest runs.\<close>

lemma keeps_bind:
  assumes "keeps P m" "\<And>a s t. P s \<Longrightarrow> m s = (Inr a, t) \<Longrightarrow> keeps P (f a)"
  shows "keeps P (chain_act m f)"
  unfolding keeps_def chain_act_def
proof (intro allI impI)
  fix s
  assume s: "P s"
  obtain r t where m: "m s = (r, t)" by fastforce
  have t: "P t" using keepsD [OF assms(1) s] m by simp
  show "P (snd (case m s of (Inl e, t) \<Rightarrow> (Inl e, t) | (Inr a, t) \<Rightarrow> f a t))"
    using m t keepsD [OF assms(2) [OF s] t] by (cases r) auto
qed

lemma apart_identity:
  assumes "c \<noteq> b" "unused (wb_id w) v" "unused_hash (hash_token (wb_ext w) (wb_token w)) v"
  shows "apart ex b v (api_create_invitation w auth c email r)"
    and "apart ex b v (api_register_device w auth c name)"
    and "apart ex b v (api_revoke_device w auth c i)"
    and "apart ex b v (api_remove_member w auth c u)"
    and "apart ex b v (api_change_member_role w auth c u name)"
  unfolding api_create_invitation_def api_register_device_def api_revoke_device_def api_remove_member_def
    removal_guard_def removal_apply_def api_change_member_role_def role_change_guard_def role_change_apply_def Let_def
  using assms by (intro apart_intros; simp add: tenant_writes api_audit_row_def)+

lemma apart_rotate:
  assumes "c \<noteq> b" "unused_hash (hash_token (wb_ext w) (wb_token w)) v"
    and "fst ex = map_option (hash_token (wb_ext w)) (Option.bind header (strip_prefix ''Bearer ''))"
  shows "apart ex b v (api_rotate_user_token w auth header c)"
proof -
  have drop: "apart ex b v (call (delete_user_token (hash_token (wb_ext w) p)))"
    if "Option.bind header (strip_prefix ''Bearer '') = Some p" for p
    by (rule keeps_write) (use assms(3) that in \<open>simp add: tenant_tokens\<close>)
  show ?thesis
    unfolding api_rotate_user_token_def
    by (intro keeps_bind read_intros apart_audited apart_create assms(1,2) drop) (auto simp: found_def ok_or_def split: option.splits)
qed

lemma apart_sync:
  assumes "c \<noteq> b"
  shows "apart ex b v (api_sync_push w auth c ms)"
    and "apart ex b v (api_sync_ack w auth c ids)"
    and "apart ex b v (api_report_lost_history w auth c report)"
    and "apart ex b v (api_put_blob w auth c h bytes)"
    and "apart ex b v (api_put_settings w auth c patch)"
    and "apart ex b v (api_set_books_lock w auth c req)"
    and "apart ex b v (api_upsert_item w auth c it)"
  unfolding api_sync_push_def pin_company_rows_def api_sync_ack_def api_report_lost_history_def api_put_blob_def api_put_settings_def
    api_set_books_lock_def api_upsert_item_def Let_def case_prod_beta
  using assms by (intro apart_intros; simp add: tenant_writes api_audit_row_def lock_audit_def)+

lemma apart_commands:
  assumes "\<And>i t. tenant_of ex (e i t) b = tenant_of ex t b" "c \<noteq> b"
  shows "apart ex b v (api_submit_document w e auth c cmd)"
    and "apart ex b v (api_cancel_document w e auth c ccmd)"
    and "apart ex b v (api_import_solo_opening w (e j) auth c ocmd)"
  unfolding api_submit_document_def api_cancel_document_def api_import_solo_opening_def
  by (intro apart_intros; simp add: tenant_commands assms)+

lemma apart_links:
  assumes "c \<noteq> b" "unused (wb_id w) v"
  shows "apart ex b v (portal_create_link w auth c req)"
    and "apart ex b v (portal_revoke_link w auth c i)"
    and "apart ex b v (pay_create_link w auth c yreq)"
    and "apart ex b v (pay_revoke_link w auth c i)"
  unfolding portal_create_link_def portal_revoke_link_def pay_create_link_def pay_revoke_link_def Let_def
  using assms by (intro apart_intros; simp add: tenant_writes)+

lemma keeps_reads:
  "keeps P (api_list_devices w auth c)" "keeps P (api_list_members w auth c)" "keeps P (api_sync_pull w auth c after n)"
  "keeps P (api_sync_history w auth c ver)" "keeps P (api_get_blob w auth c h)" "keeps P (api_head_blob w auth c h)"
  "keeps P (api_read_audit w auth c n)" "keeps P (api_get_settings w auth c)" "keeps P (portal_list_links w auth c)"
  "keeps P (pay_list_links w auth c)" "keeps P (portal_gl_csv w token)" "keeps P (portal_audit w token n)"
  "keeps P (portal_document w token doctype d headers)" "keeps P (pay_page w token headers)" "keeps P api_health" "keeps P (api_protocol w)"
  unfolding api_list_devices_def api_list_members_def api_sync_pull_def api_sync_history_def api_get_blob_def api_head_blob_def
    api_read_audit_def api_get_settings_def portal_list_links_def pay_list_links_def portal_gl_csv_def portal_audit_def
    portal_document_def pay_page_def api_health_def api_protocol_def Let_def
  by (intro read_intros)+

lemma keeps_ready: "keeps P (api_ready readiness)"
  by (simp add: keeps_def api_ready_def readiness_def)

lemma keeps_summary: "keeps P (portal_summary w token headers)"
  unfolding portal_summary_def Let_def by (intro read_intros) (simp split: portal_link_kind.split, intro conjI impI read_intros)

lemma chain_ask: "chain_act (ask q) f s = f (q s) s"
  by (simp add: chain_act_def ask_def)

lemma chain_found: "chain_act (found (Some a) err) f = f a"
  by (simp add: chain_act_def found_def ok_or_def fun_eq_iff)

lemma apart_create_company:
  assumes "wb_id w \<noteq> b" "unused_hash (hash_token (wb_ext w) (wb_token w)) v"
  shows "apart ex b v (api_create_company w header req)"
  unfolding api_create_company_def bootstrap_gate_def
  apply (rule keeps_chain, intro read_intros)+
  apply (rule keeps_bind, rule apart_write, simp add: tenant_writes assms)
  apply (intro apart_intros; use assms in \<open>auto simp: tenant_writes api_audit_row_def create_company_def call_def Let_def\<close>)
  done

text \<open>The invitations of a store are filed under their ids.\<close>

definition invitations_filed :: "inner \<Rightarrow> bool" where
  "invitations_filed s \<longleftrightarrow> distinct (map fst (invitations s)) \<and> (\<forall>e \<in> set (invitations s). in_id (snd e) = fst e)"

lemma update_entry: "e \<in> set (AList.update k v al) \<Longrightarrow> e = (k, v) \<or> e \<in> set al"
  by (induction al) (auto split: if_splits)

lemma invitations_filed_create: "invitations_filed s \<Longrightarrow> invitations_filed (snd (create_invitation n s))"
  by (auto simp: invitations_filed_def create_invitation_def distinct_update dest!: update_entry)

lemma invitations_filed_mark: "invitations_filed s \<Longrightarrow> invitations_filed (snd (mark_invitation_accepted i u s))"
  by (auto simp: invitations_filed_def mark_invitation_accepted_def distinct_update split: option.split
      dest!: update_entry map_of_SomeD)

lemma filed_elsewhere:
  assumes "invitations_filed s" "invitation_by_hash s h = Some n" "in_company n \<noteq> b"
  shows "in_id n \<notin> fst ` set (tn_invitations (tenant_of ex s b))"
proof
  assume "in_id n \<in> fst ` set (tn_invitations (tenant_of ex s b))"
  then obtain m where m: "(in_id n, m) \<in> set (invitations s)" "in_company m = b" by (auto simp: tenant_of_def)
  have "n \<in> snd ` set (invitations s)" using assms(2) by (auto simp: invitation_by_hash_def find_Some_iff)
  then have "(in_id n, n) \<in> set (invitations s)" using assms(1) by (force simp: invitations_filed_def)
  then have "m = n" using m(1) assms(1) by (auto simp: invitations_filed_def dest: eq_key_imp_eq_value)
  then show False using m(2) assms(3) by simp
qed

lemma tenant_accept:
  assumes "invitations_filed s" "unused_hash (hash_token (wb_ext w) (wb_token w)) (tenant_of ex s b)"
    and "map_option in_company (invitation_by_hash s (hash_token (wb_ext w) token)) \<noteq> Some b"
  shows "tenant_of ex (snd (api_accept_invitation w token name s)) b = tenant_of ex s b"
proof (cases "invitation_by_hash s (hash_token (wb_ext w) token)")
  case None
  then show ?thesis by (simp add: api_accept_invitation_def chain_act_def act_defs ok_or_def)
next
  case (Some n)
  let ?v = "tenant_of ex s b"
  have n: "in_company n \<noteq> b" using assms(3) Some by simp
  have "apart ex b ?v (call (mark_invitation_accepted (in_id n) u))" for u
    by (rule keeps_write) (use filed_elsewhere [OF assms(1) Some n] in \<open>simp add: tenant_mark\<close>)
  note mark = this
  show ?thesis
    unfolding api_accept_invitation_def
    apply (subst chain_ask)
    apply (unfold Some chain_found)
    apply (rule keepsD [where P = "\<lambda>t. tenant_of ex t b = ?v"])
     apply (intro mark apart_intros; use n assms(2) in \<open>simp add: tenant_writes api_audit_row_def\<close>)
    apply simp
    done
qed

text \<open>A decision on a quotation is for the company of the link.\<close>

lemma resolve_linkD:
  "portal_resolve_link w token s = (Inr l, t) \<Longrightarrow> portal_link_by_hash s (hash_token (wb_ext w) token) = Some l \<and> t = s"
  by (auto simp: portal_resolve_link_def result_simps)

lemma apart_decision: "c \<noteq> b \<Longrightarrow> apart ex b v (record_decision w c q party doc k)"
  unfolding record_decision_def by (intro apart_intros; simp add: tenant_writes)

lemma tenant_chain:
  assumes "snd (m s) = s" "\<And>a. m s = (Inr a, s) \<Longrightarrow> apart ex b (tenant_of ex s b) (f a)"
  shows "tenant_of ex (snd (chain_act m f s)) b = tenant_of ex s b"
proof -
  obtain r where m: "m s = (r, s)" using assms(1) by (metis prod.collapse)
  show ?thesis
    using m keepsD [OF assms(2), of _ s] by (cases r) (auto simp: chain_act_def)
qed

lemma resolve_pure: "snd (portal_resolve_link w token s) = s"
  using keepsD [OF keeps_resolve(1), of "\<lambda>t. t = s" s] by simp

lemma tenant_quote:
  assumes "map_option pl_company (portal_link_by_hash s (hash_token (wb_ext w) token)) \<noteq> Some b"
  shows "tenant_of ex (snd (quote_action w token q headers verb s)) b = tenant_of ex s b"
  unfolding quote_action_def Let_def
  by (rule tenant_chain, rule resolve_pure, intro apart_intros apart_decision) (use assms in \<open>auto dest!: resolve_linkD\<close>)

text \<open>A Stripe event is for the company of the pay link it names.\<close>

definition event_company :: "web \<Rightarrow> inner \<Rightarrow> string \<Rightarrow> uuid option" where
  "event_company w s bytes = (case map_option (read_checkout w) (ext_from_str (wb_ext w) bytes) of
       Some (Inr ck) \<Rightarrow> map_option yl_company (pay_link_by_hash s (hash_token (wb_ext w) (ck_token ck)))
     | _ \<Rightarrow> None)"

lemma apart_post_payment:
  assumes "\<And>i t. tenant_of ex (e i t) b = tenant_of ex t b" "yl_company l \<noteq> b"
  shows "apart ex b v (post_payment w e l ck p outstanding)" "apart ex b v (reject_event w l ck reason)"
  unfolding post_payment_def reject_event_def Let_def by (intro apart_intros; simp add: tenant_commands assms)+

lemma tenant_settle:
  assumes "\<And>i t. tenant_of ex (e i t) b = tenant_of ex t b"
    and "map_option yl_company (pay_link_by_hash s (hash_token (wb_ext w) (ck_token ck))) \<noteq> Some b"
  shows "tenant_of ex (snd (settle_checkout w e ck s)) b = tenant_of ex s b"
  unfolding settle_checkout_def Let_def
  by (rule tenant_chain) (use assms in \<open>auto simp: ask_def intro!: read_intros apart_post_payment\<close>)

lemma apart_intake: "apart ex b v (stripe_intake w headers bytes)" "apart ex b v (log_webhook w kind provider headers bytes)"
  unfolding stripe_intake_def log_webhook_def check_webhook_backlog_def Let_def
  by (intro apart_intros; simp add: tenant_global)+

lemma intake_links:
  "keeps (\<lambda>s. pay_links s = ls) (stripe_intake w headers bytes)"
  unfolding stripe_intake_def check_webhook_backlog_def Let_def
  by (intro keeps_intros) (simp add: insert_webhook_event_def)

lemma tenant_stripe:
  assumes "\<And>i t. tenant_of ex (e i t) b = tenant_of ex t b" "event_company w s bytes \<noteq> Some b"
  shows "tenant_of ex (snd (stripe_webhook w e headers bytes s)) b = tenant_of ex s b"
proof -
  obtain r t where i: "stripe_intake w headers bytes s = (r, t)" by fastforce
  have t: "tenant_of ex t b = tenant_of ex s b" "pay_links t = pay_links s"
    using keepsD [OF apart_intake(1) [where b = b and ex = ex and v = "tenant_of ex s b" and w = w and headers = headers and bytes = bytes], of s] keepsD [OF intake_links, of s _ w headers bytes] i by simp_all
  have "snd (stripe_webhook w e headers bytes s) = t \<or>
    (\<exists>event ck. ext_from_str (wb_ext w) bytes = Some event \<and> read_checkout w event = Inr ck \<and>
      snd (stripe_webhook w e headers bytes s) = snd (settle_checkout w e ck t))"
    using i by (auto simp: stripe_webhook_def chain_act_def act_defs ok_or_def split: sum.split option.split)
  then show ?thesis
  proof (elim disjE exE conjE)
    fix event ck
    assume ck: "ext_from_str (wb_ext w) bytes = Some event" "read_checkout w event = Inr ck"
      "snd (stripe_webhook w e headers bytes s) = snd (settle_checkout w e ck t)"
    have "tenant_of ex (snd (settle_checkout w e ck t)) b = tenant_of ex t b"
      by (rule tenant_settle [OF assms(1)]) (use assms(2) ck(1,2) t(2) in \<open>simp add: event_company_def pay_link_by_hash_def\<close>)
    then show ?thesis using ck(3) t(1) by simp
  qed (simp add: t)
qed

section \<open>Requests\<close>

text \<open>
  The company a call is about: the one of its path, the new one, or the one of the invitation or the
  link its token names.
\<close>

definition company_in_path :: "api_call \<Rightarrow> uuid option" where
  "company_in_path rc = (case snd (route rc) of
       Word l # Param c # _ \<Rightarrow> if l = ''companies'' then Some c else None
     | _ \<Rightarrow> None)"

definition company_of_call :: "web \<Rightarrow> inner \<Rightarrow> api_call \<Rightarrow> uuid option" where
  "company_of_call w s rc = (case rc of
       CreateCompany _ \<Rightarrow> Some (wb_id w)
     | AcceptInvitation token _ \<Rightarrow> map_option in_company (invitation_by_hash s (hash_token (wb_ext w) token))
     | QuoteAccept token _ \<Rightarrow> map_option pl_company (portal_link_by_hash s (hash_token (wb_ext w) token))
     | QuoteReject token _ \<Rightarrow> map_option pl_company (portal_link_by_hash s (hash_token (wb_ext w) token))
     | StripeWebhook bytes \<Rightarrow> event_company w s bytes
     | _ \<Rightarrow> company_in_path rc)"

lemma keeps_body: "keeps P m \<Longrightarrow> keeps P (json_in rq m)" "keeps P m \<Longrightarrow> keeps P (capped n rq m)"
  by (simp_all add: json_in_def capped_def keeps_pure)

lemma tenant_auth:
  assumes "own_device w rq s \<subseteq> snd ex" "\<And>auth. apart ex b (tenant_of ex s b) (m auth)"
  shows "tenant_of ex (snd (with_auth w rq m s)) b = tenant_of ex s b"
proof -
  obtain r t where a: "authenticate w (header_str (rq_headers rq) ''authorization'') s = (r, t)" by fastforce
  then have t: "tenant_of ex t b = tenant_of ex s b" using tenant_authenticate [OF assms(1), of b] by simp
  then have "tenant_of ex (snd (m auth t)) b = tenant_of ex s b" for auth using keepsD [OF assms(2)] by blast
  then show ?thesis using a t by (cases r) (simp_all add: with_auth_def chain_act_def)
qed

lemma tenant_plain: "apart ex b (tenant_of ex s b) m \<Longrightarrow> tenant_of ex (snd (m s)) b = tenant_of ex s b"
  using keepsD [of "\<lambda>t. tenant_of ex t b = tenant_of ex s b" m s] by simp

lemma tenant_body: "tenant_of ex (snd (m s)) b = tenant_of ex s b \<Longrightarrow> tenant_of ex (snd (json_in rq m s)) b = tenant_of ex s b"
  by (simp add: json_in_def capped_def give_def)

lemmas company_of_call_simps = company_of_call_def company_in_path_def company_route_def portal_route_def

text \<open>The endpoints without a bearer token.\<close>

lemmas tenant_open = tenant_plain [OF keeps_reads(11)] tenant_plain [OF keeps_reads(12)] tenant_plain [OF keeps_reads(13)]
  tenant_plain [OF keeps_reads(14)] tenant_plain [OF keeps_reads(15)] tenant_plain [OF keeps_reads(16)] tenant_plain [OF keeps_ready]
  tenant_plain [OF keeps_summary] tenant_plain [OF apart_intake(2)] tenant_plain [OF keeps_body(1) [OF apart_create_company]]
  tenant_plain [OF keeps_body(1) [OF apart_intake(2)]] tenant_plain [OF keeps_body(2) [OF apart_intake(2)]]

text \<open>
  What the caller may change of another company: the stamp of the device whose token the request presents, and, when it rotates its
  user token, that token.
\<close>

definition own_credential :: "web \<Rightarrow> http_request \<Rightarrow> api_call \<Rightarrow> inner \<Rightarrow> exempt" where
  "own_credential w rq rc s = (case rc of RotateUserToken _ \<Rightarrow> presented w rq | _ \<Rightarrow> None, own_device w rq s)"

text \<open>The fresh id and the fresh token of a request are not in use by the company.\<close>

definition fresh_for :: "web \<Rightarrow> tenant \<Rightarrow> bool" where
  "fresh_for w v \<longleftrightarrow> unused (wb_id w) v \<and> unused_hash (hash_token (wb_ext w) (wb_token w)) v"

lemma tenant_rotate:
  assumes "c \<noteq> b" "fresh_for w (tenant_of ex s b)" "ex = own_credential w rq (RotateUserToken c) s"
  shows "tenant_of ex (snd (endpoint w e rq (RotateUserToken c) s)) b = tenant_of ex s b"
  using assms unfolding endpoint.simps fresh_for_def
  by (intro tenant_auth apart_rotate) (simp_all add: own_credential_def presented_def)

text \<open>The calls whose company does not depend on the store.\<close>

lemma tenant_path:
  assumes "\<And>i t. tenant_of ex (e i t) b = tenant_of ex t b" "fresh_for w (tenant_of ex s b)" "company_of_call w s rc \<noteq> Some b"
    and "\<not> (\<exists>token x. rc \<in> {AcceptInvitation token x, QuoteAccept token x, QuoteReject token x, StripeWebhook x, RotateUserToken x})"
    and "own_device w rq s \<subseteq> snd ex"
  shows "tenant_of ex (snd (endpoint w e rq rc s)) b = tenant_of ex s b"
  using assms unfolding fresh_for_def
  by (cases rc)
    (auto simp: company_of_call_simps webhook_payment_def webhook_channel_def
      intro!: tenant_auth tenant_open keeps_body keeps_reads apart_identity apart_sync apart_commands apart_links)

lemma tenant_endpoint:
  assumes "\<And>i t. tenant_of ex (e i t) b = tenant_of ex t b" "fresh_for w (tenant_of ex s b)" "invitations_filed s"
    and "company_of_call w s rc \<noteq> Some b" "ex = own_credential w rq rc s"
  shows "tenant_of ex (snd (endpoint w e rq rc s)) b = tenant_of ex s b"
proof (cases "\<exists>token x. rc \<in> {AcceptInvitation token x, QuoteAccept token x, QuoteReject token x, StripeWebhook x, RotateUserToken x}")
  case True
  have hash: "unused_hash (hash_token (wb_ext w) (wb_token w)) (tenant_of ex s b)" using assms(2) by (simp add: fresh_for_def)
  have rotate: "rc = RotateUserToken c \<Longrightarrow> ?thesis" for c
    using tenant_rotate [of c b w ex s rq e] assms(2,4,5) by (simp add: company_of_call_simps)
  show ?thesis
    using True assms(1,3,4) hash rotate
    by (auto simp: company_of_call_def quote_accept_def quote_reject_def intro!: tenant_body tenant_accept tenant_quote tenant_stripe)
next
  case False
  have "own_device w rq s \<subseteq> snd ex" by (simp add: assms(5) own_credential_def)
  then show ?thesis by (rule tenant_path [OF assms(1,2,4) False])
qed

text \<open>The middleware runs the handler once or not at all.\<close>

lemma serve_state: "snd (snd (serve w e clock rq rc (l, s))) \<in> {s, snd (endpoint w e rq rc s)}"
  by (auto simp: serve_def request_log_def gated_def limited_def enforce_protocol_def limit_auth_def limit_public_def limit_webhook_def
      enforce_limit_def Let_def case_prod_beta split: option.split sum.split rl_class.split)

text \<open>C23. Companies are isolated: whatever the request, and whatever company the caller is from, every company other than the one
  the request is about keeps all its data, its members, invitations, tokens and devices, documents, ledgers, log, blobs, links and audit
  feed, except for the credential the caller presents: the last-seen stamp of that device, and that user token when the request rotates
  it. The fresh id and token of the request are taken not to be in use by the company. (Users are shared by the companies.)\<close>

theorem other_companies_untouched:
  assumes "company_of_call w s rc \<noteq> Some b" "ex = own_credential w rq rc s" "fresh_for w (tenant_of ex s b)" "invitations_filed s"
    and "\<And>i t. tenant_of ex (e i t) b = tenant_of ex t b"
  shows "tenant_of ex (snd (snd (serve w e clock rq rc (l, s)))) b = tenant_of ex s b"
  using serve_state [of w e clock rq rc l s] tenant_endpoint [OF assms(5,3,4,1,2)] by auto

end
