(* ===== verification/Server_Theorems.thy ===== *)
theory Server_Theorems
  imports Tenancy_Theorems Pay_Theorems
begin

text \<open>
  Who can change what through the server. A request is entitled by a bearer token of a member of the company in its path, by the
  bootstrap token, by an invitation or a portal link that is still open, or by a signature under the Stripe secret; without one of
  these nothing changes but the intake log of webhooks and the instant a device was last seen.
\<close>

section \<open>Entitlement\<close>

definition member_of :: "inner \<Rightarrow> token_identity \<Rightarrow> uuid \<Rightarrow> bool" where
  "member_of s auth c \<longleftrightarrow> (ti_device auth = None \<or> ti_company auth = c) \<and> membership_role s (ti_user auth) c \<noteq> None"

definition bootstrapped :: "web \<Rightarrow> http_request \<Rightarrow> bool" where
  "bootstrapped w rq = (case cf_bootstrap_token (wb_config w) of
       Some expected \<Rightarrow> constant_time_eq (wb_ext w) (unwrap_or_default (header_str (rq_headers rq) BOOTSTRAP_TOKEN_HEADER)) expected
     | None \<Rightarrow> True)"

definition invited :: "web \<Rightarrow> inner \<Rightarrow> string \<Rightarrow> bool" where
  "invited w s token = (case invitation_by_hash s (hash_token (wb_ext w) token) of
       Some n \<Rightarrow> in_accepted_by n = None \<and> wb_now w \<le> in_expires_at n
     | None \<Rightarrow> False)"

definition linked :: "web \<Rightarrow> inner \<Rightarrow> string \<Rightarrow> bool" where
  "linked w s token = (case portal_link_by_hash s (hash_token (wb_ext w) token) of
       Some l \<Rightarrow> pl_kind l = PortalCustomer \<and> pl_revoked_at l = None \<and> \<not> pl_expires_at l < wb_now w
     | None \<Rightarrow> False)"

definition signed :: "web \<Rightarrow> http_request \<Rightarrow> string \<Rightarrow> bool" where
  "signed w rq bytes = (case (cf_stripe_webhook_secret (wb_config w), header_str (rq_headers rq) ''stripe-signature'') of
       (Some secret, Some header) \<Rightarrow> signed_with w secret header bytes
     | _ \<Rightarrow> False)"

definition entitled :: "web \<Rightarrow> inner \<Rightarrow> http_request \<Rightarrow> api_call \<Rightarrow> bool" where
  "entitled w s rq rc = (case rc of
       CreateCompany _ \<Rightarrow> bootstrapped w rq
     | AcceptInvitation token _ \<Rightarrow> invited w s token
     | QuoteAccept token _ \<Rightarrow> linked w s token
     | QuoteReject token _ \<Rightarrow> linked w s token
     | StripeWebhook bytes \<Rightarrow> signed w rq bytes
     | _ \<Rightarrow> (case (company_in_path rc, bearer w rq s) of (Some c, Some auth) \<Rightarrow> member_of s auth c | _ \<Rightarrow> False))"

text \<open>Two stores with the same companies, users and tokens.\<close>

definition same_business :: "inner \<Rightarrow> inner \<Rightarrow> bool" where
  "same_business s t \<longleftrightarrow> (\<forall>b. tenant_of (None, UNIV) t b = tenant_of (None, UNIV) s b) \<and> users t = users s \<and> users_by_email t = users_by_email s \<and>
     user_tokens t = user_tokens s \<and> device_tokens t = device_tokens s"

lemma same_refl [simp]: "same_business s s"
  by (simp add: same_business_def)

section \<open>Refusals\<close>

lemma refused_handlers:
  assumes "require_membership auth c s = (Inl Forbidden, s)"
  shows "snd (api_create_invitation w auth c email r s) = s" "snd (api_register_device w auth c name s) = s"
    "snd (api_list_devices w auth c s) = s" "snd (api_revoke_device w auth c i s) = s"
    "snd (api_rotate_user_token w auth header c s) = s" "snd (api_list_members w auth c s) = s"
    "snd (api_remove_member w auth c u s) = s" "snd (api_change_member_role w auth c u name s) = s"
    "snd (api_sync_push w auth c ms s) = s" "snd (api_sync_pull w auth c after n s) = s"
    "snd (api_sync_ack w auth c ids s) = s" "snd (api_sync_history w auth c ver s) = s"
    "snd (api_report_lost_history w auth c report s) = s" "snd (api_put_blob w auth c h bytes s) = s"
    "snd (api_get_blob w auth c h s) = s" "snd (api_head_blob w auth c h s) = s" "snd (api_read_audit w auth c n s) = s"
    "snd (api_put_settings w auth c patch s) = s" "snd (api_get_settings w auth c s) = s" "snd (api_upsert_item w auth c it s) = s"
    "snd (api_set_books_lock w auth c req s) = s" "snd (api_submit_document w e auth c cmd s) = s"
    "snd (api_cancel_document w e auth c ccmd s) = s" "snd (api_import_solo_opening w ie auth c ocmd s) = s"
    "snd (portal_create_link w auth c kreq s) = s" "snd (portal_list_links w auth c s) = s" "snd (portal_revoke_link w auth c i s) = s"
    "snd (pay_create_link w auth c yreq s) = s" "snd (pay_list_links w auth c s) = s" "snd (pay_revoke_link w auth c i s) = s"
  unfolding api_create_invitation_def api_register_device_def api_list_devices_def api_revoke_device_def api_rotate_user_token_def
    api_list_members_def api_remove_member_def removal_guard_def api_change_member_role_def role_change_guard_def api_sync_push_def
    api_sync_pull_def api_sync_ack_def api_sync_history_def api_report_lost_history_def api_put_blob_def api_get_blob_def
    api_head_blob_def api_read_audit_def api_put_settings_def api_get_settings_def api_upsert_item_def api_set_books_lock_def
    api_submit_document_def api_cancel_document_def api_import_solo_opening_def portal_create_link_def portal_list_links_def
    portal_revoke_link_def pay_create_link_def pay_list_links_def pay_revoke_link_def Let_def
  by (simp_all add: chain_act_def [of "require_membership auth c"] assms chain_act_def [of "chain_act m f" for m f])

lemma touch_same: "same_business s (touch_device_seen i t0 t1 s)"
  by (simp add: same_business_def tenant_touch) (simp add: touch_device_seen_def split: option.split)

lemma authenticateE:
  assumes "authenticate w (header_str (rq_headers rq) ''authorization'') s = (r, t)"
  obtains "r = Inl Unauthorized" "t = s" "bearer w rq s = None"
    | auth where "r = Inr auth" "bearer w rq s = Some auth" "same_business s t" "memberships t = memberships s"
proof -
  have "memberships (touch_device_seen i t0 t1 s) = memberships s" for i t0 t1
    by (simp add: touch_device_seen_def split: option.split)
  then show ?thesis
    using assms that touch_same
    by (auto simp: authenticate_def bearer_def chain_act_def act_defs ok_or_def split: option.splits)
qed

text \<open>A handler behind a bearer token and a membership check.\<close>

lemma with_auth_refused:
  assumes "\<not> (\<exists>auth. bearer w rq s = Some auth \<and> member_of s auth c)"
    and "\<And>auth t. require_membership auth c t = (Inl Forbidden, t) \<Longrightarrow> snd (m auth t) = t"
  shows "same_business s (snd (with_auth w rq m s))"
proof -
  obtain r t where a: "authenticate w (header_str (rq_headers rq) ''authorization'') s = (r, t)" by fastforce
  then show ?thesis
  proof (cases rule: authenticateE)
    case (2 auth)
    have "\<not> member_of t auth c" using assms(1) 2 by (auto simp: member_of_def membership_role_def)
    then have "require_membership auth c t = (Inl Forbidden, t)"
      by (auto simp: require_membership_def member_of_def chain_act_def act_defs ok_or_def split: option.split)
    then show ?thesis using assms(2) a 2 by (simp add: with_auth_def chain_act_def)
  qed (use a in \<open>simp add: with_auth_def chain_act_def\<close>)
qed

lemma body_refused: "snd (m t) = t \<Longrightarrow> snd (json_in rq m t) = t" "snd (m t) = t \<Longrightarrow> snd (capped n rq m t) = t"
  by (simp_all add: json_in_def capped_def give_def)

lemma path_refused:
  assumes "\<not> entitled w s rq rc" "company_in_path rc = Some c"
  shows "same_business s (snd (endpoint w e rq rc s))"
proof -
  have "\<not> (\<exists>auth. bearer w rq s = Some auth \<and> member_of s auth c)"
    using assms by (cases rc) (auto simp: entitled_def company_in_path_def portal_route_def)
  note refused = with_auth_refused [OF this]
  show ?thesis
    using assms(2)
    by (cases rc) (auto simp: company_in_path_def company_route_def portal_route_def intro!: refused body_refused refused_handlers)
qed

section \<open>The other entrances\<close>

lemma intake_same: "same_business s (snd (stripe_intake w headers bytes s))" "same_business s (snd (log_webhook w kind provider headers bytes s))"
proof -
  have "tenant_of ex (snd (stripe_intake w headers bytes s)) b = tenant_of ex s b"
    "tenant_of ex (snd (log_webhook w kind provider headers bytes s)) b = tenant_of ex s b" for ex b
    by (rule tenant_plain [OF apart_intake(1)], rule tenant_plain [OF apart_intake(2)])
  then show "same_business s (snd (stripe_intake w headers bytes s))" "same_business s (snd (log_webhook w kind provider headers bytes s))"
    by (auto simp: same_business_def stripe_intake_def log_webhook_def check_webhook_backlog_def chain_act_def act_defs
        insert_webhook_event_def Let_def split: if_splits)
qed

lemma create_refused: "\<not> bootstrapped w rq \<Longrightarrow> snd (api_create_company w (header_str (rq_headers rq) BOOTSTRAP_TOKEN_HEADER) req s) = s"
  by (auto simp: bootstrapped_def api_create_company_def bootstrap_gate_def chain_act_def act_defs split: option.splits)

lemma accept_refused: "\<not> invited w s token \<Longrightarrow> snd (api_accept_invitation w token name s) = s"
  by (auto simp: invited_def api_accept_invitation_def chain_act_def act_defs ok_or_def split: option.splits)

lemma quote_refused: "\<not> linked w s token \<Longrightarrow> snd (quote_action w token q headers verb s) = s"
  by (auto simp: linked_def quote_action_def portal_resolve_link_def chain_act_def act_defs ok_or_def Let_def split: option.splits)

lemma stripe_refused:
  assumes "\<not> signed w rq bytes"
  shows "snd (stripe_webhook w e (rq_headers rq) bytes s) = snd (stripe_intake w (rq_headers rq) bytes s)"
proof -
  have "verify_stripe_signature w secret header bytes now \<noteq> Inr u"
    if "cf_stripe_webhook_secret (wb_config w) = Some secret" "header_str (rq_headers rq) ''stripe-signature'' = Some header" for secret header now u
    using assms that verify_signed [of w secret header bytes now u] by (auto simp: signed_def)
  then show ?thesis
    by (auto simp: stripe_webhook_def chain_act_def act_defs ok_or_def split: prod.split sum.split option.split)
qed

lemma keeps_state: "(\<And>P. keeps P m) \<Longrightarrow> snd (m s) = s"
  using keepsD [of "\<lambda>t. t = s" m s] by simp

lemma pathless_refused:
  assumes "\<not> entitled w s rq rc" "company_in_path rc = None"
  shows "same_business s (snd (endpoint w e rq rc s))"
  using assms
  by (cases rc)
    (auto simp: entitled_def company_in_path_def company_route_def quote_accept_def quote_reject_def webhook_payment_def
      webhook_channel_def keeps_state keeps_reads keeps_ready keeps_summary create_refused accept_refused quote_refused stripe_refused
      json_in_def capped_def give_def intake_same)

section \<open>Paths\<close>

lemma split_on_ne [simp]: "split_on sep s \<noteq> []"
  by (induction s) (auto split: list.splits)

lemma join_split: "join_with sep (split_on sep s) = s"
proof (induction s)
  case (Cons ch s)
  obtain seg segs where "split_on sep s = seg # segs" by (meson neq_Nil_conv split_on_ne)
  then show ?case using Cons by (cases segs) auto
qed simp

lemma split_on_word: "sep \<notin> set a \<Longrightarrow> split_on sep (a @ sep # r) = a # split_on sep r" "sep \<notin> set a \<Longrightarrow> split_on sep a = [a]"
  by (induction a) (auto split: list.split)

lemma join_cons: "segs \<noteq> [] \<Longrightarrow> join_with sep (seg # segs) = seg @ sep # join_with sep segs"
  by (cases segs) simp_all

text \<open>A path that was routed to a call about a company or an invitation is on the client plane.\<close>

lemma routed_client_plane:
  assumes "routed rc path" "snd (route rc) = Word l # rest" "l \<in> {''companies'', ''invitations''}"
  shows "is_client_plane path"
proof -
  obtain segs where segs: "split_on (CHR ''/'') path = [] # l # segs"
    using assms(1,2) by (auto simp: routed_def list_all2_Cons1)
  have "path = join_with (CHR ''/'') ([] # l # segs)" using join_split [of "CHR ''/''" path] segs by simp
  then have "prefix (CHR ''/'' # l) path" by (cases segs) (auto simp: join_cons prefix_def)
  then show ?thesis using assms(3) by (auto simp: is_client_plane_def starts_with_def)
qed

section \<open>The properties\<close>

text \<open>C22. Nobody changes anything without being entitled to: a request without a bearer token of a member of the company in its
  path, without the configured bootstrap token, without an invitation or a portal link that is still open, or without a signature
  under the Stripe secret, according to its route, leaves the data of every company, the users and their tokens as they were.\<close>

theorem changes_need_entitlement:
  assumes "\<not> entitled w s rq rc"
  shows "same_business s (snd (snd (serve w e clock rq rc (l, s))))"
proof -
  have "same_business s (snd (endpoint w e rq rc s))"
    using path_refused [OF assms] pathless_refused [OF assms] by (cases "company_in_path rc") auto
  then show ?thesis using serve_state [of w e clock rq rc l s] by auto
qed

text \<open>An outdated client is turned away before anything else: on a route of a company or an invitation, a request whose
  protocol level is below the minimum of the server is answered 426 with the server's own level in the header, and neither the
  store nor the budget of any rate limiter moves.\<close>

theorem outdated_client_turned_away:
  assumes "routed rc (rq_path rq)" "snd (route rc) = Word p # rest" "p \<in> {''companies'', ''invitations''}"
    and "case protocol_header rq of None \<Rightarrow> 0 < min_client_protocol (wb_vars w)
      | Some raw \<Rightarrow> \<exists>n. parse_u32 (trim raw) = Some n \<and> n < min_client_protocol (wb_vars w)"
  shows "\<exists>r line. serve w e clock rq rc (l, s) = ((r, line), l, s) \<and> rs_status r = 426 \<and> rs_protocol r = Some PROTOCOL"
proof -
  obtain r where "enforce_protocol (wb_vars w) (rq_path rq) (protocol_header rq) (limited w clock rq rc (endpoint w e rq rc)) (l, s)
      = (Inl (426, r), (l, s))"
    using outdated_changes_nothing [OF routed_client_plane [OF assms(1-3)] assms(4),
        where rest = "limited w clock rq rc (endpoint w e rq rc)" and s = "(l, s)"] by blast
  then show ?thesis by (simp add: serve_def request_log_def gated_def Let_def)
qed

text \<open>Tokens in paths stay out of the log: the line the server logs for a request under a portal link, a pay link or an
  invitation shows a placeholder where the token is, and the rest of the path as it was sent.\<close>

theorem log_hides_tokens:
  assumes "rq_path rq = CHR ''/'' # p @ CHR ''/'' # token @ rest" "p \<in> {''portal'', ''pay'', ''invitations''}"
    and "CHR ''/'' \<notin> set token" "rest = [] \<or> hd rest = CHR ''/''"
  shows "ll_path (snd (fst (serve w e clock rq rc st))) = CHR ''/'' # p @ ''/<token>'' @ rest"
proof -
  have "ll_path (snd (fst (serve w e clock rq rc st))) = redact_path (rq_path rq)"
    by (simp add: serve_def request_log_def case_prod_beta Let_def)
  also have "\<dots> = CHR ''/'' # p @ ''/<token>'' @ rest"
  proof -
    have p: "CHR ''/'' \<notin> set p" using assms(2) by auto
    have top: "split_on (CHR ''/'') (rq_path rq) = [] # p # split_on (CHR ''/'') (token @ rest)"
      using split_on_word(1) [of "CHR ''/''" "[]" "p @ CHR ''/'' # token @ rest"] split_on_word(1) [OF p] assms(1) by simp
    show ?thesis
    proof (cases rest)
      case Nil
      then show ?thesis using top assms(2) split_on_word(2) [OF assms(3)] by (auto simp: redact_path_def Let_def)
    next
      case (Cons ch r)
      then have r: "rest = CHR ''/'' # r" using assms(4) by simp
      have "join_with (CHR ''/'') (''<token>'' # split_on (CHR ''/'') r) = ''<token>'' @ rest"
        using r by (simp add: join_cons join_split)
      then show ?thesis
        using top assms(2) split_on_word(1) [OF assms(3), of r] r by (auto simp: redact_path_def Let_def join_cons)
    qed
  qed
  finally show ?thesis .
qed

end
