(* ===== verification/Store_Types.thy ===== *)
theory Store_Types
  imports Solo_Theorems Engine_Facts
begin

text \<open>
  The types of the posting tables: a row is filed under its own company, document key, pair or batch id, a document is submitted or
  cancelled and its payload is an object. The engine builds only commits of that shape, and a commit of that shape keeps the tables
  so, whatever other commands run in between.
\<close>

section \<open>Typed stores and commits\<close>

definition rows_typed ::
  "uuid \<Rightarrow> gl_entry list \<Rightarrow> stock_ledger_entry list \<Rightarrow> party_transaction list \<Rightarrow> tax_transaction list \<Rightarrow> settlement list \<Rightarrow> bool" where
  "rows_typed c gl sles pts tts stls \<longleftrightarrow>
     (\<forall>e \<in> set gl. gl_company e = c) \<and> (\<forall>e \<in> set sles. sle_company e = c) \<and> (\<forall>t \<in> set pts. pt_company t = c) \<and>
     (\<forall>t \<in> set tts. tt_company t = c) \<and> (\<forall>t \<in> set stls. st_company t = c)"

definition document_typed :: "doc_key \<Rightarrow> posted_document \<Rightarrow> bool" where
  "document_typed key doc \<longleftrightarrow>
     key = (pd_company doc, pd_doctype doc, pd_id doc) \<and> pd_docstatus doc \<in> {1, 2} \<and> (\<exists>m. pd_payload doc = JObj m)"

definition bin_key :: "bin \<Rightarrow> uuid \<times> string \<times> string" where
  "bin_key b = (bin_company b, bin_item b, bin_warehouse b)"

definition store_typed :: "inner \<Rightarrow> bool" where
  "store_typed s \<longleftrightarrow>
     (\<forall>c. rows_typed c (gl_entries s c) (stock_ledger s c) (party_transactions s c) (tax_transactions s c) (settlements s c)) \<and>
     (\<forall>e \<in> set (documents s). document_typed (fst e) (snd e)) \<and> (\<forall>e \<in> set (bins s). fst e = bin_key (snd e)) \<and>
     (\<forall>c i b. batches s (c, i) = Some b \<longrightarrow> pb_company b = c \<and> pb_id b = i)"

definition commit_typed :: "posting_commit_rec \<Rightarrow> bool" where
  "commit_typed k \<longleftrightarrow>
     rows_typed (pc_company k) (pc_gl_entries k) (pc_stock_ledger_entries k) (pc_party_transactions k) (pc_tax_transactions k)
       (pc_settlements k) \<and>
     document_typed (doc_key_of k) (pc_document k) \<and> (\<forall>b \<in> set (pc_bins k). bin_company b = pc_company k) \<and>
     pb_company (pc_batch k) = pc_company k"

lemma store_typed_empty: "store_typed empty_store"
  by (simp add: store_typed_def empty_store_def rows_typed_def)

section \<open>Commits keep the types\<close>

lemma update_entries: "(\<forall>e \<in> set al. P e) \<Longrightarrow> P (k, v) \<Longrightarrow> \<forall>e \<in> set (AList.update k v al). P e"
  by (induction al) auto

lemma outstanding_typed:
  assumes "\<forall>e \<in> set (fst acc). document_typed (fst e) (snd e)"
  shows "\<forall>e \<in> set (fst (foldl (outstanding_step c) acc us)). document_typed (fst e) (snd e)"
  using assms
proof (induction us arbitrary: acc)
  case (Cons u us)
  have "document_typed key doc \<Longrightarrow> document_typed key (set_outstanding v doc)" for key doc v
    by (auto simp: document_typed_def set_outstanding_def)
  moreover have "map_of (fst acc) key = Some doc \<Longrightarrow> document_typed key doc" for key doc
    using Cons.prems map_of_SomeD [of "fst acc" key doc] by auto
  ultimately have "\<forall>e \<in> set (AList.update key (set_outstanding v doc) (fst acc)). document_typed (fst e) (snd e)"
    if "map_of (fst acc) key = Some doc" for key doc v
    using that Cons.prems by (intro update_entries) simp_all
  then have "\<forall>e \<in> set (fst (outstanding_step c acc u)). document_typed (fst e) (snd e)"
    using Cons.prems by (simp add: outstanding_step_def Let_def split: option.split prod.split)
  then show ?case using Cons.IH by simp
qed simp

lemma insert_bins_typed:
  assumes "\<forall>e \<in> set m. fst e = bin_key (snd e)" "\<forall>b \<in> set bs. bin_company b = c"
  shows "\<forall>e \<in> set (insert_bins c bs m). fst e = bin_key (snd e)"
  using assms unfolding insert_bins_def
proof (induction bs arbitrary: m)
  case (Cons b bs)
  have "\<forall>e \<in> set (AList.update (c, bin_item b, bin_warehouse b) b m). fst e = bin_key (snd e)"
    by (rule update_entries) (use Cons.prems in \<open>auto simp: bin_key_def\<close>)
  then show ?case using Cons by simp
qed simp

lemma assign_seq_company: "\<forall>e \<in> set es. sle_company e = c \<Longrightarrow> \<forall>e \<in> set (snd (assign_seq n es)). sle_company e = c"
  by (induction es arbitrary: n) (auto simp: Let_def case_prod_beta)

lemma append_leaves_books:
  fixes x now c rs s
  defines "t \<equiv> snd (append_mutations x now c rs s)"
  shows "gl_entries t = gl_entries s" "stock_ledger t = stock_ledger s" "party_transactions t = party_transactions s"
    "tax_transactions t = tax_transactions s" "settlements t = settlements s" "documents t = documents s" "bins t = bins s"
    "batches t = batches s"
  unfolding t_def by simp_all

lemma commit_keeps_types:
  assumes "store_typed s" "commit_typed k"
  shows "store_typed (snd (posting_commit x now k s))"
proof (cases rule: posting_commit_cases [of s k x now])
  case post
  have "document_typed (doc_key_of k) (numbered_document s k)"
    using assms(2) by (auto simp: commit_typed_def numbered_document_def document_typed_def split: option.split)
  then have docs: "\<forall>e \<in> set (fst (commit_documents s k)). document_typed (fst e) (snd e)"
    unfolding commit_documents_def using assms(1) by (intro outstanding_typed, unfold fst_conv, intro update_entries) (simp_all add: store_typed_def)
  have "store_typed (commit_apply x now k s)"
    using assms docs insert_bins_typed [of "bins s" "pc_bins k" "pc_company k"] assign_seq_company [of "pc_stock_ledger_entries k" "pc_company k"]
    by (simp add: commit_apply_def Let_def store_typed_def append_leaves_books commit_tables_def commit_typed_def rows_typed_def)
      (auto simp: rows_typed_def)
  then show ?thesis using post by simp
qed (use assms(1) in simp_all)

section \<open>The engine builds typed commits\<close>

lemma subledger_company:
  "\<forall>t \<in> set (fst (derive_subledger_rows ctx p)). pt_company t = cx_company ctx"
  "\<forall>t \<in> set (snd (derive_subledger_rows ctx p)). tt_company t = cx_company ctx"
proof -
  have "pt_company (party_txn ctx p kd ty pa am) = cx_company ctx" for kd ty pa am by (simp add: party_txn_def)
  note party = this
  have "tt_company (tax_txn ctx i ty tx ba am r pt pa) = cx_company ctx" for i ty tx ba am r pt pa by (simp add: tax_txn_def)
  note tax = this
  have "\<forall>t \<in> set (derive_tax_transactions ctx p pt pa). tt_company t = cx_company ctx" for pt pa
    by (auto simp: derive_tax_transactions_def tax)
  note taxes = this
  have "journal_party_row ctx p r = Some t \<Longrightarrow> pt_company t = cx_company ctx" for r t
    by (auto simp: journal_party_row_def Let_def party split: option.splits prod.splits)
  then have "\<forall>t \<in> set (List.map_filter (journal_party_row ctx p) rs). pt_company t = cx_company ctx" for rs
    by (auto simp: set_map_filter)
  then show "\<forall>t \<in> set (fst (derive_subledger_rows ctx p)). pt_company t = cx_company ctx"
    by (auto simp: derive_subledger_rows_def Let_def party split: option.split)
  show "\<forall>t \<in> set (snd (derive_subledger_rows ctx p)). tt_company t = cx_company ctx"
    using taxes by (auto simp: derive_subledger_rows_def Let_def tax split: option.split)
qed

lemma derived_rows_typed:
  "rows_typed (cx_company ctx) (dr_gl (derive_rows x s ctx p)) (dr_sles (derive_rows x s ctx p)) (dr_party (derive_rows x s ctx p))
     (dr_tax (derive_rows x s ctx p)) (derive_settlements ctx p)"
proof -
  have "\<forall>e \<in> set (dr_gl (derive_rows x s ctx p)). gl_company e = cx_company ctx"
    using derive_rows_gl_tag [of ctx x s p] by (auto simp: list_all_iff gl_tag_def ctx_tag_def)
  moreover have "\<forall>t \<in> set (dr_party (derive_rows x s ctx p)). pt_company t = cx_company ctx"
    using subledger_company(1) [of ctx p]
    by (auto simp: derive_rows_def monetary_rows_def stamp_base_amounts_def stamp_party_def Let_def case_prod_beta)
  moreover have "settlement_row ctx p r = Some t \<Longrightarrow> st_company t = cx_company ctx" for r t
    by (auto simp: settlement_row_def split: option.splits prod.splits)
  then have "\<forall>t \<in> set (derive_settlements ctx p). st_company t = cx_company ctx"
    by (auto simp: derive_settlements_def set_map_filter)
  ultimately show ?thesis
    using derive_rows_sle_tag [of ctx x s p] subledger_company(2) [of ctx p]
    by (simp add: rows_typed_def list_all_iff derive_rows_def Let_def case_prod_beta)
qed

lemma recompute_bins_company: "\<forall>b \<in> set (recompute_bins c lg). bin_company b = c"
  by (auto simp: recompute_bins_def bin_of_def Let_def)

lemma built_submit_typed:
  assumes "build_submit x ev s c cmd d act = Inr k"
  shows "commit_typed k"
  using assms
proof (cases rule: build_submitE)
  case (1 date payload guard sh stls ups)
  have "rows_typed c (pc_gl_entries k) (pc_stock_ledger_entries k) (pc_party_transactions k) (pc_tax_transactions k) (pc_settlements k)"
    using derived_rows_typed [of "submit_ctx c cmd d date" x s payload] 1(5,6) by (auto simp: rows_typed_def submit_ctx_def split: if_splits)
  then show ?thesis
    using 1(6) recompute_bins_company
    by (auto simp: commit_typed_def document_typed_def doc_key_of_def submit_commit_def Let_def)
qed

lemma built_cancel_typed:
  assumes "store_typed s" "build_cancel x ev s c cmd act = Inr k"
  shows "commit_typed k"
  using assms(2)
proof (cases rule: build_cancelE)
  case (1 document date guard ups)
  have rows: "rows_typed c (gl_entries s c) (stock_ledger s c) (party_transactions s c) (tax_transactions s c) (settlements s c)"
    using assms(1) by (simp add: store_typed_def)
  have "document_typed (c, cc_doctype cmd, cc_document_id cmd) document"
    using assms(1) cancel_checksD(1) [OF 1(1)] by (auto simp: store_typed_def posted_document_of_def dest!: map_of_SomeD bspec)
  then have "document_typed (doc_key_of k) (pc_document k)"
    using 1(4) by (auto simp: document_typed_def doc_key_of_def)
  then show ?thesis
    using rows 1(4) recompute_bins_company
    by (auto simp: commit_typed_def rows_typed_def reversed_gl_def reversed_sles_def reversed_party_def reversed_tax_def
        reversed_settlements_def reverse_gl_def reverse_sle_def reverse_party_def reverse_tax_def reverse_settlement_def
        gl_for_voucher_def sles_for_voucher_def party_transactions_for_voucher_def tax_transactions_for_voucher_def
        settlements_for_payment_def cancel_commit_def Let_def)
qed

lemma opening_stock_company:
  assumes "fold_result (check_stock_line c d date) acc sts = Inr sa"
    and "\<forall>e \<in> set (sa_sles acc). sle_company e = c" "\<forall>b \<in> set (sa_bins acc). bin_company b = c"
  shows "(\<forall>e \<in> set (sa_sles sa). sle_company e = c) \<and> (\<forall>b \<in> set (sa_bins sa). bin_company b = c)"
  using assms
proof (induction sts arbitrary: acc)
  case (Cons st sts)
  obtain acc' where a: "check_stock_line c d date acc st = Inr acc'" "fold_result (check_stock_line c d date) acc' sts = Inr sa"
    using Cons.prems(1) by (auto simp: result_simps)
  have "(\<forall>e \<in> set (sa_sles acc'). sle_company e = c) \<and> (\<forall>b \<in> set (sa_bins acc'). bin_company b = c)"
    using a(1) Cons.prems(2,3) by (auto simp: check_stock_line_def Let_def result_simps split: prod.splits)
  then show ?case using Cons.IH [OF a(2)] by blast
qed simp

lemma built_opening_typed:
  assumes "build_opening x ev s c cmd sha key act = Inr k"
  shows "commit_typed k"
  using assms
proof (cases rule: build_openingE)
  case (1 date gl pts sa n)
  have "(\<forall>e \<in> set (sa_sles sa). sle_company e = c) \<and> (\<forall>b \<in> set (sa_bins sa). bin_company b = c)"
    using opening_stock_company [OF 1(5) [unfolded opening_stock_rows_def]] by simp
  moreover have "opening_party_row c (solo_document_id cmd) date l = Some t \<Longrightarrow> pt_company t = c" for l t
    by (auto simp: opening_party_row_def Let_def split: prod.splits option.splits)
  then have "\<forall>t \<in> set pts. pt_company t = c" unfolding 1(2) by (auto simp: set_map_filter)
  moreover have "\<forall>e \<in> set gl. gl_company e = c" unfolding 1(1) by (auto simp: opening_gl_def)
  ultimately show ?thesis
    unfolding 1(8) by (simp add: commit_typed_def rows_typed_def opening_commit_def document_typed_def doc_key_of_def Let_def)
qed

section \<open>The property\<close>

text \<open>C11. The posting tables are well typed and stay so: in every state a submit, a cancellation or a take-on leaves behind, with other
  clients that keep the types running in between, every ledger row is filed under its own company, every document under its own
  company, doctype and id with docstatus 1 or 2 and an object as payload, every bin under its own pair and every batch under its
  own id.\<close>

theorem commands_keep_types:
  assumes "store_typed s" "\<And>i t. store_typed t \<Longrightarrow> store_typed (interfere i t)"
  shows "store_typed (snd (submit_document x ev interfere fresh c cmd act s)) \<and>
    store_typed (snd (cancel_document x ev interfere c ccmd act s)) \<and>
    store_typed (snd (import_solo_opening x ev (interfere j) c ocmd act s))"
proof (intro conjI)
  note loop = commit_loop_keeps [where P = store_typed and Q = commit_typed, OF assms(2) _ _ assms(1)]
  show "store_typed (snd (submit_document x ev interfere fresh c cmd act s))"
    using assms(1) by (auto simp: submit_document_def Let_def built_submit_typed commit_keeps_types intro!: loop split: option.split sum.split)
  show "store_typed (snd (cancel_document x ev interfere c ccmd act s))"
    using assms(1) by (auto simp: cancel_document_def built_cancel_typed commit_keeps_types intro!: loop split: option.split)
  have "store_typed t"
    if "build_opening x ev s c ocmd sha key act = Inr k" "posting_commit x now k (interfere j s) = (r, t)" for sha key k now r t
    using commit_keeps_types [OF assms(2) [OF assms(1)] built_opening_typed [OF that(1)], of x now j] that(2) by simp
  then show "store_typed (snd (import_solo_opening x ev (interfere j) c ocmd act s))"
    using assms(1) by (auto simp: import_solo_opening_def Let_def split: option.split sum.split prod.split store_error.split)
qed

end
