(* ===== verification/Witnesses_Server.thy ===== *)
theory Witnesses_Server
  imports Witnesses_Api Server_Theorems Store_Types
begin

text \<open>
  Instances of the properties of the server: two companies, where a member of one registers a device, a stranger tries to revoke
  one, and an old client asks for the log.
\<close>

definition two_companies :: inner where
  "two_companies = sample_team\<lparr>
     devices := devices sample_team @ [(''dev9'', \<lparr>de_id = ''dev9'', de_company = ''rival'', de_user = ''u9'', de_name = ''desk'',
       de_token_hash = ''tok9'', de_created_at = 0, de_revoked_at = None, de_last_seen_at = None\<rparr>)],
     device_tokens := [''tok2'' \<mapsto> ''dev2'', ''tok9'' \<mapsto> ''dev9''],
     user_tokens := [''ann'' \<mapsto> (''u1'', ''co'', None), ''eve'' \<mapsto> (''u9'', ''rival'', None)],
     invitations := [(''i1'', \<lparr>in_id = ''i1'', in_token_hash = ''inv'', in_company = ''rival'', in_email = ''eve@rival'', in_role = Sales,
       in_created_by = ''u9'', in_accepted_by = None, in_created_at = 0, in_expires_at = 10\<rparr>)]\<rparr>"

definition sent :: "string \<Rightarrow> (string \<times> string) list \<Rightarrow> http_request" where
  "sent path headers = \<lparr>rq_path = path, rq_headers = headers, rq_peer = None, rq_length = 40, rq_fresh_id = ''r1''\<rparr>"

definition new_till :: web where
  "new_till = sample_web\<lparr>wb_id := ''dev3'', wb_token := ''tok3''\<rparr>"

text \<open>Ann of the company \<open>co\<close> registers a device: the rival company keeps its device, its invitation and its token.\<close>

theorem other_companies_untouched_witness:
  "let rq = sent ''/companies/co/devices'' [(''authorization'', ''Bearer ann'')];
       call = RegisterDevice ''co'' ''till'';
       after = snd (snd (serve new_till (\<lambda>_ s. s) 0 rq call (router_with default_config 0 two_companies)));
       ex = own_credential new_till rq call two_companies in
    tenant_of ex after ''rival'' = tenant_of ex two_companies ''rival'' \<and> map fst (tn_devices (tenant_of ex two_companies ''rival'')) = [''dev9'']
    \<and> fst (tn_tokens (tenant_of ex two_companies ''rival'')) ''eve'' = Some (''u9'', ''rival'', None)"
proof -
  define ex where "ex = own_credential new_till (sent ''/companies/co/devices'' [(''authorization'', ''Bearer ann'')])
    (RegisterDevice ''co'' ''till'') two_companies"
  have none: "fst ex = None" by (simp add: ex_def own_credential_def)
  have "company_of_call new_till two_companies (RegisterDevice ''co'' ''till'') \<noteq> Some ''rival''"
    by (simp add: company_of_call_simps)
  moreover have "fresh_for new_till (tenant_of ex two_companies ''rival'')"
    using none
    by (simp add: fresh_for_def unused_def unused_hash_def tenant_of_def two_companies_def new_till_def devices_view_def tokens_view_def
        device_tokens_view_def)
      (simp add: sample_team_def empty_store_def)
  moreover have "invitations_filed two_companies"
    by (simp add: invitations_filed_def two_companies_def)
  ultimately have "tenant_of ex (snd (snd (serve new_till (\<lambda>_ s. s) 0 (sent ''/companies/co/devices'' [(''authorization'', ''Bearer ann'')])
      (RegisterDevice ''co'' ''till'') (router_with default_config 0 two_companies)))) ''rival'' = tenant_of ex two_companies ''rival''"
    unfolding router_with_def Let_def by (intro other_companies_untouched) (simp_all add: ex_def)
  moreover have "map fst (tn_devices (tenant_of ex two_companies ''rival'')) = [''dev9'']"
    "fst (tn_tokens (tenant_of ex two_companies ''rival'')) ''eve'' = Some (''u9'', ''rival'', None)"
    using none by (simp_all add: tenant_of_def two_companies_def devices_view_def tokens_view_def)
  ultimately show ?thesis by (simp add: Let_def ex_def)
qed

theorem changes_need_entitlement_witness:
  "let rq = sent ''/companies/co/devices/dev2/revoke'' [(''authorization'', ''Bearer guess'')] in
    same_business two_companies (snd (snd (serve sample_web (\<lambda>_ s. s) 0 rq (RevokeDevice ''co'' ''dev2'') (router_with default_config 0 two_companies))))"
proof -
  have "\<not> entitled sample_web two_companies (sent ''/companies/co/devices/dev2/revoke'' [(''authorization'', ''Bearer guess'')])
      (RevokeDevice ''co'' ''dev2'')"
    by (simp add: entitled_def company_in_path_def company_route_def bearer_def sent_def header_str_def visible_ascii_def
        resolve_token_def two_companies_def)
  then show ?thesis unfolding router_with_def Let_def by (rule changes_need_entitlement)
qed

definition strict_web :: web where
  "strict_web = sample_web\<lparr>wb_vars := [''ATLAS_MIN_CLIENT_PROTOCOL'' \<mapsto> ''2'']\<rparr>"

theorem outdated_client_turned_away_witness:
  "\<exists>r line. serve strict_web (\<lambda>_ s. s) 0 (sent ''/companies/co/sync/pull'' [(''x-atlas-protocol'', ''1'')]) (SyncPull ''co'' None None)
      (router_with default_config 0 two_companies) = ((r, line), router_with default_config 0 two_companies) \<and> rs_status r = 426"
proof -
  let ?rq = "sent ''/companies/co/sync/pull'' [(''x-atlas-protocol'', ''1'')]"
  have "routed (SyncPull ''co'' None None) (rq_path ?rq)"
    by (simp add: routed_def sent_def company_route_def)
  moreover have "snd (route (SyncPull ''co'' None None)) = Word ''companies'' # [Param ''co'', Word ''sync'', Word ''pull'']"
    by (simp add: company_route_def)
  moreover have "min_client_protocol (wb_vars strict_web) = 2" "protocol_header ?rq = Some ''1''" "parse_u32 (trim ''1'') = Some 1"
    by (simp_all add: strict_web_def min_client_protocol_def parse_min_def PROTOCOL_def protocol_header_def sent_def visible_ascii_def
        trim_graphic graphic_def parse_u32_def is_digit_def read_nat_def digit_value_def)
  ultimately show ?thesis
    using outdated_client_turned_away [of "SyncPull ''co'' None None" ?rq "''companies''" "[Param ''co'', Word ''sync'', Word ''pull'']"
        strict_web "\<lambda>_ s. s" 0 "new_limiter default_config 0" two_companies]
    unfolding router_with_def by auto
qed

theorem log_hides_tokens_witness:
  "ll_path (snd (fst (serve sample_web (\<lambda>_ s. s) 0 (sent ''/portal/s3cret/gl.csv'' []) (PortalGlCsv ''s3cret'')
     (router_with default_config 0 two_companies)))) = ''/portal/<token>/gl.csv''"
  using log_hides_tokens [of "sent ''/portal/s3cret/gl.csv'' []" "''portal''" "''s3cret''" "''/gl.csv''"] by (simp add: sent_def)

theorem commands_keep_types_witness:
  "store_typed empty_store \<and> store_typed sample_state \<and>
   submit_document sample_ext sample_env (\<lambda>_ s. s) ''fresh'' ''co'' sample_deposit sample_actor empty_store = (Inr sample_outcome, sample_state)"
  using commands_keep_types [OF store_typed_empty, of "\<lambda>_ s. s" sample_ext sample_env "''fresh''" "''co''" sample_deposit sample_actor]
    sample_submit store_typed_empty by simp

end
