(* ===== verification/Spec2Isabelle.thy ===== *)
theory Spec2Isabelle
  imports Witnesses_Store Stock_Theorems Witnesses_Api Witnesses_Solo Witnesses_Links Witnesses_Pay Witnesses_Identity Witnesses_Server
begin

text \<open>
  Verification of the Neuradix Atlas team backend, the Rust server under \<^verbatim>\<open>src/src/\<close> that is the posting
  authority and the synchronisation hub of small companies.

  \<^bold>\<open>The program.\<close> Devices of a company push drafts and master data into a per-company mutation log and
  pull what others pushed (\<^verbatim>\<open>projection.rs\<close>, \<^verbatim>\<open>history.rs\<close>). The state is kept by a store, in memory
  (\<^verbatim>\<open>store/mem.rs\<close>) or in PostgreSQL (\<^verbatim>\<open>store/pg.rs\<close>). Official documents are made
  only by commands: the engine (\<^verbatim>\<open>posting/engine.rs\<close>) validates a voucher, derives its ledger, stock,
  subledger, tax and settlement rows, costs its stock movements (\<^verbatim>\<open>posting/stock.rs\<close>) and hands one
  \<open>PostingCommit\<close> to the store, which re-checks what may have changed since the reads, numbers the
  document and appends every row in one step; the rows are replicated to the devices as mutation
  records (\<^verbatim>\<open>posting/replication.rs\<close>). A stand-alone (Solo) book is taken on once by
  \<^verbatim>\<open>posting/solo_migration.rs\<close>. The HTTP handlers (\<^verbatim>\<open>api.rs\<close>) authenticate the caller (\<^verbatim>\<open>auth.rs\<close>),
  check membership, role and posting authority (\<^verbatim>\<open>authority.rs\<close>) and call the store or the engine,
  behind a version gate (\<^verbatim>\<open>protocol.rs\<close>) and a rate limiter (\<^verbatim>\<open>limit.rs\<close>). Customers and accountants read
  pages and exports through portal links and decide on quotations (\<^verbatim>\<open>portal.rs\<close>); customers pay through
  pay links, and the webhook of the payment provider posts the payment (\<^verbatim>\<open>pay.rs\<close>).

  \<^bold>\<open>Theories.\<close> The definitions follow the sources file by file and keep their names.
  \<^item> \<open>Prelude\<close>: results with an error branch, loops that stop at the first error, strings, decimal
    numbers, sorted maps; the collections \<open>eval_simps\<close> and \<open>result_simps\<close>.
  \<^item> \<open>F64\<close>: binary64 with correctly rounded arithmetic, infinities and NaN, for every \<open>f64\<close> of the code.
    \<open>Json\<close>: \<open>serde_json\<close> values and \<^verbatim>\<open>posting/values.rs\<close>.
  \<^item> \<open>Domain\<close>, \<open>Posting_Model\<close>: \<^verbatim>\<open>model.rs\<close> and \<^verbatim>\<open>posting/model.rs\<close>, and the reasons an error can carry.
  \<^item> \<open>Projection\<close>, \<open>Replication\<close>, \<open>History\<close>: the files of those names. \<open>Stock_Costing\<close>: \<^verbatim>\<open>posting/stock.rs\<close>.
  \<^item> \<open>Mem_Store\<close>, \<open>Mem_Log\<close>, \<open>Mem_Commit\<close>, \<open>Mem_Identity\<close>: every method of \<^verbatim>\<open>store/mem.rs\<close> over the
    record \<open>inner\<close>, the struct under the store's mutex; \<open>Mem_Commit\<close> is \<open>posting_commit\<close>.
  \<^item> \<open>Engine_Base\<close>, \<open>Engine_Derive\<close>, \<open>Engine_Stock\<close>, \<open>Engine_Command\<close>: \<^verbatim>\<open>posting/engine.rs\<close>, ending in
    \<open>submit_document\<close> and \<open>cancel_document\<close>. \<open>Solo_Migration\<close>: the take-on command.
  \<^item> \<open>Authority\<close>, \<open>Api_Base\<close> (\<^verbatim>\<open>error.rs\<close>, the configuration of \<^verbatim>\<open>lib.rs\<close>, \<^verbatim>\<open>auth.rs\<close>), \<open>Api_Identity\<close>,
    \<open>Api_Sync\<close>, \<open>Api_Posting\<close> (the handlers of \<^verbatim>\<open>api.rs\<close>), \<open>Limit\<close>, \<open>Protocol\<close>.
  \<^item> \<open>Server\<close>: the routes, the extractors and the middleware of \<^verbatim>\<open>api.rs\<close>, the responses of \<^verbatim>\<open>error.rs\<close> and the start of the
    process (\<^verbatim>\<open>main.rs\<close>, \<^verbatim>\<open>lib.rs\<close>); \<open>serve\<close> is one request through all of it, on the rate limiter and the store. \<open>Tenancy\<close>: what the
    store keeps for one company, and what each store operation leaves of it.
  \<^item> \<open>Rendering\<close>: the HTML, CSV and number texts of the pages. \<open>Portal\<close>, \<open>Pay\<close>: the handlers of \<^verbatim>\<open>portal.rs\<close>
    and \<^verbatim>\<open>pay.rs\<close>. \<open>Markup\<close>: which texts are well-formed HTML over the elements of the templates.
  \<^item> \<open>Pg_Tables\<close>: the tables of \<^verbatim>\<open>src/migrations\<close> with their constraints, the SQL statements the code uses and
    programs over them; \<open>Pg_Log\<close>, \<open>Pg_Store\<close>, \<open>Pg_Commit\<close>: every method of \<^verbatim>\<open>store/pg.rs\<close>, statement by statement.
    \<open>Pg_Relation\<close>: which tables and which state of the memory store are the same books of a company,
    \<open>Pg_Identity\<close>: which are the same companies, people, credentials, blobs and records, and the calls on them.
  \<^item> \<open>Store_Run\<close>, \<open>Posting_System\<close>, \<open>Identity\<close>: three state machines over these operations: single store
    calls; submits, cancels and take-ons that build and commit at different times, interleaved with anything else; and
    requests to the identity handlers.
  \<^item> \<open>Dates\<close>, \<open>Engine_Cache\<close>, \<open>Engine_Facts\<close>: lemmas shared by the theorems. \<open>Engine_Theorems\<close>,
    \<open>Store_Theorems\<close>, \<open>Stock_Theorems\<close>, \<open>Identity_Theorems\<close>, \<open>Api_Theorems\<close>, \<open>Solo_Theorems\<close>, \<open>Limit\<close>,
    \<open>Engine_Progress\<close>, \<open>Store_Types\<close>, \<open>Tenancy_Theorems\<close>, \<open>Server_Theorems\<close>, \<open>Portal_Theorems\<close>, \<open>Pay_Theorems\<close>, \<open>Pg_Log_Refines\<close>, \<open>Pg_Commit_Refines\<close>, \<open>Pg_Commit_Admits\<close>,
    \<open>Pg_Identity_Refines\<close>: the properties, with
    \<open>Rendering_Facts\<close>, \<open>Pg_Log_Theorems\<close> and \<open>Pg_Commit_Theorems\<close> holding their lemmas. \<open>Sample\<close>, \<open>Sample_Stock\<close>, \<open>Sample_Cancel\<close>, \<open>Witnesses\<close>,
    \<open>Witnesses_Store\<close>, \<open>Witnesses_Api\<close>, \<open>Witnesses_Solo\<close>, \<open>Witnesses_Links\<close>, \<open>Witnesses_Pay\<close>, \<open>Witnesses_Pg\<close>, \<open>Witnesses_Identity\<close>, \<open>Witnesses_Server\<close>: their instances, on data
    the model is evaluated on.

  \<^bold>\<open>Interfaces.\<close> \<open>keyed_log\<close> (\<open>Mem_Log\<close>) is an append-only log with one entry per key; the company log is
  an interpretation, and exactly-once push rests on it. \<open>unit_queue\<close> (\<open>Stock_Costing\<close>) is the queue of unit
  costs that the FIFO layers implement. \<open>run_relation\<close> (\<open>Store_Run\<close>) carries a relation kept by every step
  over runs; it is interpreted for the growth of the ledgers and of the series, the persistence of documents, the take-on
  mark, the credentials and the settled payment events. \<open>answers_alike\<close> (\<open>Pg_Log_Refines\<close>) is a pair of stores
  that answer every call alike and stay related; its interpretations are the two stores
  on the log (\<open>log_calls\<close>) and on identities (\<open>identity_calls\<close>).

  \<^bold>\<open>What is shown.\<close> What a submit or a cancel has written is stated against the state its
  deciding attempt met (\<open>deciding_attempt\<close>, the attempt of the retry loop that was not stale). Posting: official numbers are unique and
  consecutive (those of POS Invoice apart), bins are the balances of their ledgers (in companies without a take-on), posted vouchers
  balance, a cancellation mirrors every row of its voucher and nets it to zero, errors leave no trace,
  retries replay, the books lock, the deposit and the stock level hold at the commit although they
  were checked before it, in every interleaving; the posting tables stay well typed, and a command whose
  store is left alone in one of its attempts ends in a decision. Stock: FIFO costing is the queue of unit costs. Log:
  push is exactly-once, pull is complete, the read model is a function of the log, equal checkpoints
  mean equal histories, lost numbers are not reissued. Take-on: once, reconciled to the cent. Access:
  a company keeps an owner, a removed member is locked out, a device cannot publish official rows or
  touch posted ones, reopening a period needs an owner or admin, a client's burst is bounded. Server: no request
  changes a company other than the one it is about, save the credential of its caller (the stamp of the device, the user token that is
  rotated), nor anything without a token, an invitation, a link or a
  signature that entitles it; an outdated client is turned away first, and tokens in paths are not logged. Links: a
  payment event pays once and a forged one nothing, a customer link shows only that customer's documents, a
  decision is taken once, no data becomes markup, the ledger export loses nothing. PostgreSQL: the log
  operations answer as the memory store's, also behind an older server, so do the calls on companies,
  people, credentials, blobs and records that meet the constraints of the schema, and the posting transaction
  refines the memory store's commit: the same answer and the same books, or an internal error and no change,
  which needs a constraint of the schema to fail (\<open>pg_commit_admitted\<close>). What is proved of the memory
  store's books holds for those of PostgreSQL through that relation. Some
  theorems state a gap of the code as it is: payments are not re-checked at the commit
  (\<open>commit_ignores_settlements\<close>), a lost-history floor can overflow (\<open>lost_floor_overflows\<close>), a docstatus
  can wrap past the authority check (\<open>docstatus_wraps_past_guard\<close>), two owners can leave at once
  (\<open>last_owner_race\<close>), a till receipt named like the next number of a series blocks the series
  (\<open>taken_number_blocks_commit\<close>).

  \<^bold>\<open>Modelling decisions.\<close>
  \<^item> Third-party code is a field of the record \<open>ext\<close> (JSON text, the calendar, SHA-256, hex) or of \<open>web\<close>
    (time formatting, fresh ids and tokens, environment variables); theorems hold for every value of
    these, except where a hypothesis names what is used (no SHA-256 collision, for instance).
  \<^item> Error messages are constructors of \<open>reason\<close>, \<open>api_reason\<close> and their parts, one per message of the code,
    carrying what the message prints.
  \<^item> One instant serves a whole request (\<open>wb_now\<close>, \<open>ev_now\<close>), and a build reads one snapshot of the store.
    What others do between the build and the commit is a function \<open>interfere\<close> or a step of a machine. An
    HTTP handler is otherwise an uninterrupted sequence of store calls; an error keeps the writes made
    before it. The member handlers are split into guard and effect where the race matters.
  \<^item> Machine integers: counters are 64-bit and wrap (\<open>i64_succ\<close>), as in a release build; \<open>docstatus\<close> is
    truncated to sixteen bits as the code casts it. The two signed zeros of binary64 are one value.
  \<^item> Hash maps whose iteration order can be seen are association lists in insertion order. A non-finite
    number becomes null in JSON. Writing a field of a JSON value that is not an object leaves it
    unchanged where the code would panic; every response the engine builds is an object. Lower-casing
    of blob digests is ASCII.
  \<^item> Texts of the pages are UTF-8 bytes. A number prints as the shortest decimal that reads back as it.
    HMAC and hexadecimal decoding are fields of \<open>web\<close>; a time out of the range of the calendar library, where the
    code panics, is an error of its own.
  \<^item> PostgreSQL: a table is its rows in insertion order, which is also the order of a query without
    \<open>order by\<close>; text is ordered by bytes and holds no NUL character; a \<open>jsonb\<close> column returns what was written. The
    text of a JSON member (\<open>->>\<close>) and of a number (\<open>to_jsonb\<close>) are parameters (\<open>pgsql\<close>). A method is one step:
    the advisory lock of the company, or its counter row, is held from the first read to the commit. A
    failed constraint is an internal error, and rolls back all but the identity of the stock rows.
  \<^item> The web framework matches a path against the routes and decodes path, query and body, so a request carries the
    call it was decoded to (\<open>api_call\<close>) beside its path and headers; \<open>routed\<close> says which paths lead to a call. A \<open>HEAD\<close> request that
    runs the handler of a \<open>GET\<close> route is that call. Header values are bytes; the message of an error response is the error itself.
  \<^item> No loop needs fuel: retries count down from \<open>MAX_RETRIES\<close>, every other loop runs over a list.

  \<^bold>\<open>Not modelled.\<close> Binding the socket, the logger and the latency it prints, the connection pool and the migration
  runner are glue over libraries. The
  bins of a company that took on a Solo book carry the stated opening value and are outside the balance invariant. Listings whose rows share an
  instant are the one read of the identity tables on which the two stores differ: PostgreSQL orders such rows by their id.
\<close>

end
